(* ===== verification/Prelude.thy ===== *)
theory Prelude
  imports Main "HOL-Library.AList" "HOL-Library.List_Lexorder" "HOL-Library.Char_ord" "HOL-Library.Multiset"
begin

text \<open>
  What every component of the checkpoint compiler shares: the exceptions as values, the
  result type with its sequencing and loops, Python dictionaries as insertion-ordered
  association lists, and the lemma collections the component theories draw on.

  A Python function that may raise becomes a function into \<open>'a res\<close>: \<open>Inl e\<close> is the
  raised exception, \<open>Inr v\<close> the returned value. An exception carries the fixed words of its
  message; the values the code interpolates into the message are left out.

  Strings are lists of \<open>char\<close>, the UTF-8 bytes of the Python string. UTF-8 keeps the
  code-point order, so comparisons, prefixes and suffixes agree with Python's.
\<close>

section \<open>Exceptions\<close>

text \<open>
  The classes of \<open>tools/gem16_compile/common.py\<close> and the built-in exceptions that the
  modelled code raises or catches.
\<close>

datatype error =
    CompilerError string
  | InvalidPlanError string
  | SourceVerificationError string
  | DataError string
  | OutputError string
  | ReproducibilityError string
  | ValueError string
  | KeyError string
  | IndexError string
  | AssertionError string
  | OverflowError string
  | TypeError string
  | ZeroDivisionError string
  | OSError string

text \<open>The exit code the command-line driver reports for a compiler error.\<close>

fun exit_code :: "error \<Rightarrow> nat option" where
  "exit_code (CompilerError _) = Some 4"
| "exit_code (InvalidPlanError _) = Some 2"
| "exit_code (SourceVerificationError _) = Some 3"
| "exit_code (DataError _) = Some 4"
| "exit_code (OutputError _) = Some 5"
| "exit_code (ReproducibilityError _) = Some 6"
| "exit_code _ = None"

definition is_compiler_error :: "error \<Rightarrow> bool" where
  "is_compiler_error e \<longleftrightarrow> exit_code e \<noteq> None"

type_synonym 'a res = "error + 'a"

section \<open>Sequencing and loops\<close>

definition rbind :: "'a res \<Rightarrow> ('a \<Rightarrow> 'b res) \<Rightarrow> 'b res" where
  "rbind m f = (case m of Inl e \<Rightarrow> Inl e | Inr x \<Rightarrow> f x)"

lemma rbind_simps [simp]:
  "rbind (Inl e) f = Inl e"
  "rbind (Inr x) f = f x"
  by (simp_all add: rbind_def)

lemma rbind_Inr_iff [simp]: "rbind m f = Inr y \<longleftrightarrow> (\<exists>x. m = Inr x \<and> f x = Inr y)"
  by (cases m) auto

lemma rbind_cong [fundef_cong]:
  "m = m' \<Longrightarrow> (\<And>x. m' = Inr x \<Longrightarrow> f x = f' x) \<Longrightarrow> rbind m f = rbind m' f'"
  by (cases m') auto

lemma if_Inl_Inr_iff [simp]:
  "((if b then Inl e else m) = Inr y) \<longleftrightarrow> \<not> b \<and> m = Inr y"
  "((if b then m else Inl e) = Inr y) \<longleftrightarrow> b \<and> m = Inr y"
  by auto

text \<open>\<open>if cond: raise e\<close>, then the rest.\<close>

definition fail_if :: "bool \<Rightarrow> error \<Rightarrow> 'a res \<Rightarrow> 'a res" where
  "fail_if b e m = (if b then Inl e else m)"

lemma fail_if_simps [simp]: "fail_if True e m = Inl e" "fail_if False e m = m"
  by (simp_all add: fail_if_def)

lemma fail_if_Inr_iff [simp]: "fail_if b e m = Inr y \<longleftrightarrow> \<not> b \<and> m = Inr y"
  by (simp add: fail_if_def)

lemma fail_if_cong [cong, fundef_cong]:
  "b = b' \<Longrightarrow> e = e' \<Longrightarrow> (\<not> b' \<Longrightarrow> m = m') \<Longrightarrow> fail_if b e m = fail_if b' e' m'"
  by (simp add: fail_if_def)

text \<open>\<open>try: m except E as error: raise e from error\<close>\<close>

definition reraise :: "(error \<Rightarrow> bool) \<Rightarrow> error \<Rightarrow> 'a res \<Rightarrow> 'a res" where
  "reraise caught e m = (case m of Inl x \<Rightarrow> Inl (if caught x then e else x) | Inr y \<Rightarrow> Inr y)"

lemma reraise_Inr_iff [simp]: "reraise c e m = Inr y \<longleftrightarrow> m = Inr y"
  by (auto simp: reraise_def split: sum.splits)

lemma reraise_Inr [simp]: "reraise c e (Inr y) = Inr y"
  by simp

fun is_value_error :: "error \<Rightarrow> bool" where
  "is_value_error (ValueError _) = True"
| "is_value_error _ = False"

fun is_lookup_or_value_error :: "error \<Rightarrow> bool" where
  "is_lookup_or_value_error (KeyError _) = True"
| "is_lookup_or_value_error e = is_value_error e"

fun is_invalid_plan :: "error \<Rightarrow> bool" where
  "is_invalid_plan (InvalidPlanError _) = True"
| "is_invalid_plan _ = False"

text \<open>A loop that carries a state and may raise.\<close>

primrec rfold :: "('s \<Rightarrow> 'a \<Rightarrow> 's res) \<Rightarrow> 's \<Rightarrow> 'a list \<Rightarrow> 's res" where
  "rfold f s [] = Inr s"
| "rfold f s (x # xs) = rbind (f s x) (\<lambda>s'. rfold f s' xs)"

text \<open>A comprehension whose element expression may raise.\<close>

primrec rmap :: "('a \<Rightarrow> 'b res) \<Rightarrow> 'a list \<Rightarrow> 'b list res" where
  "rmap f [] = Inr []"
| "rmap f (x # xs) = rbind (f x) (\<lambda>y. rbind (rmap f xs) (\<lambda>ys. Inr (y # ys)))"

text \<open>A loop whose body only checks.\<close>

primrec riter :: "('a \<Rightarrow> unit res) \<Rightarrow> 'a list \<Rightarrow> unit res" where
  "riter f [] = Inr ()"
| "riter f (x # xs) = rbind (f x) (\<lambda>_. riter f xs)"

lemma rmap_cong [fundef_cong]:
  "xs = ys \<Longrightarrow> (\<And>x. x \<in> set ys \<Longrightarrow> f x = g x) \<Longrightarrow> rmap f xs = rmap g ys"
  by (induction xs arbitrary: ys) (auto intro!: rbind_cong)

lemma riter_Inr_iff [simp]: "riter f xs = Inr u \<longleftrightarrow> (\<forall>x\<in>set xs. f x = Inr ())"
  by (induction xs) auto

lemma rmap_Inr_iff: "rmap f xs = Inr ys \<longleftrightarrow> list_all2 (\<lambda>x y. f x = Inr y) xs ys"
  by (induction xs arbitrary: ys) (auto simp: list_all2_Cons1)

lemma rmap_length: "rmap f xs = Inr ys \<Longrightarrow> length ys = length xs"
  by (auto simp: rmap_Inr_iff dest: list_all2_lengthD)

lemma rmap_nth: "rmap f xs = Inr ys \<Longrightarrow> i < length xs \<Longrightarrow> f (xs ! i) = Inr (ys ! i)"
  by (auto simp: rmap_Inr_iff list_all2_conv_all_nth)

lemma rmap_pure: "(\<And>x. x \<in> set xs \<Longrightarrow> f x = Inr (g x)) \<Longrightarrow> rmap f xs = Inr (map g xs)"
  by (induction xs) auto

lemma rfold_append [simp]:
  "rfold f s (xs @ ys) = rbind (rfold f s xs) (\<lambda>s'. rfold f s' ys)"
  by (induction xs arbitrary: s) (auto simp: rbind_def split: sum.splits)

lemma rfold_map: "rfold f s (map h xs) = rfold (\<lambda>s x. f s (h x)) s xs"
  by (induction xs arbitrary: s) auto

text \<open>The invariant rule for \<open>rfold\<close>: an invariant over the elements consumed so far.\<close>

lemma rfold_invariant:
  assumes "rfold f s xs = Inr t" and "I [] s"
    and "\<And>ys y zs s s'. xs = ys @ y # zs \<Longrightarrow> I ys s \<Longrightarrow> f s y = Inr s' \<Longrightarrow> I (ys @ [y]) s'"
  shows "I xs t"
proof -
  have run: "\<lbrakk>rfold f s zs = Inr t; I ys s; xs = ys @ zs\<rbrakk> \<Longrightarrow> I xs t" for ys zs s
  proof (induction zs arbitrary: ys s)
    case Nil
    then show ?case by simp
  next
    case (Cons z zs)
    from Cons.prems(1) obtain s' where s': "f s z = Inr s'" "rfold f s' zs = Inr t" by auto
    with Cons.prems assms(3) have "I (ys @ [z]) s'" by blast
    with Cons.IH [OF s'(2)] Cons.prems(3) show ?case by simp
  qed
  show ?thesis using run [of s xs "[]"] assms(1,2) by simp
qed

text \<open>
  Code that also changes objects: the state is returned with the result, and an exception keeps
  the changes made before it.
\<close>

type_synonym ('s, 'a) prog = "'s \<Rightarrow> 'a res \<times> 's"

definition sbind :: "'a res \<times> 's \<Rightarrow> ('a \<Rightarrow> 's \<Rightarrow> 'b res \<times> 't) \<Rightarrow> ('s \<Rightarrow> 't) \<Rightarrow> 'b res \<times> 't" where
  "sbind m f g = (case m of (Inl e, s) \<Rightarrow> (Inl e, g s) | (Inr x, s) \<Rightarrow> f x s)"

abbreviation then_do :: "'a res \<times> 's \<Rightarrow> ('a \<Rightarrow> 's \<Rightarrow> 'b res \<times> 's) \<Rightarrow> 'b res \<times> 's" where
  "then_do m f \<equiv> sbind m f id"

lemma sbind_simps [simp]:
  "sbind (Inl e, s) f g = (Inl e, g s)"
  "sbind (Inr x, s) f g = f x s"
  by (simp_all add: sbind_def)

lemma sbind_Inr_iff [simp]:
  "sbind m f g = (Inr y, t) \<longleftrightarrow> (\<exists>x s. m = (Inr x, s) \<and> f x s = (Inr y, t))"
  by (auto simp: sbind_def split: prod.splits sum.splits)

primrec prog_fold :: "('a \<Rightarrow> 'x \<Rightarrow> ('s, 'a) prog) \<Rightarrow> 'a \<Rightarrow> 'x list \<Rightarrow> ('s, 'a) prog" where
  "prog_fold f acc [] s = (Inr acc, s)"
| "prog_fold f acc (x # xs) s = then_do (f acc x s) (\<lambda>acc' s'. prog_fold f acc' xs s')"

lemma prog_fold_invariant:
  assumes "prog_fold f acc xs s = (Inr r, t)" "I [] acc s"
    and "\<And>ys y zs a a' s s'. xs = ys @ y # zs \<Longrightarrow> I ys a s \<Longrightarrow> f a y s = (Inr a', s') \<Longrightarrow> I (ys @ [y]) a' s'"
  shows "I xs r t"
proof -
  have run: "\<lbrakk>prog_fold f a zs s = (Inr r, t); I ys a s; xs = ys @ zs\<rbrakk> \<Longrightarrow> I xs r t" for ys zs a s
  proof (induction zs arbitrary: ys a s)
    case Nil
    then show ?case by simp
  next
    case (Cons z zs)
    from Cons.prems(1) obtain a' s' where s': "f a z s = (Inr a', s')" "prog_fold f a' zs s' = (Inr r, t)"
      by auto
    with Cons.prems assms(3) have "I (ys @ [z]) a' s'" by blast
    with Cons.IH [OF s'(2)] Cons.prems(3) show ?case by simp
  qed
  show ?thesis using run [of acc xs s "[]"] assms(1,2) by simp
qed

lemma prog_fold_rule:
  assumes "prog_fold f acc xs s = (r, t)" "I 0 acc s"
    and step: "\<And>n acc s r s'. n < length xs \<Longrightarrow> I n acc s \<Longrightarrow> f acc (xs ! n) s = (r, s') \<Longrightarrow>
      case r of Inl e \<Rightarrow> E s' | Inr acc' \<Rightarrow> I (Suc n) acc' s'"
  shows "case r of Inl e \<Rightarrow> E t | Inr acc' \<Rightarrow> I (length xs) acc' t"
proof -
  have run: "\<lbrakk>prog_fold f acc ys s = (r, t); I n acc s; ys = drop n xs; n \<le> length xs\<rbrakk> \<Longrightarrow>
    case r of Inl e \<Rightarrow> E t | Inr acc' \<Rightarrow> I (length xs) acc' t" for ys acc s n
  proof (induction ys arbitrary: acc s n)
    case Nil
    then show ?case by auto
  next
    case (Cons y ys)
    have n: "n < length xs" using Cons.prems(3) by (metis drop_eq_Nil leI list.distinct(1))
    then have y: "n < length xs" "y = xs ! n" "ys = drop (Suc n) xs"
      using Cons.prems(3) by (simp_all add: Cons_nth_drop_Suc [symmetric])
    obtain q s' where q: "f acc y s = (q, s')" by fastforce
    note post = step [OF y(1) Cons.prems(2) q [unfolded y(2)]]
    show ?case
    proof (cases q)
      case (Inl e)
      with Cons.prems(1) q have "r = Inl e" "t = s'" by simp_all
      with Inl post show ?thesis by simp
    next
      case (Inr acc')
      then show ?thesis using Cons.prems(1) q post Cons.IH [of acc' s' "Suc n"] y by (cases r) simp_all
    qed
  qed
  from run [of acc xs s 0] assms(1,2) show ?thesis by simp
qed

text \<open>
  Code whose loops run on fuel: \<open>None\<close> is a run that has not ended. Every call site shows that
  the fuel it passes is enough.
\<close>

type_synonym ('s, 'a) run = "'s \<Rightarrow> ('a res \<times> 's) option"

definition run_bind :: "('a res \<times> 's) option \<Rightarrow> ('a \<Rightarrow> 's \<Rightarrow> ('b res \<times> 's) option) \<Rightarrow> ('b res \<times> 's) option" where
  "run_bind m f = (case m of
     None \<Rightarrow> None
   | Some (Inl e, s) \<Rightarrow> Some (Inl e, s)
   | Some (Inr x, s) \<Rightarrow> f x s)"

primrec run_fold :: "('a \<Rightarrow> 'x \<Rightarrow> ('s, 'a) run) \<Rightarrow> 'a \<Rightarrow> 'x list \<Rightarrow> ('s, 'a) run" where
  "run_fold f acc [] s = Some (Inr acc, s)"
| "run_fold f acc (x # xs) s = run_bind (f acc x s) (\<lambda>acc' s'. run_fold f acc' xs s')"

text \<open>\<open>run_only r s\<close>: a computation that does not change the state.\<close>

abbreviation run_only :: "'a res \<Rightarrow> ('s, 'a) run" where
  "run_only r s \<equiv> Some (r, s)"

lemma run_bind_simps [simp]:
  "run_bind None f = None"
  "run_bind (Some (Inl e, s)) f = Some (Inl e, s)"
  "run_bind (Some (Inr x, s)) f = f x s"
  by (simp_all add: run_bind_def)

lemma run_bind_Inr_iff [simp]:
  "run_bind m f = Some (Inr y, t) \<longleftrightarrow> (\<exists>x s. m = Some (Inr x, s) \<and> f x s = Some (Inr y, t))"
  by (auto simp: run_bind_def split: option.splits prod.splits sum.splits)

text \<open>A run ends when its parts do; \<open>P\<close> is what the first part guarantees to the second.\<close>

definition ends :: "('a res \<times> 's) option \<Rightarrow> ('a \<Rightarrow> 's \<Rightarrow> bool) \<Rightarrow> bool" where
  "ends m P \<longleftrightarrow> (\<exists>r s. m = Some (r, s) \<and> (\<forall>x. r = Inr x \<longrightarrow> P x s))"

lemma ends_mono: "ends m P \<Longrightarrow> (\<And>x s. P x s \<Longrightarrow> Q x s) \<Longrightarrow> ends m Q"
  by (fastforce simp: ends_def)

lemma ends_only [simp]: "ends (Some (r, s)) P \<longleftrightarrow> (\<forall>x. r = Inr x \<longrightarrow> P x s)"
  by (simp add: ends_def)

lemma ends_bind: "ends m P \<Longrightarrow> (\<And>x s. P x s \<Longrightarrow> ends (f x s) Q) \<Longrightarrow> ends (run_bind m f) Q"
  by (fastforce simp: ends_def run_bind_def split: sum.splits)

lemma ends_fold:
  assumes "I acc s" "\<And>acc x s. x \<in> set xs \<Longrightarrow> I acc s \<Longrightarrow> ends (f acc x s) I"
  shows "ends (run_fold f acc xs s) I"
  using assms
proof (induction xs arbitrary: acc s)
  case (Cons x xs)
  have "ends (f acc x s) I" using Cons.prems by simp
  then have "ends (f acc x s) (\<lambda>acc' s'. ends (run_fold f acc' xs s') I)"
    using Cons by (elim ends_mono) simp
  then show ?case by (simp add: ends_bind)
qed simp

lemma ends_fold_prefix:
  assumes "I [] acc s"
    and "\<And>ys x zs acc s. xs = ys @ x # zs \<Longrightarrow> I ys acc s \<Longrightarrow> ends (f acc x s) (I (ys @ [x]))"
  shows "ends (run_fold f acc xs s) (I xs)"
proof -
  have "xs = ys @ zs \<Longrightarrow> I ys acc s \<Longrightarrow> ends (run_fold f acc zs s) (I xs)" for ys zs acc s
  proof (induction zs arbitrary: ys acc s)
    case (Cons z zs)
    show ?case
      unfolding run_fold.simps
      by (rule ends_bind [OF assms(2) [OF Cons.prems]], rule Cons.IH [of "ys @ [z]"]) (simp_all add: Cons.prems(1))
  qed simp
  from this [of "[]" xs] assms(1) show ?thesis by simp
qed

lemma ends_Some: "ends m P \<Longrightarrow> \<exists>r s. m = Some (r, s)"
  by (auto simp: ends_def)

lemma ends_Inr: "ends m P \<Longrightarrow> m = Some (Inr x, s) \<Longrightarrow> P x s"
  by (auto simp: ends_def)

text \<open>The invariant rule for \<open>run_fold\<close>, over the elements consumed so far.\<close>

lemma run_fold_invariant:
  assumes "run_fold f acc xs s = Some (Inr r, t)" "I [] acc s"
    and "\<And>ys y zs a a' s s'. xs = ys @ y # zs \<Longrightarrow> I ys a s \<Longrightarrow> f a y s = Some (Inr a', s') \<Longrightarrow> I (ys @ [y]) a' s'"
  shows "I xs r t"
proof -
  have run: "\<lbrakk>run_fold f a zs s = Some (Inr r, t); I ys a s; xs = ys @ zs\<rbrakk> \<Longrightarrow> I xs r t" for ys zs a s
  proof (induction zs arbitrary: ys a s)
    case Nil
    then show ?case by simp
  next
    case (Cons z zs)
    from Cons.prems(1) obtain a' s' where s': "f a z s = Some (Inr a', s')"
      "run_fold f a' zs s' = Some (Inr r, t)" by auto
    with Cons.prems assms(3) have "I (ys @ [z]) a' s'" by blast
    with Cons.IH [OF s'(2)] Cons.prems(3) show ?case by simp
  qed
  show ?thesis using run [of acc xs s "[]"] assms(1,2) by simp
qed

section \<open>Dictionaries\<close>

text \<open>
  A Python dictionary keeps its keys in insertion order, and storing under a present key
  keeps the key's place: exactly \<open>AList.update\<close>.
\<close>

type_synonym 'v dict = "(string \<times> 'v) list"

abbreviation dict_get :: "'v dict \<Rightarrow> string \<Rightarrow> 'v option" where
  "dict_get d k \<equiv> map_of d k"

abbreviation dict_set :: "string \<Rightarrow> 'v \<Rightarrow> 'v dict \<Rightarrow> 'v dict" where
  "dict_set k v d \<equiv> AList.update k v d"

definition dict_keys :: "'v dict \<Rightarrow> string set" where
  "dict_keys d = fst ` set d"

definition dict_wf :: "'v dict \<Rightarrow> bool" where
  "dict_wf d \<longleftrightarrow> distinct (map fst d)"

text \<open>\<open>d[k]\<close>, which raises \<open>KeyError\<close> on a missing key.\<close>

definition dict_index :: "'v dict \<Rightarrow> string \<Rightarrow> 'v res" where
  "dict_index d k = (case dict_get d k of None \<Rightarrow> Inl (KeyError k) | Some v \<Rightarrow> Inr v)"

text \<open>\<open>d.setdefault(k, []).append(x)\<close>\<close>

definition dict_append :: "string \<Rightarrow> 'a \<Rightarrow> 'a list dict \<Rightarrow> 'a list dict" where
  "dict_append k x d = dict_set k ((case dict_get d k of None \<Rightarrow> [] | Some xs \<Rightarrow> xs) @ [x]) d"

text \<open>\<open>dict(sorted(d.items()))\<close>: keys are distinct, so the order is by key alone.\<close>

definition dict_sorted :: "'v dict \<Rightarrow> 'v dict" where
  "dict_sorted d = sort_key fst d"

named_theorems dict_simps

lemma dict_keys_code [code, dict_simps]: "dict_keys d = set (map fst d)"
  by (simp add: dict_keys_def)

lemma dict_index_Inr [simp]: "dict_index d k = Inr v \<longleftrightarrow> dict_get d k = Some v"
  by (auto simp: dict_index_def split: option.splits)

lemma dict_get_None_iff [dict_simps]: "dict_get d k = None \<longleftrightarrow> k \<notin> dict_keys d"
  by (simp add: dict_keys_def map_of_eq_None_iff)

lemma dict_get_keys: "dict_get d k = Some v \<Longrightarrow> k \<in> dict_keys d"
  by (metis dict_get_None_iff option.distinct(1))

lemma dict_keys_get: "k \<in> dict_keys d \<Longrightarrow> \<exists>v. dict_get d k = Some v"
  using dict_get_None_iff [of d k] by (cases "dict_get d k") auto

lemma dict_keys_set [dict_simps, simp]: "dict_keys (dict_set k v d) = insert k (dict_keys d)"
  by (induction d) (auto simp: dict_keys_def)

lemma dict_get_set [dict_simps, simp]:
  "dict_get (dict_set k v d) j = (if j = k then Some v else dict_get d j)"
  by (simp add: update_conv)

lemma dict_wf_set [simp]: "dict_wf d \<Longrightarrow> dict_wf (dict_set k v d)"
  by (simp add: dict_wf_def distinct_update)

lemma dict_set_fresh: "k \<notin> dict_keys d \<Longrightarrow> dict_set k v d = d @ [(k, v)]"
  by (induction d) (auto simp: dict_keys_def)

lemma dict_wf_sorted [simp]: "dict_wf (dict_sorted d) \<longleftrightarrow> dict_wf d"
proof -
  have "mset (map fst (sort_key fst d)) = mset (map fst d)" by (metis mset_map mset_sort)
  then show ?thesis unfolding dict_wf_def dict_sorted_def by (rule mset_eq_imp_distinct_iff)
qed

lemma dict_keys_sorted [simp]: "dict_keys (dict_sorted d) = dict_keys d"
  by (simp add: dict_keys_def dict_sorted_def)

lemma dict_get_sorted [simp]: "dict_wf d \<Longrightarrow> dict_get (dict_sorted d) k = dict_get d k"
  unfolding dict_sorted_def
  by (metis dict_wf_def dict_wf_sorted dict_sorted_def map_of_inject_set set_sort)

section \<open>Lists\<close>

lemma sum_list_map_eq_filter_split:
  "sum_list (map f xs) = sum_list (map f (filter P xs)) + sum_list (map f (filter (\<lambda>x. \<not> P x) xs))"
  for f :: "'a \<Rightarrow> int"
  by (induction xs) auto

lemma div_less_iff_int: "0 < v \<Longrightarrow> a div v < r \<longleftrightarrow> a < r * v" for a v r :: int
proof
  assume v: "0 < v" and "a div v < r"
  then have "(a div v + 1) * v \<le> r * v" by (intro mult_right_mono) auto
  moreover have "a < (a div v + 1) * v"
    using div_mult_mod_eq [of a v] pos_mod_bound [OF v, of a] unfolding distrib_right by linarith
  ultimately show "a < r * v" by simp
next
  assume v: "0 < v" and a: "a < r * v"
  have "a div v * v \<le> a" using v div_mult_mod_eq [of a v] pos_mod_sign [OF v, of a] by linarith
  with a have "a div v * v < r * v" by simp
  with v show "a div v < r" by simp
qed

lemma sorted_le_last: "sorted xs \<Longrightarrow> x \<in> set xs \<Longrightarrow> x \<le> last xs"
  by (cases xs rule: rev_cases) (auto simp: sorted_append)

lemma count_list_filter: "length (filter (\<lambda>x. x = a) xs) = count_list xs a"
  by (induction xs) auto

section \<open>Codecs\<close>

text \<open>
  A pair of routines that store a value and read it back, each defined on its own domain. The
  tile packer, the E4M3FN codes and the shard headers are interpretations.
\<close>

locale codec =
  fixes enc :: "'a \<Rightarrow> 'b res"
    and dec :: "'b \<Rightarrow> 'a res"
    and plain :: "'a \<Rightarrow> bool"
    and coded :: "'b \<Rightarrow> bool"
  assumes enc_ok: "plain x \<Longrightarrow> \<exists>y. enc x = Inr y \<and> coded y \<and> dec y = Inr x"
    and dec_ok: "coded y \<Longrightarrow> \<exists>x. dec y = Inr x \<and> plain x \<and> enc x = Inr y"
begin

lemma dec_enc: "plain x \<Longrightarrow> enc x = Inr y \<Longrightarrow> coded y \<and> dec y = Inr x"
  using enc_ok [of x] by auto

lemma enc_dec: "coded y \<Longrightarrow> dec y = Inr x \<Longrightarrow> plain x \<and> enc x = Inr y"
  using dec_ok [of y] by auto

lemma enc_inject: "plain x \<Longrightarrow> plain x' \<Longrightarrow> enc x = enc x' \<Longrightarrow> x = x'"
  using enc_ok [of x] enc_ok [of x'] by auto

lemma dec_inject: "coded y \<Longrightarrow> coded y' \<Longrightarrow> dec y = dec y' \<Longrightarrow> y = y'"
  using dec_ok [of y] dec_ok [of y'] by auto

lemma dec_iff_enc: "plain x \<Longrightarrow> coded y \<Longrightarrow> dec y = Inr x \<longleftrightarrow> enc x = Inr y"
  using enc_ok [of x] dec_ok [of y] by auto

end

end
