(* ===== verification/Py_Float.thy ===== *)
theory Py_Float
  imports Prelude "HOL-Library.Log_Nat" Complex_Main
begin

text \<open>
  Python's floats and the IEEE 754 conversions the code reaches through \<open>struct.pack\<close>.

  A finite value is a sign and an exact rational magnitude, so signed zeros are kept and every
  rounding is written out: \<open>round_mag\<close> rounds an exact magnitude to the nearest value of a
  binary format, ties to even, and reports overflow. Arithmetic is the exact operation
  followed by one rounding to binary64, which is what CPython computes.
\<close>

section \<open>Binary formats and rounding\<close>

record fp_format =
  fp_prec :: nat
  fp_emin :: int
  fp_emax :: int

definition binary16 :: fp_format where
  "binary16 = \<lparr>fp_prec = 11, fp_emin = -14, fp_emax = 15\<rparr>"

definition binary32 :: fp_format where
  "binary32 = \<lparr>fp_prec = 24, fp_emin = -126, fp_emax = 127\<rparr>"

definition binary64 :: fp_format where
  "binary64 = \<lparr>fp_prec = 53, fp_emin = -1022, fp_emax = 1023\<rparr>"

definition two_pow :: "int \<Rightarrow> rat" where
  "two_pow k = (if 0 \<le> k then 2 ^ nat k else 1 / 2 ^ nat (- k))"

text \<open>The exponent of the binade a positive rational lies in.\<close>

definition binade :: "rat \<Rightarrow> int" where
  "binade x = (let (a, b) = quotient_of x; k = bitlen a - bitlen b
    in if two_pow k \<le> x then k else k - 1)"

definition round_half_even :: "rat \<Rightarrow> int" where
  "round_half_even q = (let n = \<lfloor>q\<rfloor>; r = q - of_int n
    in if r < 1 / 2 then n else if 1 / 2 < r then n + 1 else if even n then n else n + 1)"

text \<open>The unit in the last place around a magnitude.\<close>

definition ulp_at :: "fp_format \<Rightarrow> rat \<Rightarrow> rat" where
  "ulp_at f x = two_pow (max (binade x) (fp_emin f) - int (fp_prec f - 1))"

definition fp_limit :: "fp_format \<Rightarrow> rat" where
  "fp_limit f = two_pow (fp_emax f + 1)"

definition round_mag :: "fp_format \<Rightarrow> rat \<Rightarrow> rat option" where
  "round_mag f x = (if x = 0 then Some 0
    else let u = ulp_at f x; m = of_int (round_half_even (x / u)) * u
         in if fp_limit f \<le> m then None else Some m)"

section \<open>Floats\<close>

datatype pyfloat = Fin (fneg: bool) (fmag: rat) | Inf bool | NaN

definition fval :: "pyfloat \<Rightarrow> rat" where
  "fval x = (case x of Fin s m \<Rightarrow> (if s then - m else m) | _ \<Rightarrow> 0)"

fun is_finite :: "pyfloat \<Rightarrow> bool" where
  "is_finite (Fin _ _) = True"
| "is_finite _ = False"

fun float_eq :: "pyfloat \<Rightarrow> pyfloat \<Rightarrow> bool" where
  "float_eq (Fin s m) (Fin t n) = (fval (Fin s m) = fval (Fin t n))"
| "float_eq (Inf s) (Inf t) = (s = t)"
| "float_eq _ _ = False"

fun float_lt :: "pyfloat \<Rightarrow> pyfloat \<Rightarrow> bool" where
  "float_lt (Fin s m) (Fin t n) = (fval (Fin s m) < fval (Fin t n))"
| "float_lt (Inf s) (Inf t) = (s \<and> \<not> t)"
| "float_lt (Inf s) (Fin _ _) = s"
| "float_lt (Fin _ _) (Inf t) = (\<not> t)"
| "float_lt _ _ = False"

definition float_le :: "pyfloat \<Rightarrow> pyfloat \<Rightarrow> bool" where
  "float_le x y \<longleftrightarrow> float_lt x y \<or> float_eq x y"

definition float_abs :: "pyfloat \<Rightarrow> pyfloat" where
  "float_abs x = (case x of Fin _ m \<Rightarrow> Fin False m | Inf _ \<Rightarrow> Inf False | NaN \<Rightarrow> NaN)"

definition float_neg :: "pyfloat \<Rightarrow> pyfloat" where
  "float_neg x = (case x of Fin s m \<Rightarrow> Fin (\<not> s) m | Inf s \<Rightarrow> Inf (\<not> s) | NaN \<Rightarrow> NaN)"

text \<open>A finite exact result with a given sign, rounded to a format.\<close>

definition round_signed :: "fp_format \<Rightarrow> bool \<Rightarrow> rat \<Rightarrow> pyfloat" where
  "round_signed f s m = (case round_mag f m of None \<Rightarrow> Inf s | Some r \<Rightarrow> Fin s r)"

text \<open>Addition, multiplication and division in binary64.\<close>

fun float_add :: "pyfloat \<Rightarrow> pyfloat \<Rightarrow> pyfloat" where
  "float_add (Fin s m) (Fin t n) =
     (let v = fval (Fin s m) + fval (Fin t n)
      in if v = 0 then Fin (s \<and> t) 0 else round_signed binary64 (v < 0) \<bar>v\<bar>)"
| "float_add (Inf s) (Inf t) = (if s = t then Inf s else NaN)"
| "float_add (Inf s) (Fin _ _) = Inf s"
| "float_add (Fin _ _) (Inf t) = Inf t"
| "float_add _ _ = NaN"

definition float_sub :: "pyfloat \<Rightarrow> pyfloat \<Rightarrow> pyfloat" where
  "float_sub x y = float_add x (float_neg y)"

fun float_mul :: "pyfloat \<Rightarrow> pyfloat \<Rightarrow> pyfloat" where
  "float_mul (Fin s m) (Fin t n) = round_signed binary64 (s \<noteq> t) (m * n)"
| "float_mul (Inf s) (Inf t) = Inf (s \<noteq> t)"
| "float_mul (Inf s) (Fin t n) = (if n = 0 then NaN else Inf (s \<noteq> t))"
| "float_mul (Fin s m) (Inf t) = (if m = 0 then NaN else Inf (s \<noteq> t))"
| "float_mul _ _ = NaN"

text \<open>Division by a zero raises in Python.\<close>

fun float_div :: "pyfloat \<Rightarrow> pyfloat \<Rightarrow> pyfloat res" where
  "float_div x (Fin t n) =
     (if n = 0 then Inl (ZeroDivisionError ''float division by zero'')
      else Inr (case x of Fin s m \<Rightarrow> round_signed binary64 (s \<noteq> t) (m / n)
                        | Inf s \<Rightarrow> Inf (s \<noteq> t) | NaN \<Rightarrow> NaN))"
| "float_div x (Inf t) = Inr (case x of Fin s m \<Rightarrow> Fin (s \<noteq> t) 0 | _ \<Rightarrow> NaN)"
| "float_div x NaN = Inr NaN"

text \<open>\<open>float(i)\<close> for an integer, and the quotient of two integers, both rounded once.\<close>

definition float_of_int :: "int \<Rightarrow> pyfloat res" where
  "float_of_int i = (case round_mag binary64 (of_int \<bar>i\<bar>) of
     None \<Rightarrow> Inl (OverflowError ''int too large to convert to float'')
   | Some r \<Rightarrow> Inr (Fin (i < 0) r))"

definition int_true_div :: "int \<Rightarrow> int \<Rightarrow> pyfloat res" where
  "int_true_div a b = (if b = 0 then Inl (ZeroDivisionError ''division by zero'')
     else case round_mag binary64 \<bar>of_int a / of_int b\<bar> of
            None \<Rightarrow> Inl (OverflowError ''integer division result too large for a float'')
          | Some r \<Rightarrow> Inr (Fin ((a < 0) \<noteq> (b < 0)) r))"

section \<open>Properties of rounding\<close>

lemma two_pow_pos [simp]: "0 < two_pow k"
  by (simp add: two_pow_def)

lemma two_pow_nonzero [simp]: "two_pow k \<noteq> 0"
  using two_pow_pos [of k] by linarith

lemma two_pow_add: "two_pow (a + b) = two_pow a * two_pow b"
proof -
  have "two_pow k = 2 powi k" for k
    by (simp add: two_pow_def power_int_def field_simps)
  then show ?thesis by (simp add: power_int_add)
qed

lemma round_half_even_bound: "\<bar>of_int (round_half_even q) - q\<bar> \<le> 1 / 2"
proof -
  have "of_int \<lfloor>q\<rfloor> \<le> q" and "q < of_int \<lfloor>q\<rfloor> + 1" by linarith+
  then show ?thesis by (simp add: round_half_even_def Let_def abs_le_iff)
qed

lemma round_half_even_of_int [simp]: "round_half_even (of_int n) = n"
  by (simp add: round_half_even_def)

lemma round_half_even_nonneg: "0 \<le> q \<Longrightarrow> 0 \<le> round_half_even q"
  by (simp add: round_half_even_def Let_def)

lemma ulp_at_pos [simp]: "0 < ulp_at f x"
  by (simp add: ulp_at_def)

lemma ulp_at_nonzero [simp]: "ulp_at f x \<noteq> 0"
  by (simp add: ulp_at_def)

text \<open>A rounded magnitude is within half a unit in the last place of the exact one.\<close>

lemma round_mag_error:
  assumes "round_mag f x = Some m"
  shows "\<bar>m - x\<bar> \<le> ulp_at f x / 2"
proof (cases "x = 0")
  case True
  with assms ulp_at_pos [of f x] show ?thesis
    by (auto simp: round_mag_def intro: less_imp_le)
next
  case False
  let ?u = "ulp_at f x" and ?n = "of_int (round_half_even (x / ulp_at f x)) :: rat"
  from False assms have m: "m = ?n * ?u" by (auto simp: round_mag_def Let_def split: if_splits)
  have "m - x = (?n - x / ?u) * ?u" by (simp add: m field_simps)
  then have "\<bar>m - x\<bar> = \<bar>?n - x / ?u\<bar> * ?u" by (simp add: abs_mult abs_of_pos)
  also have "\<dots> \<le> 1 / 2 * ?u"
    by (rule mult_right_mono [OF round_half_even_bound]) (simp add: less_imp_le)
  finally show ?thesis by simp
qed

lemma round_mag_nonneg: "round_mag f x = Some m \<Longrightarrow> 0 \<le> x \<Longrightarrow> 0 \<le> m"
  by (auto simp: round_mag_def Let_def less_imp_le round_half_even_nonneg
      intro!: mult_nonneg_nonneg split: if_splits)

text \<open>A value on its own grid is not changed.\<close>

lemma round_mag_exact:
  assumes "x = of_int n * ulp_at f x" and "x < fp_limit f"
  shows "round_mag f x = Some x"
proof (cases "x = 0")
  case False
  have "x / ulp_at f x = of_int n"
    by (subst assms(1)) simp
  then have "of_int (round_half_even (x / ulp_at f x)) * ulp_at f x = x"
    using assms(1) by simp
  with False assms(2) show ?thesis by (simp add: round_mag_def Let_def not_le)
qed (simp add: round_mag_def)

text \<open>The binade of a positive rational, characterised.\<close>

lemma two_pow_diff: "two_pow (a - b) = two_pow a / two_pow b"
proof -
  have "two_pow (a - b) * two_pow b = two_pow a" by (simp flip: two_pow_add)
  then show ?thesis by (simp add: field_simps)
qed

lemma two_pow_Suc: "two_pow (k + 1) = 2 * two_pow k"
  using two_pow_add [of k 1] by (simp add: two_pow_def [of 1])

lemma two_pow_mono: "a \<le> b \<Longrightarrow> two_pow a \<le> two_pow b"
proof -
  assume "a \<le> b"
  then have "1 \<le> two_pow (b - a)" by (simp add: two_pow_def)
  then show ?thesis using two_pow_add [of a "b - a"] by simp
qed

lemma two_pow_less_iff: "two_pow a < two_pow b \<longleftrightarrow> a < b"
proof
  show "two_pow a < two_pow b \<Longrightarrow> a < b" using two_pow_mono [of b a] by fastforce
  assume "a < b"
  then have "two_pow (a + 1) \<le> two_pow b" by (simp add: two_pow_mono)
  then show "two_pow a < two_pow b" using two_pow_Suc [of a] two_pow_pos [of a] by linarith
qed

lemma bitlen_two_pow:
  assumes "0 < a"
  shows "two_pow (bitlen a - 1) \<le> of_int a" "of_int a < two_pow (bitlen a)"
proof -
  have "1 \<le> bitlen a" using assms by (simp add: bitlen_alt_def)
  with bitlen_bounds [OF assms]
  have "(of_int (2 ^ nat (bitlen a - 1)) :: rat) \<le> of_int a"
    and "of_int a < (of_int (2 ^ nat (bitlen a)) :: rat)"
    by (simp_all only: of_int_le_iff of_int_less_iff)
  with \<open>1 \<le> bitlen a\<close> show "two_pow (bitlen a - 1) \<le> of_int a" "of_int a < two_pow (bitlen a)"
    by (simp_all add: two_pow_def)
qed

lemma binade_bounds:
  assumes "0 < x"
  shows "two_pow (binade x) \<le> x" "x < two_pow (binade x + 1)"
proof -
  obtain a b where q: "quotient_of x = (a, b)" by (cases "quotient_of x")
  have b: "0 < b" using quotient_of_denom_pos [OF q] .
  have x: "x = of_int a / of_int b" using quotient_of_div [OF q] .
  have a: "0 < a" using assms b by (simp add: x zero_less_divide_iff)
  have "two_pow (bitlen a - 1 - bitlen b) < x"
    unfolding two_pow_diff [of "bitlen a - 1"] x
    by (rule frac_less2) (use bitlen_two_pow [OF a] bitlen_two_pow [OF b] b in simp_all)
  moreover have "x < two_pow (bitlen a - (bitlen b - 1))"
    unfolding two_pow_diff [of "bitlen a"] x
    by (rule frac_less) (use bitlen_two_pow [OF a] bitlen_two_pow [OF b] a in simp_all)
  ultimately show "two_pow (binade x) \<le> x" "x < two_pow (binade x + 1)"
    by (auto simp: binade_def q Let_def algebra_simps)
qed

lemma binade_unique:
  assumes "two_pow e \<le> x" "x < two_pow (e + 1)"
  shows "binade x = e"
proof -
  have x: "0 < x" using assms(1) two_pow_pos [of e] by linarith
  have "two_pow e < two_pow (binade x + 1)" "two_pow (binade x) < two_pow (e + 1)"
    using binade_bounds [OF x] assms by linarith+
  then show ?thesis by (simp add: two_pow_less_iff)
qed

lemma round_half_even_unique: "\<bar>q - of_int n\<bar> < 1 / 2 \<Longrightarrow> round_half_even q = n"
proof -
  assume "\<bar>q - of_int n\<bar> < 1 / 2"
  then have "\<bar>of_int (round_half_even q) - of_int n\<bar> < (1 :: rat)"
    using round_half_even_bound [of q] by linarith
  then have "\<bar>round_half_even q - n\<bar> < 1" by linarith
  then show ?thesis by simp
qed

text \<open>A certificate for one rounding: the binade and the nearest multiple of the ulp.\<close>

lemma round_mag_certificate:
  assumes "two_pow e \<le> x" "x < two_pow (e + 1)"
    and "k = max e (fp_emin f) - int (fp_prec f - 1)"
    and "\<bar>x / two_pow k - of_int n\<bar> < 1 / 2"
    and "of_int n * two_pow k < fp_limit f"
  shows "round_mag f x = Some (of_int n * two_pow k)"
proof -
  have "ulp_at f x = two_pow k" using binade_unique [OF assms(1,2)] assms(3)
    by (simp add: ulp_at_def)
  moreover have "0 < x" using assms(1) two_pow_pos [of e] by linarith
  ultimately show ?thesis
    using assms(4,5) round_half_even_unique by (simp add: round_mag_def Let_def not_le)
qed

lemma float_abs_mag [simp]: "fval (float_abs (Fin s m)) = m"
  by (simp add: fval_def float_abs_def)

end
