(* ===== verification/Py_Value.thy ===== *)
theory Py_Value
  imports Py_Float
begin

text \<open>
  The dynamically typed Python values the compiler's validators inspect: what \<open>json.load\<close>
  builds, and the sequences passed between modules. Booleans are a constructor of their own,
  since the code tests \<open>isinstance(x, bool)\<close> before \<open>isinstance(x, int)\<close>; Python's \<open>==\<close>
  nevertheless identifies \<open>True\<close>, \<open>1\<close> and \<open>1.0\<close>, which \<open>py_eq\<close> keeps.
\<close>

datatype pyval =
    PNone
  | PBool bool
  | PInt int
  | PFloat pyfloat
  | PStr string
  | PList "pyval list"
  | PDict "(string \<times> pyval) list"

text \<open>The exact number a numeric value stands for in a comparison.\<close>

fun num_view :: "pyval \<Rightarrow> pyfloat option" where
  "num_view (PBool b) = Some (Fin False (if b then 1 else 0))"
| "num_view (PInt i) = Some (Fin (i < 0) (of_int \<bar>i\<bar>))"
| "num_view (PFloat f) = Some f"
| "num_view _ = None"

definition num_eq :: "pyval \<Rightarrow> pyval \<Rightarrow> bool" where
  "num_eq x y = (case (num_view x, num_view y) of (Some a, Some b) \<Rightarrow> float_eq a b | _ \<Rightarrow> False)"

text \<open>Python's \<open>==\<close>. Dictionaries compare by keys and values, in any order.\<close>

fun py_eq :: "pyval \<Rightarrow> pyval \<Rightarrow> bool" where
  "py_eq PNone y = (y = PNone)"
| "py_eq (PStr s) y = (y = PStr s)"
| "py_eq (PList xs) y = (case y of PList ys \<Rightarrow> list_all2 py_eq xs ys | _ \<Rightarrow> False)"
| "py_eq (PDict d) y = (case y of
      PDict e \<Rightarrow> length d = length e
        \<and> list_all (\<lambda>(k, v). case map_of e k of None \<Rightarrow> False | Some w \<Rightarrow> py_eq v w) d
    | _ \<Rightarrow> False)"
| "py_eq x y = num_eq x y"

text \<open>\<open>value.get(key)\<close> on an object, \<open>PNone\<close> for a missing key.\<close>

definition obj_get :: "pyval dict \<Rightarrow> string \<Rightarrow> pyval" where
  "obj_get d k = (case dict_get d k of None \<Rightarrow> PNone | Some v \<Rightarrow> v)"

text \<open>\<open>isinstance(x, int) and not isinstance(x, bool)\<close>\<close>

fun plain_int :: "pyval \<Rightarrow> int option" where
  "plain_int (PInt i) = Some i"
| "plain_int _ = None"

lemma plain_int_Some_iff [simp]: "plain_int v = Some i \<longleftrightarrow> v = PInt i"
  by (cases v) auto

lemma py_eq_PStr_right [simp]: "py_eq x (PStr s) \<longleftrightarrow> x = PStr s"
  by (cases x) (auto simp: num_eq_def)

lemma py_eq_PNone_right [simp]: "py_eq x PNone \<longleftrightarrow> x = PNone"
  by (cases x) (auto simp: num_eq_def)

lemma py_eq_PInt_PInt [simp]: "py_eq (PInt i) (PInt j) \<longleftrightarrow> i = j"
  by (auto simp: num_eq_def fval_def)

lemma py_eq_true_one: "py_eq (PBool True) (PInt 1)" and py_eq_one_float:
  "py_eq (PInt 1) (PFloat (Fin False 1))"
  by (simp_all add: num_eq_def fval_def)

text \<open>A value without a NaN and with distinct keys equals itself.\<close>

fun py_plain :: "pyval \<Rightarrow> bool" where
  "py_plain (PFloat f) = (f \<noteq> NaN)"
| "py_plain (PList xs) = list_all py_plain xs"
| "py_plain (PDict d) = (dict_wf d \<and> list_all (\<lambda>(k, v). py_plain v) d)"
| "py_plain _ = True"

lemma float_eq_refl: "f \<noteq> NaN \<Longrightarrow> float_eq f f"
  by (cases f) auto

lemma py_eq_refl: "py_plain v \<Longrightarrow> py_eq v v"
proof (induction v)
  case (PFloat f)
  then show ?case by (simp add: num_eq_def float_eq_refl)
next
  case (PList xs)
  then show ?case by (auto simp: list_all2_conv_all_nth list_all_length)
next
  case (PDict d)
  have "py_eq v v" if "(k, v) \<in> set d" for k v
    using that PDict by (fastforce simp: list_all_iff)
  moreover have "map_of d k = Some v" if "(k, v) \<in> set d" for k v
    using that PDict.prems by (simp add: dict_wf_def)
  ultimately show ?case by (auto simp: list_all_iff)
qed (simp_all add: num_eq_def)

end
