(* ===== verification/Trellis_Layout.thy ===== *)
theory Trellis_Layout
  imports Py_Value "HOL-Library.Product_Lexorder"
begin

text \<open>
  \<open>tools/gem16_compile/trellis35_layout.py\<close>: checked unsigned arithmetic, the alignment of
  regions, the choice of the 64 experts that get four bits per coefficient, and the byte
  accounting of the routed-expert regions of one checkpoint.
\<close>

unbundle bit_operations_syntax

section \<open>Constants\<close>

definition UINT64_MAX :: int where "UINT64_MAX = 2 ^ 64 - 1"
definition UINT32_MAX :: int where "UINT32_MAX = 2 ^ 32 - 1"

definition TRELLIS35_LAYER_COUNT :: int where "TRELLIS35_LAYER_COUNT = 30"
definition TRELLIS35_EXPERT_COUNT :: nat where "TRELLIS35_EXPERT_COUNT = 128"
definition TRELLIS35_K3_COUNT :: nat where "TRELLIS35_K3_COUNT = 64"
definition TRELLIS35_K4_COUNT :: nat where "TRELLIS35_K4_COUNT = 64"
definition TRELLIS35_ALIGNMENT :: int where "TRELLIS35_ALIGNMENT = 256"
definition TRELLIS35_DESCRIPTOR_BYTES :: int where "TRELLIS35_DESCRIPTOR_BYTES = 8"
definition TRELLIS35_SIDECAR_ELEMENT_BYTES :: int where "TRELLIS35_SIDECAR_ELEMENT_BYTES = 2"

lemmas trellis_constants = UINT64_MAX_def UINT32_MAX_def TRELLIS35_LAYER_COUNT_def
  TRELLIS35_EXPERT_COUNT_def TRELLIS35_K3_COUNT_def TRELLIS35_K4_COUNT_def
  TRELLIS35_ALIGNMENT_def TRELLIS35_DESCRIPTOR_BYTES_def TRELLIS35_SIDECAR_ELEMENT_BYTES_def

section \<open>Checked arithmetic\<close>

definition checked_nonnegative :: "pyval \<Rightarrow> int res" where
  "checked_nonnegative value = (case plain_int value of
     None \<Rightarrow> Inl (InvalidPlanError ''must be a non-negative integer'')
   | Some i \<Rightarrow>
       if i < 0 then Inl (InvalidPlanError ''must be a non-negative integer'')
       else if UINT64_MAX < i then Inl (InvalidPlanError ''exceeds uint64'')
       else Inr i)"

definition checked_add :: "int \<Rightarrow> int \<Rightarrow> int res" where
  "checked_add left right =
     rbind (checked_nonnegative (PInt left)) (\<lambda>left.
     rbind (checked_nonnegative (PInt right)) (\<lambda>right.
     if UINT64_MAX - right < left then Inl (InvalidPlanError ''exceeds uint64'')
     else Inr (left + right)))"

definition checked_mul :: "int list \<Rightarrow> int res" where
  "checked_mul values = rfold (\<lambda>result value.
     rbind (checked_nonnegative (PInt value)) (\<lambda>value.
     if value \<noteq> 0 \<and> UINT64_MAX div value < result
     then Inl (InvalidPlanError ''exceeds uint64'')
     else Inr (result * value))) 1 values"

definition align_up :: "int \<Rightarrow> int \<Rightarrow> int res" where
  "align_up value alignment =
     rbind (checked_nonnegative (PInt value)) (\<lambda>value.
     rbind (checked_nonnegative (PInt alignment)) (\<lambda>alignment.
     if alignment = 0 \<or> alignment AND (alignment - 1) \<noteq> 0
     then Inl (InvalidPlanError ''alignment must be a power of two'')
     else checked_add value ((- value) AND (alignment - 1))))"

lemma checked_nonnegative_Inr [simp]:
  "checked_nonnegative v = Inr i \<longleftrightarrow> v = PInt i \<and> 0 \<le> i \<and> i \<le> UINT64_MAX"
  by (auto simp: checked_nonnegative_def split: option.splits)

lemma checked_add_Inr [simp]:
  "checked_add a b = Inr c \<longleftrightarrow> 0 \<le> a \<and> 0 \<le> b \<and> c = a + b \<and> c \<le> UINT64_MAX"
  by (auto simp: checked_add_def)

lemma checked_mul_step:
  assumes "0 \<le> r" "0 \<le> (v::int)" "v \<noteq> 0"
  shows "UINT64_MAX div v < r \<longleftrightarrow> UINT64_MAX < r * v"
  using assms by (simp add: div_less_iff_int)

text \<open>
  The product fold succeeds exactly when every factor is a u64 and no prefix product
  overflows; a later zero does not repair an earlier overflow.
\<close>

lemma checked_mul_fold:
  assumes "0 \<le> r" "r \<le> UINT64_MAX"
  shows "rfold (\<lambda>result value.
     rbind (checked_nonnegative (PInt value)) (\<lambda>value.
     if value \<noteq> 0 \<and> UINT64_MAX div value < result
     then Inl (InvalidPlanError ''exceeds uint64'')
     else Inr (result * value))) r vs = Inr p
   \<longleftrightarrow> p = r * prod_list vs \<and> (\<forall>v\<in>set vs. 0 \<le> v \<and> v \<le> UINT64_MAX)
     \<and> (\<forall>n\<le>length vs. r * prod_list (take n vs) \<le> UINT64_MAX)"
  using assms
proof (induction vs arbitrary: r)
  case Nil
  then show ?case by auto
next
  case (Cons v vs)
  show ?case
  proof (cases "0 \<le> v \<and> v \<le> UINT64_MAX \<and> r * v \<le> UINT64_MAX")
    case True
    then have step: "\<not> (v \<noteq> 0 \<and> UINT64_MAX div v < r)"
      using Cons.prems checked_mul_step [of r v] by auto
    have "(\<forall>n\<le>length (v # vs). r * prod_list (take n (v # vs)) \<le> UINT64_MAX)
        \<longleftrightarrow> (\<forall>n\<le>length vs. (r * v) * prod_list (take n vs) \<le> UINT64_MAX)"
      (is "?L \<longleftrightarrow> ?R")
    proof
      assume L: ?L
      show ?R
      proof (intro allI impI)
        fix n assume "n \<le> length vs"
        with L [rule_format, of "Suc n"]
        show "(r * v) * prod_list (take n vs) \<le> UINT64_MAX" by (simp add: mult.assoc)
      qed
    next
      assume R: ?R
      show ?L
      proof (intro allI impI)
        fix n assume "n \<le> length (v # vs)"
        then show "r * prod_list (take n (v # vs)) \<le> UINT64_MAX"
          using R Cons.prems by (cases n) (auto simp: mult.assoc)
      qed
    qed
    with True step Cons.IH [of "r * v"] Cons.prems show ?thesis
      by (auto simp: mult.assoc)
  next
    case False
    then show ?thesis using Cons.prems checked_mul_step [of r v]
      by (fastforce dest: spec [of _ "Suc 0"])
  qed
qed

lemma checked_mul_Inr:
  "checked_mul vs = Inr p \<longleftrightarrow> p = prod_list vs \<and> (\<forall>v\<in>set vs. 0 \<le> v \<and> v \<le> UINT64_MAX)
     \<and> (\<forall>n\<le>length vs. prod_list (take n vs) \<le> UINT64_MAX)"
  unfolding checked_mul_def using checked_mul_fold [of 1 vs p] by (simp add: UINT64_MAX_def)

section \<open>Alignment\<close>

lemma power_of_two_nat:
  "0 < n \<Longrightarrow> n AND (n - 1) = 0 \<Longrightarrow> \<exists>k. n = 2 ^ k" for n :: nat
proof (induction n rule: less_induct)
  case (less n)
  show ?case
  proof (cases "even n")
    case True
    then obtain m where m: "n = 2 * m" by blast
    with less.prems have "0 < m" by simp
    have "(n AND (n - 1)) div 2 = m AND (m - 1)"
    proof -
      have "(2 * m - Suc 0) div 2 = m - Suc 0" by arith
      then show ?thesis by (simp add: m and_nat_rec [of "2 * m"])
    qed
    with less.prems less.IH [of m] \<open>0 < m\<close> m obtain k where "m = 2 ^ k" by auto
    with m have "n = 2 ^ Suc k" by simp
    then show ?thesis by blast
  next
    case False
    then obtain m where m: "n = 2 * m + 1" using oddE by blast
    then have "n AND (n - 1) = 2 * m" by (simp add: and_nat_rec [of "Suc (2 * m)"])
    with less.prems m have "n = 2 ^ 0" by simp
    then show ?thesis by blast
  qed
qed

lemma power_of_two_int:
  assumes "0 < (a::int)" "a AND (a - 1) = 0"
  shows "\<exists>k. a = 2 ^ k"
proof -
  obtain n where n: "a = int n" "0 < n" using assms(1) zero_less_imp_eq_int by auto
  then have "int (n AND (n - 1)) = int 0"
    using assms(2) by (simp add: of_nat_and_eq of_nat_diff)
  then have "n AND (n - 1) = 0" by (simp only: of_nat_eq_iff)
  with n power_of_two_nat [of n] show ?thesis by (metis of_nat_numeral of_nat_power)
qed

lemma and_mask_mod: "(x::int) AND (2 ^ k - 1) = x mod 2 ^ k"
  by (simp flip: mask_eq_exp_minus_1 take_bit_eq_mask add: take_bit_eq_mod)

lemma and_pred_power_of_two: "(2 ^ k :: int) AND (2 ^ k - 1) = 0"
  by (simp add: and_mask_mod)

text \<open>The padding the code adds is what the value lacks to a multiple.\<close>

lemma add_neg_mod_least:
  assumes "0 < (a::int)"
  shows "a dvd v + (- v) mod a" and "v + (- v) mod a < v + a"
    and "v \<le> w \<Longrightarrow> a dvd w \<Longrightarrow> v + (- v) mod a \<le> w"
proof -
  show "a dvd v + (- v) mod a"
    by (simp add: dvd_eq_mod_eq_0 mod_simps)
  then show "v + (- v) mod a < v + a" using assms by simp
  show "v + (- v) mod a \<le> w" if "v \<le> w" "a dvd w"
  proof -
    have "(- v) mod a = (w - v) mod a"
      using that(2) by (metis add.right_neutral diff_conv_add_uminus dvd_imp_mod_0 mod_add_left_eq add.left_neutral)
    also have "\<dots> \<le> w - v" using that(1) assms by (simp add: zmod_le_nonneg_dividend)
    finally show ?thesis by simp
  qed
qed

lemma align_up_Inr:
  "align_up v a = Inr r \<longleftrightarrow> 0 \<le> v \<and> (\<exists>k. a = 2 ^ k) \<and> a \<le> UINT64_MAX
     \<and> r = v + (- v) mod a \<and> r \<le> UINT64_MAX"
proof
  assume "align_up v a = Inr r"
  then have h: "0 \<le> v" "0 < a" "a AND (a - 1) = 0" "a \<le> UINT64_MAX"
    "r = v + ((- v) AND (a - 1))" "r \<le> UINT64_MAX"
    by (auto simp: align_up_def)
  with power_of_two_int [of a] obtain k where "a = 2 ^ k" by auto
  with h show "0 \<le> v \<and> (\<exists>k. a = 2 ^ k) \<and> a \<le> UINT64_MAX \<and> r = v + (- v) mod a \<and> r \<le> UINT64_MAX"
    by (auto simp: and_mask_mod)
next
  assume h: "0 \<le> v \<and> (\<exists>k. a = 2 ^ k) \<and> a \<le> UINT64_MAX \<and> r = v + (- v) mod a \<and> r \<le> UINT64_MAX"
  then obtain k where k: "a = 2 ^ k" by blast
  have "0 \<le> (- v) mod 2 ^ k" by simp
  moreover have "v + (- v) mod 2 ^ k \<le> UINT64_MAX" using h k by simp
  ultimately have "v \<le> UINT64_MAX" by linarith
  with h k show "align_up v a = Inr r"
    by (auto simp: align_up_def and_mask_mod)
qed

section \<open>Rate maps\<close>

text \<open>One expert's rate: an integer, and three or four bits.\<close>

definition check_rate :: "pyval \<Rightarrow> int res" where
  "check_rate rate = (case plain_int rate of
     None \<Rightarrow> Inl (InvalidPlanError ''rate must be integer K3 or K4'')
   | Some r \<Rightarrow> if r \<noteq> 3 \<and> r \<noteq> 4 then Inl (InvalidPlanError ''rate must be integer K3 or K4'')
               else Inr r)"

definition validate_rate_map :: "pyval \<Rightarrow> int list res" where
  "validate_rate_map rate_map = (case rate_map of
     PList rates \<Rightarrow>
       if length rates \<noteq> TRELLIS35_EXPERT_COUNT
       then Inl (InvalidPlanError ''rate map must contain 128 entries'')
       else rbind (rmap check_rate rates) (\<lambda>result.
         if count_list result 3 \<noteq> TRELLIS35_K3_COUNT \<or> count_list result 4 \<noteq> TRELLIS35_K4_COUNT
         then Inl (InvalidPlanError ''rate map must contain exactly 64 K3 and 64 K4 experts'')
         else Inr result)
   | _ \<Rightarrow> Inl (InvalidPlanError ''rate map must contain 128 entries''))"

text \<open>
  The sort key \<open>(-benefit, expert)\<close> as a type of its own, ordered as Python orders tuples.
\<close>

datatype rank_key = Rank (neg_benefit: rat) (rank_expert: nat)

instantiation rank_key :: linorder
begin

definition less_eq_rank_key :: "rank_key \<Rightarrow> rank_key \<Rightarrow> bool" where
  "less_eq_rank_key x y \<longleftrightarrow> neg_benefit x < neg_benefit y
     \<or> neg_benefit x = neg_benefit y \<and> rank_expert x \<le> rank_expert y"

definition less_rank_key :: "rank_key \<Rightarrow> rank_key \<Rightarrow> bool" where
  "less_rank_key x y \<longleftrightarrow> neg_benefit x < neg_benefit y
     \<or> neg_benefit x = neg_benefit y \<and> rank_expert x < rank_expert y"

instance
  by standard (auto simp: less_eq_rank_key_def less_rank_key_def intro: rank_key.expand)

end

text \<open>One expert's benefit as a finite float.\<close>

definition check_benefit :: "pyval \<Rightarrow> pyfloat res" where
  "check_benefit raw = rbind
     (case raw of PInt i \<Rightarrow> float_of_int i | PFloat f \<Rightarrow> Inr f
      | _ \<Rightarrow> Inl (InvalidPlanError ''benefit must be numeric''))
     (\<lambda>benefit. if \<not> is_finite benefit
        then Inl (InvalidPlanError ''benefit must be finite'') else Inr benefit)"

definition rank_of :: "pyfloat \<times> nat \<Rightarrow> rank_key" where
  "rank_of item = Rank (- fval (fst item)) (snd item)"

definition rank_experts :: "pyfloat list \<Rightarrow> (pyfloat \<times> nat) list" where
  "rank_experts benefits = sort_key rank_of (zip benefits [0..<length benefits])"

definition select_rate_map :: "pyval \<Rightarrow> int list res" where
  "select_rate_map proxy_benefits = (case proxy_benefits of
     PList raw \<Rightarrow>
       if length raw \<noteq> TRELLIS35_EXPERT_COUNT
       then Inl (InvalidPlanError ''proxy benefits must contain 128 entries'')
       else rbind (rmap check_benefit raw) (\<lambda>benefits.
         let selected = take TRELLIS35_K4_COUNT (rank_experts benefits) in
         if float_le (fst (last selected)) (Fin False 0)
         then Inl (InvalidPlanError ''requires at least 64 positive K4 proxy benefits'')
         else let k4_experts = set (map snd selected) in
           validate_rate_map (PList (map (\<lambda>expert. PInt (if expert \<in> k4_experts then 4 else 3))
             [0..<128])))
   | _ \<Rightarrow> Inl (InvalidPlanError ''proxy benefits must contain 128 entries''))"

lemma check_rate_Inr [simp]: "check_rate v = Inr r \<longleftrightarrow> v = PInt r \<and> (r = 3 \<or> r = 4)"
  by (auto simp: check_rate_def split: option.splits)

lemma check_benefit_finite: "check_benefit v = Inr b \<Longrightarrow> is_finite b"
  by (auto simp: check_benefit_def)

text \<open>A valid rate map is a list of 64 threes and 64 fours, and nothing else is accepted.\<close>

definition rate_map_ok :: "int list \<Rightarrow> bool" where
  "rate_map_ok rates \<longleftrightarrow> length rates = 128 \<and> set rates \<subseteq> {3, 4} \<and> count_list rates 4 = 64"

lemma count_list_two_values:
  "set xs \<subseteq> {a, b} \<Longrightarrow> a \<noteq> b \<Longrightarrow> count_list xs a + count_list xs b = length xs"
  by (induction xs) auto

lemma validate_rate_map_Inr:
  "validate_rate_map v = Inr rates \<longleftrightarrow> v = PList (map PInt rates) \<and> rate_map_ok rates"
proof -
  have *: "rmap check_rate vs = Inr rates \<longleftrightarrow> vs = map PInt rates \<and> set rates \<subseteq> {3, 4}" for vs
    by (induction vs arbitrary: rates) auto
  show ?thesis
    using count_list_two_values [of rates 3 4]
    by (cases v) (auto simp: validate_rate_map_def rate_map_ok_def trellis_constants * dest: rmap_length)
qed

text \<open>In a list sorted by key, what is taken precedes what is dropped.\<close>

lemma sorted_take_drop:
  "sorted (map f xs) \<Longrightarrow> x \<in> set (take n xs) \<Longrightarrow> y \<in> set (drop n xs) \<Longrightarrow> f x \<le> f y"
  using sorted_append [of "map f (take n xs)" "map f (drop n xs)"]
  by (simp flip: map_append)

lemma set_rank_experts:
  "set (rank_experts bs) = {(bs ! i, i) | i. i < length bs}"
  by (auto simp: rank_experts_def set_zip)

lemma distinct_rank_experts: "distinct (map snd (rank_experts bs))"
proof -
  have "mset (map snd (rank_experts bs)) = mset [0..<length bs]"
    unfolding rank_experts_def by (subst mset_map, subst mset_sort, subst mset_map [symmetric]) simp
  then show ?thesis by (metis distinct_upt mset_eq_imp_distinct_iff)
qed

lemma length_rank_experts [simp]: "length (rank_experts bs) = length bs"
  by (simp add: rank_experts_def)

text \<open>The set of selected experts: 64 of them, closed upwards in the ranking.\<close>

lemma rank_selection:
  assumes "i < length bs" "j < length bs"
    and "i \<in> snd ` set (take n (rank_experts bs))" "j \<notin> snd ` set (take n (rank_experts bs))"
  shows "fval (bs ! j) < fval (bs ! i) \<or> fval (bs ! j) = fval (bs ! i) \<and> i < j"
proof -
  let ?r = "rank_experts bs"
  obtain x where x: "x \<in> set (take n ?r)" "snd x = i" using assms(3) by auto
  then have "x \<in> set ?r" by (meson in_set_takeD)
  with x have x_eq: "x = (bs ! i, i)" by (auto simp: set_rank_experts)
  have "(bs ! j, j) \<in> set ?r" using assms(2) by (auto simp: set_rank_experts)
  moreover have "(bs ! j, j) \<notin> set (take n ?r)" using assms(4) by force
  ultimately have "(bs ! j, j) \<in> set (drop n ?r)"
    by (metis Un_iff append_take_drop_id set_append)
  moreover have "sorted (map rank_of ?r)" by (simp add: rank_experts_def)
  ultimately have "rank_of (bs ! i, i) \<le> rank_of (bs ! j, j)"
    using x(1) x_eq sorted_take_drop [of rank_of ?r x n] by simp
  moreover have "i \<noteq> j" using assms(3,4) by blast
  ultimately show ?thesis by (auto simp: rank_of_def less_eq_rank_key_def)
qed

section \<open>Byte accounting\<close>

definition payload_bytes :: "int \<Rightarrow> pyval \<Rightarrow> int res" where
  "payload_bytes coefficients_per_expert rate_map =
     rbind (validate_rate_map rate_map) (\<lambda>rates.
     rbind (rfold (\<lambda>payload_bits rate.
         rbind (checked_mul [coefficients_per_expert, rate]) (checked_add payload_bits)) 0 rates)
       (\<lambda>payload_bits.
     if payload_bits mod 8 \<noteq> 0 then Inl (InvalidPlanError ''payload is not byte aligned'')
     else Inr (payload_bits div 8)))"

definition pool_bytes :: "int \<Rightarrow> int \<Rightarrow> nat \<Rightarrow> int res" where
  "pool_bytes coefficients_per_expert rate experts =
     rbind (checked_mul [coefficients_per_expert, rate, int experts]) (\<lambda>bits.
     if bits mod 8 \<noteq> 0 then Inl (InvalidPlanError ''is not byte aligned'')
     else let result = bits div 8 in
       if UINT32_MAX < result then Inl (InvalidPlanError ''cannot use U32-local descriptor offsets'')
       else Inr result)"

record projection =
  proj_name :: string
  logical_input :: int
  physical_input :: int
  proj_output :: int
  suh_elements_per_expert :: int
  svh_elements_per_expert :: int

definition GATE_UP :: projection where
  "GATE_UP = \<lparr>proj_name = ''gate_up'', logical_input = 2816, physical_input = 2816,
     proj_output = 1408, suh_elements_per_expert = 2816, svh_elements_per_expert = 1408\<rparr>"

definition DOWN :: projection where
  "DOWN = \<lparr>proj_name = ''down'', logical_input = 704, physical_input = 768,
     proj_output = 2816, suh_elements_per_expert = 768, svh_elements_per_expert = 2816\<rparr>"

definition logical_coefficients_per_expert :: "projection \<Rightarrow> int res" where
  "logical_coefficients_per_expert p = checked_mul [logical_input p, proj_output p]"

definition encoded_coefficients_per_expert :: "projection \<Rightarrow> int res" where
  "encoded_coefficients_per_expert p = checked_mul [physical_input p, proj_output p]"

definition sum_checked :: "int list \<Rightarrow> int res" where
  "sum_checked values = rfold checked_add 0 values"

text \<open>One family's report: the code's dictionary of totals over the 30 layers.\<close>

record family_report =
  fr_logical_input :: int
  fr_physical_input :: int
  fr_output :: int
  fr_logical_coefficients :: int
  fr_encoded_coefficients :: int
  fr_k3_payload_bytes_per_layer :: int
  fr_k4_payload_bytes_per_layer :: int
  fr_trellis_payload_bytes :: int
  fr_suh_bytes :: int
  fr_svh_bytes :: int
  fr_rate_descriptor_bytes :: int
  fr_alignment_bytes :: int
  fr_total_bytes :: int

definition total_over_layers :: "int \<Rightarrow> int res" where
  "total_over_layers per_layer = checked_mul [per_layer, TRELLIS35_LAYER_COUNT]"

text \<open>The body of the loop over the two projections.\<close>

definition family_layout :: "int list \<Rightarrow> projection \<Rightarrow> family_report res" where
  "family_layout rates p =
     rbind (logical_coefficients_per_expert p) (\<lambda>logical_c.
     rbind (checked_mul [int TRELLIS35_EXPERT_COUNT, logical_c]) (\<lambda>logical_per_layer.
     rbind (encoded_coefficients_per_expert p) (\<lambda>encoded_c.
     rbind (checked_mul [int TRELLIS35_EXPERT_COUNT, encoded_c]) (\<lambda>encoded_per_layer.
     rbind (payload_bytes encoded_c (PList (map PInt rates))) (\<lambda>payload_per_layer.
     rbind (checked_mul [int TRELLIS35_EXPERT_COUNT, suh_elements_per_expert p,
              TRELLIS35_SIDECAR_ELEMENT_BYTES]) (\<lambda>suh_per_layer.
     rbind (checked_mul [int TRELLIS35_EXPERT_COUNT, svh_elements_per_expert p,
              TRELLIS35_SIDECAR_ELEMENT_BYTES]) (\<lambda>svh_per_layer.
     rbind (checked_mul [int TRELLIS35_EXPERT_COUNT, TRELLIS35_DESCRIPTOR_BYTES])
       (\<lambda>descriptor_per_layer.
     rbind (pool_bytes encoded_c 3 TRELLIS35_K3_COUNT) (\<lambda>k3_pool.
     rbind (pool_bytes encoded_c 4 TRELLIS35_K4_COUNT) (\<lambda>k4_pool.
     let raw_regions = [k3_pool, k4_pool, descriptor_per_layer, suh_per_layer, svh_per_layer] in
     rbind (rmap (\<lambda>value. align_up value TRELLIS35_ALIGNMENT) raw_regions) (\<lambda>aligned_regions.
     let padding_per_layer = sum_list aligned_regions - sum_list raw_regions in
     rbind (sum_checked aligned_regions) (\<lambda>total_per_layer.
     rbind (total_over_layers logical_per_layer) (\<lambda>logical.
     rbind (total_over_layers encoded_per_layer) (\<lambda>encoded.
     rbind (total_over_layers payload_per_layer) (\<lambda>payload.
     rbind (total_over_layers suh_per_layer) (\<lambda>suh.
     rbind (total_over_layers svh_per_layer) (\<lambda>svh.
     rbind (total_over_layers descriptor_per_layer) (\<lambda>descriptors.
     rbind (total_over_layers padding_per_layer) (\<lambda>padding.
     rbind (total_over_layers total_per_layer) (\<lambda>total.
     Inr \<lparr>fr_logical_input = logical_input p, fr_physical_input = physical_input p,
          fr_output = proj_output p, fr_logical_coefficients = logical, fr_encoded_coefficients = encoded,
          fr_k3_payload_bytes_per_layer = k3_pool, fr_k4_payload_bytes_per_layer = k4_pool,
          fr_trellis_payload_bytes = payload, fr_suh_bytes = suh, fr_svh_bytes = svh,
          fr_rate_descriptor_bytes = descriptors, fr_alignment_bytes = padding,
          fr_total_bytes = total\<rparr>))))))))))))))))))))"

record layout_report =
  lr_logical_coefficients :: int
  lr_encoded_coefficients :: int
  lr_payload_bytes :: int
  lr_suh_bytes :: int
  lr_svh_bytes :: int
  lr_descriptor_bytes :: int
  lr_codebook_bytes :: int
  lr_alignment_bytes :: int
  lr_total_expert_bytes :: int
  lr_total_target_arena_bytes :: int
  lr_saving_bytes :: int
  lr_payload_bpw_encoded :: pyfloat
  lr_payload_bpw_logical :: pyfloat
  lr_effective_expert_bpw :: pyfloat
  lr_baseline :: "int \<times> int \<times> int \<times> int"
  lr_families :: "family_report dict"

definition default_rate_map :: pyval where
  "default_rate_map = PList (replicate TRELLIS35_K3_COUNT (PInt 3) @ replicate TRELLIS35_K4_COUNT (PInt 4))"

text \<open>A column of the two reports, added up with overflow checks.\<close>

definition column_total :: "(family_report \<Rightarrow> int) \<Rightarrow> family_report list \<Rightarrow> int res" where
  "column_total field reports = rfold (\<lambda>total report. checked_add total (field report)) 0 reports"

definition estimate_trellis35_layout ::
    "pyval \<Rightarrow> pyval \<Rightarrow> pyval \<Rightarrow> pyval option \<Rightarrow> layout_report res" where
  "estimate_trellis35_layout arena gate_up down rate_map =
     rbind (validate_rate_map (case rate_map of None \<Rightarrow> default_rate_map | Some m \<Rightarrow> m)) (\<lambda>rates.
     rbind (checked_nonnegative arena) (\<lambda>baseline_arena_bytes.
     rbind (checked_nonnegative gate_up) (\<lambda>old_gate_up.
     rbind (checked_nonnegative down) (\<lambda>old_down.
     rbind (checked_add old_gate_up old_down) (\<lambda>old_experts.
     if baseline_arena_bytes < old_experts
     then Inl (InvalidPlanError ''baseline routed experts exceed the baseline arena'')
     else
     rbind (rmap (family_layout rates) [GATE_UP, DOWN]) (\<lambda>reports.
     rbind (column_total fr_logical_coefficients reports) (\<lambda>logical_coefficients.
     rbind (column_total fr_encoded_coefficients reports) (\<lambda>encoded_coefficients.
     rbind (column_total fr_trellis_payload_bytes reports) (\<lambda>payload.
     rbind (column_total fr_suh_bytes reports) (\<lambda>suh_bytes.
     rbind (column_total fr_svh_bytes reports) (\<lambda>svh_bytes.
     rbind (column_total fr_rate_descriptor_bytes reports) (\<lambda>descriptor_bytes.
     rbind (column_total fr_alignment_bytes reports) (\<lambda>alignment_padding_bytes.
     let codebook_bytes = 0 in
     rbind (sum_checked (map fr_total_bytes reports @ [codebook_bytes])) (\<lambda>total_expert_bytes.
     let non_routed_baseline_bytes = baseline_arena_bytes - old_experts in
     rbind (checked_add non_routed_baseline_bytes total_expert_bytes) (\<lambda>total_target_arena_bytes.
     rbind (int_true_div (payload * 8) encoded_coefficients) (\<lambda>bpw_encoded.
     rbind (int_true_div (payload * 8) logical_coefficients) (\<lambda>bpw_logical.
     rbind (int_true_div (total_expert_bytes * 8) logical_coefficients) (\<lambda>bpw_effective.
     Inr \<lparr>lr_logical_coefficients = logical_coefficients,
          lr_encoded_coefficients = encoded_coefficients,
          lr_payload_bytes = payload, lr_suh_bytes = suh_bytes, lr_svh_bytes = svh_bytes,
          lr_descriptor_bytes = descriptor_bytes, lr_codebook_bytes = codebook_bytes,
          lr_alignment_bytes = alignment_padding_bytes,
          lr_total_expert_bytes = total_expert_bytes,
          lr_total_target_arena_bytes = total_target_arena_bytes,
          lr_saving_bytes = baseline_arena_bytes - total_target_arena_bytes,
          lr_payload_bpw_encoded = bpw_encoded, lr_payload_bpw_logical = bpw_logical,
          lr_effective_expert_bpw = bpw_effective,
          lr_baseline = (baseline_arena_bytes, old_gate_up, old_down, non_routed_baseline_bytes),
          lr_families = zip [proj_name GATE_UP, proj_name DOWN] reports\<rparr>))))))))))))))))))"

section \<open>Properties\<close>

lemma payload_bits_fold:
  assumes "set rates \<subseteq> {3, 4}" "0 \<le> c" "0 \<le> acc" "acc + c * 4 * int (length rates) \<le> UINT64_MAX"
  shows "rfold (\<lambda>bits rate. rbind (checked_mul [c, rate]) (checked_add bits)) acc rates
    = Inr (acc + c * sum_list rates)"
  using assms
proof (induction rates arbitrary: acc)
  case Nil
  then show ?case by simp
next
  case (Cons r rates)
  have r: "r = 3 \<or> r = 4" using Cons.prems by auto
  have "c * r \<le> c * 4" using r Cons.prems by auto
  moreover have "0 \<le> c * int (length rates)" using Cons.prems by simp
  moreover have "acc + c * 4 + 4 * (c * int (length rates)) \<le> UINT64_MAX"
    using Cons.prems by (simp add: algebra_simps)
  moreover have "0 \<le> c * r" using r Cons.prems by auto
  ultimately have b: "acc + c * r + 4 * (c * int (length rates)) \<le> UINT64_MAX"
    "acc + c * r \<le> UINT64_MAX" "0 \<le> c * r" "c * r \<le> UINT64_MAX"
    using Cons.prems by linarith+
  have "prod_list (take n [c, r]) \<le> UINT64_MAX" if "n \<le> 2" for n
    using that b r Cons.prems by (cases n; cases "n - 1") (auto simp: UINT64_MAX_def)
  then have "checked_mul [c, r] = Inr (c * r)"
    using b r Cons.prems by (auto simp: checked_mul_Inr UINT64_MAX_def)
  moreover have "checked_add acc (c * r) = Inr (acc + c * r)" using b Cons.prems by simp
  ultimately show ?case using Cons.IH [of "acc + c * r"] Cons.prems b
    by (simp add: algebra_simps)
qed

lemma rate_map_ok_sum: "rate_map_ok rates \<Longrightarrow> sum_list rates = 448"
proof -
  assume ok: "rate_map_ok rates"
  have "set rates \<subseteq> {3, 4} \<Longrightarrow> sum_list rates = 3 * int (length rates) + int (count_list rates 4)" for rates
    by (induction rates) auto
  with ok show ?thesis by (simp add: rate_map_ok_def)
qed

lemma payload_bytes_ok:
  assumes "rate_map_ok rates" "0 \<le> c" "c * 512 \<le> UINT64_MAX"
  shows "payload_bytes c (PList (map PInt rates)) = Inr (c * 56)"
proof -
  have v: "validate_rate_map (PList (map PInt rates)) = Inr rates"
    using assms(1) by (simp add: validate_rate_map_Inr)
  have "rfold (\<lambda>bits rate. rbind (checked_mul [c, rate]) (checked_add bits)) 0 rates
      = Inr (c * 448)"
    using payload_bits_fold [of rates c 0] assms rate_map_ok_sum [of rates]
    by (simp add: rate_map_ok_def)
  with v show ?thesis unfolding payload_bytes_def
    by (simp add: mod_mult_right_eq [symmetric, of c 448])
qed

definition default_rates :: "int list" where
  "default_rates = replicate 64 3 @ replicate 64 4"

lemma default_rate_map_eq: "default_rate_map = PList (map PInt default_rates)"
  by (simp add: default_rate_map_def default_rates_def trellis_constants)

lemma default_rates_ok: "rate_map_ok default_rates"
  by code_simp

lemma family_layout_rates:
  assumes "rate_map_ok rates" "p \<in> {GATE_UP, DOWN}"
  shows "family_layout rates p = family_layout default_rates p"
proof -
  have "payload_bytes c (PList (map PInt rates)) = payload_bytes c (PList (map PInt default_rates))"
    if "encoded_coefficients_per_expert p = Inr c" for c
  proof -
    have "c \<in> {3964928, 2162688}" using that assms(2)
      by (auto simp: encoded_coefficients_per_expert_def checked_mul_Inr GATE_UP_def DOWN_def)
    then show ?thesis using payload_bytes_ok [OF assms(1), of c] payload_bytes_ok [OF default_rates_ok, of c]
      by (auto simp: UINT64_MAX_def)
  qed
  then show ?thesis unfolding family_layout_def
    by (cases "encoded_coefficients_per_expert p") simp_all
qed

definition gate_up_report :: family_report where
  "gate_up_report = \<lparr>fr_logical_input = 2816, fr_physical_input = 2816, fr_output = 1408,
     fr_logical_coefficients = 15225323520, fr_encoded_coefficients = 15225323520,
     fr_k3_payload_bytes_per_layer = 95158272, fr_k4_payload_bytes_per_layer = 126877696,
     fr_trellis_payload_bytes = 6661079040, fr_suh_bytes = 21626880, fr_svh_bytes = 10813440,
     fr_rate_descriptor_bytes = 30720, fr_alignment_bytes = 0, fr_total_bytes = 6693550080\<rparr>"

definition down_report :: family_report where
  "down_report = \<lparr>fr_logical_input = 704, fr_physical_input = 768, fr_output = 2816,
     fr_logical_coefficients = 7612661760, fr_encoded_coefficients = 8304721920,
     fr_k3_payload_bytes_per_layer = 51904512, fr_k4_payload_bytes_per_layer = 69206016,
     fr_trellis_payload_bytes = 3633315840, fr_suh_bytes = 5898240, fr_svh_bytes = 21626880,
     fr_rate_descriptor_bytes = 30720, fr_alignment_bytes = 0, fr_total_bytes = 3660871680\<rparr>"

lemma checked_nonnegative_PInt:
  "checked_nonnegative (PInt i) = (if i < 0 then Inl (InvalidPlanError ''must be a non-negative integer'')
     else if UINT64_MAX < i then Inl (InvalidPlanError ''exceeds uint64'') else Inr i)"
  by (simp add: checked_nonnegative_def)

lemmas layout_evaluation = family_layout_def GATE_UP_def DOWN_def
  logical_coefficients_per_expert_def encoded_coefficients_per_expert_def checked_mul_def
  checked_nonnegative_PInt payload_bytes_ok [OF default_rates_ok] pool_bytes_def
  trellis_constants align_up_def checked_add_def sum_checked_def total_over_layers_def

lemma family_layout_default:
  "family_layout default_rates GATE_UP = Inr gate_up_report"
  "family_layout default_rates DOWN = Inr down_report"
  unfolding gate_up_report_def down_report_def by (simp_all add: layout_evaluation)

lemma family_layouts:
  "rate_map_ok rates \<Longrightarrow> rmap (family_layout rates) [GATE_UP, DOWN] = Inr [gate_up_report, down_report]"
  by (simp add: family_layout_rates family_layout_default)

lemma column_totals:
  "column_total fr_logical_coefficients [gate_up_report, down_report] = Inr 22837985280"
  "column_total fr_encoded_coefficients [gate_up_report, down_report] = Inr 23530045440"
  "column_total fr_trellis_payload_bytes [gate_up_report, down_report] = Inr 10294394880"
  "column_total fr_suh_bytes [gate_up_report, down_report] = Inr 27525120"
  "column_total fr_svh_bytes [gate_up_report, down_report] = Inr 32440320"
  "column_total fr_rate_descriptor_bytes [gate_up_report, down_report] = Inr 61440"
  "column_total fr_alignment_bytes [gate_up_report, down_report] = Inr 0"
  "sum_checked (map fr_total_bytes [gate_up_report, down_report] @ [0]) = Inr 10354421760"
  by code_simp+

lemma bpw_rounding_encoded:
  "round_mag binary64 (82355159040 / 23530045440) = Some (7 / 2)"
  by (rule trans [OF round_mag_certificate [where e = 1 and k = "- 51" and n = 7881299347898368]])
    (simp_all add: binary64_def two_pow_def fp_limit_def)

lemma bpw_rounding_logical:
  "round_mag binary64 (82355159040 / 22837985280) = Some (8120126600864985 / 2251799813685248)"
  by (rule trans [OF round_mag_certificate [where e = 1 and k = "- 51" and n = 8120126600864985]])
    (simp_all add: binary64_def two_pow_def fp_limit_def)

lemma bpw_rounding_effective:
  "round_mag binary64 (82835374080 / 22837985280) = Some (2041868816721339 / 562949953421312)"
  by (rule trans [OF round_mag_certificate [where e = 1 and k = "- 51" and n = 8167475266885356]])
    (simp_all add: binary64_def two_pow_def fp_limit_def)

lemma bpw_values:
  "int_true_div 82355159040 23530045440 = Inr (Fin False (7 / 2))"
  "int_true_div 82355159040 22837985280 = Inr (Fin False (8120126600864985 / 2251799813685248))"
  "int_true_div 82835374080 22837985280 = Inr (Fin False (2041868816721339 / 562949953421312))"
  using bpw_rounding_encoded bpw_rounding_logical bpw_rounding_effective
  by (simp_all add: int_true_div_def)

text \<open>The report of every accepted input.\<close>

definition expected_layout :: "int \<Rightarrow> int \<Rightarrow> int \<Rightarrow> int \<Rightarrow> layout_report" where
  "expected_layout a g d e = \<lparr>lr_logical_coefficients = 22837985280,
     lr_encoded_coefficients = 23530045440, lr_payload_bytes = 10294394880,
     lr_suh_bytes = 27525120, lr_svh_bytes = 32440320, lr_descriptor_bytes = 61440,
     lr_codebook_bytes = 0, lr_alignment_bytes = 0, lr_total_expert_bytes = 10354421760,
     lr_total_target_arena_bytes = a - e + 10354421760,
     lr_saving_bytes = a - (a - e + 10354421760),
     lr_payload_bpw_encoded = Fin False (7 / 2),
     lr_payload_bpw_logical = Fin False (8120126600864985 / 2251799813685248),
     lr_effective_expert_bpw = Fin False (2041868816721339 / 562949953421312),
     lr_baseline = (a, g, d, a - e),
     lr_families = [(''gate_up'', gate_up_report), (''down'', down_report)]\<rparr>"

lemma estimate_given_rates:
  assumes "validate_rate_map (case rate_map of None \<Rightarrow> default_rate_map | Some m \<Rightarrow> m) = Inr rates"
    and "rate_map_ok rates"
  shows "estimate_trellis35_layout arena gate_up down rate_map =
     rbind (checked_nonnegative arena) (\<lambda>a.
     rbind (checked_nonnegative gate_up) (\<lambda>g.
     rbind (checked_nonnegative down) (\<lambda>d.
     rbind (checked_add g d) (\<lambda>e.
     if a < e then Inl (InvalidPlanError ''baseline routed experts exceed the baseline arena'')
     else rbind (checked_add (a - e) 10354421760) (\<lambda>t. Inr (expected_layout a g d e
       \<lparr>lr_total_target_arena_bytes := t, lr_saving_bytes := a - t\<rparr>))))))"
proof -
  have names: "proj_name GATE_UP = ''gate_up''" "proj_name DOWN = ''down''"
    by (simp_all add: GATE_UP_def DOWN_def)
  show ?thesis
    unfolding estimate_trellis35_layout_def assms(1) Let_def names expected_layout_def
    by (simp del: rmap.simps list.map append.simps
        add: family_layouts [OF assms(2)] column_totals bpw_values cong: if_cong)
qed

lemma validate_choice:
  "validate_rate_map (case rate_map of None \<Rightarrow> default_rate_map | Some m \<Rightarrow> m) = Inr rates
    \<longleftrightarrow> rate_map_ok rates \<and> (case rate_map of None \<Rightarrow> rates = default_rates
        | Some m \<Rightarrow> m = PList (map PInt rates))"
proof (cases rate_map)
  case None
  have "map PInt xs = map PInt ys \<longleftrightarrow> xs = ys" for xs ys
    by (simp add: inj_map_eq_map inj_def)
  with None show ?thesis using default_rates_ok
    by (auto simp: validate_rate_map_Inr default_rate_map_eq)
qed (auto simp: validate_rate_map_Inr)

lemma estimate_layout_Inr:
  "estimate_trellis35_layout arena gate_up down rate_map = Inr r \<longleftrightarrow>
     (\<exists>a g d rates. arena = PInt a \<and> gate_up = PInt g \<and> down = PInt d \<and> rate_map_ok rates
        \<and> (case rate_map of None \<Rightarrow> rates = default_rates
           | Some m \<Rightarrow> m = PList (map PInt rates))
        \<and> 0 \<le> g \<and> 0 \<le> d \<and> g + d \<le> a \<and> a \<le> UINT64_MAX
        \<and> a - (g + d) + 10354421760 \<le> UINT64_MAX \<and> r = expected_layout a g d (g + d))"
  (is "_ \<longleftrightarrow> ?R")
proof (cases "validate_rate_map (case rate_map of None \<Rightarrow> default_rate_map | Some m \<Rightarrow> m)")
  case (Inl e)
  then have "\<not> ?R" using validate_choice [of rate_map] by (metis Inl_Inr_False)
  with Inl show ?thesis by (simp add: estimate_trellis35_layout_def)
next
  case (Inr rates)
  with validate_choice have ok: "rate_map_ok rates" by blast
  have choice: "rate_map_ok rs \<and> (case rate_map of None \<Rightarrow> rs = default_rates
        | Some m \<Rightarrow> m = PList (map PInt rs)) \<longleftrightarrow> rs = rates" for rs
    using validate_choice [of rate_map rs] Inr by auto
  have r: "expected_layout a g d e \<lparr>lr_total_target_arena_bytes := a - e + 10354421760,
      lr_saving_bytes := a - (a - e + 10354421760)\<rparr> = expected_layout a g d e" for a g d e
    by (simp add: expected_layout_def)
  show ?thesis
    unfolding estimate_given_rates [OF Inr ok] conj_assoc [symmetric]
    using choice r by (auto simp: conj_assoc)
qed

section \<open>Claims\<close>

text \<open>
  C26. \<open>align_up\<close> returns the least multiple of the alignment that is not below the value: no
  region is misaligned, and less than one alignment unit of padding is ever added.
\<close>

theorem align_up_least_multiple:
  assumes "align_up v a = Inr r"
  shows "a dvd r \<and> v \<le> r \<and> r < v + a \<and> (\<forall>w. v \<le> w \<and> a dvd w \<longrightarrow> r \<le> w)"
proof -
  from assms obtain k where k: "a = 2 ^ k" and r: "r = v + (- v) mod a"
    by (auto simp: align_up_Inr)
  have a: "0 < a" by (simp add: k)
  moreover have "0 \<le> (- v) mod a" using a by simp
  ultimately show ?thesis using add_neg_mod_least [OF a] by (simp add: r)
qed

theorem align_up_least_multiple_witness:
  "align_up 1000 256 = Inr 1024 \<and> (256::int) dvd 1024 \<and> (1024::int) < 1000 + 256"
proof -
  have h: "align_up 1000 256 = Inr 1024"
    by (simp add: align_up_def checked_nonnegative_PInt UINT64_MAX_def)
  show ?thesis using h align_up_least_multiple [OF h] by simp
qed

text \<open>
  \<open>align_up\<close> refuses every alignment that is not a power of two, zero included, and every
  result beyond 64 bits; all other non-negative requests are served.
\<close>

lemma align_up_accepts:
  "(\<exists>r. align_up v a = Inr r) \<longleftrightarrow>
     0 \<le> v \<and> (\<exists>k. a = 2 ^ k) \<and> a \<le> UINT64_MAX \<and> v + (- v) mod a \<le> UINT64_MAX"
  by (auto simp: align_up_Inr)

text \<open>
  C27. A rate map produced from proxy benefits is valid (128 experts, 64 at three bits and 64 at
  four) and gives four bits to the best experts: a four-bit expert has a positive benefit, and
  it has a larger benefit than any three-bit expert, or the same benefit and a smaller index.
\<close>

theorem select_rate_map_best:
  assumes "select_rate_map (PList raw) = Inr rates"
    and "rmap check_benefit raw = Inr benefits"
  shows "rate_map_ok rates
    \<and> (\<forall>i<128. rates ! i = 4 \<longrightarrow> 0 < fval (benefits ! i))
    \<and> (\<forall>i<128. \<forall>j<128. rates ! i = 4 \<longrightarrow> rates ! j = 3 \<longrightarrow>
         fval (benefits ! j) < fval (benefits ! i)
         \<or> fval (benefits ! j) = fval (benefits ! i) \<and> i < j)"
proof -
  let ?sel = "take 64 (rank_experts benefits)" and ?k4 = "snd ` set (take 64 (rank_experts benefits))"
  have len: "length benefits = 128" and positive: "\<not> float_le (fst (last ?sel)) (Fin False 0)"
    and valid: "validate_rate_map (PList (map (\<lambda>e. PInt (if e \<in> ?k4 then 4 else 3)) [0..<128])) = Inr rates"
    using assms rmap_length [OF assms(2)]
    by (auto simp: select_rate_map_def trellis_constants Let_def)
  from valid have ok: "rate_map_ok rates"
    and "map PInt (map (\<lambda>e. if e \<in> ?k4 then 4 else 3) [0..<128]) = map PInt rates"
    by (auto simp: validate_rate_map_Inr comp_def)
  then have rates: "rates = map (\<lambda>e. if e \<in> ?k4 then 4 else 3) [0..<128]"
    by (metis inj_map_eq_map inj_def pyval.inject(2))
  have best: "fval (benefits ! j) < fval (benefits ! i) \<or> fval (benefits ! j) = fval (benefits ! i) \<and> i < j"
    if "i < 128" "j < 128" "rates ! i = 4" "rates ! j = 3" for i j
    using that rank_selection [of i benefits j 64] len by (auto simp: rates split: if_splits)
  have pos: "0 < fval (benefits ! i)" if "i < 128" "rates ! i = 4" for i
  proof -
    have ne: "?sel \<noteq> []" using len by (metis length_rank_experts list.size(3) take_eq_Nil zero_neq_numeral)
    have sorted: "sorted (map rank_of ?sel)" by (simp add: rank_experts_def flip: take_map)
    have "is_finite b" if "b \<in> set benefits" for b
      using that assms(2) check_benefit_finite by (metis in_set_conv_nth rmap_length rmap_nth)
    moreover have "fst x \<in> set benefits" if "x \<in> set ?sel" for x
      using that in_set_takeD by (fastforce simp: set_rank_experts)
    ultimately have fin: "is_finite (fst x)" if "x \<in> set ?sel" for x using that by blast
    from that obtain x where x: "x \<in> set ?sel" "snd x = i" by (auto simp: rates split: if_splits)
    then have xi: "fst x = benefits ! i" using in_set_takeD by (fastforce simp: set_rank_experts)
    have "rank_of x \<le> rank_of (last ?sel)"
      using sorted_le_last [OF sorted, of "rank_of x"] x(1) ne by (simp add: last_map)
    moreover have "0 < fval (fst (last ?sel))"
      using positive fin [OF last_in_set [OF ne]]
      by (cases "fst (last ?sel)") (auto simp: float_le_def fval_def)
    ultimately show ?thesis by (auto simp: rank_of_def less_eq_rank_key_def xi [symmetric])
  qed
  show ?thesis using ok best pos by blast
qed

text \<open>A concrete input: the first half of the experts gains by a fourth bit.\<close>

definition sample_floats :: "pyfloat list" where
  "sample_floats = replicate 64 (Fin False 1) @ replicate 64 (Fin False 0)"

lemma sample_checked: "rmap check_benefit (map PFloat sample_floats) = Inr sample_floats"
  by (auto simp: rmap_Inr_iff list_all2_conv_all_nth check_benefit_def sample_floats_def nth_append)

lemma sample_sorted: "sorted (map rank_of (zip sample_floats [0..<128]))"
  by (auto simp: sorted_iff_nth_mono sample_floats_def nth_append rank_of_def less_eq_rank_key_def fval_def)

lemma sample_ranked: "rank_experts sample_floats = zip sample_floats [0..<128]"
  using sample_sorted by (simp add: rank_experts_def sample_floats_def sort_key_id_if_sorted)

lemma sample_selected: "map snd (take 64 (zip sample_floats [0..<128])) = [0..<64]"
  by (simp add: take_zip sample_floats_def take_upt)

lemma sample_last: "fst (last (take 64 (zip sample_floats [0..<128]))) = Fin False 1"
  by (simp add: last_conv_nth sample_floats_def nth_append)

lemma sample_valid: "validate_rate_map (PList (map (\<lambda>e. PInt (if e \<in> {0..<64} then 4 else 3)) [0..<128])) = Inr (replicate 64 4 @ replicate 64 3)"
  by code_simp

lemma sample_rate_map: "select_rate_map (PList (map PFloat sample_floats)) = Inr (replicate 64 4 @ replicate 64 3)"
  using sample_valid sample_checked sample_ranked sample_selected sample_last
  by (simp add: select_rate_map_def trellis_constants Let_def float_le_def fval_def flip: set_map) (simp add: sample_floats_def)

theorem select_rate_map_best_witness:
  "select_rate_map (PList (map PFloat sample_floats)) = Inr (replicate 64 4 @ replicate 64 3)
    \<and> rate_map_ok (replicate 64 4 @ replicate 64 3)"
  using sample_rate_map select_rate_map_best [OF sample_rate_map sample_checked] by simp

text \<open>
  The estimate accepts exactly a well-formed baseline with a valid rate map (or none), and
  its totals are determined by the baseline alone: which experts get four bits does not change
  a byte.
\<close>

lemma layout_independent_of_experts:
  assumes "rate_map_ok rates"
  shows "estimate_trellis35_layout arena gate_up down (Some (PList (map PInt rates)))
    = estimate_trellis35_layout arena gate_up down None"
proof -
  have "validate_rate_map (case Some (PList (map PInt rates)) of None \<Rightarrow> default_rate_map | Some m \<Rightarrow> m) = Inr rates"
    and "validate_rate_map (case None of None \<Rightarrow> default_rate_map | Some m \<Rightarrow> m) = Inr default_rates"
    using assms default_rates_ok by (simp_all add: validate_rate_map_Inr default_rate_map_eq)
  then show ?thesis using assms default_rates_ok by (simp only: estimate_given_rates)
qed

theorem layout_independent_of_experts_witness:
  "estimate_trellis35_layout (PInt 12000000000) (PInt 1) (PInt 2)
      (Some (PList (map PInt (replicate 64 4 @ replicate 64 3))))
    = estimate_trellis35_layout (PInt 12000000000) (PInt 1) (PInt 2) None"
proof -
  have h: "rate_map_ok (replicate 64 4 @ replicate 64 3)" by code_simp
  show ?thesis by (rule layout_independent_of_experts [OF h])
qed

text \<open>
  C28. The byte accounting of the estimate reconciles: the expert total is the sum of payload,
  sidecars, descriptors, codebook and alignment padding; the target arena replaces exactly the
  baseline's routed experts; the payload is the K3 and K4 pools over the 30 layers, at exactly
  3.5 bits for each encoded coefficient.
\<close>

theorem layout_reconciles:
  assumes "estimate_trellis35_layout arena gate_up down rate_map = Inr r"
  shows "lr_total_expert_bytes r = lr_payload_bytes r + lr_suh_bytes r + lr_svh_bytes r
           + lr_descriptor_bytes r + lr_codebook_bytes r + lr_alignment_bytes r
    \<and> (case lr_baseline r of (a, g, d, n) \<Rightarrow>
         n = a - g - d \<and> 0 \<le> n \<and> lr_total_target_arena_bytes r = n + lr_total_expert_bytes r
         \<and> lr_saving_bytes r = a - lr_total_target_arena_bytes r)
    \<and> lr_payload_bytes r = 30 * sum_list (map (\<lambda>(_, f). fr_k3_payload_bytes_per_layer f
           + fr_k4_payload_bytes_per_layer f) (lr_families r))
    \<and> 2 * (8 * lr_payload_bytes r) = 7 * lr_encoded_coefficients r
    \<and> lr_payload_bpw_encoded r = Fin False (7 / 2)"
  using assms
  by (auto simp: estimate_layout_Inr expected_layout_def gate_up_report_def down_report_def)

theorem layout_reconciles_witness:
  "(\<exists>r. estimate_trellis35_layout (PInt 12000000000) (PInt 6000000000) (PInt 3000000000) None = Inr r
     \<and> lr_saving_bytes r = - 1354421760)
    \<and> 2 * (8 * 10294394880) = 7 * (23530045440 :: int)"
proof -
  have h: "estimate_trellis35_layout (PInt 12000000000) (PInt 6000000000) (PInt 3000000000) None
      = Inr (expected_layout 12000000000 6000000000 3000000000 9000000000)"
    using default_rates_ok by (simp add: estimate_layout_Inr UINT64_MAX_def)
  show ?thesis using h layout_reconciles [OF h] by (simp add: expected_layout_def)
qed

end
