(* ===== verification/Digits.thy ===== *)
theory Digits
  imports Prelude "HOL-Library.Word"
begin

text \<open>
  Numbers as fixed-length digit strings, most significant digit first. The tile packers regroup
  the bits of a span from K-bit digits to 16-bit digits; both directions are instances of the
  two laws below.
\<close>

unbundle bit_operations_syntax

type_synonym bytes = "8 word list"

primrec from_digits_acc :: "nat \<Rightarrow> nat \<Rightarrow> nat list \<Rightarrow> nat" where
  "from_digits_acc b acc [] = acc"
| "from_digits_acc b acc (d # ds) = from_digits_acc b (acc * b + d) ds"

abbreviation from_digits :: "nat \<Rightarrow> nat list \<Rightarrow> nat" where
  "from_digits b ds \<equiv> from_digits_acc b 0 ds"

definition to_digits :: "nat \<Rightarrow> nat \<Rightarrow> nat \<Rightarrow> nat list" where
  "to_digits b n x = map (\<lambda>i. x div b ^ (n - 1 - i) mod b) [0..<n]"

lemma length_to_digits [simp]: "length (to_digits b n x) = n"
  by (simp add: to_digits_def)

lemma to_digits_bound: "0 < b \<Longrightarrow> d \<in> set (to_digits b n x) \<Longrightarrow> d < b"
  by (auto simp: to_digits_def)

lemma from_digits_acc_add:
  "from_digits_acc b acc ds = acc * b ^ length ds + from_digits b ds"
proof (induction ds arbitrary: acc)
  case (Cons d ds)
  show ?case
    using Cons.IH [of "acc * b + d"] Cons.IH [of d] by (simp add: algebra_simps)
qed simp

lemma from_digits_append1: "from_digits b (ds @ [d]) = from_digits b ds * b + d"
proof -
  have "from_digits_acc b acc (ds @ [d]) = from_digits_acc b acc ds * b + d" for acc
    by (induction ds arbitrary: acc) auto
  then show ?thesis .
qed

lemma from_digits_bound: "\<forall>d\<in>set ds. d < b \<Longrightarrow> from_digits b ds < b ^ length ds"
proof (induction ds rule: rev_induct)
  case (snoc d ds)
  then have "from_digits b ds + 1 \<le> b ^ length ds" and "d < b" by simp_all
  then have "(from_digits b ds + 1) * b \<le> b ^ length ds * b" by (intro mult_right_mono) simp_all
  with \<open>d < b\<close> show ?case by (simp add: from_digits_append1 algebra_simps)
qed simp

lemma to_digits_Suc: "to_digits b (Suc n) x = to_digits b n (x div b) @ [x mod b]"
proof -
  have "x div b ^ (n - i) mod b = (x div b) div b ^ (n - 1 - i) mod b" if "i < n" for i
  proof -
    have "n - i = Suc (n - 1 - i)" using that by simp
    then show ?thesis by (simp add: div_mult2_eq)
  qed
  then show ?thesis by (simp add: to_digits_def)
qed

lemma to_from_digits:
  "\<forall>d\<in>set ds. d < b \<Longrightarrow> to_digits b (length ds) (from_digits b ds) = ds"
proof (induction ds rule: rev_induct)
  case Nil
  then show ?case by (simp add: to_digits_def)
next
  case (snoc d ds)
  then show ?case by (simp add: to_digits_Suc from_digits_append1)
qed

lemma from_to_digits: "0 < b \<Longrightarrow> from_digits b (to_digits b n x) = x mod b ^ n"
proof (induction n arbitrary: x)
  case 0
  then show ?case by (simp add: to_digits_def)
next
  case (Suc n)
  then have "from_digits b (to_digits b (Suc n) x) = x div b mod b ^ n * b + x mod b"
    by (simp add: to_digits_Suc from_digits_append1)
  also have "\<dots> = x mod b ^ Suc n" by (simp add: mod_mult2_eq mult.commute)
  finally show ?case .
qed

text \<open>The shift-and-or accumulation the code writes is the digit accumulation.\<close>

lemma push_or_eq_add: "(d::nat) < 2 ^ k \<Longrightarrow> push_bit k a OR d = a * 2 ^ k + d"
proof -
  assume d: "d < 2 ^ k"
  have "push_bit k a AND d = 0"
  proof (rule bit_eqI)
    fix n
    have "\<not> bit d n" if "k \<le> n"
      using d that by (metis bit_take_bit_iff leD take_bit_nat_eq_self)
    then show "bit (push_bit k a AND d) n \<longleftrightarrow> bit 0 n" by (auto simp: bit_simps)
  qed
  then show ?thesis by (simp add: disjunctive_add_eq_or [symmetric] push_bit_eq_mult)
qed

lemma and_mask_nat: "(x::nat) AND (2 ^ k - 1) = x mod 2 ^ k"
  by (metis mask_eq_exp_minus_1 take_bit_eq_mask take_bit_eq_mod)

lemma and_mask_nat': "(x :: nat) AND (2 ^ k - Suc 0) = x mod 2 ^ k"
  using and_mask_nat by simp

lemma foldl_push_or:
  "\<forall>d\<in>set ds. d < 2 ^ k \<Longrightarrow>
   foldl (\<lambda>b d. push_bit k b OR d) acc ds = from_digits_acc (2 ^ k) acc ds"
  by (induction ds arbitrary: acc) (auto simp: push_or_eq_add)

section \<open>Lists of fixed-size groups\<close>

text \<open>\<open>xs[i * n:(i + 1) * n]\<close> for \<open>i\<close> below \<open>m\<close>.\<close>

definition chunks :: "nat \<Rightarrow> nat \<Rightarrow> 'a list \<Rightarrow> 'a list list" where
  "chunks m n xs = map (\<lambda>i. take n (drop (i * n) xs)) [0..<m]"

lemma length_chunks [simp]: "length (chunks m n xs) = m"
  by (simp add: chunks_def)

lemma length_in_chunks: "length xs = m * n \<Longrightarrow> c \<in> set (chunks m n xs) \<Longrightarrow> length c = n"
proof -
  assume xs: "length xs = m * n" and "c \<in> set (chunks m n xs)"
  then obtain i where i: "i < m" "c = take n (drop (i * n) xs)" by (auto simp: chunks_def)
  then have "Suc i * n \<le> m * n" by (intro mult_right_mono) simp_all
  with xs i show ?thesis by simp
qed

lemma chunks_Suc: "chunks (Suc m) n xs = take n xs # chunks m n (drop n xs)"
proof -
  have "[0..<Suc m] = 0 # map Suc [0..<m]" by (simp add: map_Suc_upt upt_conv_Cons)
  then show ?thesis by (simp add: chunks_def comp_def add.commute)
qed

lemma concat_chunks: "length xs = m * n \<Longrightarrow> concat (chunks m n xs) = xs"
proof (induction m arbitrary: xs)
  case 0
  then show ?case by (simp add: chunks_def)
next
  case (Suc m)
  then show ?case by (simp add: chunks_Suc)
qed

lemma chunks_concat:
  "\<forall>c\<in>set cs. length c = n \<Longrightarrow> chunks (length cs) n (concat cs) = cs"
proof (induction cs)
  case Nil
  then show ?case by (simp add: chunks_def)
next
  case (Cons c cs)
  then show ?case by (simp add: chunks_Suc)
qed

text \<open>Regrouping \<open>m\<close> groups of \<open>n\<close> digits in base \<open>b\<close> as groups of \<open>n'\<close> digits in base \<open>b'\<close>.\<close>

definition regroup :: "nat \<Rightarrow> nat \<Rightarrow> nat \<Rightarrow> nat \<Rightarrow> nat \<Rightarrow> nat list \<Rightarrow> nat list" where
  "regroup b n b' n' m xs = concat (map (\<lambda>c. to_digits b' n' (from_digits b c)) (chunks m n xs))"

lemma length_regroup [simp]: "length (regroup b n b' n' m xs) = m * n'"
  by (simp add: regroup_def length_concat comp_def sum_list_triv)

lemma regroup_bound: "0 < b' \<Longrightarrow> d \<in> set (regroup b n b' n' m xs) \<Longrightarrow> d < b'"
  using to_digits_bound by (auto simp: regroup_def)

lemma regroup_regroup:
  assumes "b ^ n = b' ^ n'" "0 < b'" "length xs = m * n" "\<forall>d\<in>set xs. d < b"
  shows "regroup b' n' b n m (regroup b n b' n' m xs) = xs"
proof -
  let ?f = "\<lambda>c. to_digits b' n' (from_digits b c)"
  have "chunks m n' (regroup b n b' n' m xs) = map ?f (chunks m n xs)"
    using chunks_concat [of "map ?f (chunks m n xs)" n'] by (simp add: regroup_def)
  then have "regroup b' n' b n m (regroup b n b' n' m xs)
      = concat (map (\<lambda>c. to_digits b n (from_digits b' (?f c))) (chunks m n xs))"
    by (simp add: regroup_def comp_def)
  also have "map (\<lambda>c. to_digits b n (from_digits b' (?f c))) (chunks m n xs) = map (\<lambda>c. c) (chunks m n xs)"
  proof (rule map_cong [OF refl])
    fix c
    assume c: "c \<in> set (chunks m n xs)"
    have len: "length c = n" using length_in_chunks [OF assms(3) c] .
    have "set c \<subseteq> set xs" using c by (auto simp: chunks_def dest!: in_set_takeD in_set_dropD)
    then have bound: "\<forall>d\<in>set c. d < b" using assms(4) by blast
    then have "from_digits b c < b' ^ n'" using from_digits_bound [OF bound] len assms(1) by simp
    then have "from_digits b' (?f c) = from_digits b c" using assms(2) by (simp add: from_to_digits)
    then show "to_digits b n (from_digits b' (?f c)) = c" using to_from_digits [OF bound] len by simp
  qed
  also have "concat (map (\<lambda>c. c) (chunks m n xs)) = xs" using concat_chunks [OF assms(3)] by simp
  finally show ?thesis .
qed

text \<open>Swapping the members of adjacent pairs.\<close>

fun swap_pairs :: "'a list \<Rightarrow> 'a list" where
  "swap_pairs (x # y # zs) = y # x # swap_pairs zs"
| "swap_pairs xs = xs"

lemma length_swap_pairs [simp]: "length (swap_pairs xs) = length xs"
  by (induction xs rule: swap_pairs.induct) auto

lemma swap_pairs_swap_pairs [simp]: "swap_pairs (swap_pairs xs) = xs"
  by (induction xs rule: swap_pairs.induct) auto

lemma set_swap_pairs [simp]: "set (swap_pairs xs) = set xs"
  by (induction xs rule: swap_pairs.induct) auto

text \<open>\<open>struct.pack('<nH')\<close> and \<open>struct.unpack('<nH')\<close>.\<close>

definition pack_u16s :: "nat list \<Rightarrow> bytes" where
  "pack_u16s ws = concat (map (\<lambda>w. [word_of_nat (w mod 256), word_of_nat (w div 256)]) ws)"

fun unpack_u16s :: "bytes \<Rightarrow> nat list" where
  "unpack_u16s (lo # hi # rest) = (unat lo + 256 * unat hi) # unpack_u16s rest"
| "unpack_u16s _ = []"

lemma pack_u16s_Cons:
  "pack_u16s (w # ws) = word_of_nat (w mod 256) # word_of_nat (w div 256) # pack_u16s ws"
  by (simp add: pack_u16s_def)

lemma length_pack_u16s [simp]: "length (pack_u16s ws) = 2 * length ws"
  by (induction ws) (simp_all add: pack_u16s_def)

lemma unpack_pack_u16s: "\<forall>w\<in>set ws. w < 65536 \<Longrightarrow> unpack_u16s (pack_u16s ws) = ws"
proof (induction ws)
  case Nil
  then show ?case by (simp add: pack_u16s_def)
next
  case (Cons w ws)
  then have "w div 256 < 256" by (simp add: less_mult_imp_div_less)
  with Cons show ?case by (simp add: pack_u16s_Cons unat_of_nat)
qed

lemma length_unpack_u16s: "length (unpack_u16s bs) = length bs div 2"
  by (induction bs rule: unpack_u16s.induct) auto

lemma unpack_u16s_bound: "w \<in> set (unpack_u16s bs) \<Longrightarrow> w < 65536"
proof (induction bs rule: unpack_u16s.induct)
  case (1 lo hi rest)
  have "unat lo < 256" "unat hi < 256" using unsigned_less [of lo] unsigned_less [of hi] by simp_all
  with 1 show ?case by auto
qed auto

lemma pack_unpack_u16s: "even (length bs) \<Longrightarrow> pack_u16s (unpack_u16s bs) = bs"
proof (induction bs rule: unpack_u16s.induct)
  case (1 lo hi rest)
  have "unat lo < 256" using unsigned_less [of lo] by simp
  then have "(unat lo + 256 * unat hi) mod 256 = unat lo"
    and "(unat lo + 256 * unat hi) div 256 = unat hi" by simp_all
  with 1 show ?case by (simp add: pack_u16s_Cons)
qed (simp_all add: pack_u16s_def)

text \<open>\<open>struct.pack("<Q", n)\<close> and \<open>struct.unpack("<Q", data)\<close>: eight bytes, least significant first.\<close>

definition pack_u64 :: "nat \<Rightarrow> bytes" where
  "pack_u64 n = map word_of_nat (rev (to_digits 256 8 n))"

definition unpack_u64 :: "bytes \<Rightarrow> nat" where
  "unpack_u64 data = from_digits 256 (rev (map unat data))"

lemma length_pack_u64 [simp]: "length (pack_u64 n) = 8"
  by (simp add: pack_u64_def)

lemma unpack_pack_u64: "unpack_u64 (pack_u64 n) = n mod 2 ^ 64"
proof -
  have "unat (word_of_nat d :: 8 word) = d" if "d \<in> set (to_digits 256 8 n)" for d
    using to_digits_bound [OF _ that] by (simp add: unat_of_nat)
  then have "map unat (pack_u64 n) = rev (to_digits 256 8 n)"
    by (simp add: pack_u64_def map_idI o_def flip: rev_map)
  then show ?thesis by (simp add: unpack_u64_def from_to_digits)
qed

end
