(* ===== verification/Trellis_Tile.thy ===== *)
theory Trellis_Tile
  imports Digits Py_Value
begin

text \<open>
  The tile format of \<open>tools/gem16_compile/trellis35_quant.py\<close>: the Tensor-Core permutation and
  its inverse, the tail-biting state expansion of 256 branches, its validation, and the packing
  of a tile into 32 K bytes and back.
\<close>

definition TRELLIS_TILE_VALUES :: nat where "TRELLIS_TILE_VALUES = 256"
definition TRELLIS35_RATES :: "int list" where "TRELLIS35_RATES = [3, 4]"
definition UINT16_MAX :: nat where "UINT16_MAX = 2 ^ 16 - 1"

definition rate_bits :: "pyval \<Rightarrow> nat res" where
  "rate_bits value = (case plain_int value of
     None \<Rightarrow> Inl (InvalidPlanError ''tile rate must be K3 or K4'')
   | Some r \<Rightarrow> if r \<notin> set TRELLIS35_RATES
               then Inl (InvalidPlanError ''tile rate must be K3 or K4'') else Inr (nat r))"

section \<open>Permutations of a tile\<close>

text \<open>\<open>xs[offset:offset + len(ys)] = ys\<close> on a list that is long enough.\<close>

definition slice_set :: "nat \<Rightarrow> 'a list \<Rightarrow> 'a list \<Rightarrow> 'a list" where
  "slice_set offset ys xs = take offset xs @ ys @ drop (offset + length ys) xs"

definition thread_rows :: "nat \<Rightarrow> nat list" where
  "thread_rows thread =
    (let row0 = thread mod 4 * 2; row1 = row0 + 1; row2 = row0 + 8; row3 = row0 + 9;
         column0 = thread div 4; column1 = column0 + 8
     in [row0 * 16 + column0, row1 * 16 + column0, row2 * 16 + column0, row3 * 16 + column0,
         row0 * 16 + column1, row1 * 16 + column1, row2 * 16 + column1, row3 * 16 + column1])"

definition tensor_core_permutation :: "nat list res" where
  "tensor_core_permutation =
    (let permutation = fold (\<lambda>thread. slice_set (thread * 8) (thread_rows thread)) [0..<32]
           (replicate TRELLIS_TILE_VALUES 0)
     in if sort permutation \<noteq> [0..<TRELLIS_TILE_VALUES]
        then Inl (AssertionError ''Tensor-Core permutation is not bijective'')
        else Inr permutation)"

text \<open>The loop body: entry \<open>index\<close> of the permutation is stored into the inverse.\<close>

definition inverse_step :: "int list \<Rightarrow> nat \<times> pyval \<Rightarrow> int list res" where
  "inverse_step table item = (case item of (index, value) \<Rightarrow>
     (case plain_int value of
        None \<Rightarrow> Inl (InvalidPlanError ''invalid permutation entry'')
      | Some v \<Rightarrow>
          if v < 0 \<or> 256 \<le> v then Inl (InvalidPlanError ''invalid permutation entry'')
          else if table ! nat v \<noteq> - 1 then Inl (InvalidPlanError ''duplicate permutation value'')
          else Inr (table[nat v := int index])))"

definition inverse_permutation :: "pyval \<Rightarrow> int list res" where
  "inverse_permutation permutation = (case permutation of
     PList values \<Rightarrow>
       if length values \<noteq> TRELLIS_TILE_VALUES
       then Inl (InvalidPlanError ''permutation must contain 256 entries'')
       else rfold inverse_step (replicate TRELLIS_TILE_VALUES (- 1)) (enumerate 0 values)
   | _ \<Rightarrow> Inl (InvalidPlanError ''permutation must contain 256 entries''))"

section \<open>Branches and states\<close>

definition check_branch :: "nat \<Rightarrow> pyval \<Rightarrow> nat res" where
  "check_branch maximum branch = (case plain_int branch of
     None \<Rightarrow> Inl (InvalidPlanError ''branch must be in range'')
   | Some b \<Rightarrow> if b < 0 \<or> int maximum < b then Inl (InvalidPlanError ''branch must be in range'')
               else Inr (nat b))"

definition branch_tuple :: "pyval \<Rightarrow> pyval \<Rightarrow> nat list res" where
  "branch_tuple branches rate_bits_value =
     rbind (rate_bits rate_bits_value) (\<lambda>rate.
     case branches of
       PList bs \<Rightarrow> if length bs \<noteq> TRELLIS_TILE_VALUES
         then Inl (InvalidPlanError ''branch tile must contain 256 entries'')
         else rmap (check_branch (2 ^ rate - 1)) bs
     | _ \<Rightarrow> Inl (InvalidPlanError ''branch tile must contain 256 entries''))"

text \<open>The state of one position: its own branch and the branches before it, cyclically.\<close>

definition state_at :: "nat \<Rightarrow> nat list \<Rightarrow> nat \<Rightarrow> nat" where
  "state_at rate values index =
     foldl (\<lambda>state shift. state OR
        push_bit (rate * shift) (values ! nat ((int index - int shift) mod int TRELLIS_TILE_VALUES)))
       0 [0..<(16 + rate - 1) div rate] AND UINT16_MAX"

definition encoded_tile_from_branches :: "pyval \<Rightarrow> pyval \<Rightarrow> nat list res" where
  "encoded_tile_from_branches branches rate_bits_value =
     rbind (rate_bits rate_bits_value) (\<lambda>rate.
     rbind (branch_tuple branches rate_bits_value) (\<lambda>values.
     Inr (map (state_at rate values) [0..<TRELLIS_TILE_VALUES])))"

definition check_state :: "pyval \<Rightarrow> nat res" where
  "check_state value = (case plain_int value of
     None \<Rightarrow> Inl (InvalidPlanError ''encoded state is not U16'')
   | Some s \<Rightarrow> if s < 0 \<or> int UINT16_MAX < s then Inl (InvalidPlanError ''encoded state is not U16'')
               else Inr (nat s))"

definition py_ints :: "nat list \<Rightarrow> pyval" where
  "py_ints ns = PList (map (\<lambda>n. PInt (int n)) ns)"

definition validate_encoded_tile :: "pyval \<Rightarrow> pyval \<Rightarrow> nat list res" where
  "validate_encoded_tile encoded rate_bits_value =
     rbind (rate_bits rate_bits_value) (\<lambda>rate.
     case encoded of
       PList values \<Rightarrow> if length values \<noteq> TRELLIS_TILE_VALUES
         then Inl (InvalidPlanError ''encoded tile must contain 256 entries'')
         else rbind (rmap check_state values) (\<lambda>states.
           let mask = 2 ^ rate - 1 in
           rbind (encoded_tile_from_branches (py_ints (map (\<lambda>value. value AND mask) states))
                    (PInt (int rate))) (\<lambda>expected.
           if states \<noteq> expected
           then Inl (InvalidPlanError ''encoded tile violates the cyclic tail-biting contract'')
           else Inr states))
     | _ \<Rightarrow> Inl (InvalidPlanError ''encoded tile must contain 256 entries''))"

section \<open>Packing\<close>

definition pack_span :: "nat \<Rightarrow> nat list \<Rightarrow> nat \<Rightarrow> nat list" where
  "pack_span rate states spn =
    (let mask = 2 ^ rate - 1;
         bitstream = foldl (\<lambda>bitstream index.
             push_bit rate bitstream OR (states ! (spn * 16 + index) AND mask)) 0 [0..<16]
     in map (\<lambda>word. drop_bit (16 * (rate - word - 1)) bitstream AND UINT16_MAX) [0..<rate])"

definition pack_trellis_tile :: "pyval \<Rightarrow> pyval \<Rightarrow> bytes res" where
  "pack_trellis_tile encoded rate_bits_value =
     rbind (rate_bits rate_bits_value) (\<lambda>rate.
     rbind (validate_encoded_tile encoded (PInt (int rate))) (\<lambda>states.
     let words = concat (map (pack_span rate states) [0..<16]) in
     if length words \<noteq> 16 * rate \<or> length words mod 2 \<noteq> 0
     then Inl (AssertionError ''packed-word count mismatch'')
     else Inr (pack_u16s (swap_pairs words))))"

definition unpack_span :: "nat \<Rightarrow> nat list \<Rightarrow> nat \<Rightarrow> nat list" where
  "unpack_span rate words spn =
    (let mask = 2 ^ rate - 1;
         bitstream = foldl (\<lambda>bitstream word. push_bit 16 bitstream OR word) 0
           (take rate (drop (spn * rate) words))
     in map (\<lambda>index. drop_bit (rate * (15 - index)) bitstream AND mask) [0..<16])"

definition unpack_trellis_tile :: "bytes \<Rightarrow> pyval \<Rightarrow> nat list res" where
  "unpack_trellis_tile raw rate_bits_value =
     rbind (rate_bits rate_bits_value) (\<lambda>rate.
     if length raw \<noteq> 32 * rate
     then Inl (InvalidPlanError ''packed tile must contain 32 K bytes'')
     else let words = swap_pairs (unpack_u16s raw);
              branches = concat (map (unpack_span rate words) [0..<16])
          in encoded_tile_from_branches (py_ints branches) (PInt (int rate)))"

section \<open>The permutations\<close>

definition core_table :: "nat list" where
  "core_table = concat (map thread_rows [0..<32])"

text \<open>The thread that holds a row-major position.\<close>

definition holder_thread :: "nat \<Rightarrow> nat" where
  "holder_thread v = v div 16 mod 8 div 2 + 4 * (v mod 16 mod 8)"

lemma holder_thread_rows:
  assumes "v < 256"
  shows "v \<in> set (thread_rows (holder_thread v))"
proof -
  let ?q = "v div 16" and ?r = "v mod 16"
  let ?x = "?q mod 8 div 2" and ?y = "?r mod 8"
  define q r where "q = v div 16" and "r = v mod 16"
  define a x e b y where "a = q div 8" and "x = q mod 8 div 2" and "e = q mod 8 mod 2"
    and "b = r div 8" and "y = r mod 8"
  have v: "v = 16 * q + r" by (simp add: q_def r_def)
  have q: "q = 8 * a + (2 * x + e)" by (simp add: a_def x_def e_def)
  have r: "r = 8 * b + y" by (simp add: b_def y_def)
  have "q < 16" "r < 16" using assms by (simp_all add: q_def r_def)
  then have "a < 2" "b < 2" by (simp_all add: a_def b_def less_mult_imp_div_less)
  then have ab: "a = 0 \<or> a = 1" "b = 0 \<or> b = 1" by linarith+
  have e: "e = 0 \<or> e = 1" by (auto simp: e_def)
  have xy: "?x = x" "?y = y" by (simp_all add: x_def y_def q_def r_def)
  have "v \<in> {32 * ?x + ?y, 16 + 32 * ?x + ?y, 32 * ?x + 128 + ?y, 32 * ?x + 144 + ?y,
      32 * ?x + (?y + 8), 24 + (32 * ?x + ?y), 136 + (32 * ?x + ?y), 152 + (32 * ?x + ?y)}"
    unfolding xy using ab e by (elim disjE) (simp_all add: v q r)
  then show ?thesis by (simp add: holder_thread_def thread_rows_def Let_def)
qed

lemma length_thread_rows [simp]: "length (thread_rows t) = 8"
  by (simp add: thread_rows_def Let_def)

lemma length_core_table: "length core_table = 256"
  by (simp add: core_table_def length_concat comp_def sum_list_triv)

lemma set_core_table: "set core_table = {0..<256}"
proof (rule card_seteq [symmetric])
  show "{0..<256} \<subseteq> set core_table"
  proof
    fix v :: nat
    assume "v \<in> {0..<256}"
    then have "v < 256" by simp
    have "v mod 16 mod 8 < 8" and "v div 16 mod 8 div 2 < 4"
      by (simp_all add: less_mult_imp_div_less)
    then have "holder_thread v < 32" by (simp add: holder_thread_def)
    with holder_thread_rows [OF \<open>v < 256\<close>] show "v \<in> set core_table"
      by (auto simp: core_table_def)
  qed
  show "card (set core_table) \<le> card {0..<256::nat}"
    using card_length [of core_table] by (simp add: length_core_table)
qed simp

lemma distinct_core_table: "distinct core_table"
  by (simp add: card_distinct set_core_table length_core_table)

lemma sort_core_table: "sort core_table = [0..<256]"
proof (rule properties_for_sort)
  have "set [0..<256] = set core_table" by (simp only: set_core_table set_upt)
  then show "mset [0..<256] = mset core_table"
    by (simp only: set_eq_iff_mset_eq_distinct [OF distinct_upt distinct_core_table])
qed (rule sorted_upt)

lemma slice_fill:
  "length xs = n * k \<Longrightarrow> (\<And>i. i < n \<Longrightarrow> length (f i) = k) \<Longrightarrow> j \<le> n \<Longrightarrow>
   fold (\<lambda>i. slice_set (i * k) (f i)) [0..<j] xs = concat (map f [0..<j]) @ drop (j * k) xs"
proof (induction j)
  case (Suc j)
  have "length (concat (map f [0..<j])) = j * k" using Suc.prems by (induction j) auto
  with Suc show ?case by (simp add: slice_set_def add.commute)
qed simp

lemma fill_core_table:
  "fold (\<lambda>thread. slice_set (thread * 8) (thread_rows thread)) [0..<32] (replicate 256 0) = core_table"
  using slice_fill [of "replicate 256 0" 32 8 thread_rows 32] by (simp add: core_table_def)

lemma tensor_core_permutation_value: "tensor_core_permutation = Inr core_table"
  by (simp add: tensor_core_permutation_def TRELLIS_TILE_VALUES_def fill_core_table sort_core_table)

lemma rate_bits_Inr [simp]: "rate_bits v = Inr k \<longleftrightarrow> v = PInt (int k) \<and> (k = 3 \<or> k = 4)"
  by (cases v) (auto simp: rate_bits_def TRELLIS35_RATES_def)

text \<open>
  After \<open>n\<close> entries: the inverse holds the index of every value seen, \<open>-1\<close> elsewhere, and the
  values seen are distinct.
\<close>

definition inverse_inv :: "pyval list \<Rightarrow> nat \<Rightarrow> int list \<Rightarrow> bool" where
  "inverse_inv values n tbl \<longleftrightarrow> length tbl = 256
     \<and> (\<exists>p. take n values = map (\<lambda>v. PInt (int v)) p \<and> length p = n \<and> distinct p \<and> (\<forall>v\<in>set p. v < 256)
          \<and> (\<forall>i<n. tbl ! (p ! i) = int i) \<and> (\<forall>v<256. v \<notin> set p \<longrightarrow> tbl ! v = - 1))"

lemma inverse_step_inv:
  assumes "inverse_inv values n tbl" "n < length values"
    and "inverse_step tbl (n, values ! n) = Inr tbl'"
  shows "inverse_inv values (Suc n) tbl'"
proof -
  from assms(1) obtain p where p: "length tbl = 256" "take n values = map (\<lambda>v. PInt (int v)) p"
    "length p = n" "distinct p" "\<forall>v\<in>set p. v < 256" "\<forall>i<n. tbl ! (p ! i) = int i"
    "\<forall>v<256. v \<notin> set p \<longrightarrow> tbl ! v = - 1"
    by (auto simp: inverse_inv_def)
  from assms(3) obtain v where v: "values ! n = PInt v" "0 \<le> v" "v < 256" "tbl ! nat v = - 1"
    "tbl' = tbl[nat v := int n]"
    by (auto simp: inverse_step_def split: option.splits)
  have fresh: "nat v \<notin> set p"
  proof
    assume "nat v \<in> set p"
    then obtain i where "i < n" "p ! i = nat v" using p(3) by (auto simp: in_set_conv_nth)
    with p(6) v(4) show False by force
  qed
  have "take (Suc n) values = map (\<lambda>v. PInt (int v)) (p @ [nat v])"
    using p(2) v assms(2) by (simp add: take_Suc_conv_app_nth)
  moreover have "tbl' ! ((p @ [nat v]) ! i) = int i" if "i < Suc n" for i
  proof (cases "i = n")
    case True
    with v p(1,3) show ?thesis by (simp add: nth_append)
  next
    case False
    with that p(3) fresh have "p ! i \<noteq> nat v" by (metis less_Suc_eq nth_mem)
    with False that p(3,6) v(5) show ?thesis by (simp add: nth_append)
  qed
  ultimately show ?thesis
    unfolding inverse_inv_def using p v fresh
    by (intro conjI exI [of _ "p @ [nat v]"]) auto
qed

lemma inverse_fold_inv:
  assumes "rfold inverse_step tbl (enumerate n vs) = Inr tbl'" "inverse_inv values n tbl"
    and "drop n values = vs" "n \<le> length values"
  shows "inverse_inv values (length values) tbl'"
  using assms
proof (induction vs arbitrary: n tbl)
  case Nil
  then show ?case by simp
next
  case (Cons v vs)
  then have n: "n < length values" "values ! n = v" "drop (Suc n) values = vs"
    by (metis drop_eq_Nil leI list.discI) (metis Cons.prems(3) nth_via_drop, metis Cons.prems(3) drop_Suc list.sel(3) tl_drop)
  from Cons.prems(1) obtain tbl1 where "inverse_step tbl (n, v) = Inr tbl1"
    "rfold inverse_step tbl1 (enumerate (Suc n) vs) = Inr tbl'" by auto
  with Cons.IH n inverse_step_inv [OF Cons.prems(2)] show ?case by simp
qed

definition tile_permutation :: "nat list \<Rightarrow> bool" where
  "tile_permutation p \<longleftrightarrow> length p = 256 \<and> distinct p \<and> (\<forall>v\<in>set p. v < 256)"

lemma tile_permutation_set: "tile_permutation p \<Longrightarrow> set p = {0..<256}"
  by (rule card_seteq) (auto simp: tile_permutation_def distinct_card)

lemma inverse_fold_succeeds:
  assumes "distinct p" "\<forall>v\<in>set p. v < 256 \<and> tbl ! v = - 1" "length tbl = 256"
  shows "\<exists>tbl'. rfold inverse_step tbl (enumerate n (map (\<lambda>v. PInt (int v)) p)) = Inr tbl'"
  using assms
proof (induction p arbitrary: n tbl)
  case (Cons v p)
  have "inverse_step tbl (n, PInt (int v)) = Inr (tbl[v := int n])"
    using Cons.prems by (simp add: inverse_step_def)
  moreover have "\<forall>w\<in>set p. w < 256 \<and> tbl[v := int n] ! w = - 1"
    using Cons.prems by (auto simp: nth_list_update)
  ultimately show ?case using Cons.IH [of "tbl[v := int n]" "Suc n"] Cons.prems by simp
qed simp

lemma inverse_permutation_fold:
  "inverse_permutation (PList vs) = Inr tbl \<longleftrightarrow> length vs = 256
     \<and> rfold inverse_step (replicate 256 (- 1)) (enumerate 0 vs) = Inr tbl"
  by (auto simp: inverse_permutation_def TRELLIS_TILE_VALUES_def)

lemma inverse_permutation_Inr:
  assumes "inverse_permutation v = Inr tbl"
  shows "\<exists>p. v = py_ints p \<and> tile_permutation p \<and> length tbl = 256
    \<and> (\<forall>i<256. tbl ! (p ! i) = int i)"
proof -
  from assms obtain vs where vs: "v = PList vs" by (cases v) (auto simp: inverse_permutation_def)
  with assms have len: "length vs = 256"
    and run: "rfold inverse_step (replicate 256 (- 1)) (enumerate 0 vs) = Inr tbl"
    by (simp_all add: inverse_permutation_fold)
  have "inverse_inv vs 0 (replicate 256 (- 1))" by (simp add: inverse_inv_def)
  from inverse_fold_inv [OF run this] len have "inverse_inv vs 256 tbl" by simp
  with len vs show ?thesis by (auto simp: inverse_inv_def py_ints_def tile_permutation_def)
qed

lemma py_ints_inject [simp]: "py_ints xs = py_ints ys \<longleftrightarrow> xs = ys"
  by (simp add: py_ints_def inj_map_eq_map inj_def)

definition inverts :: "nat list \<Rightarrow> int list \<Rightarrow> bool" where
  "inverts p tbl \<longleftrightarrow> length tbl = 256 \<and> (\<forall>i<256. tbl ! (p ! i) = int i)
     \<and> (\<forall>x<256. 0 \<le> tbl ! x \<and> tbl ! x < 256 \<and> p ! nat (tbl ! x) = x)"

lemma tile_permutation_index:
  "tile_permutation p \<Longrightarrow> x < 256 \<Longrightarrow> \<exists>i<256. p ! i = x"
proof -
  assume p: "tile_permutation p" and "x < 256"
  then have "x \<in> set p" using tile_permutation_set [of p] by simp
  with p show ?thesis by (simp add: in_set_conv_nth tile_permutation_def)
qed

lemma inverts_left:
  assumes "tile_permutation p" "length tbl = 256" "\<forall>i<256. tbl ! (p ! i) = int i"
  shows "inverts p tbl"
proof -
  have "0 \<le> tbl ! x \<and> tbl ! x < 256 \<and> p ! nat (tbl ! x) = x" if x: "x < 256" for x
  proof -
    obtain i where "i < 256" "p ! i = x" using tile_permutation_index [OF assms(1) x] by blast
    with assms(3) show ?thesis by force
  qed
  with assms show ?thesis by (simp add: inverts_def)
qed

lemma inverts_unique:
  assumes "tile_permutation p" "inverts p tbl" "inverts p tbl'"
  shows "tbl' = tbl"
proof (rule nth_equalityI)
  fix x assume "x < length tbl'"
  then obtain i where "i < 256" "p ! i = x"
    using tile_permutation_index [OF assms(1), of x] assms(3) by (auto simp: inverts_def)
  with assms(2,3) show "tbl' ! x = tbl ! x" by (auto simp: inverts_def)
qed (use assms in \<open>simp add: inverts_def\<close>)

section \<open>States of a tile\<close>

definition tile_branches :: "nat \<Rightarrow> nat list \<Rightarrow> bool" where
  "tile_branches rate vs \<longleftrightarrow> length vs = 256 \<and> (\<forall>v\<in>set vs. v < 2 ^ rate)"

definition tile_states :: "nat \<Rightarrow> nat list \<Rightarrow> nat list" where
  "tile_states rate vs = map (state_at rate vs) [0..<256]"

definition branches_of :: "nat \<Rightarrow> nat list \<Rightarrow> nat list" where
  "branches_of rate states = map (\<lambda>s. s mod 2 ^ rate) states"

text \<open>A valid tile: the expansion of its own branches.\<close>

definition tail_biting :: "nat \<Rightarrow> nat list \<Rightarrow> bool" where
  "tail_biting rate states \<longleftrightarrow> length states = 256 \<and> states = tile_states rate (branches_of rate states)"

lemma check_branch_Inr [simp]:
  "check_branch m v = Inr b \<longleftrightarrow> v = PInt (int b) \<and> b \<le> m"
  by (auto simp: check_branch_def split: option.splits)

lemma rmap_check_branch:
  "rmap (check_branch m) vs = Inr bs \<longleftrightarrow> vs = map (\<lambda>n. PInt (int n)) bs \<and> (\<forall>b\<in>set bs. b \<le> m)"
  by (induction vs arbitrary: bs) auto

lemma le_mask_iff: "n \<le> 2 ^ k - Suc 0 \<longleftrightarrow> n < 2 ^ k"
  using zero_less_power [of "2 :: nat" k] by linarith

lemma branch_tuple_Inr:
  "branch_tuple v r = Inr bs \<longleftrightarrow>
     (\<exists>k. r = PInt (int k) \<and> (k = 3 \<or> k = 4) \<and> v = py_ints bs \<and> tile_branches k bs)"
  by (cases v)
    (auto simp: branch_tuple_def rmap_check_branch py_ints_def tile_branches_def
      TRELLIS_TILE_VALUES_def le_mask_iff split: if_splits)

lemma encoded_tile_Inr:
  "encoded_tile_from_branches v r = Inr st \<longleftrightarrow>
     (\<exists>k bs. r = PInt (int k) \<and> (k = 3 \<or> k = 4) \<and> v = py_ints bs \<and> tile_branches k bs
        \<and> st = tile_states k bs)"
  by (auto simp: encoded_tile_from_branches_def branch_tuple_Inr tile_states_def
      TRELLIS_TILE_VALUES_def)

lemma rmap_check_state:
  "rmap check_state vs = Inr ss \<longleftrightarrow> vs = map (\<lambda>n. PInt (int n)) ss \<and> (\<forall>s\<in>set ss. s \<le> UINT16_MAX)"
proof -
  have "check_state v = Inr b \<longleftrightarrow> v = PInt (int b) \<and> b \<le> UINT16_MAX" for v b
    by (auto simp: check_state_def split: option.splits)
  then show ?thesis by (induction vs arbitrary: ss) auto
qed

lemma state_at_bound: "state_at k vs i < 65536"
  unfolding state_at_def UINT16_MAX_def and_mask_nat by simp

lemma tile_states_bound: "s \<in> set (tile_states k vs) \<Longrightarrow> s \<le> UINT16_MAX"
  using state_at_bound by (auto simp: tile_states_def UINT16_MAX_def less_Suc_eq_le [symmetric])

lemma length_tile_states [simp]: "length (tile_states k vs) = 256"
  by (simp add: tile_states_def)

lemma tile_branches_of [simp]: "length st = 256 \<Longrightarrow> tile_branches k (branches_of k st)"
  by (auto simp: tile_branches_def branches_of_def)

text \<open>The low K bits of a state are its branch.\<close>

lemma take_bit_foldl_or:
  "take_bit k (foldl (\<lambda>st s. st OR push_bit (k * s) (f s)) (acc :: nat) [Suc m..<n]) = take_bit k acc"
proof (induction n)
  case (Suc n)
  show ?case
  proof (cases "Suc m \<le> n")
    case True
    have "take_bit k (push_bit (k * n) (f n)) = 0"
      using True by (auto simp: take_bit_push_bit)
    with Suc True show ?thesis by simp
  qed simp
qed simp

lemma take_bit_mod_65536: "k \<le> 16 \<Longrightarrow> take_bit k ((x :: nat) mod 65536) = take_bit k x"
proof -
  assume "k \<le> 16"
  moreover have "x mod 65536 = take_bit 16 x" by (simp add: take_bit_eq_mod)
  ultimately show ?thesis by (simp add: min_def)
qed

lemma state_at_branch:
  assumes "k = 3 \<or> k = 4" "i < 256"
  shows "state_at k vs i mod 2 ^ k = vs ! i mod 2 ^ k"
proof -
  let ?f = "\<lambda>shift. vs ! nat ((int i - int shift) mod int TRELLIS_TILE_VALUES)"
  let ?h = "(16 + k - 1) div k"
  have h: "[0..<?h] = 0 # [Suc 0..<?h]" using assms(1) by (auto simp: upt_conv_Cons)
  have "state_at k vs i mod 2 ^ k = take_bit k (state_at k vs i)" by (simp add: take_bit_eq_mod)
  also have "\<dots> = take_bit k (foldl (\<lambda>st s. st OR push_bit (k * s) (?f s)) 0 [0..<?h])"
    unfolding state_at_def UINT16_MAX_def and_mask_nat
    using take_bit_mod_65536 [of k] assms(1) by auto
  also have "\<dots> = take_bit k (?f 0)" unfolding h by (simp add: take_bit_foldl_or)
  also have "?f 0 = vs ! i" using assms(2) by (simp add: TRELLIS_TILE_VALUES_def)
  finally show ?thesis by (simp add: take_bit_eq_mod)
qed

lemma branches_of_tile_states:
  assumes "k = 3 \<or> k = 4" "tile_branches k vs"
  shows "branches_of k (tile_states k vs) = vs"
proof (rule nth_equalityI)
  show "length (branches_of k (tile_states k vs)) = length vs"
    using assms(2) by (simp add: branches_of_def tile_branches_def)
next
  fix i assume "i < length (branches_of k (tile_states k vs))"
  then have i: "i < 256" by (simp add: branches_of_def)
  have "vs ! i < 2 ^ k" using assms(2) i by (auto simp: tile_branches_def)
  then show "branches_of k (tile_states k vs) ! i = vs ! i"
    using i state_at_branch [OF assms(1) i] by (simp add: branches_of_def tile_states_def)
qed

lemma encode_branches_of:
  assumes "k = 3 \<or> k = 4" "length ss = 256"
  shows "encoded_tile_from_branches (py_ints (branches_of k ss)) (PInt (int k))
           = Inr (tile_states k (branches_of k ss))"
  unfolding encoded_tile_Inr using assms by (intro exI [of _ k] exI [of _ "branches_of k ss"]) simp

lemma tail_biting_bound: "tail_biting k ss \<Longrightarrow> \<forall>s\<in>set ss. s \<le> UINT16_MAX"
  unfolding tail_biting_def using tile_states_bound by metis

lemma validate_encoded_tile_states:
  assumes "k = 3 \<or> k = 4"
  shows "validate_encoded_tile (PList vs) (PInt (int k)) = Inr st \<longleftrightarrow>
     vs = map (\<lambda>n. PInt (int n)) st \<and> tail_biting k st"
proof -
  have "rate_bits (PInt (int k)) = Inr k" using assms by (simp add: rate_bits_Inr)
  then have "validate_encoded_tile (PList vs) (PInt (int k)) = Inr st \<longleftrightarrow>
     length vs = 256 \<and> (\<exists>ss. rmap check_state vs = Inr ss
       \<and> (\<exists>e. encoded_tile_from_branches (py_ints (branches_of k ss)) (PInt (int k)) = Inr e
            \<and> ss = e \<and> st = ss))"
    by (auto simp: validate_encoded_tile_def TRELLIS_TILE_VALUES_def Let_def and_mask_nat'
        branches_of_def)
  also have "\<dots> \<longleftrightarrow> vs = map (\<lambda>n. PInt (int n)) st \<and> tail_biting k st"
    using assms encode_branches_of [OF assms] tail_biting_bound
    by (auto simp: rmap_check_state tail_biting_def)
  finally show ?thesis .
qed

lemma validate_encoded_tile_Inr:
  "validate_encoded_tile v r = Inr st \<longleftrightarrow>
     (\<exists>k. r = PInt (int k) \<and> (k = 3 \<or> k = 4) \<and> v = py_ints st \<and> tail_biting k st)"
proof (cases "rate_bits r")
  case (Inl e)
  then have "validate_encoded_tile v r \<noteq> Inr st" by (simp add: validate_encoded_tile_def)
  moreover have "rate_bits r \<noteq> Inr k" for k using Inl by simp
  ultimately show ?thesis unfolding rate_bits_Inr by blast
next
  case (Inr k)
  then have k: "r = PInt (int k)" "k = 3 \<or> k = 4" by simp_all
  then have other: "PInt (int k) = PInt (int k') \<longleftrightarrow> k' = k" for k' by auto
  show ?thesis
  proof (cases v)
    case (PList vs)
    then show ?thesis
      using k validate_encoded_tile_states [OF k(2)] by (auto simp: py_ints_def simp flip: other)
  qed (use Inr in \<open>auto simp: validate_encoded_tile_def py_ints_def k\<close>)
qed

lemma tile_states_tail_biting:
  "k = 3 \<or> k = 4 \<Longrightarrow> tile_branches k vs \<Longrightarrow> tail_biting k (tile_states k vs)"
  by (simp add: tail_biting_def branches_of_tile_states)

section \<open>Packing as regrouping of digits\<close>

lemma drop_bit_16_mask: "drop_bit (16 * j) (x :: nat) AND UINT16_MAX = x div 65536 ^ j mod 65536"
  unfolding UINT16_MAX_def and_mask_nat by (simp add: drop_bit_eq_div power_mult)

lemma drop_bit_mask: "drop_bit (k * j) (x :: nat) AND (2 ^ k - 1) = x div (2 ^ k) ^ j mod 2 ^ k"
  unfolding and_mask_nat by (simp add: drop_bit_eq_div power_mult)

lemma map_nth_chunk: "i * n + n \<le> length xs \<Longrightarrow> map (\<lambda>j. xs ! (i * n + j)) [0..<n] = take n (drop (i * n) xs)"
  by (rule nth_equalityI) auto

lemma pack_span_digits:
  assumes "length states = 256" "i < 16"
  shows "pack_span k states i
    = to_digits 65536 k (from_digits (2 ^ k) (take 16 (drop (i * 16) (branches_of k states))))"
proof -
  have "foldl (\<lambda>b index. push_bit k b OR (states ! (i * 16 + index) AND (2 ^ k - 1))) 0 [0..<16]
    = foldl (\<lambda>b d. push_bit k b OR d) 0 (map (\<lambda>j. branches_of k states ! (i * 16 + j)) [0..<16])"
    unfolding foldl_map and_mask_nat using assms
    by (intro foldl_cong) (auto simp: branches_of_def)
  also have "map (\<lambda>j. branches_of k states ! (i * 16 + j)) [0..<16] = take 16 (drop (i * 16) (branches_of k states))"
    using assms by (intro map_nth_chunk) (simp add: branches_of_def)
  also have "foldl (\<lambda>b d. push_bit k b OR d) 0 \<dots> = from_digits (2 ^ k) \<dots>"
    by (rule foldl_push_or) (auto simp: branches_of_def dest!: in_set_takeD in_set_dropD)
  finally show ?thesis
    unfolding pack_span_def Let_def drop_bit_16_mask to_digits_def by simp
qed

lemma unpack_span_digits:
  assumes "\<forall>w\<in>set words. w < 65536"
  shows "unpack_span k words i = to_digits (2 ^ k) 16 (from_digits 65536 (take k (drop (i * k) words)))"
proof -
  have "foldl (\<lambda>b w. push_bit 16 b OR w) 0 (take k (drop (i * k) words))
      = from_digits (2 ^ 16) (take k (drop (i * k) words))"
    using assms by (intro foldl_push_or) (auto dest!: in_set_takeD in_set_dropD)
  then show ?thesis
    unfolding unpack_span_def Let_def drop_bit_mask to_digits_def by simp
qed

lemma pack_trellis_tile_states:
  assumes "k = 3 \<or> k = 4" "tail_biting k st"
  shows "pack_trellis_tile (py_ints st) (PInt (int k))
    = Inr (pack_u16s (swap_pairs (regroup (2 ^ k) 16 65536 k 16 (branches_of k st))))"
proof -
  have valid: "validate_encoded_tile (py_ints st) (PInt (int k)) = Inr st"
    unfolding validate_encoded_tile_Inr using assms by blast
  have rate: "rate_bits (PInt (int k)) = Inr k" using assms(1) by (simp add: rate_bits_Inr)
  have "length st = 256" using assms(2) by (simp add: tail_biting_def)
  then have words: "concat (map (pack_span k st) [0..<16]) = regroup (2 ^ k) 16 65536 k 16 (branches_of k st)"
    unfolding regroup_def chunks_def
    by (intro arg_cong [where f = concat]) (simp add: pack_span_digits)
  have "\<not> (length (regroup (2 ^ k) 16 65536 k 16 (branches_of k st)) \<noteq> 16 * k
      \<or> length (regroup (2 ^ k) 16 65536 k 16 (branches_of k st)) mod 2 \<noteq> 0)"
    by simp
  then show ?thesis
    by (simp only: pack_trellis_tile_def rate valid words rbind_simps Let_def if_False)
qed

lemma pack_trellis_tile_Inr:
  "pack_trellis_tile v r = Inr raw \<longleftrightarrow>
    (\<exists>k st. r = PInt (int k) \<and> (k = 3 \<or> k = 4) \<and> v = py_ints st \<and> tail_biting k st
       \<and> raw = pack_u16s (swap_pairs (regroup (2 ^ k) 16 65536 k 16 (branches_of k st))))"
    (is "?l = ?r")
proof
  assume ?l
  then obtain k st where kst: "rate_bits r = Inr k" "validate_encoded_tile v (PInt (int k)) = Inr st"
    by (auto simp: pack_trellis_tile_def rbind_Inr_iff simp del: rate_bits_Inr)
  then have "r = PInt (int k)" "k = 3 \<or> k = 4" "v = py_ints st" "tail_biting k st"
    using kst(1) kst(2) unfolding validate_encoded_tile_Inr rate_bits_Inr by auto
  with \<open>?l\<close> pack_trellis_tile_states [of k st] show ?r by auto
qed (use pack_trellis_tile_states in auto)

lemma unpack_trellis_tile_bytes:
  assumes "k = 3 \<or> k = 4" "length raw = 32 * k"
  shows "unpack_trellis_tile raw (PInt (int k))
    = Inr (tile_states k (regroup 65536 k (2 ^ k) 16 16 (swap_pairs (unpack_u16s raw))))"
proof -
  let ?words = "swap_pairs (unpack_u16s raw)"
  have branches: "concat (map (unpack_span k ?words) [0..<16]) = regroup 65536 k (2 ^ k) 16 16 ?words"
    unfolding regroup_def chunks_def
    by (intro arg_cong [where f = concat]) (simp add: unpack_span_digits unpack_u16s_bound)
  have "tile_branches k (regroup 65536 k (2 ^ k) 16 16 ?words)"
    by (auto simp: tile_branches_def intro: regroup_bound [rotated])
  then have "encoded_tile_from_branches (py_ints (regroup 65536 k (2 ^ k) 16 16 ?words)) (PInt (int k))
      = Inr (tile_states k (regroup 65536 k (2 ^ k) 16 16 ?words))"
    unfolding encoded_tile_Inr using assms(1) by blast
  moreover have rate: "rate_bits (PInt (int k)) = Inr k" using assms(1) by simp
  ultimately show ?thesis
    using assms(2) by (simp only: unpack_trellis_tile_def rate branches rbind_simps Let_def) simp
qed

section \<open>The trellis as a cyclic shift register\<close>

definition cyc :: "nat \<Rightarrow> nat \<Rightarrow> nat" where
  "cyc i j = nat ((int i - int j) mod 256)"

lemma cyc_0 [simp]: "i < 256 \<Longrightarrow> cyc i 0 = i"
  by (simp add: cyc_def)

lemma cyc_less [simp]: "cyc i j < 256"
  by (simp add: cyc_def nat_less_iff)

lemma cyc_cyc: "cyc (cyc i a) b = cyc i (a + b)"
  by (simp add: cyc_def mod_diff_left_eq diff_diff_eq)

lemma or_push_eq_add: "(a :: nat) < 2 ^ k \<Longrightarrow> a OR push_bit k d = a + d * 2 ^ k"
  using push_or_eq_add [of a k d] by (simp add: or.commute)

lemma foldl_or_window:
  assumes "\<And>s. f s < 2 ^ k"
  shows "foldl (\<lambda>st s. st OR push_bit (k * s) (f s)) (0 :: nat) [0..<h] = (\<Sum>s<h. f s * 2 ^ (k * s))
    \<and> (\<Sum>s<h. f s * 2 ^ (k * s)) < 2 ^ (k * h)"
proof (induction h)
  case (Suc h)
  have "f h + 1 \<le> 2 ^ k" using assms [of h] by simp
  then have "(f h + 1) * 2 ^ (k * h) \<le> 2 ^ k * 2 ^ (k * h)" by (intro mult_right_mono) simp_all
  then have "(\<Sum>s<Suc h. f s * 2 ^ (k * s)) < 2 ^ (k * Suc h)" using Suc by (simp add: power_add)
  with Suc show ?case by (simp add: or_push_eq_add)
qed simp

definition window :: "nat \<Rightarrow> nat list \<Rightarrow> nat \<Rightarrow> nat \<Rightarrow> nat" where
  "window k vs h i = (\<Sum>s<h. vs ! cyc i s * 2 ^ (k * s))"

lemma window_Suc: "i < 256 \<Longrightarrow> window k vs (Suc h) i = vs ! i + 2 ^ k * window k vs h (cyc i 1)"
  unfolding window_def sum.lessThan_Suc_shift
  by (simp add: cyc_cyc power_add sum_distrib_left mult_ac)

lemma state_at_window:
  assumes "tile_branches k vs"
  shows "state_at k vs i = window k vs ((16 + k - 1) div k) i mod 65536"
proof -
  have "vs ! cyc i s < 2 ^ k" for s
    using assms by (simp add: tile_branches_def)
  from foldl_or_window [of "\<lambda>s. vs ! cyc i s", OF this] show ?thesis
    unfolding state_at_def UINT16_MAX_def and_mask_nat window_def
    by (simp add: cyc_def TRELLIS_TILE_VALUES_def)
qed

lemma shift_out:
  assumes "k = 3 \<or> k = 4" "h = (16 + k - 1) div k"
  shows "(2 ^ (k * h) * x) mod (65536 :: nat) = 0"
  using assms by auto

text \<open>
  The states of a tile are the walk of a 16-bit shift register that takes in one branch per
  position and closes on itself.
\<close>

definition register_walk :: "nat \<Rightarrow> nat list \<Rightarrow> nat list \<Rightarrow> bool" where
  "register_walk k vs st \<longleftrightarrow> length st = 256
     \<and> (\<forall>i<256. st ! i = (st ! cyc i 1 * 2 ^ k + vs ! i) mod 65536)"

lemma mod_shift: "(x mod m * c + d) mod (m :: nat) = (x * c + d) mod m"
  by (rule mod_add_cong) (simp_all add: mod_mult_left_eq)

lemma mod_add_multiple: "b mod m = 0 \<Longrightarrow> (a + b) mod (m :: nat) = a mod m"
  by (metis add.right_neutral mod_add_right_eq)

lemma window_last: "window k vs (Suc h) i = window k vs h i + vs ! cyc i h * 2 ^ (k * h)"
  by (simp add: window_def)

lemma tile_states_walk:
  assumes "k = 3 \<or> k = 4" "tile_branches k vs"
  shows "register_walk k vs (tile_states k vs)"
proof -
  define h where "h = (16 + k - 1) div k - 1"
  have h: "(16 + k - 1) div k = Suc h" using assms(1) by (auto simp: h_def)
  then have h': "(15 + k) div k = Suc h" by simp
  have "window k vs (Suc h) i mod 65536
      = (window k vs (Suc h) (cyc i 1) mod 65536 * 2 ^ k + vs ! i) mod 65536" if "i < 256" for i
  proof -
    let ?w = "window k vs h (cyc i 1)" and ?x = "vs ! cyc (cyc i 1) h"
    have "window k vs (Suc h) (cyc i 1) * 2 ^ k + vs ! i = (?w + ?x * 2 ^ (k * h)) * 2 ^ k + vs ! i"
      by (simp only: window_last)
    also have "\<dots> = (vs ! i + 2 ^ k * ?w) + 2 ^ (k * Suc h) * ?x"
      by (simp add: algebra_simps power_add)
    also have "\<dots> mod 65536 = (vs ! i + 2 ^ k * ?w) mod 65536"
      by (rule mod_add_multiple) (rule shift_out [OF assms(1) h [symmetric]])
    finally show ?thesis by (simp only: mod_shift window_Suc [OF that])
  qed
  note step = this
  have st: "tile_states k vs ! i = window k vs (Suc h) i mod 65536" if "i < 256" for i
    using that assms(2) by (simp add: tile_states_def state_at_window h')
  show ?thesis
    unfolding register_walk_def
  proof (intro conjI allI impI)
    fix i :: nat
    assume i: "i < 256"
    show "tile_states k vs ! i = (tile_states k vs ! cyc i 1 * 2 ^ k + vs ! i) mod 65536"
      unfolding st [OF i] st [OF cyc_less] by (rule step [OF i])
  qed simp
qed

lemma walk_window:
  assumes "register_walk k vs st" "i < 256"
  shows "st ! i = (window k vs (Suc h) i + 2 ^ (k * Suc h) * st ! cyc i (Suc h)) mod 65536"
  using assms(2)
proof (induction h arbitrary: i)
  case 0
  then have "st ! i = (st ! cyc i 1 * 2 ^ k + vs ! i) mod 65536"
    using assms(1) unfolding register_walk_def by blast
  also have "st ! cyc i 1 * 2 ^ k + vs ! i = window k vs (Suc 0) i + 2 ^ (k * Suc 0) * st ! cyc i (Suc 0)"
    using 0 by (simp add: window_def mult.commute)
  finally show ?case .
next
  case (Suc h)
  let ?w = "window k vs (Suc h) (cyc i 1)" and ?s = "st ! cyc i (Suc (Suc h))"
  have "st ! i = (st ! cyc i 1 * 2 ^ k + vs ! i) mod 65536"
    using assms(1) Suc.prems unfolding register_walk_def by blast
  also have "st ! cyc i 1 = (?w + 2 ^ (k * Suc h) * ?s) mod 65536"
    using Suc.IH [of "cyc i 1"] by (simp add: cyc_cyc)
  also have "((?w + 2 ^ (k * Suc h) * ?s) mod 65536 * 2 ^ k + vs ! i) mod 65536
      = ((?w + 2 ^ (k * Suc h) * ?s) * 2 ^ k + vs ! i) mod 65536"
    by (rule mod_shift)
  also have "(?w + 2 ^ (k * Suc h) * ?s) * 2 ^ k + vs ! i
      = (vs ! i + 2 ^ k * ?w) + 2 ^ (k * Suc (Suc h)) * ?s"
    by (simp add: algebra_simps power_add)
  finally show ?case by (simp only: window_Suc [OF Suc.prems])
qed

lemma register_walk_unique:
  assumes "k = 3 \<or> k = 4" "tile_branches k vs" "register_walk k vs st"
  shows "st = tile_states k vs"
proof (rule nth_equalityI)
  show "length st = length (tile_states k vs)" using assms(3) by (simp add: register_walk_def)
next
  fix i assume "i < length st"
  then have i: "i < 256" using assms(3) by (simp add: register_walk_def)
  define h where "h = (16 + k - 1) div k - 1"
  have h: "(16 + k - 1) div k = Suc h" using assms(1) by (auto simp: h_def)
  then have h': "(15 + k) div k = Suc h" by simp
  have "st ! i = (window k vs (Suc h) i + 2 ^ (k * Suc h) * st ! cyc i (Suc h)) mod 65536"
    by (rule walk_window [OF assms(3) i])
  also have "\<dots> = window k vs (Suc h) i mod 65536"
    by (rule mod_add_multiple) (rule shift_out [OF assms(1) h [symmetric]])
  finally show "st ! i = tile_states k vs ! i"
    using i assms(2) by (simp add: tile_states_def state_at_window h')
qed

lemma tail_biting_walk:
  assumes "k = 3 \<or> k = 4"
  shows "tail_biting k st \<longleftrightarrow> register_walk k (branches_of k st) st"
proof
  assume t: "tail_biting k st"
  then have "tile_branches k (branches_of k st)" by (simp add: tail_biting_def)
  with t show "register_walk k (branches_of k st) st"
    using tile_states_walk [OF assms] unfolding tail_biting_def by metis
next
  assume w: "register_walk k (branches_of k st) st"
  then have "length st = 256" by (simp add: register_walk_def)
  with register_walk_unique [OF assms _ w] show "tail_biting k st" by (simp add: tail_biting_def)
qed

section \<open>The packed format as a codec\<close>

lemma branches_below: "d \<in> set (branches_of k st) \<Longrightarrow> d < 2 ^ k"
  by (auto simp: branches_of_def)

lemma tile_codec_laws:
  assumes "k = 3 \<or> k = 4"
  shows "codec (\<lambda>st. pack_trellis_tile (py_ints st) (PInt (int k)))
    (\<lambda>raw. unpack_trellis_tile raw (PInt (int k))) (tail_biting k) (\<lambda>raw. length raw = 32 * k)"
proof
  fix st
  assume t: "tail_biting k st"
  then have len: "length (branches_of k st) = 16 * 16" by (simp add: tail_biting_def branches_of_def)
  let ?words = "regroup (2 ^ k) 16 65536 k 16 (branches_of k st)"
  have pow: "(2 ^ k) ^ 16 = (65536 :: nat) ^ k" using assms by auto
  have "\<forall>w\<in>set (swap_pairs ?words). w < 65536" using regroup_bound [of 65536] by auto
  then have "swap_pairs (unpack_u16s (pack_u16s (swap_pairs ?words))) = ?words"
    by (simp add: unpack_pack_u16s)
  moreover have "regroup 65536 k (2 ^ k) 16 16 ?words = branches_of k st"
    by (rule regroup_regroup [OF pow _ len]) (auto simp: branches_below)
  moreover have "tile_states k (branches_of k st) = st" using t by (simp add: tail_biting_def)
  ultimately show "\<exists>raw. pack_trellis_tile (py_ints st) (PInt (int k)) = Inr raw
      \<and> length raw = 32 * k \<and> unpack_trellis_tile raw (PInt (int k)) = Inr st"
    using assms t by (simp add: pack_trellis_tile_states unpack_trellis_tile_bytes)
next
  fix raw :: bytes
  assume len: "length raw = 32 * k"
  let ?words = "swap_pairs (unpack_u16s raw)"
  let ?branches = "regroup 65536 k (2 ^ k) 16 16 ?words"
  have pow: "65536 ^ k = ((2 :: nat) ^ k) ^ 16" using assms by auto
  have words: "length ?words = 16 * k" using len by (simp add: length_unpack_u16s)
  have tb: "tile_branches k ?branches"
    by (auto simp: tile_branches_def intro: regroup_bound [rotated])
  have "regroup (2 ^ k) 16 65536 k 16 ?branches = ?words"
    by (rule regroup_regroup [OF pow _ words]) (auto simp: unpack_u16s_bound)
  then have "pack_trellis_tile (py_ints (tile_states k ?branches)) (PInt (int k))
      = Inr (pack_u16s (unpack_u16s raw))"
    using pack_trellis_tile_states [OF assms tile_states_tail_biting [OF assms tb]]
    by (simp add: branches_of_tile_states [OF assms tb])
  then show "\<exists>st. unpack_trellis_tile raw (PInt (int k)) = Inr st \<and> tail_biting k st
      \<and> pack_trellis_tile (py_ints st) (PInt (int k)) = Inr raw"
    using len tile_states_tail_biting [OF assms tb]
    by (simp add: unpack_trellis_tile_bytes [OF assms len] pack_unpack_u16s)
qed

interpretation k3: codec "\<lambda>st. pack_trellis_tile (py_ints st) (PInt (int 3))"
  "\<lambda>raw. unpack_trellis_tile raw (PInt (int 3))" "tail_biting 3" "\<lambda>raw. length raw = 32 * 3"
  by (rule tile_codec_laws) simp

interpretation k4: codec "\<lambda>st. pack_trellis_tile (py_ints st) (PInt (int 4))"
  "\<lambda>raw. unpack_trellis_tile raw (PInt (int 4))" "tail_biting 4" "\<lambda>raw. length raw = 32 * 4"
  by (rule tile_codec_laws) simp

lemma unpack_trellis_tile_Inr:
  "unpack_trellis_tile raw r = Inr st \<Longrightarrow>
     \<exists>k. r = PInt (int k) \<and> (k = 3 \<or> k = 4) \<and> length raw = 32 * k"
  by (auto simp: unpack_trellis_tile_def rbind_Inr_iff if_Inl_Inr_iff)

section \<open>Properties\<close>

text \<open>
  The Tensor-Core permutation is built without failing and lists every position of a tile
  once.
\<close>

lemma tensor_core_permutation_bijective:
  "\<exists>p. tensor_core_permutation = Inr p \<and> length p = TRELLIS_TILE_VALUES
     \<and> distinct p \<and> set p = {0..<TRELLIS_TILE_VALUES}"
  by (simp add: tensor_core_permutation_value length_core_table distinct_core_table set_core_table
      TRELLIS_TILE_VALUES_def)

text \<open>
  \<open>inverse_permutation\<close> accepts exactly the lists of 256 distinct positions (of integers that
  are not booleans), and its result is the table that inverts the list on both sides.
\<close>

lemma inverse_permutation_inverts:
  "inverse_permutation v = Inr tbl \<longleftrightarrow> (\<exists>p. v = py_ints p \<and> tile_permutation p \<and> inverts p tbl)"
proof
  assume run: "inverse_permutation v = Inr tbl"
  with inverse_permutation_Inr obtain p where p: "v = py_ints p" "tile_permutation p"
    "length tbl = 256" "\<forall>i<256. tbl ! (p ! i) = int i" by blast
  then show "\<exists>p. v = py_ints p \<and> tile_permutation p \<and> inverts p tbl"
    using inverts_left by blast
next
  assume "\<exists>p. v = py_ints p \<and> tile_permutation p \<and> inverts p tbl"
  then obtain p where p: "v = py_ints p" "tile_permutation p" "inverts p tbl" by blast
  then obtain tbl' where run: "inverse_permutation v = Inr tbl'"
    using inverse_fold_succeeds [of p "replicate 256 (- 1)" 0]
    by (auto simp: py_ints_def inverse_permutation_fold tile_permutation_def)
  with inverse_permutation_Inr obtain p' where p': "v = py_ints p'" "tile_permutation p'"
    "length tbl' = 256" "\<forall>i<256. tbl' ! (p' ! i) = int i" by blast
  then have "inverts p tbl'" using p(1) inverts_left by (simp add: py_ints_inject)
  then show "inverse_permutation v = Inr tbl" using run inverts_unique [OF p(2,3)] by simp
qed

text \<open>
  C29. Encoding accepts exactly 256 branches of K bits at a rate of 3 or 4, and the states it
  returns are the walk of a 16-bit shift register: every state is the cyclically preceding one
  shifted by K bits with the branch of its position taken in.
\<close>

theorem encoded_tile_is_register_walk:
  "encoded_tile_from_branches v r = Inr st \<longleftrightarrow>
     (\<exists>k vs. r = PInt (int k) \<and> (k = 3 \<or> k = 4) \<and> v = py_ints vs \<and> tile_branches k vs
        \<and> register_walk k vs st)"
  unfolding encoded_tile_Inr using tile_states_walk register_walk_unique by blast

text \<open>
  C30. Validation accepts exactly the closed walks: 256 states, each of them its predecessor
  shifted by K bits with its own K low bits taken in, and returns them unchanged.
\<close>

theorem validate_encoded_tile_accepts_walks:
  "validate_encoded_tile v r = Inr st \<longleftrightarrow>
     (\<exists>k. r = PInt (int k) \<and> (k = 3 \<or> k = 4) \<and> v = py_ints st
        \<and> register_walk k (map (\<lambda>s. s mod 2 ^ k) st) st)"
  unfolding validate_encoded_tile_Inr using tail_biting_walk unfolding branches_of_def by blast

text \<open>
  C31. A packed tile has 32 K bytes and unpacks to the states it was packed from.
\<close>

theorem unpack_pack_tile:
  assumes "pack_trellis_tile v (PInt (int k)) = Inr raw"
  shows "length raw = 32 * k \<and> (\<exists>st. v = py_ints st \<and> unpack_trellis_tile raw (PInt (int k)) = Inr st)"
proof -
  from assms obtain st where k: "k = 3 \<or> k = 4" "v = py_ints st" "tail_biting k st"
    unfolding pack_trellis_tile_Inr by auto
  then have "length raw = 32 * k \<and> unpack_trellis_tile raw (PInt (int k)) = Inr st"
    using assms k3.dec_enc [of st raw] k4.dec_enc [of st raw] by auto
  with k show ?thesis by blast
qed

theorem unpack_pack_tile_witness:
  "\<exists>raw. pack_trellis_tile (py_ints (replicate 256 0)) (PInt (int 4)) = Inr raw \<and> length raw = 32 * 4
     \<and> unpack_trellis_tile raw (PInt (int 4)) = Inr (replicate 256 0)"
proof -
  have "register_walk 4 (branches_of 4 (replicate 256 0)) (replicate 256 0)"
    by (simp add: register_walk_def branches_of_def)
  then have "tail_biting 4 (replicate 256 0)" by (simp add: tail_biting_walk)
  then obtain raw where raw: "pack_trellis_tile (py_ints (replicate 256 0)) (PInt (int 4)) = Inr raw"
    using k4.enc_ok by blast
  from unpack_pack_tile [OF raw] raw show ?thesis unfolding py_ints_inject by blast
qed

text \<open>
  C32. Unpacking accepts any 32 K bytes, and the tile it returns packs to the same bytes.
\<close>

theorem pack_unpack_tile:
  assumes "k = 3 \<or> k = 4" "length raw = 32 * k"
  shows "\<exists>st. unpack_trellis_tile raw (PInt (int k)) = Inr st
    \<and> pack_trellis_tile (py_ints st) (PInt (int k)) = Inr raw"
  using assms k3.dec_ok [of raw] k4.dec_ok [of raw] by auto

theorem pack_unpack_tile_witness:
  "\<exists>st. unpack_trellis_tile (replicate 96 255) (PInt 3) = Inr st
    \<and> pack_trellis_tile (py_ints st) (PInt 3) = Inr (replicate 96 255)"
  using pack_unpack_tile [of 3 "replicate 96 255"] by simp

end
