(* ===== verification/Trellis_Pack.thy ===== *)
theory Trellis_Pack
  imports Trellis_Tile
begin

unbundle bit_operations_syntax

text \<open>
  The vectorised packer of \<open>tools/gem16_compile/trellis35_artifact.py\<close>, which packs the states a
  native encoder returned for many tiles at once in fixed-width array arithmetic, and that it is
  the tile packer of \<open>tools/gem16_compile/trellis35_quant.py\<close> on every tile.
\<close>

section \<open>The packer\<close>

text \<open>
  The argument as an array: its element type, its shape and, where it is a matrix of \<open>uint16\<close>, its
  rows. Operations on whole arrays along the second axis are written row by row; \<open>uint16\<close> and
  \<open>uint64\<close> elements are words of that length, on which a left shift drops the bits that leave.
\<close>

record np_states =
  np_dtype :: string
  np_shape :: "nat list"
  np_rows :: "16 word list list"

text \<open>\<open>np.roll(row, shift)\<close>: element \<open>i\<close> moves to \<open>i + shift\<close>, cyclically.\<close>

definition roll :: "nat \<Rightarrow> 'a list \<Rightarrow> 'a list" where
  "roll shift row = rotate (length row - shift mod length row) row"

definition expected_row :: "nat \<Rightarrow> 16 word list \<Rightarrow> 16 word list" where
  "expected_row rate branches = foldl (\<lambda>expected shift.
       map2 (OR) expected (map (push_bit (rate * shift)) (roll shift branches)))
     (map (\<lambda>_. 0) branches) [0..<(16 + rate - 1) div rate]"

definition branch_row :: "nat \<Rightarrow> 16 word list \<Rightarrow> 16 word list" where
  "branch_row rate states = map (\<lambda>s. s AND word_of_nat (2 ^ rate - 1)) states"

definition span_bits :: "nat \<Rightarrow> 16 word list \<Rightarrow> 64 word" where
  "span_bits rate spn = foldl (\<lambda>bitstream index. push_bit rate bitstream OR ucast (spn ! index)) 0 [0..<16]"

definition span_words :: "nat \<Rightarrow> 16 word list \<Rightarrow> 16 word list" where
  "span_words rate spn = map (\<lambda>word. ucast (drop_bit (16 * (rate - word - 1)) (span_bits rate spn))) [0..<rate]"

definition pack_row :: "nat \<Rightarrow> 16 word list \<Rightarrow> bytes" where
  "pack_row rate branches = pack_u16s (map unat (swap_pairs (concat (map (span_words rate) (chunks 16 16 branches)))))"

definition pack_encoded_tiles :: "np_states \<Rightarrow> int \<Rightarrow> bytes res" where
  "pack_encoded_tiles states rate_value =
     (if rate_value \<notin> {3, 4} then Inl (InvalidPlanError ''Trellis35 native pack rate must be K3 or K4'')
      else if length (np_shape states) \<noteq> 2 \<or> np_shape states ! 1 \<noteq> 256 \<or> np_dtype states \<noteq> ''uint16''
      then Inl (InvalidPlanError ''Trellis35 native states must be U16 [tiles,256]'')
      else let rate = nat rate_value; branches = map (branch_row rate) (np_rows states) in
        if np_rows states \<noteq> map (expected_row rate) branches
        then Inl (InvalidPlanError ''native Trellis35 output violates tail-biting state recurrence'')
        else Inr (concat (map (pack_row rate) branches)))"

text \<open>The rows of an array of its shape.\<close>

definition np_wf :: "np_states \<Rightarrow> bool" where
  "np_wf a \<longleftrightarrow> (\<forall>tiles columns. np_shape a = [tiles, columns] \<longrightarrow>
     length (np_rows a) = tiles \<and> (\<forall>row\<in>set (np_rows a). length row = columns))"

section \<open>States\<close>

lemma length_roll [simp]: "length (roll s xs) = length xs"
  by (simp add: roll_def)

lemma roll_nth:
  assumes "length xs = 256" "i < 256"
  shows "roll s xs ! i = xs ! nat ((int i - int s) mod 256)"
proof -
  have "(256 - s mod 256 + i) mod 256 = nat ((int i - int s) mod 256)"
  proof -
    have "int ((256 - s mod 256 + i) mod 256) = (256 + int i - int s mod 256) mod 256"
      by (simp add: zmod_int of_nat_diff add.commute)
    also have "\<dots> = (256 + int i - int s) mod 256" by (rule mod_diff_right_eq)
    also have "\<dots> = (int i - int s) mod 256" using mod_add_self1 [of 256 "int i - int s"] by (simp add: add_diff_eq)
    finally show ?thesis by (metis nat_int)
  qed
  then show ?thesis using assms by (simp add: roll_def nth_rotate add.commute)
qed

lemma expected_fold_nth:
  assumes "length acc = length branches" "i < length branches"
  shows "length (foldl (\<lambda>e s. map2 (OR) e (map (push_bit (k * s)) (roll s branches))) acc ss) = length branches
    \<and> foldl (\<lambda>e s. map2 (OR) e (map (push_bit (k * s)) (roll s branches))) acc ss ! i
      = foldl (\<lambda>e s. e OR push_bit (k * s) (roll s branches ! i)) (acc ! i) ss"
  using assms
proof (induction ss arbitrary: acc)
  case (Cons s ss)
  let ?acc = "map2 (OR) acc (map (push_bit (k * s)) (roll s branches))"
  have "length ?acc = length branches" "?acc ! i = acc ! i OR push_bit (k * s) (roll s branches ! i)"
    using Cons.prems by simp_all
  with Cons.IH [of ?acc] Cons.prems(2) show ?case by simp
qed simp

lemma unat_push_bit_word: "unat (push_bit n (w :: 'a::len word)) = take_bit LENGTH('a) (push_bit n (unat w))"
  by (simp add: unsigned_push_bit_eq)

lemma unat_or_fold:
  "unat (foldl (\<lambda>e s. e OR push_bit (k * s) (b s)) (w :: 16 word) ss)
    = take_bit 16 (foldl (\<lambda>e s. e OR push_bit (k * s) (unat (b s))) (unat w) ss)"
proof (induction ss rule: rev_induct)
  case Nil
  show ?case by (simp add: take_bit_nat_eq_self unsigned_less [of w, simplified])
next
  case (snoc s ss)
  then show ?case by (simp add: unsigned_or_eq unat_push_bit_word)
qed

lemma take_bit_state: "x AND UINT16_MAX = take_bit 16 x"
  by (simp add: UINT16_MAX_def take_bit_eq_mask mask_eq_exp_minus_1)

lemma expected_row_states:
  assumes "length branches = 256"
  shows "map unat (expected_row k branches) = tile_states k (map unat branches)"
proof (rule nth_equalityI)
  have len: "length (map (\<lambda>_. 0 :: 16 word) branches) = length branches" by simp
  show length: "length (map unat (expected_row k branches)) = length (tile_states k (map unat branches))"
    using expected_fold_nth [OF len, of 0] assms by (simp add: expected_row_def)
  fix i
  assume "i < length (map unat (expected_row k branches))"
  then have i: "i < 256" using length by simp
  have "unat (expected_row k branches ! i)
      = take_bit 16 (foldl (\<lambda>e s. e OR push_bit (k * s) (unat (roll s branches ! i))) 0 [0..<(16 + k - 1) div k])"
    using expected_fold_nth [OF len, of i] i assms unat_or_fold [of k _ 0] by (simp add: expected_row_def)
  also have "\<dots> = tile_states k (map unat branches) ! i"
    using i assms by (simp add: tile_states_def state_at_def take_bit_state roll_nth TRELLIS_TILE_VALUES_def)
  finally show "map unat (expected_row k branches) ! i = tile_states k (map unat branches) ! i"
    using \<open>i < length (map unat (expected_row k branches))\<close> by simp
qed

lemma unat_branch: "k = 3 \<or> k = 4 \<Longrightarrow> unat ((s :: 16 word) AND word_of_nat (2 ^ k - 1)) = unat s mod 2 ^ k"
  by (auto simp: unsigned_and_eq take_bit_nat_def unsigned_of_nat and_mask_nat [of _ 3, simplified] and_mask_nat [of _ 4, simplified])

lemma branch_row_branches: "k = 3 \<or> k = 4 \<Longrightarrow> map unat (branch_row k row) = branches_of k (map unat row)"
  unfolding branch_row_def branches_of_def by (simp only: map_map comp_def unat_branch)

lemma map_unat_inject: "map unat xs = map unat ys \<longleftrightarrow> xs = (ys :: 16 word list)"
  by (rule inj_map_eq_map) (auto intro!: injI unsigned_word_eqI)

lemma row_tail_biting:
  assumes "k = 3 \<or> k = 4" "length row = 256"
  shows "row = expected_row k (branch_row k row) \<longleftrightarrow> tail_biting k (map unat row)"
proof -
  have "length (branch_row k row) = 256" using assms(2) by (simp add: branch_row_def)
  then have "map unat (expected_row k (branch_row k row)) = tile_states k (branches_of k (map unat row))"
    by (simp only: expected_row_states branch_row_branches [OF assms(1)])
  with assms(2) map_unat_inject [of row "expected_row k (branch_row k row)"] show ?thesis
    by (simp only: tail_biting_def length_map) simp
qed

section \<open>Words\<close>

lemma unat_span_fold:
  "unat (foldl (\<lambda>b d. push_bit k b OR ucast (d :: 16 word)) (w :: 64 word) ds)
    = take_bit 64 (foldl (\<lambda>b d. push_bit k b OR unat d) (unat w) ds)"
proof (induction ds rule: rev_induct)
  case Nil
  show ?case by (simp add: take_bit_nat_eq_self unsigned_less [of w, simplified])
next
  case (snoc d ds)
  have "unat d < 2 ^ LENGTH(16)" by (rule unsigned_less)
  then have d: "take_bit 64 (unat d) = unat d" by (intro take_bit_nat_eq_self) simp
  have "take_bit 64 (push_bit k (take_bit 64 x)) = take_bit 64 (push_bit k x)" for x :: nat
    by (simp add: take_bit_push_bit)
  with snoc d show ?case by (simp add: unsigned_or_eq unat_push_bit_word unsigned_ucast_eq)
qed

lemma span_words_digits:
  assumes "k = 3 \<or> k = 4" "length spn = 16" "\<forall>d\<in>set spn. unat d < 2 ^ k"
  shows "map unat (span_words k spn) = to_digits 65536 k (from_digits (2 ^ k) (map unat spn))"
proof -
  let ?x = "from_digits (2 ^ k) (map unat spn)"
  have "map (\<lambda>index. spn ! index) [0..<16] = spn" using assms(2) map_nth [of spn] by simp
  moreover have "span_bits k spn = foldl (\<lambda>b d. push_bit k b OR ucast d) 0 (map (\<lambda>index. spn ! index) [0..<16])"
    by (simp only: span_bits_def foldl_map)
  ultimately have "span_bits k spn = foldl (\<lambda>b d. push_bit k b OR ucast d) 0 spn" by simp
  then have "unat (span_bits k spn) = take_bit 64 (foldl (\<lambda>b d. push_bit k b OR d) 0 (map unat spn))"
    using unat_span_fold [of k 0 spn] by (simp add: foldl_map)
  also have "\<dots> = take_bit 64 ?x"
    by (subst foldl_push_or) (use assms(3) in auto)
  also have "\<dots> = ?x"
  proof (rule take_bit_nat_eq_self)
    have "?x < (2 ^ k) ^ 16"
      using from_digits_bound [of "map unat spn" "2 ^ k"] assms(2,3) by simp
    also have "\<dots> \<le> (2 :: nat) ^ 64" using assms(1) by auto
    finally show "?x < 2 ^ 64" .
  qed
  finally have bits: "unat (span_bits k spn) = ?x" .
  have "unat (ucast (drop_bit (16 * j) (span_bits k spn)) :: 16 word) = ?x div 65536 ^ j mod 65536" for j
  proof -
    have "unat (ucast (drop_bit (16 * j) (span_bits k spn)) :: 16 word)
        = take_bit LENGTH(16) (drop_bit (16 * j) (take_bit LENGTH(64) (unat (span_bits k spn))))"
      by (simp only: unsigned_ucast_eq unsigned_drop_bit_eq)
    also have "take_bit LENGTH(64) (unat (span_bits k spn)) = unat (span_bits k spn)"
      by (rule take_bit_nat_eq_self) (rule unsigned_less)
    also have "take_bit LENGTH(16) (drop_bit (16 * j) (unat (span_bits k spn))) = ?x div 65536 ^ j mod 65536"
      unfolding bits by (simp add: take_bit_eq_mod drop_bit_eq_div power_mult)
    finally show ?thesis .
  qed
  then show ?thesis by (simp add: span_words_def to_digits_def)
qed

lemma swap_pairs_map: "map f (swap_pairs xs) = swap_pairs (map f xs)"
  by (induction xs rule: swap_pairs.induct) auto

lemma pack_row_tile:
  assumes "k = 3 \<or> k = 4" "length row = 256"
  shows "pack_row k (branch_row k row) = pack_u16s (swap_pairs (regroup (2 ^ k) 16 65536 k 16 (branches_of k (map unat row))))"
proof -
  let ?b = "branch_row k row"
  have len: "length ?b = 16 * 16" using assms(2) by (simp add: branch_row_def)
  have small: "unat d < 2 ^ k" if "d \<in> set ?b" for d
    using that unfolding branch_row_def set_map image_iff
    by (elim bexE) (simp only: unat_branch [OF assms(1)], simp)
  have chunk: "map unat (span_words k c) = to_digits 65536 k (from_digits (2 ^ k) (map unat c))" if "c \<in> set (chunks 16 16 ?b)" for c
  proof (rule span_words_digits [OF assms(1) length_in_chunks [OF len that]])
    have "set c \<subseteq> set ?b" using that by (auto simp: chunks_def dest!: in_set_takeD in_set_dropD)
    with small show "\<forall>d\<in>set c. unat d < 2 ^ k" by blast
  qed
  have "chunks 16 16 (map unat ?b) = map (map unat) (chunks 16 16 ?b)"
    by (simp add: chunks_def take_map drop_map)
  with chunk have "map unat (concat (map (span_words k) (chunks 16 16 ?b))) = regroup (2 ^ k) 16 65536 k 16 (map unat ?b)"
    by (simp add: regroup_def map_concat comp_def cong: map_cong)
  then show ?thesis by (simp add: pack_row_def swap_pairs_map branch_row_branches [OF assms(1)])
qed

section \<open>The vectorised packer is the tile packer\<close>

lemma pack_rows:
  assumes "k = 3 \<or> k = 4" "\<forall>row\<in>set rows. length row = 256"
  shows "rmap (\<lambda>row. pack_trellis_tile (py_ints (map unat row)) (PInt (int k))) rows = Inr parts
    \<longleftrightarrow> rows = map (expected_row k) (map (branch_row k) rows) \<and> parts = map (pack_row k) (map (branch_row k) rows)"
  using assms(2)
proof (induction rows arbitrary: parts)
  case Nil
  show ?case by auto
next
  case (Cons row rows)
  then have row: "length row = 256" by simp
  have "pack_trellis_tile (py_ints (map unat row)) (PInt (int k)) = Inr part
      \<longleftrightarrow> row = expected_row k (branch_row k row) \<and> part = pack_row k (branch_row k row)" for part
    unfolding pack_trellis_tile_Inr row_tail_biting [OF assms(1) row] pack_row_tile [OF assms(1) row]
    using assms(1) by auto
  with Cons show ?case by auto
qed


definition zero_tiles :: np_states where
  "zero_tiles = \<lparr>np_dtype = ''uint16'', np_shape = [2, 256], np_rows = replicate 2 (replicate 256 0)\<rparr>"


end
