(* ===== verification/Common.thy ===== *)
theory Common
  imports Digits Py_Value
begin

text \<open>
  \<open>tools/gem16_compile/common.py\<close>: JSON objects without duplicate keys, complete writes over
  sinks that make partial progress, safe relative paths, checked shapes and byte counts, the
  memory-bounded workspace with its ranged hashing and copying, and the atomic file write.
\<close>

definition UINT64_MAX :: int where "UINT64_MAX = 2 ^ 64 - 1"
definition MAX_JSON_BYTES :: int where "MAX_JSON_BYTES = 64 * 1024 * 1024"
definition MAX_HEADER_BYTES :: int where "MAX_HEADER_BYTES = 256 * 1024 * 1024"
definition DEFAULT_STAGING_BYTES :: int where "DEFAULT_STAGING_BYTES = 1024 * 1024"
definition MIN_STAGING_BYTES :: int where "MIN_STAGING_BYTES = 4096"

section \<open>JSON documents\<close>

definition reject_duplicate_keys :: "(string \<times> pyval) list \<Rightarrow> pyval dict res" where
  "reject_duplicate_keys pairs = rfold (\<lambda>result (key, value).
     if key \<in> dict_keys result then Inl (InvalidPlanError ''duplicate JSON key'')
     else Inr (dict_set key value result)) [] pairs"

text \<open>
  The syntax tree \<open>json.load\<close> reads; the pairs hook is applied to every object, innermost
  first.
\<close>

datatype json =
    JNull
  | JBool bool
  | JInt int
  | JFloat pyfloat
  | JStr string
  | JArr "json list"
  | JObj "(string \<times> json) list"

fun json_value :: "json \<Rightarrow> pyval res" where
  "json_value JNull = Inr PNone"
| "json_value (JBool b) = Inr (PBool b)"
| "json_value (JInt i) = Inr (PInt i)"
| "json_value (JFloat f) = Inr (PFloat f)"
| "json_value (JStr s) = Inr (PStr s)"
| "json_value (JArr xs) = rbind (rmap json_value xs) (\<lambda>vs. Inr (PList vs))"
| "json_value (JObj ps) =
     rbind (rmap (\<lambda>(k, v). rbind (json_value v) (\<lambda>w. Inr (k, w))) ps) (\<lambda>pairs.
     rbind (reject_duplicate_keys pairs) (\<lambda>d. Inr (PDict d)))"

text \<open>
  A file as \<open>load_json\<close> sees it: \<open>None\<close> when it cannot be opened, otherwise its size and the
  syntax tree of its text, \<open>None\<close> when the text does not parse.
\<close>

type_synonym json_file = "(int \<times> json option) option"

definition load_json :: "json_file \<Rightarrow> int \<Rightarrow> pyval dict res" where
  "load_json path maximum_bytes = (case path of
     None \<Rightarrow> Inl (InvalidPlanError ''cannot parse JSON'')
   | Some (byte_size, tree) \<Rightarrow>
       if maximum_bytes < byte_size then Inl (InvalidPlanError ''JSON exceeds bytes'')
       else (case tree of
           None \<Rightarrow> Inl (InvalidPlanError ''cannot parse JSON'')
         | Some t \<Rightarrow> rbind (json_value t) (\<lambda>value. case value of
               PDict d \<Rightarrow> Inr d
             | _ \<Rightarrow> Inl (InvalidPlanError ''JSON root must be an object''))))"

section \<open>Complete writes\<close>

text \<open>
  An output stream is a function from the stream state and the bytes offered to what
  \<open>write\<close> returns or raises, and the stream state after it. Exceptions keep the state.
\<close>

type_synonym 'o writer = "'o \<Rightarrow> bytes \<Rightarrow> pyval res \<times> 'o"

text \<open>The exceptions \<open>write_all\<close> catches.\<close>

fun write_caught :: "error \<Rightarrow> bool" where
  "write_caught (OSError _) = True"
| "write_caught (ValueError _) = True"
| "write_caught _ = False"

text \<open>The progress a \<open>write\<close> reports: a positive integer within the bytes offered.\<close>

definition write_progress :: "pyval \<Rightarrow> nat \<Rightarrow> nat option" where
  "write_progress written remaining = (case plain_int written of
     None \<Rightarrow> None
   | Some n \<Rightarrow> if n \<le> 0 \<or> int remaining < n then None else Some (nat n))"

lemma write_progress_Some:
  "write_progress w r = Some n \<longleftrightarrow> w = PInt (int n) \<and> 0 < n \<and> n \<le> r"
  by (auto simp: write_progress_def split: option.splits)

function write_all :: "'o writer \<Rightarrow> 'o \<Rightarrow> bytes \<Rightarrow> unit res \<times> 'o" where
  "write_all put out payload =
     (if payload = [] then (Inr (), out)
      else case put out payload of
          (Inl e, out') \<Rightarrow>
            (Inl (if write_caught e then OutputError ''cannot write'' else e), out')
        | (Inr written, out') \<Rightarrow>
            (case write_progress written (length payload) of
               None \<Rightarrow> (Inl (OutputError ''invalid write progress''), out')
             | Some n \<Rightarrow> write_all put out' (drop n payload)))"
  by auto
termination
  by (relation "measure (\<lambda>(_, _, payload). length payload)") (auto simp: write_progress_Some)

declare write_all.simps [simp del]

lemma write_all_Nil [simp]: "write_all put out [] = (Inr (), out)"
  by (subst write_all.simps) simp

text \<open>
  What a sink promises: a write that reports progress has taken exactly that many bytes of the
  offered ones, and a write that raises may have taken any prefix.
\<close>

locale sink =
  fixes put :: "'o writer"
    and contents :: "'o \<Rightarrow> bytes"
  assumes write_takes: "put out payload = (Inr (PInt (int n)), out') \<Longrightarrow> 0 < n \<Longrightarrow>
      n \<le> length payload \<Longrightarrow> contents out' = contents out @ take n payload"
    and write_prefix: "put out payload = (r, out') \<Longrightarrow>
      \<exists>k\<le>length payload. contents out' = contents out @ take k payload"
begin

lemma write_all_prefix:
  "write_all put out payload = (r, out') \<Longrightarrow>
     \<exists>k\<le>length payload. contents out' = contents out @ take k payload
        \<and> (r = Inr () \<longrightarrow> k = length payload)"
proof (induction payload arbitrary: out rule: length_induct)
  case (1 payload)
  show ?case
  proof (cases "payload = []")
    case True
    with "1.prems" show ?thesis by auto
  next
    case False
    obtain w mid where w: "put out payload = (w, mid)" by fastforce
    note pre = write_prefix [OF w]
    show ?thesis
    proof (cases w)
      case (Inl e)
      with False w "1.prems" have "out' = mid" and "r \<noteq> Inr ()"
        by (subst (asm) write_all.simps, auto)+
      with pre show ?thesis by blast
    next
      case (Inr written)
      show ?thesis
      proof (cases "write_progress written (length payload)")
        case None
        with False w Inr "1.prems" have "out' = mid" and "r \<noteq> Inr ()"
          by (subst (asm) write_all.simps, auto)+
        with pre show ?thesis by blast
      next
        case (Some n)
        then have n: "written = PInt (int n)" "0 < n" "n \<le> length payload"
          by (simp_all add: write_progress_Some)
        with w Inr have took: "contents mid = contents out @ take n payload"
          using write_takes by blast
        have rest: "write_all put mid (drop n payload) = (r, out')"
          using False w Inr Some "1.prems" by (subst (asm) write_all.simps) simp
        have "length (drop n payload) < length payload" using n False by simp
        with "1.IH" rest obtain k where k: "k \<le> length (drop n payload)"
          "contents out' = contents mid @ take k (drop n payload)"
          "r = Inr () \<longrightarrow> k = length (drop n payload)" by blast
        have "take n payload @ take k (drop n payload) = take (n + k) payload"
          by (simp add: take_add)
        with k took n show ?thesis by (intro exI [of _ "n + k"]) auto
      qed
    qed
  qed
qed

lemma write_all_complete:
  "write_all put out payload = (Inr (), out') \<Longrightarrow> contents out' = contents out @ payload"
  using write_all_prefix by fastforce

end

section \<open>Relative paths\<close>

definition split_on :: "char \<Rightarrow> string \<Rightarrow> string list" where
  "split_on c s = foldr (\<lambda>x parts. if x = c then [] # parts
       else (x # hd parts) # tl parts) s [[]]"

text \<open>\<open>PurePosixPath(text).parts\<close>: empty and \<open>.\<close> components vanish, a leading slash stays.\<close>

definition path_parts :: "string \<Rightarrow> string list" where
  "path_parts s = (if s \<noteq> [] \<and> hd s = CHR ''/'' then [''/''] else [])
     @ filter (\<lambda>p. p \<noteq> [] \<and> p \<noteq> ''.'') (split_on CHR ''/'' s)"

definition path_absolute :: "string \<Rightarrow> bool" where
  "path_absolute s \<longleftrightarrow> s \<noteq> [] \<and> hd s = CHR ''/''"

definition safe_relative_path :: "string \<Rightarrow> string list res" where
  "safe_relative_path text =
     (if text = [] \<or> CHR 0x5C \<in> set text \<or> CHR 0x00 \<in> set text then Inl (InvalidPlanError ''unsafe path'')
      else let parts = path_parts text in
        if path_absolute text \<or> parts = [] \<or> list_ex (\<lambda>part. part \<in> {[], ''.'', ''..''}) parts
        then Inl (InvalidPlanError ''unsafe path'')
        else Inr parts)"

section \<open>Shapes and byte counts\<close>

definition shape_step :: "int list \<times> int \<Rightarrow> pyval \<Rightarrow> (int list \<times> int) res" where
  "shape_step acc dimension = (case acc of (shape, elements) \<Rightarrow>
     (case plain_int dimension of
        None \<Rightarrow> Inl (InvalidPlanError ''invalid dimension'')
      | Some d \<Rightarrow>
          if d < 0 then Inl (InvalidPlanError ''invalid dimension'')
          else if d \<noteq> 0 \<and> UINT64_MAX div d < elements
          then Inl (InvalidPlanError ''product exceeds uint64'')
          else Inr (shape @ [d], elements * d)))"

definition checked_shape :: "pyval \<Rightarrow> int list res" where
  "checked_shape value = (case value of
     PList dims \<Rightarrow> rbind (rfold shape_step ([], 1) dims) (\<lambda>(shape, elements). Inr shape)
   | _ \<Rightarrow> Inl (InvalidPlanError ''must be an array''))"

definition DTYPE_BYTES :: "int dict" where
  "DTYPE_BYTES = [(''BOOL'', 1), (''I8'', 1), (''U8'', 1), (''F8_E4M3'', 1), (''F8_E5M2'', 1),
     (''I16'', 2), (''U16'', 2), (''F16'', 2), (''BF16'', 2), (''I32'', 4), (''U32'', 4),
     (''F32'', 4), (''I64'', 8), (''U64'', 8), (''F64'', 8)]"

definition bytes_step :: "int \<Rightarrow> int \<Rightarrow> int res" where
  "bytes_step byte_count dimension =
     (if dimension \<noteq> 0 \<and> UINT64_MAX div dimension < byte_count
      then Inl (InvalidPlanError ''tensor byte count exceeds uint64'')
      else Inr (byte_count * dimension))"

definition tensor_bytes :: "string \<Rightarrow> int list \<Rightarrow> int res" where
  "tensor_bytes dtype shape = (case dict_get DTYPE_BYTES dtype of
     None \<Rightarrow> Inl (InvalidPlanError ''unsupported dtype'')
   | Some item_bytes \<Rightarrow> rfold bytes_step item_bytes shape)"

text \<open>The two loops are running products that never exceed the limit.\<close>

fun bounded_products :: "int \<Rightarrow> int list \<Rightarrow> bool" where
  "bounded_products e [] = True"
| "bounded_products e (d # ds) = (0 \<le> d \<and> e * d \<le> UINT64_MAX \<and> bounded_products (e * d) ds)"

lemma uint64_guard:
  "0 \<le> e \<Longrightarrow> 0 \<le> d \<Longrightarrow> (d \<noteq> 0 \<and> UINT64_MAX div d < e) \<longleftrightarrow> UINT64_MAX < e * d"
  by (cases "d = 0") (auto simp: div_less_iff_int UINT64_MAX_def)

lemma shape_step_Inr:
  "0 \<le> e \<Longrightarrow> shape_step (shape, e) v = Inr st \<longleftrightarrow>
     (\<exists>d. v = PInt d \<and> 0 \<le> d \<and> e * d \<le> UINT64_MAX \<and> st = (shape @ [d], e * d))"
  using uint64_guard [of e]
  by (auto simp: shape_step_def not_less [symmetric] split: option.splits)

lemma shape_fold_Inr:
  "0 \<le> e \<Longrightarrow> rfold shape_step (shape, e) dims = Inr st \<longleftrightarrow>
     (\<exists>ds. dims = map PInt ds \<and> st = (shape @ ds, e * prod_list ds) \<and> bounded_products e ds)"
proof (induction dims arbitrary: shape e)
  case (Cons v dims)
  have "0 \<le> e * d" if "0 \<le> d" for d using that Cons.prems by simp
  with Cons.IH Cons.prems show ?case
    by (fastforce simp: shape_step_Inr map_eq_Cons_conv Cons_eq_map_conv mult.assoc)
qed auto

lemma checked_shape_Inr:
  "checked_shape v = Inr s \<longleftrightarrow> v = PList (map PInt s) \<and> bounded_products 1 s"
  by (cases v) (auto simp: checked_shape_def shape_fold_Inr)

lemma bytes_fold_Inr:
  "0 \<le> e \<Longrightarrow> \<forall>d\<in>set ds. 0 \<le> d \<Longrightarrow> rfold bytes_step e ds = Inr b \<longleftrightarrow>
     b = e * prod_list ds \<and> bounded_products e ds"
proof (induction ds arbitrary: e)
  case (Cons d ds)
  then have "bytes_step e d = Inr x \<longleftrightarrow> e * d \<le> UINT64_MAX \<and> x = e * d" for x
    using uint64_guard [of e d] by (auto simp: bytes_step_def)
  with Cons show ?case by (auto simp: mult.assoc)
qed auto

lemma tensor_bytes_Inr:
  "\<forall>d\<in>set shape. 0 \<le> d \<Longrightarrow> tensor_bytes dtype shape = Inr b \<longleftrightarrow>
     (\<exists>e. dict_get DTYPE_BYTES dtype = Some e \<and> b = e * prod_list shape \<and> bounded_products e shape)"
proof -
  assume nn: "\<forall>d\<in>set shape. 0 \<le> d"
  have "0 \<le> e" if "dict_get DTYPE_BYTES dtype = Some e" for e
    using map_of_SomeD [OF that] by (auto simp: DTYPE_BYTES_def)
  with nn show ?thesis by (auto simp: tensor_bytes_def bytes_fold_Inr split: option.splits)
qed

text \<open>A negative dimension never passes the guard.\<close>

lemma tensor_bytes_nonneg:
  assumes "tensor_bytes dtype shape = Inr b"
  shows "0 \<le> b"
proof -
  have step: "0 \<le> y" if "0 \<le> x" "bytes_step x d = Inr y" for x y d
  proof (cases "d < 0")
    case True
    then have "UINT64_MAX div d < 0" by (simp add: div_neg_pos_less0 UINT64_MAX_def neg_imp_zdiv_nonneg_iff not_le [symmetric] not_less)
    with that True show ?thesis by (simp add: bytes_step_def)
  next
    case False
    with that show ?thesis by (auto simp: bytes_step_def)
  qed
  from assms obtain e where e: "dict_get DTYPE_BYTES dtype = Some e" "rfold bytes_step e shape = Inr b"
    by (auto simp: tensor_bytes_def split: option.splits)
  have "0 \<le> e" using map_of_SomeD [OF e(1)] by (auto simp: DTYPE_BYTES_def)
  then show ?thesis
    using e(2) step by (auto intro: rfold_invariant [where I = "\<lambda>_ x. 0 \<le> x"])
qed

lemma bounded_products_nonneg: "bounded_products e ds \<Longrightarrow> \<forall>d\<in>set ds. 0 \<le> d"
  by (induction ds arbitrary: e) auto

lemma bounded_products_prod:
  "bounded_products e ds \<Longrightarrow> e \<le> UINT64_MAX \<Longrightarrow> e * prod_list ds \<le> UINT64_MAX"
  by (induction ds arbitrary: e) (auto simp flip: mult.assoc)

text \<open>Without a zero dimension, the limit on the whole product is all that matters.\<close>

lemma bounded_products_iff:
  "0 \<le> e \<Longrightarrow> e \<le> UINT64_MAX \<Longrightarrow> \<forall>d\<in>set ds. 0 < d \<Longrightarrow>
     bounded_products e ds \<longleftrightarrow> e * prod_list ds \<le> UINT64_MAX"
proof (induction ds arbitrary: e)
  case (Cons d ds)
  have "1 \<le> prod_list ds" using Cons.prems(3) by (induction ds) (auto simp: int_one_le_iff_zero_less)
  then have "e * d * 1 \<le> e * d * prod_list ds" using Cons.prems by (intro mult_left_mono) auto
  with Cons show ?case by (auto simp: mult.assoc less_imp_le)
qed simp

section \<open>The memory-bounded workspace\<close>

text \<open>
  The process memory is the environment's: the n-th reading returns the current and the peak
  resident size. The workspace counts the readings it has taken.
\<close>

type_synonym rss = "nat \<Rightarrow> int \<times> int"

record workspace =
  host_memory_cap_bytes :: int
  staging_bytes :: int
  baseline_rss_bytes :: int
  max_observed_rss_bytes :: int
  max_header_bytes :: int
  max_tensor_bytes :: int
  max_mapped_window_bytes :: int
  maximum_transform_row_bytes :: int
  readings :: nat

definition workspace_check :: "rss \<Rightarrow> (workspace, unit) prog" where
  "workspace_check rss ws =
    (let (current, peak) = rss (readings ws);
         observed = max current peak;
         ws' = ws\<lparr>max_observed_rss_bytes := max (max_observed_rss_bytes ws) observed,
                  readings := Suc (readings ws)\<rparr>
     in (if host_memory_cap_bytes ws < observed then Inl (DataError ''host-memory cap exceeded'')
         else Inr (), ws'))"

text \<open>The constructor and its \<open>__post_init__\<close>.\<close>

definition workspace_new :: "rss \<Rightarrow> int \<Rightarrow> int \<Rightarrow> workspace res" where
  "workspace_new rss cap staging =
     (if cap \<le> 0 then Inl (InvalidPlanError ''--max-host-memory must be positive'')
      else if staging < MIN_STAGING_BYTES then Inl (InvalidPlanError ''staging buffer too small'')
      else let baseline = fst (rss 0); initial_peak = snd (rss 0) in
        if cap \<le> max baseline initial_peak
        then Inl (InvalidPlanError ''host-memory cap is not above compiler baseline/peak RSS'')
        else let available = cap - max baseline initial_peak in
          if available < staging
          then Inl (InvalidPlanError ''staging buffer exceeds memory available under host cap'')
          else let ws = \<lparr>host_memory_cap_bytes = cap, staging_bytes = staging,
                 baseline_rss_bytes = baseline,
                 max_observed_rss_bytes = max baseline (max (fst (rss 1)) (snd (rss 1))),
                 max_header_bytes = 0, max_tensor_bytes = 0, max_mapped_window_bytes = 0,
                 maximum_transform_row_bytes = 0, readings = 2\<rparr>
               in case workspace_check rss ws of
                    (Inl e, _) \<Rightarrow> Inl e
                  | (Inr _, ws') \<Rightarrow> Inr ws')"

definition record_header :: "rss \<Rightarrow> int \<Rightarrow> (workspace, unit) prog" where
  "record_header rss byte_count ws =
     workspace_check rss (ws\<lparr>max_header_bytes := max (max_header_bytes ws) byte_count\<rparr>)"

definition record_tensor :: "int \<Rightarrow> workspace \<Rightarrow> workspace" where
  "record_tensor byte_count ws = ws\<lparr>max_tensor_bytes := max (max_tensor_bytes ws) byte_count\<rparr>"

definition record_transform_row :: "rss \<Rightarrow> int \<Rightarrow> (workspace, unit) prog" where
  "record_transform_row rss byte_count ws =
     (if byte_count \<le> 0 \<or> staging_bytes ws < byte_count
      then (Inl (DataError ''transform row exceeds staging buffer''), ws)
      else workspace_check rss
        (ws\<lparr>maximum_transform_row_bytes := max (maximum_transform_row_bytes ws) byte_count\<rparr>))"

text \<open>
  \<open>readinto\<close> on a file opened without buffering: the bytes present, at most as many as asked.
\<close>

definition file_read :: "bytes \<Rightarrow> nat \<Rightarrow> nat \<Rightarrow> bytes" where
  "file_read data position requested = take requested (drop position data)"

text \<open>
  The read loops take the requested bytes of one iteration from a loop body. The fuel bounds the
  iterations; \<open>None\<close> is a loop that has not ended. The digest is the bytes given to \<open>update\<close>.
\<close>

primrec range_loop :: "nat \<Rightarrow> ('s \<Rightarrow> int) \<Rightarrow> (nat \<Rightarrow> nat \<Rightarrow> 's \<Rightarrow> bytes res \<times> 's) \<Rightarrow> nat \<Rightarrow> nat \<Rightarrow> bytes \<Rightarrow> 's \<Rightarrow>
    (bytes res \<times> 's) option" where
  "range_loop 0 staging body position remaining digest s = None"
| "range_loop (Suc fuel) staging body position remaining digest s =
     (if remaining = 0 then Some (Inr digest, s)
      else let requested = min remaining (nat (staging s)) in
        case body position requested s of
          (Inl e, s') \<Rightarrow> Some (Inl e, s')
        | (Inr chunk, s') \<Rightarrow> range_loop fuel staging body (position + requested)
            (remaining - requested) (digest @ chunk) s')"

definition hash_body :: "rss \<Rightarrow> bytes \<Rightarrow> nat \<Rightarrow> nat \<Rightarrow> (workspace, bytes) prog" where
  "hash_body rss data position requested ws =
     (let chunk = file_read data position requested in
      if length chunk \<noteq> requested
      then (Inl (SourceVerificationError ''short read while hashing''), ws)
      else then_do (workspace_check rss ws) (\<lambda>_ ws'. (Inr chunk, ws')))"

definition hash_range :: "(bytes \<Rightarrow> string) \<Rightarrow> rss \<Rightarrow> bytes option \<Rightarrow> nat \<Rightarrow> nat \<Rightarrow> workspace \<Rightarrow>
    (string res \<times> workspace) option" where
  "hash_range sha rss file offset len ws = (case file of
     None \<Rightarrow> Some (Inl (SourceVerificationError ''cannot hash''), ws)
   | Some data \<Rightarrow> map_option (\<lambda>(r, ws'). (map_sum id sha r, ws'))
       (range_loop (Suc len) staging_bytes (hash_body rss data) offset len [] ws))"

text \<open>One mapped window: the largest window so far, and the bytes of the view.\<close>

definition mapped_window :: "nat \<Rightarrow> bytes \<Rightarrow> nat \<Rightarrow> nat \<Rightarrow> workspace \<Rightarrow> bytes res \<times> workspace" where
  "mapped_window granularity data position requested ws =
    (let map_offset = position div granularity * granularity;
         delta = position - map_offset;
         map_length = delta + requested;
         ws' = ws\<lparr>max_mapped_window_bytes := max (max_mapped_window_bytes ws) (int map_length)\<rparr>
     in if length data < map_offset + map_length
        then (Inl (DataError ''cannot map tensor range''), ws')
        else (Inr (take requested (drop delta (take map_length (drop map_offset data)))), ws'))"

definition mapped_body :: "nat \<Rightarrow> rss \<Rightarrow> 'o writer option \<Rightarrow> bytes \<Rightarrow> nat \<Rightarrow> nat \<Rightarrow> (workspace \<times> 'o, bytes) prog" where
  "mapped_body granularity rss put data position requested s = (case s of (ws, out) \<Rightarrow>
     (case mapped_window granularity data position requested ws of
        (Inl e, ws1) \<Rightarrow> (Inl e, (ws1, out))
      | (Inr view, ws1) \<Rightarrow>
          (case (case put of None \<Rightarrow> (Inr (), out) | Some w \<Rightarrow> write_all w out view) of
             (Inl e, out1) \<Rightarrow> (Inl e, (ws1, out1))
           | (Inr _, out1) \<Rightarrow>
               (case workspace_check rss ws1 of
                  (Inl e, ws2) \<Rightarrow> (Inl e, (ws2, out1))
                | (Inr _, ws2) \<Rightarrow> (Inr view, (ws2, out1))))))"

definition mapped_tensor_range :: "(bytes \<Rightarrow> string) \<Rightarrow> nat \<Rightarrow> rss \<Rightarrow> 'o writer option \<Rightarrow> bytes option \<Rightarrow>
    int \<Rightarrow> int \<Rightarrow> workspace \<Rightarrow> 'o \<Rightarrow> ((string \<times> string) res \<times> workspace \<times> 'o) option" where
  "mapped_tensor_range sha granularity rss put file offset len ws0 out =
    (let ws = record_tensor len ws0 in case file of
       None \<Rightarrow> Some (Inl (DataError ''cannot map tensor range''), ws, out)
     | Some data \<Rightarrow>
         if offset < 0 \<or> len < 0 \<or> int (length data) - len < offset
         then Some (Inl (DataError ''mapped tensor range is outside the file''), ws, out)
         else map_option (\<lambda>(r, st). (map_sum id (\<lambda>d. (sha d, sha d)) r, st))
           (range_loop (Suc (nat len)) (staging_bytes \<circ> fst) (mapped_body granularity rss put data)
              (nat offset) (nat len) [] (ws, out)))"

definition hash_tensor_range :: "(bytes \<Rightarrow> string) \<Rightarrow> nat \<Rightarrow> rss \<Rightarrow> bytes option \<Rightarrow> int \<Rightarrow> int \<Rightarrow> workspace \<Rightarrow>
    (string res \<times> workspace) option" where
  "hash_tensor_range sha granularity rss file offset len ws =
     map_option (\<lambda>(r, ws', _). (map_sum id fst r, ws'))
       (mapped_tensor_range sha granularity rss (None :: unit writer option) file offset len ws ())"

definition copy_body :: "rss \<Rightarrow> 'o writer \<Rightarrow> bytes \<Rightarrow> nat \<Rightarrow> nat \<Rightarrow> (workspace \<times> 'o, bytes) prog" where
  "copy_body rss put data position requested s = (case s of (ws, out) \<Rightarrow>
     (let chunk = file_read data position requested in
      if length chunk \<noteq> requested then (Inl (DataError ''short file read''), (ws, out))
      else case write_all put out chunk of
          (Inl e, out1) \<Rightarrow> (Inl e, (ws, out1))
        | (Inr _, out1) \<Rightarrow>
            (case workspace_check rss ws of
               (Inl e, ws1) \<Rightarrow> (Inl e, (ws1, out1))
             | (Inr _, ws1) \<Rightarrow> (Inr chunk, (ws1, out1)))))"

definition copy_range :: "(bytes \<Rightarrow> string) \<Rightarrow> nat \<Rightarrow> rss \<Rightarrow> 'o writer \<Rightarrow> bool \<Rightarrow> bytes option \<Rightarrow> int \<Rightarrow> int \<Rightarrow>
    workspace \<Rightarrow> 'o \<Rightarrow> ((string \<times> string) res \<times> workspace \<times> 'o) option" where
  "copy_range sha granularity rss put track_tensor file offset len ws out =
     (if track_tensor then mapped_tensor_range sha granularity rss (Some put) file offset len ws out
      else case file of
          None \<Rightarrow> Some (Inl (OutputError ''cannot stream tensor''), ws, out)
        | Some data \<Rightarrow>
            if offset < 0 then Some (Inl (OutputError ''cannot stream tensor''), ws, out)
            else if len < 0 then Some (Inl (DataError ''short file read''), ws, out)
            else map_option (\<lambda>(r, st). (map_sum id (\<lambda>d. (sha d, sha d)) r, st))
              (range_loop (Suc (nat len)) (staging_bytes \<circ> fst) (copy_body rss put data) (nat offset) (nat len) []
                 (ws, out)))"

definition telemetry :: "rss \<Rightarrow> workspace \<Rightarrow> int dict res \<times> workspace" where
  "telemetry rss ws = then_do (workspace_check rss ws) (\<lambda>_ ws'.
     (Inr [(''host_memory_cap_bytes'', host_memory_cap_bytes ws'),
           (''baseline_rss_bytes'', baseline_rss_bytes ws'),
           (''peak_rss_bytes'', max_observed_rss_bytes ws'),
           (''staging_buffer_bytes'', staging_bytes ws'),
           (''maximum_header_bytes'', max_header_bytes ws'),
           (''maximum_tensor_bytes'', max_tensor_bytes ws'),
           (''maximum_mapped_window_bytes'', max_mapped_window_bytes ws'),
           (''maximum_transform_row_bytes'', maximum_transform_row_bytes ws')], ws'))"

section \<open>What the workspace keeps\<close>

text \<open>
  \<open>ws_step ws ws'\<close>: the configuration is unchanged and the recorded maxima only grow.
\<close>

definition ws_step :: "workspace \<Rightarrow> workspace \<Rightarrow> bool" where
  "ws_step ws ws' \<longleftrightarrow> host_memory_cap_bytes ws' = host_memory_cap_bytes ws
     \<and> staging_bytes ws' = staging_bytes ws \<and> baseline_rss_bytes ws' = baseline_rss_bytes ws
     \<and> max_observed_rss_bytes ws \<le> max_observed_rss_bytes ws'
     \<and> max_header_bytes ws \<le> max_header_bytes ws' \<and> max_tensor_bytes ws \<le> max_tensor_bytes ws'
     \<and> max_mapped_window_bytes ws \<le> max_mapped_window_bytes ws'
     \<and> maximum_transform_row_bytes ws \<le> maximum_transform_row_bytes ws'"

definition within_cap :: "workspace \<Rightarrow> bool" where
  "within_cap ws \<longleftrightarrow> max_observed_rss_bytes ws \<le> host_memory_cap_bytes ws"

definition windows_within :: "nat \<Rightarrow> workspace \<Rightarrow> bool" where
  "windows_within granularity ws \<longleftrightarrow>
     max_mapped_window_bytes ws < staging_bytes ws + int granularity"

lemma ws_step_refl [simp]: "ws_step ws ws"
  by (simp add: ws_step_def)

lemma ws_step_trans [trans]: "ws_step a b \<Longrightarrow> ws_step b c \<Longrightarrow> ws_step a c"
  by (auto simp: ws_step_def)

lemma ws_step_staging: "ws_step a b \<Longrightarrow> staging_bytes b = staging_bytes a"
  by (simp add: ws_step_def)

lemma workspace_check_result:
  assumes "workspace_check rss ws = (r, ws')"
  shows "\<exists>observed. ws' = ws\<lparr>max_observed_rss_bytes := max (max_observed_rss_bytes ws) observed,
      readings := Suc (readings ws)\<rparr> \<and> (r = Inr () \<longrightarrow> observed \<le> host_memory_cap_bytes ws)"
proof -
  obtain c p where "rss (readings ws) = (c, p)" by fastforce
  with assms show ?thesis
    by (intro exI [of _ "max c p"]) (auto simp: workspace_check_def Let_def simp del: max.bounded_iff)
qed

lemma workspace_check_step:
  assumes "workspace_check rss ws = (r, ws')"
  shows "ws_step ws ws' \<and> (r = Inr () \<longrightarrow> within_cap ws \<longrightarrow> within_cap ws')
     \<and> (windows_within g ws \<longrightarrow> windows_within g ws')"
proof -
  from workspace_check_result [OF assms] obtain observed where
    "ws' = ws\<lparr>max_observed_rss_bytes := max (max_observed_rss_bytes ws) observed,
      readings := Suc (readings ws)\<rparr>" "r = Inr () \<longrightarrow> observed \<le> host_memory_cap_bytes ws" by blast
  then show ?thesis by (simp add: ws_step_def within_cap_def windows_within_def)
qed

lemma mapped_window_step:
  assumes "mapped_window g data position n ws = (r, ws')"
  shows "ws_step ws ws' \<and> (within_cap ws \<longrightarrow> within_cap ws')
    \<and> (0 < g \<longrightarrow> int n \<le> staging_bytes ws \<longrightarrow> windows_within g ws \<longrightarrow> windows_within g ws')"
proof -
  let ?window = "int (position - position div g * g + n)"
  have "ws' = ws\<lparr>max_mapped_window_bytes := max (max_mapped_window_bytes ws) ?window\<rparr>"
    using assms by (simp add: mapped_window_def Let_def split: if_splits)
  moreover have "?window < staging_bytes ws + int g" if "0 < g" "int n \<le> staging_bytes ws"
  proof -
    have "position mod g < g" using that(1) by simp
    then have "int (position mod g) + int n < staging_bytes ws + int g" using that(2) by linarith
    then show ?thesis by (simp add: minus_div_mult_eq_mod)
  qed
  ultimately show ?thesis by (simp add: ws_step_def within_cap_def windows_within_def)
qed

lemma mapped_window_Inr:
  assumes "mapped_window g data position requested ws = (Inr view, ws')"
  shows "view = file_read data position requested \<and> position + requested \<le> length data"
proof -
  have le: "position div g * g \<le> position" by simp
  with assms have "position + requested \<le> length data"
    by (auto simp: mapped_window_def Let_def split: if_splits)
  moreover have "take requested (drop (position - position div g * g)
      (take (position - position div g * g + requested) (drop (position div g * g) data)))
    = take requested (drop position data)"
    using le by (simp add: drop_take)
  ultimately show ?thesis
    using assms by (auto simp: mapped_window_def Let_def file_read_def split: if_splits)
qed

lemma file_read_append:
  "r \<le> n \<Longrightarrow> position + r \<le> length data \<Longrightarrow>
     file_read data position r @ file_read data (position + r) (n - r) = file_read data position n"
  by (metis add.commute drop_drop file_read_def le_add_diff_inverse take_add)

lemma length_file_read: "length (file_read data position n) = n \<longleftrightarrow> n = 0 \<or> position + n \<le> length data"
  by (auto simp: file_read_def)

text \<open>
  What a loop body promises: \<open>Inv acc s\<close> holds when the bytes \<open>acc\<close> have been taken, and \<open>Bad\<close>
  describes the states an exception leaves. With a non-empty buffer, the fuel \<open>remaining + 1\<close>
  is enough.
\<close>

locale range_reader =
  fixes staging :: "'s \<Rightarrow> int"
    and body :: "nat \<Rightarrow> nat \<Rightarrow> 's \<Rightarrow> bytes res \<times> 's"
    and data :: bytes
    and Inv :: "bytes \<Rightarrow> 's \<Rightarrow> bool"
    and Bad :: "'s \<Rightarrow> bool"
  assumes buffer: "Inv acc s \<Longrightarrow> 0 < staging s"
    and body_ok: "Inv acc s \<Longrightarrow> 0 < n \<Longrightarrow> int n \<le> staging s \<Longrightarrow> body position n s = (Inr chunk, s') \<Longrightarrow>
      position + n \<le> length data \<and> chunk = file_read data position n \<and> Inv (acc @ chunk) s'"
    and body_err: "Inv acc s \<Longrightarrow> 0 < n \<Longrightarrow> int n \<le> staging s \<Longrightarrow> body position n s = (Inl e, s') \<Longrightarrow> Bad s'"
begin

lemma range_loop_total:
  "Inv digest s \<Longrightarrow> remaining < fuel \<Longrightarrow>
     \<exists>r s'. range_loop fuel staging body position remaining digest s = Some (r, s')
       \<and> (case r of Inl e \<Rightarrow> Bad s'
          | Inr d \<Rightarrow> (remaining = 0 \<or> position + remaining \<le> length data)
              \<and> d = digest @ file_read data position remaining \<and> Inv d s')"
proof (induction fuel arbitrary: position remaining digest s)
  case (Suc fuel)
  show ?case
  proof (cases "remaining = 0")
    case True
    then show ?thesis using Suc.prems by (simp add: file_read_def)
  next
    case False
    define n where "n = min remaining (nat (staging s))"
    have n: "0 < n" "int n \<le> staging s" "n \<le> remaining"
      using False buffer [OF Suc.prems(1)] by (auto simp: n_def)
    obtain c s1 where c: "body position n s = (c, s1)" by fastforce
    have run: "range_loop (Suc fuel) staging body position remaining digest s = (case c of
        Inl e \<Rightarrow> Some (Inl e, s1)
      | Inr chunk \<Rightarrow> range_loop fuel staging body (position + n) (remaining - n) (digest @ chunk) s1)"
      using False c by (simp add: n_def [symmetric] Let_def split: sum.split)
    show ?thesis
    proof (cases c)
      case (Inl e)
      with run c body_err [OF Suc.prems(1) n(1,2)] show ?thesis by auto
    next
      case (Inr chunk)
      with c body_ok [OF Suc.prems(1) n(1,2)] have ok: "position + n \<le> length data"
        "chunk = file_read data position n" "Inv (digest @ chunk) s1" by auto
      have "remaining - n < fuel" using n Suc.prems(2) by simp
      from Suc.IH [OF ok(3) this] obtain r s' where
        "range_loop fuel staging body (position + n) (remaining - n) (digest @ chunk) s1 = Some (r, s')"
        "case r of Inl e \<Rightarrow> Bad s'
          | Inr d \<Rightarrow> (remaining - n = 0 \<or> position + n + (remaining - n) \<le> length data)
              \<and> d = (digest @ chunk) @ file_read data (position + n) (remaining - n) \<and> Inv d s'"
        by blast
      with run Inr ok n show ?thesis by (auto simp: file_read_append split: sum.splits)
    qed
  qed
qed simp

end

declare range_loop.simps [simp del]

lemma range_loop_unfold:
  "0 < fuel \<Longrightarrow> range_loop fuel staging body position remaining digest s =
     (if remaining = 0 then Some (Inr digest, s)
      else let requested = min remaining (nat (staging s)) in
        case body position requested s of
          (Inl e, s') \<Rightarrow> Some (Inl e, s')
        | (Inr chunk, s') \<Rightarrow> range_loop (fuel - 1) staging body (position + requested)
            (remaining - requested) (digest @ chunk) s')"
  by (cases fuel) (simp_all only: range_loop.simps diff_Suc_1 less_irrefl)

text \<open>The bodies keep the workspace within its cap and its windows bounded.\<close>

definition ws_good :: "nat \<Rightarrow> workspace \<Rightarrow> workspace \<Rightarrow> bool" where
  "ws_good g start ws \<longleftrightarrow> ws_step start ws \<and> 0 < staging_bytes ws \<and> within_cap ws
     \<and> windows_within g ws"

lemma ws_good_mono:
  assumes "ws_good g start ws" "ws_step ws ws'" "within_cap ws'" "windows_within g ws'"
  shows "ws_good g start ws'"
  using assms ws_step_trans [of start ws ws'] ws_step_staging [of ws ws'] by (simp add: ws_good_def)

lemma ws_good_check:
  assumes "ws_good g start ws" "workspace_check rss ws = (Inr u, ws')"
  shows "ws_good g start ws'"
  using workspace_check_step [OF assms(2), of g] assms(1)
  by (intro ws_good_mono [OF assms(1)]) (simp_all add: ws_good_def)

lemma ws_good_window:
  assumes "ws_good g start ws" "0 < g" "int n \<le> staging_bytes ws"
    and "mapped_window g data position n ws = (r, ws')"
  shows "ws_good g start ws'"
  using mapped_window_step [OF assms(4)] assms(1-3)
  by (intro ws_good_mono [OF assms(1)]) (simp_all add: ws_good_def)

lemma ws_check_step: "ws_step start ws \<Longrightarrow> workspace_check rss ws = (r, ws') \<Longrightarrow> ws_step start ws'"
  using workspace_check_step ws_step_trans by blast

lemma ws_window_step:
  "ws_step start ws \<Longrightarrow> mapped_window g data position n ws = (r, ws') \<Longrightarrow> ws_step start ws'"
  using mapped_window_step ws_step_trans by blast

lemma hash_body_ok:
  "ws_good g start ws \<Longrightarrow> 0 < n \<Longrightarrow> hash_body rss data position n ws = (Inr chunk, ws') \<Longrightarrow>
     position + n \<le> length data \<and> chunk = file_read data position n \<and> ws_good g start ws'"
  using ws_good_check by (auto simp: hash_body_def Let_def length_file_read split: if_splits)

lemma hash_body_step:
  "ws_good g start ws \<Longrightarrow> hash_body rss data position n ws = (r, ws') \<Longrightarrow> ws_step start ws'"
  using ws_check_step [of start ws]
  by (auto simp: hash_body_def Let_def ws_good_def sbind_def split: if_splits prod.splits sum.splits)

interpretation hashing: range_reader staging_bytes "hash_body rss data" data
  "\<lambda>acc ws. ws_good g start ws" "ws_step start" for rss data g start
  by unfold_locales (simp add: ws_good_def, blast dest: hash_body_ok, blast dest: hash_body_step)

lemma hash_range_total:
  assumes "ws_good g ws ws"
  shows "\<exists>r ws'. hash_range sha rss (Some data) offset len ws = Some (r, ws') \<and> ws_step ws ws'
    \<and> (case r of Inl e \<Rightarrow> True | Inr d \<Rightarrow> (len = 0 \<or> offset + len \<le> length data)
         \<and> d = sha (file_read data offset len) \<and> within_cap ws')"
proof -
  from hashing.range_loop_total [of g ws ws len "Suc len" rss data offset "[]"] assms
  obtain r s' where run: "range_loop (Suc len) staging_bytes (hash_body rss data) offset len [] ws = Some (r, s')"
    and r: "case r of Inl e \<Rightarrow> ws_step ws s'
      | Inr d \<Rightarrow> (len = 0 \<or> offset + len \<le> length data) \<and> d = file_read data offset len \<and> ws_good g ws s'"
    unfolding append_Nil using lessI by blast
  from run r show ?thesis
    by (cases r) (auto simp: hash_range_def ws_good_def)
qed

text \<open>The bytes a body passes on have been appended to the sink.\<close>

definition copied :: "('o \<Rightarrow> bytes) \<Rightarrow> bytes \<Rightarrow> nat \<Rightarrow> workspace \<Rightarrow> bytes \<Rightarrow> workspace \<times> 'o \<Rightarrow> bool" where
  "copied contents base g start acc s \<longleftrightarrow> ws_good g start (fst s) \<and> contents (snd s) = base @ acc"

definition appended :: "('o \<Rightarrow> bytes) \<Rightarrow> bytes \<Rightarrow> workspace \<Rightarrow> workspace \<times> 'o \<Rightarrow> bool" where
  "appended contents base start s \<longleftrightarrow> ws_step start (fst s) \<and> (\<exists>extra. contents (snd s) = base @ extra)"

lemma copy_reader:
  assumes "sink put contents"
  shows "range_reader (staging_bytes \<circ> fst) (copy_body rss put data) data
    (copied contents base g start) (appended contents base start)"
proof
  fix acc s n position chunk s'
  assume inv: "copied contents base g start acc s" and n: "0 < n"
    and run: "copy_body rss put data position n s = (Inr chunk, s')"
  then show "position + n \<le> length data \<and> chunk = file_read data position n
      \<and> copied contents base g start (acc @ chunk) s'"
    using sink.write_all_complete [OF assms] ws_good_check
    by (auto simp: copy_body_def Let_def copied_def length_file_read
        split: prod.splits sum.splits if_splits)
next
  fix acc s n position e s'
  assume inv: "copied contents base g start acc s"
    and run: "copy_body rss put data position n s = (Inl e, s')"
  obtain ws out where s: "s = (ws, out)" by fastforce
  obtain r out1 where w: "write_all put out (file_read data position n) = (r, out1)" by fastforce
  from sink.write_all_prefix [OF assms w] obtain k where "contents out1 = contents out @ take k (file_read data position n)"
    by blast
  moreover have "ws_step start (fst s')" and "snd s' \<in> {out, out1}"
    using run w s inv ws_check_step [of start ws]
    by (auto simp: copy_body_def Let_def copied_def ws_good_def split: prod.splits sum.splits if_splits)
  ultimately show "appended contents base start s'"
    using inv s by (auto simp: appended_def copied_def)
qed (auto simp: copied_def ws_good_def)

lemma mapped_reader:
  assumes "sink put contents" "0 < g"
  shows "range_reader (staging_bytes \<circ> fst) (mapped_body g rss (Some put) data) data
    (copied contents base g start) (appended contents base start)"
proof
  fix acc s n position chunk s'
  assume inv: "copied contents base g start acc s" and n: "0 < n" "int n \<le> (staging_bytes \<circ> fst) s"
    and run: "mapped_body g rss (Some put) data position n s = (Inr chunk, s')"
  obtain ws out where s: "s = (ws, out)" by fastforce
  obtain v ws1 where v: "mapped_window g data position n ws = (v, ws1)" by fastforce
  obtain r out1 where w: "write_all put out chunk = (r, out1)" by fastforce
  from run s v w have chunk: "v = Inr chunk" and r: "r = Inr ()"
    and check: "workspace_check rss ws1 = (Inr (), fst s')" and out1: "snd s' = out1"
    by (auto simp: mapped_body_def split: prod.splits sum.splits)
  have "ws_good g start ws1"
    using ws_good_window [OF _ assms(2) _ v] inv s n(2) by (simp add: copied_def)
  then have "ws_good g start (fst s')" using ws_good_check check by blast
  then show "position + n \<le> length data \<and> chunk = file_read data position n
      \<and> copied contents base g start (acc @ chunk) s'"
    using mapped_window_Inr [of g data position n ws chunk ws1] v chunk inv s out1
      sink.write_all_complete [OF assms(1), of out chunk out1] w r
    by (simp add: copied_def)
next
  fix acc s n position e s'
  assume inv: "copied contents base g start acc s"
    and run: "mapped_body g rss (Some put) data position n s = (Inl e, s')"
  obtain ws out where s: "s = (ws, out)" by fastforce
  obtain v ws1 where v: "mapped_window g data position n ws = (v, ws1)" by fastforce
  have ws1: "ws_step start ws1" using inv s ws_window_step [OF _ v] by (simp add: copied_def ws_good_def)
  have "ws_step start (fst s') \<and> (\<exists>extra. contents (snd s') = contents out @ extra)"
  proof (cases v)
    case (Inl x)
    with run s v ws1 show ?thesis by (auto simp: mapped_body_def)
  next
    case (Inr view)
    obtain r out1 where w: "write_all put out view = (r, out1)" by fastforce
    from sink.write_all_prefix [OF assms(1) w] obtain k where "contents out1 = contents out @ take k view"
      by blast
    with run s v w Inr ws1 ws_check_step show ?thesis
      by (auto simp: mapped_body_def split: prod.splits sum.splits)
  qed
  with inv s show "appended contents base start s'" by (auto simp: appended_def copied_def)
qed (auto simp: copied_def ws_good_def)

text \<open>The peak resident size is a high-water mark.\<close>

definition high_water :: "rss \<Rightarrow> bool" where
  "high_water rss \<longleftrightarrow> (\<forall>n. fst (rss n) \<le> snd (rss n) \<and> snd (rss n) \<le> snd (rss (Suc n)))"

lemma workspace_new_good:
  assumes "workspace_new rss cap staging = Inr ws" "high_water rss" "0 < g"
  shows "ws_good g ws ws \<and> staging_bytes ws = staging \<and> MIN_STAGING_BYTES \<le> staging
    \<and> staging + baseline_rss_bytes ws \<le> cap \<and> host_memory_cap_bytes ws = cap"
proof -
  have hw: "fst (rss 0) \<le> snd (rss 0)" "snd (rss 0) \<le> snd (rss 1)" "fst (rss 1) \<le> snd (rss 1)"
    "snd (rss 1) \<le> snd (rss 2)" "fst (rss 2) \<le> snd (rss 2)"
    using assms(2) by (auto simp: high_water_def numeral_2_eq_2)
  show ?thesis
    using assms(1,3) hw
    by (auto simp: workspace_new_def workspace_check_def ws_good_def within_cap_def windows_within_def
        MIN_STAGING_BYTES_def Let_def split: if_splits prod.splits)
qed

lemma reader_outcome:
  assumes "range_reader (staging_bytes \<circ> fst) body data (copied contents (contents out) g ws)
      (appended contents (contents out) ws)"
    and "ws_good g ws ws"
  shows "\<exists>r ws' out'. range_loop (Suc len) (staging_bytes \<circ> fst) body offset len [] (ws, out) = Some (r, ws', out')
    \<and> (case r of
        Inl e \<Rightarrow> \<exists>extra. contents out' = contents out @ extra
      | Inr d \<Rightarrow> (len = 0 \<or> offset + len \<le> length data) \<and> d = take len (drop offset data)
          \<and> contents out' = contents out @ d \<and> ws_good g ws ws')"
proof -
  have "copied contents (contents out) g ws [] (ws, out)" using assms(2) by (simp add: copied_def)
  from range_reader.range_loop_total [OF assms(1) this lessI, where position = offset]
  obtain r s' where run: "range_loop (Suc len) (staging_bytes \<circ> fst) body offset len [] (ws, out) = Some (r, s')"
    and r: "case r of Inl e \<Rightarrow> appended contents (contents out) ws s'
      | Inr d \<Rightarrow> (len = 0 \<or> offset + len \<le> length data) \<and> d = [] @ file_read data offset len
          \<and> copied contents (contents out) g ws d s'"
    by blast
  obtain ws' out' where "s' = (ws', out')" by fastforce
  with run r show ?thesis
    by (intro exI [of _ r] exI [of _ ws'] exI [of _ out'])
      (cases r, auto simp: appended_def copied_def file_read_def)
qed

text \<open>Copying a range over a conforming sink.\<close>

lemma copy_range_outcome:
  assumes "sink put contents" "ws_good g ws ws" "0 < g"
  shows "\<exists>r ws' out'. copy_range sha g rss put track (Some data) offset len ws out = Some (r, ws', out')
    \<and> (case r of
        Inl e \<Rightarrow> \<exists>extra. contents out' = contents out @ extra
      | Inr (source_hash, output_hash) \<Rightarrow>
          0 \<le> offset \<and> 0 \<le> len \<and> (len = 0 \<or> offset + len \<le> int (length data))
          \<and> contents out' = contents out @ take (nat len) (drop (nat offset) data)
          \<and> source_hash = sha (take (nat len) (drop (nat offset) data)) \<and> output_hash = source_hash
          \<and> ws_good g ws ws')"
proof (cases "offset < 0 \<or> len < 0")
  case True
  then show ?thesis by (auto simp: copy_range_def mapped_tensor_range_def Let_def)
next
  case False
  then obtain p n where range: "offset = int p" "len = int n" by (metis nonneg_int_cases not_less)
  show ?thesis
  proof (cases track)
    case False
    note reader = copy_reader [OF assms(1), where rss = rss and data = data and base = "contents out"
        and g = g and start = ws]
    from reader_outcome [OF reader assms(2), of n p]
    obtain r ws' out' where
      "range_loop (Suc n) (staging_bytes \<circ> fst) (copy_body rss put data) p n [] (ws, out) = Some (r, ws', out')"
      and r: "case r of Inl e \<Rightarrow> \<exists>extra. contents out' = contents out @ extra
        | Inr d \<Rightarrow> (n = 0 \<or> p + n \<le> length data) \<and> d = take n (drop p data)
            \<and> contents out' = contents out @ d \<and> ws_good g ws ws'"
      by blast
    then have "copy_range sha g rss put track (Some data) offset len ws out
        = Some (map_sum id (\<lambda>d. (sha d, sha d)) r, ws', out')"
      using False range by (simp add: copy_range_def)
    with r range show ?thesis by (cases r) auto
  next
    case True
    let ?ws = "record_tensor len ws"
    have good: "ws_good g ?ws ?ws"
      using assms(2) by (simp add: ws_good_def record_tensor_def within_cap_def windows_within_def)
    show ?thesis
    proof (cases "int (length data) - len < offset")
      case True
      then show ?thesis
        using \<open>track\<close> by (simp add: copy_range_def mapped_tensor_range_def Let_def)
    next
      case False
      note reader = mapped_reader [OF assms(1,3), where rss = rss and data = data and base = "contents out"
          and start = ?ws]
      from reader_outcome [OF reader good, of n p]
      obtain r ws' out' where
        "range_loop (Suc n) (staging_bytes \<circ> fst) (mapped_body g rss (Some put) data) p n [] (?ws, out)
           = Some (r, ws', out')"
        and r: "case r of Inl e \<Rightarrow> \<exists>extra. contents out' = contents out @ extra
          | Inr d \<Rightarrow> (n = 0 \<or> p + n \<le> length data) \<and> d = take n (drop p data)
              \<and> contents out' = contents out @ d \<and> ws_good g ?ws ws'"
        by blast
      then have "copy_range sha g rss put track (Some data) offset len ws out
          = Some (map_sum id (\<lambda>d. (sha d, sha d)) r, ws', out')"
        using True False range by (simp add: copy_range_def mapped_tensor_range_def Let_def)
      moreover have "ws_step ws ?ws" by (simp add: ws_step_def record_tensor_def)
      then have "ws_good g ws ws'" if "ws_good g ?ws ws'"
        using that ws_step_trans by (auto simp: ws_good_def)
      ultimately show ?thesis using r range by (cases r) auto
    qed
  qed
qed

section \<open>Atomic file replacement\<close>

text \<open>
  The part of the file system a write touches: the contents of the regular files. The
  environment says which call fails; the temporary file takes bytes through \<open>fs_put\<close>.
\<close>

type_synonym files = "string \<Rightarrow> bytes option"

record file_system =
  open_fails :: bool
  chmod_fails :: bool
  fs_put :: "bytes writer"
  fsync_fails :: bool
  replace_fails :: bool
  directory_fails :: bool

fun os_or_compiler :: "error \<Rightarrow> bool" where
  "os_or_compiler (OSError _) = True"
| "os_or_compiler e = is_compiler_error e"

definition fsync_directory :: "file_system \<Rightarrow> unit res" where
  "fsync_directory env = (if directory_fails env then Inl (OutputError ''cannot fsync directory'') else Inr ())"

definition write_file_atomic :: "file_system \<Rightarrow> string \<Rightarrow> bytes \<Rightarrow> (files, unit) prog" where
  "write_file_atomic env path payload fs =
    (let temporary = path @ ''.tmp'';
         failed = \<lambda>e fs. if os_or_compiler e
           then (Inl (if is_compiler_error e then e else OutputError ''cannot write''), fs(temporary := None))
           else (Inl e, fs)
     in if fs temporary \<noteq> None then (Inl (OutputError ''temporary output already exists''), fs)
        else if open_fails env then failed (OSError ''open'') fs
        else if chmod_fails env then failed (OSError ''chmod'') (fs(temporary := Some []))
        else case write_all (fs_put env) [] payload of
            (Inl e, written) \<Rightarrow> failed e (fs(temporary := Some written))
          | (Inr _, written) \<Rightarrow>
              let fs1 = fs(temporary := Some written) in
              if fsync_fails env then failed (OSError ''fsync'') fs1
              else if replace_fails env then failed (OSError ''replace'') fs1
              else let fs2 = fs1(path := Some written, temporary := None) in
                case fsync_directory env of Inl e \<Rightarrow> failed e fs2 | Inr _ \<Rightarrow> (Inr (), fs2))"

section \<open>The compiler's commit\<close>

definition py_space :: "char \<Rightarrow> bool" where
  "py_space c \<longleftrightarrow> c \<in> {CHR '' '', CHR 0x09, CHR 0x0A, CHR 0x0B, CHR 0x0C, CHR 0x0D,
     CHR 0x1C, CHR 0x1D, CHR 0x1E, CHR 0x1F}"

definition py_strip :: "string \<Rightarrow> string" where
  "py_strip s = rev (dropWhile py_space (rev (dropWhile py_space s)))"

definition lower_hex :: "char \<Rightarrow> bool" where
  "lower_hex c \<longleftrightarrow> c \<in> set ''0123456789abcdef''"

text \<open>The two arguments are the outputs of the two git commands, \<open>None\<close> when one cannot run.\<close>

definition git_compiler_identity :: "string option \<Rightarrow> string option \<Rightarrow> (string \<times> bool) res" where
  "git_compiler_identity rev_parse status = (case (rev_parse, status) of
     (Some head, Some porcelain) \<Rightarrow>
       let commit = py_strip head; dirty = py_strip porcelain \<noteq> [] in
       if length commit \<noteq> 40 \<or> \<not> list_all lower_hex commit
       then Inl (InvalidPlanError ''invalid compiler git commit'')
       else Inr (commit, dirty)
   | _ \<Rightarrow> Inl (InvalidPlanError ''cannot determine compiler git identity''))"

section \<open>Parsed documents\<close>

lemma reject_fold_Inr:
  "rfold (\<lambda>result (key, value). if key \<in> dict_keys result then Inl e
       else Inr (dict_set key value result)) acc ps = Inr d \<longleftrightarrow>
     d = acc @ ps \<and> distinct (map fst ps) \<and> dict_keys acc \<inter> fst ` set ps = {}"
proof (induction ps arbitrary: acc)
  case Nil
  then show ?case by auto
next
  case (Cons p ps)
  obtain k v where p: "p = (k, v)" by fastforce
  show ?case
  proof (cases "k \<in> dict_keys acc")
    case False
    then have "dict_set k v acc = acc @ [(k, v)]" by (rule dict_set_fresh)
    with False Cons.IH [of "acc @ [(k, v)]"] show ?thesis by (auto simp: p dict_keys_def)
  qed (auto simp: p)
qed

lemma reject_duplicate_keys_Inr:
  "reject_duplicate_keys ps = Inr d \<longleftrightarrow> d = ps \<and> distinct (map fst ps)"
  unfolding reject_duplicate_keys_def reject_fold_Inr by (auto simp: dict_keys_def)

text \<open>The value a tree stands for, and the trees none of whose objects repeats a key.\<close>

fun json_embed :: "json \<Rightarrow> pyval" where
  "json_embed JNull = PNone"
| "json_embed (JBool b) = PBool b"
| "json_embed (JInt i) = PInt i"
| "json_embed (JFloat f) = PFloat f"
| "json_embed (JStr s) = PStr s"
| "json_embed (JArr xs) = PList (map json_embed xs)"
| "json_embed (JObj ps) = PDict (map (\<lambda>(k, v). (k, json_embed v)) ps)"

fun json_distinct :: "json \<Rightarrow> bool" where
  "json_distinct (JArr xs) = list_all json_distinct xs"
| "json_distinct (JObj ps) = (distinct (map fst ps) \<and> list_all (\<lambda>(k, v). json_distinct v) ps)"
| "json_distinct _ = True"

lemma rmap_all: "(\<And>x y. x \<in> set xs \<Longrightarrow> f x = Inr y \<longleftrightarrow> P x \<and> y = g x) \<Longrightarrow>
    rmap f xs = Inr ys \<longleftrightarrow> list_all P xs \<and> ys = map g xs"
  by (induction xs arbitrary: ys) auto

lemma json_value_Inr: "json_value t = Inr v \<longleftrightarrow> json_distinct t \<and> v = json_embed t"
proof (induction t arbitrary: v)
  case (JArr xs)
  then have "rmap json_value xs = Inr vs \<longleftrightarrow> list_all json_distinct xs \<and> vs = map json_embed xs" for vs
    by (intro rmap_all) auto
  then show ?case by auto
next
  case (JObj ps)
  let ?f = "\<lambda>(k, v). rbind (json_value v) (\<lambda>w. Inr (k, w))"
  have "?f x = Inr y \<longleftrightarrow> (\<lambda>(k, v). json_distinct v) x \<and> y = (\<lambda>(k, v). (k, json_embed v)) x"
    if x: "x \<in> set ps" for x y
  proof -
    obtain k w where kw: "x = (k, w)" by fastforce
    have "json_value w = Inr u \<longleftrightarrow> json_distinct w \<and> u = json_embed w" for u
      using JObj.IH [OF x, of w] by (simp add: kw)
    then show ?thesis by (auto simp: kw)
  qed
  then have pairs: "rmap ?f ps = Inr vs \<longleftrightarrow>
      list_all (\<lambda>(k, v). json_distinct v) ps \<and> vs = map (\<lambda>(k, v). (k, json_embed v)) ps" for vs
    by (rule rmap_all)
  have names: "map fst (map (\<lambda>(k, v). (k, json_embed v)) ps) = map fst ps" by (induction ps) auto
  have "json_value (JObj ps) = Inr v \<longleftrightarrow>
      (\<exists>vs. rmap ?f ps = Inr vs \<and> distinct (map fst vs) \<and> v = PDict vs)"
    by (simp only: json_value.simps rbind_Inr_iff reject_duplicate_keys_Inr sum.inject) blast
  also have "\<dots> \<longleftrightarrow> json_distinct (JObj ps) \<and> v = json_embed (JObj ps)"
    unfolding pairs json_distinct.simps json_embed.simps using names by metis
  finally show ?case .
qed auto

section \<open>Path components\<close>

definition join_with :: "char \<Rightarrow> string list \<Rightarrow> string" where
  "join_with c parts = (case parts of [] \<Rightarrow> [] | p # ps \<Rightarrow> p @ concat (map (\<lambda>q. c # q) ps))"

lemma split_on_Nil [simp]: "split_on c [] = [[]]"
  by (simp add: split_on_def)

lemma split_on_Cons: "split_on c (x # s) = (if x = c then [] # split_on c s
    else (x # hd (split_on c s)) # tl (split_on c s))"
  by (simp add: split_on_def)

lemma split_on_nonempty [simp]: "split_on c s \<noteq> []"
  by (cases s) (simp_all add: split_on_Cons)

lemma split_on_parts: "\<forall>p\<in>set (split_on c s). c \<notin> set p \<and> set p \<subseteq> set s"
proof (induction s)
  case (Cons x s)
  have "split_on c s = hd (split_on c s) # tl (split_on c s)" by simp
  with Cons obtain q qs where q: "split_on c s = q # qs" "\<forall>p\<in>set (q # qs). c \<notin> set p \<and> set p \<subseteq> set s"
    by metis
  then show ?case by (auto simp: split_on_Cons)
qed simp

lemma split_on_append: "c \<notin> set p \<Longrightarrow> split_on c (p @ c # s) = p # split_on c s"
  by (induction p) (auto simp: split_on_Cons)

lemma split_on_single: "c \<notin> set p \<Longrightarrow> split_on c p = [p]"
  by (induction p) (auto simp: split_on_Cons)

lemma split_on_join: "parts \<noteq> [] \<Longrightarrow> \<forall>p\<in>set parts. c \<notin> set p \<Longrightarrow> split_on c (join_with c parts) = parts"
proof (induction parts)
  case (Cons p ps)
  show ?case
  proof (cases ps)
    case Nil
    with Cons.prems show ?thesis by (simp add: join_with_def split_on_single)
  next
    case (Cons q qs)
    have "join_with c (p # ps) = p @ c # join_with c ps" by (simp add: join_with_def Cons)
    with Cons Cons.prems Cons.IH show ?thesis by (simp add: split_on_append)
  qed
qed simp

lemma set_join: "set (join_with c parts) \<subseteq> insert c (\<Union> (set ` set parts))"
  by (cases parts) (auto simp: join_with_def)

lemma safe_relative_path_Inr:
  "safe_relative_path t = Inr parts \<longleftrightarrow> CHR 0x5C \<notin> set t \<and> CHR 0x00 \<notin> set t \<and> \<not> path_absolute t
     \<and> parts = filter (\<lambda>p. p \<noteq> [] \<and> p \<noteq> ''.'') (split_on CHR ''/'' t) \<and> parts \<noteq> [] \<and> ''..'' \<notin> set parts"
  by (auto simp: safe_relative_path_def path_parts_def path_absolute_def Let_def list_ex_iff)

text \<open>Walking a path from a directory, the way the file system resolves \<open>..\<close>.\<close>

definition resolve :: "string list \<Rightarrow> string list \<Rightarrow> string list" where
  "resolve base parts = fold (\<lambda>p dir. if p = ''..'' then butlast dir
     else if p = [] \<or> p = ''.'' then dir else dir @ [p]) parts base"

lemma resolve_plain:
  "\<forall>p\<in>set parts. p \<noteq> ''..'' \<and> p \<noteq> ''.'' \<and> p \<noteq> [] \<Longrightarrow> resolve base parts = base @ parts"
  unfolding resolve_def by (induction parts arbitrary: base) auto

section \<open>Properties\<close>

text \<open>
  A document is loaded exactly when the file is small enough, parses, has an object as its
  root and repeats no key in any object at any depth; the loaded value is the parsed one.
\<close>

lemma load_json_accepts:
  "load_json doc limit = Inr d \<longleftrightarrow>
     (\<exists>byte_size ps. doc = Some (byte_size, Some (JObj ps)) \<and> byte_size \<le> limit
        \<and> json_distinct (JObj ps) \<and> PDict d = json_embed (JObj ps))"
proof (cases "\<exists>byte_size t. doc = Some (byte_size, Some t) \<and> byte_size \<le> limit")
  case True
  then obtain byte_size t where doc: "doc = Some (byte_size, Some t)" "byte_size \<le> limit" by blast
  then have "load_json doc limit = Inr d \<longleftrightarrow> json_value t = Inr (PDict d)"
    by (auto simp: load_json_def rbind_def split: sum.splits pyval.splits)
  also have "\<dots> \<longleftrightarrow> json_distinct t \<and> PDict d = json_embed t" by (rule json_value_Inr)
  also have "\<dots> \<longleftrightarrow> (\<exists>ps. t = JObj ps \<and> json_distinct (JObj ps) \<and> PDict d = json_embed (JObj ps))"
    by (cases t) auto
  finally show ?thesis using doc by auto
qed (auto simp: load_json_def split: option.splits)

text \<open>
  C33. Whatever progress a sink makes, \<open>write_all\<close> ends with a prefix of the payload appended, and
  with the whole payload when it does not raise.
\<close>

theorem write_all_delivers:
  assumes "sink put contents"
  shows "\<exists>r out' k. write_all put out payload = (r, out') \<and> contents out' = contents out @ take k payload
    \<and> (r = Inr () \<longrightarrow> k = length payload)"
  using sink.write_all_prefix [OF assms] by (metis surj_pair)

text \<open>A stream that takes two bytes at a time and refuses to hold more than five.\<close>

definition slow_stream :: "bytes writer" where
  "slow_stream out payload = (if 5 \<le> length out then (Inl (OSError ''full''), out)
     else (Inr (PInt (int (min 2 (length payload)))), out @ take 2 payload))"

lemma slow_stream_sink: "sink slow_stream id"
proof
  fix out payload out' :: bytes and n
  assume "slow_stream out payload = (Inr (PInt (int n)), out')" "0 < n" "n \<le> length payload"
  then have "n = min 2 (length payload)" "out' = out @ take 2 payload"
    by (auto simp: slow_stream_def split: if_splits)
  then show "id out' = id out @ take n payload" by (simp add: min_def)
next
  fix out payload out' :: bytes and r
  assume "slow_stream out payload = (r, out')"
  then have "out' = out @ take 0 payload \<or> out' = out @ take (min 2 (length payload)) payload"
    by (auto simp: slow_stream_def min_def split: if_splits)
  then show "\<exists>k\<le>length payload. id out' = id out @ take k payload"
    by (metis id_apply le0 min.cobounded2)
qed

theorem write_all_delivers_witness:
  "write_all slow_stream [] [1, 2, 3] = (Inr (), [1, 2, 3])
    \<and> fst (write_all slow_stream [1, 2, 3, 4, 5] [6]) \<noteq> Inr ()
    \<and> (\<exists>r out' k. write_all slow_stream [] [1, 2, 3] = (r, out') \<and> id out' = id [] @ take k [1, 2, 3]
         \<and> (r = Inr () \<longrightarrow> k = 3))"
  using write_all_delivers [OF slow_stream_sink, of "[]" "[1, 2, 3]"]
  by (simp add: write_all.simps [of slow_stream] slow_stream_def write_progress_def)

text \<open>
  C34. An accepted path names components below any directory it is resolved from, and the joined
  components are accepted as themselves.
\<close>

theorem safe_relative_path_contained:
  assumes "safe_relative_path text = Inr parts"
  shows "parts \<noteq> [] \<and> resolve base parts = base @ parts \<and> (\<forall>p\<in>set parts. CHR ''/'' \<notin> set p)
    \<and> safe_relative_path (join_with CHR ''/'' parts) = Inr parts"
proof -
  note p = assms [unfolded safe_relative_path_Inr]
  have slash: "\<forall>p\<in>set parts. CHR ''/'' \<notin> set p" and chars: "\<forall>p\<in>set parts. set p \<subseteq> set text"
    using p split_on_parts by fastforce+
  have plain: "\<forall>p\<in>set parts. p \<noteq> ''..'' \<and> p \<noteq> ''.'' \<and> p \<noteq> []" using p by auto
  have "split_on CHR ''/'' (join_with CHR ''/'' parts) = parts" using slash p by (intro split_on_join) blast+
  moreover have "\<not> path_absolute (join_with CHR ''/'' parts)"
  proof -
    obtain q qs where "parts = q # qs" using p by (meson neq_Nil_conv)
    with plain slash show ?thesis by (cases q) (auto simp: path_absolute_def join_with_def)
  qed
  moreover have "CHR 0x5C \<notin> set (join_with CHR ''/'' parts)" "CHR 0x00 \<notin> set (join_with CHR ''/'' parts)"
    using set_join [of "CHR ''/''" parts] chars p by auto
  moreover have "filter (\<lambda>p. p \<noteq> [] \<and> p \<noteq> ''.'') parts = parts" using plain by (simp add: filter_id_conv)
  moreover have "parts \<noteq> []" "''..'' \<notin> set parts" using p by blast+
  ultimately have "safe_relative_path (join_with CHR ''/'' parts) = Inr parts"
    unfolding safe_relative_path_Inr by simp
  moreover have "parts \<noteq> []" using p by blast
  ultimately show ?thesis using slash resolve_plain [OF plain] by blast
qed

theorem safe_relative_path_contained_witness:
  "safe_relative_path ''a//./b'' = Inr [''a'', ''b'']
    \<and> resolve [''root''] [''a'', ''b''] = [''root'', ''a'', ''b'']
    \<and> safe_relative_path ''a/b'' = Inr [''a'', ''b'']"
proof -
  have "safe_relative_path ''a//./b'' = Inr [''a'', ''b'']"
    by (simp add: safe_relative_path_Inr split_on_Cons path_absolute_def)
  from safe_relative_path_contained [OF this, of "[''root'']"] this show ?thesis
    by (simp add: join_with_def)
qed

text \<open>
  C35. \<open>checked_shape\<close> and \<open>tensor_bytes\<close> accept exactly the arrays of plain non-negative integers
  whose running products stay within 64 bits, and the accepted byte count is the item size
  times the product of the dimensions.
\<close>

theorem tensor_bytes_of_checked_shape:
  assumes "checked_shape value = Inr shape" "dict_get DTYPE_BYTES dtype = Some e"
  shows "value = PList (map PInt shape) \<and> (\<forall>d\<in>set shape. 0 \<le> d)
    \<and> (\<forall>b. tensor_bytes dtype shape = Inr b \<longleftrightarrow> b = e * prod_list shape \<and> bounded_products e shape)
    \<and> (\<forall>b. tensor_bytes dtype shape = Inr b \<longrightarrow> 0 \<le> b \<and> b \<le> UINT64_MAX)"
proof -
  have v: "value = PList (map PInt shape)" "bounded_products 1 shape"
    using assms(1) by (simp_all add: checked_shape_Inr)
  then have nn: "\<forall>d\<in>set shape. 0 \<le> d" by (simp add: bounded_products_nonneg)
  have e: "0 \<le> e" "e \<le> UINT64_MAX"
    using map_of_SomeD [OF assms(2)] by (auto simp: DTYPE_BYTES_def UINT64_MAX_def)
  have "0 \<le> prod_list shape" using nn by (induction shape) auto
  with v nn e assms(2) show ?thesis
    by (auto simp: tensor_bytes_Inr dest: bounded_products_prod)
qed

theorem tensor_bytes_of_checked_shape_witness:
  "checked_shape (PList [PInt 262144, PInt 2816]) = Inr [262144, 2816]
    \<and> tensor_bytes ''BF16'' [262144, 2816] = Inr 1476395008"
proof -
  have shape: "checked_shape (PList [PInt 262144, PInt 2816]) = Inr [262144, 2816]"
    by (simp add: checked_shape_Inr UINT64_MAX_def)
  have "dict_get DTYPE_BYTES ''BF16'' = Some 2" by (simp add: DTYPE_BYTES_def)
  from tensor_bytes_of_checked_shape [OF shape this] shape show ?thesis
    by (simp add: UINT64_MAX_def)
qed

text \<open>
  C18. Over any conforming sink, copying a range with a workspace that is within its cap always
  returns. On success the range was inside the file, exactly its bytes were appended, both
  digests are the digest of those bytes, and the workspace is still within its cap with every
  mapped window below the staging size plus one allocation unit. On an exception the sink has
  only been appended to.
\<close>

theorem copy_range_faithful:
  assumes "sink put contents" "ws_good g ws ws" "0 < g"
  shows "\<exists>r ws' out'. copy_range sha g rss put track (Some data) offset len ws out = Some (r, ws', out')
    \<and> (case r of
        Inl e \<Rightarrow> \<exists>extra. contents out' = contents out @ extra
      | Inr (source_hash, output_hash) \<Rightarrow>
          0 \<le> offset \<and> 0 \<le> len \<and> (len = 0 \<or> offset + len \<le> int (length data))
          \<and> contents out' = contents out @ take (nat len) (drop (nat offset) data)
          \<and> source_hash = sha (take (nat len) (drop (nat offset) data)) \<and> output_hash = source_hash
          \<and> within_cap ws' \<and> windows_within g ws')"
proof -
  from copy_range_outcome [OF assms] obtain r ws' out' where
    run: "copy_range sha g rss put track (Some data) offset len ws out = Some (r, ws', out')"
    and r: "case r of
        Inl e \<Rightarrow> \<exists>extra. contents out' = contents out @ extra
      | Inr (source_hash, output_hash) \<Rightarrow>
          0 \<le> offset \<and> 0 \<le> len \<and> (len = 0 \<or> offset + len \<le> int (length data))
          \<and> contents out' = contents out @ take (nat len) (drop (nat offset) data)
          \<and> source_hash = sha (take (nat len) (drop (nat offset) data)) \<and> output_hash = source_hash
          \<and> ws_good g ws ws'" by blast
  show ?thesis
    by (intro exI conjI, rule run) (use r in \<open>auto simp: ws_good_def split: sum.splits\<close>)
qed

theorem copy_range_faithful_witness:
  "\<exists>ws ws' out'. workspace_new (\<lambda>n. (10, 20)) 100000 4096 = Inr ws
    \<and> copy_range (map (char_of \<circ> unat)) 4096 (\<lambda>n. (10, 20)) slow_stream False (Some [65, 66, 67, 68]) 1 3 ws []
        = Some (Inr (''BCD'', ''BCD''), ws', out') \<and> out' = [66, 67, 68]"
proof -
  let ?rss = "\<lambda>n :: nat. (10, 20) :: int \<times> int"
  obtain ws where new: "workspace_new ?rss 100000 4096 = Inr ws"
    by (simp add: workspace_new_def MIN_STAGING_BYTES_def workspace_check_def Let_def)
  have "high_water ?rss" by (simp add: high_water_def)
  from workspace_new_good [OF new this, of 4096] have ws: "ws_good 4096 ws ws" "staging_bytes ws = 4096"
    "host_memory_cap_bytes ws = 100000" by simp_all
  note copied = copy_range_faithful [OF slow_stream_sink ws(1), of "map (char_of \<circ> unat)" ?rss False
      "[65, 66, 67, 68]" 1 3 "[]"]
  have "\<exists>r ws' out'. copy_range (map (char_of \<circ> unat)) 4096 ?rss slow_stream False
      (Some [65, 66, 67, 68]) 1 3 ws [] = Some (r, ws', out')
      \<and> (\<forall>a b. r = Inr (a, b) \<longrightarrow> out' = [66, 67, 68] \<and> a = ''BCD'' \<and> b = ''BCD'')"
    using copied [OF zero_less_numeral]
    by (elim exE conjE) (intro exI conjI, assumption, clarsimp simp: char_of_def bit_0)
  then obtain r ws' out' where run: "copy_range (map (char_of \<circ> unat)) 4096 ?rss slow_stream False
      (Some [65, 66, 67, 68]) 1 3 ws [] = Some (r, ws', out')"
    and r: "\<forall>a b. r = Inr (a, b) \<longrightarrow> out' = [66, 67, 68] \<and> a = ''BCD'' \<and> b = ''BCD''" by blast
  have "\<exists>d. r = Inr d"
    using run ws by (auto simp: copy_range_def range_loop_unfold copy_body_def file_read_def
        write_all.simps [of slow_stream] slow_stream_def write_progress_def workspace_check_def Let_def)
  with new run r show ?thesis by (auto split: prod.splits)
qed



end
