(* ===== verification/Source_Types.thy ===== *)
theory Source_Types
  imports Common
begin

text \<open>
  The values \<open>tools/gem16_compile/reader.py\<close> hands to the rest of the compiler: the locked files
  of a verified source and the descriptors of its tensors.
\<close>

record locked_file =
  lf_relative_path :: string
  lf_path :: string
  lf_size :: int
  lf_sha256 :: string

record verified_source =
  vs_root :: string
  vs_lock_path :: string
  vs_lock_sha256 :: string
  vs_repository :: string
  vs_revision :: string
  vs_resolved_at_utc :: string
  vs_files :: "locked_file dict"

record tensor_descriptor =
  td_name :: string
  td_dtype :: string
  td_shape :: "int list"
  td_shard :: string
  td_path :: string
  td_absolute_offset :: int
  td_data_offset :: int
  td_byte_length :: int
  td_shard_sha256 :: string

text \<open>The tensors of a source, by name, in the reader's order.\<close>

type_synonym sources = "tensor_descriptor dict"

end
