(* ===== verification/Py_String.thy ===== *)
theory Py_String
  imports Prelude
begin

text \<open>
  The string operations the compiler uses to build and to take apart tensor names: decimal
  numbers, prefixes, suffixes and the part after the last dot.
\<close>

section \<open>Decimal numbers\<close>

definition digit_char :: "nat \<Rightarrow> char" where
  "digit_char d = char_of (48 + d)"

definition is_digit :: "char \<Rightarrow> bool" where
  "is_digit c \<longleftrightarrow> 48 \<le> (of_char c :: nat) \<and> (of_char c :: nat) \<le> 57"

definition digit_value :: "char \<Rightarrow> nat" where
  "digit_value c = of_char c - 48"

text \<open>\<open>str(n)\<close> and \<open>int(s)\<close> on a string of ASCII digits.\<close>

fun nat_str :: "nat \<Rightarrow> string" where
  "nat_str n = (if n < 10 then [digit_char n] else nat_str (n div 10) @ [digit_char (n mod 10)])"

declare nat_str.simps [simp del]

definition str_nat :: "string \<Rightarrow> nat" where
  "str_nat s = foldl (\<lambda>n c. 10 * n + digit_value c) 0 s"

lemma digit_char_facts [simp]:
  assumes "d < 10"
  shows "is_digit (digit_char d)" "digit_value (digit_char d) = d"
proof -
  have "of_char (char_of (48 + d) :: char) = 48 + d" using assms by simp
  then show "is_digit (digit_char d)" "digit_value (digit_char d) = d"
    using assms by (simp_all add: is_digit_def digit_value_def digit_char_def)
qed

lemma nat_str_digits: "list_all is_digit (nat_str n)" and nat_str_nonempty [simp]: "nat_str n \<noteq> []"
  by (induction n rule: nat_str.induct) (subst nat_str.simps, simp)+

lemma str_nat_snoc: "str_nat (s @ [c]) = 10 * str_nat s + digit_value c"
  by (simp add: str_nat_def)

lemma str_nat_str [simp]: "str_nat (nat_str n) = n"
proof (induction n rule: nat_str.induct)
  case (1 n)
  show ?case
  proof (cases "n < 10")
    case True
    then show ?thesis by (subst nat_str.simps) (simp add: str_nat_def)
  next
    case False
    with 1 show ?thesis by (subst nat_str.simps) (simp add: str_nat_snoc)
  qed
qed

lemma nat_str_inject [simp]: "nat_str m = nat_str n \<longleftrightarrow> m = n"
  by (metis str_nat_str)

section \<open>Prefixes and suffixes\<close>

text \<open>\<open>s.startswith(p)\<close> together with what follows.\<close>

fun strip_prefix :: "string \<Rightarrow> string \<Rightarrow> string option" where
  "strip_prefix [] s = Some s"
| "strip_prefix (c # p) [] = None"
| "strip_prefix (c # p) (d # s) = (if c = d then strip_prefix p s else None)"

abbreviation starts_with :: "string \<Rightarrow> string \<Rightarrow> bool" where
  "starts_with p s \<equiv> strip_prefix p s \<noteq> None"

lemma strip_prefix_append [simp]: "strip_prefix p (p @ s) = Some s"
  by (induction p) auto

lemma strip_prefix_Some: "strip_prefix p s = Some r \<longleftrightarrow> s = p @ r"
  by (induction p s rule: strip_prefix.induct) auto

text \<open>\<open>s.endswith(x)\<close> and \<open>s.removesuffix(x)\<close>\<close>

definition ends_with :: "string \<Rightarrow> string \<Rightarrow> bool" where
  "ends_with x s \<longleftrightarrow> starts_with (rev x) (rev s)"

definition remove_suffix :: "string \<Rightarrow> string \<Rightarrow> string" where
  "remove_suffix x s = (case strip_prefix (rev x) (rev s) of None \<Rightarrow> s | Some r \<Rightarrow> rev r)"

lemma ends_with_append [simp]: "ends_with x (s @ x)"
  by (simp add: ends_with_def)

lemma ends_with_iff: "ends_with x s \<longleftrightarrow> (\<exists>r. s = r @ x)"
proof -
  have "starts_with (rev x) (rev s) \<longleftrightarrow> (\<exists>r. rev s = rev x @ r)" by (auto simp: strip_prefix_Some)
  also have "\<dots> \<longleftrightarrow> (\<exists>r. s = r @ x)" by (metis rev_append rev_rev_ident)
  finally show ?thesis by (simp add: ends_with_def)
qed

lemma remove_suffix_append [simp]: "remove_suffix x (s @ x) = s"
  by (simp add: remove_suffix_def)

text \<open>\<open>s.rsplit(c, 1)[-1]\<close>\<close>

definition after_last :: "char \<Rightarrow> string \<Rightarrow> string" where
  "after_last c s = rev (takeWhile (\<lambda>x. x \<noteq> c) (rev s))"

lemma after_last_append: "c \<notin> set t \<Longrightarrow> after_last c (s @ c # t) = t"
  by (simp add: after_last_def takeWhile_append)

section \<open>Numbered names\<close>

text \<open>The groups of \<open>(\d+)\.(.+)\<close>, matched against a whole string.\<close>

definition numbered_rest :: "string \<Rightarrow> (string \<times> string) option" where
  "numbered_rest s = (let digits = takeWhile is_digit s; rest = dropWhile is_digit s in
     if digits = [] then None
     else case rest of
         c # tail \<Rightarrow> if c = CHR ''.'' \<and> tail \<noteq> [] \<and> CHR 0x0A \<notin> set tail then Some (digits, tail) else None
       | [] \<Rightarrow> None)"

lemma dot_not_digit [simp]: "\<not> is_digit CHR ''.''"
  by (simp add: is_digit_def)

lemma numbered_rest_append [simp]:
  assumes "tail \<noteq> []" "CHR 0x0A \<notin> set tail"
  shows "numbered_rest (nat_str n @ CHR ''.'' # tail) = Some (nat_str n, tail)"
proof -
  have "\<forall>c\<in>set (nat_str n). is_digit c" using nat_str_digits by (simp add: list_all_iff)
  then have "takeWhile is_digit (nat_str n @ CHR ''.'' # tail) = nat_str n"
    and "dropWhile is_digit (nat_str n @ CHR ''.'' # tail) = CHR ''.'' # tail"
    by (simp_all add: takeWhile_append dropWhile_append)
  with assms show ?thesis by (simp add: numbered_rest_def)
qed

lemma numbered_rest_Some:
  "numbered_rest s = Some (digits, tail) \<longleftrightarrow> s = digits @ CHR ''.'' # tail \<and> digits \<noteq> []
     \<and> list_all is_digit digits \<and> tail \<noteq> [] \<and> CHR 0x0A \<notin> set tail" (is "?l \<longleftrightarrow> ?r")
proof
  assume ?l
  then have "digits = takeWhile is_digit s" "dropWhile is_digit s = CHR ''.'' # tail"
    "digits \<noteq> []" "tail \<noteq> []" "CHR 0x0A \<notin> set tail"
    by (auto simp: numbered_rest_def Let_def split: if_splits list.splits)
  then show ?r using takeWhile_dropWhile_id [of is_digit s] set_takeWhileD
    by (fastforce simp: list_all_iff)
next
  assume ?r
  then have "takeWhile is_digit s = digits" "dropWhile is_digit s = CHR ''.'' # tail"
    by (auto simp: takeWhile_append dropWhile_append list_all_iff)
  with \<open>?r\<close> show ?l by (simp add: numbered_rest_def)
qed

lemma numbered_inject:
  "nat_str m @ CHR ''.'' # s = nat_str n @ CHR ''.'' # t \<longleftrightarrow> m = n \<and> s = t"
proof -
  have "takeWhile is_digit (nat_str n @ CHR ''.'' # t) = nat_str n" for n t
    using nat_str_digits [of n] by (simp add: takeWhile_append list_all_iff)
  then show ?thesis by (metis append_same_eq list.inject nat_str_inject same_append_eq)
qed

end
