(* ===== verification/Profiles.thy ===== *)
theory Profiles
  imports Py_String Py_Value
begin

text \<open>
  \<open>tools/gem16_compile/profiles.py\<close>: the versioned compiler profiles, the frozen quantizer
  parameters and component layouts, the attention table, the classification of source tensor
  names, and the 1,013-name source inventory.

  Tensor names are matched the way the code's regular expressions do on ASCII names; decimal
  digits outside ASCII are not modelled.
\<close>

section \<open>Profiles\<close>

record compiler_profile =
  prof_name :: string
  prof_head_format :: string
  prof_milestone :: string
  prof_artifact_status :: string
  prof_compiler_implementation :: string
  prof_header_label :: string
  prof_attention :: string
  prof_experts :: string
  prof_embedding_head :: string
  prof_production_quantization_implemented :: bool
  prof_allowed_encoders :: "string list"
  prof_deferred_reason :: "string option"

definition profile_quantization :: "compiler_profile \<Rightarrow> pyval dict" where
  "profile_quantization p = [
     (''profile'', PStr (prof_name p)), (''attention'', PStr (prof_attention p)),
     (''experts'', PStr (prof_experts p)), (''embedding_head'', PStr (prof_embedding_head p)),
     (''production_quantization_implemented'', PBool (prof_production_quantization_implemented p))]"

definition M05_SOURCE_CONTRACT :: string where
  "M05_SOURCE_CONTRACT = ''gemma4-26b-source-bf16-attention-v1''"

definition M05_VISION_EXCLUSION_REASON :: string where
  "M05_VISION_EXCLUSION_REASON = ''text-only Gemma 4 26B profile excludes vision tensors''"

definition M05_DEFERRED_REASON :: string where
  "M05_DEFERRED_REASON = ''deferred to M06-M08; absent from M05 attention-only partial artifact''"

definition M05_SOURCE_LOCK_SHA256 :: "string dict" where
  "M05_SOURCE_LOCK_SHA256 = [
     (''ordinary_bf16'', ''1932b06d568ce8c72f3d2013d39ffd15dd61d37732638c2013f2220eb177a620''),
     (''qat_bf16'', ''3d9441fdebef33785e33181c335338208b8bf868cb8c7da692fd9c765cca8230'')]"

definition M05_APPROVED_SOURCE_LOCKS :: "string set" where
  "M05_APPROVED_SOURCE_LOCKS = set (map snd M05_SOURCE_LOCK_SHA256)"

definition M06_SOURCE_CONTRACT :: string where
  "M06_SOURCE_CONTRACT = ''gemma4-26b-source-bf16-experts-v1''"

definition M06_DEFERRED_REASON :: string where
  "M06_DEFERRED_REASON = ''deferred to M07-M08; absent from M06 expert-only partial artifact''"

definition M06_VISION_EXCLUSION_REASON :: string where
  "M06_VISION_EXCLUSION_REASON = ''text-only Gemma 4 26B profile excludes vision tensors''"

definition M07_SOURCE_CONTRACT :: string where
  "M07_SOURCE_CONTRACT = ''gemma4-26b-source-bf16-tied-head-v1''"

definition M07_DEFERRED_REASON :: string where
  "M07_DEFERRED_REASON = ''deferred to M08; absent from M07 tied-head partial artifact''"

definition M08_SOURCE_CONTRACT :: string where
  "M08_SOURCE_CONTRACT = ''gemma4-26b-source-bf16-complete-hybrid-v1''"

definition M25_SOURCE_CONTRACT :: string where
  "M25_SOURCE_CONTRACT = ''gemma4-26b-qat-q4_0-assistant-bf16-hybrid-v1''"

definition M25_SOURCE_LOCK_SHA256 :: string where
  "M25_SOURCE_LOCK_SHA256 = ''83e509316eab22749fade9c0968333b0a29f0daf99832314b333702bf45bdda5''"

definition M04_PROFILE :: compiler_profile where
  "M04_PROFILE = \<lparr>
     prof_name = ''synthetic-copy-v1'',
     prof_head_format = ''source'',
     prof_milestone = ''M04'',
     prof_artifact_status = ''m04_scaffold_not_runtime_loadable'',
     prof_compiler_implementation = ''gem16_compile_m04_v1'',
     prof_header_label = ''m04-synthetic-copy-scaffold'',
     prof_attention = ''copy-v1-scaffold'',
     prof_experts = ''copy-v1-scaffold'',
     prof_embedding_head = ''source-copy-v1'',
     prof_production_quantization_implemented = False,
     prof_allowed_encoders = [''copy-v1''],
     prof_deferred_reason = None\<rparr>"

definition M05_PROFILE :: compiler_profile where
  "M05_PROFILE = \<lparr>
     prof_name = ''fp8-attention-partial-v1'',
     prof_head_format = ''deferred'',
     prof_milestone = ''M05'',
     prof_artifact_status = ''m05_fp8_attention_partial_not_runtime_loadable'',
     prof_compiler_implementation = ''gem16_compile_m05_native_v1'',
     prof_header_label = ''m05-fp8-attention-partial'',
     prof_attention = ''fp8-per-output-row-v1'',
     prof_experts = ''deferred-to-m06'',
     prof_embedding_head = ''deferred-to-m07'',
     prof_production_quantization_implemented = False,
     prof_allowed_encoders = [''fp8-rowwise-weight-v1'', ''fp8-rowwise-scale-v1''],
     prof_deferred_reason = Some M05_DEFERRED_REASON\<rparr>"

definition M07_PROFILE :: compiler_profile where
  "M07_PROFILE = \<lparr>
     prof_name = ''nvfp4-tied-head-partial-v1'',
     prof_head_format = ''nvfp4'',
     prof_milestone = ''M07'',
     prof_artifact_status = ''m07_nvfp4_tied_head_partial_not_runtime_loadable'',
     prof_compiler_implementation = ''gem16_compile_m07_native_v1'',
     prof_header_label = ''m07-nvfp4-tied-head-partial'',
     prof_attention = ''deferred-to-m08'',
     prof_experts = ''deferred-to-m08'',
     prof_embedding_head = ''nvfp4-group16-divisor-v1'',
     prof_production_quantization_implemented = False,
     prof_allowed_encoders = [''nvfp4-packed-v1'', ''nvfp4-local-scale-v1'', ''nvfp4-weight-divisor-v1'', ''nvfp4-input-divisor-v1''],
     prof_deferred_reason = Some M07_DEFERRED_REASON\<rparr>"

definition M08_PROFILE :: compiler_profile where
  "M08_PROFILE = \<lparr>
     prof_name = ''sm120-text-hybrid-v1'',
     prof_head_format = ''nvfp4'',
     prof_milestone = ''M08'',
     prof_artifact_status = ''m08_complete_runtime_loadable_experimental'',
     prof_compiler_implementation = ''gem16_compile_m08_hybrid_v1'',
     prof_header_label = ''m08-sm120-text-hybrid-v1'',
     prof_attention = ''fp8-per-output-row-v1'',
     prof_experts = ''nvfp4-group16-divisor-v1'',
     prof_embedding_head = ''nvfp4-group16-divisor-v1'',
     prof_production_quantization_implemented = True,
     prof_allowed_encoders = [''copy-v1'', ''constant-bf16-one-v1'', ''fp8-rowwise-weight-v1'', ''fp8-rowwise-scale-v1'', ''nvfp4-packed-v1'', ''nvfp4-local-scale-v1'', ''nvfp4-weight-divisor-v1'', ''nvfp4-input-divisor-v1''],
     prof_deferred_reason = None\<rparr>"

definition M25_PROFILE :: compiler_profile where
  "M25_PROFILE = \<lparr>
     prof_name = ''sm120-mtp-assistant-hybrid-v1'',
     prof_head_format = ''nvfp4'',
     prof_milestone = ''M25'',
     prof_artifact_status = ''m25_mtp_assistant_runtime_candidate'',
     prof_compiler_implementation = ''gem16_compile_m25_assistant_hybrid_v1'',
     prof_header_label = ''m25-sm120-mtp-assistant-hybrid-v1'',
     prof_attention = ''fp8-per-output-row-v1'',
     prof_experts = ''nvfp4-group16-divisor-v1'',
     prof_embedding_head = ''nvfp4-group16-divisor-v1'',
     prof_production_quantization_implemented = True,
     prof_allowed_encoders = [''copy-v1'', ''fp8-rowwise-weight-v1'', ''fp8-rowwise-scale-v1'', ''nvfp4-packed-v1'', ''nvfp4-local-scale-v1'', ''nvfp4-weight-divisor-v1'', ''nvfp4-input-divisor-v1''],
     prof_deferred_reason = None\<rparr>"

definition M06_PROFILE :: compiler_profile where
  "M06_PROFILE = \<lparr>
     prof_name = ''nvfp4-experts-partial-v1'',
     prof_head_format = ''deferred'',
     prof_milestone = ''M06'',
     prof_artifact_status = ''m06_nvfp4_experts_partial_not_runtime_loadable'',
     prof_compiler_implementation = ''gem16_compile_m06_native_v1'',
     prof_header_label = ''m06-nvfp4-experts-partial'',
     prof_attention = ''deferred-to-m08'',
     prof_experts = ''nvfp4-group16-divisor-v1'',
     prof_embedding_head = ''deferred-to-m07'',
     prof_production_quantization_implemented = False,
     prof_allowed_encoders = [''nvfp4-packed-v1'', ''nvfp4-local-scale-v1'', ''nvfp4-weight-divisor-v1'', ''nvfp4-input-divisor-v1''],
     prof_deferred_reason = Some M06_DEFERRED_REASON\<rparr>"


section \<open>Quantizer contracts\<close>

record component_layout =
  lay_encoder :: string
  lay_transformation :: string
  lay_output_dtype :: string
  lay_disk_layout :: string
  lay_runtime_layout_shared :: string
  lay_runtime_layout_routed :: string

definition M06_QUANTIZER_PARAMETERS :: "pyval dict" where
  "M06_QUANTIZER_PARAMETERS = [
     (''contract_id'', PStr ''gem16.nvfp4_bf16_group16''), (''contract_version'', PInt 1),
     (''source_dtype'', PStr ''BF16''), (''packed_dtype'', PStr ''U8''),
     (''local_scale_dtype'', PStr ''F8_E4M3''), (''global_scale_dtype'', PStr ''F32''),
     (''group_size'', PInt 16), (''value_codec'', PStr ''E2M1''),
     (''scale_codec'', PStr ''E4M3FN''), (''global_scale_role'', PStr ''divisor''),
     (''weight_divisor'', PStr ''bf16_rne((448*6)/tensor_amax)''),
     (''zero_tensor_divisor'', PFloat (Fin False 1)), (''input_divisor'', PFloat (Fin False 1)),
     (''local_scale'', PStr ''e4m3fn(binary32((block_amax*(1/6))*weight_divisor))''),
     (''rounding'', PStr ''nearest_even''), (''saturation'', PStr ''finite_saturation''),
     (''signed_zero'', PStr ''preserve_in_nonzero_blocks_canonicalize_zero_blocks''),
     (''zero_behavior'', PStr ''zero_or_underflow_block_emits_zero_scale_and_zero_payload''),
     (''packing'', PStr ''low_nibble_first''),
     (''tensor_granularity'', PStr ''one_weight_and_input_divisor_per_source_tensor'')]"

definition M06_DEQUANTIZATION_EQUATION :: string where
  "M06_DEQUANTIZATION_EQUATION = ''W_approx = decode_e2m1(weight_packed) * decode_e4m3fn(weight_scale) / weight_global_divisor''"

definition M06_COMPONENT_LAYOUTS :: "component_layout dict" where
  "M06_COMPONENT_LAYOUTS = [
     (''weight_packed'', \<lparr>lay_encoder = ''nvfp4-packed-v1'', lay_transformation = ''nvfp4-packed'', lay_output_dtype = ''U8'', lay_disk_layout = ''canonical_row_major_low_nibble_first'', lay_runtime_layout_shared = ''sm120_row8_k64'', lay_runtime_layout_routed = ''expert_major_sm120_row8_k64''\<rparr>),
     (''weight_scale'', \<lparr>lay_encoder = ''nvfp4-local-scale-v1'', lay_transformation = ''nvfp4-local-scale'', lay_output_dtype = ''F8_E4M3'', lay_disk_layout = ''canonical_row_major_group16_e4m3'', lay_runtime_layout_shared = ''sm120_row8_group16_e4m3'', lay_runtime_layout_routed = ''expert_major_sm120_row8_group16_e4m3''\<rparr>),
     (''weight_global_scale'', \<lparr>lay_encoder = ''nvfp4-weight-divisor-v1'', lay_transformation = ''nvfp4-weight-divisor'', lay_output_dtype = ''F32'', lay_disk_layout = ''scalar_f32'', lay_runtime_layout_shared = ''scalar_f32'', lay_runtime_layout_routed = ''scalar_f32''\<rparr>),
     (''input_global_scale'', \<lparr>lay_encoder = ''nvfp4-input-divisor-v1'', lay_transformation = ''nvfp4-input-divisor'', lay_output_dtype = ''F32'', lay_disk_layout = ''scalar_f32'', lay_runtime_layout_shared = ''scalar_f32'', lay_runtime_layout_routed = ''scalar_f32''\<rparr>)]"


definition m06_component_parameters :: "string \<Rightarrow> pyval dict res" where
  "m06_component_parameters component =
     (if component \<notin> dict_keys M06_COMPONENT_LAYOUTS then Inl (ValueError ''unsupported M06 component'')
      else Inr (dict_set ''component'' (PStr component) M06_QUANTIZER_PARAMETERS))"

definition M07_QUANTIZER_PARAMETERS :: "pyval dict" where
  "M07_QUANTIZER_PARAMETERS = M06_QUANTIZER_PARAMETERS"

definition M07_COMPONENT_LAYOUTS :: "component_layout dict" where
  "M07_COMPONENT_LAYOUTS = M06_COMPONENT_LAYOUTS"

definition M07_DEQUANTIZATION_EQUATION :: string where
  "M07_DEQUANTIZATION_EQUATION = M06_DEQUANTIZATION_EQUATION"

definition m07_component_parameters :: "string \<Rightarrow> pyval dict res" where
  "m07_component_parameters component =
     (if component \<notin> dict_keys M07_COMPONENT_LAYOUTS then Inl (ValueError ''unsupported M07 component'')
      else Inr (dict_set ''component'' (PStr component) M07_QUANTIZER_PARAMETERS))"

definition M05_QUANTIZER_PARAMETERS :: "pyval dict" where
  "M05_QUANTIZER_PARAMETERS = [
     (''contract_id'', PStr ''gem16.fp8_attention_rowwise''), (''contract_version'', PInt 1),
     (''source_dtype'', PStr ''BF16''), (''output_dtype'', PStr ''F8_E4M3''),
     (''codec'', PStr ''E4M3FN''), (''scale_dtype'', PStr ''BF16''),
     (''scale_axis'', PStr ''output_row''), (''finite_max'', PFloat (Fin False 448)),
     (''rounding'', PStr ''nearest_even''), (''signed_zero'', PStr ''preserve''),
     (''zero_row_scale'', PStr ''1.0''),
     (''underflow'', PStr ''minimum_positive_bf16_subnormal'')]"

definition M05_DEQUANTIZATION_EQUATION :: string where
  "M05_DEQUANTIZATION_EQUATION = ''source_approx[n,k] = decode_e4m3fn(weight[n,k]) * decode_bf16(weight_scale[n,0])''"


section \<open>The attention table\<close>

record m05_attention_spec =
  spec_shape :: "int list"
  spec_role :: string

definition M05_LAYER_COUNT :: nat where "M05_LAYER_COUNT = 30"
definition M05_GLOBAL_LAYERS :: "nat list" where "M05_GLOBAL_LAYERS = [5, 11, 17, 23, 29]"
definition M05_HIDDEN :: int where "M05_HIDDEN = 2816"
definition M05_LOCAL_Q :: int where "M05_LOCAL_Q = 4096"
definition M05_LOCAL_KV :: int where "M05_LOCAL_KV = 2048"
definition M05_GLOBAL_Q :: int where "M05_GLOBAL_Q = 8192"
definition M05_GLOBAL_KV :: int where "M05_GLOBAL_KV = 1024"

definition layer_prefix :: "nat \<Rightarrow> string" where
  "layer_prefix layer = ''model.language_model.layers.'' @ nat_str layer @ ''.''"

text \<open>The entries one iteration stores, in order.\<close>

definition m05_attention_layer :: "nat \<Rightarrow> (string \<times> m05_attention_spec) list" where
  "m05_attention_layer layer =
    (let global_layer = layer \<in> set M05_GLOBAL_LAYERS;
         q = (if global_layer then M05_GLOBAL_Q else M05_LOCAL_Q);
         kv = (if global_layer then M05_GLOBAL_KV else M05_LOCAL_KV);
         prefix = layer_prefix layer @ ''self_attn''
     in map (\<lambda>(projection, shape). (prefix @ ''.'' @ projection @ ''_proj.weight'',
            \<lparr>spec_shape = shape, spec_role = ''attention_'' @ projection @ ''_projection''\<rparr>))
          [(''q'', [q, M05_HIDDEN]), (''k'', [kv, M05_HIDDEN]), (''o'', [M05_HIDDEN, q])]
        @ (if global_layer then []
           else [(prefix @ ''.v_proj.weight'',
             \<lparr>spec_shape = [kv, M05_HIDDEN], spec_role = ''attention_v_projection''\<rparr>)]))"

definition M05_ATTENTION_TABLE :: "m05_attention_spec dict" where
  "M05_ATTENTION_TABLE = dict_sorted (fold (\<lambda>layer table.
     fold (\<lambda>(name, spec). dict_set name spec) (m05_attention_layer layer) table)
     [0..<M05_LAYER_COUNT] [])"

section \<open>Classification of source names\<close>

definition M05_VISION_LAYER_ROLES :: "string dict" where
  "M05_VISION_LAYER_ROLES = [
     (''input_layernorm.weight'', ''vision_norm''),
     (''mlp.down_proj.linear.weight'', ''vision_mlp''),
     (''mlp.gate_proj.linear.weight'', ''vision_mlp''),
     (''mlp.up_proj.linear.weight'', ''vision_mlp''),
     (''post_attention_layernorm.weight'', ''vision_norm''),
     (''post_feedforward_layernorm.weight'', ''vision_norm''),
     (''pre_feedforward_layernorm.weight'', ''vision_norm''),
     (''self_attn.k_norm.weight'', ''vision_norm''),
     (''self_attn.k_proj.linear.weight'', ''vision_attention''),
     (''self_attn.o_proj.linear.weight'', ''vision_attention''),
     (''self_attn.q_norm.weight'', ''vision_norm''),
     (''self_attn.q_proj.linear.weight'', ''vision_attention''),
     (''self_attn.v_proj.linear.weight'', ''vision_attention'')]"

definition M05_SOURCE_LAYER_ROLES :: "string dict" where
  "M05_SOURCE_LAYER_ROLES = [
     (''input_layernorm.weight'', ''input_layer_norm''), (''layer_scalar'', ''layer_scalar''),
     (''mlp.down_proj.weight'', ''shared_mlp_down''),
     (''mlp.gate_proj.weight'', ''shared_mlp_gate''),
     (''mlp.up_proj.weight'', ''shared_mlp_up''),
     (''post_attention_layernorm.weight'', ''post_attention_layer_norm''),
     (''post_feedforward_layernorm.weight'', ''post_feed_forward_layer_norm''),
     (''post_feedforward_layernorm_1.weight'', ''post_feed_forward_layer_norm_1''),
     (''post_feedforward_layernorm_2.weight'', ''post_feed_forward_layer_norm_2''),
     (''pre_feedforward_layernorm.weight'', ''pre_feed_forward_layer_norm''),
     (''pre_feedforward_layernorm_2.weight'', ''pre_feed_forward_layer_norm_2''),
     (''router.per_expert_scale'', ''router_per_expert_scale''),
     (''router.proj.weight'', ''router_projection''), (''router.scale'', ''router_norm_scale''),
     (''self_attn.k_norm.weight'', ''attention_k_norm''),
     (''self_attn.k_proj.weight'', ''attention_k_projection''),
     (''self_attn.o_proj.weight'', ''attention_o_projection''),
     (''self_attn.q_norm.weight'', ''attention_q_norm''),
     (''self_attn.q_proj.weight'', ''attention_q_projection''),
     (''self_attn.v_proj.weight'', ''attention_v_projection''),
     (''experts.down_proj'', ''routed_expert_down''),
     (''experts.gate_up_proj'', ''routed_expert_gate_up'')]"

definition exact_vision :: "string dict" where
  "exact_vision = [
     (''model.embed_vision.embedding_projection.weight'', ''vision_projection''),
     (''model.vision_tower.patch_embedder.position_embedding_table'', ''vision_embedding''),
     (''model.vision_tower.patch_embedder.input_proj.weight'', ''vision_projection''),
     (''model.vision_tower.std_bias'', ''vision_norm''),
     (''model.vision_tower.std_scale'', ''vision_norm'')]"

text \<open>\<open>int()\<close> refuses a decimal string of more than 4300 digits.\<close>

definition int_of_digits :: "string \<Rightarrow> nat res" where
  "int_of_digits s = (if 4300 < length s then Inl (ValueError ''exceeds the limit for integer string conversion'')
     else Inr (str_nat s))"

definition match_numbered :: "string \<Rightarrow> string \<Rightarrow> (string \<times> string) option" where
  "match_numbered prefix name = (case strip_prefix prefix name of
     None \<Rightarrow> None | Some rest \<Rightarrow> numbered_rest rest)"

definition classify_m05_source :: "string \<Rightarrow> string res" where
  "classify_m05_source name = (case dict_get exact_vision name of
     Some role \<Rightarrow> Inr role
   | None \<Rightarrow> (case match_numbered ''model.vision_tower.encoder.layers.'' name of
       Some (digits, suffix) \<Rightarrow> rbind (int_of_digits digits) (\<lambda>layer.
         if 27 \<le> layer then Inl (ValueError ''unknown M05 vision layer'')
         else (case dict_get M05_VISION_LAYER_ROLES suffix of
             None \<Rightarrow> Inl (ValueError ''unknown M05 vision tensor'')
           | Some role \<Rightarrow> Inr role))
     | None \<Rightarrow>
       if starts_with ''model.vision_tower.'' name then Inl (ValueError ''unknown M05 vision tensor'')
       else if name = ''model.language_model.embed_tokens.weight'' then Inr ''tied_embedding_and_output''
       else if name = ''model.language_model.norm.weight'' then Inr ''final_norm''
       else (case match_numbered ''model.language_model.layers.'' name of
           None \<Rightarrow> Inl (ValueError ''unknown M05 source tensor'')
         | Some (digits, suffix) \<Rightarrow> rbind (int_of_digits digits) (\<lambda>layer.
             if M05_LAYER_COUNT \<le> layer then Inl (ValueError ''M05 source layer is outside 0..29'')
             else (case dict_get M05_SOURCE_LAYER_ROLES suffix of
                 None \<Rightarrow> Inl (ValueError ''unknown M05 source tensor'')
               | Some role \<Rightarrow> Inr role)))))"

section \<open>The source inventory\<close>

type_synonym source_specs = "(string \<times> int list) dict"

definition m06_fixed_specs :: source_specs where
  "m06_fixed_specs = [
     (''model.language_model.embed_tokens.weight'', (''tied_embedding_and_output'', [262144, 2816])),
     (''model.language_model.norm.weight'', (''final_norm'', [2816])),
     (''model.embed_vision.embedding_projection.weight'', (''vision_projection'', [2816, 1152])),
     (''model.vision_tower.patch_embedder.position_embedding_table'', (''vision_embedding'', [2, 10240, 1152])),
     (''model.vision_tower.patch_embedder.input_proj.weight'', (''vision_projection'', [1152, 768])),
     (''model.vision_tower.std_bias'', (''vision_norm'', [1152])),
     (''model.vision_tower.std_scale'', (''vision_norm'', [1152]))]"

definition m06_layer_shapes :: "nat \<Rightarrow> int list dict" where
  "m06_layer_shapes layer =
    (let global_layer = layer \<in> set M05_GLOBAL_LAYERS;
         q = (if global_layer then M05_GLOBAL_Q else M05_LOCAL_Q);
         kv = (if global_layer then M05_GLOBAL_KV else M05_LOCAL_KV);
         head_norm = (if global_layer then 512 else 256)
     in [(''input_layernorm.weight'', [2816]),
         (''layer_scalar'', [1]),
         (''mlp.down_proj.weight'', [2816, 2112]),
         (''mlp.gate_proj.weight'', [2112, 2816]),
         (''mlp.up_proj.weight'', [2112, 2816]),
         (''post_attention_layernorm.weight'', [2816]),
         (''post_feedforward_layernorm.weight'', [2816]),
         (''post_feedforward_layernorm_1.weight'', [2816]),
         (''post_feedforward_layernorm_2.weight'', [2816]),
         (''pre_feedforward_layernorm.weight'', [2816]),
         (''pre_feedforward_layernorm_2.weight'', [2816]),
         (''router.per_expert_scale'', [128]),
         (''router.proj.weight'', [128, 2816]),
         (''router.scale'', [2816]),
         (''self_attn.k_norm.weight'', [head_norm]),
         (''self_attn.k_proj.weight'', [kv, 2816]),
         (''self_attn.o_proj.weight'', [2816, q]),
         (''self_attn.q_norm.weight'', [head_norm]),
         (''self_attn.q_proj.weight'', [q, 2816]),
         (''self_attn.v_proj.weight'', [kv, 2816]),
         (''experts.down_proj'', [128, 2816, 704]),
         (''experts.gate_up_proj'', [128, 1408, 2816])])"

text \<open>\<open>specs[prefix + suffix] = (classify_m05_source(prefix + suffix), shape)\<close>\<close>

definition store_spec :: "string \<Rightarrow> source_specs \<Rightarrow> string \<times> int list \<Rightarrow> source_specs res" where
  "store_spec prefix specs item = (case item of (suffix, shape) \<Rightarrow>
     rbind (classify_m05_source (prefix @ suffix)) (\<lambda>role.
     Inr (dict_set (prefix @ suffix) (role, shape) specs)))"

definition m06_layer_specs :: "source_specs \<Rightarrow> nat \<Rightarrow> source_specs res" where
  "m06_layer_specs specs layer = rfold (\<lambda>specs (suffix, shape).
     if layer \<in> set M05_GLOBAL_LAYERS \<and> suffix = ''self_attn.v_proj.weight'' then Inr specs
     else store_spec (layer_prefix layer) specs (suffix, shape)) specs (m06_layer_shapes layer)"

definition vision_prefix :: "nat \<Rightarrow> string" where
  "vision_prefix layer = ''model.vision_tower.encoder.layers.'' @ nat_str layer @ ''.''"

definition vision_shape :: "string \<Rightarrow> int list" where
  "vision_shape suffix =
    (if suffix \<in> {''self_attn.k_norm.weight'', ''self_attn.q_norm.weight''} then [72]
     else if suffix \<in> {''self_attn.k_proj.linear.weight'', ''self_attn.o_proj.linear.weight'',
         ''self_attn.q_proj.linear.weight'', ''self_attn.v_proj.linear.weight''} then [1152, 1152]
     else if suffix \<in> {''mlp.gate_proj.linear.weight'', ''mlp.up_proj.linear.weight''} then [4304, 1152]
     else if suffix = ''mlp.down_proj.linear.weight'' then [1152, 4304]
     else [1152])"

definition m06_vision_specs :: "source_specs \<Rightarrow> nat \<Rightarrow> source_specs res" where
  "m06_vision_specs specs layer = rfold (\<lambda>specs suffix.
     store_spec (vision_prefix layer) specs (suffix, vision_shape suffix))
     specs (map fst M05_VISION_LAYER_ROLES)"

definition m06_expected_source_specs :: "source_specs res" where
  "m06_expected_source_specs =
     rbind (rfold m06_layer_specs m06_fixed_specs [0..<M05_LAYER_COUNT]) (\<lambda>specs.
     rbind (rfold m06_vision_specs specs [0..<27]) (\<lambda>specs'. Inr (dict_sorted specs')))"

section \<open>Profile lookup\<close>

definition PROFILES :: "compiler_profile dict" where
  "PROFILES = map (\<lambda>profile. (prof_name profile, profile))
     [M04_PROFILE, M05_PROFILE, M06_PROFILE, M07_PROFILE, M08_PROFILE, M25_PROFILE]"

definition profile_for :: "string \<Rightarrow> string \<Rightarrow> compiler_profile res" where
  "profile_for name head_format = (case dict_get PROFILES name of
     None \<Rightarrow> Inl (ValueError ''unsupported compiler profile'')
   | Some profile \<Rightarrow>
       if prof_head_format profile \<noteq> head_format then Inl (ValueError ''profile requires another head format'')
       else Inr profile)"

end
