(* ===== verification/Plan.thy ===== *)
theory Plan
  imports Source_Types Profiles
begin

text \<open>
  \<open>tools/gem16_compile/plan.py\<close>, first part: the compiler plan's records and the parsing of its
  entries from the JSON manifest.
\<close>

definition SUPPORTED_PLAN_SCHEMA :: int where "SUPPORTED_PLAN_SCHEMA = 1"

definition EXPECTED_OMITTED_FAMILIES :: "string list" where
  "EXPECTED_OMITTED_FAMILIES = [''audio'', ''mtp'', ''video'', ''vision'']"

definition PLAN_KEYS :: "string set" where
  "PLAN_KEYS = {''schema_version'', ''artifact_profile'', ''head_format'', ''source_contract'',
     ''source_lock_sha256'', ''target_shard_bytes'', ''approved_metadata_files'',
     ''omitted_families'', ''tensors'', ''excluded_tensors'', ''reference_environment''}"

definition TENSOR_KEYS :: "string set" where
  "TENSOR_KEYS = {''output_name'', ''operation_id'', ''source_names'', ''encoder'', ''transformation'',
     ''transformation_version'', ''output_dtype'', ''physical_shape'', ''logical_dtype'',
     ''logical_shape'', ''axis_transformation'', ''quantizer_parameters'',
     ''dequantization_equation'', ''role'', ''residency_class'', ''disk_layout'',
     ''runtime_layout'', ''aliased''}"

definition EXCLUDED_KEYS :: "string set" where
  "EXCLUDED_KEYS = {''source_name'', ''family'', ''role'', ''residency_class'', ''reason''}"

record tensor_compile_plan =
  output_name :: string
  operation_id :: string
  source_names :: "string list"
  encoder :: string
  transformation :: string
  transformation_version :: int
  output_dtype :: string
  physical_shape :: "int list"
  logical_dtype :: string
  logical_shape :: "int list"
  axis_transformation :: string
  quantizer_parameters :: "pyval dict"
  dequantization_equation :: string
  role :: string
  residency_class :: string
  disk_layout :: string
  runtime_layout :: string
  aliased :: bool

definition output_bytes :: "tensor_compile_plan \<Rightarrow> int res" where
  "output_bytes t = tensor_bytes (output_dtype t) (physical_shape t)"

record excluded_tensor_plan =
  ex_source_name :: string
  ex_family :: string
  ex_role :: string
  ex_residency_class :: string
  ex_reason :: string

record quantization_plan =
  qp_schema_version :: int
  qp_artifact_profile :: string
  qp_head_format :: string
  qp_source_contract :: string
  qp_compiler_manifest_sha256 :: string
  qp_resolved_plan_sha256 :: string
  qp_target_shard_bytes :: int
  qp_approved_metadata_files :: "string list"
  qp_omitted_families :: "string list"
  qp_tensors :: "tensor_compile_plan list"
  qp_excluded_tensors :: "excluded_tensor_plan list"
  qp_reference_environment :: "string dict"

definition sum_bytes :: "tensor_compile_plan list \<Rightarrow> int res" where
  "sum_bytes tensors = rbind (rmap output_bytes tensors) (\<lambda>sizes. Inr (sum_list sizes))"

definition output_tensor_bytes :: "quantization_plan \<Rightarrow> int res" where
  "output_tensor_bytes plan = sum_bytes (qp_tensors plan)"

section \<open>Required fields\<close>

definition required_string :: "pyval \<Rightarrow> string res" where
  "required_string value = (case value of
     PStr s \<Rightarrow> fail_if (s = [] \<or> CHR 0x00 \<in> set s) (InvalidPlanError ''must be a non-empty string'') (Inr s)
   | _ \<Rightarrow> Inl (InvalidPlanError ''must be a non-empty string''))"

definition required_integer :: "pyval \<Rightarrow> int \<Rightarrow> int res" where
  "required_integer value minimum = (case plain_int value of
     Some i \<Rightarrow> fail_if (i < minimum) (InvalidPlanError ''must be an integer >= minimum'') (Inr i)
   | None \<Rightarrow> Inl (InvalidPlanError ''must be an integer >= minimum''))"

definition string_array :: "pyval \<Rightarrow> string list res" where
  "string_array value = (case value of
     PList items \<Rightarrow> rbind (rmap required_string items) (\<lambda>result.
       fail_if (\<not> distinct result) (InvalidPlanError ''contains duplicates'') (Inr result))
   | _ \<Rightarrow> Inl (InvalidPlanError ''must be an array''))"

definition tensor_plan :: "pyval \<Rightarrow> compiler_profile \<Rightarrow> tensor_compile_plan res" where
  "tensor_plan value profile = (case value of
     PDict d \<Rightarrow>
       fail_if (\<not> dict_keys d \<subseteq> TENSOR_KEYS) (InvalidPlanError ''contains unknown keys'') (
       rbind (required_string (obj_get d ''output_name'')) (\<lambda>v_output_name.
       rbind (required_string (obj_get d ''encoder'')) (\<lambda>v_encoder.
       rbind (string_array (obj_get d ''source_names'')) (\<lambda>v_source_names.
       fail_if (v_source_names = [] \<and> v_encoder \<noteq> ''constant-bf16-one-v1'')
         (InvalidPlanError ''source_names must not be empty'') (
       fail_if (v_encoder \<notin> set (prof_allowed_encoders profile)) (InvalidPlanError ''unsupported encoder'') (
       case obj_get d ''quantizer_parameters'' of
         PDict parameters \<Rightarrow>
           rbind (required_string (obj_get d ''operation_id'')) (\<lambda>v_operation_id.
           rbind (required_string (obj_get d ''transformation'')) (\<lambda>v_transformation.
           rbind (required_integer (obj_get d ''transformation_version'') 1) (\<lambda>v_transformation_version.
           rbind (required_string (obj_get d ''output_dtype'')) (\<lambda>v_output_dtype.
           rbind (checked_shape (obj_get d ''physical_shape'')) (\<lambda>v_physical_shape.
           rbind (required_string (obj_get d ''logical_dtype'')) (\<lambda>v_logical_dtype.
           rbind (checked_shape (obj_get d ''logical_shape'')) (\<lambda>v_logical_shape.
           rbind (required_string (obj_get d ''axis_transformation'')) (\<lambda>v_axis_transformation.
           rbind (required_string (obj_get d ''dequantization_equation'')) (\<lambda>v_dequantization_equation.
           rbind (required_string (obj_get d ''role'')) (\<lambda>v_role.
           rbind (required_string (obj_get d ''residency_class'')) (\<lambda>v_residency_class.
           rbind (required_string (obj_get d ''disk_layout'')) (\<lambda>v_disk_layout.
           rbind (required_string (obj_get d ''runtime_layout'')) (\<lambda>v_runtime_layout.
           let plan = \<lparr>output_name = v_output_name, operation_id = v_operation_id,
                 source_names = v_source_names, encoder = v_encoder, transformation = v_transformation,
                 transformation_version = v_transformation_version, output_dtype = v_output_dtype,
                 physical_shape = v_physical_shape, logical_dtype = v_logical_dtype,
                 logical_shape = v_logical_shape, axis_transformation = v_axis_transformation,
                 quantizer_parameters = parameters,
                 dequantization_equation = v_dequantization_equation, role = v_role,
                 residency_class = v_residency_class, disk_layout = v_disk_layout,
                 runtime_layout = v_runtime_layout, aliased = (obj_get d ''aliased'' = PBool True)\<rparr>
           in fail_if (\<forall>b. obj_get d ''aliased'' \<noteq> PBool b) (InvalidPlanError ''aliased must be boolean'') (
              rbind (output_bytes plan) (\<lambda>_. Inr plan)))))))))))))))
       | _ \<Rightarrow> Inl (InvalidPlanError ''quantizer_parameters must be an object'')))))))
   | _ \<Rightarrow> Inl (InvalidPlanError ''must be an object''))"

definition excluded_plan :: "pyval \<Rightarrow> excluded_tensor_plan res" where
  "excluded_plan value = (case value of
     PDict d \<Rightarrow>
       fail_if (\<not> dict_keys d \<subseteq> EXCLUDED_KEYS) (InvalidPlanError ''contains unknown keys'') (
       rbind (required_string (obj_get d ''source_name'')) (\<lambda>v_source_name.
       rbind (required_string (obj_get d ''family'')) (\<lambda>v_family.
       rbind (required_string (obj_get d ''role'')) (\<lambda>v_role.
       rbind (required_string (obj_get d ''residency_class'')) (\<lambda>v_residency_class.
       rbind (required_string (obj_get d ''reason'')) (\<lambda>v_reason.
       fail_if (v_residency_class \<noteq> ''compile_excluded_vision'' \<and> v_family = ''vision'')
         (InvalidPlanError ''vision exclusion must use compile_excluded_vision'')
         (Inr \<lparr>ex_source_name = v_source_name, ex_family = v_family, ex_role = v_role,
            ex_residency_class = v_residency_class, ex_reason = v_reason\<rparr>)))))))
   | _ \<Rightarrow> Inl (InvalidPlanError ''must be an object''))"

section \<open>The contract of a copied tensor\<close>

definition validate_copy_plan :: "tensor_compile_plan \<Rightarrow> tensor_descriptor \<Rightarrow> unit res" where
  "validate_copy_plan tensor source =
     fail_if (transformation tensor \<noteq> ''identity-copy''
       \<or> transformation_version tensor \<noteq> 1
       \<or> output_dtype tensor \<noteq> td_dtype source
       \<or> physical_shape tensor \<noteq> td_shape source
       \<or> logical_dtype tensor \<noteq> td_dtype source
       \<or> logical_shape tensor \<noteq> td_shape source
       \<or> axis_transformation tensor \<noteq> ''identity''
       \<or> quantizer_parameters tensor \<noteq> []
       \<or> dequantization_equation tensor \<noteq> ''output = source'')
       (InvalidPlanError ''copy-v1 semantic contract mismatch'') (
     rbind (output_bytes tensor) (\<lambda>size.
     fail_if (size \<noteq> td_byte_length source) (InvalidPlanError ''copy-v1 byte count mismatch'') (Inr ())))"

end
