(* ===== verification/Plan_Checks.thy ===== *)
theory Plan_Checks
  imports Plan
begin

text \<open>
  \<open>tools/gem16_compile/plan.py\<close>, second part: the validators that hold a plan against the frozen
  contract of its profile. Each validator returns a unit or raises; source tensors are the
  dictionary of descriptors the reader returns.
\<close>


type_synonym groups = "tensor_compile_plan list dict"

definition M05_NAME_ERROR :: error where
  "M05_NAME_ERROR = InvalidPlanError ''unknown M05 source tensor''"

text \<open>\<open>try: classify_m05_source(name) except ValueError as error: raise InvalidPlanError\<close>\<close>

definition classify_checked :: "string \<Rightarrow> string res" where
  "classify_checked name = reraise is_value_error M05_NAME_ERROR (classify_m05_source name)"

definition is_attention_role :: "string \<Rightarrow> bool" where
  "is_attention_role r \<longleftrightarrow> r \<in> {''attention_q_projection'', ''attention_k_projection'',
     ''attention_v_projection'', ''attention_o_projection''}"

definition is_expert_role :: "string \<Rightarrow> bool" where
  "is_expert_role r \<longleftrightarrow> r \<in> {''shared_mlp_gate'', ''shared_mlp_up'', ''shared_mlp_down'',
     ''routed_expert_gate_up'', ''routed_expert_down''}"

abbreviation is_vision_role :: "string \<Rightarrow> bool" where
  "is_vision_role r \<equiv> starts_with ''vision_'' r"

text \<open>\<open>groups.setdefault(tensor.source_names[0], []).append(tensor)\<close> over tensors with one source.\<close>

definition group_step :: "groups \<Rightarrow> tensor_compile_plan \<Rightarrow> groups res" where
  "group_step groups tensor = (case source_names tensor of
     [name] \<Rightarrow> Inr (dict_append name tensor groups)
   | _ \<Rightarrow> Inl (InvalidPlanError ''encoders require exactly one source tensor''))"

definition group_get :: "groups \<Rightarrow> string \<Rightarrow> tensor_compile_plan list" where
  "group_get groups name = (case dict_get groups name of None \<Rightarrow> [] | Some g \<Rightarrow> g)"

abbreviation source_mismatch :: "tensor_descriptor \<Rightarrow> int list \<Rightarrow> bool" where
  "source_mismatch source shape \<equiv> td_dtype source \<noteq> ''BF16'' \<or> td_shape source \<noteq> shape"

text \<open>\<open>if source.byte_length != tensor_bytes("BF16", shape, name): raise\<close>\<close>

definition check_source_bytes :: "tensor_descriptor \<Rightarrow> int list \<Rightarrow> unit res" where
  "check_source_bytes source shape = rbind (tensor_bytes ''BF16'' shape) (\<lambda>size.
     fail_if (td_byte_length source \<noteq> size) (InvalidPlanError ''source byte count mismatch'') (Inr ()))"

section \<open>M05: FP8 attention pairs\<close>

definition m05_item_mismatch :: "string \<Rightarrow> tensor_compile_plan \<Rightarrow> bool" where
  "m05_item_mismatch expected_role item \<longleftrightarrow>
     transformation_version item \<noteq> 1
     \<or> axis_transformation item \<noteq> ''identity''
     \<or> logical_dtype item \<noteq> ''BF16''
     \<or> aliased item
     \<or> role item \<noteq> expected_role
     \<or> residency_class item \<noteq> ''immutable_device_text''
     \<or> \<not> py_eq (PDict (quantizer_parameters item)) (PDict M05_QUANTIZER_PARAMETERS)
     \<or> dequantization_equation item \<noteq> M05_DEQUANTIZATION_EQUATION"

definition m05_pair_mismatch :: "string \<Rightarrow> string \<Rightarrow> int \<Rightarrow> int \<Rightarrow> tensor_compile_plan \<Rightarrow> tensor_compile_plan \<Rightarrow> bool" where
  "m05_pair_mismatch source_name stem rows columns weight scale \<longleftrightarrow>
     output_name weight \<noteq> source_name
     \<or> transformation weight \<noteq> ''bf16-to-fp8-e4m3fn-rowwise-weight''
     \<or> output_dtype weight \<noteq> ''F8_E4M3''
     \<or> physical_shape weight \<noteq> [rows, columns]
     \<or> logical_shape weight \<noteq> [rows, columns]
     \<or> disk_layout weight \<noteq> ''source_nk_fp8''
     \<or> runtime_layout weight \<noteq> ''source_nk_fp8''
     \<or> output_name scale \<noteq> stem @ ''.weight_scale''
     \<or> transformation scale \<noteq> ''bf16-to-bf16-rowwise-scale''
     \<or> output_dtype scale \<noteq> ''BF16''
     \<or> physical_shape scale \<noteq> [rows, 1]
     \<or> logical_shape scale \<noteq> [rows, 1]
     \<or> disk_layout scale \<noteq> ''row_bf16''
     \<or> runtime_layout scale \<noteq> ''row_bf16''"

definition validate_m05_pair :: "string \<Rightarrow> tensor_descriptor \<Rightarrow> tensor_compile_plan list \<Rightarrow> unit res" where
  "validate_m05_pair source_name source pair = (case dict_get M05_ATTENTION_TABLE source_name of
     None \<Rightarrow> Inl (InvalidPlanError ''M05 output source is not an approved language attention projection'')
   | Some spec \<Rightarrow>
     fail_if (source_mismatch source (spec_shape spec))
       (InvalidPlanError ''M05 attention source dtype/shape mismatch'') (
     rbind (check_source_bytes source (td_shape source)) (\<lambda>_.
     fail_if (length pair \<noteq> 2) (InvalidPlanError ''M05 source must have exactly weight and scale outputs'') (
     case td_shape source of
       [rows, columns] \<Rightarrow>
         let stem = remove_suffix ''.weight'' source_name;
             expected_operation = ''fp8-attention:'' @ stem;
             expected_names = {source_name, stem @ ''.weight_scale''}
         in fail_if (output_name ` set pair \<noteq> expected_names) (InvalidPlanError ''M05 output pair names mismatch'') (
            fail_if (\<exists>item\<in>set pair. operation_id item \<noteq> expected_operation)
              (InvalidPlanError ''M05 operation ID mismatch'') (
            fail_if (\<exists>item\<in>set pair. source_names item \<noteq> [source_name])
              (InvalidPlanError ''M05 pair must reference exactly its source'') (
            fail_if (\<exists>item\<in>set pair. m05_item_mismatch (spec_role spec) item)
              (InvalidPlanError ''M05 semantic contract mismatch'') (
            case (filter (\<lambda>item. encoder item = ''fp8-rowwise-weight-v1'') pair,
                  filter (\<lambda>item. encoder item = ''fp8-rowwise-scale-v1'') pair) of
              ([weight], [scale]) \<Rightarrow>
                fail_if (m05_pair_mismatch source_name stem rows columns weight scale)
                  (InvalidPlanError ''M05 weight/scale tensor shape or layout mismatch'') (Inr ())
            | _ \<Rightarrow> Inl (InvalidPlanError ''M05 pair must contain one weight and one scale encoder'')))))
     | _ \<Rightarrow> Inl (ValueError ''cannot unpack the source shape'')))))"

definition m05_check_exclusion :: "sources \<Rightarrow> excluded_tensor_plan \<Rightarrow> unit res" where
  "m05_check_exclusion source_tensors item =
     rbind (classify_checked (ex_source_name item)) (\<lambda>expected_role.
     fail_if (ex_source_name item \<notin> dict_keys source_tensors)
       (InvalidPlanError ''excluded source tensor is absent'') (
     fail_if (ex_role item \<noteq> expected_role) (InvalidPlanError ''M05 exclusion role mismatch'') (
     fail_if (is_attention_role expected_role)
       (InvalidPlanError ''M05 attention projection cannot be deferred'') (
     if is_vision_role expected_role
     then fail_if (ex_family item \<noteq> ''vision''
         \<or> ex_residency_class item \<noteq> ''compile_excluded_vision''
         \<or> ex_reason item \<noteq> M05_VISION_EXCLUSION_REASON)
       (InvalidPlanError ''M05 vision exclusion contract mismatch'') (Inr ())
     else fail_if (ex_family item \<noteq> ''deferred_non_attention''
         \<or> ex_residency_class item \<noteq> ''m05_deferred_non_attention''
         \<or> Some (ex_reason item) \<noteq> prof_deferred_reason M05_PROFILE)
       (InvalidPlanError ''M05 deferred exclusion contract mismatch'') (Inr ())))))"

definition validate_m05_exclusions :: "excluded_tensor_plan list \<Rightarrow> sources \<Rightarrow> unit res" where
  "validate_m05_exclusions excluded source_tensors = riter (m05_check_exclusion source_tensors) excluded"

definition validate_m05_source_inventory :: "sources \<Rightarrow> unit res" where
  "validate_m05_source_inventory source_tensors =
     rbind (rfold (\<lambda>actual_attention (name, source). rbind (classify_checked name) (\<lambda>r.
       Inr (if is_attention_role r then insert name actual_attention else actual_attention)))
       {} source_tensors) (\<lambda>actual_attention.
     fail_if (actual_attention \<noteq> dict_keys M05_ATTENTION_TABLE)
       (InvalidPlanError ''M05 source attention table mismatch'') (
     riter (\<lambda>(name, spec). rbind (dict_index source_tensors name) (\<lambda>source.
       fail_if (source_mismatch source (spec_shape spec))
         (InvalidPlanError ''M05 source descriptor mismatch'') (
       check_source_bytes source (td_shape source)))) M05_ATTENTION_TABLE))"

section \<open>M06: NVFP4 experts\<close>

text \<open>What one source tensor's four outputs must be: encoder, transformation, dtype and shape.\<close>

type_synonym expected_output = "string \<times> string \<times> string \<times> int list"

definition nvfp4_outputs :: "string \<Rightarrow> int list \<Rightarrow> expected_output dict" where
  "nvfp4_outputs stem shape = [
     (stem @ ''.weight_packed'', (''nvfp4-packed-v1'', ''nvfp4-packed'', ''U8'',
        butlast shape @ [last shape div 2])),
     (stem @ ''.weight_scale'', (''nvfp4-local-scale-v1'', ''nvfp4-local-scale'', ''F8_E4M3'',
        butlast shape @ [last shape div 16])),
     (stem @ ''.weight_global_scale'', (''nvfp4-weight-divisor-v1'', ''nvfp4-weight-divisor'', ''F32'', [1])),
     (stem @ ''.input_global_scale'', (''nvfp4-input-divisor-v1'', ''nvfp4-input-divisor'', ''F32'', [1]))]"

definition m06_axis :: "string \<Rightarrow> string" where
  "m06_axis r = (if r = ''routed_expert_gate_up'' then ''expert,gate_then_up,input''
     else if r = ''routed_expert_down'' then ''expert,output,input'' else ''output,input'')"

definition m06_check_item :: "string \<Rightarrow> string \<Rightarrow> string \<Rightarrow> int list \<Rightarrow> expected_output dict \<Rightarrow> tensor_compile_plan \<Rightarrow> unit res" where
  "m06_check_item source_name stem r expected_shape expected item =
     rbind (dict_index expected (output_name item)) (\<lambda>(e_encoder, e_transformation, e_dtype, e_shape).
     let component = after_last CHR ''.'' (output_name item) in
     rbind (dict_index M06_COMPONENT_LAYOUTS component) (\<lambda>layout.
     rbind (m06_component_parameters component) (\<lambda>parameters.
     fail_if (operation_id item \<noteq> ''nvfp4-experts:'' @ stem
       \<or> source_names item \<noteq> [source_name]
       \<or> encoder item \<noteq> e_encoder
       \<or> transformation item \<noteq> e_transformation
       \<or> lay_encoder layout \<noteq> e_encoder
       \<or> lay_transformation layout \<noteq> e_transformation
       \<or> transformation_version item \<noteq> 1
       \<or> output_dtype item \<noteq> e_dtype
       \<or> physical_shape item \<noteq> e_shape
       \<or> logical_shape item \<noteq> expected_shape
       \<or> logical_dtype item \<noteq> ''BF16''
       \<or> axis_transformation item \<noteq> m06_axis r
       \<or> \<not> py_eq (PDict (quantizer_parameters item)) (PDict parameters)
       \<or> dequantization_equation item \<noteq> M06_DEQUANTIZATION_EQUATION
       \<or> role item \<noteq> r
       \<or> residency_class item \<noteq> ''immutable_device_text''
       \<or> disk_layout item \<noteq> lay_disk_layout layout
       \<or> runtime_layout item \<noteq> (if starts_with ''routed_'' r
            then lay_runtime_layout_routed layout else lay_runtime_layout_shared layout)
       \<or> aliased item)
       (InvalidPlanError ''M06 semantic contract mismatch'') (Inr ()))))"

definition validate_m06_source :: "string \<Rightarrow> tensor_descriptor \<Rightarrow> tensor_compile_plan list \<Rightarrow> unit res" where
  "validate_m06_source source_name source grp =
     rbind (reraise is_lookup_or_value_error
       (InvalidPlanError ''M06 source is not in the frozen source inventory'')
       (rbind m06_expected_source_specs (\<lambda>specs. dict_index specs source_name))) (\<lambda>(r, expected_shape).
     fail_if (\<not> is_expert_role r) (InvalidPlanError ''M06 source is not an expert/shared tensor'') (
     fail_if (source_mismatch source expected_shape)
       (InvalidPlanError ''M06 source dtype/shape mismatch'') (
     rbind (check_source_bytes source (td_shape source)) (\<lambda>_.
     fail_if (length grp \<noteq> 4) (InvalidPlanError ''M06 source must have exactly four outputs'') (
     let stem = remove_suffix ''.weight'' source_name;
         expected = nvfp4_outputs stem expected_shape
     in fail_if (output_name ` set grp \<noteq> dict_keys expected)
          (InvalidPlanError ''M06 output component names mismatch'') (
        rbind (riter (m06_check_item source_name stem r expected_shape expected) grp) (\<lambda>_.
        rbind (sum_bytes grp) (\<lambda>total.
        rbind (tensor_bytes ''U8'' (butlast expected_shape @ [last expected_shape div 2])) (\<lambda>packed.
        rbind (tensor_bytes ''F8_E4M3'' (butlast expected_shape @ [last expected_shape div 16])) (\<lambda>scales.
        fail_if (total \<noteq> packed + scales + 8) (InvalidPlanError ''M06 output byte count mismatch'')
          (Inr ())))))))))))"

definition m06_check_exclusion :: "sources \<Rightarrow> excluded_tensor_plan \<Rightarrow> unit res" where
  "m06_check_exclusion source_tensors item =
     fail_if (ex_source_name item \<notin> dict_keys source_tensors)
       (InvalidPlanError ''excluded source tensor is absent'') (
     rbind (classify_checked (ex_source_name item)) (\<lambda>expected_role.
     fail_if (ex_role item \<noteq> expected_role) (InvalidPlanError ''M06 exclusion role mismatch'') (
     let expected = (if is_vision_role expected_role
           then (''vision'', ''compile_excluded_vision'', M06_VISION_EXCLUSION_REASON)
           else (''deferred_non_expert'', ''m06_deferred_non_expert'', M06_DEFERRED_REASON))
     in fail_if ((ex_family item, ex_residency_class item, ex_reason item) \<noteq> expected)
          (InvalidPlanError ''M06 exclusion contract mismatch'') (Inr ()))))"

definition validate_m06_exclusions :: "excluded_tensor_plan list \<Rightarrow> sources \<Rightarrow> unit res" where
  "validate_m06_exclusions excluded source_tensors = riter (m06_check_exclusion source_tensors) excluded"

definition m06_check_source :: "sources \<Rightarrow> string \<times> string \<times> int list \<Rightarrow> unit res" where
  "m06_check_source source_tensors entry = (case entry of (name, r, shape) \<Rightarrow>
     rbind (dict_index source_tensors name) (\<lambda>source.
     fail_if (source_mismatch source shape) (InvalidPlanError ''M06 source descriptor mismatch'') (
     rbind (check_source_bytes source shape) (\<lambda>_.
     rbind (classify_checked name) (\<lambda>actual_role.
     fail_if (actual_role \<noteq> r) (InvalidPlanError ''M06 source role mismatch'') (Inr ()))))))"

definition validate_m06_source_inventory :: "sources \<Rightarrow> unit res" where
  "validate_m06_source_inventory source_tensors =
     rbind m06_expected_source_specs (\<lambda>expected.
     fail_if (dict_keys source_tensors \<noteq> dict_keys expected)
       (InvalidPlanError ''M06 source inventory mismatch'') (
     riter (m06_check_source source_tensors) expected))"

text \<open>\<open>{name for name in source_tensors if classify_m05_source(name) in ...}\<close>\<close>

definition expert_sources :: "sources \<Rightarrow> string set res" where
  "expert_sources source_tensors = rfold (\<lambda>names (name, source).
     rbind (classify_m05_source name) (\<lambda>r. Inr (if is_expert_role r then insert name names else names)))
     {} source_tensors"

definition validate_m06_coverage :: "tensor_compile_plan list \<Rightarrow> excluded_tensor_plan list \<Rightarrow> sources \<Rightarrow> unit res" where
  "validate_m06_coverage tensors excluded source_tensors =
     rbind (validate_m06_source_inventory source_tensors) (\<lambda>_.
     rbind (rfold group_step [] tensors) (\<lambda>groups.
     rbind (expert_sources source_tensors) (\<lambda>experts.
     fail_if (dict_keys groups \<noteq> experts) (InvalidPlanError ''M06 expert/shared source coverage mismatch'') (
     rbind (riter (\<lambda>name. rbind (dict_index source_tensors name) (\<lambda>source.
         rbind (dict_index groups name) (\<lambda>grp. validate_m06_source name source grp)))
       (sort (map fst groups))) (\<lambda>_.
     fail_if (length tensors \<noteq> 600) (InvalidPlanError ''M06 expected 600 output tensors'') (
     validate_m06_exclusions excluded source_tensors))))))"

end
