(* ===== verification/Plan_Coverage.thy ===== *)
theory Plan_Coverage
  imports Plan_Checks
begin

text \<open>
  \<open>tools/gem16_compile/plan.py\<close>, third part: the validators of the tied head, the complete hybrid
  and the Assistant profiles, and the coverage check that composes all of them.
\<close>

section \<open>M07: the tied head\<close>

definition HEAD_NAME :: string where "HEAD_NAME = ''model.language_model.embed_tokens.weight''"
definition HEAD_SHAPE :: "int list" where "HEAD_SHAPE = [262144, 2816]"

definition m07_check_item :: "expected_output dict \<Rightarrow> tensor_compile_plan \<Rightarrow> unit res" where
  "m07_check_item expected item =
     rbind (dict_index expected (output_name item)) (\<lambda>(e_encoder, e_transformation, e_dtype, e_shape).
     let component = after_last CHR ''.'' (output_name item) in
     rbind (dict_index M07_COMPONENT_LAYOUTS component) (\<lambda>layout.
     rbind (m07_component_parameters component) (\<lambda>parameters.
     fail_if (operation_id item \<noteq> ''nvfp4-head:model.language_model.embed_tokens''
       \<or> source_names item \<noteq> [HEAD_NAME]
       \<or> encoder item \<noteq> e_encoder \<or> transformation item \<noteq> e_transformation
       \<or> transformation_version item \<noteq> 1 \<or> output_dtype item \<noteq> e_dtype
       \<or> physical_shape item \<noteq> e_shape \<or> logical_shape item \<noteq> HEAD_SHAPE
       \<or> logical_dtype item \<noteq> ''BF16'' \<or> axis_transformation item \<noteq> ''vocabulary,hidden''
       \<or> \<not> py_eq (PDict (quantizer_parameters item)) (PDict parameters)
       \<or> dequantization_equation item \<noteq> M07_DEQUANTIZATION_EQUATION
       \<or> role item \<noteq> ''tied_embedding_and_output''
       \<or> residency_class item \<noteq> ''immutable_device_text''
       \<or> disk_layout item \<noteq> lay_disk_layout layout
       \<or> runtime_layout item \<noteq> lay_runtime_layout_shared layout
       \<or> \<not> aliased item)
       (InvalidPlanError ''M07 tied head semantic contract mismatch'') (Inr ()))))"

definition m07_exclusion :: "string \<Rightarrow> string \<times> string \<times> string" where
  "m07_exclusion r = (if is_vision_role r
     then (''vision'', ''compile_excluded_vision'', M05_VISION_EXCLUSION_REASON)
     else (''deferred_non_head'', ''m07_deferred_non_head'', M07_DEFERRED_REASON))"

definition m07_check_exclusion :: "sources \<Rightarrow> excluded_tensor_plan \<Rightarrow> unit res" where
  "m07_check_exclusion source_tensors item =
     fail_if (ex_source_name item \<notin> dict_keys source_tensors \<or> ex_source_name item = HEAD_NAME)
       (InvalidPlanError ''M07 invalid excluded source'') (
     rbind (classify_m05_source (ex_source_name item)) (\<lambda>r.
     fail_if (ex_role item \<noteq> r) (InvalidPlanError ''M07 exclusion role mismatch'') (
     fail_if ((ex_family item, ex_residency_class item, ex_reason item) \<noteq> m07_exclusion r)
       (InvalidPlanError ''M07 exclusion contract mismatch'') (Inr ()))))"

definition validate_m07_coverage :: "tensor_compile_plan list \<Rightarrow> excluded_tensor_plan list \<Rightarrow> sources \<Rightarrow> unit res" where
  "validate_m07_coverage tensors excluded source_tensors =
     rbind m06_expected_source_specs (\<lambda>specs.
     fail_if (dict_keys source_tensors \<noteq> dict_keys specs)
       (InvalidPlanError ''M07 requires the complete 1,013-name QAT source inventory'') (
     rbind (validate_m06_source_inventory source_tensors) (\<lambda>_.
     case dict_get source_tensors HEAD_NAME of
       None \<Rightarrow> Inl (InvalidPlanError ''M07 tied head source must be BF16 [262144, 2816]'')
     | Some source \<Rightarrow>
       fail_if (source_mismatch source HEAD_SHAPE)
         (InvalidPlanError ''M07 tied head source must be BF16 [262144, 2816]'') (
       rbind (check_source_bytes source HEAD_SHAPE) (\<lambda>_.
       fail_if (length tensors \<noteq> 4 \<or> source_names ` set tensors \<noteq> {[HEAD_NAME]})
         (InvalidPlanError ''M07 must compile exactly one tied source into four outputs'') (
       let expected = nvfp4_outputs (remove_suffix ''.weight'' HEAD_NAME) HEAD_SHAPE in
       fail_if (output_name ` set tensors \<noteq> dict_keys expected)
         (InvalidPlanError ''M07 tied head output names mismatch'') (
       rbind (riter (m07_check_item expected) tensors) (\<lambda>_.
       rbind (sum_bytes tensors) (\<lambda>total.
       fail_if (total \<noteq> 415236104) (InvalidPlanError ''M07 tied head output byte count mismatch'') (
       fail_if (length excluded \<noteq> 1012) (InvalidPlanError ''M07 requires exactly 1,012 explicit exclusions'') (
       riter (m07_check_exclusion source_tensors) excluded)))))))))))"

section \<open>M08: the complete hybrid\<close>

definition m08_split_step :: "groups \<times> tensor_compile_plan list \<Rightarrow> tensor_compile_plan \<Rightarrow>
    (groups \<times> tensor_compile_plan list) res" where
  "m08_split_step acc tensor = (case acc of (by_source, constants) \<Rightarrow>
     if encoder tensor = ''constant-bf16-one-v1'' then Inr (by_source, constants @ [tensor])
     else (case source_names tensor of
         [name] \<Rightarrow> Inr (dict_append name tensor by_source, constants)
       | _ \<Rightarrow> Inl (InvalidPlanError ''M08 non-constant encoders require one source tensor'')))"

text \<open>The exclusions handed to the M07 validator: everything but the head.\<close>

definition m08_head_exclusions :: "source_specs \<Rightarrow> excluded_tensor_plan list" where
  "m08_head_exclusions specs = map (\<lambda>(name, r, shape). case m07_exclusion r of (fam, residency, why) \<Rightarrow>
       \<lparr>ex_source_name = name, ex_family = fam, ex_role = r, ex_residency_class = residency, ex_reason = why\<rparr>)
     (filter (\<lambda>(name, r, shape). name \<noteq> HEAD_NAME) specs)"

definition m08_check_source :: "sources \<Rightarrow> groups \<Rightarrow> string set \<Rightarrow> string \<times> string \<times> int list \<Rightarrow> string set res" where
  "m08_check_source source_tensors by_source copied_sources entry = (case entry of (source_name, r, shape) \<Rightarrow>
     if is_vision_role r \<or> source_name = HEAD_NAME then Inr copied_sources
     else rbind (dict_index source_tensors source_name) (\<lambda>source.
       let grp = group_get by_source source_name in
       if is_expert_role r
       then rbind (validate_m06_source source_name source grp) (\<lambda>_. Inr copied_sources)
       else if is_attention_role r
       then rbind (validate_m05_pair source_name source grp) (\<lambda>_. Inr copied_sources)
       else (case grp of
           [item] \<Rightarrow>
             fail_if (encoder item \<noteq> ''copy-v1'') (InvalidPlanError ''M08 source tensor must be copied exactly once'') (
             rbind (validate_copy_plan item source) (\<lambda>_.
             fail_if (role item \<noteq> r
               \<or> residency_class item \<noteq> ''immutable_device_text''
               \<or> runtime_layout item \<noteq> ''source_bf16''
               \<or> aliased item)
               (InvalidPlanError ''M08 copy semantic mismatch'') (Inr (insert source_name copied_sources))))
         | _ \<Rightarrow> Inl (InvalidPlanError ''M08 source tensor must be copied exactly once''))))"

definition m08_constants :: "string dict" where
  "m08_constants = concat (map (\<lambda>layer. map (\<lambda>component.
       (''model.language_model.layers.'' @ nat_str layer @ ''.self_attn.'' @ component @ ''_scale'',
        ''attention_'' @ component @ ''_cache_scale'')) [''k'', ''v'']) [0..<M05_LAYER_COUNT])"

definition m08_check_constant :: "tensor_compile_plan \<Rightarrow> unit res" where
  "m08_check_constant item =
     rbind (dict_index m08_constants (output_name item)) (\<lambda>expected_role.
     fail_if (source_names item \<noteq> []
       \<or> operation_id item \<noteq> ''constant-bf16-one:'' @ output_name item
       \<or> transformation item \<noteq> ''constant-bf16-one''
       \<or> transformation_version item \<noteq> 1
       \<or> output_dtype item \<noteq> ''BF16''
       \<or> physical_shape item \<noteq> [1]
       \<or> logical_dtype item \<noteq> ''BF16''
       \<or> logical_shape item \<noteq> [1]
       \<or> axis_transformation item \<noteq> ''scalar''
       \<or> \<not> py_eq (PDict (quantizer_parameters item))
            (PDict [(''value'', PFloat (Fin False 1)), (''encoding'', PStr ''BF16-RNE'')])
       \<or> dequantization_equation item \<noteq> ''output = BF16(1.0)''
       \<or> role item \<noteq> expected_role
       \<or> residency_class item \<noteq> ''immutable_device_text''
       \<or> disk_layout item \<noteq> ''scalar_bf16''
       \<or> runtime_layout item \<noteq> ''scalar_bf16''
       \<or> aliased item)
       (InvalidPlanError ''M08 cache-scale metadata contract mismatch'') (Inr ()))"

definition m08_check_exclusion :: "excluded_tensor_plan \<Rightarrow> unit res" where
  "m08_check_exclusion item = rbind (classify_m05_source (ex_source_name item)) (\<lambda>r.
     fail_if (\<not> is_vision_role r
       \<or> ex_role item \<noteq> r
       \<or> ex_family item \<noteq> ''vision''
       \<or> ex_residency_class item \<noteq> ''compile_excluded_vision''
       \<or> ex_reason item \<noteq> M05_VISION_EXCLUSION_REASON)
       (InvalidPlanError ''M08 exclusion mismatch'') (Inr ()))"

definition validate_m08_coverage :: "tensor_compile_plan list \<Rightarrow> excluded_tensor_plan list \<Rightarrow> sources \<Rightarrow> unit res" where
  "validate_m08_coverage tensors excluded source_tensors =
     rbind (validate_m06_source_inventory source_tensors) (\<lambda>_.
     rbind (rfold m08_split_step ([], []) tensors) (\<lambda>(by_source, constants).
     rbind m06_expected_source_specs (\<lambda>specs.
     rbind (validate_m07_coverage (group_get by_source HEAD_NAME) (m08_head_exclusions specs) source_tensors) (\<lambda>_.
     rbind (rfold (m08_check_source source_tensors by_source) {} specs) (\<lambda>copied_sources.
     fail_if (output_name ` set constants \<noteq> dict_keys m08_constants)
       (InvalidPlanError ''M08 cache-scale metadata inventory mismatch'') (
     rbind (riter m08_check_constant constants) (\<lambda>_.
     fail_if (length tensors \<noteq> 1285) (InvalidPlanError ''M08 expected 1,285 output tensors'') (
     fail_if (card copied_sources \<noteq> 391) (InvalidPlanError ''M08 expected 391 copied text tensors'') (
     fail_if (length excluded \<noteq> 356) (InvalidPlanError ''M08 must exclude exactly the 356 vision tensors'') (
     riter m08_check_exclusion excluded))))))))))"

section \<open>M25: the Assistant hybrid\<close>

definition m25_fixed_specs :: source_specs where
  "m25_fixed_specs = [
     (''model.embed_tokens.weight'', (''tied_embedding_and_output'', [262144, 1024])),
     (''model.norm.weight'', (''final_norm'', [1024])),
     (''pre_projection.weight'', (''assistant_pre_projection'', [1024, 5632])),
     (''post_projection.weight'', (''assistant_post_projection'', [2816, 1024]))]"

definition m25_layer_specs :: "nat \<Rightarrow> source_specs" where
  "m25_layer_specs layer =
    (let prefix = ''model.layers.'' @ nat_str layer @ ''.'';
         q_rows = (if layer = 3 then 8192 else 4096);
         q_norm = (if layer = 3 then 512 else 256)
     in [(prefix @ ''input_layernorm.weight'', (''input_layer_norm'', [1024])),
         (prefix @ ''layer_scalar'', (''layer_scalar'', [1])),
         (prefix @ ''mlp.down_proj.weight'', (''assistant_mlp_down'', [1024, 8192])),
         (prefix @ ''mlp.gate_proj.weight'', (''assistant_mlp_gate'', [8192, 1024])),
         (prefix @ ''mlp.up_proj.weight'', (''assistant_mlp_up'', [8192, 1024])),
         (prefix @ ''post_attention_layernorm.weight'', (''post_attention_layer_norm'', [1024])),
         (prefix @ ''post_feedforward_layernorm.weight'', (''post_feed_forward_layer_norm'', [1024])),
         (prefix @ ''pre_feedforward_layernorm.weight'', (''pre_feed_forward_layer_norm'', [1024])),
         (prefix @ ''self_attn.o_proj.weight'', (''assistant_attention_o_projection'', [1024, q_rows])),
         (prefix @ ''self_attn.q_norm.weight'', (''assistant_attention_q_norm'', [q_norm])),
         (prefix @ ''self_attn.q_proj.weight'', (''assistant_attention_q_projection'', [q_rows, 1024]))])"

definition m25_source_specs :: source_specs where
  "m25_source_specs = dict_sorted (fold (\<lambda>layer specs.
     fold (\<lambda>(name, spec). dict_set name spec) (m25_layer_specs layer) specs) [0..<4] m25_fixed_specs)"

definition m25_check_nvfp4_item :: "string \<Rightarrow> string \<Rightarrow> string \<Rightarrow> int list \<Rightarrow> expected_output dict \<Rightarrow> tensor_compile_plan \<Rightarrow> unit res" where
  "m25_check_nvfp4_item source_name stem r expected_shape expected item =
     rbind (dict_index expected (output_name item)) (\<lambda>(e_encoder, e_transformation, e_dtype, e_shape).
     let component = after_last CHR ''.'' (output_name item);
         tied = (r = ''tied_embedding_and_output'')
     in
     rbind (dict_index M07_COMPONENT_LAYOUTS component) (\<lambda>layout.
     rbind (m07_component_parameters component) (\<lambda>parameters.
     fail_if (operation_id item \<noteq> ''nvfp4-assistant:'' @ stem
       \<or> source_names item \<noteq> [source_name]
       \<or> encoder item \<noteq> e_encoder
       \<or> transformation item \<noteq> e_transformation
       \<or> transformation_version item \<noteq> 1
       \<or> output_dtype item \<noteq> e_dtype
       \<or> physical_shape item \<noteq> e_shape
       \<or> logical_dtype item \<noteq> ''BF16''
       \<or> logical_shape item \<noteq> expected_shape
       \<or> axis_transformation item \<noteq> (if tied then ''vocabulary,hidden'' else ''output,input'')
       \<or> \<not> py_eq (PDict (quantizer_parameters item)) (PDict parameters)
       \<or> dequantization_equation item \<noteq> M07_DEQUANTIZATION_EQUATION
       \<or> role item \<noteq> r
       \<or> residency_class item \<noteq> ''immutable_device_mtp_assistant''
       \<or> disk_layout item \<noteq> lay_disk_layout layout
       \<or> runtime_layout item \<noteq> lay_runtime_layout_shared layout
       \<or> aliased item \<noteq> tied)
       (InvalidPlanError ''M25 NVFP4 semantic contract mismatch'') (Inr ()))))"

definition validate_m25_nvfp4_source :: "string \<Rightarrow> tensor_descriptor \<Rightarrow> tensor_compile_plan list \<Rightarrow> string \<Rightarrow> int list \<Rightarrow> unit res" where
  "validate_m25_nvfp4_source source_name source grp r expected_shape =
     fail_if (source_mismatch source expected_shape) (InvalidPlanError ''M25 NVFP4 source mismatch'') (
     fail_if (length expected_shape \<noteq> 2 \<or> last expected_shape mod 16 \<noteq> 0)
       (InvalidPlanError ''M25 NVFP4 source shape is unsupported'') (
     fail_if (length grp \<noteq> 4) (InvalidPlanError ''M25 NVFP4 source requires four outputs'') (
     let stem = remove_suffix ''.weight'' source_name;
         expected = nvfp4_outputs stem expected_shape
     in fail_if (output_name ` set grp \<noteq> dict_keys expected)
          (InvalidPlanError ''M25 NVFP4 output names mismatch'') (
        riter (m25_check_nvfp4_item source_name stem r expected_shape expected) grp))))"

definition m25_check_fp8_item :: "string \<Rightarrow> string \<Rightarrow> string \<Rightarrow> (string \<times> string \<times> string \<times> int list \<times> string) dict \<Rightarrow>
    tensor_compile_plan \<Rightarrow> unit res" where
  "m25_check_fp8_item source_name stem r expected item =
     rbind (dict_index expected (output_name item)) (\<lambda>(e_encoder, e_transformation, e_dtype, e_shape, e_layout).
     fail_if (operation_id item \<noteq> ''fp8-assistant:'' @ stem
       \<or> source_names item \<noteq> [source_name]
       \<or> encoder item \<noteq> e_encoder
       \<or> transformation item \<noteq> e_transformation
       \<or> transformation_version item \<noteq> 1
       \<or> output_dtype item \<noteq> e_dtype
       \<or> physical_shape item \<noteq> e_shape
       \<or> logical_dtype item \<noteq> ''BF16''
       \<or> logical_shape item \<noteq> e_shape
       \<or> axis_transformation item \<noteq> ''identity''
       \<or> \<not> py_eq (PDict (quantizer_parameters item)) (PDict M05_QUANTIZER_PARAMETERS)
       \<or> dequantization_equation item \<noteq> M05_DEQUANTIZATION_EQUATION
       \<or> role item \<noteq> r
       \<or> residency_class item \<noteq> ''immutable_device_mtp_assistant''
       \<or> disk_layout item \<noteq> e_layout
       \<or> runtime_layout item \<noteq> e_layout
       \<or> aliased item)
       (InvalidPlanError ''M25 FP8 semantic contract mismatch'') (Inr ()))"

definition validate_m25_fp8_source :: "string \<Rightarrow> tensor_descriptor \<Rightarrow> tensor_compile_plan list \<Rightarrow> string \<Rightarrow> int list \<Rightarrow> unit res" where
  "validate_m25_fp8_source source_name source grp r expected_shape =
     fail_if (source_mismatch source expected_shape) (InvalidPlanError ''M25 FP8 source mismatch'') (
     case expected_shape of
       [rows, columns] \<Rightarrow>
         fail_if (length grp \<noteq> 2) (InvalidPlanError ''M25 FP8 source requires two matrix outputs'') (
         let stem = remove_suffix ''.weight'' source_name;
             expected = dict_set (stem @ ''.weight_scale'')
                (''fp8-rowwise-scale-v1'', ''bf16-to-bf16-rowwise-scale'', ''BF16'', [rows, 1], ''row_bf16'')
                [(source_name, (''fp8-rowwise-weight-v1'', ''bf16-to-fp8-e4m3fn-rowwise-weight'',
                  ''F8_E4M3'', [rows, columns], ''source_nk_fp8''))]
         in fail_if (output_name ` set grp \<noteq> dict_keys expected)
              (InvalidPlanError ''M25 FP8 output names mismatch'') (
            riter (m25_check_fp8_item source_name stem r expected) grp))
     | _ \<Rightarrow> Inl (InvalidPlanError ''M25 FP8 source requires two matrix outputs''))"

definition m25_check_source :: "sources \<Rightarrow> groups \<Rightarrow> string \<times> string \<times> int list \<Rightarrow> unit res" where
  "m25_check_source source_tensors by_source entry = (case entry of (name, r, shape) \<Rightarrow>
     rbind (dict_index source_tensors name) (\<lambda>source.
     rbind (tensor_bytes ''BF16'' shape) (\<lambda>size.
     fail_if (source_mismatch source shape \<or> td_byte_length source \<noteq> size)
       (InvalidPlanError ''M25 Assistant source descriptor mismatch'') (
     rbind (dict_index by_source name) (\<lambda>grp.
     if r \<in> {''tied_embedding_and_output'', ''assistant_mlp_down'', ''assistant_mlp_gate'', ''assistant_mlp_up''}
     then validate_m25_nvfp4_source name source grp r shape
     else if r \<in> {''assistant_attention_q_projection'', ''assistant_attention_o_projection'',
         ''assistant_pre_projection'', ''assistant_post_projection''}
     then validate_m25_fp8_source name source grp r shape
     else (case grp of
         [item] \<Rightarrow>
           rbind (validate_copy_plan item source) (\<lambda>_.
           fail_if (output_name item \<noteq> name
             \<or> operation_id item \<noteq> ''copy-assistant:'' @ name
             \<or> role item \<noteq> r
             \<or> residency_class item \<noteq> ''immutable_device_mtp_assistant''
             \<or> disk_layout item \<noteq> ''source_bf16''
             \<or> runtime_layout item \<noteq> ''source_bf16''
             \<or> aliased item)
             (InvalidPlanError ''M25 BF16 copy contract mismatch'') (Inr ()))
       | _ \<Rightarrow> Inl (InvalidPlanError ''M25 BF16 source must be copied once'')))))))"

definition validate_m25_coverage :: "tensor_compile_plan list \<Rightarrow> excluded_tensor_plan list \<Rightarrow> sources \<Rightarrow> unit res" where
  "validate_m25_coverage tensors excluded source_tensors =
     fail_if (dict_keys source_tensors \<noteq> dict_keys m25_source_specs)
       (InvalidPlanError ''M25 Assistant source inventory mismatch'') (
     fail_if (excluded \<noteq> []) (InvalidPlanError ''M25 Assistant hybrid artifact excludes no source tensors'') (
     rbind (rfold group_step [] tensors) (\<lambda>by_source.
     fail_if (dict_keys by_source \<noteq> dict_keys m25_source_specs)
       (InvalidPlanError ''M25 Assistant source coverage is incomplete'') (
     rbind (riter (m25_check_source source_tensors by_source) m25_source_specs) (\<lambda>_.
     fail_if (length tensors \<noteq> 97) (InvalidPlanError ''M25 expected 97 output tensors'') (
     rbind (sum_bytes tensors) (\<lambda>total.
     fail_if (total \<noteq> 258306160) (InvalidPlanError ''M25 Assistant hybrid output byte count mismatch'')
       (Inr ()))))))))"

section \<open>Coverage\<close>

text \<open>The operation every source tensor is assigned to.\<close>

definition cover_source :: "sources \<Rightarrow> tensor_compile_plan \<Rightarrow> string dict \<Rightarrow> string \<Rightarrow> string dict res" where
  "cover_source source_tensors tensor covered source_name =
     fail_if (source_name \<notin> dict_keys source_tensors) (InvalidPlanError ''compiler source tensor is absent'') (
     fail_if (case dict_get covered source_name of None \<Rightarrow> False | Some previous \<Rightarrow> previous \<noteq> operation_id tensor)
       (InvalidPlanError ''source tensor is assigned to conflicting operations'')
       (Inr (dict_set source_name (operation_id tensor) covered)))"

definition cover_tensor :: "sources \<Rightarrow> string dict \<Rightarrow> tensor_compile_plan \<Rightarrow> string dict res" where
  "cover_tensor source_tensors covered tensor =
     rfold (cover_source source_tensors tensor) covered (source_names tensor)"

definition cover_excluded :: "sources \<Rightarrow> string dict \<Rightarrow> excluded_tensor_plan \<Rightarrow> string dict res" where
  "cover_excluded source_tensors covered item =
     fail_if (ex_source_name item \<notin> dict_keys source_tensors)
       (InvalidPlanError ''excluded source tensor is absent'') (
     fail_if (ex_source_name item \<in> dict_keys covered)
       (InvalidPlanError ''source tensor is covered more than once'')
       (Inr (dict_set (ex_source_name item) (''excluded:'' @ ex_family item) covered)))"

definition m04_copy_step :: "sources \<Rightarrow> string set \<Rightarrow> tensor_compile_plan \<Rightarrow> string set res" where
  "m04_copy_step source_tensors copy_sources tensor =
     (if encoder tensor \<noteq> ''copy-v1'' then Inr copy_sources
      else case source_names tensor of
          [source_name] \<Rightarrow>
            fail_if (source_name \<in> copy_sources)
              (InvalidPlanError ''copy-v1 cannot duplicate a source payload'') (
            rbind (dict_index source_tensors source_name) (\<lambda>source.
            rbind (validate_copy_plan tensor source) (\<lambda>_. Inr (insert source_name copy_sources))))
        | _ \<Rightarrow> Inl (InvalidPlanError ''copy-v1 requires exactly one source tensor''))"

definition validate_profile :: "tensor_compile_plan list \<Rightarrow> excluded_tensor_plan list \<Rightarrow> sources \<Rightarrow> compiler_profile \<Rightarrow> unit res" where
  "validate_profile tensors excluded source_tensors profile =
    (if prof_name profile = prof_name M04_PROFILE
     then rbind (rfold (m04_copy_step source_tensors) {} tensors) (\<lambda>_. Inr ())
     else if prof_name profile = prof_name M05_PROFILE
     then rbind (rfold group_step [] tensors) (\<lambda>pairs.
       rbind (riter (\<lambda>(source_name, pair). rbind (dict_index source_tensors source_name) (\<lambda>source.
         validate_m05_pair source_name source pair)) pairs) (\<lambda>_.
       validate_m05_exclusions excluded source_tensors))
     else if prof_name profile = prof_name M06_PROFILE then validate_m06_coverage tensors excluded source_tensors
     else if prof_name profile = prof_name M07_PROFILE then validate_m07_coverage tensors excluded source_tensors
     else if prof_name profile = prof_name M08_PROFILE then validate_m08_coverage tensors excluded source_tensors
     else if prof_name profile = prof_name M25_PROFILE then validate_m25_coverage tensors excluded source_tensors
     else Inr ())"

definition validate_coverage :: "tensor_compile_plan list \<Rightarrow> excluded_tensor_plan list \<Rightarrow> sources \<Rightarrow> compiler_profile \<Rightarrow> unit res" where
  "validate_coverage tensors excluded source_tensors profile =
     rbind (rfold (cover_tensor source_tensors) [] tensors) (\<lambda>covered.
     rbind (if prof_name profile = prof_name M05_PROFILE
        then rbind (validate_m05_source_inventory source_tensors) (\<lambda>_.
          fail_if (\<not> dict_keys M05_ATTENTION_TABLE \<subseteq> dict_keys covered)
            (InvalidPlanError ''M05 language attention projections must be compiled as FP8 pairs'') (Inr ()))
        else Inr ()) (\<lambda>_.
     rbind (validate_profile tensors excluded source_tensors profile) (\<lambda>_.
     rbind (rfold (cover_excluded source_tensors) covered excluded) (\<lambda>covered'.
     fail_if (dict_keys covered' \<noteq> dict_keys source_tensors)
       (InvalidPlanError ''compiler source coverage mismatch'') (Inr ())))))"

end
