(* ===== verification/Plan_Load.thy ===== *)
theory Plan_Load
  imports Plan_Coverage
begin

text \<open>
  \<open>tools/gem16_compile/plan.py\<close>, last part: loading a plan from its manifest and summarising it.
  The digest and the canonical serialization are parameters.
\<close>

section \<open>Checks of the manifest header\<close>

text \<open>The binding of the plan to the source lock its profile requires.\<close>

definition check_source_lock :: "compiler_profile \<Rightarrow> string \<Rightarrow> string \<Rightarrow> unit res" where
  "check_source_lock contract source_lock expected_source_lock =
     rbind
      (if prof_name contract = prof_name M05_PROFILE
       then fail_if (source_lock \<notin> M05_APPROVED_SOURCE_LOCKS)
           (InvalidPlanError ''M05 source lock is not an approved ordinary/QAT BF16 lock'') (
         fail_if (expected_source_lock \<notin> M05_APPROVED_SOURCE_LOCKS)
           (InvalidPlanError ''M05 compiler manifest does not name an approved source lock'') (Inr ()))
       else if prof_name contract \<in> {prof_name M06_PROFILE, prof_name M07_PROFILE, prof_name M08_PROFILE}
       then rbind (dict_index M05_SOURCE_LOCK_SHA256 ''qat_bf16'') (\<lambda>qat_lock.
         fail_if (source_lock \<noteq> qat_lock \<or> expected_source_lock \<noteq> qat_lock)
           (InvalidPlanError ''requires the approved QAT BF16 source lock'') (Inr ()))
       else if prof_name contract = prof_name M25_PROFILE
       then fail_if (source_lock \<noteq> M25_SOURCE_LOCK_SHA256 \<or> expected_source_lock \<noteq> M25_SOURCE_LOCK_SHA256)
           (InvalidPlanError ''M25 requires the approved QAT-Q4_0 Assistant source lock'') (Inr ())
       else Inr ()) (\<lambda>_.
     fail_if (expected_source_lock \<noteq> source_lock)
       (InvalidPlanError ''compiler manifest is bound to another source lock'') (Inr ()))"

definition check_metadata_file :: "locked_file dict \<Rightarrow> string \<Rightarrow> unit res" where
  "check_metadata_file files relative =
     rbind (safe_relative_path relative) (\<lambda>_.
     fail_if (relative \<notin> dict_keys files) (InvalidPlanError ''approved metadata is not source-locked'') (
     fail_if (ends_with ''.safetensors'' relative
       \<or> relative = ''model.safetensors.index.json''
       \<or> relative = ''gem16_compilation.json'')
       (InvalidPlanError ''reserved weight/index/manifest file cannot be metadata'') (Inr ())))"

definition expected_omitted :: "compiler_profile \<Rightarrow> string list" where
  "expected_omitted contract = (if prof_name contract = prof_name M25_PROFILE
     then [''audio'', ''video'', ''vision''] else EXPECTED_OMITTED_FAMILIES)"

definition check_source_contract :: "compiler_profile \<Rightarrow> string \<Rightarrow> unit res" where
  "check_source_contract contract source_contract =
     fail_if (prof_name contract = prof_name M05_PROFILE \<and> source_contract \<noteq> M05_SOURCE_CONTRACT)
       (InvalidPlanError ''M05 source_contract mismatch'') (
     fail_if (prof_name contract = prof_name M06_PROFILE \<and> source_contract \<noteq> M06_SOURCE_CONTRACT)
       (InvalidPlanError ''M06 source_contract mismatch'') (
     fail_if (prof_name contract = prof_name M07_PROFILE \<and> source_contract \<noteq> M07_SOURCE_CONTRACT)
       (InvalidPlanError ''M07 source_contract mismatch'') (
     fail_if (prof_name contract = prof_name M25_PROFILE \<and> source_contract \<noteq> M25_SOURCE_CONTRACT)
       (InvalidPlanError ''M25 source_contract mismatch'') (Inr ()))))"

definition string_dict :: "pyval \<Rightarrow> string dict res" where
  "string_dict value = (case value of
     PDict d \<Rightarrow> rmap (\<lambda>(key, v). case v of
         PStr s \<Rightarrow> fail_if (s = []) (InvalidPlanError ''reference_environment must map strings to strings'') (Inr (key, s))
       | _ \<Rightarrow> Inl (InvalidPlanError ''reference_environment must map strings to strings'')) d
   | _ \<Rightarrow> Inl (InvalidPlanError ''reference_environment must map strings to strings''))"

section \<open>Loading\<close>

definition load_quantization_plan :: "(bytes \<Rightarrow> string) \<Rightarrow> (pyval \<Rightarrow> bytes) \<Rightarrow> json_file \<Rightarrow> bytes \<Rightarrow>
    verified_source \<Rightarrow> sources \<Rightarrow> string \<Rightarrow> string \<Rightarrow> pyval \<Rightarrow> quantization_plan res" where
  "load_quantization_plan sha canonical compiler_manifest raw_bytes source source_tensors profile
      head_format shard_size_override =
     rbind (reraise is_value_error (InvalidPlanError ''unsupported compiler profile'')
       (profile_for profile head_format)) (\<lambda>contract.
     rbind (load_json compiler_manifest (16 * 1024 * 1024)) (\<lambda>document.
     fail_if (dict_keys document \<noteq> PLAN_KEYS) (InvalidPlanError ''compiler manifest top-level keys mismatch'') (
     rbind (required_integer (obj_get document ''schema_version'') 1) (\<lambda>schema_version.
     fail_if (schema_version \<noteq> SUPPORTED_PLAN_SCHEMA) (InvalidPlanError ''unsupported compiler manifest schema_version'') (
     rbind (required_string (obj_get document ''artifact_profile'')) (\<lambda>artifact_profile.
     fail_if (profile \<noteq> artifact_profile) (InvalidPlanError ''unsupported or mismatched compiler profile'') (
     rbind (required_string (obj_get document ''head_format'')) (\<lambda>manifest_head.
     fail_if (head_format \<noteq> manifest_head) (InvalidPlanError ''unsupported or mismatched compiler head format'') (
     rbind (required_string (obj_get document ''source_lock_sha256'')) (\<lambda>expected_source_lock.
     rbind (check_source_lock contract (vs_lock_sha256 source) expected_source_lock) (\<lambda>_.
     rbind (required_integer (obj_get document ''target_shard_bytes'') 1) (\<lambda>manifest_shard_bytes.
     rbind (if shard_size_override = PNone then Inr manifest_shard_bytes
            else required_integer shard_size_override 1) (\<lambda>target_shard_bytes.
     rbind (string_array (obj_get document ''approved_metadata_files'')) (\<lambda>metadata.
     rbind (riter (check_metadata_file (vs_files source)) metadata) (\<lambda>_.
     rbind (string_array (obj_get document ''omitted_families'')) (\<lambda>omitted.
     let omitted_families = sort omitted in
     fail_if (omitted_families \<noteq> expected_omitted contract)
       (InvalidPlanError ''compiler omitted_families mismatch'') (
     case obj_get document ''tensors'' of
       PList tensor_values \<Rightarrow>
         fail_if (tensor_values = []) (InvalidPlanError ''compiler manifest tensors must be a non-empty array'') (
         case obj_get document ''excluded_tensors'' of
           PList excluded_values \<Rightarrow>
             rbind (rmap (\<lambda>value. tensor_plan value contract) tensor_values) (\<lambda>tensors.
             rbind (rmap excluded_plan excluded_values) (\<lambda>excluded.
             fail_if (map output_name tensors \<noteq> sort (map output_name tensors))
               (InvalidPlanError ''compiler output tensors must be in canonical name order'') (
             fail_if (\<not> distinct (map output_name tensors))
               (InvalidPlanError ''compiler manifest contains duplicate output tensor names'') (
             rbind (validate_coverage tensors excluded source_tensors contract) (\<lambda>_.
             rbind (string_dict (obj_get document ''reference_environment'')) (\<lambda>reference_environment.
             rbind (required_string (obj_get document ''source_contract'')) (\<lambda>source_contract.
             rbind (check_source_contract contract source_contract) (\<lambda>_.
             let resolved_document = PDict [
                   (''schema_version'', PInt schema_version),
                   (''artifact_profile'', PStr artifact_profile),
                   (''head_format'', PStr manifest_head),
                   (''source_contract'', PStr source_contract),
                   (''source_lock_sha256'', PStr (vs_lock_sha256 source)),
                   (''target_shard_bytes'', PInt target_shard_bytes),
                   (''approved_metadata_files'', PList (map PStr metadata)),
                   (''omitted_families'', PList (map PStr omitted_families)),
                   (''tensors'', PList tensor_values),
                   (''excluded_tensors'', PList excluded_values),
                   (''reference_environment'', PDict (map (\<lambda>(k, v). (k, PStr v)) reference_environment))]
             in Inr \<lparr>qp_schema_version = schema_version,
                  qp_artifact_profile = artifact_profile,
                  qp_head_format = manifest_head,
                  qp_source_contract = source_contract,
                  qp_compiler_manifest_sha256 = sha raw_bytes,
                  qp_resolved_plan_sha256 = sha (canonical resolved_document),
                  qp_target_shard_bytes = target_shard_bytes,
                  qp_approved_metadata_files = metadata,
                  qp_omitted_families = omitted_families,
                  qp_tensors = tensors,
                  qp_excluded_tensors = excluded,
                  qp_reference_environment = dict_sorted reference_environment\<rparr>))))))))
         | _ \<Rightarrow> Inl (InvalidPlanError ''compiler manifest excluded_tensors must be an array''))
     | _ \<Rightarrow> Inl (InvalidPlanError ''compiler manifest tensors must be a non-empty array''))))))))))))))))))"

section \<open>Summary\<close>

definition count_family :: "int dict \<Rightarrow> excluded_tensor_plan \<Rightarrow> int dict" where
  "count_family totals item = dict_set (ex_family item)
     ((case dict_get totals (ex_family item) of None \<Rightarrow> 0 | Some n \<Rightarrow> n) + 1) totals"

definition plan_summary :: "quantization_plan \<Rightarrow> pyval dict res" where
  "plan_summary plan =
     rbind (output_tensor_bytes plan) (\<lambda>total.
     let excluded_by_family = foldl count_family [] (qp_excluded_tensors plan) in
     Inr [(''schema_version'', PInt 1),
       (''status'', PStr ''planned''),
       (''artifact_profile'', PStr (qp_artifact_profile plan)),
       (''head_format'', PStr (qp_head_format plan)),
       (''compiler_manifest_sha256'', PStr (qp_compiler_manifest_sha256 plan)),
       (''resolved_plan_sha256'', PStr (qp_resolved_plan_sha256 plan)),
       (''output_tensor_count'', PInt (int (length (qp_tensors plan)))),
       (''output_tensor_bytes'', PInt total),
       (''excluded_tensor_count'', PInt (int (length (qp_excluded_tensors plan)))),
       (''excluded_by_family'', PDict (map (\<lambda>(fam, n). (fam, PDict [(''tensor_count'', PInt n)]))
          (dict_sorted excluded_by_family))),
       (''target_shard_bytes'', PInt (qp_target_shard_bytes plan)),
       (''encoder_names'', PList (map PStr (sorted_list_of_set (encoder ` set (qp_tensors plan)))))])"

end
