(* ===== verification/Profile_Facts.thy ===== *)
theory Profile_Facts
  imports Profiles
begin

text \<open>
  What the tables of \<open>profiles.py\<close> amount to: the classification of every inventory name, the
  inventory as a list of distinct names, and its agreement with the attention table.
\<close>

section \<open>Classification\<close>

lemma length_nat_str: "length (nat_str n) \<le> Suc n"
proof (induction n rule: nat_str.induct)
  case (1 n)
  show ?case
  proof (cases "n < 10")
    case True
    then show ?thesis by (subst nat_str.simps) simp
  next
    case False
    then have "length (nat_str (n div 10)) \<le> Suc (n div 10)" using 1 by blast
    moreover have "n div 10 + 1 \<le> n" using False by linarith
    ultimately show ?thesis using False by (subst nat_str.simps) simp
  qed
qed

lemma int_of_digits_str [simp]: "n < 4300 \<Longrightarrow> int_of_digits (nat_str n) = Inr n"
  using length_nat_str [of n] by (simp add: int_of_digits_def)

definition plain_suffix :: "string \<Rightarrow> bool" where
  "plain_suffix s \<longleftrightarrow> s \<noteq> [] \<and> CHR 0x0A \<notin> set s"

lemma plain_layer_suffixes: "list_all plain_suffix (map fst M05_SOURCE_LAYER_ROLES)"
  and plain_vision_suffixes: "list_all plain_suffix (map fst M05_VISION_LAYER_ROLES)"
  by (simp_all add: M05_SOURCE_LAYER_ROLES_def M05_VISION_LAYER_ROLES_def plain_suffix_def)

lemma role_plain:
  "dict_get M05_SOURCE_LAYER_ROLES suffix = Some role \<Longrightarrow> plain_suffix suffix"
  "dict_get M05_VISION_LAYER_ROLES suffix = Some role \<Longrightarrow> plain_suffix suffix"
  using plain_layer_suffixes plain_vision_suffixes map_of_SomeD
  by (fastforce simp: list_all_iff)+

lemma match_layer [simp]:
  "plain_suffix suffix \<Longrightarrow>
     match_numbered ''model.language_model.layers.'' (layer_prefix n @ suffix) = Some (nat_str n, suffix)"
  "match_numbered ''model.vision_tower.encoder.layers.'' (layer_prefix n @ suffix) = None"
  by (simp_all add: match_numbered_def layer_prefix_def plain_suffix_def)

lemma match_vision [simp]:
  "plain_suffix suffix \<Longrightarrow>
     match_numbered ''model.vision_tower.encoder.layers.'' (vision_prefix n @ suffix) = Some (nat_str n, suffix)"
  by (simp add: match_numbered_def vision_prefix_def plain_suffix_def)

lemma exact_names [simp]:
  "dict_get exact_vision (layer_prefix n @ suffix) = None"
  "dict_get exact_vision (vision_prefix n @ suffix) = None"
  "strip_prefix ''model.vision_tower.'' (layer_prefix n @ suffix) = None"
  "layer_prefix n @ suffix \<noteq> ''model.language_model.embed_tokens.weight''"
  "layer_prefix n @ suffix \<noteq> ''model.language_model.norm.weight''"
  by (simp_all add: exact_vision_def layer_prefix_def vision_prefix_def)

lemma classify_layer:
  assumes "n < M05_LAYER_COUNT" "dict_get M05_SOURCE_LAYER_ROLES suffix = Some role"
  shows "classify_m05_source (layer_prefix n @ suffix) = Inr role"
proof -
  have "int_of_digits (nat_str n) = Inr n" using assms by (simp add: M05_LAYER_COUNT_def)
  with assms role_plain(1) [OF assms(2)] show ?thesis by (simp add: classify_m05_source_def)
qed

lemma classify_vision:
  assumes "n < 27" "dict_get M05_VISION_LAYER_ROLES suffix = Some role"
  shows "classify_m05_source (vision_prefix n @ suffix) = Inr role"
  using assms role_plain(2) [OF assms(2)] by (simp add: classify_m05_source_def)

text \<open>A number as the code reads it in a name: leading zeros are allowed.\<close>

definition numeral_below :: "nat \<Rightarrow> string \<Rightarrow> bool" where
  "numeral_below bound s \<longleftrightarrow> s \<noteq> [] \<and> list_all is_digit s \<and> length s \<le> 4300 \<and> str_nat s < bound"

definition language_layer_name :: "string \<Rightarrow> string \<Rightarrow> bool" where
  "language_layer_name name role \<longleftrightarrow> (\<exists>digits suffix. numeral_below 30 digits
     \<and> name = ''model.language_model.layers.'' @ digits @ ''.'' @ suffix
     \<and> dict_get M05_SOURCE_LAYER_ROLES suffix = Some role)"

definition vision_layer_name :: "string \<Rightarrow> string \<Rightarrow> bool" where
  "vision_layer_name name role \<longleftrightarrow> (\<exists>digits suffix. numeral_below 27 digits
     \<and> name = ''model.vision_tower.encoder.layers.'' @ digits @ ''.'' @ suffix
     \<and> dict_get M05_VISION_LAYER_ROLES suffix = Some role)"

lemma match_numbered_Some:
  "match_numbered prefix name = Some (digits, suffix) \<longleftrightarrow> name = prefix @ digits @ ''.'' @ suffix
     \<and> digits \<noteq> [] \<and> list_all is_digit digits \<and> plain_suffix suffix"
  by (auto simp: match_numbered_def numbered_rest_Some strip_prefix_Some plain_suffix_def
      split: option.splits)

lemma layer_name_match:
  "(\<exists>digits suffix. numeral_below bound digits \<and> name = prefix @ digits @ ''.'' @ suffix
      \<and> dict_get roles suffix = Some role) \<longleftrightarrow>
   (case match_numbered prefix name of
      None \<Rightarrow> False
    | Some (digits, suffix) \<Rightarrow> length digits \<le> 4300 \<and> str_nat digits < bound
        \<and> dict_get roles suffix = Some role)" (is "?l \<longleftrightarrow> ?r")
  if "\<And>suffix role. dict_get roles suffix = Some role \<Longrightarrow> plain_suffix suffix"
proof
  assume ?l
  then obtain digits suffix where d: "numeral_below bound digits" "name = prefix @ digits @ ''.'' @ suffix"
    "dict_get roles suffix = Some role" by blast
  then have "match_numbered prefix name = Some (digits, suffix)"
    unfolding match_numbered_Some using that by (simp add: numeral_below_def)
  with d show ?r by (simp add: numeral_below_def)
next
  assume ?r
  then obtain digits suffix where "match_numbered prefix name = Some (digits, suffix)"
    "length digits \<le> 4300" "str_nat digits < bound" "dict_get roles suffix = Some role"
    by (auto split: option.splits)
  then show ?l unfolding match_numbered_Some numeral_below_def by blast
qed

lemma language_layer_match:
  "language_layer_name name role \<longleftrightarrow> (case match_numbered ''model.language_model.layers.'' name of
      None \<Rightarrow> False
    | Some (digits, suffix) \<Rightarrow> length digits \<le> 4300 \<and> str_nat digits < 30
        \<and> dict_get M05_SOURCE_LAYER_ROLES suffix = Some role)"
  unfolding language_layer_name_def by (rule layer_name_match) (rule role_plain(1))

lemma vision_layer_match:
  "vision_layer_name name role \<longleftrightarrow> (case match_numbered ''model.vision_tower.encoder.layers.'' name of
      None \<Rightarrow> False
    | Some (digits, suffix) \<Rightarrow> length digits \<le> 4300 \<and> str_nat digits < 27
        \<and> dict_get M05_VISION_LAYER_ROLES suffix = Some role)"
  unfolding vision_layer_name_def by (rule layer_name_match) (rule role_plain(2))

lemma starts_with_append: "starts_with p (p @ s)"
  by simp

lemma vision_tower_names:
  "match_numbered ''model.vision_tower.encoder.layers.'' name = Some m \<Longrightarrow>
     strip_prefix ''model.vision_tower.'' name \<noteq> None"
  by (cases m) (auto simp: match_numbered_Some)

lemma language_not_vision:
  "match_numbered ''model.language_model.layers.'' name = Some m \<Longrightarrow>
     strip_prefix ''model.vision_tower.'' name = None \<and> dict_get exact_vision name = None
     \<and> name \<noteq> ''model.language_model.embed_tokens.weight'' \<and> name \<noteq> ''model.language_model.norm.weight''"
  by (cases m) (auto simp: match_numbered_Some exact_vision_def)

lemma exact_vision_other:
  "dict_get exact_vision name = Some role \<Longrightarrow>
     match_numbered ''model.vision_tower.encoder.layers.'' name = None
     \<and> match_numbered ''model.language_model.layers.'' name = None
     \<and> name \<noteq> ''model.language_model.embed_tokens.weight'' \<and> name \<noteq> ''model.language_model.norm.weight''"
  by (auto simp: exact_vision_def match_numbered_def split: if_splits)

lemma classify_iff:
  "classify_m05_source name = Inr role \<longleftrightarrow> dict_get exact_vision name = Some role
     \<or> vision_layer_name name role \<or> language_layer_name name role
     \<or> name = ''model.language_model.embed_tokens.weight'' \<and> role = ''tied_embedding_and_output''
     \<or> name = ''model.language_model.norm.weight'' \<and> role = ''final_norm''"
proof (cases "dict_get exact_vision name")
  case (Some r)
  with exact_vision_other [OF Some] show ?thesis
    by (auto simp: classify_m05_source_def vision_layer_match language_layer_match)
next
  case None
  show ?thesis
  proof (cases "match_numbered ''model.vision_tower.encoder.layers.'' name")
    case (Some m)
    with vision_tower_names [OF Some] language_not_vision [of name] None
    have "match_numbered ''model.language_model.layers.'' name = None"
      and "name \<noteq> ''model.language_model.embed_tokens.weight''" "name \<noteq> ''model.language_model.norm.weight''"
      by (metis not_None_eq, auto)
    with None Some show ?thesis
      by (auto simp: classify_m05_source_def vision_layer_match language_layer_match int_of_digits_def
          split: option.splits)
  next
    case none: None
    have tower: "strip_prefix ''model.vision_tower.'' ''model.language_model.embed_tokens.weight'' = None"
      "strip_prefix ''model.vision_tower.'' ''model.language_model.norm.weight'' = None" by simp_all
    show ?thesis
    proof (cases "match_numbered ''model.language_model.layers.'' name")
      case None
      with none \<open>dict_get exact_vision name = None\<close> tower show ?thesis
        by (auto simp: classify_m05_source_def vision_layer_match language_layer_match)
    next
      case (Some m)
      with none language_not_vision [OF Some] show ?thesis
        by (auto simp: classify_m05_source_def vision_layer_match language_layer_match int_of_digits_def
            M05_LAYER_COUNT_def split: option.splits)
    qed
  qed
qed

section \<open>The inventory as a list\<close>

abbreviation store_all :: "(string \<times> 'v) list \<Rightarrow> 'v dict \<Rightarrow> 'v dict" where
  "store_all items d \<equiv> fold (\<lambda>(k, v). dict_set k v) items d"

lemma store_all_fresh: "distinct (map fst (d @ items)) \<Longrightarrow> store_all items d = d @ items"
proof (induction items arbitrary: d)
  case (Cons item items)
  obtain k v where kv: "item = (k, v)" by fastforce
  have "k \<notin> dict_keys d" using Cons.prems by (auto simp: kv dict_keys_def)
  then have "dict_set k v d = d @ [(k, v)]" by (rule dict_set_fresh)
  with Cons show ?case by (simp add: kv)
qed simp

lemma rfold_store:
  assumes "\<And>x s. x \<in> set xs \<Longrightarrow> f s x = Inr (store_all (g x) s)"
  shows "rfold f s xs = Inr (store_all (concat (map g xs)) s)"
  using assms by (induction xs arbitrary: s) auto

definition role_of :: "string dict \<Rightarrow> string \<Rightarrow> string" where
  "role_of roles suffix = (case dict_get roles suffix of None \<Rightarrow> [] | Some r \<Rightarrow> r)"

definition kept_shapes :: "nat \<Rightarrow> int list dict" where
  "kept_shapes layer = filter (\<lambda>(suffix, shape).
     \<not> (layer \<in> set M05_GLOBAL_LAYERS \<and> suffix = ''self_attn.v_proj.weight'')) (m06_layer_shapes layer)"

definition layer_items :: "nat \<Rightarrow> source_specs" where
  "layer_items layer = map (\<lambda>(suffix, shape).
     (layer_prefix layer @ suffix, (role_of M05_SOURCE_LAYER_ROLES suffix, shape))) (kept_shapes layer)"

definition vision_items :: "nat \<Rightarrow> source_specs" where
  "vision_items layer = map (\<lambda>(suffix, role).
     (vision_prefix layer @ suffix, (role, vision_shape suffix))) M05_VISION_LAYER_ROLES"

definition inventory :: source_specs where
  "inventory = m06_fixed_specs @ concat (map layer_items [0..<30]) @ concat (map vision_items [0..<27])"

lemma layer_suffixes: "map fst (m06_layer_shapes layer) = map fst M05_SOURCE_LAYER_ROLES"
  by (simp add: m06_layer_shapes_def M05_SOURCE_LAYER_ROLES_def Let_def)

lemma layer_roles_wf: "distinct (map fst M05_SOURCE_LAYER_ROLES)"
  and vision_roles_wf: "distinct (map fst M05_VISION_LAYER_ROLES)"
  by (simp_all add: M05_SOURCE_LAYER_ROLES_def M05_VISION_LAYER_ROLES_def)

lemma shape_role: "(suffix, shape) \<in> set (m06_layer_shapes layer) \<Longrightarrow>
    dict_get M05_SOURCE_LAYER_ROLES suffix = Some (role_of M05_SOURCE_LAYER_ROLES suffix)"
proof -
  assume "(suffix, shape) \<in> set (m06_layer_shapes layer)"
  then have "suffix \<in> set (map fst M05_SOURCE_LAYER_ROLES)"
    using layer_suffixes [of layer] by (metis fst_conv in_set_conv_decomp list.simps(9) map_append in_set_conv_decomp)
  then show ?thesis
    by (cases "dict_get M05_SOURCE_LAYER_ROLES suffix") (auto simp: role_of_def map_of_eq_None_iff)
qed

lemma store_spec_Inr:
  "classify_m05_source (prefix @ suffix) = Inr role \<Longrightarrow>
     store_spec prefix specs (suffix, shape) = Inr (dict_set (prefix @ suffix) (role, shape) specs)"
  by (simp add: store_spec_def)

lemma m06_layer_specs_Inr:
  assumes "layer < M05_LAYER_COUNT"
  shows "m06_layer_specs specs layer = Inr (store_all (layer_items layer) specs)"
proof -
  let ?g = "\<lambda>(suffix, shape). if layer \<in> set M05_GLOBAL_LAYERS \<and> suffix = ''self_attn.v_proj.weight'' then []
    else [(layer_prefix layer @ suffix, (role_of M05_SOURCE_LAYER_ROLES suffix, shape))]"
  have "m06_layer_specs specs layer = Inr (store_all (concat (map ?g (m06_layer_shapes layer))) specs)"
    unfolding m06_layer_specs_def
    by (rule rfold_store) (auto simp: store_spec_Inr [OF classify_layer [OF assms shape_role]])
  also have "concat (map ?g xs) = map (\<lambda>(suffix, shape).
      (layer_prefix layer @ suffix, (role_of M05_SOURCE_LAYER_ROLES suffix, shape)))
      (filter (\<lambda>(suffix, shape). \<not> (layer \<in> set M05_GLOBAL_LAYERS \<and> suffix = ''self_attn.v_proj.weight'')) xs)" for xs
    by (induction xs) auto
  finally show ?thesis by (simp add: layer_items_def kept_shapes_def)
qed

lemma m06_vision_specs_Inr:
  assumes "layer < 27"
  shows "m06_vision_specs specs layer = Inr (store_all (vision_items layer) specs)"
proof -
  have "m06_vision_specs specs layer = rfold (\<lambda>specs (suffix, role).
      store_spec (vision_prefix layer) specs (suffix, vision_shape suffix)) specs M05_VISION_LAYER_ROLES"
    by (simp add: m06_vision_specs_def rfold_map case_prod_unfold)
  also have "\<dots> = Inr (store_all (concat (map (\<lambda>(suffix, role).
      [(vision_prefix layer @ suffix, (role, vision_shape suffix))]) M05_VISION_LAYER_ROLES)) specs)"
    using classify_vision [OF assms] vision_roles_wf
    by (intro rfold_store) (auto simp: store_spec_Inr)
  also have "concat (map (\<lambda>(suffix, role). [(vision_prefix layer @ suffix, (role, vision_shape suffix))]) xs)
      = map (\<lambda>(suffix, role). (vision_prefix layer @ suffix, (role, vision_shape suffix))) xs" for xs
    by (induction xs) auto
  finally show ?thesis by (simp add: vision_items_def)
qed

lemma m06_specs_store:
  "m06_expected_source_specs = Inr (dict_sorted (store_all
     (concat (map layer_items [0..<30]) @ concat (map vision_items [0..<27])) m06_fixed_specs))"
proof -
  have "rfold m06_layer_specs m06_fixed_specs [0..<M05_LAYER_COUNT]
      = Inr (store_all (concat (map layer_items [0..<30])) m06_fixed_specs)"
    unfolding M05_LAYER_COUNT_def
    by (rule rfold_store) (simp add: m06_layer_specs_Inr M05_LAYER_COUNT_def)
  moreover have "rfold m06_vision_specs specs [0..<27]
      = Inr (store_all (concat (map vision_items [0..<27])) specs)" for specs
    by (rule rfold_store) (simp add: m06_vision_specs_Inr)
  ultimately show ?thesis by (simp only: m06_expected_source_specs_def rbind_simps fold_append comp_apply)
qed

text \<open>The names are distinct: the number and the suffix can be read back from a name.\<close>

lemma layer_prefix_inject: "layer_prefix m @ s = layer_prefix n @ t \<longleftrightarrow> m = n \<and> s = t"
  using numbered_inject [of m s n t] by (simp add: layer_prefix_def)

lemma vision_prefix_inject: "vision_prefix m @ s = vision_prefix n @ t \<longleftrightarrow> m = n \<and> s = t"
  using numbered_inject [of m s n t] by (simp add: vision_prefix_def)

lemma layer_not_vision: "layer_prefix m @ s \<noteq> vision_prefix n @ t"
  by (simp add: layer_prefix_def vision_prefix_def)

lemma fst_layer_items: "map fst (layer_items layer) = map (\<lambda>(s, _). layer_prefix layer @ s) (kept_shapes layer)"
  by (simp add: layer_items_def case_prod_beta comp_def)

lemma fst_vision_items:
  "map fst (vision_items layer) = map (\<lambda>(s, _). vision_prefix layer @ s) M05_VISION_LAYER_ROLES"
  by (simp add: vision_items_def case_prod_beta comp_def)

lemma distinct_kept: "distinct (map fst (kept_shapes layer))"
proof -
  have "distinct (map fst (m06_layer_shapes layer))" by (simp only: layer_suffixes layer_roles_wf)
  then show ?thesis unfolding kept_shapes_def by (rule distinct_map_filter)
qed

lemma distinct_prefixed:
  "distinct (map fst xs) \<Longrightarrow> distinct (map (\<lambda>(s, _). p @ s) xs)"
  by (induction xs) force+

lemma distinct_concat_map:
  assumes "distinct ns" "\<And>n. distinct (f n)" "\<And>m n. m \<noteq> n \<Longrightarrow> set (f m) \<inter> set (f n) = {}"
  shows "distinct (concat (map f ns))"
  using assms(1) by (induction ns) (auto simp: assms(2), metis assms(3) disjoint_iff)

lemma distinct_layers: "distinct (concat (map (\<lambda>n. map fst (layer_items n)) ns))" if "distinct ns"
  using that by (rule distinct_concat_map)
    (auto simp: fst_layer_items layer_prefix_inject intro: distinct_prefixed distinct_kept)

lemma distinct_visions: "distinct (concat (map (\<lambda>n. map fst (vision_items n)) ns))" if "distinct ns"
  using that by (rule distinct_concat_map)
    (auto simp: fst_vision_items vision_prefix_inject intro: distinct_prefixed vision_roles_wf)

lemma fixed_names:
  "distinct (map fst m06_fixed_specs)"
  "layer_prefix n @ s \<notin> set (map fst m06_fixed_specs)" "vision_prefix n @ s \<notin> set (map fst m06_fixed_specs)"
  by (simp_all add: m06_fixed_specs_def layer_prefix_def vision_prefix_def)

lemma inventory_wf: "distinct (map fst inventory)"
proof -
  have layers: "set (map fst (concat (map layer_items ns))) \<subseteq> {layer_prefix n @ s | n s. True}" for ns
    by (fastforce simp: layer_items_def)
  have visions: "set (map fst (concat (map vision_items ns))) \<subseteq> {vision_prefix n @ s | n s. True}" for ns
    by (fastforce simp: vision_items_def)
  have "distinct (map fst (concat (map layer_items [0..<30])))" "distinct (map fst (concat (map vision_items [0..<27])))"
    using distinct_layers [of "[0..<30]"] distinct_visions [of "[0..<27]"] by (simp_all only: map_concat map_map comp_def distinct_upt)
  moreover have "set (map fst (concat (map layer_items [0..<30]))) \<inter> set (map fst (concat (map vision_items [0..<27]))) = {}"
    using layers visions layer_not_vision by blast
  moreover have "set (map fst m06_fixed_specs) \<inter> set (map fst (concat (map layer_items [0..<30]))) = {}"
    using layers fixed_names(2) by blast
  moreover have "set (map fst m06_fixed_specs) \<inter> set (map fst (concat (map vision_items [0..<27]))) = {}"
    using visions fixed_names(3) by blast
  ultimately show ?thesis
    using fixed_names(1) unfolding inventory_def by (simp only: map_append distinct_append set_append) blast
qed

lemma m06_specs_value: "m06_expected_source_specs = Inr (dict_sorted inventory)"
  using inventory_wf store_all_fresh [of m06_fixed_specs
      "concat (map layer_items [0..<30]) @ concat (map vision_items [0..<27])"]
  by (simp only: m06_specs_store inventory_def)

lemma length_kept: "length (kept_shapes layer) = (if layer \<in> set M05_GLOBAL_LAYERS then 21 else 22)"
  by (simp add: kept_shapes_def m06_layer_shapes_def Let_def)

lemma length_inventory: "length inventory = 1013"
proof -
  have "length (concat (map layer_items [0..<30])) = (\<Sum>n\<leftarrow>[0..<30]. if n \<in> set M05_GLOBAL_LAYERS then 21 else 22)"
    by (simp add: length_concat comp_def layer_items_def length_kept)
  also have "\<dots> = 655" by (simp add: M05_GLOBAL_LAYERS_def upt_conv_Cons)
  finally have "length (concat (map layer_items [0..<30])) = 655" .
  moreover have "length (concat (map vision_items [0..<27])) = 351"
    by (simp add: length_concat comp_def vision_items_def sum_list_triv M05_VISION_LAYER_ROLES_def)
  ultimately show ?thesis by (simp add: inventory_def m06_fixed_specs_def)
qed

section \<open>The attention table\<close>

definition attention_roles :: "string set" where
  "attention_roles = {''attention_q_projection'', ''attention_k_projection'',
     ''attention_v_projection'', ''attention_o_projection''}"

lemma dict_get_wf: "dict_wf d \<Longrightarrow> dict_get d k = Some v \<longleftrightarrow> (k, v) \<in> set d"
  by (simp add: dict_wf_def)

lemma layer_items_explicit:
  "layer_items layer = map (\<lambda>(suffix, role, shape). (layer_prefix layer @ suffix, (role, shape)))
     (let global_layer = layer \<in> set M05_GLOBAL_LAYERS;
         q = (if global_layer then M05_GLOBAL_Q else M05_LOCAL_Q);
         kv = (if global_layer then M05_GLOBAL_KV else M05_LOCAL_KV);
         head_norm = (if global_layer then 512 else 256)
     in [(''input_layernorm.weight'', ''input_layer_norm'', [2816]),
         (''layer_scalar'', ''layer_scalar'', [1]),
         (''mlp.down_proj.weight'', ''shared_mlp_down'', [2816, 2112]),
         (''mlp.gate_proj.weight'', ''shared_mlp_gate'', [2112, 2816]),
         (''mlp.up_proj.weight'', ''shared_mlp_up'', [2112, 2816]),
         (''post_attention_layernorm.weight'', ''post_attention_layer_norm'', [2816]),
         (''post_feedforward_layernorm.weight'', ''post_feed_forward_layer_norm'', [2816]),
         (''post_feedforward_layernorm_1.weight'', ''post_feed_forward_layer_norm_1'', [2816]),
         (''post_feedforward_layernorm_2.weight'', ''post_feed_forward_layer_norm_2'', [2816]),
         (''pre_feedforward_layernorm.weight'', ''pre_feed_forward_layer_norm'', [2816]),
         (''pre_feedforward_layernorm_2.weight'', ''pre_feed_forward_layer_norm_2'', [2816]),
         (''router.per_expert_scale'', ''router_per_expert_scale'', [128]),
         (''router.proj.weight'', ''router_projection'', [128, 2816]),
         (''router.scale'', ''router_norm_scale'', [2816]),
         (''self_attn.k_norm.weight'', ''attention_k_norm'', [head_norm]),
         (''self_attn.k_proj.weight'', ''attention_k_projection'', [kv, 2816]),
         (''self_attn.o_proj.weight'', ''attention_o_projection'', [2816, q]),
         (''self_attn.q_norm.weight'', ''attention_q_norm'', [head_norm]),
         (''self_attn.q_proj.weight'', ''attention_q_projection'', [q, 2816])]
      @ (if global_layer then [] else [(''self_attn.v_proj.weight'', ''attention_v_projection'', [kv, 2816])])
      @ [(''experts.down_proj'', ''routed_expert_down'', [128, 2816, 704]),
         (''experts.gate_up_proj'', ''routed_expert_gate_up'', [128, 1408, 2816])])"
  by (simp add: layer_items_def kept_shapes_def m06_layer_shapes_def role_of_def
      M05_SOURCE_LAYER_ROLES_def Let_def)

lemma attention_of_layer:
  "filter (\<lambda>item. fst (snd item) \<in> attention_roles) (layer_items layer) =
    (let global_layer = layer \<in> set M05_GLOBAL_LAYERS;
         q = (if global_layer then M05_GLOBAL_Q else M05_LOCAL_Q);
         kv = (if global_layer then M05_GLOBAL_KV else M05_LOCAL_KV)
     in [(layer_prefix layer @ ''self_attn.k_proj.weight'', (''attention_k_projection'', [kv, 2816])),
         (layer_prefix layer @ ''self_attn.o_proj.weight'', (''attention_o_projection'', [2816, q])),
         (layer_prefix layer @ ''self_attn.q_proj.weight'', (''attention_q_projection'', [q, 2816]))]
      @ (if global_layer then []
         else [(layer_prefix layer @ ''self_attn.v_proj.weight'', (''attention_v_projection'', [kv, 2816]))]))"
  unfolding layer_items_explicit Let_def attention_roles_def by simp

definition spec_item :: "string \<times> m05_attention_spec \<Rightarrow> string \<times> (string \<times> int list)" where
  "spec_item entry = (fst entry, (spec_role (snd entry), spec_shape (snd entry)))"

lemma spec_item_inject: "spec_item a = spec_item b \<longleftrightarrow> a = b"
  by (cases a; cases b) (auto simp: spec_item_def)

lemma attention_layer_items:
  "set (map spec_item (m05_attention_layer layer)) =
     set (filter (\<lambda>item. fst (snd item) \<in> attention_roles) (layer_items layer))"
  unfolding attention_of_layer
  by (simp add: m05_attention_layer_def Let_def spec_item_def M05_HIDDEN_def insert_commute)

lemma attention_names_distinct: "distinct (map fst (concat (map m05_attention_layer [0..<30])))"
proof -
  have inner: "distinct (map fst (m05_attention_layer n))" for n
    by (simp add: m05_attention_layer_def Let_def)
  have names: "set (map fst (m05_attention_layer n)) \<subseteq> range (append (layer_prefix n))" for n
  proof -
    have "set (map fst (m05_attention_layer n)) = fst ` set (map spec_item (m05_attention_layer n))"
      by (auto simp: spec_item_def image_image)
    then show ?thesis unfolding attention_layer_items by (auto simp: layer_items_def)
  qed
  have disjoint: "set (map fst (m05_attention_layer m)) \<inter> set (map fst (m05_attention_layer n)) = {}"
    if "m \<noteq> n" for m n
  proof -
    have "x \<notin> range (append (layer_prefix m)) \<inter> range (append (layer_prefix n))" for x
      using that by (auto simp: layer_prefix_inject)
    with names [of m] names [of n] show ?thesis by blast
  qed
  have "distinct (concat (map (\<lambda>n. map fst (m05_attention_layer n)) [0..<30]))"
    by (rule distinct_concat_map [OF distinct_upt inner disjoint])
  then show ?thesis by (simp only: map_concat map_map comp_def)
qed

lemma store_all_concat:
  "fold (\<lambda>x. store_all (g x)) xs d = store_all (concat (map g xs)) d"
  by (induction xs arbitrary: d) auto

lemma attention_table_value:
  "M05_ATTENTION_TABLE = dict_sorted (concat (map m05_attention_layer [0..<30]))"
  using attention_names_distinct store_all_fresh [of "[]" "concat (map m05_attention_layer [0..<30])"]
  by (simp only: M05_ATTENTION_TABLE_def M05_LAYER_COUNT_def store_all_concat append_Nil)

lemma set_dict_sorted [simp]: "set (dict_sorted d) = set d"
  by (simp add: dict_sorted_def)

lemma no_attention_elsewhere:
  "filter (\<lambda>item. fst (snd item) \<in> attention_roles) m06_fixed_specs = []"
  "filter (\<lambda>item. fst (snd item) \<in> attention_roles) (vision_items n) = []"
  by (simp_all add: m06_fixed_specs_def vision_items_def M05_VISION_LAYER_ROLES_def attention_roles_def)

lemma attention_items_inventory:
  "spec_item ` set M05_ATTENTION_TABLE = {item \<in> set inventory. fst (snd item) \<in> attention_roles}"
proof -
  have "spec_item ` set M05_ATTENTION_TABLE = (\<Union>n\<in>{0..<30}. set (map spec_item (m05_attention_layer n)))"
    by (auto simp: attention_table_value)
  also have "\<dots> = (\<Union>n\<in>{0..<30}. {item \<in> set (layer_items n). fst (snd item) \<in> attention_roles})"
    unfolding attention_layer_items by simp
  also have "\<dots> = {item \<in> set inventory. fst (snd item) \<in> attention_roles}"
    using no_attention_elsewhere by (auto simp: inventory_def filter_empty_conv)
  finally show ?thesis .
qed

lemma inventory_classified: "list_all (\<lambda>(name, role, shape). classify_m05_source name = Inr role) inventory"
proof -
  have "list_all (\<lambda>(name, role, shape). classify_m05_source name = Inr role) m06_fixed_specs"
    by (simp add: m06_fixed_specs_def classify_iff exact_vision_def)
  moreover have "list_all (\<lambda>(name, role, shape). classify_m05_source name = Inr role) (layer_items n)"
    if "n < 30" for n
    using that classify_layer [of n] shape_role
    by (auto simp: list_all_iff layer_items_def kept_shapes_def M05_LAYER_COUNT_def)
  moreover have "list_all (\<lambda>(name, role, shape). classify_m05_source name = Inr role) (vision_items n)"
    if "n < 27" for n
    using classify_vision [OF that] vision_roles_wf by (auto simp: list_all_iff vision_items_def)
  ultimately show ?thesis by (fastforce simp: inventory_def list_all_iff)
qed

lemma inventory_vision_count:
  "length (filter (\<lambda>(name, role, shape). starts_with ''vision_'' role) inventory) = 356"
proof -
  let ?v = "\<lambda>(name, role, shape :: int list). starts_with ''vision_'' role"
  have layers: "filter ?v (layer_items n) = []" for n
    unfolding layer_items_explicit Let_def by simp
  have none: "filter ?v (concat (map layer_items ns)) = []" for ns
    by (induction ns) (simp_all only: list.map concat.simps filter_append layers append_Nil filter.simps)
  have "filter ?v (vision_items n) = vision_items n" for n
    by (simp add: vision_items_def M05_VISION_LAYER_ROLES_def)
  then have "length (filter ?v (concat (map vision_items [0..<27]))) = 351"
    by (simp add: filter_concat comp_def length_concat vision_items_def sum_list_triv M05_VISION_LAYER_ROLES_def)
  moreover have "filter ?v (concat (map layer_items [0..<30])) = []" by (rule none)
  moreover have "length (filter ?v m06_fixed_specs) = 5" by (simp add: m06_fixed_specs_def)
  ultimately show ?thesis by (simp only: inventory_def filter_append length_append) simp
qed

section \<open>Properties\<close>


text \<open>
  C37. The source inventory is built without raising: 1,013 distinct names in order, 356 of them
  with a vision role, each with the role its own name is classified as.
\<close>

theorem inventory_complete:
  "\<exists>specs. m06_expected_source_specs = Inr specs \<and> length specs = 1013 \<and> dict_wf specs
     \<and> sorted (map fst specs)
     \<and> list_all (\<lambda>(name, role, shape). classify_m05_source name = Inr role) specs
     \<and> length (filter (\<lambda>(name, role, shape). starts_with ''vision_'' role) specs) = 356"
proof -
  have "length (dict_sorted inventory) = 1013" by (simp add: dict_sorted_def length_inventory)
  moreover have "dict_wf (dict_sorted inventory)" unfolding dict_wf_sorted using inventory_wf by (simp only: dict_wf_def)
  moreover have "sorted (map fst (dict_sorted inventory))" by (simp add: dict_sorted_def)
  moreover have "list_all (\<lambda>(name, role, shape). classify_m05_source name = Inr role) (dict_sorted inventory)"
    using inventory_classified by (simp add: list_all_iff)
  moreover have "length (filter (\<lambda>(name, role, shape). starts_with ''vision_'' role) (dict_sorted inventory)) = 356"
    using inventory_vision_count by (simp only: dict_sorted_def filter_sort length_sort)
  ultimately show ?thesis using m06_specs_value by blast
qed

text \<open>
  The attention table is exactly the part of the source inventory with a query, key, value
  or output projection role, with the same shapes: global layers have no value projection in
  either.
\<close>

lemma attention_table_mirrors_inventory:
  "\<exists>specs. m06_expected_source_specs = Inr specs
     \<and> (\<lambda>(name, spec). (name, (spec_role spec, spec_shape spec))) ` set M05_ATTENTION_TABLE
         = {item \<in> set specs. fst (snd item) \<in> attention_roles}"
proof -
  have "(\<lambda>(name, spec). (name, (spec_role spec, spec_shape spec))) = spec_item"
    by (auto simp: spec_item_def)
  then show ?thesis
    using m06_specs_value attention_items_inventory by (intro exI [of _ "dict_sorted inventory"]) simp
qed

end
