(* ===== verification/Plan_Facts.thy ===== *)
theory Plan_Facts
  imports Plan_Load Profile_Facts
begin

text \<open>
  What an accepted plan guarantees: every source tensor is compiled or excluded, never both and
  never twice, and the profile's contract fixes which ones.
\<close>

section \<open>Coverage\<close>

definition compiled_sources :: "tensor_compile_plan list \<Rightarrow> string set" where
  "compiled_sources tensors = (\<Union>t\<in>set tensors. set (source_names t))"

definition excluded_names :: "excluded_tensor_plan list \<Rightarrow> string list" where
  "excluded_names excluded = map ex_source_name excluded"

text \<open>The assignments in the order the loops make them.\<close>

definition assignments :: "tensor_compile_plan list \<Rightarrow> (tensor_compile_plan \<times> string) list" where
  "assignments tensors = concat (map (\<lambda>t. map (Pair t) (source_names t)) tensors)"

lemma cover_tensors_flat:
  "rfold (cover_tensor S) covered tensors
     = rfold (\<lambda>c (t, n). cover_source S t c n) covered (assignments tensors)"
  by (induction tensors arbitrary: covered)
    (simp_all add: assignments_def cover_tensor_def rfold_map)

lemma snd_assignments: "snd ` set (assignments tensors) = compiled_sources tensors"
  by (auto simp: assignments_def compiled_sources_def image_iff)

lemma cover_source_Inr:
  "cover_source S t covered n = Inr c \<longleftrightarrow> n \<in> dict_keys S
     \<and> (dict_get covered n = None \<or> dict_get covered n = Some (operation_id t))
     \<and> c = dict_set n (operation_id t) covered"
  by (auto simp: cover_source_def split: option.splits)

lemma cover_tensors_Inr:
  assumes "rfold (cover_tensor S) [] tensors = Inr covered"
  shows "dict_keys covered = compiled_sources tensors" "compiled_sources tensors \<subseteq> dict_keys S"
    and "t \<in> set tensors \<Longrightarrow> n \<in> set (source_names t) \<Longrightarrow> dict_get covered n = Some (operation_id t)"
proof -
  let ?I = "\<lambda>ys c. dict_keys c = snd ` set ys \<and> snd ` set ys \<subseteq> dict_keys S
    \<and> (\<forall>(t :: tensor_compile_plan, n)\<in>set ys. dict_get c n = Some (operation_id t))"
  have "?I (assignments tensors) covered"
    using assms unfolding cover_tensors_flat
  proof (rule rfold_invariant)
    show "?I [] []" by (simp add: dict_keys_def)
  next
    fix ys y zs s s'
    assume inv: "?I ys s" and step: "(case y of (t, n) \<Rightarrow> cover_source S t s n) = Inr s'"
    obtain t n where y: "y = (t, n)" by fastforce
    have n: "n \<in> dict_keys S" "dict_get s n = None \<or> dict_get s n = Some (operation_id t)"
      "s' = dict_set n (operation_id t) s"
      using step by (simp_all add: y cover_source_Inr)
    have get: "dict_get s' m = Some (operation_id u)" if um: "(u, m) \<in> set (ys @ [y])" for u m
    proof (cases "(u, m) \<in> set ys")
      case True
      with inv have "dict_get s m = Some (operation_id u)" by blast
      with n show ?thesis by auto
    next
      case False
      with um show ?thesis by (simp add: y n(3))
    qed
    have "dict_keys s' = snd ` set (ys @ [y])" "snd ` set (ys @ [y]) \<subseteq> dict_keys S"
      using inv n(1,3) by (auto simp: y)
    with get show "?I (ys @ [y]) s'" by blast
  qed
  then have inv: "?I (assignments tensors) covered" .
  then show "dict_keys covered = compiled_sources tensors" "compiled_sources tensors \<subseteq> dict_keys S"
    by (simp_all add: snd_assignments)
  assume "t \<in> set tensors" "n \<in> set (source_names t)"
  then have "(t, n) \<in> set (assignments tensors)" by (auto simp: assignments_def)
  with inv show "dict_get covered n = Some (operation_id t)" by blast
qed

lemma cover_excluded_step:
  "cover_excluded S covered x = Inr c \<longleftrightarrow> ex_source_name x \<in> dict_keys S \<and> ex_source_name x \<notin> dict_keys covered
     \<and> c = dict_set (ex_source_name x) (''excluded:'' @ ex_family x) covered"
  by (auto simp: cover_excluded_def)

lemma cover_excluded_Inr:
  "rfold (cover_excluded S) covered excluded = Inr covered' \<Longrightarrow>
     dict_keys covered' = dict_keys covered \<union> set (excluded_names excluded)
     \<and> distinct (excluded_names excluded) \<and> set (excluded_names excluded) \<inter> dict_keys covered = {}
     \<and> set (excluded_names excluded) \<subseteq> dict_keys S"
proof (induction excluded arbitrary: covered)
  case Nil
  then show ?case by (simp add: excluded_names_def)
next
  case (Cons x xs)
  then have x: "ex_source_name x \<in> dict_keys S" "ex_source_name x \<notin> dict_keys covered"
    and "rfold (cover_excluded S) (dict_set (ex_source_name x) (''excluded:'' @ ex_family x) covered) xs = Inr covered'"
    by (auto simp: cover_excluded_step)
  from Cons.IH [OF this(3)] x show ?case by (auto simp: excluded_names_def)
qed

lemma validate_coverage_Inr:
  assumes "validate_coverage tensors excluded S profile = Inr u"
  shows "distinct (excluded_names excluded)"
    and "compiled_sources tensors \<inter> set (excluded_names excluded) = {}"
    and "compiled_sources tensors \<union> set (excluded_names excluded) = dict_keys S"
    and "validate_profile tensors excluded S profile = Inr ()"
    and "t \<in> set tensors \<Longrightarrow> t' \<in> set tensors \<Longrightarrow> n \<in> set (source_names t) \<Longrightarrow> n \<in> set (source_names t') \<Longrightarrow>
      operation_id t = operation_id t'"
proof -
  from assms obtain covered covered' where c: "rfold (cover_tensor S) [] tensors = Inr covered"
    "validate_profile tensors excluded S profile = Inr ()"
    "rfold (cover_excluded S) covered excluded = Inr covered'" "dict_keys covered' = dict_keys S"
    by (auto simp: validate_coverage_def)
  note t = cover_tensors_Inr [OF c(1)] and x = cover_excluded_Inr [OF c(3)]
  show "distinct (excluded_names excluded)"
    "compiled_sources tensors \<inter> set (excluded_names excluded) = {}"
    "compiled_sources tensors \<union> set (excluded_names excluded) = dict_keys S"
    using t(1) x c(4) by auto
  show "validate_profile tensors excluded S profile = Inr ()" by (rule c(2))
  assume "t \<in> set tensors" "t' \<in> set tensors" "n \<in> set (source_names t)" "n \<in> set (source_names t')"
  then show "operation_id t = operation_id t'" using t(3) [of t n] t(3) [of t' n] by simp
qed

section \<open>Groups\<close>

definition groups_of :: "groups \<Rightarrow> tensor_compile_plan list \<Rightarrow> bool" where
  "groups_of groups tensors \<longleftrightarrow> (\<forall>n. \<forall>t\<in>set (group_get groups n). t \<in> set tensors \<and> source_names t = [n])"

lemma group_get_append:
  "group_get (dict_append n t groups) m = (if m = n then group_get groups n @ [t] else group_get groups m)"
  by (simp add: group_get_def dict_append_def split: option.split)

lemma m08_split_groups:
  assumes "rfold m08_split_step ([], []) tensors = Inr (by_source, constants)"
  shows "groups_of by_source tensors"
proof -
  let ?I = "\<lambda>ts acc. groups_of (fst acc) ts"
  have "?I tensors (by_source, constants)"
    using assms
  proof (rule rfold_invariant)
    show "?I [] ([], [])" by (simp add: groups_of_def group_get_def)
  next
    fix ys y zs s s'
    assume inv: "?I ys s" and step: "m08_split_step s y = Inr s'"
    show "?I (ys @ [y]) s'"
      using inv step
      by (cases s) (auto simp: m08_split_step_def groups_of_def group_get_append split: if_splits list.splits)
  qed
  then show ?thesis by simp
qed

lemma group_compiled:
  "groups_of groups tensors \<Longrightarrow> group_get groups n \<noteq> [] \<Longrightarrow> n \<in> compiled_sources tensors"
proof -
  assume g: "groups_of groups tensors" and "group_get groups n \<noteq> []"
  then obtain t where "t \<in> set (group_get groups n)" by (cases "group_get groups n") auto
  with g have "t \<in> set tensors" "source_names t = [n]" by (auto simp: groups_of_def)
  then show ?thesis by (auto simp: compiled_sources_def intro!: bexI [of _ t])
qed

text \<open>Every validator of one source asks for a non-empty group.\<close>

lemma m06_source_nonempty: "validate_m06_source n source grp = Inr u \<Longrightarrow> grp \<noteq> []"
  by (auto simp: validate_m06_source_def)

lemma m05_pair_nonempty: "validate_m05_pair n source grp = Inr u \<Longrightarrow> grp \<noteq> []"
  by (auto simp: validate_m05_pair_def split: option.splits)

lemma m07_nonempty: "validate_m07_coverage grp excluded S = Inr u \<Longrightarrow> grp \<noteq> []"
  by (auto simp: validate_m07_coverage_def split: option.splits)

lemma m08_check_source_nonempty:
  "m08_check_source S by_source acc (n, r, shape) = Inr acc' \<Longrightarrow> \<not> is_vision_role r \<Longrightarrow> n \<noteq> HEAD_NAME \<Longrightarrow>
     group_get by_source n \<noteq> []"
  by (auto simp: m08_check_source_def Let_def dest: m06_source_nonempty m05_pair_nonempty
      split: if_splits list.splits)

lemma rfold_each: "rfold f s xs = Inr t \<Longrightarrow> x \<in> set xs \<Longrightarrow> \<exists>s1 s2. f s1 x = Inr s2"
  by (induction xs arbitrary: s) auto

lemma m08_profile:
  "validate_profile tensors excluded S M08_PROFILE = validate_m08_coverage tensors excluded S"
  by (simp add: validate_profile_def M04_PROFILE_def M05_PROFILE_def M06_PROFILE_def M07_PROFILE_def
      M08_PROFILE_def)

lemma m08_accepted:
  assumes "validate_m08_coverage tensors excluded S = Inr u" "(n, r, shape) \<in> set inventory"
    "\<not> is_vision_role r"
  shows "n \<in> compiled_sources tensors"
proof -
  from assms(1) obtain by_source constants acc where
    split: "rfold m08_split_step ([], []) tensors = Inr (by_source, constants)"
    and head: "validate_m07_coverage (group_get by_source HEAD_NAME) (m08_head_exclusions (dict_sorted inventory)) S = Inr ()"
    and each: "rfold (m08_check_source S by_source) {} (dict_sorted inventory) = Inr acc"
    unfolding validate_m08_coverage_def m06_specs_value by auto
  have "group_get by_source n \<noteq> []"
  proof (cases "n = HEAD_NAME")
    case True
    then show ?thesis using m07_nonempty [OF head] by simp
  next
    case False
    from rfold_each [OF each, of "(n, r, shape)"] assms(2) obtain s1 s2 where
      "m08_check_source S by_source s1 (n, r, shape) = Inr s2" by auto
    then show ?thesis using m08_check_source_nonempty assms(3) False by blast
  qed
  then show ?thesis using group_compiled [OF m08_split_groups [OF split]] by blast
qed

lemma m08_excluded_vision:
  assumes "validate_m08_coverage tensors excluded S = Inr u" "x \<in> set excluded"
  shows "\<exists>r. classify_m05_source (ex_source_name x) = Inr r \<and> is_vision_role r"
proof -
  have "m08_check_exclusion x = Inr ()" using assms by (auto simp: validate_m08_coverage_def)
  then show ?thesis by (auto simp: m08_check_exclusion_def)
qed

section \<open>The FP8 pair\<close>

text \<open>The two tensors the contract asks for, and agreement with one of them.\<close>

definition fp8_weight :: "string \<Rightarrow> m05_attention_spec \<Rightarrow> tensor_compile_plan" where
  "fp8_weight n spec = \<lparr>output_name = n, operation_id = ''fp8-attention:'' @ remove_suffix ''.weight'' n,
     source_names = [n], encoder = ''fp8-rowwise-weight-v1'',
     transformation = ''bf16-to-fp8-e4m3fn-rowwise-weight'', transformation_version = 1,
     output_dtype = ''F8_E4M3'', physical_shape = spec_shape spec, logical_dtype = ''BF16'',
     logical_shape = spec_shape spec, axis_transformation = ''identity'',
     quantizer_parameters = M05_QUANTIZER_PARAMETERS,
     dequantization_equation = M05_DEQUANTIZATION_EQUATION, role = spec_role spec,
     residency_class = ''immutable_device_text'', disk_layout = ''source_nk_fp8'',
     runtime_layout = ''source_nk_fp8'', aliased = False\<rparr>"

definition fp8_scale :: "string \<Rightarrow> m05_attention_spec \<Rightarrow> tensor_compile_plan" where
  "fp8_scale n spec = (fp8_weight n spec)\<lparr>
     output_name := remove_suffix ''.weight'' n @ ''.weight_scale'', encoder := ''fp8-rowwise-scale-v1'',
     transformation := ''bf16-to-bf16-rowwise-scale'', output_dtype := ''BF16'',
     physical_shape := [hd (spec_shape spec), 1], logical_shape := [hd (spec_shape spec), 1],
     disk_layout := ''row_bf16'', runtime_layout := ''row_bf16''\<rparr>"

definition same_plan :: "tensor_compile_plan \<Rightarrow> tensor_compile_plan \<Rightarrow> bool" where
  "same_plan t u \<longleftrightarrow> t\<lparr>quantizer_parameters := []\<rparr> = u\<lparr>quantizer_parameters := []\<rparr>
     \<and> py_eq (PDict (quantizer_parameters t)) (PDict (quantizer_parameters u))"

definition descriptor_fits :: "tensor_descriptor \<Rightarrow> int list \<Rightarrow> bool" where
  "descriptor_fits source shape \<longleftrightarrow> td_dtype source = ''BF16'' \<and> td_shape source = shape
     \<and> tensor_bytes ''BF16'' shape = Inr (td_byte_length source)"

lemma same_plan_fields:
  "same_plan t u \<longleftrightarrow> output_name t = output_name u \<and> operation_id t = operation_id u
     \<and> source_names t = source_names u \<and> encoder t = encoder u \<and> transformation t = transformation u
     \<and> transformation_version t = transformation_version u \<and> output_dtype t = output_dtype u
     \<and> physical_shape t = physical_shape u \<and> logical_dtype t = logical_dtype u
     \<and> logical_shape t = logical_shape u \<and> axis_transformation t = axis_transformation u
     \<and> dequantization_equation t = dequantization_equation u \<and> role t = role u
     \<and> residency_class t = residency_class u \<and> disk_layout t = disk_layout u
     \<and> runtime_layout t = runtime_layout u \<and> aliased t = aliased u
     \<and> py_eq (PDict (quantizer_parameters t)) (PDict (quantizer_parameters u))"
  by (cases t; cases u) (auto simp: same_plan_def)

lemma check_source_bytes_Inr:
  "check_source_bytes source shape = Inr u \<longleftrightarrow> tensor_bytes ''BF16'' shape = Inr (td_byte_length source)"
  by (auto simp: check_source_bytes_def)

lemma attention_shape: "(n, spec) \<in> set M05_ATTENTION_TABLE \<Longrightarrow> \<exists>rows columns. spec_shape spec = [rows, columns]"
  by (auto simp: attention_table_value m05_attention_layer_def Let_def split: if_splits)

lemma pair_cases:
  assumes "length pair = 2" "filter (\<lambda>t. encoder t = a) pair = [w]" "filter (\<lambda>t. encoder t = b) pair = [s]" "a \<noteq> b"
  shows "pair = [w, s] \<or> pair = [s, w]"
proof -
  obtain x y where "pair = [x, y]" using assms(1) by (auto simp: numeral_2_eq_2 length_Suc_conv)
  with assms show ?thesis by (auto split: if_splits)
qed

lemma mismatch_none:
  "\<not> m05_item_mismatch (spec_role spec) w \<and> \<not> m05_item_mismatch (spec_role spec) s
     \<and> operation_id w = ''fp8-attention:'' @ remove_suffix ''.weight'' n
     \<and> operation_id s = ''fp8-attention:'' @ remove_suffix ''.weight'' n
     \<and> source_names w = [n] \<and> source_names s = [n]
     \<and> encoder w = ''fp8-rowwise-weight-v1'' \<and> encoder s = ''fp8-rowwise-scale-v1''
     \<and> \<not> m05_pair_mismatch n (remove_suffix ''.weight'' n) rows columns w s
   \<longleftrightarrow> same_plan w (fp8_weight n spec) \<and> same_plan s (fp8_scale n spec)"
  if "spec_shape spec = [rows, columns]"
  unfolding same_plan_fields m05_item_mismatch_def m05_pair_mismatch_def
  using that by (auto simp: fp8_weight_def fp8_scale_def)

lemma validate_m05_pair_spec:
  assumes spec: "dict_get M05_ATTENTION_TABLE n = Some spec"
  shows "validate_m05_pair n source pair = Inr () \<longleftrightarrow> descriptor_fits source (spec_shape spec)
     \<and> (\<exists>w s. (pair = [w, s] \<or> pair = [s, w]) \<and> same_plan w (fp8_weight n spec) \<and> same_plan s (fp8_scale n spec))"
    (is "?l \<longleftrightarrow> ?r")
proof -
  let ?stem = "remove_suffix ''.weight'' n"
  let ?W = "filter (\<lambda>t. encoder t = ''fp8-rowwise-weight-v1'') pair"
  let ?S = "filter (\<lambda>t. encoder t = ''fp8-rowwise-scale-v1'') pair"
  from spec have "(n, spec) \<in> set M05_ATTENTION_TABLE" by (rule map_of_SomeD)
  then obtain rows columns where shape: "spec_shape spec = [rows, columns]" using attention_shape by blast
  note none = mismatch_none [OF shape, of _ _ n]
  show ?thesis
  proof
    assume ?l
    then have fits: "td_dtype source = ''BF16''" "td_shape source = [rows, columns]"
      "check_source_bytes source [rows, columns] = Inr ()" "length pair = 2"
      and items: "\<forall>t\<in>set pair. operation_id t = ''fp8-attention:'' @ ?stem \<and> source_names t = [n]
        \<and> \<not> m05_item_mismatch (spec_role spec) t"
      and split: "(case (?W, ?S) of ([w], [s]) \<Rightarrow>
          fail_if (m05_pair_mismatch n ?stem rows columns w s)
            (InvalidPlanError ''M05 weight/scale tensor shape or layout mismatch'') (Inr ())
        | _ \<Rightarrow> Inl (InvalidPlanError ''M05 pair must contain one weight and one scale encoder'')) = Inr ()"
      by (auto simp: validate_m05_pair_def spec shape Let_def split: list.splits)
    from split obtain w s where ws: "?W = [w]" "?S = [s]" "\<not> m05_pair_mismatch n ?stem rows columns w s"
      by (auto split: list.splits)
    have "w \<in> set ?W" "s \<in> set ?S" unfolding ws(1,2) by simp_all
    then have "w \<in> set pair" "encoder w = ''fp8-rowwise-weight-v1''" "s \<in> set pair"
      "encoder s = ''fp8-rowwise-scale-v1''" by simp_all
    with items ws(3) none have "same_plan w (fp8_weight n spec) \<and> same_plan s (fp8_scale n spec)" by blast
    moreover have "pair = [w, s] \<or> pair = [s, w]" using pair_cases [OF fits(4) ws(1,2)] by simp
    moreover have "descriptor_fits source (spec_shape spec)"
      using fits by (simp add: descriptor_fits_def shape check_source_bytes_Inr)
    ultimately show ?r by blast
  next
    assume ?r
    then obtain w s where pair: "pair = [w, s] \<or> pair = [s, w]"
      and same: "same_plan w (fp8_weight n spec)" "same_plan s (fp8_scale n spec)"
      and fits: "descriptor_fits source (spec_shape spec)" by blast
    from none [of w s] same have ws: "\<not> m05_item_mismatch (spec_role spec) w" "\<not> m05_item_mismatch (spec_role spec) s"
      "operation_id w = ''fp8-attention:'' @ ?stem" "operation_id s = ''fp8-attention:'' @ ?stem"
      "source_names w = [n]" "source_names s = [n]" "encoder w = ''fp8-rowwise-weight-v1''"
      "encoder s = ''fp8-rowwise-scale-v1''" "\<not> m05_pair_mismatch n ?stem rows columns w s" by blast+
    have names: "output_name w = n" "output_name s = ?stem @ ''.weight_scale''"
      using same by (simp_all add: same_plan_fields fp8_weight_def fp8_scale_def)
    from pair ws names fits show ?l
      by (auto simp: validate_m05_pair_def spec shape Let_def descriptor_fits_def check_source_bytes_Inr insert_commute)
  qed
qed

section \<open>Properties\<close>

text \<open>
  C8. An accepted plan covers the source exactly: every source tensor is compiled or excluded,
  none is both, none is excluded twice, nothing outside the source is named, and all outputs of
  one source belong to one operation.
\<close>

theorem coverage_exact:
  assumes "validate_coverage tensors excluded S profile = Inr ()"
  shows "compiled_sources tensors \<union> set (excluded_names excluded) = dict_keys S
    \<and> compiled_sources tensors \<inter> set (excluded_names excluded) = {}
    \<and> distinct (excluded_names excluded)
    \<and> (\<forall>t\<in>set tensors. \<forall>t'\<in>set tensors. set (source_names t) \<inter> set (source_names t') \<noteq> {} \<longrightarrow>
          operation_id t = operation_id t')"
  using validate_coverage_Inr [OF assms] by blast

definition example_source :: tensor_descriptor where
  "example_source = \<lparr>td_name = ''a'', td_dtype = ''U8'', td_shape = [4], td_shard = ''s'', td_path = ''s'',
     td_absolute_offset = 100, td_data_offset = 0, td_byte_length = 4, td_shard_sha256 = ''h''\<rparr>"

definition example_copy :: tensor_compile_plan where
  "example_copy = \<lparr>output_name = ''a'', operation_id = ''copy:a'', source_names = [''a''], encoder = ''copy-v1'',
     transformation = ''identity-copy'', transformation_version = 1, output_dtype = ''U8'',
     physical_shape = [4], logical_dtype = ''U8'', logical_shape = [4], axis_transformation = ''identity'',
     quantizer_parameters = [], dequantization_equation = ''output = source'', role = ''r'',
     residency_class = ''c'', disk_layout = ''d'', runtime_layout = ''l'', aliased = False\<rparr>"

definition example_excluded :: excluded_tensor_plan where
  "example_excluded = \<lparr>ex_source_name = ''b'', ex_family = ''vision'', ex_role = ''r'',
     ex_residency_class = ''compile_excluded_vision'', ex_reason = ''none''\<rparr>"

theorem coverage_exact_witness:
  "validate_coverage [example_copy] [example_excluded] [(''a'', example_source), (''b'', example_source)] M04_PROFILE = Inr ()
    \<and> compiled_sources [example_copy] = {''a''}"
proof -
  have "validate_coverage [example_copy] [example_excluded] [(''a'', example_source), (''b'', example_source)] M04_PROFILE = Inr ()"
    by (auto simp: validate_coverage_def cover_tensor_def cover_source_def cover_excluded_def validate_profile_def
        m04_copy_step_def validate_copy_plan_def output_bytes_def tensor_bytes_def bytes_step_def DTYPE_BYTES_def
        UINT64_MAX_def example_copy_def example_source_def example_excluded_def M04_PROFILE_def M05_PROFILE_def
        dict_keys_def dict_index_def)
  from coverage_exact [OF this] this show ?thesis
    by (auto simp: compiled_sources_def example_copy_def excluded_names_def example_excluded_def dict_keys_def)
qed

text \<open>
  C38. The M05 pair validator accepts exactly the two tensors of the contract, in either order,
  for an attention projection whose source is a BF16 tensor of the table's shape: one FP8 weight
  and one BF16 row scale, equal to the expected ones up to Python's equality of the parameters.
\<close>

theorem m05_pair_accepts:
  "validate_m05_pair n source pair = Inr () \<longleftrightarrow>
     (\<exists>spec w s. dict_get M05_ATTENTION_TABLE n = Some spec \<and> descriptor_fits source (spec_shape spec)
        \<and> (pair = [w, s] \<or> pair = [s, w])
        \<and> same_plan w (fp8_weight n spec) \<and> same_plan s (fp8_scale n spec))"
proof (cases "dict_get M05_ATTENTION_TABLE n")
  case None
  then show ?thesis by (simp add: validate_m05_pair_def)
next
  case (Some spec)
  with validate_m05_pair_spec [OF Some, of source pair] show ?thesis by auto
qed

text \<open>
  C39. The complete hybrid profile leaves nothing of the text model out: a plan that does not
  compile some inventory tensor with a role outside vision is refused, and so is a plan that
  excludes a tensor with such a role.
\<close>

theorem m08_refuses_incomplete:
  assumes "(n, r, shape) \<in> set inventory" "\<not> is_vision_role r"
    and "n \<notin> compiled_sources tensors \<or> n \<in> set (excluded_names excluded)"
  shows "validate_coverage tensors excluded S M08_PROFILE \<noteq> Inr ()"
proof
  assume "validate_coverage tensors excluded S M08_PROFILE = Inr ()"
  note v = validate_coverage_Inr [OF this]
  from v(4) have ok: "validate_m08_coverage tensors excluded S = Inr ()" by (simp add: m08_profile)
  have "n \<in> compiled_sources tensors" by (rule m08_accepted [OF ok assms(1,2)])
  with v(2) assms(3) show False by blast
qed

theorem m08_refuses_incomplete_witness:
  "validate_coverage [] [] [] M08_PROFILE \<noteq> Inr ()"
proof -
  have "(''model.language_model.norm.weight'', ''final_norm'', [2816]) \<in> set inventory"
    by (simp add: inventory_def m06_fixed_specs_def)
  from m08_refuses_incomplete [OF this, of "[]" "[]" "[]"] show ?thesis by (simp add: compiled_sources_def)
qed

end
