(* ===== verification/Environment.thy ===== *)
theory Environment
  imports Source_Types Profiles
begin

text \<open>
  What the compiler reads from outside: the digest, the memory and the page size, the JSON parser
  and serializers of the standard library, and the file system below the paths it is given.
\<close>

text \<open>What \<open>stat\<close> finds at a path, after following symbolic links.\<close>

datatype path_entry =
    Missing
  | Denied
  | Directory
  | Regular int
  | Special

text \<open>
  \<open>env_entry\<close> and \<open>env_files\<close> are separate observations: a file may be shorter than the size
  \<open>stat\<close> reported, or fail to open after it. \<open>env_parse\<close> returns \<open>None\<close> for text that
  \<open>json.loads\<close> refuses with a decoding or a syntax error; \<open>env_text\<close> is \<open>str\<close> on floats,
  lists and dictionaries; \<open>env_sqrt\<close> and \<open>env_log10\<close> are the functions of \<open>math\<close>.
\<close>

record environment =
  env_sha :: "bytes \<Rightarrow> string"
  env_granularity :: nat
  env_rss :: rss
  env_parse :: "bytes \<Rightarrow> json option"
  env_compact :: "pyval \<Rightarrow> bytes"
  env_canonical :: "pyval \<Rightarrow> bytes"
  env_text :: "pyval \<Rightarrow> string"
  env_sqrt :: "pyfloat \<Rightarrow> pyfloat res"
  env_log10 :: "pyfloat \<Rightarrow> pyfloat res"
  env_resolve :: "string \<Rightarrow> string option"
  env_entry :: "string \<Rightarrow> path_entry"
  env_symlink :: "string \<Rightarrow> bool"
  env_files :: files

text \<open>\<open>path.is_file()\<close>, \<open>path.is_dir()\<close> and \<open>path.stat().st_size\<close>\<close>

definition is_file :: "environment \<Rightarrow> string \<Rightarrow> bool res" where
  "is_file env path = (case env_entry env path of
     Denied \<Rightarrow> Inl (OSError ''stat'') | Regular _ \<Rightarrow> Inr True | _ \<Rightarrow> Inr False)"

definition is_dir :: "environment \<Rightarrow> string \<Rightarrow> bool res" where
  "is_dir env path = (case env_entry env path of
     Denied \<Rightarrow> Inl (OSError ''stat'') | Directory \<Rightarrow> Inr True | _ \<Rightarrow> Inr False)"

definition stat_size :: "environment \<Rightarrow> string \<Rightarrow> int res" where
  "stat_size env path = (case env_entry env path of Regular n \<Rightarrow> Inr n | _ \<Rightarrow> Inl (OSError ''stat''))"

fun is_os_error :: "error \<Rightarrow> bool" where
  "is_os_error (OSError _) = True"
| "is_os_error _ = False"

text \<open>\<open>root / part\<close> and \<open>root.joinpath(*parts)\<close>\<close>

definition path_join :: "string \<Rightarrow> string \<Rightarrow> string" where
  "path_join base part = (if ends_with ''/'' base then base @ part else base @ ''/'' @ part)"

definition join_parts :: "string \<Rightarrow> string list \<Rightarrow> string" where
  "join_parts = foldl path_join"

text \<open>\<open>PurePosixPath(text).suffix\<close>\<close>

definition path_suffix :: "string \<Rightarrow> string" where
  "path_suffix text = (let parts = path_parts text; stem = (if parts = [] then [] else last parts);
       tail = after_last CHR ''.'' stem
     in if CHR ''.'' \<notin> set stem \<or> length tail + 1 = length stem \<or> tail = [] then []
        else CHR ''.'' # tail)"

text \<open>The file \<open>load_json\<close> is given.\<close>

definition json_file_of :: "environment \<Rightarrow> string \<Rightarrow> json_file" where
  "json_file_of env path = map_option (\<lambda>data. (int (length data), env_parse env data)) (env_files env path)"

text \<open>\<open>json.loads(raw, object_pairs_hook=reject_duplicate_keys)\<close>, \<open>None\<close> for any refusal.\<close>

definition loads :: "environment \<Rightarrow> bytes \<Rightarrow> pyval option" where
  "loads env raw = (case env_parse env raw of
     None \<Rightarrow> None
   | Some t \<Rightarrow> (case json_value t of Inl e \<Rightarrow> None | Inr v \<Rightarrow> Some v))"

text \<open>\<open>str(value)\<close> and \<open>int(value)\<close>; digits outside ASCII are not modelled.\<close>

definition int_str :: "int \<Rightarrow> string" where
  "int_str i = (if i < 0 then ''-'' else []) @ nat_str (nat \<bar>i\<bar>)"

definition py_str :: "environment \<Rightarrow> pyval \<Rightarrow> string" where
  "py_str env v = (case v of
     PStr s \<Rightarrow> s
   | PInt i \<Rightarrow> int_str i
   | PBool b \<Rightarrow> (if b then ''True'' else ''False'')
   | PNone \<Rightarrow> ''None''
   | _ \<Rightarrow> env_text env v)"

text \<open>Underscores may stand between two digits.\<close>

fun digit_groups :: "bool \<Rightarrow> string \<Rightarrow> string option" where
  "digit_groups after_digit [] = (if after_digit then Some [] else None)"
| "digit_groups after_digit (c # s) =
     (if is_digit c then map_option (\<lambda>r. c # r) (digit_groups True s)
      else if c = CHR ''_'' \<and> after_digit then digit_groups False s
      else None)"

definition int_of_text :: "string \<Rightarrow> int res" where
  "int_of_text text = (let s = py_strip text;
       sign = (if s \<noteq> [] \<and> hd s = CHR ''-'' then -1 else 1);
       body = (if s \<noteq> [] \<and> hd s \<in> {CHR ''-'', CHR ''+''} then tl s else s)
     in case digit_groups False body of
          None \<Rightarrow> Inl (ValueError ''invalid literal for int()'')
        | Some digits \<Rightarrow> rbind (int_of_digits digits) (\<lambda>n. Inr (sign * int n)))"

definition py_int :: "pyval \<Rightarrow> int res" where
  "py_int v = (case v of
     PInt i \<Rightarrow> Inr i
   | PBool b \<Rightarrow> Inr (if b then 1 else 0)
   | PFloat (Fin s m) \<Rightarrow> Inr ((if s then -1 else 1) * \<lfloor>m\<rfloor>)
   | PFloat (Inf s) \<Rightarrow> Inl (OverflowError ''cannot convert float infinity to integer'')
   | PFloat NaN \<Rightarrow> Inl (ValueError ''cannot convert float NaN to integer'')
   | PStr s \<Rightarrow> int_of_text s
   | _ \<Rightarrow> Inl (TypeError ''int() argument''))"

text \<open>The truth of a value.\<close>

definition py_true :: "pyval \<Rightarrow> bool" where
  "py_true v = (case v of
     PNone \<Rightarrow> False | PBool b \<Rightarrow> b | PInt i \<Rightarrow> i \<noteq> 0
   | PFloat (Fin s m) \<Rightarrow> m \<noteq> 0 | PFloat _ \<Rightarrow> True
   | PStr s \<Rightarrow> s \<noteq> [] | PList xs \<Rightarrow> xs \<noteq> [] | PDict d \<Rightarrow> d \<noteq> [])"

end
