(* ===== verification/FP8.thy ===== *)
theory FP8
  imports Common
begin

text \<open>
  \<open>tools/gem16_compile/quantize_fp8.py\<close>: the BF16 and E4M3FN codes, the rounding of a binary32
  value to either, and the quantization of one BF16 row to FP8 codes with one BF16 scale.
\<close>

definition FP8_CONTRACT_ID :: string where "FP8_CONTRACT_ID = ''gem16.fp8_attention_rowwise''"
definition FP8_CONTRACT_VERSION :: int where "FP8_CONTRACT_VERSION = 1"
definition E4M3FN_MAX :: pyfloat where "E4M3FN_MAX = Fin False 448"
definition E4M3FN_NAN_CODE :: nat where "E4M3FN_NAN_CODE = 0x7F"
definition BF16_ONE_BITS :: nat where "BF16_ONE_BITS = 0x3F80"
definition BF16_MIN_POSITIVE_BITS :: nat where "BF16_MIN_POSITIVE_BITS = 0x0001"

section \<open>Binary32\<close>

definition f32 :: "pyfloat \<Rightarrow> pyfloat res" where
  "f32 x = (case x of
     Fin s m \<Rightarrow> (case round_mag binary32 m of
         None \<Rightarrow> Inl (DataError ''value is outside finite binary32 range'')
       | Some r \<Rightarrow> Inr (Fin s r))
   | _ \<Rightarrow> Inr x)"

text \<open>The 31 low bits of a binary32 magnitude, exponent field and fraction together.\<close>

definition magnitude_bits :: "rat \<Rightarrow> int" where
  "magnitude_bits r = (if r = 0 then 0
     else let e = max (binade r) (-126)
          in (e + 126) * 2 ^ 23 + \<lfloor>r / two_pow (e - 23)\<rfloor>)"

text \<open>The bits of a value after \<open>struct.pack("<f", value)\<close>; a NaN keeps its quiet pattern.\<close>

definition f32_bits :: "pyfloat \<Rightarrow> int res" where
  "f32_bits x = (case x of
     Fin s m \<Rightarrow> (case round_mag binary32 m of
         None \<Rightarrow> Inl (OverflowError ''float too large to pack with f format'')
       | Some r \<Rightarrow> Inr ((if s then 2 ^ 31 else 0) + magnitude_bits r))
   | Inf s \<Rightarrow> Inr ((if s then 2 ^ 31 else 0) + 255 * 2 ^ 23)
   | NaN \<Rightarrow> Inr (511 * 2 ^ 22))"

definition bits_f32 :: "int \<Rightarrow> pyfloat" where
  "bits_f32 bits = (let s = (2 ^ 31 \<le> bits); ex = bits div 2 ^ 23 mod 256; frac = bits mod 2 ^ 23
     in if ex = 255 then (if frac = 0 then Inf s else NaN)
        else if ex = 0 then Fin s (of_int frac * two_pow (-149))
        else Fin s (of_int (2 ^ 23 + frac) * two_pow (ex - 150)))"

section \<open>BF16\<close>

definition decode_bf16 :: "pyval \<Rightarrow> pyfloat res" where
  "decode_bf16 bits = (case plain_int bits of
     None \<Rightarrow> Inl (DataError ''BF16 bits out of range'')
   | Some b \<Rightarrow> if b < 0 \<or> 0xFFFF < b then Inl (DataError ''BF16 bits out of range'')
       else Inr (bits_f32 (b * 2 ^ 16)))"

text \<open>\<open>isinstance(value, (int, float)) and not isinstance(value, bool)\<close>, then \<open>float(value)\<close>\<close>

definition as_float :: "error \<Rightarrow> pyval \<Rightarrow> pyfloat res" where
  "as_float e value = (case value of
     PInt i \<Rightarrow> float_of_int i | PFloat f \<Rightarrow> Inr f | _ \<Rightarrow> Inl e)"

definition round_binary32_to_bf16_rne :: "pyval \<Rightarrow> nat res" where
  "round_binary32_to_bf16_rne value =
     rbind (as_float (DataError ''BF16 rounding input must be numeric'') value) (\<lambda>x.
     fail_if (\<not> is_finite x \<or> float_lt x (Fin False 0))
       (DataError ''BF16 rounding input must be finite and non-negative'') (
     rbind (f32_bits x) (\<lambda>bits.
     let upper = nat (bits div 2 ^ 16); lower = bits mod 2 ^ 16
     in Inr (if 0x8000 < lower \<or> lower = 0x8000 \<and> odd upper then upper + 1 else upper))))"

section \<open>E4M3FN\<close>

definition decode_e4m3fn :: "pyval \<Rightarrow> pyfloat res" where
  "decode_e4m3fn value = (case plain_int value of
     None \<Rightarrow> Inl (DataError ''E4M3FN code out of range'')
   | Some i \<Rightarrow> if i < 0 \<or> 0xFF < i then Inl (DataError ''E4M3FN code out of range'')
       else let code = nat i; magnitude_code = code mod 128 in
         if magnitude_code = E4M3FN_NAN_CODE then Inl (DataError ''E4M3FN NaN code is not finite'')
         else let ex = magnitude_code div 8; mantissa = magnitude_code mod 8;
                  magnitude = (if ex = 0 then of_nat mantissa * two_pow (-9)
                    else (1 + of_nat mantissa / 8) * two_pow (int ex - 7))
              in Inr (Fin (128 \<le> code) magnitude))"

definition e4m3_magnitude :: "nat \<Rightarrow> rat" where
  "e4m3_magnitude code = (case decode_e4m3fn (PInt (int code)) of Inr (Fin s m) \<Rightarrow> m | _ \<Rightarrow> 0)"

definition E4M3_POSITIVE_VALUES :: "rat list" where
  "E4M3_POSITIVE_VALUES = map e4m3_magnitude [0..<0x7F]"

definition E4M3_POSITIVE_MIDPOINTS :: "rat list" where
  "E4M3_POSITIVE_MIDPOINTS =
     map (\<lambda>i. (E4M3_POSITIVE_VALUES ! i + E4M3_POSITIVE_VALUES ! (i + 1)) / 2) [0..<0x7E]"

text \<open>\<open>bisect_left\<close> on a sorted list: the elements below \<open>x\<close>.\<close>

definition bisect_left :: "rat list \<Rightarrow> rat \<Rightarrow> nat" where
  "bisect_left xs x = length (takeWhile (\<lambda>y. y < x) xs)"

definition e4m3_code :: "rat \<Rightarrow> nat" where
  "e4m3_code magnitude =
    (if 448 \<le> magnitude then 0x7E
     else let index = bisect_left E4M3_POSITIVE_MIDPOINTS magnitude in
       if index < length E4M3_POSITIVE_MIDPOINTS \<and> magnitude = E4M3_POSITIVE_MIDPOINTS ! index
       then (if even index then index else index + 1) else index)"

definition encode_e4m3fn :: "pyval \<Rightarrow> nat res" where
  "encode_e4m3fn value =
     rbind (as_float (DataError ''E4M3FN input must be numeric'') value) (\<lambda>x.
     rbind (f32 x) (\<lambda>y. case y of
       Fin negative magnitude \<Rightarrow> Inr (e4m3_code magnitude + (if negative then 0x80 else 0))
     | _ \<Rightarrow> Inl (DataError ''E4M3FN input must be finite'')))"

section \<open>One row\<close>

text \<open>\<open>max(x, y)\<close> and \<open>min(x, y)\<close>\<close>

definition py_max :: "pyfloat \<Rightarrow> pyfloat \<Rightarrow> pyfloat" where
  "py_max x y = (if float_lt x y then y else x)"

definition py_min :: "pyfloat \<Rightarrow> pyfloat \<Rightarrow> pyfloat" where
  "py_min x y = (if float_lt y x then y else x)"

record row_metrics =
  rm_element_count :: nat
  rm_source_min :: pyfloat
  rm_source_max :: pyfloat
  rm_source_sum_squares :: pyfloat
  rm_reconstruction_sum_squares :: pyfloat
  rm_source_reconstruction_dot :: pyfloat
  rm_error_sum_squares :: pyfloat
  rm_max_absolute_error :: pyfloat

record row_result =
  rr_weight_bytes :: bytes
  rr_scale_bytes :: bytes
  rr_scale_bits :: nat
  rr_scale_value :: pyfloat
  rr_zero_row :: bool
  rr_scale_underflow_clamped :: bool
  rr_saturation_count :: nat
  rr_histogram :: "nat list"
  rr_metrics :: row_metrics

definition decode_value :: "nat \<Rightarrow> pyfloat res" where
  "decode_value bits = rbind (decode_bf16 (PInt (int bits))) (\<lambda>value.
     fail_if (\<not> is_finite value) (DataError ''BF16 source row must contain only finite values'') (Inr value))"

definition decode_bf16_row :: "bytes \<Rightarrow> (nat list \<times> pyfloat list) res" where
  "decode_bf16_row raw =
     fail_if (raw = []) (DataError ''FP8 source row must be non-empty'') (
     fail_if (odd (length raw)) (DataError ''BF16 source row must have an even byte count'') (
     let bits = unpack_u16s raw in
     rbind (rmap decode_value bits) (\<lambda>values. Inr (bits, values))))"

text \<open>The scale of a row from its largest magnitude: its bits, and whether it was clamped.\<close>

definition row_scale :: "pyfloat \<Rightarrow> (nat \<times> bool) res" where
  "row_scale maximum =
    (if float_eq maximum (Fin False 0) then Inr (BF16_ONE_BITS, False)
     else rbind (float_div maximum E4M3FN_MAX) (\<lambda>quotient.
          rbind (f32 quotient) (\<lambda>raw_scale.
          rbind (round_binary32_to_bf16_rne (PFloat raw_scale)) (\<lambda>scale_bits.
          Inr (if scale_bits = 0 then (BF16_MIN_POSITIVE_BITS, True) else (scale_bits, False))))))"

text \<open>The code of one value, whether it saturated, and the value the code stands for.\<close>

definition convert_value :: "pyfloat \<Rightarrow> pyfloat \<Rightarrow> (nat \<times> bool \<times> pyfloat) res" where
  "convert_value scale_value source_value =
     rbind (float_div source_value scale_value) (\<lambda>quotient.
     rbind (f32 quotient) (\<lambda>normalized.
     fail_if (\<not> is_finite normalized) (DataError ''FP8 row normalization produced a non-finite value'') (
     rbind (encode_e4m3fn (PFloat normalized)) (\<lambda>code.
     rbind (decode_e4m3fn (PInt (int code))) (\<lambda>decoded.
     rbind (f32 (float_mul decoded scale_value)) (\<lambda>reconstruction.
     Inr (code, float_lt E4M3FN_MAX (float_abs normalized), reconstruction)))))))"

text \<open>The loop's state: the cache keyed by source bits, the output, and the running metrics.\<close>

record row_state =
  rs_cache :: "(nat \<times> nat \<times> bool \<times> pyfloat) list"
  rs_output :: "nat list"
  rs_histogram :: "nat list"
  rs_saturation :: nat
  rs_metrics :: row_metrics

definition update_metrics :: "pyfloat \<Rightarrow> pyfloat \<Rightarrow> row_metrics \<Rightarrow> row_metrics" where
  "update_metrics source_value reconstruction m =
    (let error = float_sub source_value reconstruction in
     m\<lparr>rm_source_min := py_min (rm_source_min m) source_value,
       rm_source_max := py_max (rm_source_max m) source_value,
       rm_source_sum_squares := float_add (rm_source_sum_squares m) (float_mul source_value source_value),
       rm_reconstruction_sum_squares :=
         float_add (rm_reconstruction_sum_squares m) (float_mul reconstruction reconstruction),
       rm_source_reconstruction_dot :=
         float_add (rm_source_reconstruction_dot m) (float_mul source_value reconstruction),
       rm_error_sum_squares := float_add (rm_error_sum_squares m) (float_mul error error),
       rm_max_absolute_error := py_max (rm_max_absolute_error m) (float_abs error)\<rparr>)"

definition row_step :: "pyfloat \<Rightarrow> row_state \<Rightarrow> nat \<times> pyfloat \<Rightarrow> row_state res" where
  "row_step scale_value st item = (case item of (bit_pattern, source_value) \<Rightarrow>
     rbind (case map_of (rs_cache st) bit_pattern of
         Some cached \<Rightarrow> Inr (cached, rs_cache st)
       | None \<Rightarrow> rbind (convert_value scale_value source_value) (\<lambda>cached.
           Inr (cached, (bit_pattern, cached) # rs_cache st)))
       (\<lambda>((code, saturated, reconstruction), cache).
     Inr (st\<lparr>rs_cache := cache, rs_output := rs_output st @ [code],
       rs_histogram := (rs_histogram st)[code := rs_histogram st ! code + 1],
       rs_saturation := rs_saturation st + (if saturated then 1 else 0),
       rs_metrics := update_metrics source_value reconstruction (rs_metrics st)\<rparr>)))"

definition row_start :: "pyfloat list \<Rightarrow> row_state" where
  "row_start values = \<lparr>rs_cache = [], rs_output = [], rs_histogram = replicate 256 0, rs_saturation = 0,
     rs_metrics = \<lparr>rm_element_count = length values, rm_source_min = hd values, rm_source_max = hd values,
       rm_source_sum_squares = Fin False 0, rm_reconstruction_sum_squares = Fin False 0,
       rm_source_reconstruction_dot = Fin False 0, rm_error_sum_squares = Fin False 0,
       rm_max_absolute_error = Fin False 0\<rparr>\<rparr>"

definition quantize_bf16_row :: "bytes \<Rightarrow> row_result res" where
  "quantize_bf16_row source =
     rbind (decode_bf16_row source) (\<lambda>(source_bits, values).
     let magnitudes = map float_abs values; maximum = foldl py_max (hd magnitudes) (tl magnitudes) in
     rbind (row_scale maximum) (\<lambda>(scale_bits, clamped).
     rbind (decode_bf16 (PInt (int scale_bits))) (\<lambda>scale_value.
     fail_if (\<not> is_finite scale_value \<or> float_le scale_value (Fin False 0))
       (DataError ''FP8 row scale must be finite and positive'') (
     rbind (rfold (row_step scale_value) (row_start values) (zip source_bits values)) (\<lambda>st.
     Inr \<lparr>rr_weight_bytes = map word_of_nat (rs_output st),
       rr_scale_bytes = pack_u16s [scale_bits], rr_scale_bits = scale_bits, rr_scale_value = scale_value,
       rr_zero_row = float_eq maximum (Fin False 0), rr_scale_underflow_clamped = clamped,
       rr_saturation_count = rs_saturation st, rr_histogram = rs_histogram st,
       rr_metrics = rs_metrics st\<rparr>)))))"

end
