(* ===== verification/Encoders.thy ===== *)
theory Encoders
  imports Plan Environment FP8
begin

text \<open>
  \<open>tools/gem16_compile/encoders.py\<close>: the tensor-encoder interface, the two encoders of the
  default registry, and the reference FP8 encoders with their row loop and statistics.
\<close>

record encoder_result =
  er_source_sha256 :: "string list"
  er_output_sha256 :: string
  er_output_bytes :: int
  er_statistics :: "pyval dict option"

text \<open>
  \<open>TensorEncoder.compile_tensor\<close> over a sink: \<open>None\<close> is a call that does not return.
\<close>

type_synonym 'o encoder = "environment \<Rightarrow> 'o writer \<Rightarrow> tensor_compile_plan \<Rightarrow> tensor_descriptor list \<Rightarrow>
    workspace \<Rightarrow> 'o \<Rightarrow> (encoder_result res \<times> workspace \<times> 'o) option"

section \<open>Copying\<close>

definition copy_encoder :: "'o encoder" where
  "copy_encoder env put plan sources ws out = (case sources of
     [source] \<Rightarrow> (case output_bytes plan of
        Inl e \<Rightarrow> Some (Inl e, ws, out)
      | Inr byte_count \<Rightarrow>
          if td_byte_length source \<noteq> byte_count then Some (Inl (DataError ''copy-v1 byte mismatch''), ws, out)
          else map_option (\<lambda>(r, st). (map_sum id (\<lambda>(source_hash, output_hash).
                 \<lparr>er_source_sha256 = [source_hash], er_output_sha256 = output_hash,
                  er_output_bytes = td_byte_length source, er_statistics = None\<rparr>) r, st))
               (copy_range (env_sha env) (env_granularity env) (env_rss env) put True
                  (env_files env (td_path source)) (td_absolute_offset source) (td_byte_length source) ws out))
   | _ \<Rightarrow> Some (Inl (DataError ''copy-v1 received more than one source tensor''), ws, out))"

section \<open>The constant scalar\<close>

definition bf16_one :: bytes where "bf16_one = [0x80, 0x3f]"

definition constant_bf16_one_encoder :: "'o encoder" where
  "constant_bf16_one_encoder env put plan sources ws out =
     (if sources \<noteq> [] then Some (Inl (DataError ''constant-bf16-one-v1 does not accept source tensors''), ws, out)
      else if output_dtype plan \<noteq> ''BF16'' \<or> physical_shape plan \<noteq> [1]
      then Some (Inl (DataError ''constant-bf16-one-v1 requires BF16 [1]''), ws, out)
      else case write_all put out bf16_one of
          (Inl e, out') \<Rightarrow> Some (Inl e, ws, out')
        | (Inr _, out') \<Rightarrow> Some (Inr \<lparr>er_source_sha256 = [], er_output_sha256 = env_sha env bf16_one,
             er_output_bytes = int (length bf16_one), er_statistics = None\<rparr>, ws, out'))"

section \<open>The plan of an FP8 encoder\<close>

definition validate_fp8_plan :: "tensor_compile_plan \<Rightarrow> tensor_descriptor list \<Rightarrow> string \<Rightarrow>
    (tensor_descriptor \<times> int \<times> int) res" where
  "validate_fp8_plan plan sources component = (case sources of
     [source] \<Rightarrow> (case (td_dtype source = ''BF16'', td_shape source) of
        (True, [rows, columns]) \<Rightarrow>
          fail_if (rows \<le> 0 \<or> columns \<le> 0) (DataError ''source shape must be non-empty'') (
          rbind (tensor_bytes ''BF16'' (td_shape source)) (\<lambda>expected_source_bytes.
          fail_if (td_byte_length source \<noteq> expected_source_bytes) (DataError ''source byte mismatch'') (
          let expected_dtype = (if component = ''weight'' then ''F8_E4M3'' else ''BF16'');
              expected_shape = (if component = ''weight'' then [rows, columns] else [rows, 1])
          in fail_if (output_dtype plan \<noteq> expected_dtype \<or> physical_shape plan \<noteq> expected_shape)
               (DataError ''output plan mismatch'') (
             rbind (output_bytes plan) (\<lambda>byte_count.
             rbind (tensor_bytes expected_dtype expected_shape) (\<lambda>expected_size.
             fail_if (byte_count \<noteq> expected_size) (DataError ''output byte calculation mismatch'')
               (Inr (source, rows, columns))))))))
      | _ \<Rightarrow> Inl (DataError ''source must be one 2D BF16 tensor''))
   | _ \<Rightarrow> Inl (DataError ''received more than one source tensor''))"

section \<open>Reading the rows of a matrix\<close>

text \<open>\<open>readinto\<close> until the row is complete; an empty read is the end of the file.\<close>

function read_row :: "bytes \<Rightarrow> nat \<Rightarrow> nat \<Rightarrow> bytes \<Rightarrow> bytes res" where
  "read_row data start row_bytes row =
     (if row_bytes \<le> length row then Inr row
      else let chunk = file_read data (start + length row) (row_bytes - length row) in
        if chunk = [] then Inl (DataError ''short source row'')
        else read_row data start row_bytes (row @ chunk))"
  by auto
termination
  by (relation "measure (\<lambda>(_, _, row_bytes, row). row_bytes - length row)") (auto simp: file_read_def)

declare read_row.simps [simp del]

text \<open>
  One iteration of the generator and of the loop that consumes it: the row is recorded and read,
  the body runs on the row and on all bytes read so far, and the memory is checked again.
\<close>

definition row_iteration :: "environment \<Rightarrow> bytes \<Rightarrow> nat \<Rightarrow> nat \<Rightarrow>
    (bytes \<Rightarrow> bytes \<Rightarrow> 't \<Rightarrow> (workspace \<times> 'o, 't) prog) \<Rightarrow> bytes \<times> 't \<Rightarrow> nat \<Rightarrow> (workspace \<times> 'o, bytes \<times> 't) prog" where
  "row_iteration env data base row_bytes body acc row st = (case (acc, st) of ((digest, totals), (ws, out)) \<Rightarrow>
     case record_transform_row (env_rss env) (int row_bytes) ws of
       (Inl e, ws1) \<Rightarrow> (Inl e, (ws1, out))
     | (Inr _, ws1) \<Rightarrow>
         (case read_row data (base + row * row_bytes) row_bytes [] of
            Inl e \<Rightarrow> (Inl e, (ws1, out))
          | Inr view \<Rightarrow>
              (case body view (digest @ view) totals (ws1, out) of
                 (Inl e, st2) \<Rightarrow> (Inl e, st2)
               | (Inr totals', (ws2, out2)) \<Rightarrow>
                   (case workspace_check (env_rss env) ws2 of
                      (Inl e, ws3) \<Rightarrow> (Inl e, (ws3, out2))
                    | (Inr _, ws3) \<Rightarrow> (Inr (digest @ view, totals'), (ws3, out2))))))"

fun is_os_or_value_error :: "error \<Rightarrow> bool" where
  "is_os_or_value_error (OSError _) = True"
| "is_os_or_value_error e = is_value_error e"

definition for_source_rows :: "environment \<Rightarrow> tensor_descriptor \<Rightarrow> nat \<Rightarrow> nat \<Rightarrow>
    (bytes \<Rightarrow> bytes \<Rightarrow> 't \<Rightarrow> (workspace \<times> 'o, 't) prog) \<Rightarrow> 't \<Rightarrow> (workspace \<times> 'o, 't) prog" where
  "for_source_rows env source rows row_bytes body totals st =
    (if staging_bytes (fst st) < int row_bytes
     then (Inl (DataError ''requires staging for one source row''), st)
     else if td_absolute_offset source < 0 \<or> td_byte_length source < 0
     then (Inl (DataError ''invalid source range''), st)
     else case (case env_files env (td_path source) of
         None \<Rightarrow> (Inl (OSError ''open''), st)
       | Some data \<Rightarrow>
           if int (length data) - td_byte_length source < td_absolute_offset source
           then (Inl (DataError ''source range is outside the file''), st)
           else prog_fold (row_iteration env data (nat (td_absolute_offset source)) row_bytes body)
             ([], totals) [0..<rows] st) of
       (Inl e, st') \<Rightarrow> (Inl (if is_os_or_value_error e then DataError ''cannot open/read source tensor'' else e), st')
     | (Inr (digest, totals'), st') \<Rightarrow> (Inr totals', st'))"

section \<open>Statistics\<close>

record weight_totals =
  wt_source_hash :: string
  wt_output :: bytes
  wt_source_min :: pyfloat
  wt_source_max :: pyfloat
  wt_source_sum_squares :: pyfloat
  wt_reconstruction_sum_squares :: pyfloat
  wt_source_reconstruction_dot :: pyfloat
  wt_error_sum_squares :: pyfloat
  wt_max_absolute_error :: pyfloat
  wt_scale_min :: pyfloat
  wt_scale_max :: pyfloat
  wt_saturation_count :: nat
  wt_zero_rows :: nat
  wt_underflow_clamped_rows :: nat
  wt_histogram :: "nat list"

definition weight_start :: weight_totals where
  "weight_start = \<lparr>wt_source_hash = [], wt_output = [], wt_source_min = Inf False, wt_source_max = Inf True,
     wt_source_sum_squares = Fin False 0, wt_reconstruction_sum_squares = Fin False 0,
     wt_source_reconstruction_dot = Fin False 0, wt_error_sum_squares = Fin False 0,
     wt_max_absolute_error = Fin False 0, wt_scale_min = Inf False, wt_scale_max = Inf True,
     wt_saturation_count = 0, wt_zero_rows = 0, wt_underflow_clamped_rows = 0,
     wt_histogram = replicate 256 0\<rparr>"

definition nonzero :: "pyfloat \<Rightarrow> bool" where
  "nonzero x \<longleftrightarrow> py_true (PFloat x)"

definition cosine_of :: "pyfloat \<Rightarrow> pyfloat \<Rightarrow> pyfloat \<Rightarrow> pyfloat res" where
  "cosine_of dot source_norm reconstruction_norm =
     rbind (if nonzero source_norm \<and> nonzero reconstruction_norm
            then float_div dot (float_mul source_norm reconstruction_norm)
            else Inr (if float_eq source_norm reconstruction_norm \<and> float_eq reconstruction_norm (Fin False 0)
                      then Fin False 1 else Fin False 0)) (\<lambda>cosine.
     Inr (py_max (Fin True 1) (py_min (Fin False 1) cosine)))"

definition check_finite :: "pyval dict \<Rightarrow> pyval dict res" where
  "check_finite entries = fail_if (list_ex (\<lambda>(key, v). case v of PFloat x \<Rightarrow> \<not> is_finite x | _ \<Rightarrow> False) entries)
     (DataError ''non-finite FP8 statistic'') (Inr entries)"

definition weight_statistics :: "environment \<Rightarrow> int \<Rightarrow> int \<Rightarrow> weight_totals \<Rightarrow> pyval dict res" where
  "weight_statistics env rows columns t =
    (let elements = rows * columns in
     rbind (env_sqrt env (wt_source_sum_squares t)) (\<lambda>source_norm.
     rbind (env_sqrt env (wt_reconstruction_sum_squares t)) (\<lambda>reconstruction_norm.
     rbind (env_sqrt env (wt_error_sum_squares t)) (\<lambda>error_norm.
     rbind (if nonzero source_norm then float_div error_norm source_norm else Inr (Fin False 0)) (\<lambda>relative_l2.
     rbind (cosine_of (wt_source_reconstruction_dot t) source_norm reconstruction_norm) (\<lambda>cosine.
     let perfect = float_eq (wt_error_sum_squares t) (Fin False 0) in
     rbind (if perfect \<or> float_eq (wt_source_sum_squares t) (Fin False 0) then Inr PNone
            else rbind (float_div (wt_source_sum_squares t) (wt_error_sum_squares t)) (\<lambda>ratio.
                 rbind (env_log10 env ratio) (\<lambda>l. Inr (PFloat (float_mul (Fin False 10) l))))) (\<lambda>sqnr.
     rbind (float_of_int elements) (\<lambda>count.
     rbind (float_div (wt_source_sum_squares t) count) (\<lambda>mean_square.
     rbind (env_sqrt env mean_square) (\<lambda>source_rms.
     rbind (int_true_div (int (wt_saturation_count t)) elements) (\<lambda>saturation_rate.
     check_finite [(''contract_id'', PStr FP8_CONTRACT_ID),
       (''contract_version'', PInt FP8_CONTRACT_VERSION),
       (''component'', PStr ''weight''),
       (''rows'', PInt rows), (''columns'', PInt columns), (''elements'', PInt elements),
       (''source_min'', PFloat (wt_source_min t)), (''source_max'', PFloat (wt_source_max t)),
       (''source_rms'', PFloat source_rms),
       (''scale_min'', PFloat (wt_scale_min t)), (''scale_max'', PFloat (wt_scale_max t)),
       (''relative_l2_error'', PFloat relative_l2), (''cosine_similarity'', PFloat cosine),
       (''max_absolute_error'', PFloat (wt_max_absolute_error t)),
       (''sqnr_db'', sqnr), (''perfect_reconstruction'', PBool perfect),
       (''saturation_count'', PInt (int (wt_saturation_count t))),
       (''saturation_rate'', PFloat saturation_rate),
       (''zero_rows'', PInt (int (wt_zero_rows t))),
       (''underflow_clamped_rows'', PInt (int (wt_underflow_clamped_rows t))),
       (''histogram'', PList (map (\<lambda>n. PInt (int n)) (wt_histogram t)))])))))))))))"

section \<open>The reference FP8 encoders\<close>

text \<open>\<open>write_all(output, payload)\<close>, and what follows it in the body of the row loop.\<close>

definition write_row :: "environment \<Rightarrow> 'o writer \<Rightarrow> bytes \<Rightarrow> 't \<Rightarrow> (workspace \<times> 'o, 't) prog" where
  "write_row env put payload totals st = (case write_all put (snd st) payload of
     (Inl e, out) \<Rightarrow> (Inl e, (fst st, out))
   | (Inr _, out) \<Rightarrow> (case workspace_check (env_rss env) (fst st) of
         (Inl e, ws) \<Rightarrow> (Inl e, (ws, out)) | (Inr _, ws) \<Rightarrow> (Inr totals, (ws, out))))"

definition add_weight_row :: "environment \<Rightarrow> bytes \<Rightarrow> row_result \<Rightarrow> weight_totals \<Rightarrow> weight_totals" where
  "add_weight_row env digest r t = (let m = rr_metrics r in
     \<lparr>wt_source_hash = env_sha env digest, wt_output = wt_output t @ rr_weight_bytes r,
      wt_source_min = py_min (wt_source_min t) (rm_source_min m),
      wt_source_max = py_max (wt_source_max t) (rm_source_max m),
      wt_source_sum_squares = float_add (wt_source_sum_squares t) (rm_source_sum_squares m),
      wt_reconstruction_sum_squares =
        float_add (wt_reconstruction_sum_squares t) (rm_reconstruction_sum_squares m),
      wt_source_reconstruction_dot =
        float_add (wt_source_reconstruction_dot t) (rm_source_reconstruction_dot m),
      wt_error_sum_squares = float_add (wt_error_sum_squares t) (rm_error_sum_squares m),
      wt_max_absolute_error = py_max (wt_max_absolute_error t) (rm_max_absolute_error m),
      wt_scale_min = py_min (wt_scale_min t) (rr_scale_value r),
      wt_scale_max = py_max (wt_scale_max t) (rr_scale_value r),
      wt_saturation_count = wt_saturation_count t + rr_saturation_count r,
      wt_zero_rows = wt_zero_rows t + (if rr_zero_row r then 1 else 0),
      wt_underflow_clamped_rows = wt_underflow_clamped_rows t + (if rr_scale_underflow_clamped r then 1 else 0),
      wt_histogram = map2 (+) (wt_histogram t) (rr_histogram r)\<rparr>)"

definition weight_row :: "environment \<Rightarrow> 'o writer \<Rightarrow> bytes \<Rightarrow> bytes \<Rightarrow> weight_totals \<Rightarrow> (workspace \<times> 'o, weight_totals) prog" where
  "weight_row env put view digest t st = (case quantize_bf16_row view of
     Inl e \<Rightarrow> (Inl e, st)
   | Inr r \<Rightarrow> write_row env put (rr_weight_bytes r) (add_weight_row env digest r t) st)"

definition fp8_weight_encoder :: "'o encoder" where
  "fp8_weight_encoder env put plan sources ws out = Some (
     case validate_fp8_plan plan sources ''weight'' of
       Inl e \<Rightarrow> (Inl e, (ws, out))
     | Inr (source, rows, columns) \<Rightarrow>
         sbind (for_source_rows env source (nat rows) (nat (columns * 2)) (weight_row env put) weight_start (ws, out))
           (\<lambda>t st. (rbind (weight_statistics env rows columns t) (\<lambda>statistics.
              Inr \<lparr>er_source_sha256 = [wt_source_hash t], er_output_sha256 = env_sha env (wt_output t),
                er_output_bytes = rows * columns, er_statistics = Some statistics\<rparr>), st)) id)"

record scale_totals =
  st_source_hash :: string
  st_output :: bytes
  st_scale_min :: pyfloat
  st_scale_max :: pyfloat
  st_zero_rows :: nat
  st_underflow_clamped_rows :: nat

definition scale_start :: scale_totals where
  "scale_start = \<lparr>st_source_hash = [], st_output = [], st_scale_min = Inf False, st_scale_max = Inf True,
     st_zero_rows = 0, st_underflow_clamped_rows = 0\<rparr>"

definition scale_row :: "environment \<Rightarrow> 'o writer \<Rightarrow> bytes \<Rightarrow> bytes \<Rightarrow> scale_totals \<Rightarrow> (workspace \<times> 'o, scale_totals) prog" where
  "scale_row env put view digest t st = (case quantize_bf16_row view of
     Inl e \<Rightarrow> (Inl e, st)
   | Inr r \<Rightarrow> write_row env put (rr_scale_bytes r)
       \<lparr>st_source_hash = env_sha env digest, st_output = st_output t @ rr_scale_bytes r,
        st_scale_min = py_min (st_scale_min t) (rr_scale_value r),
        st_scale_max = py_max (st_scale_max t) (rr_scale_value r),
        st_zero_rows = st_zero_rows t + (if rr_zero_row r then 1 else 0),
        st_underflow_clamped_rows =
          st_underflow_clamped_rows t + (if rr_scale_underflow_clamped r then 1 else 0)\<rparr> st)"

definition fp8_scale_encoder :: "'o encoder" where
  "fp8_scale_encoder env put plan sources ws out = Some (
     case validate_fp8_plan plan sources ''scale'' of
       Inl e \<Rightarrow> (Inl e, (ws, out))
     | Inr (source, rows, columns) \<Rightarrow>
         sbind (for_source_rows env source (nat rows) (nat (columns * 2)) (scale_row env put) scale_start (ws, out))
           (\<lambda>t st. (Inr \<lparr>er_source_sha256 = [st_source_hash t], er_output_sha256 = env_sha env (st_output t),
              er_output_bytes = rows * 2,
              er_statistics = Some [(''contract_id'', PStr FP8_CONTRACT_ID),
                (''contract_version'', PInt FP8_CONTRACT_VERSION), (''component'', PStr ''scale''),
                (''rows'', PInt rows), (''columns'', PInt 1),
                (''scale_min'', PFloat (st_scale_min t)), (''scale_max'', PFloat (st_scale_max t)),
                (''zero_rows'', PInt (int (st_zero_rows t))),
                (''underflow_clamped_rows'', PInt (int (st_underflow_clamped_rows t)))]\<rparr>, st)) id)"

definition default_encoder_registry :: "'o encoder dict" where
  "default_encoder_registry = [(''copy-v1'', copy_encoder), (''constant-bf16-one-v1'', constant_bf16_one_encoder)]"

section \<open>What an encoder promises\<close>

text \<open>
  An encoder called with a good workspace returns, only appends to its output, and on success
  has appended exactly the bytes it reports, with their digest, and left the workspace good.
\<close>

definition encoder_post :: "('o \<Rightarrow> bytes) \<Rightarrow> environment \<Rightarrow> workspace \<Rightarrow> 'o \<Rightarrow>
    (encoder_result res \<times> workspace \<times> 'o) option \<Rightarrow> bool" where
  "encoder_post contents env ws out result = (case result of
     None \<Rightarrow> False
   | Some (Inl e, ws', out') \<Rightarrow> \<exists>extra. contents out' = contents out @ extra
   | Some (Inr r, ws', out') \<Rightarrow> \<exists>payload. contents out' = contents out @ payload
        \<and> er_output_bytes r = int (length payload) \<and> er_output_sha256 r = env_sha env payload
        \<and> ws_good (env_granularity env) ws' ws')"

end
