(* ===== verification/Source_Lock.thy ===== *)
theory Source_Lock
  imports Environment
begin

text \<open>
  The validation of a source lock in \<open>tools/fetch_model.py\<close>: repositories, revisions, digests and
  the paths of the locked files.
\<close>

definition lock_relative_path :: "string \<Rightarrow> string list res" where
  "lock_relative_path relative =
     (if relative = [] \<or> CHR 0x5C \<in> set relative \<or> CHR 0x00 \<in> set relative then Inl (ValueError ''unsafe path'')
      else let parts = path_parts relative in
        if path_absolute relative \<or> parts = [] \<or> list_ex (\<lambda>part. part \<in> {[], ''.'', ''..''}) parts
        then Inl (ValueError ''unsafe path'')
        else Inr parts)"

text \<open>\<open>.as_posix()\<close> joins the components again.\<close>

definition source_path :: "string \<Rightarrow> string res" where
  "source_path relative = rbind (lock_relative_path relative) (\<lambda>parts. Inr (join_with CHR ''/'' parts))"

definition repository_characters :: string where
  "repository_characters = ''abcdefghijklmnopqrstuvwxyzABCDEFGHIJKLMNOPQRSTUVWXYZ0123456789_.-''"

definition hugging_face_repository :: "environment \<Rightarrow> pyval \<Rightarrow> string res" where
  "hugging_face_repository env value =
    (let repository = py_str env value; parts = split_on CHR ''/'' repository in
     fail_if (length parts \<noteq> 2
       \<or> list_ex (\<lambda>part. part = [] \<or> part \<in> {''.'', ''..''}) parts
       \<or> list_ex (\<lambda>part. \<not> list_all (\<lambda>c. c \<in> set repository_characters) part) parts)
       (ValueError ''invalid Hugging Face repository'') (Inr repository))"

definition hex_char :: "char \<Rightarrow> bool" where
  "hex_char c \<longleftrightarrow> c \<in> set ''0123456789abcdefABCDEF''"

text \<open>\<open>text.lower()\<close> on ASCII text.\<close>

definition lower_char :: "char \<Rightarrow> char" where
  "lower_char c = (if 65 \<le> (of_char c :: nat) \<and> (of_char c :: nat) \<le> 90 then char_of ((of_char c :: nat) + 32) else c)"

abbreviation lower :: "string \<Rightarrow> string" where
  "lower s \<equiv> map lower_char s"

definition exact_hex :: "environment \<Rightarrow> pyval \<Rightarrow> nat \<Rightarrow> string res" where
  "exact_hex env value len =
    (let text = py_str env value in
     fail_if (length text \<noteq> len \<or> \<not> list_all hex_char text)
       (ValueError ''must be hexadecimal characters'') (Inr (lower text)))"

definition immutable_revision :: "environment \<Rightarrow> pyval \<Rightarrow> string res" where
  "immutable_revision env value = reraise is_value_error
     (ValueError ''must be a full immutable commit SHA'') (exact_hex env value 40)"

text \<open>\<open>source.get(key, default)\<close> with a default that is evaluated first.\<close>

definition get_or :: "pyval dict \<Rightarrow> string \<Rightarrow> pyval \<Rightarrow> pyval" where
  "get_or d key fallback = (case dict_get d key of None \<Rightarrow> fallback | Some v \<Rightarrow> v)"

definition resolve_source :: "environment \<Rightarrow> pyval dict \<Rightarrow> pyval dict \<Rightarrow> (string \<times> string \<times> string) res" where
  "resolve_source env lock entry =
    (let source = (case obj_get entry ''source'' of PNone \<Rightarrow> PDict [] | v \<Rightarrow> v) in
     case source of
       PDict source \<Rightarrow>
         rbind (dict_index lock ''repository'') (\<lambda>lock_repository.
         rbind (hugging_face_repository env (get_or source ''repository'' lock_repository)) (\<lambda>repository.
         rbind (dict_index lock ''revision'') (\<lambda>lock_revision.
         rbind (immutable_revision env (get_or source ''revision'' lock_revision)) (\<lambda>revision.
         rbind (dict_index entry ''path'') (\<lambda>entry_path.
         rbind (source_path (py_str env (get_or source ''path'' entry_path))) (\<lambda>relative.
         Inr (repository, revision, relative)))))))
     | _ \<Rightarrow> Inl (ValueError ''source must be an object''))"

definition blob_id :: "environment \<Rightarrow> pyval dict \<Rightarrow> string res" where
  "blob_id env entry =
    (let value = (if py_true (obj_get entry ''lfs_oid'') then obj_get entry ''lfs_oid'' else obj_get entry ''git_oid'') in
     fail_if (\<not> py_true value) (ValueError ''lock entry has no blob identity'') (Inr (py_str env value)))"

text \<open>\<open>if candidate.get(key) is not None: exact_hex(...)\<close>\<close>

definition optional_hex :: "environment \<Rightarrow> pyval dict \<Rightarrow> string \<Rightarrow> nat \<Rightarrow> string option res" where
  "optional_hex env candidate key len = (case obj_get candidate key of
     PNone \<Rightarrow> Inr None
   | v \<Rightarrow> rbind (exact_hex env v len) (\<lambda>text. Inr (Some text)))"

text \<open>One entry of \<open>files\<close>; the accumulator holds the paths seen and the entries accepted.\<close>

definition validate_entry :: "environment \<Rightarrow> pyval dict \<Rightarrow> string set \<times> pyval dict list \<Rightarrow> pyval \<Rightarrow>
    (string set \<times> pyval dict list) res" where
  "validate_entry env lock acc value = (case value of
     PDict candidate \<Rightarrow>
       rbind (source_path (py_str env (get_or candidate ''path'' (PStr '''')))) (\<lambda>relative.
       fail_if (relative \<in> fst acc) (ValueError ''duplicate model lock path'') (
       case plain_int (obj_get candidate ''size'') of
         None \<Rightarrow> Inl (ValueError ''invalid size for model lock path'')
       | Some byte_count \<Rightarrow>
         fail_if (byte_count < 0) (ValueError ''invalid size for model lock path'') (
         rbind (exact_hex env (obj_get candidate ''sha256'') 64) (\<lambda>_.
         rbind (optional_hex env candidate ''git_oid'' 40) (\<lambda>_.
         rbind (optional_hex env candidate ''lfs_oid'' 64) (\<lambda>lfs_oid.
         rbind (case lfs_oid of
             None \<Rightarrow> Inr ()
           | Some oid \<Rightarrow> rbind (dict_index candidate ''sha256'') (\<lambda>sha.
               fail_if (oid \<noteq> lower (py_str env sha)) (ValueError ''LFS OID differs from SHA-256'') (Inr ()))) (\<lambda>_.
         rbind (optional_hex env candidate ''xet_hash'' 64) (\<lambda>_.
         rbind (resolve_source env lock candidate) (\<lambda>_.
         rbind (blob_id env candidate) (\<lambda>_.
         Inr (insert relative (fst acc), snd acc @ [candidate])))))))))))
   | _ \<Rightarrow> Inl (ValueError ''model lock file must be an object''))"

definition validate_lock :: "environment \<Rightarrow> pyval dict \<Rightarrow> pyval dict list res" where
  "validate_lock env lock =
     rbind (py_int (get_or lock ''schema_version'' (PInt 0))) (\<lambda>schema_version.
     fail_if (schema_version \<notin> {1, 2}) (ValueError ''unsupported model lock schema_version'') (
     rbind (hugging_face_repository env (get_or lock ''repository'' (PStr ''''))) (\<lambda>_.
     rbind (immutable_revision env (obj_get lock ''revision'')) (\<lambda>_.
     case obj_get lock ''files'' of
       PList entries \<Rightarrow>
         fail_if (entries = []) (ValueError ''model lock files must be a non-empty array'') (
         rbind (rfold (validate_entry env lock) ({}, []) entries) (\<lambda>(paths, validated). Inr validated))
     | _ \<Rightarrow> Inl (ValueError ''model lock files must be a non-empty array'')))))"

section \<open>Accepted locks\<close>

text \<open>What validation leaves of an entry.\<close>

definition entry_ok :: "environment \<Rightarrow> pyval dict \<Rightarrow> bool" where
  "entry_ok env entry \<longleftrightarrow> (\<exists>parts byte_count.
     lock_relative_path (py_str env (get_or entry ''path'' (PStr ''''))) = Inr parts
     \<and> obj_get entry ''size'' = PInt byte_count \<and> 0 \<le> byte_count
     \<and> length (py_str env (obj_get entry ''sha256'')) = 64
     \<and> list_all hex_char (py_str env (obj_get entry ''sha256'')))"

definition entry_path :: "environment \<Rightarrow> pyval dict \<Rightarrow> string res" where
  "entry_path env entry = source_path (py_str env (get_or entry ''path'' (PStr '''')))"

lemma validate_entry_parts:
  assumes "validate_entry env lock acc (PDict candidate) = Inr acc'"
  shows "\<exists>relative byte_count sha. entry_path env candidate = Inr relative \<and> relative \<notin> fst acc
    \<and> obj_get candidate ''size'' = PInt byte_count \<and> 0 \<le> byte_count
    \<and> exact_hex env (obj_get candidate ''sha256'') 64 = Inr sha
    \<and> acc' = (insert relative (fst acc), snd acc @ [candidate])"
proof -
  from assms obtain relative where relative: "entry_path env candidate = Inr relative" "relative \<notin> fst acc"
    by (simp only: validate_entry_def "pyval.case" entry_path_def rbind_Inr_iff fail_if_Inr_iff) blast
  show ?thesis
  proof (cases "plain_int (obj_get candidate ''size'')")
    case None
    with assms show ?thesis
      by (simp only: validate_entry_def "pyval.case" "option.case" rbind_Inr_iff fail_if_Inr_iff sum.distinct) blast
  next
    case (Some byte_count)
    with assms relative show ?thesis
      by (simp only: validate_entry_def "pyval.case" entry_path_def rbind_Inr_iff fail_if_Inr_iff
          "option.case" plain_int_Some_iff not_less sum.inject) blast
  qed
qed

lemma validate_entry_Inr:
  assumes "validate_entry env lock acc item = Inr acc'"
  shows "\<exists>candidate relative. item = PDict candidate \<and> entry_ok env candidate
    \<and> entry_path env candidate = Inr relative \<and> relative \<notin> fst acc
    \<and> acc' = (insert relative (fst acc), snd acc @ [candidate])"
proof -
  from assms obtain candidate where c: "item = PDict candidate"
    by (cases item) (simp_all add: validate_entry_def)
  from validate_entry_parts [OF assms [unfolded c]] obtain relative byte_count sha where
    parts: "entry_path env candidate = Inr relative" "relative \<notin> fst acc"
      "obj_get candidate ''size'' = PInt byte_count" "0 \<le> byte_count"
      "exact_hex env (obj_get candidate ''sha256'') 64 = Inr sha"
      "acc' = (insert relative (fst acc), snd acc @ [candidate])" by blast
  have "entry_ok env candidate"
    using parts(1,3,4,5) by (auto simp: entry_ok_def entry_path_def source_path_def exact_hex_def Let_def)
  with c parts show ?thesis by blast
qed

definition lock_invariant :: "environment \<Rightarrow> pyval list \<Rightarrow> string set \<times> pyval dict list \<Rightarrow> bool" where
  "lock_invariant env items acc \<longleftrightarrow> items = map PDict (snd acc) \<and> list_all (entry_ok env) (snd acc)
     \<and> (\<exists>names. map (entry_path env) (snd acc) = map Inr names \<and> distinct names \<and> set names = fst acc)"

lemma lock_invariant_step:
  assumes "lock_invariant env items acc" "validate_entry env lock acc item = Inr acc'"
  shows "lock_invariant env (items @ [item]) acc'"
proof -
  from validate_entry_Inr [OF assms(2)] obtain candidate relative where
    c: "item = PDict candidate" "entry_ok env candidate" "entry_path env candidate = Inr relative"
      "relative \<notin> fst acc" "acc' = (insert relative (fst acc), snd acc @ [candidate])" by blast
  from assms(1) obtain names where names: "map (entry_path env) (snd acc) = map Inr names"
    "distinct names" "set names = fst acc" unfolding lock_invariant_def by blast
  have "map (entry_path env) (snd acc') = map Inr (names @ [relative])
      \<and> distinct (names @ [relative]) \<and> set (names @ [relative]) = fst acc'"
    using names c(3-5) by simp
  moreover have "items @ [item] = map PDict (snd acc') \<and> list_all (entry_ok env) (snd acc')"
    using c(1,2,5) assms(1) by (simp add: lock_invariant_def)
  ultimately show ?thesis unfolding lock_invariant_def by blast
qed

lemma validate_lock_Inr:
  assumes "validate_lock env lock = Inr locked"
  shows "locked \<noteq> [] \<and> list_all (entry_ok env) locked
    \<and> obj_get lock ''files'' = PList (map PDict locked)
    \<and> (\<exists>names. map (entry_path env) locked = map Inr names \<and> distinct names)"
proof -
  from assms obtain items acc where v: "obj_get lock ''files'' = PList items" "items \<noteq> []"
    "rfold (validate_entry env lock) ({}, []) items = Inr acc" "locked = snd acc"
    by (auto simp: validate_lock_def split: pyval.splits)
  have "lock_invariant env items acc"
    by (rule rfold_invariant [OF v(3)]) (simp_all add: lock_invariant_def [of _ "[]"] lock_invariant_step)
  with v show ?thesis unfolding lock_invariant_def by auto
qed

end
