(* ===== verification/Native_FP8.thy ===== *)
theory Native_FP8
  imports Encoders Source_Lock
begin

text \<open>
  \<open>tools/gem16_compile/native_fp8.py\<close>: the batch job handed to the native FP8 encoder, the checks
  of the telemetry it leaves, the preparation of the bundle around the child process, and the
  read-only encoders over the bundle.
\<close>

definition CONTRACT_ID :: string where "CONTRACT_ID = ''gem16.fp8_attention_rowwise''"
definition CONTRACT_VERSION :: int where "CONTRACT_VERSION = 1"

definition NATIVE_BUILD_KEYS :: "string list" where
  "NATIVE_BUILD_KEYS = [''compiler_id'', ''compiler_version'', ''build_type'', ''cxx_standard'', ''system'', ''processor'']"

definition native_build :: "pyval \<Rightarrow> string dict res" where
  "native_build value = (case value of
     PDict d \<Rightarrow>
       fail_if (dict_keys d \<noteq> set NATIVE_BUILD_KEYS) (DataError ''native_build schema mismatch'') (
       fail_if (list_ex (\<lambda>(k, v). case v of PStr s \<Rightarrow> s = [] | _ \<Rightarrow> True) d)
         (DataError ''native_build values must be non-empty strings'') (
       rmap (\<lambda>key. rbind (dict_index d key) (\<lambda>v. Inr (key, case v of PStr s \<Rightarrow> s | _ \<Rightarrow> []))) (sort NATIVE_BUILD_KEYS)))
   | _ \<Rightarrow> Inl (DataError ''native_build schema mismatch''))"

record native_matrix =
  nm_source_name :: string
  nm_weight_name :: string
  nm_scale_name :: string
  nm_weight_offset :: int
  nm_weight_bytes :: int
  nm_scale_offset :: int
  nm_scale_bytes :: int
  nm_rows :: int
  nm_columns :: int
  nm_source_sha256 :: string
  nm_telemetry :: "pyval dict"

record native_bundle =
  nb_payload :: string
  nb_telemetry_path :: string
  nb_matrices :: "native_matrix dict"
  nb_binary_sha256 :: string
  nb_threads :: int
  nb_maximum_source_row_bytes :: int
  nb_child_peak_rss_bytes :: int
  nb_native_build :: "string dict"

record native_request =
  nr_executable :: string
  nr_timeout_seconds :: int
  nr_threads :: int

section \<open>The job\<close>

type_synonym plan_pair = "tensor_compile_plan \<times> tensor_compile_plan"

definition group_operation :: "tensor_compile_plan list dict \<Rightarrow> tensor_compile_plan \<Rightarrow> tensor_compile_plan list dict" where
  "group_operation groups item = dict_append (operation_id item) item groups"

definition pair_of :: "tensor_compile_plan list \<Rightarrow> plan_pair res" where
  "pair_of values =
    (case (values, filter (\<lambda>v. encoder v = ''fp8-rowwise-weight-v1'') values,
           filter (\<lambda>v. encoder v = ''fp8-rowwise-scale-v1'') values) of
       ([_, _], [weight], [scale]) \<Rightarrow>
         fail_if (source_names weight \<noteq> source_names scale) (DataError ''M05 pair source mismatch'')
           (Inr (weight, scale))
     | _ \<Rightarrow> Inl (DataError ''M05 operation is not one weight/scale pair''))"

definition pair_plans :: "quantization_plan \<Rightarrow> plan_pair list res" where
  "pair_plans plan =
     rbind (rmap (\<lambda>(operation, values). pair_of values)
       (dict_sorted (foldl group_operation [] (qp_tensors plan)))) (\<lambda>pairs.
     fail_if (length pairs * 2 \<noteq> length (qp_tensors plan)) (DataError ''M05 plan tensor count is not pair-aligned'')
       (Inr pairs))"

text \<open>One entry of the job document; the source digest is filled in after hashing.\<close>

record job_matrix =
  jm_source_name :: string
  jm_source_path :: string
  jm_source_offset :: int
  jm_source_bytes :: int
  jm_rows :: int
  jm_columns :: int
  jm_weight_output_name :: string
  jm_weight_offset :: int
  jm_weight_bytes :: int
  jm_scale_output_name :: string
  jm_scale_offset :: int
  jm_scale_bytes :: int
  jm_source_sha256 :: string

record native_job =
  job_threads :: int
  job_payload_bytes :: int
  job_matrices :: "job_matrix list"

definition make_matrix :: "environment \<Rightarrow> sources \<Rightarrow> int \<Rightarrow> plan_pair \<Rightarrow> job_matrix res" where
  "make_matrix env source_tensors offset pair = (case pair of (weight, scale) \<Rightarrow> (case source_names weight of
     [source_name] \<Rightarrow>
       (case map_option (\<lambda>source. (source, td_dtype source = ''BF16'', td_shape source)) (dict_get source_tensors source_name) of
          Some (source, True, [rows, columns]) \<Rightarrow>
            fail_if (physical_shape weight \<noteq> td_shape source \<or> physical_shape scale \<noteq> [rows, 1])
              (DataError ''M05 source/output shape mismatch'') (
            case env_resolve env (td_path source) of
              None \<Rightarrow> Inl (OSError ''resolve'')
            | Some resolved_source \<Rightarrow>
                rbind (is_file env resolved_source) (\<lambda>regular.
                fail_if (\<not> regular \<or> env_symlink env resolved_source)
                  (SourceVerificationError ''M05 source shard is not a regular file'') (
                fail_if (td_absolute_offset source < 0 \<or> td_byte_length source < 0)
                  (DataError ''invalid M05 source range'') (
                rbind (output_bytes weight) (\<lambda>weight_bytes.
                rbind (output_bytes scale) (\<lambda>scale_bytes.
                Inr \<lparr>jm_source_name = source_name, jm_source_path = resolved_source,
                  jm_source_offset = td_absolute_offset source, jm_source_bytes = td_byte_length source,
                  jm_rows = rows, jm_columns = columns,
                  jm_weight_output_name = output_name weight, jm_weight_offset = offset,
                  jm_weight_bytes = weight_bytes,
                  jm_scale_output_name = output_name scale, jm_scale_offset = offset + weight_bytes,
                  jm_scale_bytes = scale_bytes, jm_source_sha256 = []\<rparr>))))))
        | _ \<Rightarrow> Inl (DataError ''invalid M05 source tensor''))
   | _ \<Rightarrow> Inl (DataError ''M05 pair must have one source'')))"

definition job_step :: "environment \<Rightarrow> sources \<Rightarrow> job_matrix list \<times> int \<Rightarrow> plan_pair \<Rightarrow> (job_matrix list \<times> int) res" where
  "job_step env source_tensors acc pair = (case acc of (matrices, offset) \<Rightarrow>
     rbind (make_matrix env source_tensors offset pair) (\<lambda>m.
     Inr (matrices @ [m], offset + (jm_weight_bytes m + jm_scale_bytes m))))"

definition make_job :: "environment \<Rightarrow> quantization_plan \<Rightarrow> sources \<Rightarrow> int \<Rightarrow> int \<Rightarrow> (native_job \<times> plan_pair list) res" where
  "make_job env plan source_tensors payload_bytes threads =
     rbind (pair_plans plan) (\<lambda>pairs.
     rbind (rfold (job_step env source_tensors) ([], 0) pairs) (\<lambda>(matrices, offset).
     fail_if (offset \<noteq> payload_bytes) (DataError ''native M05 payload size mismatch'')
       (Inr (\<lparr>job_threads = threads, job_payload_bytes = payload_bytes, job_matrices = matrices\<rparr>, pairs))))"

text \<open>The document written for the child, once the digests are filled in.\<close>

definition matrix_document :: "job_matrix \<Rightarrow> pyval" where
  "matrix_document m = PDict [(''source_name'', PStr (jm_source_name m)), (''source_path'', PStr (jm_source_path m)),
     (''source_offset'', PInt (jm_source_offset m)), (''source_bytes'', PInt (jm_source_bytes m)),
     (''rows'', PInt (jm_rows m)), (''columns'', PInt (jm_columns m)),
     (''weight_output_name'', PStr (jm_weight_output_name m)), (''weight_offset'', PInt (jm_weight_offset m)),
     (''weight_bytes'', PInt (jm_weight_bytes m)), (''scale_output_name'', PStr (jm_scale_output_name m)),
     (''scale_offset'', PInt (jm_scale_offset m)), (''scale_bytes'', PInt (jm_scale_bytes m)),
     (''source_sha256'', PStr (jm_source_sha256 m))]"

definition job_document :: "native_job \<Rightarrow> pyval" where
  "job_document job = PDict [(''schema_version'', PInt 1), (''contract_id'', PStr CONTRACT_ID),
     (''contract_version'', PInt CONTRACT_VERSION), (''threads'', PInt (job_threads job)),
     (''payload_bytes'', PInt (job_payload_bytes job)),
     (''matrices'', PList (map matrix_document (job_matrices job)))]"

section \<open>The telemetry\<close>

text \<open>Comparisons of numbers of mixed types, exact as Python's, and \<open>float(value)\<close>.\<close>

definition num_lt :: "pyval \<Rightarrow> pyval \<Rightarrow> bool" where
  "num_lt x y = (case (num_view x, num_view y) of (Some a, Some b) \<Rightarrow> float_lt a b | _ \<Rightarrow> False)"

definition py_float :: "pyval \<Rightarrow> pyfloat res" where
  "py_float v = (case v of
     PFloat f \<Rightarrow> Inr f
   | PInt i \<Rightarrow> float_of_int i
   | PBool b \<Rightarrow> Inr (Fin False (if b then 1 else 0))
   | _ \<Rightarrow> Inl (TypeError ''float() argument''))"

definition TELEMETRY_KEYS :: "string list" where
  "TELEMETRY_KEYS = [''schema_version'', ''contract_id'', ''contract_version'', ''payload_bytes'', ''threads'',
     ''maximum_source_row_bytes'', ''native_build'', ''matrices'']"

definition MATRIX_KEYS :: "string list" where
  "MATRIX_KEYS = [''source_name'', ''weight_output_name'', ''scale_output_name'', ''rows'', ''columns'', ''elements'',
     ''source_sha256'', ''weight_sha256'', ''scale_sha256'', ''source_min'', ''source_max'',
     ''source_sum_squares'', ''reconstruction_sum_squares'', ''source_reconstruction_dot'',
     ''error_sum_squares'', ''max_absolute_error'', ''scale_min'', ''scale_max'', ''saturation_count'',
     ''zero_rows'', ''underflow_clamped_rows'', ''histogram'']"

definition INTEGER_FIELDS :: "string list" where
  "INTEGER_FIELDS = [''rows'', ''columns'', ''elements'', ''saturation_count'', ''zero_rows'', ''underflow_clamped_rows'']"

definition FLOAT_FIELDS :: "string list" where
  "FLOAT_FIELDS = [''source_min'', ''source_max'', ''source_sum_squares'', ''reconstruction_sum_squares'',
     ''source_reconstruction_dot'', ''error_sum_squares'', ''max_absolute_error'', ''scale_min'', ''scale_max'']"

definition HASH_FIELDS :: "string list" where
  "HASH_FIELDS = [''source_sha256'', ''weight_sha256'', ''scale_sha256'']"

definition check_natural :: "pyval dict \<Rightarrow> string \<Rightarrow> unit res" where
  "check_natural item key = (case plain_int (obj_get item key) of
     None \<Rightarrow> Inl (DataError ''native M05 telemetry integer is invalid'')
   | Some i \<Rightarrow> fail_if (i < 0) (DataError ''native M05 telemetry integer is invalid'') (Inr ()))"

definition check_scalar :: "pyval dict \<Rightarrow> string \<Rightarrow> unit res" where
  "check_scalar item key = (case obj_get item key of
     PInt i \<Rightarrow> rbind (float_of_int i) (\<lambda>x. Inr ())
   | PFloat x \<Rightarrow> fail_if (\<not> is_finite x) (DataError ''native M05 telemetry scalar is invalid'') (Inr ())
   | _ \<Rightarrow> Inl (DataError ''native M05 telemetry scalar is invalid''))"

definition check_digest :: "pyval dict \<Rightarrow> string \<Rightarrow> unit res" where
  "check_digest item key = (case obj_get item key of
     PStr text \<Rightarrow> fail_if (length text \<noteq> 64 \<or> \<not> list_all lower_hex text)
       (DataError ''native M05 telemetry hash is invalid'') (Inr ())
   | _ \<Rightarrow> Inl (DataError ''native M05 telemetry hash is invalid''))"

definition check_counts :: "pyval dict \<Rightarrow> job_matrix \<Rightarrow> unit res" where
  "check_counts item expected =
    (let elements = jm_rows expected * jm_columns expected in
     fail_if (\<not> py_eq (obj_get item ''elements'') (PInt elements)
       \<or> num_lt (PInt elements) (obj_get item ''saturation_count'')
       \<or> num_lt (PInt (jm_rows expected)) (obj_get item ''zero_rows'')
       \<or> num_lt (PInt (jm_rows expected)) (obj_get item ''underflow_clamped_rows''))
       (DataError ''native M05 telemetry counts are invalid'') (Inr ()))"

definition check_numbers :: "pyval dict \<Rightarrow> unit res" where
  "check_numbers item =
    (let zero = PFloat (Fin False 0) in
     fail_if (num_lt (obj_get item ''source_max'') (obj_get item ''source_min'')
       \<or> num_lt (obj_get item ''source_sum_squares'') zero
       \<or> num_lt (obj_get item ''reconstruction_sum_squares'') zero
       \<or> num_lt (obj_get item ''error_sum_squares'') zero
       \<or> num_lt (obj_get item ''max_absolute_error'') zero
       \<or> num_lt (obj_get item ''scale_min'') zero \<or> num_eq (obj_get item ''scale_min'') zero
       \<or> num_lt (obj_get item ''scale_max'') (obj_get item ''scale_min''))
       (DataError ''native M05 telemetry numeric invariants are invalid'') (Inr ()))"

definition check_histogram :: "pyval dict \<Rightarrow> int \<Rightarrow> unit res" where
  "check_histogram item elements = (case obj_get item ''histogram'' of
     PList entries \<Rightarrow>
       (case those (map plain_int entries) of
          None \<Rightarrow> Inl (DataError ''native M05 histogram is invalid'')
        | Some counts \<Rightarrow> fail_if (length entries \<noteq> 256 \<or> list_ex (\<lambda>n. n < 0) counts \<or> sum_list counts \<noteq> elements)
            (DataError ''native M05 histogram is invalid'') (Inr ()))
   | _ \<Rightarrow> Inl (DataError ''native M05 histogram is invalid''))"

definition check_matrix :: "pyval \<Rightarrow> job_matrix \<Rightarrow> pyval dict res" where
  "check_matrix value expected = (case value of
     PDict item \<Rightarrow>
       fail_if (dict_keys item \<noteq> set MATRIX_KEYS) (DataError ''native M05 telemetry matrix schema mismatch'') (
       fail_if (obj_get item ''source_name'' \<noteq> PStr (jm_source_name expected))
         (DataError ''native M05 telemetry matrix order/name mismatch'') (
       fail_if (obj_get item ''weight_output_name'' \<noteq> PStr (jm_weight_output_name expected)
         \<or> obj_get item ''scale_output_name'' \<noteq> PStr (jm_scale_output_name expected)
         \<or> \<not> py_eq (obj_get item ''rows'') (PInt (jm_rows expected))
         \<or> \<not> py_eq (obj_get item ''columns'') (PInt (jm_columns expected)))
         (DataError ''native M05 telemetry matrix identity mismatch'') (
       rbind (riter (check_natural item) INTEGER_FIELDS) (\<lambda>_.
       rbind (riter (check_scalar item) FLOAT_FIELDS) (\<lambda>_.
       rbind (check_counts item expected) (\<lambda>_.
       rbind (check_numbers item) (\<lambda>_.
       rbind (riter (check_digest item) HASH_FIELDS) (\<lambda>_.
       fail_if (obj_get item ''source_sha256'' \<noteq> PStr (jm_source_sha256 expected))
         (SourceVerificationError ''native M05 source hash mismatch'') (
       rbind (check_histogram item (jm_rows expected * jm_columns expected)) (\<lambda>_. Inr item))))))))))
   | _ \<Rightarrow> Inl (DataError ''native M05 telemetry matrix schema mismatch''))"

definition telemetry_step :: "pyval dict dict \<Rightarrow> pyval \<times> job_matrix \<Rightarrow> pyval dict dict res" where
  "telemetry_step acc pair = (case pair of (value, expected) \<Rightarrow>
     rbind (check_matrix value expected) (\<lambda>item. Inr (dict_set (jm_source_name expected) item acc)))"

text \<open>The checks of the document's root.\<close>

definition check_root_integer :: "pyval dict \<Rightarrow> string \<Rightarrow> unit res" where
  "check_root_integer d key = fail_if (plain_int (obj_get d key) = None)
     (DataError ''native M05 telemetry root field is not an integer'') (Inr ())"

definition check_root :: "pyval dict \<Rightarrow> native_job \<Rightarrow> string dict res" where
  "check_root d expected =
     fail_if (dict_keys d \<noteq> set TELEMETRY_KEYS) (DataError ''native M05 telemetry root schema mismatch'') (
     fail_if (\<not> py_eq (obj_get d ''schema_version'') (PInt 1) \<or> obj_get d ''contract_id'' \<noteq> PStr CONTRACT_ID
       \<or> \<not> py_eq (obj_get d ''contract_version'') (PInt CONTRACT_VERSION))
       (DataError ''native M05 telemetry contract mismatch'') (
     rbind (riter (check_root_integer d)
       [''schema_version'', ''contract_version'', ''payload_bytes'', ''threads'', ''maximum_source_row_bytes'']) (\<lambda>_.
     fail_if (num_lt (obj_get d ''payload_bytes'') (PInt 0) \<or> num_lt (obj_get d ''threads'') (PInt 1)
       \<or> num_lt (PInt 64) (obj_get d ''threads'') \<or> num_lt (obj_get d ''maximum_source_row_bytes'') (PInt 0))
       (DataError ''native M05 telemetry root bounds are invalid'') (
     fail_if (\<not> py_eq (obj_get d ''payload_bytes'') (PInt (job_payload_bytes expected))
       \<or> \<not> py_eq (obj_get d ''threads'') (PInt (job_threads expected)))
       (DataError ''native M05 telemetry job mismatch'') (
     rbind (native_build (obj_get d ''native_build'')) (\<lambda>build.
     let expected_max_row = (case map (\<lambda>m. jm_columns m * 2) (job_matrices expected) of
         [] \<Rightarrow> 0 | widest # others \<Rightarrow> foldl max widest others) in
     fail_if (\<not> py_eq (obj_get d ''maximum_source_row_bytes'') (PInt expected_max_row))
       (DataError ''native M05 telemetry maximum source row mismatch'') (Inr build)))))))"

definition read_telemetry :: "environment \<Rightarrow> bytes option \<Rightarrow> native_job \<Rightarrow> (pyval dict dict \<times> int \<times> string dict) res" where
  "read_telemetry env file expected = (case file of
     None \<Rightarrow> Inl (DataError ''cannot read native M05 telemetry'')
   | Some raw \<Rightarrow>
       fail_if (64 * 1024 * 1024 < int (length raw)) (DataError ''native M05 telemetry exceeds safety limit'') (
       case env_parse env raw of
         None \<Rightarrow> Inl (DataError ''native M05 telemetry is invalid JSON'')
       | Some t \<Rightarrow> rbind (json_value t) (\<lambda>document.
           case document of
             PDict d \<Rightarrow>
               rbind (check_root d expected) (\<lambda>build.
               case obj_get d ''matrices'' of
                 PList matrices \<Rightarrow>
                   fail_if (length matrices \<noteq> length (job_matrices expected))
                     (DataError ''native M05 telemetry matrix count mismatch'') (
                   rbind (rfold telemetry_step [] (zip matrices (job_matrices expected))) (\<lambda>result.
                   rbind (py_int (obj_get d ''maximum_source_row_bytes'')) (\<lambda>max_row.
                   Inr (result, max_row, build))))
               | _ \<Rightarrow> Inl (DataError ''native M05 telemetry matrix count mismatch''))
           | _ \<Rightarrow> Inl (DataError ''native M05 telemetry root must be an object''))))"

section \<open>Preparing a bundle\<close>

text \<open>
  What the supervising loop saw of the child: the reasons it was stopped for, the processes its
  group left behind, its exit status, and the errors of the calls that start and watch it.
\<close>

record child_outcome =
  ch_start_error :: "error option"
  ch_timed_out :: bool
  ch_memory_exceeded :: bool
  ch_overflow :: bool
  ch_remaining :: "nat list"
  ch_returncode :: int
  ch_stdout :: bytes
  ch_peak_rss :: int

definition child_failure :: "int \<Rightarrow> error" where
  "child_failure code =
    (if code = 2 then InvalidPlanError ''native M05 encoder failed''
     else if code = 3 then SourceVerificationError ''native M05 encoder failed''
     else if code = 4 then DataError ''native M05 encoder failed''
     else OutputError ''native M05 encoder failed'')"

definition judge_child :: "child_outcome \<Rightarrow> unit res" where
  "judge_child ch =
     fail_if (\<not> ch_timed_out ch \<and> \<not> ch_memory_exceeded ch \<and> \<not> ch_overflow ch \<and> ch_remaining ch \<noteq> [])
       (OutputError ''native M05 encoder left process-group descendants'') (
     fail_if (ch_timed_out ch) (OutputError ''native M05 encoder timed out'') (
     fail_if (ch_memory_exceeded ch) (DataError ''native M05 encoder exceeded combined host-memory cap'') (
     fail_if (ch_overflow ch) (OutputError ''native M05 encoder diagnostics exceed safety limit'') (
     fail_if (ch_returncode ch \<noteq> 0) (child_failure (ch_returncode ch)) (
     fail_if (ch_stdout ch \<noteq> []) (DataError ''native M05 encoder wrote unexpected stdout'') (Inr ()))))))"

text \<open>
  The digests of the sources, each hashed once. The code walks the pairs, whose first source names
  are those of the job's entries in the same order.
\<close>

definition hash_source :: "environment \<Rightarrow> sources \<Rightarrow> string dict \<Rightarrow> job_matrix \<Rightarrow> (workspace, string dict) run" where
  "hash_source env source_tensors hashes m ws = (case dict_get hashes (jm_source_name m) of
     Some (_ # _) \<Rightarrow> Some (Inr hashes, ws)
   | _ \<Rightarrow>
     run_bind (run_only (dict_index source_tensors (jm_source_name m)) ws) (\<lambda>source ws1.
     case env_resolve env (td_path source) of
       None \<Rightarrow> Some (Inl (OSError ''resolve''), ws1)
     | Some resolved \<Rightarrow>
         run_bind (hash_tensor_range (env_sha env) (env_granularity env) (env_rss env) (env_files env resolved)
            (td_absolute_offset source) (td_byte_length source) ws1) (\<lambda>digest.
         run_only (Inr (dict_set (jm_source_name m) digest hashes)))))"

definition fill_hashes :: "string dict \<Rightarrow> native_job \<Rightarrow> native_job res" where
  "fill_hashes hashes job = rbind (rmap (\<lambda>m. rbind (dict_index hashes (jm_source_name m)) (\<lambda>digest.
      Inr (m\<lparr>jm_source_sha256 := digest\<rparr>))) (job_matrices job)) (\<lambda>matrices.
     Inr (job\<lparr>job_matrices := matrices\<rparr>))"

definition native_entry :: "pyval dict \<Rightarrow> job_matrix \<Rightarrow> native_matrix" where
  "native_entry item m = \<lparr>nm_source_name = jm_source_name m, nm_weight_name = jm_weight_output_name m,
     nm_scale_name = jm_scale_output_name m, nm_weight_offset = jm_weight_offset m,
     nm_weight_bytes = jm_weight_bytes m, nm_scale_offset = jm_scale_offset m,
     nm_scale_bytes = jm_scale_bytes m, nm_rows = jm_rows m, nm_columns = jm_columns m,
     nm_source_sha256 = jm_source_sha256 m, nm_telemetry = item\<rparr>"

definition bundle_step :: "pyval dict dict \<Rightarrow> native_matrix dict \<Rightarrow> job_matrix \<Rightarrow> native_matrix dict res" where
  "bundle_step items acc m = rbind (dict_index items (jm_source_name m)) (\<lambda>item.
     let entry = native_entry item m in
     Inr (dict_set (jm_scale_output_name m) entry (dict_set (jm_weight_output_name m) entry acc)))"

definition job_path :: "string \<Rightarrow> string" where "job_path staging = path_join staging ''.m05_fp8_job.json''"
definition payload_path :: "string \<Rightarrow> string" where "payload_path staging = path_join staging ''.m05_fp8_payload.bin''"
definition telemetry_path :: "string \<Rightarrow> string" where
  "telemetry_path staging = path_join staging ''.m05_fp8_telemetry.json''"

text \<open>After the child: its verdict, its two files, the telemetry and the bundle.\<close>

definition collect_bundle :: "environment \<Rightarrow> native_request \<Rightarrow> native_job \<Rightarrow> string \<Rightarrow> string \<Rightarrow> int \<Rightarrow> child_outcome \<Rightarrow>
    files \<Rightarrow> (workspace, native_bundle) prog" where
  "collect_bundle env request job staging binary_hash expected_bytes ch fs ws =
     then_do (rbind (case ch_start_error ch of Some e \<Rightarrow> Inl e | None \<Rightarrow> Inr ()) (\<lambda>_.
       rbind (judge_child ch) (\<lambda>_.
       case (fs (payload_path staging), fs (telemetry_path staging)) of
         (Some payload, Some observed) \<Rightarrow>
           fail_if (env_symlink env (payload_path staging) \<or> env_symlink env (telemetry_path staging))
             (DataError ''native M05 encoder did not publish payload and telemetry'') (
           fail_if (int (length payload) \<noteq> expected_bytes) (DataError ''native M05 payload has unexpected size'') (
           rbind (read_telemetry env (Some observed) job) (\<lambda>(items, max_row, build).
           rbind (rfold (bundle_step items) [] (job_matrices job)) (\<lambda>matrices.
           Inr (max_row, build, matrices)))))
       | _ \<Rightarrow> Inl (DataError ''native M05 encoder did not publish payload and telemetry''))), ws)
     (\<lambda>(max_row, build, matrices) ws1.
     then_do (record_transform_row (env_rss env) max_row ws1) (\<lambda>_ ws2.
     (Inr \<lparr>nb_payload = payload_path staging, nb_telemetry_path = telemetry_path staging, nb_matrices = matrices,
        nb_binary_sha256 = binary_hash, nb_threads = nr_threads request, nb_maximum_source_row_bytes = max_row,
        nb_child_peak_rss_bytes = ch_peak_rss ch, nb_native_build = build\<rparr>, ws2)))"

text \<open>\<open>path.exists() or path.is_symlink()\<close> for the three temporary files.\<close>

definition check_absent :: "environment \<Rightarrow> files \<Rightarrow> string \<Rightarrow> unit res" where
  "check_absent env fs path =
     fail_if (env_entry env path = Denied) (OSError ''stat'') (
     fail_if (fs path \<noteq> None \<or> env_entry env path \<noteq> Missing \<or> env_symlink env path)
       (OutputError ''native M05 temporary output already exists'') (Inr ()))"

definition prepare_job :: "environment \<Rightarrow> native_request \<Rightarrow> quantization_plan \<Rightarrow> sources \<Rightarrow> files \<Rightarrow> string \<Rightarrow>
    (workspace, native_job \<times> int) run" where
  "prepare_job env request plan source_tensors fs staging ws =
    (if nr_timeout_seconds request \<le> 0 \<or> nr_threads request < 1 \<or> 64 < nr_threads request
     then Some (Inl (DataError ''invalid native M05 timeout or thread count''), ws)
     else run_bind (run_only (rbind (output_tensor_bytes plan) (\<lambda>payload_bytes.
         rbind (make_job env plan source_tensors payload_bytes (nr_threads request)) (\<lambda>(job, _).
         Inr (job, payload_bytes)))) ws) (\<lambda>(job, payload_bytes) ws1.
       run_bind (run_fold (hash_source env source_tensors) [] (job_matrices job) ws1) (\<lambda>hashes.
       run_only (rbind (fill_hashes hashes job) (\<lambda>filled.
         rbind (riter (check_absent env fs) [job_path staging, payload_path staging, telemetry_path staging]) (\<lambda>_.
         Inr (filled, payload_bytes)))))))"

text \<open>\<open>unlink(missing_ok=True)\<close> under a handler that ignores \<open>OSError\<close>; \<open>stuck\<close> paths stay.\<close>

definition remove_files :: "(string \<Rightarrow> bool) \<Rightarrow> string list \<Rightarrow> files \<Rightarrow> files" where
  "remove_files stuck paths fs = (\<lambda>p. if p \<in> set paths \<and> \<not> stuck p then None else fs p)"

definition staged_path :: "string \<Rightarrow> string" where "staged_path staging = path_join staging ''.m05_fp8_encoder''"

text \<open>
  The guarded part: \<open>child\<close> is what running the executable does to the files. A failed run loses
  its three files; the staged executable and the job are removed in any case.
\<close>

definition run_native :: "environment \<Rightarrow> (string \<Rightarrow> bool) \<Rightarrow> (files \<Rightarrow> child_outcome \<times> files) \<Rightarrow> native_request \<Rightarrow>
    native_job \<Rightarrow> int \<Rightarrow> string \<Rightarrow> string \<Rightarrow> (workspace \<times> files, native_bundle) prog" where
  "run_native env stuck child request job payload_bytes staging binary_hash st = (case st of (ws, fs) \<Rightarrow>
     let (outcome, fs1) = child fs in
     case collect_bundle env request job staging binary_hash payload_bytes outcome fs1 ws of
       (Inl e, ws1) \<Rightarrow> (Inl (if is_os_error e then OutputError ''native M05 encoder process failed'' else e),
          (ws1, remove_files stuck [staged_path staging, job_path staging] (remove_files stuck
             [payload_path staging, telemetry_path staging, job_path staging] fs1)))
     | (Inr bundle, ws1) \<Rightarrow>
          (Inr bundle, (ws1, remove_files stuck [staged_path staging, job_path staging] fs1)))"

text \<open>\<open>stage\<close> copies the executable into the staging directory and returns its digest.\<close>

definition prepare_native_bundle :: "environment \<Rightarrow> file_system \<Rightarrow> (string \<Rightarrow> bool) \<Rightarrow> (workspace \<times> files, string) prog \<Rightarrow>
    (files \<Rightarrow> child_outcome \<times> files) \<Rightarrow> native_request \<Rightarrow> quantization_plan \<Rightarrow> sources \<Rightarrow> string \<Rightarrow>
    (workspace \<times> files, native_bundle) run" where
  "prepare_native_bundle env fsys stuck stage child request plan source_tensors staging st = (case st of (ws, fs) \<Rightarrow>
     case prepare_job env request plan source_tensors fs staging ws of
       None \<Rightarrow> None
     | Some (Inl e, ws1) \<Rightarrow> Some (Inl e, (ws1, fs))
     | Some (Inr (job, payload_bytes), ws1) \<Rightarrow> Some (
         then_do (stage (ws1, fs)) (\<lambda>binary_hash (ws2, fs2).
         case write_file_atomic fsys (job_path staging) (env_canonical env (job_document job)) fs2 of
           (Inl e, fs3) \<Rightarrow> (Inl e, (ws2, fs3))
         | (Inr _, fs3) \<Rightarrow> run_native env stuck child request job payload_bytes staging binary_hash (ws2, fs3))))"

section \<open>The encoders over a bundle\<close>

definition finite_statistics :: "pyval dict \<Rightarrow> pyval dict res" where
  "finite_statistics entries = fail_if (list_ex (\<lambda>(key, v). case v of PFloat x \<Rightarrow> \<not> is_finite x | _ \<Rightarrow> False) entries)
     (DataError ''native M05 derived statistic is non-finite'') (Inr entries)"

definition item_float :: "pyval dict \<Rightarrow> string \<Rightarrow> pyfloat res" where
  "item_float item key = rbind (dict_index item key) py_float"

abbreviation is_zero :: "pyfloat \<Rightarrow> bool" where
  "is_zero x \<equiv> float_eq x (Fin False 0)"

definition native_cosine :: "environment \<Rightarrow> pyfloat \<Rightarrow> pyfloat \<Rightarrow> pyfloat \<Rightarrow> pyfloat res" where
  "native_cosine env dot source_energy reconstruction_energy =
     rbind (env_sqrt env source_energy) (\<lambda>source_norm.
     rbind (env_sqrt env reconstruction_energy) (\<lambda>reconstruction_norm.
     rbind (if nonzero source_norm \<and> nonzero reconstruction_norm
            then float_div dot (float_mul source_norm reconstruction_norm)
            else Inr (if float_eq source_energy reconstruction_energy \<and> is_zero reconstruction_energy
                      then Fin False 1 else Fin False 0)) (\<lambda>cosine.
     Inr (py_max (Fin True 1) (py_min (Fin False 1) cosine)))))"

definition native_weight_statistics :: "environment \<Rightarrow> pyval dict \<Rightarrow> pyval dict res" where
  "native_weight_statistics env item =
     rbind (rbind (dict_index item ''elements'') py_int) (\<lambda>elements.
     rbind (item_float item ''source_sum_squares'') (\<lambda>source_energy.
     rbind (item_float item ''error_sum_squares'') (\<lambda>error_energy.
     rbind (item_float item ''reconstruction_sum_squares'') (\<lambda>reconstruction_energy.
     rbind (item_float item ''source_reconstruction_dot'') (\<lambda>dot.
     rbind (native_cosine env dot source_energy reconstruction_energy) (\<lambda>cosine.
     rbind (float_of_int elements) (\<lambda>count.
     rbind (rbind (float_div source_energy count) (env_sqrt env)) (\<lambda>source_rms.
     rbind (if nonzero source_energy then rbind (float_div error_energy source_energy) (env_sqrt env)
            else Inr (Fin False 0)) (\<lambda>relative_l2.
     rbind (if is_zero error_energy \<or> is_zero source_energy then Inr PNone
            else rbind (rbind (float_div source_energy error_energy) (env_log10 env)) (\<lambda>l.
                 Inr (PFloat (float_mul (Fin False 10) l)))) (\<lambda>sqnr.
     rbind (rbind (dict_index item ''saturation_count'') py_int) (\<lambda>saturation_count.
     rbind (int_true_div saturation_count elements) (\<lambda>saturation_rate.
     finite_statistics [(''contract_id'', PStr CONTRACT_ID), (''contract_version'', PInt CONTRACT_VERSION),
       (''component'', PStr ''weight''), (''rows'', obj_get item ''rows''), (''columns'', obj_get item ''columns''),
       (''elements'', PInt elements), (''source_min'', obj_get item ''source_min''),
       (''source_max'', obj_get item ''source_max''), (''source_rms'', PFloat source_rms),
       (''scale_min'', obj_get item ''scale_min''), (''scale_max'', obj_get item ''scale_max''),
       (''relative_l2_error'', PFloat relative_l2), (''cosine_similarity'', PFloat cosine),
       (''max_absolute_error'', obj_get item ''max_absolute_error''), (''sqnr_db'', sqnr),
       (''perfect_reconstruction'', PBool (is_zero error_energy)),
       (''saturation_count'', obj_get item ''saturation_count''), (''saturation_rate'', PFloat saturation_rate),
       (''zero_rows'', obj_get item ''zero_rows''),
       (''underflow_clamped_rows'', obj_get item ''underflow_clamped_rows''),
       (''histogram'', obj_get item ''histogram'')]))))))))))))"

definition native_scale_statistics :: "pyval dict \<Rightarrow> pyval dict" where
  "native_scale_statistics item = [(''contract_id'', PStr CONTRACT_ID), (''contract_version'', PInt CONTRACT_VERSION),
     (''component'', PStr ''scale''), (''rows'', obj_get item ''rows''), (''columns'', PInt 1),
     (''scale_min'', obj_get item ''scale_min''), (''scale_max'', obj_get item ''scale_max''),
     (''zero_rows'', obj_get item ''zero_rows''),
     (''underflow_clamped_rows'', obj_get item ''underflow_clamped_rows'')]"

text \<open>\<open>NativeBundleEncoder.compile_tensor\<close>; the component is the weight or the scale.\<close>

definition bundle_result :: "environment \<Rightarrow> bool \<Rightarrow> native_matrix \<Rightarrow> int \<Rightarrow> string \<Rightarrow> encoder_result res" where
  "bundle_result env weight entry len output_hash =
    (let item = nm_telemetry entry in
     rbind (dict_index item (if weight then ''weight_sha256'' else ''scale_sha256'')) (\<lambda>expected_hash.
     fail_if (PStr output_hash \<noteq> expected_hash) (DataError ''native M05 output hash mismatch'') (
     rbind (if weight then native_weight_statistics env item else Inr (native_scale_statistics item)) (\<lambda>statistics.
     Inr \<lparr>er_source_sha256 = [nm_source_sha256 entry], er_output_sha256 = output_hash, er_output_bytes = len,
       er_statistics = Some statistics\<rparr>))))"

definition native_bundle_encoder :: "native_bundle \<Rightarrow> bool \<Rightarrow> 'o encoder" where
  "native_bundle_encoder bundle weight env put plan sources ws out =
    (case (sources, dict_get (nb_matrices bundle) (output_name plan)) of
       ([source], Some entry) \<Rightarrow>
         if nm_source_name entry \<noteq> td_name source
         then Some (Inl (DataError ''native M05 bundle source mismatch''), ws, out)
         else let (offset, len) = (if weight then (nm_weight_offset entry, nm_weight_bytes entry)
                                   else (nm_scale_offset entry, nm_scale_bytes entry)) in
           map_option (\<lambda>(r, st). (rbind r (\<lambda>(_, output_hash). bundle_result env weight entry len output_hash), st))
             (copy_range (env_sha env) (env_granularity env) (env_rss env) put False
               (env_files env (nb_payload bundle)) offset len ws out)
     | _ \<Rightarrow> Some (Inl (DataError ''native M05 bundle lacks output''), ws, out))"

end
