(* ===== verification/FP8_Facts.thy ===== *)
theory FP8_Facts
  imports FP8
begin

text \<open>
  The E4M3FN encoder returns a nearest code and inverts the decoder, BF16 rounding returns a
  nearest BF16 value, and the row quantizer converts every element on its own.
\<close>

section \<open>The E4M3FN magnitudes\<close>

definition e4m3_value :: "nat \<Rightarrow> rat" where
  "e4m3_value c = (if c < 8 then of_nat c * two_pow (-9) else of_nat (8 + c mod 8) * two_pow (int (c div 8) - 10))"

lemma decode_e4m3fn_value:
  assumes "c < 256" "c mod 128 \<noteq> 127"
  shows "decode_e4m3fn (PInt (int c)) = Inr (Fin (128 \<le> c) (e4m3_value (c mod 128)))"
proof -
  have "two_pow (k - 7) = 8 * two_pow (k - 10)" for k
    using two_pow_add [of 3 "k - 10"] by (simp add: two_pow_def [of 3])
  then have "(1 + of_nat m / 8) * two_pow (k - 7) = (8 + of_nat m) * two_pow (k - 10)" for m k
    by (simp add: field_simps)
  with assms show ?thesis
    by (auto simp: decode_e4m3fn_def e4m3_value_def E4M3FN_NAN_CODE_def Let_def div_eq_0_iff)
qed

lemma decode_e4m3fn_Inr:
  "decode_e4m3fn v = Inr d \<longleftrightarrow> (\<exists>c. v = PInt (int c) \<and> c < 256 \<and> c mod 128 \<noteq> 127
     \<and> d = Fin (128 \<le> c) (e4m3_value (c mod 128)))" (is "?l \<longleftrightarrow> ?r")
proof
  assume ?l
  then obtain i where i: "v = PInt i" "0 \<le> i" "i \<le> 255" "nat i mod 128 \<noteq> 127"
    by (auto simp: decode_e4m3fn_def E4M3FN_NAN_CODE_def Let_def split: option.splits if_splits)
  then have "v = PInt (int (nat i))" "nat i < 256" by simp_all
  with decode_e4m3fn_value [OF this(2) i(4)] \<open>?l\<close> i(4) show ?r by (intro exI [of _ "nat i"]) simp
qed (auto simp: decode_e4m3fn_value)

lemma e4m3_value_step: "e4m3_value c < e4m3_value (Suc c)"
proof -
  consider "c < 7" | "c = 7" | "8 \<le> c" "Suc (c mod 8) < 8" | "8 \<le> c" "c mod 8 = 7" by fastforce
  then show ?thesis
  proof cases
    case 3
    then have "Suc c mod 8 = Suc (c mod 8)" by (simp add: mod_Suc)
    moreover from this have "Suc c div 8 = c div 8" by (simp add: div_Suc)
    ultimately show ?thesis using 3(1) by (simp add: e4m3_value_def)
  next
    case 4
    then have "Suc c mod 8 = 0" by (simp add: mod_Suc)
    moreover from this have "Suc c div 8 = Suc (c div 8)" by (simp add: div_Suc)
    moreover have "two_pow (1 + int (c div 8) - 10) = 2 * two_pow (int (c div 8) - 10)"
      using two_pow_Suc [of "int (c div 8) - 10"] by (simp add: algebra_simps)
    ultimately show ?thesis using 4 by (simp add: e4m3_value_def)
  qed (simp_all add: e4m3_value_def two_pow_def)
qed

lemma e4m3_value_less: "a < b \<Longrightarrow> e4m3_value a < e4m3_value b"
  using lift_Suc_mono_less [of e4m3_value] e4m3_value_step by blast

lemma e4m3_value_mono: "a \<le> b \<Longrightarrow> e4m3_value a \<le> e4m3_value b"
  using e4m3_value_less [of a b] by (cases "a = b") auto

lemma e4m3_value_inject: "e4m3_value a = e4m3_value b \<longleftrightarrow> a = b"
  using e4m3_value_less [of a b] e4m3_value_less [of b a] by (cases a b rule: linorder_cases) auto

lemma e4m3_value_0 [simp]: "e4m3_value 0 = 0"
  by (simp add: e4m3_value_def)

lemma e4m3_value_126 [simp]: "e4m3_value 126 = 448"
  by (simp add: e4m3_value_def two_pow_def)

lemma e4m3_value_nonneg [simp]: "0 \<le> e4m3_value c"
  using e4m3_value_mono [of 0 c] by simp

section \<open>The nearest code\<close>

lemma positive_values: "i < 127 \<Longrightarrow> E4M3_POSITIVE_VALUES ! i = e4m3_value i"
  by (simp add: E4M3_POSITIVE_VALUES_def e4m3_magnitude_def decode_e4m3fn_value)

definition e4m3_midpoint :: "nat \<Rightarrow> rat" where
  "e4m3_midpoint i = (e4m3_value i + e4m3_value (i + 1)) / 2"

lemma positive_midpoints:
  "length E4M3_POSITIVE_MIDPOINTS = 126" "i < 126 \<Longrightarrow> E4M3_POSITIVE_MIDPOINTS ! i = e4m3_midpoint i"
  by (simp_all add: E4M3_POSITIVE_MIDPOINTS_def e4m3_midpoint_def positive_values)

lemma bisect_left_bounds:
  "bisect_left xs x \<le> length xs"
  "j < bisect_left xs x \<Longrightarrow> xs ! j < x"
  "bisect_left xs x < length xs \<Longrightarrow> x \<le> xs ! bisect_left xs x"
proof -
  show "bisect_left xs x \<le> length xs" by (simp add: bisect_left_def length_takeWhile_le)
  show "xs ! j < x" if "j < bisect_left xs x"
  proof -
    have "takeWhile (\<lambda>y. y < x) xs ! j \<in> set (takeWhile (\<lambda>y. y < x) xs)"
      using that by (simp add: bisect_left_def)
    with that show ?thesis
      by (auto simp: bisect_left_def takeWhile_nth dest: set_takeWhileD)
  qed
  show "x \<le> xs ! bisect_left xs x" if "bisect_left xs x < length xs"
    using nth_length_takeWhile [of "\<lambda>y. y < x" xs] that by (simp add: bisect_left_def not_less)
qed

text \<open>
  Where a magnitude below the largest falls: between two midpoints, or on one.
\<close>

lemma e4m3_code_cases:
  assumes "x < 448"
  obtains (inside) i where "e4m3_code x = i" "i \<le> 126" "\<And>j. j < i \<Longrightarrow> e4m3_midpoint j < x"
      "\<And>j. i \<le> j \<Longrightarrow> j < 126 \<Longrightarrow> x < e4m3_midpoint j"
    | (tie) i where "i < 126" "x = e4m3_midpoint i" "e4m3_code x = (if even i then i else i + 1)"
proof -
  let ?i = "bisect_left E4M3_POSITIVE_MIDPOINTS x"
  note b = bisect_left_bounds [where xs = E4M3_POSITIVE_MIDPOINTS and x = x, unfolded positive_midpoints(1)]
  have mono: "e4m3_midpoint a \<le> e4m3_midpoint b" if "a \<le> b" for a b
    using e4m3_value_mono [OF that] e4m3_value_mono [of "a + 1" "b + 1"] that by (simp add: e4m3_midpoint_def)
  have below: "e4m3_midpoint j < x" if "j < ?i" for j
    using b(1) b(2) [OF that] positive_midpoints(2) [of j] that by simp
  show ?thesis
  proof (cases "?i < 126 \<and> x = e4m3_midpoint ?i")
    case True
    then show ?thesis
      using assms by (intro tie [of ?i]) (simp_all add: e4m3_code_def Let_def positive_midpoints)
  next
    case False
    have above: "x < e4m3_midpoint j" if "?i \<le> j" "j < 126" for j
    proof -
      have "x \<le> e4m3_midpoint ?i" using b(3) positive_midpoints(2) [of ?i] that by simp
      with False that have "x < e4m3_midpoint ?i" by simp
      with mono [OF that(1)] show ?thesis by simp
    qed
    have "e4m3_code x = ?i" using assms False by (auto simp: e4m3_code_def Let_def positive_midpoints)
    with b(1) below above show ?thesis by (intro inside [of ?i]) auto
  qed
qed

lemma nearest_index:
  assumes "\<And>j. j < i \<Longrightarrow> e4m3_midpoint j \<le> x" "\<And>j. i \<le> j \<Longrightarrow> j < 126 \<Longrightarrow> x \<le> e4m3_midpoint j"
    and "i \<le> 126" "k \<le> 126"
  shows "\<bar>e4m3_value i - x\<bar> \<le> \<bar>e4m3_value k - x\<bar>"
proof (cases i k rule: linorder_cases)
  case less
  then have "x \<le> e4m3_midpoint i" using assms(2,4) by simp
  moreover have "e4m3_value i \<le> e4m3_value (i + 1)" "e4m3_value (i + 1) \<le> e4m3_value k"
    using less by (simp_all add: e4m3_value_mono)
  ultimately show ?thesis by (simp add: e4m3_midpoint_def abs_if)
next
  case greater
  then obtain j where j: "i = j + 1" "k \<le> j" by (metis Suc_eq_plus1 less_Suc_eq_le less_imp_Suc_add add_Suc_right)
  then have "e4m3_midpoint j \<le> x" using assms(1) by simp
  moreover have "e4m3_value j \<le> e4m3_value i" "e4m3_value k \<le> e4m3_value j"
    using j by (simp_all add: e4m3_value_mono)
  ultimately show ?thesis by (auto simp: j(1) e4m3_midpoint_def abs_if)
qed simp

text \<open>The code is a nearest one, and an even one where two are equally near.\<close>

lemma e4m3_code_nearest:
  assumes "0 \<le> x"
  shows "e4m3_code x \<le> 126"
    and "k \<le> 126 \<Longrightarrow> \<bar>e4m3_value (e4m3_code x) - x\<bar> \<le> \<bar>e4m3_value k - x\<bar>"
    and "k \<le> 126 \<Longrightarrow> k \<noteq> e4m3_code x \<Longrightarrow> \<bar>e4m3_value (e4m3_code x) - x\<bar> = \<bar>e4m3_value k - x\<bar> \<Longrightarrow>
      even (e4m3_code x)"
proof -
  have "e4m3_code x \<le> 126 \<and> (\<forall>k\<le>126. \<bar>e4m3_value (e4m3_code x) - x\<bar> \<le> \<bar>e4m3_value k - x\<bar>
      \<and> (k \<noteq> e4m3_code x \<longrightarrow> \<bar>e4m3_value (e4m3_code x) - x\<bar> = \<bar>e4m3_value k - x\<bar> \<longrightarrow> even (e4m3_code x)))"
  proof (cases "448 \<le> x")
    case True
    then have "e4m3_code x = 126" by (simp add: e4m3_code_def)
    moreover have "e4m3_value k \<le> 448" if "k \<le> 126" for k using e4m3_value_mono [OF that] by simp
    moreover from this True have "e4m3_value k \<le> x" if "k \<le> 126" for k using that order_trans by blast
    ultimately show ?thesis using True by (simp add: abs_of_nonpos)
  next
    case False
    then have "x < 448" by simp
    then show ?thesis
    proof (cases rule: e4m3_code_cases)
      case (inside i)
      have strict: "\<bar>e4m3_value i - x\<bar> < \<bar>e4m3_value k - x\<bar>" if "k \<le> 126" "k \<noteq> i" for k
      proof (cases "k < i")
        case True
        then obtain j where j: "i = j + 1" "k \<le> j" by (metis Suc_eq_plus1 less_Suc_eq_le less_imp_Suc_add add_Suc_right)
        with inside(3) have "e4m3_midpoint j < x" by simp
        moreover have "e4m3_value j < e4m3_value i" "e4m3_value k \<le> e4m3_value j"
          using j by (simp_all add: e4m3_value_mono e4m3_value_less)
        ultimately show ?thesis by (auto simp: j(1) e4m3_midpoint_def abs_if)
      next
        case False
        with that have "i < k" by simp
        with inside(4) that have "x < e4m3_midpoint i" by simp
        moreover have "e4m3_value i < e4m3_value (i + 1)" "e4m3_value (i + 1) \<le> e4m3_value k"
          using \<open>i < k\<close> by (simp_all add: e4m3_value_mono e4m3_value_less)
        ultimately show ?thesis by (auto simp: e4m3_midpoint_def abs_if)
      qed
      then have "\<bar>e4m3_value i - x\<bar> \<le> \<bar>e4m3_value k - x\<bar>" if "k \<le> 126" for k
        using that by (cases "k = i") (auto intro: less_imp_le)
      with strict inside(1,2) show ?thesis by fastforce
    next
      case (tie i)
      have mono: "e4m3_midpoint a \<le> e4m3_midpoint b" if "a \<le> b" for a b
        using e4m3_value_mono [OF that] e4m3_value_mono [of "a + 1" "b + 1"] that by (simp add: e4m3_midpoint_def)
      have "\<bar>e4m3_value (e4m3_code x) - x\<bar> = \<bar>e4m3_value i - x\<bar>"
      proof -
        have half: "\<bar>e4m3_value j - x\<bar> = (e4m3_value (i + 1) - e4m3_value i) / 2" if "j \<in> {i, i + 1}" for j
          using that e4m3_value_mono [of i "i + 1"] unfolding tie(2) e4m3_midpoint_def
          by (auto simp: abs_if field_simps)
        have "e4m3_code x \<in> {i, i + 1}" by (simp add: tie(3))
        from half [OF this] half [of i] show ?thesis by simp
      qed
      moreover have "\<bar>e4m3_value i - x\<bar> \<le> \<bar>e4m3_value k - x\<bar>" if "k \<le> 126" for k
        by (rule nearest_index) (use tie(1,2) that mono in auto)
      ultimately show ?thesis using tie(1,3) by auto
    qed
  qed
  then show "e4m3_code x \<le> 126"
    and "k \<le> 126 \<Longrightarrow> \<bar>e4m3_value (e4m3_code x) - x\<bar> \<le> \<bar>e4m3_value k - x\<bar>"
    and "k \<le> 126 \<Longrightarrow> k \<noteq> e4m3_code x \<Longrightarrow> \<bar>e4m3_value (e4m3_code x) - x\<bar> = \<bar>e4m3_value k - x\<bar> \<Longrightarrow>
      even (e4m3_code x)" by blast+
qed

lemma e4m3_code_value: "c \<le> 126 \<Longrightarrow> e4m3_code (e4m3_value c) = c"
  using e4m3_code_nearest(2) [of "e4m3_value c" c] by (simp add: e4m3_value_inject)

section \<open>Binary32\<close>

text \<open>An integer multiple of a large enough power of two is a binary32 value.\<close>

lemma binary32_exact:
  assumes "x = of_int n * two_pow k" "0 \<le> x" "x < two_pow (k + 24)" "-149 \<le> k" "x < two_pow 128"
  shows "round_mag binary32 x = Some x"
proof (cases "x = 0")
  case False
  with assms(2) have pos: "0 < x" by simp
  have "two_pow (binade x) < two_pow (k + 24)" using binade_bounds(1) [OF pos] assms(3) by linarith
  then have "binade x - 23 \<le> k" by (simp add: two_pow_less_iff)
  define j where "j = max (binade x) (-126) - 23"
  have "j \<le> k" using \<open>binade x - 23 \<le> k\<close> assms(4) by (simp add: j_def)
  then have "two_pow k = of_int (2 ^ nat (k - j)) * two_pow j"
    using two_pow_add [of "k - j" j] by (simp add: two_pow_def [of "k - j"])
  then have "x = of_int (n * 2 ^ nat (k - j)) * ulp_at binary32 x"
    by (simp add: assms(1) ulp_at_def binary32_def j_def)
  then show ?thesis
    by (rule round_mag_exact) (use assms(5) in \<open>simp add: fp_limit_def binary32_def\<close>)
qed (simp add: round_mag_def)

lemma e4m3_value_binary32: "c \<le> 126 \<Longrightarrow> round_mag binary32 (e4m3_value c) = Some (e4m3_value c)"
proof -
  assume c: "c \<le> 126"
  have "e4m3_value c \<le> 448" using e4m3_value_mono [OF c] by simp
  moreover have "\<exists>n. e4m3_value c = of_int n * two_pow (-9)"
  proof (cases "c < 8")
    case True
    then show ?thesis by (intro exI [of _ "int c"]) (simp add: e4m3_value_def)
  next
    case False
    then have "1 \<le> c div 8" by (simp add: Suc_le_eq div_greater_zero_iff)
    then have "two_pow (int (c div 8) - 10) = of_int (2 ^ (c div 8 - 1)) * two_pow (-9)"
      using two_pow_add [of "int (c div 8) - 1" "-9"]
      by (simp add: two_pow_def [of "int (c div 8) - 1"] nat_diff_distrib')
    with False show ?thesis
      by (intro exI [of _ "int (8 + c mod 8) * 2 ^ (c div 8 - 1)"]) (simp add: e4m3_value_def)
  qed
  ultimately obtain n where "e4m3_value c = of_int n * two_pow (-9)" "e4m3_value c \<le> 448" by blast
  moreover have "e4m3_value c < two_pow 15" "e4m3_value c < two_pow 128"
    using calculation(2) by (simp_all add: two_pow_def)
  ultimately show ?thesis
    using binary32_exact [of "e4m3_value c" n "-9", OF _ e4m3_value_nonneg] by simp
qed

section \<open>Encoding and decoding E4M3FN\<close>

lemma encode_e4m3fn_value:
  assumes "round_mag binary32 v = Some m"
  shows "encode_e4m3fn (PFloat (Fin s v)) = Inr (e4m3_code m + (if s then 128 else 0))"
  using assms by (simp add: encode_e4m3fn_def as_float_def f32_def)

definition e4m3_finite :: "nat \<Rightarrow> bool" where
  "e4m3_finite c \<longleftrightarrow> c < 256 \<and> c mod 128 \<noteq> 127"

definition e4m3_float :: "pyfloat \<Rightarrow> bool" where
  "e4m3_float x \<longleftrightarrow> (\<exists>s. \<exists>c\<le>126. x = Fin s (e4m3_value c))"

lemma e4m3_code_split:
  "c \<le> 126 \<Longrightarrow> (c + (if s then 128 else 0)) mod 128 = c"
  "c \<le> 126 \<Longrightarrow> 128 \<le> c + (if s then 128 else 0) \<longleftrightarrow> s" for c :: nat
  by auto

lemma e4m3_encode_value:
  "c \<le> 126 \<Longrightarrow> encode_e4m3fn (PFloat (Fin s (e4m3_value c))) = Inr (c + (if s then 128 else 0))"
  by (simp add: encode_e4m3fn_value [OF e4m3_value_binary32] e4m3_code_value)

lemma e4m3_decode_value:
  "c \<le> 126 \<Longrightarrow> decode_e4m3fn (PInt (int (c + (if s then 128 else 0)))) = Inr (Fin s (e4m3_value c))"
  using decode_e4m3fn_value [of "c + (if s then 128 else 0)"] e4m3_code_split [of c s] by auto

lemma e4m3_finite_split: "e4m3_finite c \<Longrightarrow> \<exists>s k. k \<le> 126 \<and> c = k + (if s then 128 else 0)"
proof (cases "c < 128")
  case True
  assume "e4m3_finite c"
  with True have "c \<noteq> 127" by (auto simp: e4m3_finite_def)
  with True show ?thesis by (intro exI [of _ False] exI [of _ c]) simp
next
  case False
  then obtain k where k: "c = k + 128" by (metis add.commute le_Suc_ex not_less)
  assume "e4m3_finite c"
  with k have "k < 128" "k \<noteq> 127" by (auto simp: e4m3_finite_def)
  with k show ?thesis by (intro exI [of _ True] exI [of _ k]) simp
qed

interpretation e4m3: codec "\<lambda>x. encode_e4m3fn (PFloat x)" "\<lambda>c. decode_e4m3fn (PInt (int c))" e4m3_float e4m3_finite
proof unfold_locales
  fix x assume "e4m3_float x"
  then obtain s c where x: "c \<le> 126" "x = Fin s (e4m3_value c)" by (auto simp: e4m3_float_def)
  then show "\<exists>y. encode_e4m3fn (PFloat x) = Inr y \<and> e4m3_finite y \<and> decode_e4m3fn (PInt (int y)) = Inr x"
    using e4m3_encode_value [OF x(1)] e4m3_decode_value [OF x(1)] e4m3_code_split(1) [OF x(1), of s]
    by (intro exI [of _ "c + (if s then 128 else 0)"]) (auto simp: e4m3_finite_def)
next
  fix y assume "e4m3_finite y"
  then obtain s k where y: "k \<le> 126" "y = k + (if s then 128 else 0)" using e4m3_finite_split by blast
  then show "\<exists>x. decode_e4m3fn (PInt (int y)) = Inr x \<and> e4m3_float x \<and> encode_e4m3fn (PFloat x) = Inr y"
    using e4m3_encode_value [OF y(1)] e4m3_decode_value [OF y(1)]
    by (intro exI [of _ "Fin s (e4m3_value k)"]) (auto simp: e4m3_float_def)
qed

text \<open>
  C40. Every finite E4M3FN code survives decoding and encoding again: the encoder returns the code
  whose value it is given, the two zeros told apart by their sign.
\<close>

theorem encode_decode_e4m3fn:
  "decode_e4m3fn (PInt i) = Inr d \<Longrightarrow> encode_e4m3fn (PFloat d) = Inr (nat i)"
proof -
  assume d: "decode_e4m3fn (PInt i) = Inr d"
  then obtain c where c: "i = int c" "e4m3_finite c" by (auto simp: decode_e4m3fn_Inr e4m3_finite_def)
  with d e4m3.enc_dec [of c d] show ?thesis by simp
qed

theorem encode_decode_e4m3fn_witness: "encode_e4m3fn (PFloat (Fin True 448)) = Inr 254"
  using encode_decode_e4m3fn [of 254 "Fin True 448"] decode_e4m3fn_value [of 254] by simp

text \<open>
  C19. Any value that fits binary32 is encoded, with its sign, and no finite code stands for a
  value nearer to it; where another value is as near, the code returned is even. Values beyond
  the largest code saturate, since that code is then the nearest.
\<close>

theorem encode_e4m3fn_nearest:
  assumes "0 \<le> v" "f32 (Fin s v) = Inr y"
  shows "\<exists>c d. encode_e4m3fn (PFloat (Fin s v)) = Inr c \<and> decode_e4m3fn (PInt (int c)) = Inr d
    \<and> fneg d = s
    \<and> (\<forall>code e. decode_e4m3fn code = Inr e \<longrightarrow>
        \<bar>fval d - fval y\<bar> < \<bar>fval e - fval y\<bar> \<or> fval e = fval d
        \<or> \<bar>fval d - fval y\<bar> = \<bar>fval e - fval y\<bar> \<and> even c)"
proof -
  from assms(2) obtain m where m: "round_mag binary32 v = Some m" and y: "y = Fin s m"
    by (auto simp: f32_def split: option.splits)
  have m0: "0 \<le> m" using round_mag_nonneg [OF m assms(1)] .
  define k where "k = e4m3_code m"
  note near = e4m3_code_nearest [OF m0, folded k_def]
  let ?c = "k + (if s then 128 else 0)"
  let ?d = "Fin s (e4m3_value k)"
  have dist: "\<bar>fval (Fin s a) - fval y\<bar> = \<bar>a - m\<bar>" for a
    by (auto simp: y fval_def)
  have "\<bar>fval ?d - fval y\<bar> < \<bar>fval e - fval y\<bar> \<or> fval e = fval ?d
      \<or> \<bar>fval ?d - fval y\<bar> = \<bar>fval e - fval y\<bar> \<and> even ?c"
    if e: "decode_e4m3fn code = Inr e" for code e
  proof -
    from e obtain b where b: "b mod 128 \<noteq> 127" "e = Fin (128 \<le> b) (e4m3_value (b mod 128))"
      by (auto simp: decode_e4m3fn_Inr)
    have "b mod 128 < 128" by simp
    with b(1) have "b mod 128 \<le> 126" by linarith
    with b(2) obtain t j where j: "j \<le> 126" "e = Fin t (e4m3_value j)" by blast
    have same: "\<bar>e4m3_value k - m\<bar> < \<bar>e4m3_value i - m\<bar> \<or> i = k
        \<or> \<bar>e4m3_value k - m\<bar> = \<bar>e4m3_value i - m\<bar> \<and> even ?c" if "i \<le> 126" for i
      using near(2,3) [OF that] by fastforce
    show ?thesis
    proof (cases "t = s")
      case True
      then show ?thesis using same [OF j(1)] j(2) unfolding True j(2) dist by auto
    next
      case False
      have opp: "\<bar>fval e - fval y\<bar> = e4m3_value j + m"
      proof -
        have "0 \<le> e4m3_value j + m" using m0 by simp
        moreover have "\<bar>- e4m3_value j - m\<bar> = \<bar>e4m3_value j + m\<bar>"
          using abs_minus_cancel [of "e4m3_value j + m"] by simp
        ultimately show ?thesis using False by (auto simp: y j(2) fval_def)
      qed
      have "\<bar>e4m3_value k - m\<bar> \<le> m" using near(2) [of 0] m0 by simp
      then consider "\<bar>e4m3_value k - m\<bar> < e4m3_value j + m" | "e4m3_value j = 0" "\<bar>e4m3_value k - m\<bar> = m"
        using e4m3_value_nonneg [of j] by fastforce
      then show ?thesis
      proof cases
        case 1
        then show ?thesis unfolding opp dist by simp
      next
        case 2
        then show ?thesis using same [of 0] m0 unfolding opp dist by (cases s) (auto simp: j(2) fval_def)
      qed
    qed
  qed
  then show ?thesis
    using encode_e4m3fn_value [OF m, of s] e4m3_decode_value [OF near(1), of s]
    by (intro exI [of _ ?c] exI [of _ ?d]) (auto simp: k_def)
qed

theorem encode_e4m3fn_nearest_witness:
  "\<exists>c. encode_e4m3fn (PFloat (Fin False 448)) = Inr c"
proof -
  have "f32 (Fin False 448) = Inr (Fin False 448)"
    using e4m3_value_binary32 [of 126] by (simp add: f32_def)
  from encode_e4m3fn_nearest [OF _ this] show ?thesis by auto
qed

section \<open>Encoding and decoding BF16\<close>

text \<open>The magnitude the low 31 bits of a finite binary32 pattern stand for.\<close>

definition bits_value :: "int \<Rightarrow> rat" where
  "bits_value b = (if b div 2 ^ 23 = 0 then of_int (b mod 2 ^ 23) * two_pow (-149)
     else of_int (2 ^ 23 + b mod 2 ^ 23) * two_pow (b div 2 ^ 23 - 150))"

definition finite_bits :: "int \<Rightarrow> bool" where
  "finite_bits b \<longleftrightarrow> 0 \<le> b \<and> b < 255 * 2 ^ 23"

lemma bits_f32_value:
  assumes "finite_bits b"
  shows "bits_f32 b = Fin False (bits_value b)"
proof -
  have "b div 2 ^ 23 < 255" "0 \<le> b div 2 ^ 23"
    using assms by (simp_all add: finite_bits_def div_less_iff_int pos_imp_zdiv_nonneg_iff)
  moreover have "\<not> 2 ^ 31 \<le> b" using assms by (simp add: finite_bits_def)
  ultimately show ?thesis by (simp add: bits_f32_def Let_def bits_value_def)
qed

lemma normal_bits:
  assumes "1 \<le> b div 2 ^ 23"
  shows "two_pow (b div 2 ^ 23 - 127) \<le> bits_value b" "bits_value b < two_pow (b div 2 ^ 23 - 126)"
proof -
  define ex f where "ex = b div 2 ^ 23" and "f = b mod 2 ^ 23"
  have f: "0 \<le> f" "f < 2 ^ 23" by (simp_all add: f_def)
  have v: "bits_value b = of_int (2 ^ 23 + f) * two_pow (ex - 150)"
    using assms by (simp add: bits_value_def ex_def f_def)
  have p: "two_pow (ex - 127) = of_int (2 ^ 23) * two_pow (ex - 150)"
    "two_pow (ex - 126) = of_int (2 ^ 24) * two_pow (ex - 150)"
    using two_pow_add [of 23 "ex - 150"] two_pow_add [of 24 "ex - 150"]
    by (simp_all add: two_pow_def [of 23] two_pow_def [of 24])
  have "2 ^ 23 + f < 2 ^ 24" "2 ^ 23 \<le> 2 ^ 23 + f" using f by simp_all
  then have "(of_int (2 ^ 23) :: rat) \<le> of_int (2 ^ 23 + f)" "of_int (2 ^ 23 + f) < (of_int (2 ^ 24) :: rat)"
    by (simp_all only: of_int_le_iff of_int_less_iff)
  then show "two_pow (b div 2 ^ 23 - 127) \<le> bits_value b" "bits_value b < two_pow (b div 2 ^ 23 - 126)"
    unfolding v p [folded ex_def] ex_def [symmetric]
    by (auto intro: mult_right_mono [OF _ less_imp_le [OF two_pow_pos]] mult_strict_right_mono [OF _ two_pow_pos]
        simp del: of_int_add)
qed

lemma magnitude_bits_value:
  assumes "finite_bits b"
  shows "magnitude_bits (bits_value b) = b"
proof -
  define ex f where "ex = b div 2 ^ 23" and "f = b mod 2 ^ 23"
  have f: "0 \<le> f" "f < 2 ^ 23" and b: "b = ex * 2 ^ 23 + f" by (simp_all add: f_def ex_def)
  have "0 \<le> ex" using assms by (simp add: finite_bits_def ex_def pos_imp_zdiv_nonneg_iff)
  show ?thesis
  proof (cases "ex = 0")
    case True
    then have v: "bits_value b = of_int f * two_pow (-149)" by (simp add: bits_value_def ex_def f_def)
    show ?thesis
    proof (cases "f = 0")
      case False
      with f have pos: "0 < bits_value b" by (simp add: v)
      have "(of_int f :: rat) < of_int (2 ^ 23)" using f by (simp only: of_int_less_iff)
      then have "bits_value b < of_int (2 ^ 23) * two_pow (-149)" unfolding v by simp
      also have "\<dots> = two_pow (-126)" using two_pow_add [of 23 "-149"] by (simp add: two_pow_def [of 23])
      finally have "two_pow (binade (bits_value b)) < two_pow (-126)"
        using binade_bounds(1) [OF pos] by linarith
      then have "max (binade (bits_value b)) (-126) = -126" by (simp add: two_pow_less_iff)
      then have "magnitude_bits (bits_value b) = \<lfloor>bits_value b / two_pow (-149)\<rfloor>"
        using pos by (simp add: magnitude_bits_def Let_def)
      also have "\<dots> = f" by (simp add: v)
      finally show ?thesis using b True by simp
    next
      case True
      then have "bits_value b = 0" by (simp add: v)
      with True \<open>ex = 0\<close> b show ?thesis by (simp add: magnitude_bits_def)
    qed
  next
    case False
    with \<open>0 \<le> ex\<close> have ex: "1 \<le> b div 2 ^ 23" by (simp add: ex_def)
    have v: "bits_value b = of_int (2 ^ 23 + f) * two_pow (ex - 150)"
      using False by (simp add: bits_value_def ex_def f_def)
    have bin: "binade (bits_value b) = ex - 127"
      using normal_bits [OF ex] by (intro binade_unique) (simp_all add: ex_def algebra_simps)
    have "0 < bits_value b" using normal_bits(1) [OF ex] two_pow_pos less_le_trans by blast
    then have "magnitude_bits (bits_value b) = (ex - 1) * 2 ^ 23 + \<lfloor>bits_value b / two_pow (ex - 150)\<rfloor>"
      using bin ex by (simp add: magnitude_bits_def Let_def ex_def max_def)
    also have "bits_value b / two_pow (ex - 150) = of_int (2 ^ 23 + f)" by (simp add: v)
    also have "(ex - 1) * 2 ^ 23 + \<lfloor>of_int (2 ^ 23 + f) :: rat\<rfloor> = b" unfolding floor_of_int by (simp add: b)
    finally show ?thesis .
  qed
qed

lemma bits_value_nonneg [simp]: "0 \<le> bits_value b"
proof -
  have "0 \<le> b mod 2 ^ 23" "0 \<le> 2 ^ 23 + b mod 2 ^ 23" by simp_all
  then have "(0 :: rat) \<le> of_int (b mod 2 ^ 23)" "(0 :: rat) \<le> of_int (2 ^ 23 + b mod 2 ^ 23)"
    by (simp_all only: of_int_0_le_iff)
  then show ?thesis unfolding bits_value_def by (simp only: mult_nonneg_nonneg less_imp_le [OF two_pow_pos] simp_thms split: if_split)
qed

lemma bits_value_binary32:
  assumes "finite_bits b"
  shows "round_mag binary32 (bits_value b) = Some (bits_value b)"
proof (cases "b div 2 ^ 23 = 0")
  case True
  have "(of_int (b mod 2 ^ 23) :: rat) < of_int (2 ^ 24)" by (simp only: of_int_less_iff) simp
  then have "bits_value b < of_int (2 ^ 24) * two_pow (-149)" using True by (simp add: bits_value_def)
  also have "\<dots> = two_pow (-125)" using two_pow_add [of 24 "-149"] by (simp add: two_pow_def [of 24])
  finally have less: "bits_value b < two_pow (-125)" .
  then have "bits_value b < two_pow 128" using two_pow_mono [of "-125" 128] by simp
  with less show ?thesis
    using True binary32_exact [of "bits_value b" "b mod 2 ^ 23" "-149", OF _ bits_value_nonneg]
    by (simp add: bits_value_def)
next
  case False
  have "0 \<le> b div 2 ^ 23" "b div 2 ^ 23 < 255"
    using assms by (simp_all add: finite_bits_def pos_imp_zdiv_nonneg_iff div_less_iff_int)
  with False have ex: "1 \<le> b div 2 ^ 23" "b div 2 ^ 23 \<le> 254" by simp_all
  note n = normal_bits [OF ex(1)]
  have "0 \<le> bits_value b" using n(1) two_pow_pos order_trans less_imp_le by blast
  moreover have "bits_value b < two_pow 128" using n(2) two_pow_mono [of "b div 2 ^ 23 - 126" 128] ex(2) by simp
  moreover have "bits_value b < two_pow (b div 2 ^ 23 - 150 + 24)" using n(2) by (simp add: algebra_simps)
  ultimately show ?thesis using False ex
    by (intro binary32_exact [where n = "2 ^ 23 + b mod 2 ^ 23" and k = "b div 2 ^ 23 - 150"])
      (simp_all add: bits_value_def)
qed

lemma decode_bf16_value:
  assumes "b < 0x7F80"
  shows "decode_bf16 (PInt (int b)) = Inr (Fin False (bits_value (int b * 65536)))" "finite_bits (int b * 65536)"
proof -
  show "finite_bits (int b * 65536)" using assms by (simp add: finite_bits_def)
  from bits_f32_value [OF this] show "decode_bf16 (PInt (int b)) = Inr (Fin False (bits_value (int b * 65536)))"
    using assms by (simp add: decode_bf16_def)
qed

text \<open>
  Every non-negative finite BF16 value survives rounding to BF16: the rounding of a decoded
  pattern returns the pattern, subnormals included.
\<close>

lemma round_decode_bf16:
  "bits < 0x7F80 \<Longrightarrow>
     rbind (decode_bf16 (PInt (int bits))) (\<lambda>x. round_binary32_to_bf16_rne (PFloat x)) = Inr bits"
proof -
  assume bits: "bits < 0x7F80"
  note d = decode_bf16_value [OF bits]
  have "0 \<le> bits_value (int bits * 65536)" by (simp add: bits_value_def less_imp_le)
  then have "\<not> float_lt (Fin False (bits_value (int bits * 65536))) (Fin False 0)" by (simp add: fval_def not_less)
  then show ?thesis
    by (simp add: d(1) round_binary32_to_bf16_rne_def as_float_def f32_bits_def bits_value_binary32 [OF d(2)]
        magnitude_bits_value [OF d(2)])
qed

section \<open>The row quantizer\<close>

text \<open>
  The invariant of the row loop: every cached conversion is the conversion of its value, the
  output and the counters are those of the elements seen.
\<close>

definition converted :: "pyfloat \<Rightarrow> pyfloat \<Rightarrow> nat \<Rightarrow> bool" where
  "converted scale v code \<longleftrightarrow> (\<exists>saturated reconstruction. convert_value scale v = Inr (code, saturated, reconstruction))"

definition cache_sound :: "pyfloat \<Rightarrow> (nat \<times> nat \<times> bool \<times> pyfloat) list \<Rightarrow> bool" where
  "cache_sound scale cache \<longleftrightarrow> (\<forall>(b, cached)\<in>set cache.
     \<exists>v. decode_value b = Inr v \<and> convert_value scale v = Inr cached)"

definition row_invariant :: "pyfloat \<Rightarrow> (nat \<times> pyfloat) list \<Rightarrow> row_state \<Rightarrow> bool" where
  "row_invariant scale items st \<longleftrightarrow>
     cache_sound scale (rs_cache st)
     \<and> list_all2 (converted scale) (map snd items) (rs_output st)
     \<and> length (rs_histogram st) = 256 \<and> sum_list (rs_histogram st) = length items
     \<and> (\<forall>c<256. rs_histogram st ! c = count_list (rs_output st) c)"

lemma converted_code: "converted scale v code \<Longrightarrow> code < 256"
  by (auto simp: converted_def convert_value_def decode_e4m3fn_Inr)

lemma sum_list_increment:
  "i < length xs \<Longrightarrow> sum_list (xs[i := xs ! i + 1]) = sum_list xs + (1 :: nat)"
  by (simp add: sum_list_update)

lemma row_step_cached:
  assumes "row_step scale st (b, v) = Inr st'" "row_invariant scale items st" "decode_value b = Inr v"
  obtains code saturated reconstruction cache where
    "convert_value scale v = Inr (code, saturated, reconstruction)"
    "cache = rs_cache st \<or> cache = (b, code, saturated, reconstruction) # rs_cache st"
    "st' = st\<lparr>rs_cache := cache, rs_output := rs_output st @ [code],
       rs_histogram := (rs_histogram st)[code := rs_histogram st ! code + 1],
       rs_saturation := rs_saturation st + (if saturated then 1 else 0),
       rs_metrics := update_metrics v reconstruction (rs_metrics st)\<rparr>"
proof (cases "map_of (rs_cache st) b")
  case None
  with assms(1) that show ?thesis by (auto simp: row_step_def)
next
  case (Some cached)
  have "cache_sound scale (rs_cache st)" using assms(2) by (simp add: row_invariant_def)
  with map_of_SomeD [OF Some] obtain w where "decode_value b = Inr w" "convert_value scale w = Inr cached"
    unfolding cache_sound_def by blast
  with assms(3) have "convert_value scale v = Inr cached" by simp
  moreover obtain code saturated reconstruction where "cached = (code, saturated, reconstruction)"
    by (cases cached)
  ultimately show ?thesis
    using Some assms(1) by (intro that [of code saturated reconstruction "rs_cache st"]) (auto simp: row_step_def)
qed

lemma row_step_invariant:
  assumes "row_invariant scale items st" "decode_value b = Inr v" "row_step scale st (b, v) = Inr st'"
  shows "row_invariant scale (items @ [(b, v)]) st'"
proof -
  from row_step_cached [OF assms(3,1,2)] obtain code saturated reconstruction cache where
    conv: "convert_value scale v = Inr (code, saturated, reconstruction)"
    and cache: "cache = rs_cache st \<or> cache = (b, code, saturated, reconstruction) # rs_cache st"
    and st': "st' = st\<lparr>rs_cache := cache, rs_output := rs_output st @ [code],
       rs_histogram := (rs_histogram st)[code := rs_histogram st ! code + 1],
       rs_saturation := rs_saturation st + (if saturated then 1 else 0),
       rs_metrics := update_metrics v reconstruction (rs_metrics st)\<rparr>" by blast
  have code: "converted scale v code" using conv by (auto simp: converted_def)
  then have lt: "code < length (rs_histogram st)" using converted_code assms(1) by (simp add: row_invariant_def)
  have sound: "cache_sound scale cache"
    using cache conv assms(1,2) by (auto simp: row_invariant_def cache_sound_def)
  define hist where "hist = (rs_histogram st)[code := rs_histogram st ! code + 1]"
  
  have total: "sum_list hist = sum_list (rs_histogram st) + 1"
    unfolding hist_def by (rule sum_list_increment [OF lt])
  have nth: "\<forall>c<256. hist ! c = rs_histogram st ! c + (if c = code then 1 else 0)"
    and len: "length hist = length (rs_histogram st)"
    using lt by (simp_all add: hist_def nth_list_update)
  show ?thesis
    using assms(1) code sound total nth len unfolding row_invariant_def st' hist_def [symmetric]
    by (auto intro!: list_all2_appendI)
qed

lemma decode_bf16_row_Inr:
  "decode_bf16_row raw = Inr (bits, values) \<longleftrightarrow> raw \<noteq> [] \<and> even (length raw) \<and> bits = unpack_u16s raw
     \<and> rmap decode_value bits = Inr values"
  by (auto simp: decode_bf16_row_def Let_def)

lemma row_fold_invariant:
  assumes "rfold (row_step scale) (row_start values) (zip bits values) = Inr st"
    and "rmap decode_value bits = Inr values"
  shows "row_invariant scale (zip bits values) st"
proof (rule rfold_invariant [OF assms(1)])
  show "row_invariant scale [] (row_start values)"
    by (simp add: row_invariant_def row_start_def cache_sound_def)
next
  fix earlier item later s s'
  assume split: "zip bits values = earlier @ item # later" and inv: "row_invariant scale earlier s"
    and step: "row_step scale s item = Inr s'"
  obtain b v where item: "item = (b, v)" by fastforce
  have "(b, v) \<in> set (zip bits values)" by (simp add: split item)
  then have "decode_value b = Inr v" using rmap_nth [OF assms(2)] by (auto simp: set_zip)
  from row_step_invariant [OF inv this] step item show "row_invariant scale (earlier @ [item]) s'" by simp
qed

lemma quantize_row_facts:
  assumes "quantize_bf16_row raw = Inr r"
  shows "\<exists>values. decode_bf16_row raw = Inr (unpack_u16s raw, values)
    \<and> list_all2 (converted (rr_scale_value r)) values (map unat (rr_weight_bytes r))
    \<and> decode_bf16 (PInt (int (rr_scale_bits r))) = Inr (rr_scale_value r)
    \<and> float_lt (Fin False 0) (rr_scale_value r) \<and> unpack_u16s (rr_scale_bytes r) = [rr_scale_bits r]
    \<and> length (rr_histogram r) = 256 \<and> sum_list (rr_histogram r) = length raw div 2
    \<and> (\<forall>c<256. rr_histogram r ! c = count_list (map unat (rr_weight_bytes r)) c)"
proof -
  from assms obtain bits elements scale_bits clamped scale st where
    row: "decode_bf16_row raw = Inr (bits, elements)"
    and scale: "decode_bf16 (PInt (int scale_bits)) = Inr scale" "is_finite scale" "\<not> float_le scale (Fin False 0)"
    and fold: "rfold (row_step scale) (row_start elements) (zip bits elements) = Inr st"
    and r: "rr_weight_bytes r = map word_of_nat (rs_output st)" "rr_scale_bytes r = pack_u16s [scale_bits]"
      "rr_scale_bits r = scale_bits" "rr_scale_value r = scale" "rr_histogram r = rs_histogram st"
    by (auto simp: quantize_bf16_row_def Let_def)
  note d = row [unfolded decode_bf16_row_Inr]
  have len: "length elements = length bits" using d by (auto dest: rmap_length)
  have inv: "row_invariant scale (zip bits elements) st" using row_fold_invariant [OF fold] d by blast
  then have out: "list_all2 (converted scale) elements (rs_output st)" using len by (simp add: row_invariant_def)
  then have "\<forall>c\<in>set (rs_output st). c < 256"
    by (metis converted_code in_set_conv_nth list_all2_conv_all_nth)
  then have bytes: "map unat (rr_weight_bytes r) = rs_output st"
    by (simp add: r(1) map_idI unat_of_nat)
  have "float_lt (Fin False 0) scale"
    using scale(2,3) by (cases scale) (auto simp: float_le_def)
  moreover have "scale_bits < 65536"
    using scale(1) by (auto simp: decode_bf16_def split: if_splits)
  then have "unpack_u16s (rr_scale_bytes r) = [scale_bits]" by (simp add: r(2) unpack_pack_u16s)
  moreover have "length (zip bits elements) = length raw div 2" using d len by (simp add: length_unpack_u16s)
  ultimately show ?thesis
    using inv out d row scale(1) by (intro exI [of _ elements]) (auto simp: row_invariant_def bytes r(2-5))
qed

lemma quantize_row_lengths:
  assumes "quantize_bf16_row raw = Inr r"
  shows "length (rr_weight_bytes r) = length raw div 2" "length (rr_scale_bytes r) = 2"
proof -
  from quantize_row_facts [OF assms] obtain elements where
    row: "decode_bf16_row raw = Inr (unpack_u16s raw, elements)"
    and codes: "list_all2 (converted (rr_scale_value r)) elements (map unat (rr_weight_bytes r))" by blast
  from row have "rmap decode_value (unpack_u16s raw) = Inr elements" by (simp add: decode_bf16_row_Inr)
  then have "length elements = length raw div 2" by (auto dest: rmap_length simp: length_unpack_u16s)
  then show "length (rr_weight_bytes r) = length raw div 2" using codes by (auto dest: list_all2_lengthD)
  show "length (rr_scale_bytes r) = 2" using assms by (auto simp: quantize_bf16_row_def Let_def)
qed


definition zero_row :: bytes where "zero_row = [0, 0]"

lemma round_mag_binary64_1: "round_mag binary64 1 = Some 1"
  by code_simp

lemma round_mag_0 [simp]: "round_mag f 0 = Some 0"
  by (simp add: round_mag_def)

lemma decode_bf16_one: "decode_bf16 (PInt 16256) = Inr (Fin False 1)"
  by (simp add: decode_bf16_def bits_f32_def Let_def two_pow_def)

lemma convert_zero: "convert_value (Fin False 1) (Fin False 0) = Inr (0, False, Fin False 0)"
proof -
  have "e4m3_code 0 = 0" using e4m3_code_value [of 0] by simp
  then show ?thesis
    by (simp add: convert_value_def round_signed_def f32_def encode_e4m3fn_value
        decode_e4m3fn_value [of 0, simplified] E4M3FN_MAX_def float_abs_def fval_def)
qed

lemma quantize_zero_row:
  "\<exists>r. quantize_bf16_row zero_row = Inr r \<and> rr_weight_bytes r = [0] \<and> rr_scale_bytes r = [0x80, 0x3f]
     \<and> rr_scale_value r = Fin False 1 \<and> rr_saturation_count r = 0 \<and> rr_metrics r = \<lparr>rm_element_count = 1,
       rm_source_min = Fin False 0, rm_source_max = Fin False 0,
       rm_source_sum_squares = Fin False 0, rm_reconstruction_sum_squares = Fin False 0,
       rm_source_reconstruction_dot = Fin False 0, rm_error_sum_squares = Fin False 0,
       rm_max_absolute_error = Fin False 0\<rparr>"
proof -
  have zero: "decode_bf16 (PInt 0) = Inr (Fin False 0)"
    by (simp add: decode_bf16_def bits_f32_def Let_def)
  have "decode_bf16_row zero_row = Inr ([0], [Fin False 0])"
    by (simp add: decode_bf16_row_def zero_row_def decode_value_def zero)
  moreover have "pack_u16s [16256] = [0x80, 0x3f]" by (simp add: pack_u16s_def)
  ultimately show ?thesis
    by (simp add: quantize_bf16_row_def row_scale_def fval_def float_abs_def BF16_ONE_BITS_def decode_bf16_one
        row_step_def row_start_def convert_zero float_le_def update_metrics_def float_sub_def
        float_neg_def round_signed_def py_min_def py_max_def Let_def)
qed


end
