(* ===== verification/Encoder_Facts.thy ===== *)
theory Encoder_Facts
  imports Encoders FP8_Facts
begin

text \<open>
  The contract of a tensor encoder, and that the copying, constant and FP8 encoders keep it. The
  shard writer relies on nothing else.
\<close>

section \<open>The contract\<close>

locale tensor_encoder =
  fixes encode :: "'o encoder"
  assumes encodes: "sink put contents \<Longrightarrow> 0 < env_granularity env \<Longrightarrow>
      ws_good (env_granularity env) ws ws \<Longrightarrow>
      encoder_post contents env ws out (encode env put plan sources ws out)"
begin

lemma returns:
  assumes "sink put contents" "0 < env_granularity env" "ws_good (env_granularity env) ws ws"
  shows "\<exists>r ws' out'. encode env put plan sources ws out = Some (r, ws', out')"
  using encodes [OF assms, of out plan sources] by (auto simp: encoder_post_def split: option.splits)

lemma appends:
  assumes "sink put contents" "0 < env_granularity env" "ws_good (env_granularity env) ws ws"
    and "encode env put plan sources ws out = Some (r, ws', out')"
  shows "\<exists>extra. contents out' = contents out @ extra"
  using encodes [OF assms(1-3), of out plan sources] assms(4)
  by (auto simp: encoder_post_def split: option.splits sum.splits)

lemma writes:
  assumes "sink put contents" "0 < env_granularity env" "ws_good (env_granularity env) ws ws"
    and "encode env put plan sources ws out = Some (Inr r, ws', out')"
  shows "\<exists>payload. contents out' = contents out @ payload \<and> er_output_bytes r = int (length payload)
    \<and> er_output_sha256 r = env_sha env payload \<and> ws_good (env_granularity env) ws' ws'"
  using encodes [OF assms(1-3), of out plan sources] assms(4) by (simp add: encoder_post_def)

end

lemma ws_good_self: "ws_good g start ws \<Longrightarrow> ws_good g ws ws"
  by (simp add: ws_good_def)

section \<open>Copying and the constant\<close>

lemma copy_encoder_post:
  fixes put :: "'o writer" and contents :: "'o \<Rightarrow> bytes" and env :: environment
  assumes "sink put contents" "0 < env_granularity env" "ws_good (env_granularity env) ws ws"
  shows "encoder_post contents env ws out (copy_encoder env put plan sources ws out)"
proof (cases "\<exists>source byte_count. sources = [source] \<and> output_bytes plan = Inr byte_count
      \<and> td_byte_length source = byte_count")
  case False
  then show ?thesis
    by (auto simp: copy_encoder_def encoder_post_def split: list.splits sum.splits)
next
  case True
  then obtain source where source: "sources = [source]" "output_bytes plan = Inr (td_byte_length source)"
    by blast
  let ?offset = "td_absolute_offset source" and ?len = "td_byte_length source"
  show ?thesis
  proof (cases "env_files env (td_path source)")
    case None
    with source show ?thesis
      by (simp add: copy_encoder_def encoder_post_def copy_range_def mapped_tensor_range_def Let_def)
  next
    case (Some data)
    from copy_range_outcome [OF assms(1,3,2)] obtain r ws' out' where
      run: "copy_range (env_sha env) (env_granularity env) (env_rss env) put True (Some data) ?offset ?len ws out
         = Some (r, ws', out')"
      and r: "case r of
          Inl e \<Rightarrow> \<exists>extra. contents out' = contents out @ extra
        | Inr (source_hash, output_hash) \<Rightarrow>
            0 \<le> ?offset \<and> 0 \<le> ?len \<and> (?len = 0 \<or> ?offset + ?len \<le> int (length data))
            \<and> contents out' = contents out @ take (nat ?len) (drop (nat ?offset) data)
            \<and> source_hash = env_sha env (take (nat ?len) (drop (nat ?offset) data)) \<and> output_hash = source_hash
            \<and> ws_good (env_granularity env) ws ws'" by blast
    from source Some run have res: "copy_encoder env put plan sources ws out
        = Some (map_sum id (\<lambda>(source_hash, output_hash).
               \<lparr>er_source_sha256 = [source_hash], er_output_sha256 = output_hash,
                er_output_bytes = ?len, er_statistics = None\<rparr>) r, ws', out')"
      by (simp add: copy_encoder_def)
    show ?thesis
      using r unfolding res by (cases r) (auto simp: encoder_post_def dest: ws_good_self)
  qed
qed

interpretation copying: tensor_encoder copy_encoder
  by unfold_locales (rule copy_encoder_post)

lemma constant_encoder_post:
  fixes put :: "'o writer" and contents :: "'o \<Rightarrow> bytes" and env :: environment
  assumes "sink put contents" "ws_good (env_granularity env) ws ws"
  shows "encoder_post contents env ws out (constant_bf16_one_encoder env put plan sources ws out)"
proof -
  obtain r out' where run: "write_all put out bf16_one = (r, out')" by fastforce
  from sink.write_all_prefix [OF assms(1) run] sink.write_all_complete [OF assms(1), of out bf16_one out'] run
  show ?thesis
    using assms(2) by (cases r) (auto simp: constant_bf16_one_encoder_def encoder_post_def)
qed

interpretation bf16_scalar: tensor_encoder constant_bf16_one_encoder
  by unfold_locales (rule constant_encoder_post)

section \<open>Reading rows\<close>

lemma read_row_Inr:
  "read_row data start k row = Inr view \<Longrightarrow> length row \<le> k \<Longrightarrow>
     length view = k \<and> view = row @ file_read data (start + length row) (k - length row)"
proof (induction data start k row rule: read_row.induct)
  case (1 data start k row)
  let ?chunk = "file_read data (start + length row) (k - length row)"
  show ?case
  proof (cases "k \<le> length row")
    case True
    then show ?thesis using "1.prems" by (subst (asm) read_row.simps) (simp add: file_read_def)
  next
    case False
    with "1.prems" have chunk: "?chunk \<noteq> []" and rest: "read_row data start k (row @ ?chunk) = Inr view"
      by (subst (asm) read_row.simps, simp add: Let_def split: if_splits)+
    have len: "length (row @ ?chunk) \<le> k" using False by (simp add: file_read_def)
    note IH = "1.IH" [OF False refl chunk rest len]
    have "file_read data (start + length (row @ ?chunk)) (k - length (row @ ?chunk)) = drop (length ?chunk)
        (file_read data (start + length row) (k - length row))"
      by (simp add: file_read_def drop_take add.commute min_def)
    then have "view = row @ ?chunk" using IH by simp
    with IH show ?thesis by simp
  qed
qed

lemma read_row_start:
  assumes "read_row data start k [] = Inr view"
  shows "length view = k" "view = take k (drop start data)"
proof -
  note whole = read_row_Inr [OF assms, simplified]
  show "length view = k" using whole by blast
  show "view = take k (drop start data)" using whole unfolding file_read_def by blast
qed

lemma record_transform_row_good:
  assumes "record_transform_row rss n ws = (Inr u, ws')" "ws_good g ws ws"
  shows "ws_good g ws' ws'"
proof -
  let ?ws = "ws\<lparr>maximum_transform_row_bytes := max (maximum_transform_row_bytes ws) n\<rparr>"
  have "ws_good g ?ws ?ws" using assms(2) by (simp add: ws_good_def within_cap_def windows_within_def)
  moreover from assms(1) have "workspace_check rss ?ws = (Inr u, ws')"
    by (simp add: record_transform_row_def split: if_splits)
  ultimately show ?thesis by (blast dest: ws_good_check ws_good_self)
qed

text \<open>
  The row loop: whatever relation the body keeps between the bytes read so far, its totals and
  the output, holds at the end for exactly the bytes of the matrix.
\<close>

lemma for_source_rows_outcome:
  assumes good: "ws_good g ws ws" and start: "I [] totals out" and E: "E out"
    and body: "\<And>digest view totals ws out r st. ws_good g ws ws \<Longrightarrow> length view = row_bytes \<Longrightarrow>
      I digest totals out \<Longrightarrow> body view (digest @ view) totals (ws, out) = (r, st) \<Longrightarrow>
      case r of Inl e \<Rightarrow> E (snd st) | Inr totals' \<Rightarrow> ws_good g (fst st) (fst st) \<and> I (digest @ view) totals' (snd st)"
    and lift: "\<And>digest totals out. I digest totals out \<Longrightarrow> E out"
    and run: "for_source_rows env source rows row_bytes body totals (ws, out) = (r, st)"
  shows "case r of Inl e \<Rightarrow> E (snd st)
    | Inr totals' \<Rightarrow> ws_good g (fst st) (fst st) \<and> (\<exists>data. env_files env (td_path source) = Some data
        \<and> rows * row_bytes \<le> length (drop (nat (td_absolute_offset source)) data)
        \<and> I (take (rows * row_bytes) (drop (nat (td_absolute_offset source)) data)) totals' (snd st))"
proof -
  let ?base = "nat (td_absolute_offset source)"
  have error: "\<exists>e. r = Inl e \<Longrightarrow> st = (ws, out) \<Longrightarrow> ?thesis" using E by auto
  show ?thesis
  proof (cases "env_files env (td_path source)")
    case None
    with run show ?thesis by (intro error) (auto simp: for_source_rows_def split: if_splits)
  next
    case (Some data)
    show ?thesis
    proof (cases "staging_bytes ws < int row_bytes \<or> td_absolute_offset source < 0 \<or> td_byte_length source < 0
        \<or> int (length data) - td_byte_length source < td_absolute_offset source")
      case True
      with run Some show ?thesis by (intro error) (auto simp: for_source_rows_def split: if_splits)
    next
      case False
      obtain q st' where fold: "prog_fold (row_iteration env data ?base row_bytes body) ([], totals) [0..<rows] (ws, out)
          = (q, st')" by (rule prod.exhaust)
      define J where "J n acc st \<longleftrightarrow> ws_good g (fst st) (fst st) \<and> n * row_bytes \<le> length (drop ?base data)
          \<and> fst acc = take (n * row_bytes) (drop ?base data) \<and> I (fst acc) (snd acc) (snd st)" for n acc st
      have "case q of Inl e \<Rightarrow> E (snd st') | Inr acc' \<Rightarrow> J (length [0..<rows]) acc' st'"
        using fold
      proof (rule prog_fold_rule)
        show "J 0 ([], totals) (ws, out)" using good start by (simp add: J_def)
        fix n acc s q s'
        assume n: "n < length [0..<rows]" and J: "J n acc s"
          and step: "row_iteration env data ?base row_bytes body acc ([0..<rows] ! n) s = (q, s')"
        obtain digest t w o' where names: "acc = (digest, t)" "s = (w, o')" by fastforce
        have E_now: "E o'" using J names by (auto simp: J_def intro: lift)
        obtain q1 w1 where rec: "record_transform_row (env_rss env) (int row_bytes) w = (q1, w1)" by fastforce
        show "case q of Inl e \<Rightarrow> E (snd s') | Inr acc' \<Rightarrow> J (Suc n) acc' s'"
        proof (cases q1)
          case (Inl e)
          with step names rec E_now show ?thesis by (auto simp: row_iteration_def)
        next
          case (Inr u)
          have w1: "ws_good g w1 w1"
            using record_transform_row_good rec [unfolded Inr] J names by (fastforce simp: J_def)
          show ?thesis
          proof (cases "read_row data (?base + n * row_bytes) row_bytes []")
            case (Inl e)
            with step names rec Inr n E_now show ?thesis by (auto simp: row_iteration_def)
          next
            case view: (Inr view)
            note v = read_row_start [OF view]
            have digest: "digest @ view = take (Suc n * row_bytes) (drop ?base data)"
              using J names v(2) take_add [of "n * row_bytes" row_bytes "drop ?base data"]
              by (simp add: J_def add.commute)
            have bound: "Suc n * row_bytes \<le> length (drop ?base data)"
              using v by (cases "row_bytes = 0") (auto simp: min_def split: if_splits)
            obtain q2 w2 o2 where run2: "body view (digest @ view) t (w1, o') = (q2, w2, o2)"
              by (metis prod_cases3)
            note post = body [OF w1 v(1) _ run2]
            show ?thesis
            proof (cases q2)
              case (Inl e)
              with step names rec Inr n view run2 post J show ?thesis
                by (auto simp: row_iteration_def J_def)
            next
              case two: (Inr t')
              obtain q3 w3 where chk: "workspace_check (env_rss env) w2 = (q3, w3)" by fastforce
              have I: "I (digest @ view) t' o2" and w2: "ws_good g w2 w2"
                using post J names two by (auto simp: J_def)
              have w3: "ws_good g w3 w3" if "q3 = Inr ()"
                using chk that w2 by (blast dest: ws_good_check ws_good_self)
              show ?thesis
                using step names rec Inr n view run2 two chk I w3 lift [OF I] digest bound
                by (cases q3) (auto simp: row_iteration_def J_def)
            qed
          qed
        qed
      qed
      moreover from False run Some fold have
        "st = st'" "r = (case q of Inl e \<Rightarrow> Inl (if is_os_or_value_error e then DataError ''cannot open/read source tensor'' else e)
          | Inr acc \<Rightarrow> Inr (snd acc))"
        by (auto simp: for_source_rows_def split: sum.splits prod.splits)
      ultimately show ?thesis using Some by (cases q) (auto simp: J_def)
    qed
  qed
qed

section \<open>The FP8 encoders\<close>

lemma write_row_post:
  assumes "sink put contents" "ws_good g ws ws" "write_row env put payload t (ws, out) = (r, st)"
  shows "case r of Inl e \<Rightarrow> \<exists>extra. contents (snd st) = contents out @ extra
    | Inr t' \<Rightarrow> t' = t \<and> ws_good g (fst st) (fst st) \<and> contents (snd st) = contents out @ payload"
proof -
  obtain q o1 where w: "write_all put out payload = (q, o1)" by fastforce
  obtain q' w1 where c: "workspace_check (env_rss env) ws = (q', w1)" by fastforce
  have pre: "\<exists>extra. contents o1 = contents out @ extra"
    using sink.write_all_prefix [OF assms(1) w] by blast
  show ?thesis
  proof (cases q)
    case (Inl e)
    with w assms(3) pre show ?thesis by (auto simp: write_row_def)
  next
    case (Inr u)
    have all: "contents o1 = contents out @ payload"
      using sink.write_all_complete [OF assms(1)] w Inr by auto
    have "ws_good g w1 w1" if "q' = Inr ()" using c that assms(2) by (blast dest: ws_good_check ws_good_self)
    with w c Inr assms(3) all show ?thesis by (cases q') (auto simp: write_row_def)
  qed
qed

text \<open>
  The rows read so far, of \<open>k\<close> bytes each, are the digested bytes; what was written after \<open>base\<close>
  is the chosen part of their quantizations.
\<close>

definition rows_done :: "(row_result \<Rightarrow> bytes) \<Rightarrow> (bytes \<Rightarrow> string) \<Rightarrow> nat \<Rightarrow> bytes \<Rightarrow> bytes \<Rightarrow> string \<Rightarrow> bytes \<Rightarrow> bytes \<Rightarrow> bool" where
  "rows_done part sha k base digest hash payload written \<longleftrightarrow> (\<exists>views rs. digest = concat views
     \<and> (\<forall>v\<in>set views. length v = k) \<and> rmap quantize_bf16_row views = Inr rs
     \<and> payload = concat (map part rs) \<and> written = base @ payload \<and> (views \<noteq> [] \<longrightarrow> hash = sha digest))"

lemma rows_done_start [simp]: "rows_done part sha k base [] hash [] base"
  by (auto simp: rows_done_def intro: exI [of _ "[]"])

lemma rmap_snoc: "rmap f xs = Inr ys \<Longrightarrow> f x = Inr y \<Longrightarrow> rmap f (xs @ [x]) = Inr (ys @ [y])"
  by (auto simp: rmap_Inr_iff intro: list_all2_appendI)

lemma rows_done_step:
  assumes "rows_done part sha k base digest hash payload written" "length view = k" "quantize_bf16_row view = Inr r"
  shows "rows_done part sha k base (digest @ view) (sha (digest @ view)) (payload @ part r) (written @ part r)"
proof -
  from assms(1) obtain views rs where v: "digest = concat views" "\<forall>v\<in>set views. length v = k"
    "rmap quantize_bf16_row views = Inr rs" "payload = concat (map part rs)" "written = base @ payload"
    by (auto simp: rows_done_def)
  show ?thesis
    unfolding rows_done_def using v assms(2) rmap_snoc [OF v(3) assms(3)]
    by (intro exI [of _ "views @ [view]"] exI [of _ "rs @ [r]"]) simp
qed

lemma length_concat_uniform: "\<forall>v\<in>set views. length v = k \<Longrightarrow> length (concat views) = length views * k"
  by (induction views) auto

lemma weight_row_post:
  assumes "sink put contents" "ws_good g ws ws" "length view = k"
    and inv: "rows_done rr_weight_bytes (env_sha env) k base digest (wt_source_hash t) (wt_output t) (contents out)"
    and run: "weight_row env put view (digest @ view) t (ws, out) = (r, st)"
  shows "case r of Inl e \<Rightarrow> \<exists>extra. contents (snd st) = base @ extra
    | Inr t' \<Rightarrow> ws_good g (fst st) (fst st) \<and> rows_done rr_weight_bytes (env_sha env) k base (digest @ view)
        (wt_source_hash t') (wt_output t') (contents (snd st))"
proof (cases "quantize_bf16_row view")
  case (Inl e)
  with run inv show ?thesis by (auto simp: weight_row_def rows_done_def)
next
  case (Inr q)
  from inv have "\<exists>extra. contents out = base @ extra" by (auto simp: rows_done_def)
  with run write_row_post [OF assms(1,2), of env "rr_weight_bytes q" "add_weight_row env (digest @ view) q t" out r st]
    rows_done_step [OF inv assms(3) Inr] Inr
  show ?thesis by (cases r) (auto simp: weight_row_def add_weight_row_def Let_def)
qed

lemma scale_row_post:
  assumes "sink put contents" "ws_good g ws ws" "length view = k"
    and inv: "rows_done rr_scale_bytes (env_sha env) k base digest (st_source_hash t) (st_output t) (contents out)"
    and run: "scale_row env put view (digest @ view) t (ws, out) = (r, st)"
  shows "case r of Inl e \<Rightarrow> \<exists>extra. contents (snd st) = base @ extra
    | Inr t' \<Rightarrow> ws_good g (fst st) (fst st) \<and> rows_done rr_scale_bytes (env_sha env) k base (digest @ view)
        (st_source_hash t') (st_output t') (contents (snd st))"
proof (cases "quantize_bf16_row view")
  case (Inl e)
  with run inv show ?thesis by (auto simp: scale_row_def rows_done_def)
next
  case (Inr q)
  from inv have "\<exists>extra. contents out = base @ extra" by (auto simp: rows_done_def)
  with run write_row_post [OF assms(1,2), of env "rr_scale_bytes q" _ out r st]
    rows_done_step [OF inv assms(3) Inr] Inr
  show ?thesis by (cases r) (fastforce simp: scale_row_def)+
qed

text \<open>The chosen part of the quantized rows of a matrix, and the bytes of the file they came from.\<close>

definition quantized_matrix :: "(row_result \<Rightarrow> bytes) \<Rightarrow> environment \<Rightarrow> tensor_descriptor \<Rightarrow> nat \<Rightarrow> nat \<Rightarrow> bytes \<Rightarrow> bytes \<Rightarrow> bool" where
  "quantized_matrix part env source rows columns raw payload \<longleftrightarrow> (\<exists>data views rs.
     env_files env (td_path source) = Some data
     \<and> raw = take (rows * (columns * 2)) (drop (nat (td_absolute_offset source)) data)
     \<and> raw = concat views \<and> length views = rows \<and> (\<forall>v\<in>set views. length v = columns * 2)
     \<and> rmap quantize_bf16_row views = Inr rs \<and> payload = concat (map part rs))"

lemma rows_done_matrix:
  assumes "rows_done part sha (columns * 2) base raw hash payload written"
    and "env_files env (td_path source) = Some data" "0 < rows" "0 < columns"
    and "raw = take (rows * (columns * 2)) (drop (nat (td_absolute_offset source)) data)"
    and "rows * (columns * 2) \<le> length (drop (nat (td_absolute_offset source)) data)"
  shows "quantized_matrix part env source rows columns raw payload \<and> hash = sha raw \<and> written = base @ payload"
proof -
  from assms(1) obtain views rs where v: "raw = concat views" "\<forall>v\<in>set views. length v = columns * 2"
    "rmap quantize_bf16_row views = Inr rs" "payload = concat (map part rs)" "written = base @ payload"
    "views \<noteq> [] \<longrightarrow> hash = sha raw" by (auto simp: rows_done_def)
  have "length raw = rows * (columns * 2)" using assms(5,6) by simp
  with length_concat_uniform [OF v(2)] v(1) assms(4) have "length views = rows" by simp
  with v assms show ?thesis unfolding quantized_matrix_def by force
qed

lemma quantized_matrix_length:
  assumes "quantized_matrix part env source rows columns raw payload"
    and "\<And>v r. quantize_bf16_row v = Inr r \<Longrightarrow> length v = columns * 2 \<Longrightarrow> length (part r) = n"
  shows "length payload = rows * n"
proof -
  from assms(1) obtain views rs where v: "length views = rows" "\<forall>v\<in>set views. length v = columns * 2"
    "rmap quantize_bf16_row views = Inr rs" "payload = concat (map part rs)" by (auto simp: quantized_matrix_def)
  have all: "list_all2 (\<lambda>v r. quantize_bf16_row v = Inr r) views rs" using v(3) by (simp add: rmap_Inr_iff)
  then have "\<forall>p\<in>set (map part rs). length p = n"
    using v(2) assms(2) by (fastforce simp: list_all2_conv_all_nth in_set_conv_nth)
  from length_concat_uniform [OF this] v(1,4) list_all2_lengthD [OF all] show ?thesis by simp
qed

lemma validate_fp8_plan_Inr:
  assumes "validate_fp8_plan plan sources component = Inr (source, rows, columns)"
  shows "sources = [source] \<and> td_dtype source = ''BF16'' \<and> td_shape source = [rows, columns]
    \<and> 0 < rows \<and> 0 < columns"
  using assms
  by (auto simp: validate_fp8_plan_def Let_def split: list.splits bool.splits)

lemma fp8_weight_outcome:
  assumes "sink put contents" "ws_good (env_granularity env) ws ws"
  shows "\<exists>r ws' out'. fp8_weight_encoder env put plan sources ws out = Some (r, ws', out')
    \<and> (case r of Inl e \<Rightarrow> \<exists>extra. contents out' = contents out @ extra
      | Inr r \<Rightarrow> ws_good (env_granularity env) ws' ws' \<and> (\<exists>source rows columns raw payload.
          sources = [source] \<and> td_shape source = [int rows, int columns]
          \<and> quantized_matrix rr_weight_bytes env source rows columns raw payload
          \<and> contents out' = contents out @ payload \<and> er_source_sha256 r = [env_sha env raw]
          \<and> er_output_sha256 r = env_sha env payload \<and> er_output_bytes r = int rows * int columns))"
proof (cases "validate_fp8_plan plan sources ''weight''")
  case (Inl e)
  then show ?thesis by (simp add: fp8_weight_encoder_def)
next
  case (Inr v)
  obtain source rs cs where "v = (source, rs, cs)" by (rule prod_cases3)
  with Inr have valid: "validate_fp8_plan plan sources ''weight'' = Inr (source, rs, cs)" by simp
  note p = validate_fp8_plan_Inr [OF valid]
  obtain rows columns where dims: "rs = int rows" "cs = int columns" using p by (metis nonneg_int_cases less_imp_le)
  have k: "nat (int columns * 2) = columns * 2" by (simp add: nat_mult_distrib)
  obtain q ws' out' where run: "for_source_rows env source rows (columns * 2) (weight_row env put) weight_start (ws, out)
      = (q, ws', out')" by (metis prod_cases3)
  note post = for_source_rows_outcome [where I = "\<lambda>d t o'. rows_done rr_weight_bytes (env_sha env) (columns * 2)
        (contents out) d (wt_source_hash t) (wt_output t) (contents o')"
      and E = "\<lambda>o'. \<exists>extra. contents o' = contents out @ extra", OF assms(2) _ _ weight_row_post [OF assms(1)] _ run]
  have post: "case q of Inl e \<Rightarrow> \<exists>extra. contents out' = contents out @ extra
    | Inr t \<Rightarrow> ws_good (env_granularity env) ws' ws' \<and> (\<exists>data. env_files env (td_path source) = Some data
        \<and> rows * (columns * 2) \<le> length (drop (nat (td_absolute_offset source)) data)
        \<and> rows_done rr_weight_bytes (env_sha env) (columns * 2) (contents out)
            (take (rows * (columns * 2)) (drop (nat (td_absolute_offset source)) data))
            (wt_source_hash t) (wt_output t) (contents out'))"
    by (rule post [unfolded fst_conv snd_conv]) (simp add: weight_start_def, simp, auto simp: rows_done_def)
  have res: "fp8_weight_encoder env put plan sources ws out = Some (rbind q (\<lambda>t.
      rbind (weight_statistics env rs cs t) (\<lambda>statistics.
        Inr \<lparr>er_source_sha256 = [wt_source_hash t], er_output_sha256 = env_sha env (wt_output t),
          er_output_bytes = rs * cs, er_statistics = Some statistics\<rparr>)), ws', out')"
    using valid run dims by (cases q) (simp_all add: fp8_weight_encoder_def k)
  show ?thesis
  proof (cases q)
    case (Inl e)
    with post res show ?thesis by simp
  next
    case (Inr t)
    with post obtain data where good: "ws_good (env_granularity env) ws' ws'"
      and present: "env_files env (td_path source) = Some data"
      and bound: "rows * (columns * 2) \<le> length (drop (nat (td_absolute_offset source)) data)"
      and filled: "rows_done rr_weight_bytes (env_sha env) (columns * 2) (contents out)
        (take (rows * (columns * 2)) (drop (nat (td_absolute_offset source)) data))
        (wt_source_hash t) (wt_output t) (contents out')" by auto
    have "0 < rows" "0 < columns" using p dims by simp_all
    from rows_done_matrix [OF filled present this refl bound] good p dims Inr show ?thesis
      unfolding res by (cases "weight_statistics env rs cs t") auto
  qed
qed

lemma fp8_scale_outcome:
  assumes "sink put contents" "ws_good (env_granularity env) ws ws"
  shows "\<exists>r ws' out'. fp8_scale_encoder env put plan sources ws out = Some (r, ws', out')
    \<and> (case r of Inl e \<Rightarrow> \<exists>extra. contents out' = contents out @ extra
      | Inr r \<Rightarrow> ws_good (env_granularity env) ws' ws' \<and> (\<exists>source rows columns raw payload.
          sources = [source] \<and> td_shape source = [int rows, int columns]
          \<and> quantized_matrix rr_scale_bytes env source rows columns raw payload
          \<and> contents out' = contents out @ payload \<and> er_source_sha256 r = [env_sha env raw]
          \<and> er_output_sha256 r = env_sha env payload \<and> er_output_bytes r = int rows * 2))"
proof (cases "validate_fp8_plan plan sources ''scale''")
  case (Inl e)
  then show ?thesis by (simp add: fp8_scale_encoder_def)
next
  case (Inr v)
  obtain source rs cs where "v = (source, rs, cs)" by (rule prod_cases3)
  with Inr have valid: "validate_fp8_plan plan sources ''scale'' = Inr (source, rs, cs)" by simp
  note p = validate_fp8_plan_Inr [OF valid]
  obtain rows columns where dims: "rs = int rows" "cs = int columns" using p by (metis nonneg_int_cases less_imp_le)
  have k: "nat (int columns * 2) = columns * 2" by (simp add: nat_mult_distrib)
  obtain q ws' out' where run: "for_source_rows env source rows (columns * 2) (scale_row env put) scale_start (ws, out)
      = (q, ws', out')" by (metis prod_cases3)
  note post = for_source_rows_outcome [where I = "\<lambda>d t o'. rows_done rr_scale_bytes (env_sha env) (columns * 2)
        (contents out) d (st_source_hash t) (st_output t) (contents o')"
      and E = "\<lambda>o'. \<exists>extra. contents o' = contents out @ extra", OF assms(2) _ _ scale_row_post [OF assms(1)] _ run]
  have post: "case q of Inl e \<Rightarrow> \<exists>extra. contents out' = contents out @ extra
    | Inr t \<Rightarrow> ws_good (env_granularity env) ws' ws' \<and> (\<exists>data. env_files env (td_path source) = Some data
        \<and> rows * (columns * 2) \<le> length (drop (nat (td_absolute_offset source)) data)
        \<and> rows_done rr_scale_bytes (env_sha env) (columns * 2) (contents out)
            (take (rows * (columns * 2)) (drop (nat (td_absolute_offset source)) data))
            (st_source_hash t) (st_output t) (contents out'))"
    by (rule post [unfolded fst_conv snd_conv]) (simp add: scale_start_def, simp, auto simp: rows_done_def)
  have res: "fp8_scale_encoder env put plan sources ws out = Some (rbind q (\<lambda>t.
      Inr \<lparr>er_source_sha256 = [st_source_hash t], er_output_sha256 = env_sha env (st_output t),
          er_output_bytes = rs * 2, er_statistics = Some [(''contract_id'', PStr FP8_CONTRACT_ID),
                (''contract_version'', PInt FP8_CONTRACT_VERSION), (''component'', PStr ''scale''),
                (''rows'', PInt rs), (''columns'', PInt 1),
                (''scale_min'', PFloat (st_scale_min t)), (''scale_max'', PFloat (st_scale_max t)),
                (''zero_rows'', PInt (int (st_zero_rows t))),
                (''underflow_clamped_rows'', PInt (int (st_underflow_clamped_rows t)))]\<rparr>), ws', out')"
    using valid run dims by (cases q) (simp_all add: fp8_scale_encoder_def k)
  show ?thesis
  proof (cases q)
    case (Inl e)
    with post res show ?thesis by simp
  next
    case (Inr t)
    with post obtain data where good: "ws_good (env_granularity env) ws' ws'"
      and present: "env_files env (td_path source) = Some data"
      and bound: "rows * (columns * 2) \<le> length (drop (nat (td_absolute_offset source)) data)"
      and filled: "rows_done rr_scale_bytes (env_sha env) (columns * 2) (contents out)
        (take (rows * (columns * 2)) (drop (nat (td_absolute_offset source)) data))
        (st_source_hash t) (st_output t) (contents out')" by auto
    have "0 < rows" "0 < columns" using p dims by simp_all
    from rows_done_matrix [OF filled present this refl bound] good p dims Inr show ?thesis
      unfolding res by auto
  qed
qed

text \<open>Both keep the contract.\<close>

lemma fp8_weight_encoder_post:
  fixes put :: "'o writer" and contents :: "'o \<Rightarrow> bytes" and env :: environment
  assumes "sink put contents" "ws_good (env_granularity env) ws ws"
  shows "encoder_post contents env ws out (fp8_weight_encoder env put plan sources ws out)"
proof -
  have len: "length payload = rows * columns"
    if "quantized_matrix rr_weight_bytes env source rows columns raw payload" for source rows columns raw payload
    using that by (rule quantized_matrix_length) (simp add: quantize_row_lengths)
  from fp8_weight_outcome [OF assms, where out = out and plan = plan and sources = sources] obtain r ws' out' where
    run: "fp8_weight_encoder env put plan sources ws out = Some (r, ws', out')"
    and r: "case r of Inl e \<Rightarrow> \<exists>extra. contents out' = contents out @ extra
      | Inr r \<Rightarrow> ws_good (env_granularity env) ws' ws' \<and> (\<exists>source rows columns raw payload.
          sources = [source] \<and> td_shape source = [int rows, int columns]
          \<and> quantized_matrix rr_weight_bytes env source rows columns raw payload
          \<and> contents out' = contents out @ payload \<and> er_source_sha256 r = [env_sha env raw]
          \<and> er_output_sha256 r = env_sha env payload \<and> er_output_bytes r = int rows * int columns)" by blast
  show ?thesis
    using r unfolding run by (cases r) (auto simp: encoder_post_def len)
qed

lemma fp8_scale_encoder_post:
  fixes put :: "'o writer" and contents :: "'o \<Rightarrow> bytes" and env :: environment
  assumes "sink put contents" "ws_good (env_granularity env) ws ws"
  shows "encoder_post contents env ws out (fp8_scale_encoder env put plan sources ws out)"
proof -
  have len: "length payload = rows * 2"
    if "quantized_matrix rr_scale_bytes env source rows columns raw payload" for source rows columns raw payload
    using that by (rule quantized_matrix_length) (simp add: quantize_row_lengths)
  from fp8_scale_outcome [OF assms, where out = out and plan = plan and sources = sources] obtain r ws' out' where
    run: "fp8_scale_encoder env put plan sources ws out = Some (r, ws', out')"
    and r: "case r of Inl e \<Rightarrow> \<exists>extra. contents out' = contents out @ extra
      | Inr r \<Rightarrow> ws_good (env_granularity env) ws' ws' \<and> (\<exists>source rows columns raw payload.
          sources = [source] \<and> td_shape source = [int rows, int columns]
          \<and> quantized_matrix rr_scale_bytes env source rows columns raw payload
          \<and> contents out' = contents out @ payload \<and> er_source_sha256 r = [env_sha env raw]
          \<and> er_output_sha256 r = env_sha env payload \<and> er_output_bytes r = int rows * 2)" by blast
  show ?thesis
    using r unfolding run by (cases r) (auto simp: encoder_post_def len)
qed

interpretation fp8_weight: tensor_encoder fp8_weight_encoder
  by unfold_locales (rule fp8_weight_encoder_post)

interpretation fp8_scale: tensor_encoder fp8_scale_encoder
  by unfold_locales (rule fp8_scale_encoder_post)

section \<open>What the encoders write\<close>

text \<open>
  C24. Over any conforming output and with a workspace within its cap, each of the four encoders
  returns. On success it has appended exactly as many bytes as it reports, with the digest it
  reports, and the workspace is still within its cap; on an exception it has only appended.
\<close>

theorem encoders_append_what_they_report:
  fixes put :: "'o writer" and contents :: "'o \<Rightarrow> bytes" and env :: environment
  assumes "encode \<in> {copy_encoder, constant_bf16_one_encoder, fp8_weight_encoder, fp8_scale_encoder}"
    and "sink put contents" "0 < env_granularity env" "ws_good (env_granularity env) ws ws"
  shows "\<exists>r ws' out'. encode env put plan sources ws out = Some (r, ws', out')
    \<and> (case r of
        Inl e \<Rightarrow> \<exists>extra. contents out' = contents out @ extra
      | Inr r \<Rightarrow> \<exists>payload. contents out' = contents out @ payload \<and> er_output_bytes r = int (length payload)
          \<and> er_output_sha256 r = env_sha env payload \<and> ws_good (env_granularity env) ws' ws')"
proof -
  note posts = copying.encodes [OF assms(2-4)] bf16_scalar.encodes [OF assms(2-4)]
    fp8_weight.encodes [OF assms(2-4)] fp8_scale.encodes [OF assms(2-4)]
  have "encoder_post contents env ws out (encode env put plan sources ws out)"
    using assms(1) by (auto intro: posts)
  then show ?thesis
    by (cases "encode env put plan sources ws out") (auto simp: encoder_post_def simp del: sum.case_eq_if)
qed

text \<open>A workspace of one page, and a file that holds the 1 by 1 matrix of zero.\<close>

definition small_ws :: workspace where
  "small_ws = \<lparr>host_memory_cap_bytes = 1000000, staging_bytes = 4096, baseline_rss_bytes = 10,
     max_observed_rss_bytes = 20, max_header_bytes = 0, max_tensor_bytes = 0, max_mapped_window_bytes = 0,
     maximum_transform_row_bytes = 0, readings = 2\<rparr>"

definition matrix_env :: environment where
  "matrix_env = \<lparr>env_sha = map (\<lambda>b. char_of (unat b)), env_granularity = 4096, env_rss = \<lambda>n. (10, 20),
     env_parse = \<lambda>raw. None, env_compact = \<lambda>v. [], env_canonical = \<lambda>v. [], env_text = \<lambda>v. [],
     env_sqrt = Inr, env_log10 = Inr, env_resolve = Some, env_entry = \<lambda>p. Regular 2, env_symlink = \<lambda>p. False,
     env_files = \<lambda>p. Some zero_row\<rparr>"

definition matrix_source :: tensor_descriptor where
  "matrix_source = \<lparr>td_name = ''m'', td_dtype = ''BF16'', td_shape = [1, 1], td_shard = ''s'', td_path = ''s'',
     td_absolute_offset = 0, td_data_offset = 0, td_byte_length = 2, td_shard_sha256 = []\<rparr>"

lemma small_ws_good: "ws_good 4096 small_ws small_ws"
  by (simp add: ws_good_def small_ws_def within_cap_def windows_within_def)

definition matrix_plan :: "string \<Rightarrow> tensor_compile_plan" where
  "matrix_plan dtype = \<lparr>output_name = ''o'', operation_id = ''op'', source_names = [''m''], encoder = ''e'',
     transformation = ''t'', transformation_version = 1, output_dtype = dtype, physical_shape = [1, 1],
     logical_dtype = ''BF16'', logical_shape = [1, 1], axis_transformation = ''a'', quantizer_parameters = [],
     dequantization_equation = ''d'', role = ''r'', residency_class = ''c'', disk_layout = ''l'',
     runtime_layout = ''l'', aliased = False\<rparr>"

theorem encoders_append_what_they_report_witness:
  "copy_encoder \<in> {copy_encoder, constant_bf16_one_encoder, fp8_weight_encoder, fp8_scale_encoder :: bytes encoder}
   \<and> (\<exists>r ws' out'. copy_encoder matrix_env slow_stream (matrix_plan ''BF16'') [matrix_source] small_ws [7]
        = Some (Inr r, ws', out') \<and> out' = [7, 0, 0] \<and> er_output_bytes r = 2)"
proof -
  have good: "0 < env_granularity matrix_env" "ws_good (env_granularity matrix_env) small_ws small_ws"
    by (simp_all add: matrix_env_def small_ws_good)
  have "output_bytes (matrix_plan ''BF16'') = Inr 2"
    by (simp add: output_bytes_def matrix_plan_def tensor_bytes_Inr DTYPE_BYTES_def UINT64_MAX_def)
  then have "\<exists>r st. copy_encoder matrix_env slow_stream (matrix_plan ''BF16'') [matrix_source] small_ws [7] = Some (Inr r, st)
      \<and> er_output_bytes r = 2 \<and> snd st = [7, 0, 0]"
    by (simp add: copy_encoder_def matrix_source_def copy_range_def mapped_tensor_range_def range_loop_unfold
        mapped_body_def mapped_window_def matrix_env_def zero_row_def small_ws_def record_tensor_def
        workspace_check_def Let_def write_all.simps slow_stream_def write_progress_def)
  then obtain r ws' out' where run: "copy_encoder matrix_env slow_stream (matrix_plan ''BF16'') [matrix_source] small_ws [7]
      = Some (Inr r, ws', out')" "er_output_bytes r = 2" "out' = [7, 0, 0]" by auto
  from encoders_append_what_they_report [OF _ slow_stream_sink good, of copy_encoder "matrix_plan ''BF16''"
      "[matrix_source]" "[7]"] run
  show ?thesis by simp
qed

lemma concat_uniform_inject:
  "concat xs = concat ys \<Longrightarrow> length xs = length ys \<Longrightarrow> \<forall>x\<in>set xs. length x = k \<Longrightarrow> \<forall>y\<in>set ys. length y = k \<Longrightarrow> xs = ys"
proof (induction xs arbitrary: ys)
  case (Cons x xs)
  then obtain y ys' where "ys = y # ys'" by (cases ys) auto
  with Cons show ?case by auto
qed simp

text \<open>
  C11. The weight and the scale of one matrix, encoded in two separate passes over the file, are
  the two halves of one quantization: there is a single split of the source bytes into rows, and
  row by row the codes and the scale come from the same run of the row quantizer.
\<close>

theorem fp8_passes_agree:
  fixes put :: "'o writer" and contents :: "'o \<Rightarrow> bytes" and env :: environment
  assumes "sink put contents" "ws_good (env_granularity env) ws ws" "ws_good (env_granularity env) ws2 ws2"
    and "fp8_weight_encoder env put plan [source] ws out = Some (Inr weight, ws', out')"
    and "fp8_scale_encoder env put plan2 [source] ws2 out2 = Some (Inr scale, ws2', out2')"
  shows "\<exists>rows columns data views rs. td_shape source = [int rows, int columns]
    \<and> env_files env (td_path source) = Some data
    \<and> concat views = take (rows * (columns * 2)) (drop (nat (td_absolute_offset source)) data)
    \<and> length views = rows \<and> (\<forall>v\<in>set views. length v = columns * 2)
    \<and> rmap quantize_bf16_row views = Inr rs
    \<and> contents out' = contents out @ concat (map rr_weight_bytes rs)
    \<and> contents out2' = contents out2 @ concat (map rr_scale_bytes rs)
    \<and> er_source_sha256 weight = [env_sha env (concat views)] \<and> er_source_sha256 scale = er_source_sha256 weight"
proof -
  from fp8_weight_outcome [OF assms(1,2), where out = out and plan = plan and sources = "[source]"] assms(4)
  obtain rows columns raw payload where w: "td_shape source = [int rows, int columns]"
    "quantized_matrix rr_weight_bytes env source rows columns raw payload"
    "contents out' = contents out @ payload" "er_source_sha256 weight = [env_sha env raw]" by auto
  from fp8_scale_outcome [OF assms(1,3), where out = out2 and plan = plan2 and sources = "[source]"] assms(5) w(1)
  obtain raw2 payload2 where s: "quantized_matrix rr_scale_bytes env source rows columns raw2 payload2"
    "contents out2' = contents out2 @ payload2" "er_source_sha256 scale = [env_sha env raw2]" by auto
  from w(2) obtain data views rs where v: "env_files env (td_path source) = Some data"
    "raw = take (rows * (columns * 2)) (drop (nat (td_absolute_offset source)) data)" "raw = concat views"
    "length views = rows" "\<forall>v\<in>set views. length v = columns * 2" "rmap quantize_bf16_row views = Inr rs"
    "payload = concat (map rr_weight_bytes rs)" by (auto simp: quantized_matrix_def)
  from s(1) v(1,2) obtain views2 rs2 where v2: "raw2 = raw" "raw2 = concat views2"
    "length views2 = rows" "\<forall>v\<in>set views2. length v = columns * 2" "rmap quantize_bf16_row views2 = Inr rs2"
    "payload2 = concat (map rr_scale_bytes rs2)" unfolding quantized_matrix_def by auto
  have "views2 = views"
    using v(3,4,5) v2(1-4) by (intro concat_uniform_inject) auto
  with v v2 have "rs2 = rs" by simp
  show ?thesis
    using w s v v2 \<open>rs2 = rs\<close> \<open>views2 = views\<close>
    by (intro exI [of _ rows] exI [of _ columns] exI [of _ data] exI [of _ views] exI [of _ rs]) auto
qed

lemma small_check: "host_memory_cap_bytes ws = 1000000 \<Longrightarrow>
    \<exists>ws'. workspace_check (env_rss matrix_env) ws = (Inr (), ws') \<and> host_memory_cap_bytes ws' = 1000000"
  by (simp add: matrix_env_def workspace_check_def Let_def)

lemma zero_matrix_rows:
  fixes body :: "bytes \<Rightarrow> bytes \<Rightarrow> 't \<Rightarrow> (workspace \<times> bytes, 't) prog"
  assumes "\<And>ws. host_memory_cap_bytes ws = 1000000 \<Longrightarrow> \<exists>ws'. body zero_row zero_row totals (ws, out)
      = (Inr totals', (ws', out')) \<and> host_memory_cap_bytes ws' = 1000000"
  shows "\<exists>ws'. for_source_rows matrix_env matrix_source 1 2 body totals (small_ws, out) = (Inr totals', ws', out')"
proof -
  obtain ws1 where rec: "record_transform_row (env_rss matrix_env) 2 small_ws = (Inr (), ws1)"
    "host_memory_cap_bytes ws1 = 1000000"
    by (simp add: record_transform_row_def small_ws_def matrix_env_def workspace_check_def Let_def)
  from assms [OF rec(2)] obtain ws2 where body: "body zero_row zero_row totals (ws1, out) = (Inr totals', (ws2, out'))"
    "host_memory_cap_bytes ws2 = 1000000" by blast
  from small_check [OF body(2)] obtain ws3 where chk: "workspace_check (env_rss matrix_env) ws2 = (Inr (), ws3)" by blast
  have row: "read_row zero_row 0 2 [] = Inr zero_row"
    by (simp add: read_row.simps [of "[0, 0]"] zero_row_def file_read_def Let_def)
  have iteration: "row_iteration matrix_env zero_row 0 2 body ([], totals) 0 (small_ws, out)
      = (Inr (zero_row, totals'), ws3, out')"
    by (simp add: row_iteration_def rec row body chk)
  have present: "env_files matrix_env (td_path matrix_source) = Some zero_row"
    and range: "td_absolute_offset matrix_source = 0" "td_byte_length matrix_source = 2" "length zero_row = 2"
      "staging_bytes small_ws = 4096"
    by (simp_all add: matrix_env_def matrix_source_def zero_row_def small_ws_def)
  show ?thesis
    by (simp add: for_source_rows_def present range iteration)
qed

lemma write_zero_row:
  assumes "host_memory_cap_bytes ws = 1000000" "length payload \<le> 2" "payload \<noteq> []"
  shows "\<exists>ws'. write_row matrix_env slow_stream payload t (ws, []) = (Inr t, (ws', payload)) \<and> host_memory_cap_bytes ws' = 1000000"
proof -
  have "write_all slow_stream [] payload = (Inr (), payload)"
    using assms(2,3) by (simp add: write_all.simps [of slow_stream "[]"] slow_stream_def write_progress_def)
  with small_check [OF assms(1)] show ?thesis by (auto simp: write_row_def)
qed

theorem fp8_passes_agree_witness:
  "\<exists>weight ws' scale ws2'. fp8_weight_encoder matrix_env slow_stream (matrix_plan ''F8_E4M3'') [matrix_source] small_ws []
        = Some (Inr weight, ws', [0])
    \<and> fp8_scale_encoder matrix_env slow_stream (matrix_plan ''BF16'') [matrix_source] small_ws []
        = Some (Inr scale, ws2', [0x80, 0x3f])
    \<and> er_source_sha256 scale = er_source_sha256 weight"
proof -
  from quantize_zero_row obtain r where r: "quantize_bf16_row zero_row = Inr r" "rr_weight_bytes r = [0]"
    and scale: "rr_scale_bytes r = [0x80, 0x3f]" "rr_scale_value r = Fin False 1" "rr_saturation_count r = 0"
    and metrics: "rr_metrics r = \<lparr>rm_element_count = 1, rm_source_min = Fin False 0, rm_source_max = Fin False 0,
       rm_source_sum_squares = Fin False 0, rm_reconstruction_sum_squares = Fin False 0,
       rm_source_reconstruction_dot = Fin False 0, rm_error_sum_squares = Fin False 0,
       rm_max_absolute_error = Fin False 0\<rparr>" by blast
  have plans: "validate_fp8_plan (matrix_plan ''F8_E4M3'') [matrix_source] ''weight'' = Inr (matrix_source, 1, 1)"
    "validate_fp8_plan (matrix_plan ''BF16'') [matrix_source] ''scale'' = Inr (matrix_source, 1, 1)"
    by (simp_all add: validate_fp8_plan_def matrix_plan_def matrix_source_def output_bytes_def tensor_bytes_Inr
        DTYPE_BYTES_def UINT64_MAX_def Let_def)
  let ?t = "add_weight_row matrix_env zero_row r weight_start"
  obtain ws' where rows: "for_source_rows matrix_env matrix_source 1 2 (weight_row matrix_env slow_stream) weight_start
      (small_ws, []) = (Inr ?t, ws', [0])"
    using zero_matrix_rows [of "weight_row matrix_env slow_stream" weight_start "[]" ?t "[0]"] write_zero_row [of _ "[0]" ?t]
    by (auto simp: weight_row_def r)
  obtain t2 ws2' where rows2: "for_source_rows matrix_env matrix_source 1 2 (scale_row matrix_env slow_stream) scale_start
      (small_ws, []) = (Inr t2, ws2', [0x80, 0x3f])"
    using zero_matrix_rows [of "scale_row matrix_env slow_stream" scale_start "[]" _ "[0x80, 0x3f]"]
      write_zero_row [of _ "[0x80, 0x3f]"]
    by (fastforce simp: scale_row_def r scale)
  have "\<exists>statistics. weight_statistics matrix_env 1 1 ?t = Inr statistics"
    by (simp add: weight_statistics_def add_weight_row_def metrics scale weight_start_def matrix_env_def
        nonzero_def py_true_def cosine_of_def check_finite_def round_signed_def fval_def round_mag_binary64_1
        float_of_int_def int_true_div_def py_min_def py_max_def Let_def)
  then obtain statistics where statistics: "weight_statistics matrix_env 1 1 ?t = Inr statistics" by blast
  let ?weight = "\<lparr>er_source_sha256 = [wt_source_hash ?t], er_output_sha256 = env_sha matrix_env (wt_output ?t),
      er_output_bytes = 1, er_statistics = Some statistics\<rparr>"
  have weight: "fp8_weight_encoder matrix_env slow_stream (matrix_plan ''F8_E4M3'') [matrix_source] small_ws []
      = Some (Inr ?weight, ws', [0])"
    by (simp add: fp8_weight_encoder_def plans rows [simplified] statistics)
  have "\<exists>scale. fp8_scale_encoder matrix_env slow_stream (matrix_plan ''BF16'') [matrix_source] small_ws []
      = Some (Inr scale, ws2', [0x80, 0x3f])"
    by (simp add: fp8_scale_encoder_def plans rows2 [simplified])
  then obtain scale where scale: "fp8_scale_encoder matrix_env slow_stream (matrix_plan ''BF16'') [matrix_source] small_ws []
      = Some (Inr scale, ws2', [0x80, 0x3f])" by blast
  have good: "ws_good (env_granularity matrix_env) small_ws small_ws"
    by (simp add: matrix_env_def small_ws_good)
  from fp8_passes_agree [OF slow_stream_sink good good weight scale] weight scale
  show ?thesis by blast
qed

end
