(* ===== verification/Native_Facts.thy ===== *)
theory Native_Facts
  imports Native_FP8 Encoder_Facts
begin

text \<open>
  The native FP8 bundle: its encoders keep the encoder contract and pass on only bytes with the
  digest the telemetry states; its job pairs the tensors of a plan without losing one and gives
  them consecutive ranges of the payload.
\<close>

section \<open>The encoders\<close>

lemma bundle_result_Inr:
  assumes "bundle_result env weight entry len output_hash = Inr r"
  shows "er_output_sha256 r = output_hash \<and> er_output_bytes r = len \<and> er_source_sha256 r = [nm_source_sha256 entry]
    \<and> dict_get (nm_telemetry entry) (if weight then ''weight_sha256'' else ''scale_sha256'') = Some (PStr output_hash)"
  using assms by (auto simp: bundle_result_def Let_def)

lemma native_bundle_outcome:
  assumes "sink put contents" "0 < env_granularity env" "ws_good (env_granularity env) ws ws"
  shows "\<exists>r ws' out'. native_bundle_encoder nb weight env put plan sources ws out = Some (r, ws', out')
    \<and> (case r of Inl e \<Rightarrow> \<exists>extra. contents out' = contents out @ extra
      | Inr r \<Rightarrow> ws_good (env_granularity env) ws' ws' \<and> (\<exists>source entry data payload offset len.
          sources = [source] \<and> dict_get (nb_matrices nb) (output_name plan) = Some entry
          \<and> nm_source_name entry = td_name source \<and> env_files env (nb_payload nb) = Some data
          \<and> (offset, len) = (if weight then (nm_weight_offset entry, nm_weight_bytes entry)
              else (nm_scale_offset entry, nm_scale_bytes entry))
          \<and> 0 \<le> offset \<and> 0 \<le> len \<and> (len = 0 \<or> offset + len \<le> int (length data))
          \<and> payload = take (nat len) (drop (nat offset) data) \<and> int (length payload) = len
          \<and> contents out' = contents out @ payload
          \<and> dict_get (nm_telemetry entry) (if weight then ''weight_sha256'' else ''scale_sha256'')
              = Some (PStr (env_sha env payload))
          \<and> er_source_sha256 r = [nm_source_sha256 entry] \<and> er_output_sha256 r = env_sha env payload
          \<and> er_output_bytes r = len))"
proof (cases "\<exists>source entry. sources = [source] \<and> dict_get (nb_matrices nb) (output_name plan) = Some entry
    \<and> nm_source_name entry = td_name source")
  case False
  then show ?thesis
    by (auto simp: native_bundle_encoder_def split: list.splits option.splits)
next
  case True
  then obtain source entry where entry: "sources = [source]"
    "dict_get (nb_matrices nb) (output_name plan) = Some entry" "nm_source_name entry = td_name source" by blast
  obtain offset len where range: "(offset, len) = (if weight then (nm_weight_offset entry, nm_weight_bytes entry)
      else (nm_scale_offset entry, nm_scale_bytes entry))" by (cases weight) auto
  show ?thesis
  proof (cases "env_files env (nb_payload nb)")
    case None
    with entry show ?thesis
      by (simp add: native_bundle_encoder_def range [symmetric] copy_range_def)
  next
    case (Some data)
    let ?payload = "take (nat len) (drop (nat offset) data)"
    from copy_range_outcome [OF assms(1,3,2), of "env_sha env" "env_rss env" False data offset len out]
    obtain q ws' out' where
      run: "copy_range (env_sha env) (env_granularity env) (env_rss env) put False (Some data) offset len ws out
         = Some (q, ws', out')"
      and q: "case q of
          Inl e \<Rightarrow> \<exists>extra. contents out' = contents out @ extra
        | Inr (source_hash, output_hash) \<Rightarrow>
            0 \<le> offset \<and> 0 \<le> len \<and> (len = 0 \<or> offset + len \<le> int (length data))
            \<and> contents out' = contents out @ ?payload
            \<and> source_hash = env_sha env ?payload \<and> output_hash = source_hash
            \<and> ws_good (env_granularity env) ws ws'" by blast
    have res: "native_bundle_encoder nb weight env put plan sources ws out
        = Some (rbind q (\<lambda>(_, output_hash). bundle_result env weight entry len output_hash), ws', out')"
      using entry Some run by (simp add: native_bundle_encoder_def range [symmetric])
    show ?thesis
    proof (cases q)
      case (Inl e)
      with q res show ?thesis by simp
    next
      case (Inr hashes)
      with q have ok: "hashes = (env_sha env ?payload, env_sha env ?payload)" "0 \<le> offset" "0 \<le> len"
        "len = 0 \<or> offset + len \<le> int (length data)" "contents out' = contents out @ ?payload"
        "ws_good (env_granularity env) ws' ws'" by (auto dest: ws_good_self)
      have size: "int (length ?payload) = len" using ok(2-4) by auto
      show ?thesis
      proof (cases "bundle_result env weight entry len (env_sha env ?payload)")
        case (Inl e)
        with res Inr ok show ?thesis by auto
      next
        case r: (Inr r)
        from bundle_result_Inr [OF r] res Inr ok entry Some range size r
        show ?thesis by auto
      qed
    qed
  qed
qed

lemma native_bundle_encoder_post:
  fixes put :: "'o writer" and contents :: "'o \<Rightarrow> bytes" and env :: environment
  assumes "sink put contents" "0 < env_granularity env" "ws_good (env_granularity env) ws ws"
  shows "encoder_post contents env ws out (native_bundle_encoder nb weight env put plan sources ws out)"
proof -
  obtain r ws' out' where run: "native_bundle_encoder nb weight env put plan sources ws out = Some (r, ws', out')"
    using native_bundle_outcome [OF assms] by blast
  show ?thesis
    using native_bundle_outcome [OF assms, of nb weight plan sources out] unfolding run
    by (cases r) (auto simp: encoder_post_def)
qed

interpretation native: tensor_encoder "native_bundle_encoder nb weight" for nb weight
  by unfold_locales (rule native_bundle_encoder_post)

section \<open>Pairing the plan\<close>

lemma dict_append_Cons:
  "dict_append k x ((j, v) # d) = (if j = k then (j, v @ [x]) # d else (j, v) # dict_append k x d)"
  by (simp add: dict_append_def)

lemma dict_append_Nil: "dict_append k x [] = [(k, [x])]"
  by (simp add: dict_append_def)

lemma mset_dict_append: "mset (concat (map snd (dict_append k x d))) = add_mset x (mset (concat (map snd d)))"
  by (induction d) (auto simp: dict_append_Nil dict_append_Cons)

lemma dict_wf_append: "dict_wf d \<Longrightarrow> dict_wf (dict_append k x d)"
  by (simp add: dict_append_def)

definition keyed :: "tensor_compile_plan list dict \<Rightarrow> bool" where
  "keyed d \<longleftrightarrow> (\<forall>(k, vs)\<in>set d. \<forall>v\<in>set vs. operation_id v = k)"

lemma keyed_simps: "keyed []" "keyed ((k, vs) # d) \<longleftrightarrow> (\<forall>v\<in>set vs. operation_id v = k) \<and> keyed d"
  by (simp_all add: keyed_def)

lemma keyed_append: "keyed d \<Longrightarrow> keyed (dict_append (operation_id t) t d)"
  by (induction d) (auto simp: dict_append_Nil dict_append_Cons keyed_simps)

lemma grouped:
  "mset (concat (map snd (foldl group_operation [] tensors))) = mset tensors
   \<and> dict_wf (foldl group_operation [] tensors) \<and> keyed (foldl group_operation [] tensors)"
proof (induction tensors rule: rev_induct)
  case Nil
  show ?case by (simp add: dict_wf_def keyed_def)
next
  case (snoc t tensors)
  let ?d = "foldl group_operation [] tensors"
  have "foldl group_operation [] (tensors @ [t]) = dict_append (operation_id t) t ?d"
    by (simp add: group_operation_def)
  with snoc show ?case by (simp only: mset_dict_append dict_wf_append keyed_append) simp
qed

lemma pair_of_Inr:
  assumes "pair_of elements = Inr (w, s)"
  shows "mset elements = {#w, s#} \<and> encoder w = ''fp8-rowwise-weight-v1'' \<and> encoder s = ''fp8-rowwise-scale-v1''
    \<and> source_names w = source_names s"
proof -
  from assms obtain a b where ab: "elements = [a, b]"
    by (auto simp: pair_of_def split: list.splits)
  show ?thesis
    using assms unfolding ab pair_of_def by (auto split: if_splits)
qed

definition pair_elements :: "plan_pair list \<Rightarrow> tensor_compile_plan list" where
  "pair_elements pairs = concat (map (\<lambda>(w, s). [w, s]) pairs)"

definition proper_pair :: "plan_pair \<Rightarrow> bool" where
  "proper_pair p \<longleftrightarrow> (case p of (w, s) \<Rightarrow> encoder w = ''fp8-rowwise-weight-v1'' \<and> encoder s = ''fp8-rowwise-scale-v1''
     \<and> source_names w = source_names s \<and> operation_id w = operation_id s)"

lemma rmap_pairs:
  assumes "rmap (\<lambda>(operation, elements). pair_of elements) d = Inr pairs" "keyed d"
  shows "mset (pair_elements pairs) = mset (concat (map snd d)) \<and> (\<forall>p\<in>set pairs. proper_pair p)
    \<and> map (\<lambda>(w, s). operation_id w) pairs = map fst d"
  using assms
proof (induction d arbitrary: pairs)
  case Nil
  then show ?case by (simp add: pair_elements_def)
next
  case (Cons g d)
  obtain k vs where g: "g = (k, vs)" by fastforce
  from Cons.prems(1) g obtain w s ps where p: "pair_of vs = Inr (w, s)" "pairs = (w, s) # ps"
    "rmap (\<lambda>(operation, elements). pair_of elements) d = Inr ps" by auto
  note pr = pair_of_Inr [OF p(1)]
  have "set vs = {w, s}" using pr by (metis set_mset_mset set_mset_add_mset_insert set_mset_empty)
  with Cons.prems(2) g have op: "operation_id w = k" "operation_id s = k" by (auto simp: keyed_def)
  have "keyed d" using Cons.prems(2) by (simp add: keyed_def)
  from Cons.IH [OF p(3) this] pr op g p(2) show ?case
    by (auto simp: pair_elements_def proper_pair_def)
qed

lemma mset_concat_sorted: "mset (concat (map snd (dict_sorted d))) = mset (concat (map snd d))"
proof -
  have "mset (map (mset \<circ> snd) (dict_sorted d)) = mset (map (mset \<circ> snd) d)"
    by (simp add: dict_sorted_def mset_map)
  then have "sum_list (map (mset \<circ> snd) (dict_sorted d)) = sum_list (map (mset \<circ> snd) d)"
    by (metis sum_mset_sum_list)
  then show ?thesis by (simp add: mset_concat)
qed

lemma keyed_sorted: "keyed d \<Longrightarrow> keyed (dict_sorted d)"
  by (simp add: keyed_def dict_sorted_def)

lemma pair_plans_Inr:
  assumes "pair_plans plan = Inr pairs"
  shows "mset (pair_elements pairs) = mset (qp_tensors plan) \<and> (\<forall>p\<in>set pairs. proper_pair p)
    \<and> sorted (map (\<lambda>(w, s). operation_id w) pairs) \<and> distinct (map (\<lambda>(w, s). operation_id w) pairs)"
proof -
  let ?d = "foldl group_operation [] (qp_tensors plan)"
  note g = grouped [of "qp_tensors plan"]
  from assms have "rmap (\<lambda>(operation, elements). pair_of elements) (dict_sorted ?d) = Inr pairs"
    by (simp add: pair_plans_def)
  from rmap_pairs [OF this keyed_sorted] g have "mset (pair_elements pairs) = mset (concat (map snd (dict_sorted ?d)))"
    "\<forall>p\<in>set pairs. proper_pair p" "map (\<lambda>(w, s). operation_id w) pairs = map fst (dict_sorted ?d)" by blast+
  moreover have "sorted (map fst (dict_sorted ?d))" by (simp add: dict_sorted_def)
  moreover have "distinct (map fst (dict_sorted ?d))" using g dict_wf_sorted [of ?d] by (simp add: dict_wf_def)
  ultimately show ?thesis using g by (simp add: mset_concat_sorted)
qed

section \<open>The job\<close>

text \<open>Ranges that follow one another from \<open>start\<close> to \<open>stop\<close>.\<close>

fun consecutive :: "int \<Rightarrow> (int \<times> int) list \<Rightarrow> int \<Rightarrow> bool" where
  "consecutive start [] stop \<longleftrightarrow> start = stop"
| "consecutive start ((offset, len) # ranges) stop \<longleftrightarrow> offset = start \<and> 0 \<le> len \<and> consecutive (start + len) ranges stop"

lemma consecutive_append:
  "consecutive start (xs @ ys) stop \<longleftrightarrow> (\<exists>mid. consecutive start xs mid \<and> consecutive mid ys stop)"
  by (induction xs arbitrary: start) auto

lemma consecutive_le: "consecutive start ranges stop \<Longrightarrow> start \<le> stop"
  by (induction ranges arbitrary: start) fastforce+

lemma consecutive_in:
  "consecutive start ranges stop \<Longrightarrow> (offset, len) \<in> set ranges \<Longrightarrow> start \<le> offset \<and> 0 \<le> len \<and> offset + len \<le> stop"
  by (induction ranges arbitrary: start) (fastforce dest: consecutive_le)+

text \<open>Two of them never overlap.\<close>

lemma consecutive_disjoint:
  assumes "consecutive start ranges stop" "i < j" "j < length ranges"
  shows "fst (ranges ! i) + snd (ranges ! i) \<le> fst (ranges ! j)"
  using assms
proof (induction ranges arbitrary: start i j)
  case (Cons r ranges)
  obtain offset len where r: "r = (offset, len)" by fastforce
  from Cons.prems(2,3) obtain j' where j: "j = Suc j'" "j' < length ranges" by (cases j) auto
  have rest: "consecutive (offset + len) ranges stop" using Cons.prems(1) r by simp
  show ?case
  proof (cases i)
    case 0
    have "ranges ! j' \<in> set ranges" using j by simp
    then show ?thesis using consecutive_in [OF rest, of "fst (ranges ! j')" "snd (ranges ! j')"] 0 r j by simp
  next
    case (Suc i')
    with Cons.IH [OF rest, of i' j'] Cons.prems(2) j show ?thesis by simp
  qed
qed simp

lemma output_bytes_nonneg: "output_bytes t = Inr n \<Longrightarrow> 0 \<le> n"
  by (simp add: output_bytes_def tensor_bytes_nonneg)

definition matrix_ranges :: "job_matrix list \<Rightarrow> (int \<times> int) list" where
  "matrix_ranges ms = concat (map (\<lambda>m. [(jm_weight_offset m, jm_weight_bytes m), (jm_scale_offset m, jm_scale_bytes m)]) ms)"

text \<open>What an entry of the job says of its pair.\<close>

definition describes :: "environment \<Rightarrow> sources \<Rightarrow> plan_pair \<Rightarrow> job_matrix \<Rightarrow> bool" where
  "describes env source_tensors pair m \<longleftrightarrow> (case pair of (w, s) \<Rightarrow> (\<exists>source.
     source_names w = [jm_source_name m] \<and> dict_get source_tensors (jm_source_name m) = Some source
     \<and> td_dtype source = ''BF16'' \<and> td_shape source = [jm_rows m, jm_columns m]
     \<and> physical_shape w = [jm_rows m, jm_columns m] \<and> physical_shape s = [jm_rows m, 1]
     \<and> env_resolve env (td_path source) = Some (jm_source_path m)
     \<and> jm_source_offset m = td_absolute_offset source \<and> jm_source_bytes m = td_byte_length source
     \<and> jm_weight_output_name m = output_name w \<and> output_bytes w = Inr (jm_weight_bytes m)
     \<and> jm_scale_output_name m = output_name s \<and> output_bytes s = Inr (jm_scale_bytes m)))"

lemma make_matrix_Inr:
  assumes "make_matrix env source_tensors offset pair = Inr m"
  shows "describes env source_tensors pair m \<and> jm_weight_offset m = offset
    \<and> jm_scale_offset m = offset + jm_weight_bytes m"
proof -
  obtain w s where pair: "pair = (w, s)" by fastforce
  from assms obtain n where n: "source_names w = [n]"
    by (auto simp: make_matrix_def pair split: list.splits)
  obtain source rows columns where src: "dict_get source_tensors n = Some source" "td_dtype source = ''BF16''"
    "td_shape source = [rows, columns]"
    using assms by (auto simp: make_matrix_def pair n split: option.splits bool.splits list.splits)
  then have view: "map_option (\<lambda>source. (source, td_dtype source = ''BF16'', td_shape source)) (dict_get source_tensors n)
      = Some (source, True, [rows, columns])" by simp
  obtain p where p: "env_resolve env (td_path source) = Some p"
    using assms by (cases "env_resolve env (td_path source)") (simp_all add: make_matrix_def pair n view)
  show ?thesis
    using assms src by (auto simp: make_matrix_def pair n view p describes_def)
qed

lemma job_fold:
  assumes "rfold (job_step env source_tensors) ([], 0) pairs = Inr (matrices, stop)"
  shows "list_all2 (describes env source_tensors) pairs matrices \<and> consecutive 0 (matrix_ranges matrices) stop"
proof -
  define J where "J done acc \<longleftrightarrow> list_all2 (describes env source_tensors) done (fst acc)
      \<and> consecutive 0 (matrix_ranges (fst acc)) (snd acc)" for "done" and acc :: "job_matrix list \<times> int"
  have "J pairs (matrices, stop)"
  proof (rule rfold_invariant [OF assms])
    show "J [] ([], 0)" by (simp add: J_def matrix_ranges_def)
    fix ys y zs and acc acc' :: "job_matrix list \<times> int"
    assume J: "J ys acc" and step: "job_step env source_tensors acc y = Inr acc'"
    obtain ms offset where acc: "acc = (ms, offset)" by fastforce
    from step acc obtain m where m: "make_matrix env source_tensors offset y = Inr m"
      "acc' = (ms @ [m], offset + (jm_weight_bytes m + jm_scale_bytes m))" by (auto simp: job_step_def)
    note d = make_matrix_Inr [OF m(1)]
    then have "0 \<le> jm_weight_bytes m" "0 \<le> jm_scale_bytes m"
      by (auto simp: describes_def dest: output_bytes_nonneg split: prod.splits)
    with d m(2) J acc show "J (ys @ [y]) acc'"
      by (auto simp: J_def matrix_ranges_def consecutive_append intro: list_all2_appendI)
  qed
  then show ?thesis by (simp add: J_def)
qed

lemma make_job_Inr:
  assumes "make_job env plan source_tensors payload_bytes threads = Inr (job, pairs)"
  shows "pair_plans plan = Inr pairs \<and> list_all2 (describes env source_tensors) pairs (job_matrices job)
    \<and> consecutive 0 (matrix_ranges (job_matrices job)) payload_bytes
    \<and> job_payload_bytes job = payload_bytes \<and> job_threads job = threads"
proof -
  from assms obtain matrices where m: "pair_plans plan = Inr pairs"
    "rfold (job_step env source_tensors) ([], 0) pairs = Inr (matrices, payload_bytes)"
    "job = \<lparr>job_threads = threads, job_payload_bytes = payload_bytes, job_matrices = matrices\<rparr>"
    by (auto simp: make_job_def)
  with job_fold [OF m(2)] show ?thesis by simp
qed

section \<open>The bundle\<close>

definition same_matrix :: "job_matrix \<Rightarrow> native_matrix \<Rightarrow> bool" where
  "same_matrix m e \<longleftrightarrow> nm_source_name e = jm_source_name m \<and> nm_weight_name e = jm_weight_output_name m
     \<and> nm_scale_name e = jm_scale_output_name m \<and> nm_weight_offset e = jm_weight_offset m
     \<and> nm_weight_bytes e = jm_weight_bytes m \<and> nm_scale_offset e = jm_scale_offset m
     \<and> nm_scale_bytes e = jm_scale_bytes m \<and> nm_rows e = jm_rows m \<and> nm_columns e = jm_columns m
     \<and> nm_source_sha256 e = jm_source_sha256 m"

lemma same_entry: "same_matrix m (native_entry item m)"
  by (simp add: same_matrix_def native_entry_def)

definition job_names :: "job_matrix list \<Rightarrow> string list" where
  "job_names ms = concat (map (\<lambda>m. [jm_weight_output_name m, jm_scale_output_name m]) ms)"

definition entry_names :: "native_matrix list \<Rightarrow> string list" where
  "entry_names es = concat (map (\<lambda>e. [nm_weight_name e, nm_scale_name e]) es)"

definition entry_ranges :: "native_matrix list \<Rightarrow> (int \<times> int) list" where
  "entry_ranges es = concat (map (\<lambda>e. [(nm_weight_offset e, nm_weight_bytes e), (nm_scale_offset e, nm_scale_bytes e)]) es)"

lemma same_matrices:
  assumes "list_all2 same_matrix ms es"
  shows "entry_names es = job_names ms \<and> entry_ranges es = matrix_ranges ms"
  using assms
  by (induction rule: list_all2_induct)
    (auto simp: entry_names_def job_names_def entry_ranges_def matrix_ranges_def same_matrix_def)

definition served :: "native_matrix dict \<Rightarrow> native_matrix \<Rightarrow> bool" where
  "served d e \<longleftrightarrow> dict_get d (nm_weight_name e) = Some e \<and> dict_get d (nm_scale_name e) = Some e"

lemma bundle_fold:
  assumes "rfold (bundle_step items) [] ms = Inr d" "distinct (job_names ms)"
  shows "\<exists>es. list_all2 same_matrix ms es \<and> (\<forall>e\<in>set es. served d e)"
proof -
  define J where "J ys acc \<longleftrightarrow> (\<exists>es. list_all2 same_matrix ys es \<and> (\<forall>e\<in>set es. served acc e))" for ys acc
  have "J ms d"
  proof (rule rfold_invariant [OF assms(1)])
    show "J [] []" by (simp add: J_def)
    fix ys y zs acc acc'
    assume split: "ms = ys @ y # zs" and J: "J ys acc" and step: "bundle_step items acc y = Inr acc'"
    from J obtain es where es: "list_all2 same_matrix ys es" "\<forall>e\<in>set es. served acc e" by (auto simp: J_def)
    from step obtain e where e: "same_matrix y e"
      "acc' = dict_set (jm_scale_output_name y) e (dict_set (jm_weight_output_name y) e acc)"
      using same_entry by (auto simp: bundle_step_def Let_def)
    have names: "set (entry_names es) = set (job_names ys)" using same_matrices [OF es(1)] by simp
    have fresh: "jm_weight_output_name y \<notin> set (job_names ys)" "jm_scale_output_name y \<notin> set (job_names ys)"
      using assms(2) split by (auto simp: job_names_def)
    have "served acc' e'" if "e' \<in> set es" for e'
    proof -
      have "nm_weight_name e' \<in> set (job_names ys)" "nm_scale_name e' \<in> set (job_names ys)"
        using that unfolding names [symmetric] by (auto simp: entry_names_def)
      with fresh have "nm_weight_name e' \<noteq> jm_weight_output_name y" "nm_weight_name e' \<noteq> jm_scale_output_name y"
        "nm_scale_name e' \<noteq> jm_weight_output_name y" "nm_scale_name e' \<noteq> jm_scale_output_name y" by metis+
      moreover have "served acc e'" using es(2) that by blast
      ultimately show ?thesis by (simp add: served_def e(2))
    qed
    moreover have "served acc' e" using e by (auto simp: served_def same_matrix_def)
    ultimately show "J (ys @ [y]) acc'"
      unfolding J_def using es(1) e(1) by (intro exI [of _ "es @ [e]"]) (auto intro: list_all2_appendI)
  qed
  then show ?thesis by (simp add: J_def)
qed

lemma fill_hashes_Inr:
  assumes "fill_hashes hashes job = Inr filled"
  shows "matrix_ranges (job_matrices filled) = matrix_ranges (job_matrices job)
    \<and> job_names (job_matrices filled) = job_names (job_matrices job)"
proof -
  let ?f = "\<lambda>m. rbind (dict_index hashes (jm_source_name m)) (\<lambda>digest. Inr (m\<lparr>jm_source_sha256 := digest\<rparr>))"
  from assms obtain ms where ms: "rmap ?f (job_matrices job) = Inr ms" "job_matrices filled = ms"
    by (auto simp: fill_hashes_def)
  have "rmap ?f xs = Inr ys \<Longrightarrow> matrix_ranges ys = matrix_ranges xs \<and> job_names ys = job_names xs" for xs ys
    by (induction xs arbitrary: ys) (auto simp: matrix_ranges_def job_names_def)
  with ms show ?thesis by blast
qed

lemma described_names:
  "list_all2 (describes env source_tensors) pairs ms \<Longrightarrow> job_names ms = map output_name (pair_elements pairs)"
  by (induction rule: list_all2_induct) (auto simp: job_names_def pair_elements_def describes_def)

lemma path_join_inject [simp]: "path_join base a = path_join base b \<longleftrightarrow> a = b"
  by (simp add: path_join_def)

lemma collect_bundle_Inr:
  assumes "collect_bundle env request job staging binary_hash expected_bytes ch fs ws = (Inr nb, ws')"
  shows "\<exists>data items. fs (payload_path staging) = Some data \<and> int (length data) = expected_bytes
    \<and> nb_payload nb = payload_path staging \<and> rfold (bundle_step items) [] (job_matrices job) = Inr (nb_matrices nb)"
  using assms
  by (auto simp: collect_bundle_def split: option.splits)

lemma prepare_job_Inr:
  assumes "prepare_job env request plan source_tensors fs staging ws = Some (Inr (job, payload_bytes), ws')"
  shows "\<exists>pairs made hashes. output_tensor_bytes plan = Inr payload_bytes
    \<and> make_job env plan source_tensors payload_bytes (nr_threads request) = Inr (made, pairs)
    \<and> fill_hashes hashes made = Inr job"
  using assms by (auto simp: prepare_job_def split: if_splits)

lemma prepare_Inr:
  assumes "prepare_native_bundle env fsys stuck stage child request plan source_tensors staging (ws, fs)
      = Some (Inr nb, st')"
  shows "\<exists>job payload_bytes ws1 binary_hash ws2 fs3.
    prepare_job env request plan source_tensors fs staging ws = Some (Inr (job, payload_bytes), ws1)
    \<and> run_native env stuck child request job payload_bytes staging binary_hash (ws2, fs3) = (Inr nb, st')"
proof -
  from assms obtain job payload_bytes ws1 where
    prepared: "prepare_job env request plan source_tensors fs staging ws = Some (Inr (job, payload_bytes), ws1)"
    by (auto simp: prepare_native_bundle_def split: option.splits sum.splits)
  with assms obtain binary_hash ws2 fs2 where staged: "stage (ws1, fs) = (Inr binary_hash, (ws2, fs2))"
    by (auto simp: prepare_native_bundle_def)
  obtain q fs3 where written: "write_file_atomic fsys (job_path staging) (env_canonical env (job_document job)) fs2 = (q, fs3)"
    by fastforce
  have "run_native env stuck child request job payload_bytes staging binary_hash (ws2, fs3) = (Inr nb, st')"
    using assms prepared staged written by (cases q) (simp_all add: prepare_native_bundle_def)
  with prepared show ?thesis by blast
qed

text \<open>
  C9. A prepared bundle serves the whole plan: its entries name every output of the plan exactly
  once, each is found under both of its names, and their ranges follow one another through the
  payload from its first byte to its last, so that no two overlap and no byte is unclaimed.
\<close>

theorem prepared_bundle_covers_plan:
  assumes "prepare_native_bundle env fsys stuck stage child request plan source_tensors staging (ws, fs)
      = Some (Inr nb, (ws', fs'))"
    and "distinct (map output_name (qp_tensors plan))"
  shows "\<exists>entries data. fs' (nb_payload nb) = Some data
    \<and> consecutive 0 (entry_ranges entries) (int (length data))
    \<and> mset (entry_names entries) = mset (map output_name (qp_tensors plan))
    \<and> (\<forall>e\<in>set entries. served (nb_matrices nb) e)"
proof -
  from prepare_Inr [OF assms(1)] obtain job payload_bytes ws1 binary_hash ws2 fs3 where
    prepared: "prepare_job env request plan source_tensors fs staging ws = Some (Inr (job, payload_bytes), ws1)"
    and ran: "run_native env stuck child request job payload_bytes staging binary_hash (ws2, fs3)
        = (Inr nb, (ws', fs'))" by blast
  obtain outcome fs4 where child: "child fs3 = (outcome, fs4)" by fastforce
  from ran child obtain ws3 where
    collected: "collect_bundle env request job staging binary_hash payload_bytes outcome fs4 ws2 = (Inr nb, ws3)"
    and removed: "fs' = remove_files stuck [staged_path staging, job_path staging] fs4"
    by (auto simp: run_native_def split: prod.splits sum.splits)
  from collect_bundle_Inr [OF collected] obtain data items where data: "fs4 (payload_path staging) = Some data"
    "int (length data) = payload_bytes" "nb_payload nb = payload_path staging"
    "rfold (bundle_step items) [] (job_matrices job) = Inr (nb_matrices nb)" by blast
  from prepare_job_Inr [OF prepared] obtain pairs made hashes where
    made: "make_job env plan source_tensors payload_bytes (nr_threads request) = Inr (made, pairs)"
    and filled: "fill_hashes hashes made = Inr job" by blast
  note job = make_job_Inr [OF made] and same = fill_hashes_Inr [OF filled]
  then have pairs: "mset (pair_elements pairs) = mset (qp_tensors plan)" using pair_plans_Inr by blast
  have names: "mset (job_names (job_matrices job)) = mset (map output_name (qp_tensors plan))"
    using same described_names [of env source_tensors pairs "job_matrices made"] job pairs
    by (simp add: mset_map)
  with assms(2) have "distinct (job_names (job_matrices job))"
    using mset_eq_imp_distinct_iff by blast
  from bundle_fold [OF data(4) this] obtain entries where
    entries: "list_all2 same_matrix (job_matrices job) entries" "\<forall>e\<in>set entries. served (nb_matrices nb) e" by blast
  have "consecutive 0 (entry_ranges entries) (int (length data))"
    using same_matrices [OF entries(1)] same job data(2) by simp
  moreover have "fs' (nb_payload nb) = Some data"
    using data(1,3) removed by (simp add: remove_files_def payload_path_def staged_path_def job_path_def)
  moreover have "mset (entry_names entries) = mset (map output_name (qp_tensors plan))"
    using same_matrices [OF entries(1)] names by simp
  ultimately show ?thesis using entries(2) by blast
qed

definition pair_plan :: "string \<Rightarrow> string \<Rightarrow> string \<Rightarrow> tensor_compile_plan" where
  "pair_plan name dtype codec_name = (matrix_plan dtype)\<lparr>output_name := name, encoder := codec_name\<rparr>"

definition sample_plan :: quantization_plan where
  "sample_plan = \<lparr>qp_schema_version = 1, qp_artifact_profile = ''p'', qp_head_format = ''h'',
     qp_source_contract = ''c'', qp_compiler_manifest_sha256 = [], qp_resolved_plan_sha256 = [],
     qp_target_shard_bytes = 100, qp_approved_metadata_files = [], qp_omitted_families = [],
     qp_tensors = [pair_plan ''m.s'' ''BF16'' ''fp8-rowwise-scale-v1'',
       pair_plan ''m.w'' ''F8_E4M3'' ''fp8-rowwise-weight-v1''],
     qp_excluded_tensors = [], qp_reference_environment = []\<rparr>"

definition sample_item :: json where
  "sample_item = JObj ([(''source_name'', JStr ''m''), (''weight_output_name'', JStr ''m.w''),
     (''scale_output_name'', JStr ''m.s''), (''rows'', JInt 1), (''columns'', JInt 1), (''elements'', JInt 1),
     (''source_sha256'', JStr (replicate 64 CHR ''0'')), (''weight_sha256'', JStr (replicate 64 CHR ''0'')),
     (''scale_sha256'', JStr (replicate 64 CHR ''0''))]
     @ map (\<lambda>k. (k, JInt 0)) [''source_min'', ''source_max'', ''source_sum_squares'',
       ''reconstruction_sum_squares'', ''source_reconstruction_dot'', ''error_sum_squares'', ''max_absolute_error'']
     @ [(''scale_min'', JInt 1), (''scale_max'', JInt 1), (''saturation_count'', JInt 0), (''zero_rows'', JInt 1),
     (''underflow_clamped_rows'', JInt 0), (''histogram'', JArr (JInt 1 # replicate 255 (JInt 0)))])"

definition sample_telemetry :: json where
  "sample_telemetry = JObj [(''schema_version'', JInt 1), (''contract_id'', JStr CONTRACT_ID),
     (''contract_version'', JInt 1), (''payload_bytes'', JInt 3), (''threads'', JInt 1),
     (''maximum_source_row_bytes'', JInt 2),
     (''native_build'', JObj (map (\<lambda>k. (k, JStr ''x'')) NATIVE_BUILD_KEYS)),
     (''matrices'', JArr [sample_item])]"

definition native_env :: environment where
  "native_env = matrix_env\<lparr>env_sha := \<lambda>_. replicate 64 CHR ''0'', env_parse := \<lambda>_. Some sample_telemetry,
     env_entry := \<lambda>p. if p = ''s'' then Regular 2 else Missing\<rparr>"

definition sample_child :: "files \<Rightarrow> child_outcome \<times> files" where
  "sample_child fs = (\<lparr>ch_start_error = None, ch_timed_out = False, ch_memory_exceeded = False, ch_overflow = False,
     ch_remaining = [], ch_returncode = 0, ch_stdout = [], ch_peak_rss = 0\<rparr>,
     fs(payload_path ''d'' := Some [0, 0x80, 0x3f], telemetry_path ''d'' := Some []))"

definition sample_fsys :: file_system where
  "sample_fsys = \<lparr>open_fails = False, chmod_fails = False, fs_put = slow_stream, fsync_fails = False,
     replace_fails = False, directory_fails = False\<rparr>"

definition sample_run :: "((native_bundle res) \<times> workspace \<times> files) option" where
  "sample_run = prepare_native_bundle native_env sample_fsys (\<lambda>_. False) (Pair (Inr ''b'')) sample_child
     \<lparr>nr_executable = ''x'', nr_timeout_seconds = 600, nr_threads = 1\<rparr> sample_plan [(''m'', matrix_source)] ''d''
     (small_ws, \<lambda>_. None)"

lemma sample_run_ok:
  "(case sample_run of Some (Inr nb, _, fs) \<Rightarrow> fs (nb_payload nb) = Some [0, 0x80, 0x3f] | _ \<Rightarrow> False)"
  by code_simp

theorem prepared_bundle_covers_plan_witness:
  "\<exists>nb st entries. sample_run = Some (Inr nb, st) \<and> mset (entry_names entries) = {#''m.s'', ''m.w''#}
     \<and> (\<forall>e\<in>set entries. served (nb_matrices nb) e) \<and> consecutive 0 (entry_ranges entries) 3"
proof -
  obtain q ws' fs' where q: "sample_run = Some (q, (ws', fs'))"
    using sample_run_ok by (cases sample_run) auto
  obtain nb where "q = Inr nb" using sample_run_ok unfolding q by (cases q) auto
  with q have run: "sample_run = Some (Inr nb, (ws', fs'))" by simp
  have "distinct (map output_name (qp_tensors sample_plan))" by code_simp
  from prepared_bundle_covers_plan [OF run [unfolded sample_run_def] this] obtain entries data where
    entries: "fs' (nb_payload nb) = Some data" "consecutive 0 (entry_ranges entries) (int (length data))"
      "mset (entry_names entries) = mset (map output_name (qp_tensors sample_plan))"
      "\<forall>e\<in>set entries. served (nb_matrices nb) e" by blast
  from sample_run_ok have "fs' (nb_payload nb) = Some [0, 0x80, 0x3f]" unfolding run by simp
  with entries(1) have "data = [0, 0x80, 0x3f]" by (metis option.inject)
  with entries(2) have "consecutive 0 (entry_ranges entries) 3" by simp
  moreover have "map output_name (qp_tensors sample_plan) = [''m.s'', ''m.w'']" by code_simp
  ultimately show ?thesis using run entries(3,4) by auto
qed

text \<open>
  C10. An encoder over a bundle passes on nothing but the recorded range of the payload: on success
  the range lies in the file, exactly its bytes were appended, their digest is the one the
  telemetry states for the component, and the entry belongs to the source tensor.
\<close>

theorem native_bundle_encoder_verified:
  fixes put :: "'o writer" and contents :: "'o \<Rightarrow> bytes" and env :: environment
  assumes "sink put contents" "0 < env_granularity env" "ws_good (env_granularity env) ws ws"
    and "native_bundle_encoder nb weight env put plan sources ws out = Some (Inr r, ws', out')"
  shows "\<exists>source entry data payload offset len. sources = [source]
    \<and> dict_get (nb_matrices nb) (output_name plan) = Some entry \<and> nm_source_name entry = td_name source
    \<and> env_files env (nb_payload nb) = Some data
    \<and> (offset, len) = (if weight then (nm_weight_offset entry, nm_weight_bytes entry)
        else (nm_scale_offset entry, nm_scale_bytes entry))
    \<and> payload = take (nat len) (drop (nat offset) data) \<and> int (length payload) = len
    \<and> contents out' = contents out @ payload
    \<and> dict_get (nm_telemetry entry) (if weight then ''weight_sha256'' else ''scale_sha256'')
        = Some (PStr (env_sha env payload))
    \<and> er_output_sha256 r = env_sha env payload \<and> er_output_bytes r = len"
proof -
  note outcome = native_bundle_outcome [OF assms(1-3), of nb weight plan sources out]
  show ?thesis
    using outcome unfolding assms(4) option.inject prod.inject
    by (elim exE conjE) (hypsubst, unfold sum.case, elim exE conjE, intro exI conjI, assumption+)
qed

definition sample_bundle :: native_bundle where
  "sample_bundle = \<lparr>nb_payload = ''b'', nb_telemetry_path = ''t'', nb_matrices = [(''o'',
     \<lparr>nm_source_name = ''m'', nm_weight_name = ''w'', nm_scale_name = ''o'', nm_weight_offset = 0, nm_weight_bytes = 1,
      nm_scale_offset = 1, nm_scale_bytes = 1, nm_rows = 1, nm_columns = 1, nm_source_sha256 = ''x'',
      nm_telemetry = [(''scale_sha256'', PStr [CHR 0x00])]\<rparr>)],
     nb_binary_sha256 = ''b'', nb_threads = 1, nb_maximum_source_row_bytes = 2, nb_child_peak_rss_bytes = 0,
     nb_native_build = []\<rparr>"

theorem native_bundle_encoder_verified_witness:
  "\<exists>r ws' out'. native_bundle_encoder sample_bundle False matrix_env slow_stream (matrix_plan ''BF16'') [matrix_source]
      small_ws [7] = Some (Inr r, ws', out') \<and> out' = [7, 0] \<and> er_output_bytes r = 1"
proof -
  have good: "0 < env_granularity matrix_env" "ws_good (env_granularity matrix_env) small_ws small_ws"
    by (simp_all add: matrix_env_def small_ws_good)
  have "write_all slow_stream [7] [0] = (Inr (), [7, 0])"
    by (simp add: write_all.simps [of slow_stream "[7]"] slow_stream_def write_progress_def)
  then obtain st where copy: "copy_range (env_sha matrix_env) (env_granularity matrix_env) (env_rss matrix_env) slow_stream False
      (Some zero_row) 1 1 small_ws [7] = Some (Inr (env_sha matrix_env [0], env_sha matrix_env [0]), st)"
    by (simp add: copy_range_def range_loop_unfold copy_body_def file_read_def matrix_env_def zero_row_def small_ws_def
        workspace_check_def Let_def)
  have "env_sha matrix_env [0] = [CHR 0x00]" by (simp add: matrix_env_def char_of_def)
  moreover have "env_files matrix_env ''b'' = Some zero_row" by (simp add: matrix_env_def)
  ultimately have "\<exists>r st. native_bundle_encoder sample_bundle False matrix_env slow_stream (matrix_plan ''BF16'')
      [matrix_source] small_ws [7] = Some (Inr r, st)"
    using copy by (simp add: native_bundle_encoder_def sample_bundle_def matrix_plan_def matrix_source_def bundle_result_def Let_def)
  then obtain r ws' out' where run: "native_bundle_encoder sample_bundle False matrix_env slow_stream (matrix_plan ''BF16'')
      [matrix_source] small_ws [7] = Some (Inr r, ws', out')" by (metis surj_pair)
  have entry: "dict_get (nb_matrices sample_bundle) (output_name (matrix_plan ''BF16'')) = Some entry \<Longrightarrow>
      nm_scale_offset entry = 1 \<and> nm_scale_bytes entry = 1" for entry
    by (auto simp: sample_bundle_def matrix_plan_def split: if_splits)
  from native_bundle_encoder_verified [OF slow_stream_sink good run]
  obtain entry data payload offset len where
    e: "dict_get (nb_matrices sample_bundle) (output_name (matrix_plan ''BF16'')) = Some entry"
    "env_files matrix_env (nb_payload sample_bundle) = Some data"
    "(offset, len) = (nm_scale_offset entry, nm_scale_bytes entry)"
    "payload = take (nat len) (drop (nat offset) data)" "id out' = id [7] @ payload" "er_output_bytes r = len" by auto
  have "data = [0, 0]" using e(2) by (simp add: matrix_env_def zero_row_def)
  with e entry [OF e(1)] run show ?thesis by auto
qed

end
