(* ===== verification/Reader.thy ===== *)
theory Reader
  imports Source_Lock "HOL-Library.Product_Lexorder"
begin

text \<open>
  \<open>tools/gem16_compile/reader.py\<close>: the verified source of a lock, the headers of its Safetensors
  shards, the shard index, and the tensors of a source or of a written artifact.
\<close>

definition MAX_INDEX_BYTES :: int where "MAX_INDEX_BYTES = 256 * 1024 * 1024"

section \<open>The verified source\<close>

definition locked_path :: "environment \<Rightarrow> string \<Rightarrow> string \<Rightarrow> string res" where
  "locked_path env base relative = rbind (safe_relative_path relative) (\<lambda>parts.
     fail_if (list_ex (\<lambda>n. env_symlink env (join_parts base (take n parts))) [1..<length parts])
       (SourceVerificationError ''source-lock path traverses an intermediate symlink'')
       (Inr (join_parts base parts)))"

text \<open>The checks of one entry before its contents are read: its key, path and size.\<close>

definition locked_entry :: "environment \<Rightarrow> string \<Rightarrow> pyval dict \<Rightarrow> (string \<times> string \<times> int) res" where
  "locked_entry env base entry =
     rbind (dict_index entry ''path'') (\<lambda>path_value.
     let relative = py_str env path_value in
     rbind (locked_path env base relative) (\<lambda>path.
     rbind (reraise is_os_error (SourceVerificationError ''cannot inspect locked source file'')
        (rbind (is_file env path) (\<lambda>present.
         fail_if (\<not> present) (SourceVerificationError ''locked source file is missing'') (stat_size env path)))) (\<lambda>byte_count.
     rbind (rbind (dict_index entry ''size'') py_int) (\<lambda>expected_size.
     fail_if (byte_count \<noteq> expected_size) (SourceVerificationError ''locked source size mismatch'')
       (Inr (relative, path, byte_count))))))"

definition verify_entry :: "environment \<Rightarrow> string \<Rightarrow> locked_file dict \<Rightarrow> pyval dict \<Rightarrow> (workspace, locked_file dict) run" where
  "verify_entry env base locked entry ws =
     run_bind (run_only (locked_entry env base entry) ws) (\<lambda>(relative, path, byte_count) ws1.
     run_bind (hash_range (env_sha env) (env_rss env) (env_files env path) 0 (nat byte_count) ws1) (\<lambda>actual_hash.
     run_only (rbind (dict_index entry ''sha256'') (\<lambda>sha_value.
       fail_if (actual_hash \<noteq> lower (py_str env sha_value))
         (SourceVerificationError ''locked source SHA-256 mismatch'')
         (Inr (dict_set relative \<lparr>lf_relative_path = relative, lf_path = path, lf_size = byte_count,
            lf_sha256 = actual_hash\<rparr> locked))))))"

fun is_plan_or_value_error :: "error \<Rightarrow> bool" where
  "is_plan_or_value_error (InvalidPlanError _) = True"
| "is_plan_or_value_error e = is_value_error e"

definition load_lock :: "environment \<Rightarrow> string \<Rightarrow> (pyval dict \<times> pyval dict list) res" where
  "load_lock env lock_path = reraise is_plan_or_value_error (SourceVerificationError ''invalid source lock'')
     (rbind (load_json (json_file_of env lock_path) (4 * 1024 * 1024)) (\<lambda>lock.
      rbind (validate_lock env lock) (\<lambda>locked. Inr (lock, locked))))"

definition open_root :: "environment \<Rightarrow> string \<Rightarrow> string res" where
  "open_root env source_root = (case env_resolve env source_root of
     None \<Rightarrow> Inl (SourceVerificationError ''cannot resolve source directory'')
   | Some base \<Rightarrow> rbind (is_dir env base) (\<lambda>directory.
       fail_if (\<not> directory) (SourceVerificationError ''source path is not a directory'') (Inr base)))"

definition verify_source_lock :: "environment \<Rightarrow> string \<Rightarrow> string \<Rightarrow> (workspace, verified_source) run" where
  "verify_source_lock env lock_path source_root ws =
     run_bind (run_only (rbind (open_root env source_root) (\<lambda>base.
       rbind (load_lock env lock_path) (\<lambda>(lock, entries).
       rbind (stat_size env lock_path) (\<lambda>lock_size. Inr (base, lock, entries, lock_size))))) ws)
     (\<lambda>(base, lock, entries, lock_size) ws1.
     run_bind (hash_range (env_sha env) (env_rss env) (env_files env lock_path) 0 (nat lock_size) ws1) (\<lambda>lock_hash ws2.
     run_bind (run_fold (verify_entry env base) [] entries ws2) (\<lambda>locked ws3.
     run_bind (Some (workspace_check (env_rss env) ws3)) (\<lambda>_.
     run_only (rbind (dict_index lock ''repository'') (\<lambda>repository.
       rbind (dict_index lock ''revision'') (\<lambda>revision.
       Inr \<lparr>vs_root = base, vs_lock_path = lock_path, vs_lock_sha256 = lock_hash,
         vs_repository = py_str env repository, vs_revision = py_str env revision,
         vs_resolved_at_utc = py_str env (get_or lock ''resolved_at_utc'' (PStr '''')),
         vs_files = locked\<rparr>)))))))"

section \<open>Safetensors headers\<close>

text \<open>The length prefix and the raw header of a shard.\<close>

definition header_bytes :: "locked_file \<Rightarrow> int \<Rightarrow> bytes option \<Rightarrow> bytes res" where
  "header_bytes locked host_memory_cap file = (case file of
     None \<Rightarrow> Inl (SourceVerificationError ''cannot read Safetensors header'')
   | Some data \<Rightarrow>
       let prefix = take 8 data in
       fail_if (length prefix \<noteq> 8) (SourceVerificationError ''short Safetensors length prefix'') (
       let header_length = int (unpack_u64 prefix) in
       fail_if (header_length < 2 \<or> MAX_HEADER_BYTES < header_length \<or> lf_size locked - 8 < header_length)
         (SourceVerificationError ''invalid Safetensors header length'') (
       fail_if (host_memory_cap \<le> header_length)
         (SourceVerificationError ''Safetensors header exceeds host-memory cap'') (
       let raw = take (nat header_length) (drop 8 data) in
       fail_if (int (length raw) \<noteq> header_length) (SourceVerificationError ''short Safetensors header'')
         (Inr raw)))))"

definition read_header :: "environment \<Rightarrow> locked_file \<Rightarrow> (workspace, pyval dict) prog" where
  "read_header env locked ws =
     then_do (header_bytes locked (host_memory_cap_bytes ws) (env_files env (lf_path locked)), ws) (\<lambda>raw ws1.
     case loads env raw of
       None \<Rightarrow> (Inl (SourceVerificationError ''invalid Safetensors header JSON''), ws1)
     | Some (PDict header) \<Rightarrow>
         then_do (record_header (env_rss env) (int (length raw)) ws1) (\<lambda>_ ws2. (Inr header, ws2))
     | Some _ \<Rightarrow> (Inl (SourceVerificationError ''Safetensors header root is not an object''), ws1))"

text \<open>\<open>data_offsets\<close>: a pair of plain integers.\<close>

definition offset_pair :: "pyval \<Rightarrow> (int \<times> int) option" where
  "offset_pair v = (case v of PList [PInt a, PInt b] \<Rightarrow> Some (a, b) | _ \<Rightarrow> None)"

definition parse_tensor :: "locked_file \<Rightarrow> int \<Rightarrow> int \<Rightarrow> string \<Rightarrow> pyval dict \<Rightarrow> tensor_descriptor res" where
  "parse_tensor locked data_base payload_size name metadata =
     rbind (reraise is_invalid_plan (SourceVerificationError ''shape'')
       (checked_shape (obj_get metadata ''shape''))) (\<lambda>shape.
     case obj_get metadata ''dtype'' of
       PStr dtype \<Rightarrow>
         (case offset_pair (obj_get metadata ''data_offsets'') of
            None \<Rightarrow> Inl (SourceVerificationError ''invalid tensor data_offsets'')
          | Some (start, stop) \<Rightarrow>
              fail_if (start < 0 \<or> stop < start \<or> payload_size < stop)
                (SourceVerificationError ''out-of-bounds tensor data_offsets'') (
              rbind (reraise is_invalid_plan (SourceVerificationError ''tensor bytes'')
                (tensor_bytes dtype shape)) (\<lambda>expected.
              fail_if (stop - start \<noteq> expected) (SourceVerificationError ''tensor dtype/shape byte mismatch'')
                (Inr \<lparr>td_name = name, td_dtype = dtype, td_shape = shape,
                   td_shard = lf_relative_path locked, td_path = lf_path locked,
                   td_absolute_offset = data_base + start, td_data_offset = start,
                   td_byte_length = stop - start, td_shard_sha256 = lf_sha256 locked\<rparr>))))
     | _ \<Rightarrow> Inl (SourceVerificationError ''tensor dtype is not a string''))"

type_synonym intervals = "(int \<times> int \<times> string) list"

definition parse_step :: "locked_file \<Rightarrow> int \<Rightarrow> int \<Rightarrow> sources \<times> intervals \<Rightarrow> string \<times> pyval \<Rightarrow>
    (sources \<times> intervals) res" where
  "parse_step locked data_base payload_size acc item = (case (acc, item) of ((result, intervals), (name, metadata)) \<Rightarrow>
     if name = ''__metadata__''
     then (case metadata of PDict _ \<Rightarrow> Inr (result, intervals)
         | _ \<Rightarrow> Inl (SourceVerificationError ''Safetensors __metadata__ is not an object''))
     else fail_if (name = [] \<or> CHR 0x00 \<in> set name) (SourceVerificationError ''invalid Safetensors tensor name'') (
       case metadata of
         PDict entry \<Rightarrow> rbind (parse_tensor locked data_base payload_size name entry) (\<lambda>tensor.
           fail_if (name \<in> dict_keys result) (SourceVerificationError ''duplicate tensor in shard'')
             (Inr (dict_set name tensor result,
                if 0 < td_byte_length tensor
                then intervals @ [(td_data_offset tensor, td_data_offset tensor + td_byte_length tensor, name)]
                else intervals)))
       | _ \<Rightarrow> Inl (SourceVerificationError ''tensor metadata is not an object'')))"

text \<open>\<open>for previous, current in zip(intervals, intervals[1:])\<close> over the sorted intervals.\<close>

definition check_disjoint :: "intervals \<Rightarrow> unit res" where
  "check_disjoint intervals = (let ordered = sort intervals in
     riter (\<lambda>((_, previous_end, _), (current_begin, _, _)).
       fail_if (current_begin < previous_end) (SourceVerificationError ''overlapping tensors'') (Inr ()))
       (zip ordered (tl ordered)))"

definition parse_shard :: "environment \<Rightarrow> locked_file \<Rightarrow> (workspace, sources) prog" where
  "parse_shard env locked ws =
     then_do (read_header env locked ws) (\<lambda>header ws1.
     case env_files env (lf_path locked) of
       None \<Rightarrow> (Inl (OSError ''open''), ws1)
     | Some data \<Rightarrow>
       let header_length = int (unpack_u64 (take 8 data));
           data_base = 8 + header_length;
           payload_size = lf_size locked - data_base
       in then_do (rbind (rfold (parse_step locked data_base payload_size) ([], []) header) (\<lambda>(result, intervals).
            rbind (check_disjoint intervals) (\<lambda>_. Inr result)), ws1) (\<lambda>result ws2.
          then_do (workspace_check (env_rss env) ws2) (\<lambda>_ ws3. (Inr result, ws3))))"

section \<open>The shard index\<close>

definition check_assignment :: "string dict \<Rightarrow> string \<times> pyval \<Rightarrow> string dict res" where
  "check_assignment assignments item = (case item of
     (tensor, PStr shard) \<Rightarrow>
       fail_if (path_absolute shard \<or> length (path_parts shard) \<noteq> 1 \<or> path_suffix shard \<noteq> ''.safetensors'')
         (SourceVerificationError ''unsafe Safetensors shard path'') (Inr (dict_set tensor shard assignments))
   | _ \<Rightarrow> Inl (SourceVerificationError ''Safetensors index must map strings to strings''))"

definition load_index :: "environment \<Rightarrow> locked_file \<Rightarrow> (workspace, string dict) prog" where
  "load_index env locked ws =
    (if MAX_INDEX_BYTES < lf_size locked \<or> host_memory_cap_bytes ws \<le> lf_size locked
     then (Inl (SourceVerificationError ''Safetensors index exceeds safety cap''), ws)
     else case Option.bind (env_files env (lf_path locked)) (loads env) of
         None \<Rightarrow> (Inl (SourceVerificationError ''cannot parse Safetensors index''), ws)
       | Some index \<Rightarrow>
           (case (case index of PDict d \<Rightarrow> obj_get d ''weight_map'' | _ \<Rightarrow> PNone) of
              PDict weight_map \<Rightarrow>
                then_do (rfold check_assignment [] weight_map, ws) (\<lambda>assignments ws1.
                then_do (record_header (env_rss env) (lf_size locked) ws1) (\<lambda>_ ws2. (Inr assignments, ws2)))
            | _ \<Rightarrow> (Inl (SourceVerificationError ''Safetensors index lacks an object weight_map''), ws)))"

section \<open>All tensors of a source\<close>

definition merge_tensor :: "string dict option \<Rightarrow> string \<Rightarrow> sources \<Rightarrow> string \<times> tensor_descriptor \<Rightarrow> sources res" where
  "merge_tensor assignments relative tensors item = (case item of (name, descriptor) \<Rightarrow>
     fail_if (name \<in> dict_keys tensors) (SourceVerificationError ''duplicate tensor across shards'') (
     fail_if (case assignments of None \<Rightarrow> False | Some a \<Rightarrow> dict_get a name \<noteq> Some relative)
       (SourceVerificationError ''index/shard disagreement for tensor'')
       (Inr (dict_set name descriptor tensors))))"

definition merge_shard :: "environment \<Rightarrow> locked_file dict \<Rightarrow> string dict option \<Rightarrow> sources \<Rightarrow> string \<Rightarrow> (workspace, sources) prog" where
  "merge_shard env shard_files assignments tensors relative ws =
     then_do (dict_index shard_files relative, ws) (\<lambda>locked ws1.
     then_do (parse_shard env locked ws1) (\<lambda>parsed ws2.
     (rfold (merge_tensor assignments relative) tensors parsed, ws2)))"

definition source_shards :: "verified_source \<Rightarrow> locked_file dict" where
  "source_shards source = filter (\<lambda>(relative, _). path_suffix relative = ''.safetensors'') (vs_files source)"

definition INDEX_NAME :: string where "INDEX_NAME = ''model.safetensors.index.json''"

definition read_source_tensors :: "environment \<Rightarrow> verified_source \<Rightarrow> (workspace, sources) prog" where
  "read_source_tensors env source ws =
    (let shard_files = source_shards source in
     if shard_files = [] then (Inl (SourceVerificationError ''source lock contains no Safetensors files''), ws)
     else then_do
       (case dict_get (vs_files source) INDEX_NAME of
          Some index_file \<Rightarrow> then_do (load_index env index_file ws) (\<lambda>assignments ws1.
            (fail_if (snd ` set assignments \<noteq> dict_keys shard_files)
               (SourceVerificationError ''source lock Safetensors files disagree with index shard set'')
               (Inr (Some assignments)), ws1))
        | None \<Rightarrow> (fail_if (length shard_files \<noteq> 1 \<or> ''model.safetensors'' \<notin> dict_keys shard_files)
            (SourceVerificationError ''multi-shard source requires model.safetensors.index.json'') (Inr None), ws))
       (\<lambda>assignments ws1.
     then_do (prog_fold (merge_shard env shard_files assignments) [] (sort (map fst shard_files)) ws1) (\<lambda>tensors ws2.
     if (case assignments of None \<Rightarrow> False | Some a \<Rightarrow> dict_keys a \<noteq> dict_keys tensors)
     then (Inl (SourceVerificationError ''Safetensors index and shard names differ''), ws2)
     else then_do (workspace_check (env_rss env) ws2) (\<lambda>_ ws3. (Inr (dict_sorted tensors), ws3)))))"

section \<open>The tensors of a written artifact\<close>

definition artifact_root :: "environment \<Rightarrow> string \<Rightarrow> string res" where
  "artifact_root env path = (case env_resolve env path of
     None \<Rightarrow> Inl (SourceVerificationError ''cannot resolve artifact directory'')
   | Some base \<Rightarrow> rbind (is_dir env base) (\<lambda>directory.
       fail_if (\<not> directory) (SourceVerificationError ''artifact path is not a directory'') (Inr base)))"

text \<open>
  \<open>path.is_symlink() or not path.is_file() or path.resolve().parent != root\<close>: a path that is
  not a link resolves to itself below a resolved root, so its parent is compared by name.
\<close>

definition artifact_shard :: "environment \<Rightarrow> string \<Rightarrow> string \<Rightarrow> (string \<times> int) res" where
  "artifact_shard env base name =
     rbind (safe_relative_path name) (\<lambda>parts.
     fail_if (length parts \<noteq> 1 \<or> path_suffix name \<noteq> ''.safetensors'')
       (SourceVerificationError ''unsafe artifact shard name'') (
     let path = join_parts base parts in
     reraise is_os_error (SourceVerificationError ''cannot inspect artifact shard'') (
     fail_if (env_symlink env path) (SourceVerificationError ''unsafe artifact shard file'') (
     rbind (is_file env path) (\<lambda>present.
     fail_if (\<not> present) (SourceVerificationError ''unsafe artifact shard file'') (
     rbind (stat_size env path) (\<lambda>byte_count. Inr (path, byte_count))))))))"

definition lock_shard :: "environment \<Rightarrow> string \<Rightarrow> locked_file dict \<Rightarrow> string \<Rightarrow> (workspace, locked_file dict) run" where
  "lock_shard env base locked name ws =
     run_bind (run_only (artifact_shard env base name) ws) (\<lambda>(path, byte_count) ws1.
     run_bind (hash_range (env_sha env) (env_rss env) (env_files env path) 0 (nat byte_count) ws1) (\<lambda>sha.
     run_only (Inr (dict_set name \<lparr>lf_relative_path = name, lf_path = path, lf_size = byte_count,
       lf_sha256 = sha\<rparr> locked))))"

definition artifact_index :: "environment \<Rightarrow> string \<Rightarrow> (string \<times> int) res" where
  "artifact_index env path =
     reraise is_os_error (SourceVerificationError ''cannot inspect artifact index'') (
     fail_if (env_symlink env path) (SourceVerificationError ''artifact index is missing'') (
     rbind (is_file env path) (\<lambda>present.
     fail_if (\<not> present) (SourceVerificationError ''artifact index is missing'') (
     rbind (stat_size env path) (\<lambda>byte_count. Inr (path, byte_count))))))"

definition read_artifact_tensors :: "environment \<Rightarrow> string \<Rightarrow> string list \<Rightarrow> string \<Rightarrow> (workspace, sources) run" where
  "read_artifact_tensors env path shard_names index_name ws =
     run_bind (run_only (artifact_root env path) ws) (\<lambda>base ws1.
     run_bind (run_fold (lock_shard env base) [] shard_names ws1) (\<lambda>locked ws2.
     run_bind (run_only (artifact_index env (path_join base index_name)) ws2) (\<lambda>(index_path, index_size) ws3.
     run_bind (hash_range (env_sha env) (env_rss env) (env_files env index_path) 0 (nat index_size) ws3) (\<lambda>index_sha ws4.
     run_bind (Some (load_index env \<lparr>lf_relative_path = index_name, lf_path = index_path,
        lf_size = index_size, lf_sha256 = index_sha\<rparr> ws4)) (\<lambda>assignments ws5.
     if snd ` set assignments \<noteq> set shard_names
     then Some (Inl (SourceVerificationError ''artifact index and declared shard set differ''), ws5)
     else run_bind (Some (prog_fold (merge_shard env locked (Some assignments)) [] (sort shard_names) ws5)) (\<lambda>tensors.
       run_only (fail_if (dict_keys assignments \<noteq> dict_keys tensors)
         (SourceVerificationError ''artifact index and tensor names differ'')
         (Inr (dict_sorted tensors)))))))))"

text \<open>\<open>tensor_source_identity\<close>: the range of a tensor and its digest under the shard's digest.\<close>

definition ascii_bytes :: "string \<Rightarrow> bytes" where
  "ascii_bytes s = map (\<lambda>c. word_of_nat (of_char c)) s"

definition tensor_source_identity :: "environment \<Rightarrow> tensor_descriptor \<Rightarrow> pyval dict" where
  "tensor_source_identity env tensor =
    [(''shard'', PStr (td_shard tensor)),
     (''shard_sha256'', PStr (td_shard_sha256 tensor)),
     (''absolute_offset'', PInt (td_absolute_offset tensor)),
     (''byte_length'', PInt (td_byte_length tensor)),
     (''range_identity_sha256'', PStr (env_sha env (ascii_bytes (td_shard_sha256 tensor @ '':'' @
        int_str (td_absolute_offset tensor) @ '':'' @ int_str (td_byte_length tensor)))))]"

end
