(* ===== verification/Writer.thy ===== *)
theory Writer
  imports Native_FP8 Reader Plan_Coverage
begin

text \<open>
  \<open>tools/gem16_compile/writer.py\<close>: the assignment of tensors to shards, Safetensors headers, the
  writing of shards with their encoders, preallocated shards filled by range, the metadata files,
  and the staging directory that is published by one rename.
\<close>

record shard_assignment =
  sa_name :: string
  sa_tensors :: "tensor_compile_plan list"

record written_tensor =
  wr_plan :: tensor_compile_plan
  wr_shard :: string
  wr_data_offsets :: "int \<times> int"
  wr_source_result :: encoder_result

record written_payload =
  wp_tensors :: "written_tensor list"
  wp_shard_names :: "string list"
  wp_index_name :: string
  wp_metadata_names :: "string list"

record direct_layout =
  dl_assignments :: "shard_assignment list"
  dl_shard_names :: "string list"
  dl_index_name :: string
  dl_outputs :: "(string \<times> int) dict"

section \<open>The generated configuration\<close>

definition config_block :: "string \<Rightarrow> string \<Rightarrow> bool \<Rightarrow> pyval" where
  "config_block profile variant supports_mtp = PDict [
     (''schema_version'', PInt 1), (''compiler_data_plane'', PStr ''native-cpp20''),
     (''profile'', PStr profile), (''variant'', PStr variant), (''text_only'', PBool True),
     (''head_format'', PStr ''nvfp4-group16-divisor-v1''), (''supports_mtp'', PBool supports_mtp),
     (''supports_vision'', PBool False), (''supports_audio'', PBool False), (''supports_video'', PBool False)]"

definition compiled_config_bytes :: "environment \<Rightarrow> bytes \<Rightarrow> string \<Rightarrow> bytes res" where
  "compiled_config_bytes env source profile = (case env_parse env source of
     None \<Rightarrow> Inl (OutputError ''cannot parse locked compiled config.json'')
   | Some t \<Rightarrow> rbind (json_value t) (\<lambda>document.
       case document of
         PDict d \<Rightarrow>
           fail_if (''gem16'' \<in> dict_keys d)
             (OutputError ''compiled source config must be an object without a gem16 block'') (
           rbind (if profile = ''sm120-text-hybrid-v1'' then Inr (''gemma4-26b-a4b'', False)
                  else if profile = ''sm120-mtp-assistant-hybrid-v1'' then Inr (''gemma4-26b-a4b-mtp-assistant'', True)
                  else Inl (OutputError ''unsupported generated config profile'')) (\<lambda>(variant, supports_mtp).
           Inr (env_canonical env (PDict (dict_set ''gem16'' (config_block profile variant supports_mtp) d)))))
       | _ \<Rightarrow> Inl (OutputError ''compiled source config must be an object without a gem16 block'')))"

definition m08_config_bytes :: "environment \<Rightarrow> bytes \<Rightarrow> bytes res" where
  "m08_config_bytes env source = compiled_config_bytes env source ''sm120-text-hybrid-v1''"

section \<open>A range of a preallocated file\<close>

text \<open>
  \<open>_BoundedRangeWriter\<close>: the wrapped stream and the bytes its range still takes. A stream that
  returns \<open>None\<close> is taken to have written everything.
\<close>

type_synonym 'o range_writer = "'o \<times> int"

definition range_write :: "'o writer \<Rightarrow> 'o range_writer writer" where
  "range_write put st payload = (case st of (out, remaining) \<Rightarrow>
     if remaining < int (length payload) then (Inl (OutputError ''encoder exceeded output range''), st)
     else case put out payload of
         (Inl e, out') \<Rightarrow> (Inl e, (out', remaining))
       | (Inr written, out') \<Rightarrow>
           (case written of
              PNone \<Rightarrow> (Inr (PInt (int (length payload))), (out', remaining - int (length payload)))
            | PInt n \<Rightarrow> (Inr (PInt n), (out', remaining - n))
            | PBool b \<Rightarrow> (Inr (PBool b), (out', remaining - of_bool b))
            | _ \<Rightarrow> (Inl (TypeError ''unsupported operand type''), (out', remaining))))"

definition range_finish :: "'o range_writer \<Rightarrow> unit res" where
  "range_finish st = fail_if (snd st \<noteq> 0) (OutputError ''encoder left bytes unwritten'') (Inr ())"

text \<open>
  An unbuffered stream opened for update: a write replaces the bytes at the position and moves it
  on. \<open>put\<close> says how much of a write the file takes.
\<close>

type_synonym patch_state = "bytes \<times> nat"

definition patch_write :: "bytes writer \<Rightarrow> patch_state writer" where
  "patch_write put st payload = (case st of (data, position) \<Rightarrow>
     case put (take position data) payload of (r, data') \<Rightarrow>
       (r, (data' @ drop (length data') data, length data')))"

section \<open>Shards\<close>

record shard_groups =
  sg_groups :: "tensor_compile_plan list list"
  sg_current :: "tensor_compile_plan list"
  sg_bytes :: int

definition close_group :: "shard_groups \<Rightarrow> shard_groups" where
  "close_group g = \<lparr>sg_groups = sg_groups g @ [sg_current g], sg_current = [], sg_bytes = 0\<rparr>"

definition shard_step :: "int \<Rightarrow> shard_groups \<Rightarrow> tensor_compile_plan \<Rightarrow> shard_groups res" where
  "shard_step target g tensor = rbind (output_bytes tensor) (\<lambda>size.
     let g1 = (if sg_current g \<noteq> [] \<and> target < sg_bytes g + size then close_group g else g);
         g2 = g1\<lparr>sg_current := sg_current g1 @ [tensor], sg_bytes := sg_bytes g1 + size\<rparr>
     in Inr (if target \<le> size then close_group g2 else g2))"

text \<open>\<open>f"{n:05d}"\<close> on a natural number.\<close>

definition pad5 :: "nat \<Rightarrow> string" where
  "pad5 n = (let digits = nat_str n in replicate (5 - length digits) CHR ''0'' @ digits)"

definition shard_name :: "nat \<Rightarrow> nat \<Rightarrow> string" where
  "shard_name index n_shards = ''model-'' @ pad5 (index + 1) @ ''-of-'' @ pad5 n_shards @ ''.safetensors''"

definition assign_shards :: "quantization_plan \<Rightarrow> shard_assignment list res" where
  "assign_shards plan =
     rbind (rfold (shard_step (qp_target_shard_bytes plan)) \<lparr>sg_groups = [], sg_current = [], sg_bytes = 0\<rparr>
       (qp_tensors plan)) (\<lambda>g.
     let groups = (if sg_current g \<noteq> [] then sg_groups g @ [sg_current g] else sg_groups g);
         n_shards = length groups
     in fail_if (n_shards = 0) (OutputError ''compiler plan produced no output shards'') (
        Inr (map (\<lambda>(index, grp). \<lparr>sa_name = shard_name index n_shards, sa_tensors = grp\<rparr>) (enumerate 0 groups))))"

section \<open>Headers\<close>

definition header_entry :: "tensor_compile_plan \<Rightarrow> int \<Rightarrow> int \<Rightarrow> pyval" where
  "header_entry tensor start stop = PDict [(''dtype'', PStr (output_dtype tensor)),
     (''shape'', PList (map PInt (physical_shape tensor))), (''data_offsets'', PList [PInt start, PInt stop])]"

type_synonym header_state = "int \<times> pyval dict \<times> (int \<times> int) dict"

definition header_step :: "header_state \<Rightarrow> tensor_compile_plan \<Rightarrow> header_state res" where
  "header_step acc tensor = (case acc of (offset, metadata, offsets) \<Rightarrow>
     rbind (output_bytes tensor) (\<lambda>size. let stop = offset + size in
     Inr (stop, dict_set (output_name tensor) (header_entry tensor offset stop) metadata,
       dict_set (output_name tensor) (offset, stop) offsets)))"

definition header_start :: "string \<Rightarrow> header_state" where
  "header_start artifact_label = (0, [(''__metadata__'',
     PDict [(''format'', PStr ''pt''), (''gem16_artifact'', PStr artifact_label)])], [])"

text \<open>\<open>header + b" " * ((-len(header)) % 8)\<close>\<close>

definition pad8 :: "bytes \<Rightarrow> bytes" where
  "pad8 header = header @ replicate (nat ((- int (length header)) mod 8)) 0x20"

definition safetensors_header :: "environment \<Rightarrow> tensor_compile_plan list \<Rightarrow> string \<Rightarrow> (bytes \<times> (int \<times> int) dict) res" where
  "safetensors_header env tensors artifact_label =
     rbind (rfold header_step (header_start artifact_label) tensors) (\<lambda>(offset, metadata, offsets).
     let header = pad8 (env_compact env (PDict metadata)) in
     Inr (pack_u64 (length header) @ header, offsets))"

section \<open>Writing the shards\<close>

text \<open>The system calls that may fail beyond those of an atomic write.\<close>

record output_system = file_system +
  exclusive_fails :: "string \<Rightarrow> bool"
  sync_fails :: "string \<Rightarrow> bool"
  allocate_fails :: "string \<Rightarrow> bool"
  mkdir_fails :: "string \<Rightarrow> bool"

definition atomic :: "output_system \<Rightarrow> file_system" where
  "atomic fsys = file_system.truncate fsys"

definition open_exclusive :: "output_system \<Rightarrow> string \<Rightarrow> files \<Rightarrow> unit res" where
  "open_exclusive fsys path fs = fail_if (fs path \<noteq> None \<or> exclusive_fails fsys path)
     (OutputError ''cannot create compiler output'') (Inr ())"

definition fsync_file :: "output_system \<Rightarrow> string \<Rightarrow> unit res" where
  "fsync_file fsys path = (if sync_fails fsys path then Inl (OSError ''fsync'') else Inr ())"

text \<open>A computation over an open file; what it wrote stays, also when it raises.\<close>

definition on_file :: "string \<Rightarrow> files \<Rightarrow> ('a res \<times> workspace \<times> bytes) option \<Rightarrow> ('a res \<times> workspace \<times> files) option" where
  "on_file path fs m = map_option (\<lambda>(r, ws, out). (r, (ws, fs(path := Some out)))) m"

text \<open>One tensor: its encoder and sources are looked up, and the reported size is checked.\<close>

definition encode_tensor :: "environment \<Rightarrow> 'o writer \<Rightarrow> sources \<Rightarrow> 'o encoder dict \<Rightarrow> tensor_compile_plan \<Rightarrow>
    (workspace \<times> 'o, encoder_result) run" where
  "encode_tensor env put source_tensors encoders tensor st = (case dict_get encoders (encoder tensor) of
     None \<Rightarrow> Some (Inl (OutputError ''encoder is not registered''), st)
   | Some encode \<Rightarrow>
       run_bind (run_only (rmap (dict_index source_tensors) (source_names tensor)) st) (\<lambda>sources (ws, out).
       run_bind (encode env put tensor sources ws out) (\<lambda>result.
       run_only (rbind (output_bytes tensor) (\<lambda>size.
         fail_if (er_output_bytes result \<noteq> size) (OutputError ''encoder byte count mismatch'') (Inr result))))))"

definition shard_tensor :: "environment \<Rightarrow> bytes writer \<Rightarrow> sources \<Rightarrow> bytes encoder dict \<Rightarrow> string \<Rightarrow> (int \<times> int) dict \<Rightarrow>
    written_tensor list \<Rightarrow> tensor_compile_plan \<Rightarrow> (workspace \<times> bytes, written_tensor list) run" where
  "shard_tensor env put source_tensors encoders shard offsets written tensor st =
     run_bind (encode_tensor env put source_tensors encoders tensor st) (\<lambda>result.
     run_only (rbind (dict_index offsets (output_name tensor)) (\<lambda>range.
       Inr (written @ [\<lparr>wr_plan = tensor, wr_shard = shard, wr_data_offsets = range, wr_source_result = result\<rparr>]))))"

definition write_header :: "bytes writer \<Rightarrow> bytes \<Rightarrow> workspace \<Rightarrow> (unit res \<times> workspace \<times> bytes) option" where
  "write_header put header ws = (case write_all put [] header of (r, out) \<Rightarrow> Some (r, ws, out))"

definition write_shard :: "environment \<Rightarrow> output_system \<Rightarrow> string \<Rightarrow> sources \<Rightarrow> bytes encoder dict \<Rightarrow> string \<Rightarrow>
    written_tensor list \<Rightarrow> shard_assignment \<Rightarrow> (workspace \<times> files, written_tensor list) run" where
  "write_shard env fsys label source_tensors encoders staging written assignment st =
     run_bind (run_only (safetensors_header env (sa_tensors assignment) label) st) (\<lambda>(header, offsets) (ws, fs).
     let path = path_join staging (sa_name assignment) in
     case record_header (env_rss env) (int (length header) - 8) ws of
       (Inl e, ws1) \<Rightarrow> Some (Inl e, (ws1, fs))
     | (Inr _, ws1) \<Rightarrow>
       run_bind (run_only (open_exclusive fsys path fs) (ws1, fs)) (\<lambda>_ (ws2, fs2).
       run_bind (on_file path fs2 (run_bind (write_header (fs_put fsys) header ws2) (\<lambda>_.
         run_fold (shard_tensor env (fs_put fsys) source_tensors encoders (sa_name assignment) offsets) written
           (sa_tensors assignment)))) (\<lambda>written' (ws3, fs3).
       run_bind (run_only (fsync_file fsys path) (ws3, fs3)) (\<lambda>_ (ws4, fs4).
       case workspace_check (env_rss env) ws4 of
         (Inl e, ws5) \<Rightarrow> Some (Inl e, (ws5, fs4))
       | (Inr _, ws5) \<Rightarrow> Some (Inr written', (ws5, fs4))))))"

definition weight_map_of :: "written_tensor list \<Rightarrow> string dict" where
  "weight_map_of written = foldl (\<lambda>acc w. dict_set (output_name (wr_plan w)) (wr_shard w) acc) [] written"

definition index_document :: "int \<Rightarrow> string dict \<Rightarrow> pyval" where
  "index_document total_size weight_map = PDict [(''metadata'', PDict [(''total_size'', PInt total_size)]),
     (''weight_map'', PDict (map (\<lambda>(name, shard). (name, PStr shard)) (dict_sorted weight_map)))]"

definition write_index :: "environment \<Rightarrow> output_system \<Rightarrow> quantization_plan \<Rightarrow> string \<Rightarrow> string dict \<Rightarrow>
    (workspace \<times> files, unit) run" where
  "write_index env fsys plan path weight_map st =
     run_bind (run_only (output_tensor_bytes plan) st) (\<lambda>total_size (ws, fs).
     case write_file_atomic (atomic fsys) path (env_canonical env (index_document total_size weight_map)) fs of
       (r, fs') \<Rightarrow> Some (r, (ws, fs')))"

definition native_registry :: "native_bundle option \<Rightarrow> 'o encoder dict \<Rightarrow> 'o encoder dict" where
  "native_registry nb encoders = (case nb of
     None \<Rightarrow> encoders
   | Some b \<Rightarrow> dict_set ''fp8-rowwise-scale-v1'' (native_bundle_encoder b False)
       (dict_set ''fp8-rowwise-weight-v1'' (native_bundle_encoder b True) encoders))"

definition write_shards :: "environment \<Rightarrow> output_system \<Rightarrow> string \<Rightarrow> quantization_plan \<Rightarrow> sources \<Rightarrow> bytes encoder dict \<Rightarrow>
    native_bundle option \<Rightarrow> (workspace \<times> files, written_payload) run" where
  "write_shards env fsys staging plan source_tensors encoders nb st =
     run_bind (run_only (assign_shards plan) st) (\<lambda>assignments st1.
     run_bind (run_only (profile_for (qp_artifact_profile plan) (qp_head_format plan)) st1) (\<lambda>profile st2.
     run_bind (run_fold (write_shard env fsys (prof_header_label profile) source_tensors (native_registry nb encoders) staging)
       [] assignments st2) (\<lambda>written st3.
     run_bind (write_index env fsys plan (path_join staging INDEX_NAME) (weight_map_of written) st3) (\<lambda>_.
     run_only (Inr \<lparr>wp_tensors = written, wp_shard_names = map sa_name assignments, wp_index_name = INDEX_NAME,
       wp_metadata_names = []\<rparr>)))))"

section \<open>Preallocated shards\<close>

text \<open>The header, then zeros up to the final size; a file that could not be completed keeps its header.\<close>

definition preallocate :: "output_system \<Rightarrow> string \<Rightarrow> bytes \<Rightarrow> nat \<Rightarrow> (files, unit) prog" where
  "preallocate fsys path header total_size fs =
    (if fs path \<noteq> None \<or> exclusive_fails fsys path then (Inl (OutputError ''cannot preallocate M06 shard''), fs)
     else case write_all (fs_put fsys) [] header of
         (Inl e, out) \<Rightarrow> (Inl (if is_os_error e then OutputError ''cannot preallocate M06 shard'' else e), fs(path := Some out))
       | (Inr _, out) \<Rightarrow>
           if allocate_fails fsys path then (Inl (OutputError ''cannot reserve M06 shard space''), fs(path := Some out))
           else let fs1 = fs(path := Some (take total_size (out @ replicate (total_size - length out) 0))) in
             if sync_fails fsys path then (Inl (OutputError ''cannot preallocate M06 shard''), fs1)
             else (Inr (), fs1))"

definition output_ranges :: "string \<Rightarrow> int \<Rightarrow> (int \<times> int) dict \<Rightarrow> (string \<times> int) dict \<Rightarrow> tensor_compile_plan \<Rightarrow>
    (string \<times> int) dict res" where
  "output_ranges path header_size offsets acc tensor = rbind (dict_index offsets (output_name tensor)) (\<lambda>(start, _).
     Inr (dict_set (output_name tensor) (path, header_size + start) acc))"

definition prepare_shard :: "environment \<Rightarrow> output_system \<Rightarrow> string \<Rightarrow> string \<Rightarrow> (string \<times> int) dict \<Rightarrow> shard_assignment \<Rightarrow>
    (workspace \<times> files, (string \<times> int) dict) prog" where
  "prepare_shard env fsys label staging outputs assignment st =
     then_do (safetensors_header env (sa_tensors assignment) label, st) (\<lambda>(header, offsets) (ws, fs).
     let path = path_join staging (sa_name assignment) in
     case record_header (env_rss env) (int (length header) - 8) ws of
       (Inl e, ws1) \<Rightarrow> (Inl e, (ws1, fs))
     | (Inr _, ws1) \<Rightarrow>
       then_do (sum_bytes (sa_tensors assignment), (ws1, fs)) (\<lambda>payload_size (ws2, fs2).
       case preallocate fsys path header (length header + nat payload_size) fs2 of
         (Inl e, fs3) \<Rightarrow> (Inl e, (ws2, fs3))
       | (Inr _, fs3) \<Rightarrow>
           (rfold (output_ranges path (int (length header)) offsets) outputs (sa_tensors assignment), (ws2, fs3))))"

definition prepare_direct_shards :: "environment \<Rightarrow> output_system \<Rightarrow> string \<Rightarrow> quantization_plan \<Rightarrow>
    (workspace \<times> files, direct_layout) prog" where
  "prepare_direct_shards env fsys staging plan st =
     then_do (assign_shards plan, st) (\<lambda>assignments st1.
     then_do (profile_for (qp_artifact_profile plan) (qp_head_format plan), st1) (\<lambda>profile st2.
     then_do (prog_fold (prepare_shard env fsys (prof_header_label profile) staging) [] assignments st2) (\<lambda>outputs st3.
     (Inr \<lparr>dl_assignments = assignments, dl_shard_names = map sa_name assignments, dl_index_name = INDEX_NAME,
        dl_outputs = outputs\<rparr>, st3))))"

section \<open>Reconciling native outputs\<close>

text \<open>What a native encoder reports of one range it wrote itself.\<close>

record direct_output =
  do_source_sha256 :: string
  do_output_sha256 :: string
  do_output_bytes :: int
  do_statistics :: "pyval dict option"

definition direct_result :: "direct_output \<Rightarrow> int \<Rightarrow> encoder_result" where
  "direct_result direct byte_count = \<lparr>er_source_sha256 = [do_source_sha256 direct], er_output_sha256 = do_output_sha256 direct,
     er_output_bytes = byte_count, er_statistics = do_statistics direct\<rparr>"

definition reconcile_tensor :: "direct_layout \<Rightarrow> direct_output dict \<Rightarrow> string \<Rightarrow> string \<Rightarrow> (int \<times> int) dict \<Rightarrow>
    written_tensor list \<Rightarrow> tensor_compile_plan \<Rightarrow> written_tensor list res" where
  "reconcile_tensor layout results path shard offsets written tensor =
    (case dict_get results (output_name tensor) of
       None \<Rightarrow> Inl (DataError ''native M06 result is missing'')
     | Some direct \<Rightarrow>
         rbind (dict_index (dl_outputs layout) (output_name tensor)) (\<lambda>(shard_path, _).
         rbind (output_bytes tensor) (\<lambda>size.
         fail_if (shard_path \<noteq> path \<or> do_output_bytes direct \<noteq> size) (DataError ''native M06 result range mismatch'') (
         rbind (dict_index offsets (output_name tensor)) (\<lambda>range.
         Inr (written @ [\<lparr>wr_plan = tensor, wr_shard = shard, wr_data_offsets = range,
           wr_source_result = direct_result direct size\<rparr>]))))))"

definition reconcile_shard :: "environment \<Rightarrow> string \<Rightarrow> quantization_plan \<Rightarrow> direct_layout \<Rightarrow> direct_output dict \<Rightarrow>
    written_tensor list \<Rightarrow> shard_assignment \<Rightarrow> (workspace, written_tensor list) prog" where
  "reconcile_shard env staging plan layout results written assignment ws =
     then_do (rbind (profile_for (qp_artifact_profile plan) (qp_head_format plan)) (\<lambda>profile.
       rbind (safetensors_header env (sa_tensors assignment) (prof_header_label profile)) (\<lambda>(header, offsets).
       rfold (reconcile_tensor layout results (path_join staging (sa_name assignment)) (sa_name assignment) offsets)
         written (sa_tensors assignment))), ws) (\<lambda>written' ws1.
     then_do (workspace_check (env_rss env) ws1) (\<lambda>_ ws2. (Inr written', ws2)))"

definition finalize_direct_shards :: "environment \<Rightarrow> output_system \<Rightarrow> string \<Rightarrow> quantization_plan \<Rightarrow> direct_layout \<Rightarrow>
    direct_output dict \<Rightarrow> (workspace \<times> files, written_payload) run" where
  "finalize_direct_shards env fsys staging plan layout results st = (case st of (ws, fs) \<Rightarrow>
     case prog_fold (reconcile_shard env staging plan layout results) [] (dl_assignments layout) ws of
       (Inl e, ws1) \<Rightarrow> Some (Inl e, (ws1, fs))
     | (Inr written, ws1) \<Rightarrow>
       run_bind (write_index env fsys plan (path_join staging (dl_index_name layout)) (weight_map_of written) (ws1, fs)) (\<lambda>_.
       run_only (Inr \<lparr>wp_tensors = written, wp_shard_names = dl_shard_names layout,
         wp_index_name = dl_index_name layout, wp_metadata_names = []\<rparr>)))"

section \<open>Filling the other ranges\<close>

definition NVFP4_ENCODERS :: "string list" where
  "NVFP4_ENCODERS = [''nvfp4-packed-v1'', ''nvfp4-local-scale-v1'', ''nvfp4-weight-divisor-v1'', ''nvfp4-input-divisor-v1'']"

text \<open>The encoder writes through a range of the shard file opened for update.\<close>

definition fill_range :: "environment \<Rightarrow> output_system \<Rightarrow> sources \<Rightarrow> (patch_state \<times> int) encoder dict \<Rightarrow> string \<Rightarrow> int \<Rightarrow>
    tensor_compile_plan \<Rightarrow> (workspace \<times> files, encoder_result) run" where
  "fill_range env fsys source_tensors registry path offset tensor st = (case st of (ws, fs) \<Rightarrow>
     case dict_get registry (encoder tensor) of
       None \<Rightarrow> Some (Inl (OutputError ''M08 encoder is not registered''), st)
     | Some encode \<Rightarrow>
       run_bind (run_only (rmap (dict_index source_tensors) (source_names tensor)) st) (\<lambda>sources _.
       case fs path of
         None \<Rightarrow> Some (Inl (OSError ''open''), st)
       | Some data \<Rightarrow>
         run_bind (run_only (output_bytes tensor) st) (\<lambda>size _.
         if offset < 0 then Some (Inl (OSError ''seek''), st)
         else map_option (\<lambda>(r, ws', out). (rbind r (\<lambda>result. rbind (range_finish out) (\<lambda>_.
               fail_if (er_output_bytes result \<noteq> size) (OutputError ''M08 encoder byte mismatch'') (Inr result))),
               (ws', fs(path := Some (fst (fst out))))))
           (encode env (range_write (patch_write (fs_put fsys))) tensor sources ws ((data, nat offset), size)))))"

definition place_tensor :: "environment \<Rightarrow> output_system \<Rightarrow> string \<Rightarrow> quantization_plan \<Rightarrow> sources \<Rightarrow> direct_layout \<Rightarrow>
    direct_output dict \<Rightarrow> (patch_state \<times> int) encoder dict \<Rightarrow> shard_assignment dict \<Rightarrow> written_tensor dict \<Rightarrow>
    tensor_compile_plan \<Rightarrow> (workspace \<times> files, written_tensor dict) run" where
  "place_tensor env fsys staging plan source_tensors layout results registry assignments written tensor st =
     run_bind (run_only (dict_index assignments (output_name tensor)) st) (\<lambda>assignment st1.
     run_bind (run_only (dict_index (dl_outputs layout) (output_name tensor)) st1) (\<lambda>(path, absolute_offset) st2.
     run_bind (run_only (rbind (profile_for (qp_artifact_profile plan) (qp_head_format plan)) (\<lambda>profile.
       safetensors_header env (sa_tensors assignment) (prof_header_label profile))) st2) (\<lambda>(header, offsets) st3.
     run_bind (if encoder tensor \<in> set NVFP4_ENCODERS
       then (case dict_get results (output_name tensor) of
           None \<Rightarrow> Some (Inl (DataError ''native M08 NVFP4 result is missing''), st3)
         | Some direct \<Rightarrow> Some (rbind (output_bytes tensor) (\<lambda>size.
             fail_if (do_output_bytes direct \<noteq> size) (DataError ''native M08 NVFP4 result is missing'')
               (Inr (direct_result direct (do_output_bytes direct)))), st3))
       else fill_range env fsys source_tensors registry (path_join staging (sa_name assignment)) absolute_offset tensor st3)
     (\<lambda>result.
     run_only (rbind (dict_index offsets (output_name tensor)) (\<lambda>range.
       Inr (dict_set (output_name tensor) \<lparr>wr_plan = tensor, wr_shard = sa_name assignment, wr_data_offsets = range,
         wr_source_result = result\<rparr> written)))))))"

definition assignments_by_name :: "shard_assignment list \<Rightarrow> shard_assignment dict" where
  "assignments_by_name assignments = foldl (\<lambda>acc a. foldl (\<lambda>acc t. dict_set (output_name t) a acc) acc (sa_tensors a)) [] assignments"

definition sync_shards :: "output_system \<Rightarrow> string \<Rightarrow> files \<Rightarrow> string list \<Rightarrow> unit res" where
  "sync_shards fsys staging fs names = riter (\<lambda>name. let path = path_join staging name in
     if fs path = None then Inl (OSError ''open'') else fsync_file fsys path) names"

definition finalize_mixed_shards :: "environment \<Rightarrow> output_system \<Rightarrow> string \<Rightarrow> quantization_plan \<Rightarrow> sources \<Rightarrow> direct_layout \<Rightarrow>
    direct_output dict \<Rightarrow> native_bundle \<Rightarrow> (patch_state \<times> int) encoder dict \<Rightarrow> (workspace \<times> files, written_payload) run" where
  "finalize_mixed_shards env fsys staging plan source_tensors layout results fp8_bundle encoders st =
    (let assignments = assignments_by_name (dl_assignments layout) in
     run_bind (run_fold (place_tensor env fsys staging plan source_tensors layout results
         (native_registry (Some fp8_bundle) encoders) assignments) [] (qp_tensors plan) st) (\<lambda>written (ws, fs).
     run_bind (run_only (sync_shards fsys staging fs (dl_shard_names layout)) (ws, fs)) (\<lambda>_ st2.
     run_bind (run_only (rmap (\<lambda>t. rbind (dict_index assignments (output_name t)) (\<lambda>a. Inr (output_name t, sa_name a)))
         (qp_tensors plan)) st2) (\<lambda>pairs st3.
     run_bind (write_index env fsys plan (path_join staging (dl_index_name layout))
         (foldl (\<lambda>acc (name, shard). dict_set name shard acc) [] pairs) st3) (\<lambda>_.
     run_only (rbind (rmap (\<lambda>t. dict_index written (output_name t)) (qp_tensors plan)) (\<lambda>ordered.
       Inr \<lparr>wp_tensors = ordered, wp_shard_names = dl_shard_names layout, wp_index_name = dl_index_name layout,
         wp_metadata_names = []\<rparr>)))))))"

section \<open>Metadata files\<close>

definition is_generated_config :: "quantization_plan \<Rightarrow> string \<Rightarrow> bool" where
  "is_generated_config plan relative \<longleftrightarrow> relative = ''config.json''
     \<and> qp_artifact_profile plan \<in> {''sm120-text-hybrid-v1'', ''sm120-mtp-assistant-hybrid-v1''}"

definition write_new_file :: "output_system \<Rightarrow> string \<Rightarrow> bytes \<Rightarrow> (files, unit) prog" where
  "write_new_file fsys path payload fs =
     then_do (open_exclusive fsys path fs, fs) (\<lambda>_ fs1.
     case write_all (fs_put fsys) [] payload of
       (Inl e, out) \<Rightarrow> (Inl e, fs1(path := Some out))
     | (Inr _, out) \<Rightarrow> (fsync_file fsys path, fs1(path := Some out)))"

definition generate_config :: "environment \<Rightarrow> output_system \<Rightarrow> quantization_plan \<Rightarrow> locked_file \<Rightarrow> string \<Rightarrow> (files, unit) prog" where
  "generate_config env fsys plan source destination fs = (case env_files env (lf_path source) of
     None \<Rightarrow> (Inl (OSError ''read''), fs)
   | Some payload \<Rightarrow>
       then_do (fail_if (int (length payload) \<noteq> lf_size source)
         (OutputError ''M08 source config size changed while reading'')
         (compiled_config_bytes env payload (qp_artifact_profile plan)), fs) (write_new_file fsys destination))"

definition copy_metadata :: "environment \<Rightarrow> output_system \<Rightarrow> locked_file \<Rightarrow> string \<Rightarrow> (workspace \<times> files, unit) run" where
  "copy_metadata env fsys source destination st =
     run_bind (run_only (open_exclusive fsys destination (snd st)) st) (\<lambda>_ (ws, fs).
     run_bind (on_file destination fs (copy_range (env_sha env) (env_granularity env) (env_rss env) (fs_put fsys) False
        (env_files env (lf_path source)) 0 (lf_size source) ws [])) (\<lambda>(source_hash, output_hash).
     run_only (rbind (fsync_file fsys destination) (\<lambda>_.
       fail_if (source_hash \<noteq> lf_sha256 source \<or> output_hash \<noteq> lf_sha256 source)
         (OutputError ''metadata hash changed while copying'') (Inr ())))))"

definition metadata_step :: "environment \<Rightarrow> output_system \<Rightarrow> string \<Rightarrow> quantization_plan \<Rightarrow> locked_file dict \<Rightarrow>
    string list \<Rightarrow> string \<Rightarrow> (workspace \<times> files, string list) run" where
  "metadata_step env fsys staging plan source_files copied_names relative st =
     run_bind (run_only (rbind (safe_relative_path relative) (\<lambda>parts.
       rbind (dict_index source_files relative) (\<lambda>source.
       let destination = join_parts staging parts in
       fail_if (mkdir_fails fsys destination) (OSError ''mkdir'') (Inr (source, destination))))) st)
     (\<lambda>(source, destination) (ws, fs).
     run_bind (if is_generated_config plan relative
         then (case generate_config env fsys plan source destination fs of (r, fs') \<Rightarrow> Some (r, (ws, fs')))
         else copy_metadata env fsys source destination (ws, fs)) (\<lambda>_.
     run_only (Inr (copied_names @ [relative]))))"

definition copy_approved_metadata :: "environment \<Rightarrow> output_system \<Rightarrow> string \<Rightarrow> quantization_plan \<Rightarrow> locked_file dict \<Rightarrow>
    (workspace \<times> files, string list) run" where
  "copy_approved_metadata env fsys staging plan source_files =
     run_fold (metadata_step env fsys staging plan source_files) [] (sort (qp_approved_metadata_files plan))"

section \<open>The staging directory\<close>

text \<open>
  The directories and files of the output side. A rename moves a directory with everything below
  it; \<open>ds_rename_fails\<close> is every refusal of the system, a target directory that is not empty included.
\<close>

record disk =
  dk_dirs :: "string \<Rightarrow> bool"
  dk_files :: files

record directory_system =
  ds_mkdir_fails :: bool
  ds_remove_fails :: bool
  ds_rename_fails :: bool
  ds_sync_fails :: "string \<Rightarrow> bool"

definition below :: "string \<Rightarrow> string \<Rightarrow> bool" where
  "below dir path \<longleftrightarrow> path = dir \<or> starts_with (dir @ ''/'') path"

definition move_path :: "string \<Rightarrow> string \<Rightarrow> string \<Rightarrow> string" where
  "move_path old new path = new @ drop (length old) path"

definition rename_directory :: "string \<Rightarrow> string \<Rightarrow> disk \<Rightarrow> disk" where
  "rename_directory old new d = d\<lparr>
     dk_dirs := (\<lambda>p. if below new p then dk_dirs d (move_path new old p) else \<not> below old p \<and> dk_dirs d p),
     dk_files := (\<lambda>p. if below new p then dk_files d (move_path new old p)
       else if below old p then None else dk_files d p)\<rparr>"

definition present :: "disk \<Rightarrow> string \<Rightarrow> bool" where
  "present d path \<longleftrightarrow> dk_dirs d path \<or> dk_files d path \<noteq> None"

definition staging_path :: "string \<Rightarrow> string" where
  "staging_path output_path = output_path @ ''.incomplete''"

text \<open>\<open>links\<close> are the paths that are symbolic links.\<close>

definition create_staging_directory :: "directory_system \<Rightarrow> (string \<Rightarrow> bool) \<Rightarrow> string \<Rightarrow> (disk, string) prog" where
  "create_staging_directory sys links output_path d =
    (let staging = staging_path output_path in
     if present d output_path \<or> links output_path then (Inl (OutputError ''compiler output already exists''), d)
     else if present d staging \<or> links staging then (Inl (OutputError ''stale incomplete compiler output exists''), d)
     else if ds_mkdir_fails sys then (Inl (OutputError ''cannot create staging directory''), d)
     else (Inr staging, d\<lparr>dk_dirs := (dk_dirs d)(staging := True)\<rparr>))"

text \<open>A removal that fails part way leaves what \<open>kept\<close> says and is ignored.\<close>

definition discard_staging :: "directory_system \<Rightarrow> (string \<Rightarrow> bool) \<Rightarrow> (string \<Rightarrow> bool) \<Rightarrow> string \<Rightarrow> disk \<Rightarrow> disk" where
  "discard_staging sys links kept staging d =
    (if present d staging \<and> \<not> links staging
     then let gone = \<lambda>p. below staging p \<and> (ds_remove_fails sys \<longrightarrow> \<not> kept p) in
       d\<lparr>dk_dirs := (\<lambda>p. \<not> gone p \<and> dk_dirs d p), dk_files := (\<lambda>p. if gone p then None else dk_files d p)\<rparr>
     else d)"

definition parent_path :: "string \<Rightarrow> string" where
  "parent_path path = (let base = remove_suffix (after_last CHR ''/'' path) path in
     if ends_with ''/'' base \<and> length base \<noteq> 1 then butlast base else base)"

definition sync_directory :: "directory_system \<Rightarrow> string \<Rightarrow> unit res" where
  "sync_directory sys path = (if ds_sync_fails sys path then Inl (OutputError ''cannot fsync directory'') else Inr ())"

definition publish_staging :: "directory_system \<Rightarrow> string \<Rightarrow> string \<Rightarrow> (disk, unit) prog" where
  "publish_staging sys staging output_path d =
     then_do (rbind (sync_directory sys staging) (\<lambda>_. sync_directory sys (parent_path staging)), d) (\<lambda>_ d1.
     if ds_rename_fails sys \<or> \<not> dk_dirs d1 staging \<or> dk_files d1 output_path \<noteq> None
     then (Inl (OutputError ''cannot atomically publish''), d1)
     else (sync_directory sys (parent_path output_path), rename_directory staging output_path d1))"

end
