(* ===== verification/Native_Stage.thy ===== *)
theory Native_Stage
  imports Writer
begin

text \<open>
  The staging of a native executable: \<open>_regular_executable\<close> and \<open>_stage_executable\<close> of
  \<open>tools/gem16_compile/native_fp8.py\<close> and \<open>native_nvfp4.py\<close>. The two copies of the code differ in
  the name of the staged file and in whether the memory is checked before or after a chunk is
  written.
\<close>

text \<open>
  What the system says of the executable: whether it may be executed, whether its identity
  (device, inode, size, time) changed between the two calls of \<open>stat\<close>, and which calls fail.
\<close>

record staging_system = output_system +
  executable :: "string \<Rightarrow> bool"
  identity_changed :: bool
  unlink_fails :: bool

definition regular_executable :: "environment \<Rightarrow> staging_system \<Rightarrow> string \<Rightarrow> unit res" where
  "regular_executable env sys path = (case env_entry env path of
     Missing \<Rightarrow> Inl (OutputError ''cannot inspect native encoder'')
   | Denied \<Rightarrow> Inl (OutputError ''cannot inspect native encoder'')
   | entry \<Rightarrow>
       fail_if (env_symlink env path \<or> (case entry of Regular _ \<Rightarrow> False | _ \<Rightarrow> True))
         (OutputError ''native encoder is not a regular file'') (
       fail_if (\<not> executable sys path) (OutputError ''native encoder is not executable'') (Inr ())))"

text \<open>The inner loop over \<open>os.write\<close>.\<close>

function push_all :: "'o writer \<Rightarrow> 'o \<Rightarrow> bytes \<Rightarrow> unit res \<times> 'o" where
  "push_all put out payload =
     (if payload = [] then (Inr (), out)
      else case put out payload of
          (Inl e, out') \<Rightarrow> (Inl e, out')
        | (Inr written, out') \<Rightarrow> (case plain_int written of
             None \<Rightarrow> (Inl (TypeError ''write''), out')
           | Some n \<Rightarrow>
               if n \<le> 0 then (Inl (OutputError ''short write while staging native encoder''), out')
               else push_all put out' (drop (nat n) payload)))"
  by auto
termination
  by (relation "measure (\<lambda>(_, _, payload). length payload)") auto

declare push_all.simps [simp del]

definition stage_chunk :: "rss \<Rightarrow> bool \<Rightarrow> bytes writer \<Rightarrow> bytes \<Rightarrow> (workspace \<times> bytes, unit) prog" where
  "stage_chunk rss check_first put chunk st = (case st of (ws, out) \<Rightarrow>
     if check_first
     then (case workspace_check rss ws of
         (Inl e, ws1) \<Rightarrow> (Inl e, (ws1, out))
       | (Inr _, ws1) \<Rightarrow> (case push_all put out chunk of (r, out1) \<Rightarrow> (r, (ws1, out1))))
     else (case push_all put out chunk of
         (Inl e, out1) \<Rightarrow> (Inl e, (ws, out1))
       | (Inr _, out1) \<Rightarrow> (case workspace_check rss ws of (r, ws1) \<Rightarrow> (r, (ws1, out1)))))"

text \<open>The outer loop over \<open>os.read\<close>; \<open>step\<close> is the chunk size.\<close>

function stage_loop :: "rss \<Rightarrow> bool \<Rightarrow> bytes writer \<Rightarrow> nat \<Rightarrow> bytes \<Rightarrow> nat \<Rightarrow> (workspace \<times> bytes, unit) prog" where
  "stage_loop rss check_first put step data position st =
    (let chunk = file_read data position step in
     if chunk = [] then (Inr (), st)
     else (case stage_chunk rss check_first put chunk st of
         (Inl e, st1) \<Rightarrow> (Inl e, st1)
       | (Inr _, st1) \<Rightarrow> stage_loop rss check_first put step data (position + length chunk) st1))"
  by auto
termination
  by (relation "measure (\<lambda>(_, _, _, _, data, position, _). length data - position)") (auto simp: file_read_def)

declare stage_loop.simps [simp del]

text \<open>What is done with the staged file once the copy loop has ended, up to the handlers.\<close>

definition staged_digest :: "environment \<Rightarrow> staging_system \<Rightarrow> string \<Rightarrow> bytes \<Rightarrow> bytes \<Rightarrow> string res" where
  "staged_digest env sys staged data out =
     fail_if (sync_fails sys staged) (OSError ''fsync'') (
     fail_if (identity_changed sys) (SourceVerificationError ''native encoder changed while staging'') (
     fail_if (env_sha env out \<noteq> env_sha env data) (SourceVerificationError ''staged native encoder hash mismatch'') (
     fail_if (chmod_fails sys) (OSError ''chmod'') (Inr (env_sha env out)))))"

definition stage_executable :: "environment \<Rightarrow> staging_system \<Rightarrow> bool \<Rightarrow> string \<Rightarrow> string \<Rightarrow>
    (workspace \<times> files, string) prog" where
  "stage_executable env sys check_first source staged st = (case st of (ws, fs) \<Rightarrow>
     case regular_executable env sys source of
       Inl e \<Rightarrow> (Inl e, st)
     | Inr _ \<Rightarrow>
       let failed = (\<lambda>e ws' fs'. if os_or_compiler e
             then (Inl (if is_compiler_error e then e else OutputError ''cannot stage native encoder''),
               (ws', if unlink_fails sys then fs' else fs'(staged := None)))
             else (Inl e, (ws', fs')))
       in case env_files env source of
           None \<Rightarrow> failed (OSError ''open'') ws fs
         | Some data \<Rightarrow>
             if fs staged \<noteq> None \<or> exclusive_fails sys staged then failed (OSError ''open'') ws fs
             else let step = min (nat (staging_bytes ws)) (1024 * 1024) in
               (case stage_loop (env_rss env) check_first (fs_put sys) step data 0 (ws, []) of
                 (Inl e, (ws1, out)) \<Rightarrow> failed e ws1 (fs(staged := Some out))
               | (Inr _, (ws1, out)) \<Rightarrow>
                   (case staged_digest env sys staged (if step = 0 then [] else data) out of
                     Inl e \<Rightarrow> failed e ws1 (fs(staged := Some out))
                   | Inr digest \<Rightarrow> (Inr digest, (ws1, fs(staged := Some out))))))"

definition stage_fp8_executable :: "environment \<Rightarrow> staging_system \<Rightarrow> string \<Rightarrow> string \<Rightarrow> (workspace \<times> files, string) prog" where
  "stage_fp8_executable env sys source staging = stage_executable env sys True source (Native_FP8.staged_path staging)"

lemma stage_executable_Inr:
  assumes "stage_executable env sys check_first source staged (ws, fs) = (Inr digest, (ws', fs'))" "0 < staging_bytes ws"
  shows "\<exists>data out. env_files env source = Some data \<and> fs staged = None \<and> fs' = fs(staged := Some out)
    \<and> digest = env_sha env out \<and> env_sha env data = digest"
  using assms by (auto simp: stage_executable_def staged_digest_def Let_def split: sum.splits option.splits if_splits prod.splits)

lemma stage_executable_frame:
  "stage_executable env sys check_first source staged (ws, fs) = (r, (ws', fs')) \<Longrightarrow> p \<noteq> staged \<Longrightarrow> fs' p = fs p"
  by (auto simp: stage_executable_def Let_def split: sum.splits option.splits if_splits prod.splits)

end
