(* ===== verification/Native_NVFP4.thy ===== *)
theory Native_NVFP4
  imports Native_Stage
begin

text \<open>
  \<open>tools/gem16_compile/native_nvfp4.py\<close>: the job handed to the native NVFP4 compiler, which writes
  straight into the ranges of preallocated shards; the checks of the telemetry it leaves; and the
  run around the child process, from the build identity to the removal of its temporary files.
\<close>

definition PROTOCOL :: string where "PROTOCOL = ''gem16-nvfp4-direct-v1''"
definition NVFP4_CONTRACT_ID :: string where "NVFP4_CONTRACT_ID = ''gem16.nvfp4_bf16_group16''"
definition NVFP4_CONTRACT_VERSION :: int where "NVFP4_CONTRACT_VERSION = 1"
definition MAX_DIAGNOSTIC_BYTES :: int where "MAX_DIAGNOSTIC_BYTES = 2 ^ 20"

record nvfp4_request =
  nq_executable :: string
  nq_timeout_seconds :: int
  nq_threads :: int
  nq_profile :: string

record nvfp4_preflight =
  np_binary_sha256 :: string
  np_native_build :: "string dict"

record nvfp4_result =
  nv_outputs :: "direct_output dict"
  nv_binary_sha256 :: string
  nv_threads :: int
  nv_maximum_source_row_bytes :: int
  nv_child_peak_rss_bytes :: int
  nv_native_build :: "string dict"
  nv_source_passes :: int
  nv_analysis_seconds :: pyfloat
  nv_conversion_seconds :: pyfloat
  nv_telemetry :: "pyval dict"

section \<open>Build identity\<close>

text \<open>What came of running the executable with \<open>--build-info\<close>.\<close>

record query_outcome =
  qo_start_fails :: bool
  qo_timed_out :: bool
  qo_returncode :: int
  qo_stdout :: bytes
  qo_stderr :: bytes

definition parse_build_info :: "environment \<Rightarrow> bytes \<Rightarrow> string dict res" where
  "parse_build_info env raw = (case env_parse env raw of
     None \<Rightarrow> Inl (DataError ''native M06 build-info JSON is invalid'')
   | Some t \<Rightarrow> rbind (json_value t) (\<lambda>document. case document of
       PDict d \<Rightarrow>
         fail_if (dict_keys d \<noteq> {''protocol'', ''native_build''}) (DataError ''native M06 build-info schema mismatch'') (
         fail_if (obj_get d ''protocol'' \<noteq> PStr PROTOCOL) (DataError ''native M06 build-info protocol mismatch'')
           (native_build (obj_get d ''native_build'')))
     | _ \<Rightarrow> Inl (DataError ''native M06 build-info schema mismatch'')))"

definition query_build_info :: "environment \<Rightarrow> query_outcome \<Rightarrow> string dict res" where
  "query_build_info env q =
     fail_if (qo_start_fails q) (OutputError ''native M06 build-info query failed'') (
     fail_if (qo_timed_out q) (OutputError ''native M06 build-info query timed out'') (
     fail_if (64 * 1024 < length (qo_stdout q) \<or> MAX_DIAGNOSTIC_BYTES < int (length (qo_stderr q)))
       (OutputError ''native M06 build-info output exceeds safety limit'') (
     fail_if (qo_returncode q \<noteq> 0 \<or> qo_stderr q \<noteq> []) (OutputError ''native M06 build-info query failed'')
       (parse_build_info env (qo_stdout q)))))"

definition HYBRID_PROFILES :: "string list" where
  "HYBRID_PROFILES = [''sm120-text-hybrid-v1'', ''sm120-mtp-assistant-hybrid-v1'']"

definition release_required :: "string \<Rightarrow> error" where
  "release_required profile =
    (if profile = ''nvfp4-tied-head-partial-v1''
     then InvalidPlanError ''M07 tied-head conversion requires a native Release build''
     else if profile \<in> set HYBRID_PROFILES
     then InvalidPlanError ''complete hybrid conversion requires a native Release build''
     else InvalidPlanError ''M06 full conversion requires a native Release build'')"

definition nvfp4_staged_path :: "string \<Rightarrow> string" where "nvfp4_staged_path staging = path_join staging ''.nvfp4_encoder''"

definition stage_nvfp4_executable :: "environment \<Rightarrow> staging_system \<Rightarrow> string \<Rightarrow> string \<Rightarrow> (workspace \<times> files, string) prog" where
  "stage_nvfp4_executable env sys source staging = stage_executable env sys False source (nvfp4_staged_path staging)"

text \<open>
  The preflight, in a temporary directory of its own, which is \<open>None\<close> when it cannot be created and
  is removed with everything in it.
\<close>

definition preflight_native_nvfp4 :: "environment \<Rightarrow> staging_system \<Rightarrow> query_outcome \<Rightarrow> string option \<Rightarrow> nvfp4_request \<Rightarrow>
    (workspace, nvfp4_preflight) prog" where
  "preflight_native_nvfp4 env sys q temporary request ws = (case temporary of
     None \<Rightarrow> (Inl (OSError ''mkdtemp''), ws)
   | Some directory \<Rightarrow>
     (case stage_nvfp4_executable env sys (nq_executable request) directory (ws, \<lambda>_. None) of
        (Inl e, (ws1, _)) \<Rightarrow> (Inl e, ws1)
      | (Inr binary_hash, (ws1, _)) \<Rightarrow>
         (rbind (query_build_info env q) (\<lambda>build.
          fail_if (dict_get build ''build_type'' \<noteq> Some ''Release'') (release_required (nq_profile request))
            (Inr \<lparr>np_binary_sha256 = binary_hash, np_native_build = build\<rparr>)), ws1)))"

section \<open>The job\<close>

definition NVFP4_COMPONENTS :: "string list" where
  "NVFP4_COMPONENTS = [''packed'', ''local_scale'', ''weight_global'', ''input_global'']"

definition component_of :: "string \<Rightarrow> string option" where
  "component_of enc =
    (if enc = ''nvfp4-packed-v1'' then Some ''packed''
     else if enc = ''nvfp4-local-scale-v1'' then Some ''local_scale''
     else if enc = ''nvfp4-weight-divisor-v1'' then Some ''weight_global''
     else if enc = ''nvfp4-input-divisor-v1'' then Some ''input_global'' else None)"

type_synonym component_group = "tensor_compile_plan dict"

definition group_step :: "component_group dict \<Rightarrow> tensor_compile_plan \<Rightarrow> component_group dict res" where
  "group_step groups tensor = (case component_of (encoder tensor) of
     None \<Rightarrow> Inl (DataError ''unsupported native M06 encoder'')
   | Some component \<Rightarrow>
       let grp = (case dict_get groups (operation_id tensor) of None \<Rightarrow> [] | Some g \<Rightarrow> g) in
       fail_if (component \<in> dict_keys grp) (DataError ''duplicate M06 component'')
         (Inr (dict_set (operation_id tensor) (dict_set component tensor grp) groups)))"

text \<open>A complete group has the four components, over one and the same source.\<close>

definition check_group :: "component_group \<Rightarrow> component_group res" where
  "check_group grp =
     fail_if (dict_keys grp \<noteq> set NVFP4_COMPONENTS)
       (DataError ''M06 operation does not contain exactly four components'') (
     fail_if (case grp of [] \<Rightarrow> True
         | (_, first) # _ \<Rightarrow> length (source_names first) \<noteq> 1 \<or> list_ex (\<lambda>(_, t). source_names t \<noteq> source_names first) grp)
       (DataError ''M06 operation source mismatch'') (Inr grp))"

definition group_plans :: "quantization_plan \<Rightarrow> component_group list res" where
  "group_plans plan = rbind (rfold group_step [] (qp_tensors plan)) (\<lambda>groups.
     rmap (\<lambda>(_, grp). check_group grp) (dict_sorted groups))"

text \<open>A range of a shard the child must write.\<close>

record nvfp4_target =
  nt_name :: string
  nt_path :: string
  nt_offset :: int
  nt_bytes :: int

record nvfp4_operation =
  no_operation_id :: string
  no_source_name :: string
  no_source_path :: string
  no_source_sha256 :: string
  no_source_offset :: int
  no_source_bytes :: int
  no_source_dtype :: string
  no_logical_shape :: "int list"
  no_rows :: int
  no_columns :: int
  no_role :: string
  no_axis_transformation :: string
  no_disk_layout :: string
  no_runtime_layout :: string
  no_outputs :: "nvfp4_target dict"

record nvfp4_job =
  nj_artifact_profile :: string
  nj_scope :: string
  nj_threads :: int
  nj_operations :: "nvfp4_operation list"

text \<open>The source of a group: a BF16 tensor of two or three dimensions, in a regular file.\<close>

definition nvfp4_source :: "environment \<Rightarrow> sources \<Rightarrow> tensor_compile_plan \<Rightarrow> (string \<times> tensor_descriptor \<times> string) res" where
  "nvfp4_source env source_tensors packed = (case source_names packed of
     [] \<Rightarrow> Inl (IndexError ''source_names'')
   | source_name # _ \<Rightarrow> (case dict_get source_tensors source_name of
       None \<Rightarrow> Inl (DataError ''invalid M06 source tensor'')
     | Some source \<Rightarrow>
         fail_if (td_dtype source \<noteq> ''BF16'' \<or> length (td_shape source) \<notin> {2, 3}) (DataError ''invalid M06 source tensor'') (
         fail_if (logical_shape packed \<noteq> td_shape source) (DataError ''M06 source shape mismatch'') (
         fail_if (td_byte_length source \<noteq> prod_list (td_shape source) * 2) (DataError ''M06 source byte count mismatch'') (
         case env_resolve env (td_path source) of
           None \<Rightarrow> Inl (SourceVerificationError ''cannot resolve M06 source shard'')
         | Some resolved \<Rightarrow>
             rbind (reraise is_os_error (SourceVerificationError ''cannot resolve M06 source shard'') (is_file env resolved)) (\<lambda>regular.
             fail_if (\<not> regular \<or> env_symlink env resolved)
               (SourceVerificationError ''M06 source shard is not a regular file'') (Inr (source_name, source, resolved))))))))"

definition expected_shape :: "int list \<Rightarrow> string \<Rightarrow> int list" where
  "expected_shape shape component =
    (if component = ''packed'' then butlast shape @ [last shape div 2]
     else if component = ''local_scale'' then butlast shape @ [last shape div 16] else [1])"

definition expected_bytes :: "int \<Rightarrow> string \<Rightarrow> int" where
  "expected_bytes elements component =
    (if component = ''packed'' then elements div 2 else if component = ''local_scale'' then elements div 16 else 4)"

definition target_step :: "direct_layout \<Rightarrow> int list \<Rightarrow> int \<Rightarrow> nvfp4_target dict \<Rightarrow> string \<times> tensor_compile_plan \<Rightarrow>
    nvfp4_target dict res" where
  "target_step layout shape elements targets entry = (case entry of (component, tensor) \<Rightarrow>
     fail_if (physical_shape tensor \<noteq> expected_shape shape component) (DataError ''M06 output shape/bytes mismatch'') (
     rbind (output_bytes tensor) (\<lambda>byte_count.
     fail_if (byte_count \<noteq> expected_bytes elements component) (DataError ''M06 output shape/bytes mismatch'') (
     case dict_get (dl_outputs layout) (output_name tensor) of
       None \<Rightarrow> Inl (DataError ''M06 output has no prepared shard range'')
     | Some (path, offset) \<Rightarrow> Inr (dict_set component \<lparr>nt_name = output_name tensor, nt_path = path,
         nt_offset = offset, nt_bytes = byte_count\<rparr> targets)))))"

definition make_operation :: "direct_layout \<Rightarrow> component_group \<Rightarrow> tensor_compile_plan \<Rightarrow> string \<Rightarrow> tensor_descriptor \<Rightarrow>
    string \<Rightarrow> string \<Rightarrow> nvfp4_operation res" where
  "make_operation layout grp packed source_name source resolved source_hash =
    (let shape = td_shape source; rows = prod_list (butlast shape); columns = last shape in
     rbind (rfold (target_step layout shape (rows * columns)) [] grp) (\<lambda>targets.
     Inr \<lparr>no_operation_id = operation_id packed, no_source_name = source_name, no_source_path = resolved,
       no_source_sha256 = source_hash, no_source_offset = td_absolute_offset source,
       no_source_bytes = td_byte_length source, no_source_dtype = td_dtype source, no_logical_shape = shape,
       no_rows = rows, no_columns = columns, no_role = role packed,
       no_axis_transformation = axis_transformation packed, no_disk_layout = disk_layout packed,
       no_runtime_layout = runtime_layout packed, no_outputs = targets\<rparr>))"

text \<open>A source is hashed once, when the first operation over it is built.\<close>

definition operation_step :: "environment \<Rightarrow> sources \<Rightarrow> direct_layout \<Rightarrow> string dict \<times> nvfp4_operation list \<Rightarrow> component_group \<Rightarrow>
    (workspace, string dict \<times> nvfp4_operation list) run" where
  "operation_step env source_tensors layout acc grp ws = (case acc of (hashes, operations) \<Rightarrow>
     run_bind (run_only (rbind (dict_index grp ''packed'') (\<lambda>packed.
       rbind (nvfp4_source env source_tensors packed) (\<lambda>(source_name, source, resolved).
       Inr (packed, source_name, source, resolved)))) ws) (\<lambda>(packed, source_name, source, resolved) ws1.
     run_bind (case dict_get hashes source_name of
         Some digest \<Rightarrow> run_only (Inr digest) ws1
       | None \<Rightarrow> hash_tensor_range (env_sha env) (env_granularity env) (env_rss env) (env_files env resolved)
           (td_absolute_offset source) (td_byte_length source) ws1) (\<lambda>digest.
     run_only (rbind (make_operation layout grp packed source_name source resolved digest) (\<lambda>operation.
       Inr (dict_set source_name digest hashes, operations @ [operation]))))))"

definition job_scope :: "quantization_plan \<Rightarrow> nat \<Rightarrow> string" where
  "job_scope plan n_operations =
    (if qp_artifact_profile plan \<in> set HYBRID_PROFILES then ''complete''
     else if qp_artifact_profile plan = ''nvfp4-tied-head-partial-v1'' then ''tied_head''
     else if n_operations = 150 then ''full'' else ''fixture'')"

definition make_nvfp4_job :: "environment \<Rightarrow> quantization_plan \<Rightarrow> sources \<Rightarrow> direct_layout \<Rightarrow> int \<Rightarrow> (workspace, nvfp4_job) run" where
  "make_nvfp4_job env plan source_tensors layout threads ws =
     run_bind (run_only (fail_if (threads < 1 \<or> 64 < threads) (InvalidPlanError ''--threads must be in the range 1..64'')
       (group_plans plan)) ws) (\<lambda>groups ws1.
     run_bind (run_fold (operation_step env source_tensors layout) ([], []) groups ws1) (\<lambda>(_, operations).
     run_only (Inr \<lparr>nj_artifact_profile = qp_artifact_profile plan, nj_scope = job_scope plan (length operations),
       nj_threads = threads, nj_operations = operations\<rparr>)))"

text \<open>The document written for the child.\<close>

definition target_document :: "string \<times> nvfp4_target \<Rightarrow> string \<times> pyval" where
  "target_document entry = (case entry of (component, t) \<Rightarrow> (component, PDict [(''component'', PStr component),
     (''name'', PStr (nt_name t)), (''path'', PStr (nt_path t)), (''offset'', PInt (nt_offset t)), (''bytes'', PInt (nt_bytes t))]))"

definition operation_document :: "nvfp4_operation \<Rightarrow> pyval" where
  "operation_document op = PDict ([(''operation_id'', PStr (no_operation_id op)), (''source_name'', PStr (no_source_name op)),
     (''source_path'', PStr (no_source_path op)), (''source_sha256'', PStr (no_source_sha256 op)),
     (''source_offset'', PInt (no_source_offset op)), (''source_bytes'', PInt (no_source_bytes op)),
     (''source_dtype'', PStr (no_source_dtype op)), (''logical_shape'', PList (map PInt (no_logical_shape op))),
     (''rows'', PInt (no_rows op)), (''columns'', PInt (no_columns op)), (''role'', PStr (no_role op)),
     (''axis_transformation'', PStr (no_axis_transformation op)), (''disk_layout'', PStr (no_disk_layout op)),
     (''runtime_layout'', PStr (no_runtime_layout op))] @ map target_document (no_outputs op))"

definition nvfp4_job_document :: "nvfp4_job \<Rightarrow> pyval" where
  "nvfp4_job_document job = PDict [(''schema_version'', PInt 1), (''protocol'', PStr PROTOCOL),
     (''artifact_profile'', PStr (nj_artifact_profile job)), (''scope'', PStr (nj_scope job)),
     (''contract_id'', PStr NVFP4_CONTRACT_ID), (''contract_version'', PInt NVFP4_CONTRACT_VERSION),
     (''threads'', PInt (nj_threads job)), (''operations'', PList (map operation_document (nj_operations job)))]"


section \<open>The telemetry\<close>

text \<open>\<open>isinstance(value, int)\<close>, which holds of booleans.\<close>

definition int_view :: "pyval \<Rightarrow> int option" where
  "int_view v = (case v of PInt n \<Rightarrow> Some n | PBool b \<Rightarrow> Some (of_bool b) | _ \<Rightarrow> None)"

definition finite_number :: "pyval \<Rightarrow> pyfloat res" where
  "finite_number v = (case v of
     PInt n \<Rightarrow> float_of_int n
   | PFloat x \<Rightarrow> fail_if (\<not> is_finite x) (DataError ''native M06 telemetry scalar is invalid'') (Inr x)
   | _ \<Rightarrow> Inl (DataError ''native M06 telemetry scalar is invalid''))"

definition finite_item :: "pyval dict \<Rightarrow> string \<Rightarrow> pyfloat res" where
  "finite_item item key = rbind (dict_index item key) finite_number"

definition int_item :: "pyval dict \<Rightarrow> string \<Rightarrow> int res" where
  "int_item item key = rbind (dict_index item key) py_int"

definition sha256_hex :: "pyval dict \<Rightarrow> string \<Rightarrow> string res" where
  "sha256_hex item key = (case obj_get item key of
     PStr text \<Rightarrow> fail_if (length text \<noteq> 64 \<or> \<not> list_all lower_hex text)
       (DataError ''native M06 telemetry hash is invalid'') (Inr text)
   | _ \<Rightarrow> Inl (DataError ''native M06 telemetry hash is invalid''))"

text \<open>The statistics of one operation.\<close>

definition energies :: "pyval dict \<Rightarrow> (pyfloat \<times> pyfloat \<times> pyfloat \<times> pyfloat) res" where
  "energies item =
     rbind (finite_item item ''source_sum_squares'') (\<lambda>source_energy.
     rbind (finite_item item ''error_sum_squares'') (\<lambda>error_energy.
     rbind (finite_item item ''reconstruction_sum_squares'') (\<lambda>reconstruction_energy.
     rbind (finite_item item ''source_reconstruction_dot'') (\<lambda>dot.
     fail_if (list_ex (\<lambda>x. float_lt x (Fin False 0)) [source_energy, error_energy, reconstruction_energy])
       (DataError ''native M06 telemetry energy is negative'')
       (Inr (source_energy, error_energy, reconstruction_energy, dot))))))"

definition histogram_list :: "pyval dict \<Rightarrow> string \<Rightarrow> pyval res" where
  "histogram_list item key = (case obj_get item key of
     PList entries \<Rightarrow> Inr (PList entries) | _ \<Rightarrow> Inl (TypeError ''list''))"

definition finite_entries :: "pyval dict \<Rightarrow> string list \<Rightarrow> pyval dict res" where
  "finite_entries item keys = rmap (\<lambda>key. rbind (finite_item item key) (\<lambda>x. Inr (key, PFloat x))) keys"

definition count_entries :: "pyval dict \<Rightarrow> string list \<Rightarrow> pyval dict res" where
  "count_entries item keys = rmap (\<lambda>key. rbind (int_item item key) (\<lambda>n. Inr (key, PInt n))) keys"

definition nvfp4_statistics :: "environment \<Rightarrow> pyval dict \<Rightarrow> string \<Rightarrow> pyval dict res" where
  "nvfp4_statistics env item component =
     rbind (int_item item ''rows'') (\<lambda>rows.
     rbind (int_item item ''columns'') (\<lambda>columns. let elements = rows * columns in
     rbind (energies item) (\<lambda>(source_energy, error_energy, reconstruction_energy, dot).
     rbind (native_cosine env dot source_energy reconstruction_energy) (\<lambda>cosine.
     rbind (finite_entries item [''source_min'', ''source_max'']) (\<lambda>source_range.
     rbind (rbind (float_of_int elements) (\<lambda>total. rbind (float_div source_energy total) (env_sqrt env))) (\<lambda>source_rms.
     rbind (if nonzero source_energy then rbind (float_div error_energy source_energy) (env_sqrt env)
            else Inr (Fin False 0)) (\<lambda>relative_l2.
     rbind (finite_entries item [''max_absolute_error'']) (\<lambda>max_error.
     rbind (if is_zero error_energy \<or> is_zero source_energy then Inr PNone
            else rbind (rbind (float_div source_energy error_energy) (env_log10 env)) (\<lambda>l.
                 Inr (PFloat (float_mul (Fin False 10) l)))) (\<lambda>sqnr.
     rbind (finite_entries item [''tensor_amax'', ''weight_divisor'', ''input_divisor'', ''scale_min'', ''scale_max'']) (\<lambda>scales.
     rbind (count_entries item [''zero_blocks'', ''underflow_blocks'', ''saturation_count'']) (\<lambda>counts.
     rbind (histogram_list item ''code_histogram'') (\<lambda>code_histogram.
     rbind (histogram_list item ''scale_histogram'') (\<lambda>scale_histogram.
     let entries = [(''contract_id'', PStr NVFP4_CONTRACT_ID), (''contract_version'', PInt NVFP4_CONTRACT_VERSION),
         (''component'', PStr component), (''rows'', PInt rows), (''columns'', PInt columns), (''elements'', PInt elements)]
       @ source_range @ [(''source_rms'', PFloat source_rms), (''relative_l2_error'', PFloat relative_l2),
         (''cosine_similarity'', PFloat cosine)] @ max_error
       @ [(''sqnr_db'', sqnr), (''perfect_reconstruction'', PBool (is_zero error_energy))] @ scales @ counts
       @ [(''code_histogram'', code_histogram), (''scale_histogram'', scale_histogram)]
     in fail_if (list_ex (\<lambda>(_, v). case v of PFloat x \<Rightarrow> \<not> is_finite x | _ \<Rightarrow> False) entries)
       (DataError ''native M06 derived statistic is non-finite'') (Inr entries))))))))))))))"

section \<open>The checks of one operation\<close>

definition OPERATION_KEYS :: "string list" where
  "OPERATION_KEYS = [''operation_id'', ''source_name'', ''source_sha256'', ''source_bytes'', ''source_dtype'', ''role'',
     ''axis_transformation'', ''disk_layout'', ''runtime_layout'', ''logical_shape'', ''rows'', ''columns'',
     ''packed_name'', ''packed_sha256'', ''local_scale_name'', ''local_scale_sha256'', ''weight_global_name'',
     ''weight_global_sha256'', ''input_global_name'', ''input_global_sha256'', ''tensor_amax'', ''weight_divisor'',
     ''input_divisor'', ''source_min'', ''source_max'', ''source_sum_squares'', ''reconstruction_sum_squares'',
     ''source_reconstruction_dot'', ''error_sum_squares'', ''max_absolute_error'', ''scale_min'', ''scale_max'',
     ''zero_blocks'', ''underflow_blocks'', ''saturation_count'', ''code_histogram'', ''scale_histogram'']"

definition same_operation :: "pyval dict \<Rightarrow> nvfp4_operation \<Rightarrow> bool" where
  "same_operation item op \<longleftrightarrow>
     list_all (\<lambda>(key, v). py_eq (obj_get item key) v)
       [(''operation_id'', PStr (no_operation_id op)), (''source_name'', PStr (no_source_name op)),
        (''source_sha256'', PStr (no_source_sha256 op)), (''source_bytes'', PInt (no_source_bytes op)),
        (''source_dtype'', PStr (no_source_dtype op)), (''role'', PStr (no_role op)),
        (''axis_transformation'', PStr (no_axis_transformation op)), (''disk_layout'', PStr (no_disk_layout op)),
        (''runtime_layout'', PStr (no_runtime_layout op)),
        (''logical_shape'', PList (map PInt (no_logical_shape op))), (''rows'', PInt (no_rows op)),
        (''columns'', PInt (no_columns op))]"

definition check_count :: "pyval dict \<Rightarrow> string \<Rightarrow> unit res" where
  "check_count item key = fail_if (case int_view (obj_get item key) of None \<Rightarrow> True | Some n \<Rightarrow> n < 0)
     (DataError ''native M06 telemetry count is invalid'') (Inr ())"

definition exceeds :: "pyval dict \<Rightarrow> string \<Rightarrow> int \<Rightarrow> bool" where
  "exceeds item key bound = num_lt (PInt bound) (obj_get item key)"

text \<open>A histogram: a list of \<open>n\<close> non-negative integers with the given sum.\<close>

definition valid_histogram :: "pyval \<Rightarrow> nat \<Rightarrow> int \<Rightarrow> bool" where
  "valid_histogram v n expected = (case v of
     PList entries \<Rightarrow> length entries = n \<and> (case those (map int_view entries) of
         None \<Rightarrow> False
       | Some counts \<Rightarrow> list_all (\<lambda>c. 0 \<le> c) counts \<and> sum_list counts = expected)
   | _ \<Rightarrow> False)"

definition FINITE_FIELDS :: "string list" where
  "FINITE_FIELDS = [''tensor_amax'', ''weight_divisor'', ''input_divisor'', ''source_min'', ''source_max'',
     ''source_sum_squares'', ''reconstruction_sum_squares'', ''source_reconstruction_dot'', ''error_sum_squares'',
     ''max_absolute_error'', ''scale_min'', ''scale_max'']"

definition not_positive :: "pyval \<Rightarrow> bool" where
  "not_positive v = (num_lt v (PInt 0) \<or> num_eq v (PInt 0))"

definition check_operation_item :: "pyval \<Rightarrow> nvfp4_operation \<Rightarrow> pyval dict res" where
  "check_operation_item value op = (case value of
     PDict item \<Rightarrow>
       fail_if (dict_keys item \<noteq> set OPERATION_KEYS) (DataError ''native M06 telemetry operation schema mismatch'') (
       fail_if (\<not> same_operation item op) (DataError ''native M06 telemetry identity mismatch'') (
       rbind (sha256_hex item ''source_sha256'') (\<lambda>_.
       rbind (int_item item ''rows'') (\<lambda>rows.
       rbind (int_item item ''columns'') (\<lambda>columns. let elements = rows * columns in
       fail_if (int_view (obj_get item ''rows'') = None \<or> int_view (obj_get item ''columns'') = None \<or> rows \<le> 0 \<or> columns \<le> 0)
         (DataError ''native M06 telemetry shape is invalid'') (
       rbind (riter (check_count item) [''source_bytes'', ''zero_blocks'', ''underflow_blocks'', ''saturation_count'']) (\<lambda>_.
       fail_if (\<not> py_eq (obj_get item ''source_bytes'') (PInt (elements * 2)) \<or> exceeds item ''zero_blocks'' (elements div 16)
         \<or> exceeds item ''underflow_blocks'' (elements div 16) \<or> exceeds item ''saturation_count'' elements)
         (DataError ''native M06 telemetry count bounds are invalid'') (
       rbind (riter (\<lambda>key. rbind (finite_item item key) (\<lambda>_. Inr ())) FINITE_FIELDS) (\<lambda>_.
       fail_if (num_lt (obj_get item ''tensor_amax'') (PInt 0) \<or> not_positive (obj_get item ''weight_divisor'')
         \<or> not_positive (obj_get item ''input_divisor'') \<or> num_lt (obj_get item ''source_max'') (obj_get item ''source_min'')
         \<or> num_lt (obj_get item ''scale_max'') (obj_get item ''scale_min''))
         (DataError ''native M06 telemetry numeric invariants are invalid'') (
       rbind (riter (\<lambda>c. rbind (sha256_hex item (c @ ''_sha256'')) (\<lambda>_. Inr ())) NVFP4_COMPONENTS) (\<lambda>_.
       fail_if (\<not> valid_histogram (obj_get item ''code_histogram'') 16 elements)
         (DataError ''native M06 code histogram is invalid'') (
       fail_if (\<not> valid_histogram (obj_get item ''scale_histogram'') 256 (elements div 16))
         (DataError ''native M06 scale histogram is invalid'') (Inr item)))))))))))))
   | _ \<Rightarrow> Inl (DataError ''native M06 telemetry operation schema mismatch''))"


section \<open>The document\<close>

text \<open>
  One range the child wrote: the name it reports must be the planned one, and the digest it reports
  that of the bytes now in the range.
\<close>

definition output_step :: "environment \<Rightarrow> files \<Rightarrow> nvfp4_job \<Rightarrow> direct_layout \<Rightarrow> pyval dict \<Rightarrow> nvfp4_operation \<Rightarrow>
    direct_output dict \<Rightarrow> string \<Rightarrow> (workspace, direct_output dict) run" where
  "output_step env fs job layout item op outputs component ws =
     run_bind (run_only (case find (\<lambda>other. no_operation_id other = no_operation_id op) (nj_operations job) of
         None \<Rightarrow> Inl (DataError ''native M06 telemetry output identity mismatch'')
       | Some other \<Rightarrow> rbind (dict_index (no_outputs other) component) (\<lambda>target.
           fail_if (obj_get item (component @ ''_name'') \<noteq> PStr (nt_name target))
             (DataError ''native M06 telemetry output identity mismatch'') (
           rbind (dict_index (dl_outputs layout) (nt_name target)) (\<lambda>(path, offset). Inr (target, path, offset))))) ws)
       (\<lambda>(target, path, offset) ws1.
     run_bind (hash_range (env_sha env) (env_rss env) (fs path) (nat offset) (nat (nt_bytes target)) ws1) (\<lambda>digest.
     run_only (fail_if (obj_get item (component @ ''_sha256'') \<noteq> PStr digest) (DataError ''native M06 output hash mismatch'') (
       rbind (nvfp4_statistics env item component) (\<lambda>statistics.
       Inr (dict_set (nt_name target) \<lparr>do_source_sha256 = no_source_sha256 op, do_output_sha256 = digest,
         do_output_bytes = nt_bytes target, do_statistics = Some statistics\<rparr> outputs))))))"

definition item_step :: "environment \<Rightarrow> files \<Rightarrow> nvfp4_job \<Rightarrow> direct_layout \<Rightarrow> direct_output dict \<Rightarrow> pyval \<times> nvfp4_operation \<Rightarrow>
    (workspace, direct_output dict) run" where
  "item_step env fs job layout outputs entry ws = (case entry of (value, op) \<Rightarrow>
     run_bind (run_only (check_operation_item value op) ws) (\<lambda>item ws1.
     run_fold (output_step env fs job layout item op) outputs NVFP4_COMPONENTS ws1))"

definition NVFP4_ROOT_KEYS :: "string list" where
  "NVFP4_ROOT_KEYS = [''schema_version'', ''protocol'', ''artifact_profile'', ''scope'', ''contract_id'',
     ''contract_version'', ''threads'', ''source_passes'', ''maximum_source_row_bytes'', ''analysis_seconds'',
     ''conversion_seconds'', ''native_build'', ''operations'']"

definition root_agrees :: "pyval dict \<Rightarrow> nvfp4_job \<Rightarrow> bool" where
  "root_agrees d job \<longleftrightarrow> list_all (\<lambda>(key, v). py_eq (obj_get d key) v)
     [(''schema_version'', PInt 1), (''protocol'', PStr PROTOCOL), (''artifact_profile'', PStr (nj_artifact_profile job)),
      (''scope'', PStr (nj_scope job)), (''contract_id'', PStr NVFP4_CONTRACT_ID),
      (''contract_version'', PInt NVFP4_CONTRACT_VERSION), (''threads'', PInt (nj_threads job)), (''source_passes'', PInt 2)]"

record nvfp4_root =
  ro_maximum_row :: int
  ro_native_build :: "string dict"
  ro_source_passes :: int
  ro_analysis_seconds :: pyfloat
  ro_conversion_seconds :: pyfloat
  ro_operations :: "pyval list"
  ro_document :: "pyval dict"

definition expected_maximum :: "nvfp4_job \<Rightarrow> int" where
  "expected_maximum job = (case map (\<lambda>op. no_columns op * 2) (nj_operations job) of
     [] \<Rightarrow> 0 | widest # others \<Rightarrow> foldl max widest others)"

definition check_nvfp4_root :: "pyval dict \<Rightarrow> nvfp4_job \<Rightarrow> nvfp4_root res" where
  "check_nvfp4_root d job =
     fail_if (dict_keys d \<noteq> set NVFP4_ROOT_KEYS) (DataError ''native M06 telemetry root schema mismatch'') (
     fail_if (\<not> root_agrees d job) (DataError ''native M06 telemetry contract mismatch'') (
     fail_if (case int_view (obj_get d ''threads'') of None \<Rightarrow> True | Some n \<Rightarrow> n < 1 \<or> 64 < n)
       (DataError ''native M06 telemetry thread count is invalid'') (
     fail_if (int_view (obj_get d ''source_passes'') \<noteq> Some 2) (DataError ''native M06 source pass count is invalid'') (
     rbind (finite_item d ''analysis_seconds'') (\<lambda>analysis.
     rbind (finite_item d ''conversion_seconds'') (\<lambda>conversion.
     fail_if (float_lt analysis (Fin False 0) \<or> float_lt conversion (Fin False 0))
       (DataError ''native M06 phase durations must be nonnegative'') (
     case int_view (obj_get d ''maximum_source_row_bytes'') of
       None \<Rightarrow> Inl (DataError ''native M06 maximum source row is invalid'')
     | Some maximum_row \<Rightarrow>
         fail_if (maximum_row < 0) (DataError ''native M06 maximum source row is invalid'') (
         fail_if (maximum_row \<noteq> expected_maximum job) (DataError ''native M06 maximum source row mismatch'') (
         rbind (native_build (obj_get d ''native_build'')) (\<lambda>build.
         case obj_get d ''operations'' of
           PList entries \<Rightarrow>
             fail_if (length entries \<noteq> length (nj_operations job)) (DataError ''native M06 telemetry operation count mismatch'')
               (Inr \<lparr>ro_maximum_row = maximum_row, ro_native_build = build, ro_source_passes = 2,
                  ro_analysis_seconds = analysis, ro_conversion_seconds = conversion, ro_operations = entries,
                  ro_document = d\<rparr>)
         | _ \<Rightarrow> Inl (DataError ''native M06 telemetry operation count mismatch'')))))))))))"

definition nvfp4_document :: "environment \<Rightarrow> bytes option \<Rightarrow> pyval dict res" where
  "nvfp4_document env file = (case file of
     None \<Rightarrow> Inl (DataError ''cannot read native M06 telemetry'')
   | Some raw \<Rightarrow>
       fail_if (64 * 1024 * 1024 < int (length raw)) (DataError ''native M06 telemetry exceeds safety limit'') (
       case env_parse env raw of
         None \<Rightarrow> Inl (DataError ''native M06 telemetry is invalid JSON'')
       | Some t \<Rightarrow> rbind (json_value t) (\<lambda>document. case document of
           PDict d \<Rightarrow> Inr d | _ \<Rightarrow> Inl (DataError ''native M06 telemetry root schema mismatch''))))"

definition parse_nvfp4_telemetry :: "environment \<Rightarrow> files \<Rightarrow> string \<Rightarrow> nvfp4_job \<Rightarrow> direct_layout \<Rightarrow>
    (workspace, direct_output dict \<times> nvfp4_root) run" where
  "parse_nvfp4_telemetry env fs path job layout ws =
     run_bind (run_only (rbind (nvfp4_document env (fs path)) (\<lambda>d. check_nvfp4_root d job)) ws) (\<lambda>parsed ws1.
     run_bind (run_fold (item_step env fs job layout) [] (zip (ro_operations parsed) (nj_operations job)) ws1) (\<lambda>outputs.
     run_only (Inr (outputs, parsed))))"

section \<open>The run\<close>

definition nvfp4_job_path :: "string \<Rightarrow> string" where "nvfp4_job_path staging = path_join staging ''.nvfp4_job.json''"
definition nvfp4_telemetry_path :: "string \<Rightarrow> string" where
  "nvfp4_telemetry_path staging = path_join staging ''.nvfp4_telemetry.json''"
definition direct_absent :: "environment \<Rightarrow> files \<Rightarrow> string \<Rightarrow> unit res" where
  "direct_absent env fs path =
     fail_if (env_entry env path = Denied) (OSError ''stat'') (
     fail_if (fs path \<noteq> None \<or> env_entry env path \<noteq> Missing \<or> env_symlink env path)
       (OutputError ''native M06 temporary output already exists'') (Inr ()))"

definition requires_release :: "quantization_plan \<Rightarrow> bool" where
  "requires_release plan = (qp_artifact_profile plan \<in> set ([''nvfp4-experts-partial-v1'', ''nvfp4-tied-head-partial-v1''] @ HYBRID_PROFILES)
     \<and> (length (filter (\<lambda>t. encoder t = ''nvfp4-packed-v1'') (qp_tensors plan)) \<in> {13, 150, 151}
        \<or> qp_artifact_profile plan = ''nvfp4-tied-head-partial-v1''))"

definition check_build :: "environment \<Rightarrow> quantization_plan \<Rightarrow> nvfp4_preflight option \<Rightarrow> query_outcome \<Rightarrow> string \<Rightarrow> string dict res" where
  "check_build env plan expected q binary_hash =
     rbind (query_build_info env q) (\<lambda>build.
     fail_if (case expected of None \<Rightarrow> False | Some p \<Rightarrow> binary_hash \<noteq> np_binary_sha256 p)
       (SourceVerificationError ''native M06 compiler changed between preflight and execution'') (
     fail_if (case expected of None \<Rightarrow> False | Some p \<Rightarrow> build \<noteq> np_native_build p)
       (DataError ''native M06 build identity changed between preflight and execution'') (
     fail_if (requires_release plan \<and> dict_get build ''build_type'' \<noteq> Some ''Release'')
       (release_required (qp_artifact_profile plan)) (Inr build))))"

definition judge_direct_child :: "child_outcome \<Rightarrow> unit res" where
  "judge_direct_child ch =
     fail_if (\<not> ch_timed_out ch \<and> \<not> ch_memory_exceeded ch \<and> \<not> ch_overflow ch \<and> ch_remaining ch \<noteq> [])
       (OutputError ''native M06 compiler left process-group descendants'') (
     fail_if (ch_timed_out ch) (OutputError ''native M06 compiler timed out'') (
     fail_if (ch_memory_exceeded ch) (DataError ''native M06 compiler exceeded combined host-memory cap'') (
     fail_if (ch_overflow ch) (OutputError ''native M06 compiler diagnostics exceed safety limit'') (
     fail_if (ch_stdout ch \<noteq> []) (DataError ''native M06 compiler wrote unexpected stdout'') (
     fail_if (ch_returncode ch \<noteq> 0) (child_failure (ch_returncode ch)) (Inr ()))))))"

text \<open>After the child: its verdict, its telemetry, and the result.\<close>

definition collect_direct :: "environment \<Rightarrow> nvfp4_request \<Rightarrow> nvfp4_job \<Rightarrow> direct_layout \<Rightarrow> string \<Rightarrow> string \<Rightarrow> string dict \<Rightarrow>
    child_outcome \<Rightarrow> files \<Rightarrow> (workspace, nvfp4_result) run" where
  "collect_direct env request job layout staging binary_hash build ch fs ws =
     run_bind (run_only (rbind (case ch_start_error ch of Some e \<Rightarrow> Inl e | None \<Rightarrow> Inr ()) (\<lambda>_.
       rbind (judge_direct_child ch) (\<lambda>_.
       fail_if (fs (nvfp4_telemetry_path staging) = None \<or> env_symlink env (nvfp4_telemetry_path staging))
         (DataError ''native M06 compiler did not publish telemetry'') (Inr ())))) ws) (\<lambda>_ ws1.
     run_bind (parse_nvfp4_telemetry env fs (nvfp4_telemetry_path staging) job layout ws1) (\<lambda>(outputs, parsed) ws2.
     run_bind (run_only (fail_if (ro_native_build parsed \<noteq> build)
       (DataError ''native M06 build identity changed between preflight and conversion'') (Inr ())) ws2) (\<lambda>_ ws3.
     run_bind (Some (record_transform_row (env_rss env) (ro_maximum_row parsed) ws3)) (\<lambda>_.
     run_only (Inr \<lparr>nv_outputs = outputs, nv_binary_sha256 = binary_hash, nv_threads = nq_threads request,
       nv_maximum_source_row_bytes = ro_maximum_row parsed, nv_child_peak_rss_bytes = ch_peak_rss ch,
       nv_native_build = ro_native_build parsed, nv_source_passes = ro_source_passes parsed,
       nv_analysis_seconds = ro_analysis_seconds parsed, nv_conversion_seconds = ro_conversion_seconds parsed,
       nv_telemetry = ro_document parsed\<rparr>)))))"

definition temporary_paths :: "string \<Rightarrow> string list" where
  "temporary_paths staging = [nvfp4_staged_path staging, nvfp4_job_path staging, nvfp4_telemetry_path staging]"

definition run_direct :: "environment \<Rightarrow> (string \<Rightarrow> bool) \<Rightarrow> (files \<Rightarrow> child_outcome \<times> files) \<Rightarrow> nvfp4_request \<Rightarrow>
    nvfp4_job \<Rightarrow> direct_layout \<Rightarrow> string \<Rightarrow> string \<Rightarrow> string dict \<Rightarrow> (workspace \<times> files, nvfp4_result) run" where
  "run_direct env stuck child request job layout staging binary_hash build st = (case st of (ws, fs) \<Rightarrow>
     let (outcome, fs1) = child fs in
     map_option (\<lambda>(r, ws1). (case r of
         Inl e \<Rightarrow> Inl (if is_os_error e then OutputError ''native M06 compiler process failed'' else e)
       | Inr result \<Rightarrow> Inr result, (ws1, remove_files stuck (temporary_paths staging) fs1)))
       (collect_direct env request job layout staging binary_hash build outcome fs1 ws))"

text \<open>Everything before the child that is guarded by the removal of the staged executable.\<close>

definition prepare_direct_job :: "environment \<Rightarrow> file_system \<Rightarrow> query_outcome \<Rightarrow> nvfp4_preflight option \<Rightarrow> nvfp4_request \<Rightarrow>
    quantization_plan \<Rightarrow> sources \<Rightarrow> direct_layout \<Rightarrow> string \<Rightarrow> string \<Rightarrow> (workspace \<times> files, nvfp4_job \<times> string dict) run" where
  "prepare_direct_job env fsys q expected request plan source_tensors layout staging binary_hash st = (case st of (ws, fs) \<Rightarrow>
     case check_build env plan expected q binary_hash of
       Inl e \<Rightarrow> Some (Inl e, (ws, fs))
     | Inr build \<Rightarrow>
       map_option (\<lambda>(r, ws1). case r of
           Inl e \<Rightarrow> (Inl e, (ws1, fs))
         | Inr job \<Rightarrow> (case write_file_atomic fsys (nvfp4_job_path staging) (env_canonical env (nvfp4_job_document job)) fs of
             (Inl e, fs1) \<Rightarrow> (Inl e, (ws1, fs1)) | (Inr _, fs1) \<Rightarrow> (Inr (job, build), (ws1, fs1))))
         (make_nvfp4_job env plan source_tensors layout (nq_threads request) ws))"

definition prepare_native_direct :: "environment \<Rightarrow> staging_system \<Rightarrow> (string \<Rightarrow> bool) \<Rightarrow> query_outcome \<Rightarrow>
    (files \<Rightarrow> child_outcome \<times> files) \<Rightarrow> nvfp4_request \<Rightarrow> quantization_plan \<Rightarrow> sources \<Rightarrow> string \<Rightarrow>
    direct_layout \<Rightarrow> nvfp4_preflight option \<Rightarrow> (workspace \<times> files, nvfp4_result) run" where
  "prepare_native_direct env sys stuck q child request plan source_tensors staging layout expected st =
     run_bind (run_only (fail_if (nq_timeout_seconds request \<le> 0) (InvalidPlanError ''--native-timeout-seconds must be positive'')
       (riter (direct_absent env (snd st)) [nvfp4_job_path staging, nvfp4_telemetry_path staging])) st) (\<lambda>_ st1.
     run_bind (Some (stage_nvfp4_executable env sys (nq_executable request) staging st1)) (\<lambda>binary_hash st2.
     case prepare_direct_job env (file_system.truncate sys) q expected request plan source_tensors layout staging binary_hash st2 of
       None \<Rightarrow> None
     | Some (Inl e, (ws3, fs3)) \<Rightarrow> Some (Inl e, (ws3, remove_files stuck [nvfp4_staged_path staging] fs3))
     | Some (Inr (job, build), st3) \<Rightarrow> run_direct env stuck child request job layout staging binary_hash build st3))"

end
