(* ===== verification/Reader_Facts.thy ===== *)
theory Reader_Facts
  imports Reader
begin

text \<open>
  What the reader guarantees: parsed tensors lie inside their shard without overlap, a verified
  source holds exactly the files of its lock with their digests, and reading ends.
\<close>

section \<open>Placement of tensors\<close>

text \<open>
  \<open>tensor_placed file base t\<close>: the tensor is a range of the file after \<open>base\<close>, as long as its
  dtype and shape say.
\<close>

definition tensor_placed :: "locked_file \<Rightarrow> int \<Rightarrow> tensor_descriptor \<Rightarrow> bool" where
  "tensor_placed locked data_base t \<longleftrightarrow>
     td_shard t = lf_relative_path locked \<and> td_path t = lf_path locked \<and> td_shard_sha256 t = lf_sha256 locked
     \<and> 0 \<le> td_data_offset t \<and> 0 \<le> td_byte_length t
     \<and> td_absolute_offset t = data_base + td_data_offset t
     \<and> td_absolute_offset t + td_byte_length t \<le> lf_size locked
     \<and> (\<exists>item_bytes. dict_get DTYPE_BYTES (td_dtype t) = Some item_bytes
          \<and> td_byte_length t = item_bytes * prod_list (td_shape t))"

definition tensor_end :: "tensor_descriptor \<Rightarrow> int" where
  "tensor_end t = td_data_offset t + td_byte_length t"

definition disjoint_tensors :: "tensor_descriptor \<Rightarrow> tensor_descriptor \<Rightarrow> bool" where
  "disjoint_tensors t u \<longleftrightarrow> td_byte_length t = 0 \<or> td_byte_length u = 0
     \<or> tensor_end t \<le> td_data_offset u \<or> tensor_end u \<le> td_data_offset t"

definition placed_tensors :: "locked_file \<Rightarrow> int \<Rightarrow> sources \<Rightarrow> bool" where
  "placed_tensors locked data_base tensors \<longleftrightarrow> dict_wf tensors
     \<and> (\<forall>(name, t)\<in>set tensors. td_name t = name \<and> tensor_placed locked data_base t)
     \<and> (\<forall>(name, t)\<in>set tensors. \<forall>(other, u)\<in>set tensors. name \<noteq> other \<longrightarrow> disjoint_tensors t u)"

lemma parse_tensor_Inr:
  assumes "parse_tensor locked data_base (lf_size locked - data_base) name metadata = Inr t"
  shows "td_name t = name \<and> tensor_placed locked data_base t"
proof -
  from assms obtain dtype where dtype: "obj_get metadata ''dtype'' = PStr dtype"
    by (cases "obj_get metadata ''dtype''") (auto simp: parse_tensor_def)
  with assms obtain start stop where "offset_pair (obj_get metadata ''data_offsets'') = Some (start, stop)"
    by (cases "offset_pair (obj_get metadata ''data_offsets'')") (auto simp: parse_tensor_def)
  with assms dtype obtain shape where
    shape: "checked_shape (obj_get metadata ''shape'') = Inr shape"
    and range: "0 \<le> start" "start \<le> stop" "stop \<le> lf_size locked - data_base"
    and expected: "tensor_bytes dtype shape = Inr (stop - start)"
    and t: "t = \<lparr>td_name = name, td_dtype = dtype, td_shape = shape,
                   td_shard = lf_relative_path locked, td_path = lf_path locked,
                   td_absolute_offset = data_base + start, td_data_offset = start,
                   td_byte_length = stop - start, td_shard_sha256 = lf_sha256 locked\<rparr>"
    by (auto simp: parse_tensor_def not_less)
  from shape have "\<forall>d\<in>set shape. 0 \<le> d"
    using bounded_products_nonneg [of 1 shape] by (simp add: checked_shape_Inr)
  with expected range t show ?thesis by (auto simp: tensor_placed_def tensor_bytes_Inr)
qed

definition interval_of :: "string \<times> tensor_descriptor \<Rightarrow> int \<times> int \<times> string" where
  "interval_of item = (td_data_offset (snd item), tensor_end (snd item), fst item)"

definition parse_invariant :: "locked_file \<Rightarrow> int \<Rightarrow> sources \<times> intervals \<Rightarrow> bool" where
  "parse_invariant locked data_base acc \<longleftrightarrow> dict_wf (fst acc)
     \<and> (\<forall>(name, t)\<in>set (fst acc). td_name t = name \<and> tensor_placed locked data_base t)
     \<and> snd acc = map interval_of (filter (\<lambda>(name, t). 0 < td_byte_length t) (fst acc))"

lemma parse_step_invariant:
  assumes "parse_invariant locked data_base acc"
    and "parse_step locked data_base (lf_size locked - data_base) acc item = Inr acc'"
  shows "parse_invariant locked data_base acc'"
proof -
  obtain result intervals name metadata where acc: "acc = (result, intervals)" "item = (name, metadata)"
    by fastforce
  show ?thesis
  proof (cases "name = ''__metadata__''")
    case True
    with assms acc show ?thesis by (auto simp: parse_step_def split: pyval.splits)
  next
    case False
    with assms(2) acc obtain attrs t where
      t: "parse_tensor locked data_base (lf_size locked - data_base) name attrs = Inr t"
      and fresh: "name \<notin> dict_keys result"
      and acc': "acc' = (dict_set name t result, if 0 < td_byte_length t
          then intervals @ [(td_data_offset t, td_data_offset t + td_byte_length t, name)] else intervals)"
      by (auto simp: parse_step_def split: pyval.splits)
    from parse_tensor_Inr [OF t] assms(1) acc fresh show ?thesis
      unfolding acc' by (auto simp: parse_invariant_def dict_set_fresh interval_of_def tensor_end_def
          dict_wf_def dict_keys_def)
  qed
qed

text \<open>Neighbours that do not overlap, sorted by their start, do not overlap at all.\<close>

lemma disjoint_neighbours:
  fixes x y :: "int \<times> int \<times> string"
  assumes "sorted (x # xs)" "\<forall>(p, q)\<in>set (zip (x # xs) xs). fst (snd p) \<le> fst q"
    and "\<forall>p\<in>set (x # xs). fst p < fst (snd p)" "y \<in> set xs"
  shows "fst (snd x) \<le> fst y"
  using assms
proof (induction xs arbitrary: x)
  case (Cons z zs)
  have xz: "fst (snd x) \<le> fst z" using Cons.prems(2) by simp
  show ?case
  proof (cases "y = z")
    case False
    have "fst (snd z) \<le> fst y" using Cons False by auto
    moreover have "fst z < fst (snd z)" using Cons.prems(3) by simp
    ultimately show ?thesis using xz by linarith
  qed (simp add: xz)
qed simp

lemma disjoint_sorted:
  fixes p q :: "int \<times> int \<times> string"
  assumes "sorted xs" "\<forall>(p, q)\<in>set (zip xs (tl xs)). fst (snd p) \<le> fst q"
    and "\<forall>p\<in>set xs. fst p < fst (snd p)" "p \<in> set xs" "q \<in> set xs" "p \<noteq> q"
  shows "fst (snd p) \<le> fst q \<or> fst (snd q) \<le> fst p"
  using assms
proof (induction xs)
  case (Cons x xs)
  have rest: "\<forall>(p, q)\<in>set (zip xs (tl xs)). fst (snd p) \<le> fst q"
    using Cons.prems(2) by (cases xs) auto
  show ?case
  proof (cases "p = x \<or> q = x")
    case True
    have "fst (snd x) \<le> fst y" if "y \<in> set xs" for y
      by (rule disjoint_neighbours [OF _ _ _ that]) (use Cons.prems in auto)
    moreover have "p = x \<and> q \<in> set xs \<or> q = x \<and> p \<in> set xs" using True Cons.prems(4-6) by auto
    ultimately show ?thesis by blast
  next
    case False
    with Cons rest show ?thesis by auto
  qed
qed simp

lemma check_disjoint_Inr:
  assumes "check_disjoint intervals = Inr u" "\<forall>p\<in>set intervals. fst p < fst (snd p)"
    and "p \<in> set intervals" "q \<in> set intervals" "p \<noteq> q"
  shows "fst (snd p) \<le> fst q \<or> fst (snd q) \<le> fst p"
proof (rule disjoint_sorted)
  show "\<forall>(p, q)\<in>set (zip (sort intervals) (tl (sort intervals))). fst (snd p) \<le> fst q"
    using assms(1) by (fastforce simp: check_disjoint_def Let_def)
qed (use assms in auto)

lemma parse_fold_placed:
  assumes "rfold (parse_step locked data_base (lf_size locked - data_base)) ([], []) header = Inr (result, intervals)"
    and "check_disjoint intervals = Inr u"
  shows "placed_tensors locked data_base result"
proof -
  have inv: "parse_invariant locked data_base (result, intervals)"
    by (rule rfold_invariant [OF assms(1)])
      (auto simp: parse_invariant_def [of _ _ "([], [])"] dict_wf_def intro: parse_step_invariant)
  have "disjoint_tensors t u"
    if t: "(name, t) \<in> set result" and u: "(other, u) \<in> set result" and "name \<noteq> other" for name t other u
  proof (cases "0 < td_byte_length t \<and> 0 < td_byte_length u")
    case True
    with t u inv have "interval_of (name, t) \<in> set intervals" "interval_of (other, u) \<in> set intervals"
      by (auto simp: parse_invariant_def intro!: image_eqI)
    moreover have "\<forall>p\<in>set intervals. fst p < fst (snd p)"
      using inv by (auto simp: parse_invariant_def interval_of_def tensor_end_def)
    ultimately show ?thesis
      using check_disjoint_Inr [OF assms(2)] \<open>name \<noteq> other\<close>
      by (fastforce simp: interval_of_def disjoint_tensors_def)
  next
    case False
    moreover have "0 \<le> td_byte_length v" if "(n, v) \<in> set result" for n v
      using inv that by (auto simp: parse_invariant_def tensor_placed_def)
    ultimately have "td_byte_length t = 0 \<or> td_byte_length u = 0" using t u by fastforce
    then show ?thesis by (auto simp: disjoint_tensors_def)
  qed
  with inv show ?thesis unfolding parse_invariant_def placed_tensors_def fst_conv by blast
qed

lemma parse_shard_Inr:
  assumes "parse_shard env locked ws = (Inr tensors, ws')"
  shows "\<exists>data. env_files env (lf_path locked) = Some data
    \<and> placed_tensors locked (8 + int (unpack_u64 (take 8 data))) tensors"
proof -
  obtain r ws1 where read: "read_header env locked ws = (r, ws1)" by fastforce
  with assms obtain header where header: "read_header env locked ws = (Inr header, ws1)"
    by (cases r) (simp_all add: parse_shard_def)
  show ?thesis
  proof (cases "env_files env (lf_path locked)")
    case None
    with assms header show ?thesis by (simp add: parse_shard_def)
  next
    case (Some data)
    define data_base where "data_base = 8 + int (unpack_u64 (take 8 data))"
    obtain result intervals u where
      fold: "rfold (parse_step locked data_base (lf_size locked - data_base)) ([], []) header = Inr (result, intervals)"
      and disjoint: "check_disjoint intervals = Inr u" and "tensors = result"
      using assms header Some by (auto simp: parse_shard_def Let_def data_base_def)
    with parse_fold_placed [OF fold disjoint] Some show ?thesis by (simp add: data_base_def)
  qed
qed

section \<open>The tensors of all shards\<close>

definition shard_base :: "bytes \<Rightarrow> int" where
  "shard_base data = 8 + int (unpack_u64 (take 8 data))"

definition index_agrees :: "string dict option \<Rightarrow> string \<Rightarrow> sources \<Rightarrow> bool" where
  "index_agrees assignments relative parsed \<longleftrightarrow> (case assignments of None \<Rightarrow> True
     | Some a \<Rightarrow> \<forall>(name, t)\<in>set parsed. dict_get a name = Some relative)"

lemma merge_tensor_Inr:
  "merge_tensor assignments relative tensors (name, t) = Inr merged \<longleftrightarrow> name \<notin> dict_keys tensors
     \<and> (\<forall>a. assignments = Some a \<longrightarrow> dict_get a name = Some relative) \<and> merged = tensors @ [(name, t)]"
  by (cases assignments) (auto simp: merge_tensor_def dict_set_fresh)

lemma merge_fold_Inr:
  "rfold (merge_tensor assignments relative) tensors parsed = Inr merged \<Longrightarrow> dict_wf tensors \<Longrightarrow>
     merged = tensors @ parsed \<and> dict_wf merged \<and> index_agrees assignments relative parsed"
proof (induction parsed arbitrary: tensors)
  case Nil
  then show ?case by (simp add: index_agrees_def split: option.split)
next
  case (Cons item parsed)
  obtain name t where item: "item = (name, t)" by fastforce
  from Cons.prems(1) have fresh: "name \<notin> dict_keys tensors"
    and agree: "\<forall>a. assignments = Some a \<longrightarrow> dict_get a name = Some relative"
    and rest: "rfold (merge_tensor assignments relative) (tensors @ [(name, t)]) parsed = Inr merged"
    by (auto simp: item merge_tensor_Inr)
  have "dict_wf (tensors @ [(name, t)])" using Cons.prems(2) fresh by (simp add: dict_wf_def dict_keys_def)
  from Cons.IH [OF rest this] agree item show ?case
    by (auto simp: index_agrees_def split: option.splits)
qed

definition shard_parsed :: "environment \<Rightarrow> locked_file dict \<Rightarrow> string dict option \<Rightarrow> string \<times> sources \<Rightarrow> bool" where
  "shard_parsed env shard_files assignments part \<longleftrightarrow> (\<exists>locked data.
     dict_get shard_files (fst part) = Some locked \<and> env_files env (lf_path locked) = Some data
     \<and> placed_tensors locked (shard_base data) (snd part)
     \<and> index_agrees assignments (fst part) (snd part))"

definition merged_shards :: "environment \<Rightarrow> locked_file dict \<Rightarrow> string dict option \<Rightarrow> string list \<Rightarrow> sources \<Rightarrow> bool" where
  "merged_shards env shard_files assignments names tensors \<longleftrightarrow> dict_wf tensors \<and> (\<exists>parts.
     map fst parts = names \<and> tensors = concat (map snd parts)
     \<and> list_all (shard_parsed env shard_files assignments) parts)"

lemma merge_shard_Inr:
  assumes "merge_shard env shard_files assignments tensors relative ws = (Inr merged, ws')"
    and "merged_shards env shard_files assignments names tensors"
  shows "merged_shards env shard_files assignments (names @ [relative]) merged"
proof -
  from assms(1) obtain locked parsed ws2 where locked: "dict_get shard_files relative = Some locked"
    and parsed: "parse_shard env locked ws = (Inr parsed, ws2)"
    and merge: "rfold (merge_tensor assignments relative) tensors parsed = Inr merged"
    by (auto simp: merge_shard_def)
  from assms(2) obtain parts where wf: "dict_wf tensors" and parts: "map fst parts = names"
    "tensors = concat (map snd parts)" "list_all (shard_parsed env shard_files assignments) parts"
    unfolding merged_shards_def by blast
  from parse_shard_Inr [OF parsed] merge_fold_Inr [OF merge wf] locked
  have "shard_parsed env shard_files assignments (relative, parsed)"
    by (auto simp: shard_parsed_def shard_base_def)
  moreover have "merged = concat (map snd (parts @ [(relative, parsed)]))"
    using merge_fold_Inr [OF merge wf] parts(2) by simp
  moreover have "dict_wf merged" using merge_fold_Inr [OF merge wf] by blast
  ultimately show ?thesis
    using parts(1,3) unfolding merged_shards_def
    by (intro conjI exI [of _ "parts @ [(relative, parsed)]"]) simp_all
qed

lemma merge_all_Inr:
  assumes "prog_fold (merge_shard env shard_files assignments) [] names ws = (Inr tensors, ws')"
  shows "merged_shards env shard_files assignments names tensors"
  by (rule prog_fold_invariant [OF assms])
    (auto simp: merged_shards_def [of _ _ _ "[]"] dict_wf_def intro: merge_shard_Inr)

text \<open>What reading a source returns, over the shards in their order.\<close>

lemma read_source_tensors_Inr:
  assumes "read_source_tensors env source ws = (Inr tensors, ws')"
  shows "\<exists>assignments merged. tensors = dict_sorted merged
    \<and> merged_shards env (source_shards source) assignments (sort (map fst (source_shards source))) merged
    \<and> (\<forall>a. assignments = Some a \<longrightarrow> dict_keys a = dict_keys merged)"
proof -
  from assms obtain assignments ws1 merged ws2 where
    merge: "prog_fold (merge_shard env (source_shards source) assignments) []
      (sort (map fst (source_shards source))) ws1 = (Inr merged, ws2)"
    and "tensors = dict_sorted merged" and "\<forall>a. assignments = Some a \<longrightarrow> dict_keys a = dict_keys merged"
    by (auto simp: read_source_tensors_def Let_def split: if_splits option.splits)
  with merge_all_Inr [OF merge] show ?thesis by blast
qed

section \<open>The verified source\<close>

definition hashed :: "(bytes \<Rightarrow> string) \<Rightarrow> bytes option \<Rightarrow> nat \<Rightarrow> string \<Rightarrow> bool" where
  "hashed sha file len digest \<longleftrightarrow> (\<exists>data. file = Some data \<and> len \<le> length data \<and> digest = sha (take len data))"

lemma hash_range_ends:
  assumes "ws_good g start ws"
  shows "ends (hash_range sha rss stored 0 len ws) (\<lambda>d ws'. ws_good g start ws' \<and> hashed sha stored len d)"
proof (cases stored)
  case None
  then show ?thesis by (simp add: hash_range_def)
next
  case (Some data)
  from hashing.range_loop_total [of g start ws len "Suc len" rss data 0 "[]"] assms
  obtain r s' where run: "range_loop (Suc len) staging_bytes (hash_body rss data) 0 len [] ws = Some (r, s')"
    and r: "case r of Inl e \<Rightarrow> ws_step start s'
      | Inr d \<Rightarrow> (len = 0 \<or> 0 + len \<le> length data) \<and> d = file_read data 0 len \<and> ws_good g start s'"
    unfolding append_Nil using lessI by blast
  from run r Some show ?thesis
    by (cases r) (auto simp: hash_range_def hashed_def file_read_def)
qed

text \<open>What verification establishes for one entry of the lock.\<close>

definition entry_verified :: "environment \<Rightarrow> string \<Rightarrow> pyval dict \<Rightarrow> string \<times> locked_file \<Rightarrow> bool" where
  "entry_verified env base entry item \<longleftrightarrow> (\<exists>path_value sha_value.
     dict_get entry ''path'' = Some path_value \<and> fst item = py_str env path_value
     \<and> dict_get entry ''sha256'' = Some sha_value
     \<and> lf_sha256 (snd item) = lower (py_str env sha_value))
     \<and> lf_relative_path (snd item) = fst item
     \<and> locked_path env base (fst item) = Inr (lf_path (snd item))
     \<and> is_file env (lf_path (snd item)) = Inr True
     \<and> stat_size env (lf_path (snd item)) = Inr (lf_size (snd item))
     \<and> hashed (env_sha env) (env_files env (lf_path (snd item))) (nat (lf_size (snd item))) (lf_sha256 (snd item))"

lemma locked_entry_Inr:
  "locked_entry env base entry = Inr (relative, path, byte_count) \<longleftrightarrow>
     (\<exists>path_value size_value. dict_get entry ''path'' = Some path_value \<and> relative = py_str env path_value
       \<and> locked_path env base relative = Inr path \<and> is_file env path = Inr True
       \<and> stat_size env path = Inr byte_count
       \<and> dict_get entry ''size'' = Some size_value \<and> py_int size_value = Inr byte_count)"
  by (auto simp: locked_entry_def Let_def)

lemma verify_entry_ends:
  assumes "ws_good g start ws"
  shows "ends (verify_entry env base locked entry ws)
    (\<lambda>locked' ws'. ws_good g start ws' \<and> (\<exists>item. entry_verified env base entry item
       \<and> locked' = dict_set (fst item) (snd item) locked))"
proof (cases "locked_entry env base entry")
  case (Inl e)
  then show ?thesis by (simp add: verify_entry_def)
next
  case (Inr parts)
  then obtain relative path byte_count where parts: "locked_entry env base entry = Inr (relative, path, byte_count)"
    by (cases parts) auto
  define record_of where "record_of sha = \<lparr>lf_relative_path = relative, lf_path = path,
    lf_size = byte_count, lf_sha256 = sha\<rparr>" for sha
  have verified: "entry_verified env base entry (relative, record_of sha)"
    if "hashed (env_sha env) (env_files env path) (nat byte_count) sha"
      and "dict_get entry ''sha256'' = Some sha_value" "sha = lower (py_str env sha_value)" for sha sha_value
    using parts that by (auto simp: locked_entry_Inr entry_verified_def record_of_def)
  show ?thesis
    unfolding verify_entry_def parts run_bind_simps prod.case record_of_def [symmetric]
    by (rule ends_bind [OF hash_range_ends [OF assms]]) (auto dest: verified)
qed

text \<open>Distinct normalized paths come from distinct keys, so no entry overwrites another.\<close>

lemma entry_path_key:
  "dict_get entry ''path'' = Some v \<Longrightarrow> entry_path env entry = source_path (py_str env v)"
  by (simp add: entry_path_def get_or_def)

lemma verify_entries_ends:
  assumes "ws_good g start ws" "map (entry_path env) entries = map Inr names" "distinct names"
  shows "ends (run_fold (verify_entry env base) [] entries ws) (\<lambda>locked ws'. ws_good g start ws'
    \<and> list_all2 (entry_verified env base) entries locked \<and> dict_wf locked)"
proof -
  have "ends (run_fold (verify_entry env base) locked later ws) (\<lambda>locked' ws'. ws_good g start ws'
      \<and> list_all2 (entry_verified env base) (earlier @ later) locked' \<and> dict_wf locked')"
    if "ws_good g start ws" "list_all2 (entry_verified env base) earlier locked" "dict_wf locked"
      and "map (entry_path env) (earlier @ later) = map Inr names" for earlier later locked ws
    using that
  proof (induction later arbitrary: earlier locked ws)
    case Nil
    then show ?case by simp
  next
    case (Cons entry later)
    show ?case
      unfolding run_fold.simps
    proof (rule ends_bind [OF verify_entry_ends [OF Cons.prems(1)]], elim conjE exE)
      fix locked' ws' item
      assume good: "ws_good g start ws'" and item: "entry_verified env base entry item"
        and locked': "locked' = dict_set (fst item) (snd item) locked"
      have "fst item \<notin> dict_keys locked"
      proof
        assume "fst item \<in> dict_keys locked"
        then obtain old f where old: "old \<in> set earlier" "entry_verified env base old (fst item, f)"
          using Cons.prems(2) by (force simp: dict_keys_def list_all2_conv_all_nth in_set_conv_nth)
        then have "entry_path env old = entry_path env entry"
          using item by (auto simp: entry_verified_def entry_path_key)
        moreover have "distinct (map (entry_path env) (earlier @ entry # later))"
          unfolding Cons.prems(4) using assms(3) by (simp add: distinct_map)
        then have "entry_path env entry \<notin> entry_path env ` set earlier" by auto
        ultimately show False using old(1) by (metis image_eqI)
      qed
      then have "locked' = locked @ [item]" using locked' by (simp add: dict_set_fresh)
      moreover have "dict_wf locked'" using locked' Cons.prems(3) by simp
      moreover have "list_all2 (entry_verified env base) (earlier @ [entry]) (locked @ [item])"
        using Cons.prems(2) item by (simp add: list_all2_appendI)
      ultimately show "ends (run_fold (verify_entry env base) locked' later ws') (\<lambda>locked' ws'. ws_good g start ws'
          \<and> list_all2 (entry_verified env base) (earlier @ entry # later) locked' \<and> dict_wf locked')"
        using Cons.IH [of ws' "earlier @ [entry]" locked'] good Cons.prems(4) by simp
    qed
  qed
  from this [of ws "[]" "[]" entries] assms(1,2) show ?thesis by (simp add: dict_wf_def)
qed

text \<open>What a verified source is made of.\<close>

definition source_verified :: "environment \<Rightarrow> string \<Rightarrow> verified_source \<Rightarrow> bool" where
  "source_verified env lock_path source \<longleftrightarrow> vs_lock_path source = lock_path
     \<and> is_dir env (vs_root source) = Inr True \<and> dict_wf (vs_files source)
     \<and> (\<exists>lock entries lock_size. load_lock env lock_path = Inr (lock, entries)
          \<and> list_all2 (entry_verified env (vs_root source)) entries (vs_files source)
          \<and> stat_size env lock_path = Inr lock_size
          \<and> hashed (env_sha env) (env_files env lock_path) (nat lock_size) (vs_lock_sha256 source))"

lemma open_root_Inr: "open_root env path = Inr base \<Longrightarrow> is_dir env base = Inr True"
  by (auto simp: open_root_def split: option.splits)

lemma load_lock_names:
  assumes "load_lock env lock_path = Inr (lock, entries)"
  shows "\<exists>names. map (entry_path env) entries = map Inr names \<and> distinct names"
proof -
  from assms have "validate_lock env lock = Inr entries" by (auto simp: load_lock_def)
  from validate_lock_Inr [OF this] show ?thesis by blast
qed

lemma verify_source_lock_ends:
  assumes "ws_good g start ws"
  shows "ends (verify_source_lock env lock_path source_root ws)
    (\<lambda>source ws'. ws_good g start ws' \<and> source_verified env lock_path source)"
proof -
  let ?head = "rbind (open_root env source_root) (\<lambda>base.
       rbind (load_lock env lock_path) (\<lambda>(lock, entries).
       rbind (stat_size env lock_path) (\<lambda>lock_size. Inr (base, lock, entries, lock_size))))"
  show ?thesis
  proof (cases ?head)
    case (Inl e)
    then show ?thesis by (simp add: verify_source_lock_def)
  next
    case (Inr parts)
    then obtain base lock entries lock_size where
      base: "open_root env source_root = Inr base" and lock: "load_lock env lock_path = Inr (lock, entries)"
      and lock_size: "stat_size env lock_path = Inr lock_size" and parts: "parts = (base, lock, entries, lock_size)"
      by auto
    from load_lock_names [OF lock] obtain names where
      names: "map (entry_path env) entries = map Inr names" "distinct names" by blast
    have check: "ends (Some (workspace_check (env_rss env) ws3)) (\<lambda>_ ws4. ws_good g start ws4)"
      if "ws_good g start ws3" for ws3
      using ws_good_check [OF that] by (cases "workspace_check (env_rss env) ws3") (auto simp: ends_def)
    show ?thesis
      unfolding verify_source_lock_def Inr parts run_bind_simps prod.case
    proof (rule ends_bind [OF hash_range_ends [OF assms]], elim conjE)
      fix lock_hash ws2
      assume good: "ws_good g start ws2"
        and lock_hash: "hashed (env_sha env) (env_files env lock_path) (nat lock_size) lock_hash"
      show "ends (run_bind (run_fold (verify_entry env base) [] entries ws2) (\<lambda>locked ws3.
          run_bind (Some (workspace_check (env_rss env) ws3)) (\<lambda>_. run_only
            (rbind (dict_index lock ''repository'') (\<lambda>repository.
             rbind (dict_index lock ''revision'') (\<lambda>revision.
             Inr \<lparr>vs_root = base, vs_lock_path = lock_path, vs_lock_sha256 = lock_hash,
               vs_repository = py_str env repository, vs_revision = py_str env revision,
               vs_resolved_at_utc = py_str env (get_or lock ''resolved_at_utc'' (PStr '''')),
               vs_files = locked\<rparr>))))))
        (\<lambda>source ws'. ws_good g start ws' \<and> source_verified env lock_path source)"
        by (rule ends_bind [OF verify_entries_ends [OF good names, of base]], elim conjE,
            rule ends_bind [OF check], assumption)
          (use open_root_Inr [OF base] lock lock_size lock_hash in
            \<open>auto simp: source_verified_def\<close>)
    qed
  qed
qed

section \<open>Theorems\<close>


text \<open>
  \<open>tensor_locked env source name t\<close>: the tensor is a range of a locked file, recorded with that
  file's digest, and as long as its dtype and shape say.
\<close>

definition tensor_locked :: "environment \<Rightarrow> verified_source \<Rightarrow> string \<Rightarrow> tensor_descriptor \<Rightarrow> bool" where
  "tensor_locked env source name t \<longleftrightarrow> td_name t = name \<and> (\<exists>locked data item_bytes.
     dict_get (vs_files source) (td_shard t) = Some locked \<and> td_path t = lf_path locked
     \<and> env_files env (td_path t) = Some data \<and> nat (lf_size locked) \<le> length data
     \<and> td_shard_sha256 t = env_sha env (take (nat (lf_size locked)) data)
     \<and> 8 \<le> td_absolute_offset t \<and> td_absolute_offset t + td_byte_length t \<le> lf_size locked
     \<and> dict_get DTYPE_BYTES (td_dtype t) = Some item_bytes
     \<and> td_byte_length t = item_bytes * prod_list (td_shape t))"

lemma verified_file:
  assumes "source_verified env lock_path source" "(relative, locked) \<in> set (vs_files source)"
  shows "lf_relative_path locked = relative
    \<and> hashed (env_sha env) (env_files env (lf_path locked)) (nat (lf_size locked)) (lf_sha256 locked)"
proof -
  from assms obtain entries where "list_all2 (entry_verified env (vs_root source)) entries (vs_files source)"
    unfolding source_verified_def by blast
  with assms(2) obtain entry where "entry_verified env (vs_root source) entry (relative, locked)"
    by (metis in_set_conv_nth list_all2_conv_all_nth)
  then show ?thesis by (simp add: entry_verified_def)
qed

lemma source_shard_file:
  assumes "source_verified env lock_path source" "dict_get (source_shards source) relative = Some locked"
  shows "(relative, locked) \<in> set (vs_files source) \<and> dict_get (vs_files source) relative = Some locked"
proof -
  have "(relative, locked) \<in> set (vs_files source)"
    using map_of_SomeD [OF assms(2)] by (simp add: source_shards_def)
  moreover have "dict_wf (vs_files source)" using assms(1) by (simp add: source_verified_def)
  ultimately show ?thesis by (simp add: dict_wf_def)
qed

lemma placed_tensor_locked:
  assumes "source_verified env lock_path source" "dict_get (source_shards source) relative = Some locked"
    and "tensor_placed locked (shard_base data) t" "td_name t = name"
  shows "tensor_locked env source name t \<and> td_shard t = relative"
  using source_shard_file [OF assms(1,2)] verified_file [OF assms(1), of relative locked] assms(3,4)
  by (auto simp: tensor_locked_def tensor_placed_def hashed_def shard_base_def)

text \<open>
  C12. Every tensor read from a verified source lies inside a locked shard, behind its length
  prefix, within the bytes whose digest was checked against the lock, and is exactly as long as
  its dtype and shape say. Names are unique and sorted, and no two tensors of a shard overlap.
\<close>

theorem verified_source_tensors:
  assumes "ws_good g ws ws" "verify_source_lock env lock_path source_root ws = Some (Inr source, ws1)"
    and "read_source_tensors env source ws2 = (Inr tensors, ws3)"
  shows "dict_wf tensors \<and> sorted (map fst tensors)
    \<and> (\<forall>(name, t)\<in>set tensors. tensor_locked env source name t)
    \<and> (\<forall>(name, t)\<in>set tensors. \<forall>(other, u)\<in>set tensors.
        name \<noteq> other \<and> td_shard t = td_shard u \<longrightarrow> disjoint_tensors t u)"
proof -
  have source: "source_verified env lock_path source"
    using ends_Inr [OF verify_source_lock_ends [OF assms(1)] assms(2)] by blast
  from read_source_tensors_Inr [OF assms(3)] obtain assignments merged parts where
    tensors: "tensors = dict_sorted merged" and wf: "dict_wf merged"
    and parts: "map fst parts = sort (map fst (source_shards source))" "merged = concat (map snd parts)"
      "list_all (shard_parsed env (source_shards source) assignments) parts"
    unfolding merged_shards_def by blast
  have part: "\<exists>relative parsed locked data. (relative, parsed) \<in> set parts \<and> (name, t) \<in> set parsed
      \<and> placed_tensors locked (shard_base data) parsed \<and> tensor_locked env source name t \<and> td_shard t = relative"
    if "(name, t) \<in> set merged" for name t
  proof -
    from that parts(2) obtain relative parsed where p: "(relative, parsed) \<in> set parts" "(name, t) \<in> set parsed"
      by auto
    with parts(3) obtain locked data where l: "dict_get (source_shards source) relative = Some locked"
      "placed_tensors locked (shard_base data) parsed"
      by (auto simp: list_all_iff shard_parsed_def)
    with p(2) have "tensor_placed locked (shard_base data) t" "td_name t = name"
      by (auto simp: placed_tensors_def)
    from placed_tensor_locked [OF source l(1) this] p l(2) show ?thesis by blast
  qed
  have "distinct (map fst (source_shards source))"
    using source by (simp add: source_verified_def dict_wf_def source_shards_def distinct_map_filter)
  then have distinct: "distinct (map fst parts)" unfolding parts(1) by simp
  have "disjoint_tensors t u" if t: "(name, t) \<in> set merged" and u: "(other, u) \<in> set merged"
    and ne: "name \<noteq> other" and same: "td_shard t = td_shard u" for name t other u
  proof -
    from part [OF t] obtain parsed locked data where p: "(td_shard t, parsed) \<in> set parts" "(name, t) \<in> set parsed"
      "placed_tensors locked (shard_base data) parsed" by blast
    from part [OF u] obtain parsed' where q: "(td_shard t, parsed') \<in> set parts" "(other, u) \<in> set parsed'"
      unfolding same by blast
    from p(1) q(1) distinct have "parsed' = parsed" by (metis eq_key_imp_eq_value)
    with p q ne show ?thesis by (fastforce simp: placed_tensors_def)
  qed
  moreover have "tensor_locked env source name t" if "(name, t) \<in> set merged" for name t
    using part [OF that] by blast
  moreover have "set tensors = set merged" and "sorted (map fst tensors)"
    by (simp_all add: tensors dict_sorted_def)
  ultimately show ?thesis using wf unfolding tensors by auto
qed

section \<open>A source with one shard\<close>

definition zeros :: "nat \<Rightarrow> string" where "zeros n = replicate n CHR ''0''"

definition sample_lock :: json where
  "sample_lock = JObj [(''schema_version'', JInt 1), (''repository'', JStr ''a/b''),
     (''revision'', JStr (zeros 40)),
     (''files'', JArr [JObj [(''path'', JStr ''model.safetensors''), (''size'', JInt 13),
        (''sha256'', JStr (zeros 64)), (''git_oid'', JStr (zeros 40))]])]"

definition sample_header :: json where
  "sample_header = JObj [(''a'', JObj [(''dtype'', JStr ''U8''), (''shape'', JArr [JInt 3]),
     (''data_offsets'', JArr [JInt 0, JInt 3])])]"

definition sample_shard :: bytes where
  "sample_shard = [2, 0, 0, 0, 0, 0, 0, 0, 123, 125, 7, 8, 9]"

definition sample_env :: environment where
  "sample_env = \<lparr>env_sha = \<lambda>_. zeros 64, env_granularity = 4096, env_rss = \<lambda>_. (0, 0),
     env_parse = \<lambda>raw. if raw = [1] then Some sample_lock else if raw = [123, 125] then Some sample_header else None,
     env_compact = \<lambda>_. [], env_canonical = \<lambda>_. [], env_text = \<lambda>_. [], env_sqrt = Inr, env_log10 = Inr,
     env_resolve = Some,
     env_entry = \<lambda>path. if path = ''/m'' then Directory else if path = ''/l'' then Regular 1
       else if path = ''/m/model.safetensors'' then Regular 13 else Missing,
     env_symlink = \<lambda>_. False,
     env_files = \<lambda>path. if path = ''/l'' then Some [1]
       else if path = ''/m/model.safetensors'' then Some sample_shard else None\<rparr>"

definition sample_ws :: workspace where
  "sample_ws = \<lparr>host_memory_cap_bytes = 1000000, staging_bytes = 4096, baseline_rss_bytes = 0,
     max_observed_rss_bytes = 0, max_header_bytes = 0, max_tensor_bytes = 0,
     max_mapped_window_bytes = 0, maximum_transform_row_bytes = 0, readings = 0\<rparr>"

definition sample_source :: verified_source where
  "sample_source = \<lparr>vs_root = ''/m'', vs_lock_path = ''/l'', vs_lock_sha256 = zeros 64,
     vs_repository = ''a/b'', vs_revision = zeros 40, vs_resolved_at_utc = '''',
     vs_files = [(''model.safetensors'', \<lparr>lf_relative_path = ''model.safetensors'',
       lf_path = ''/m/model.safetensors'', lf_size = 13, lf_sha256 = zeros 64\<rparr>)]\<rparr>"

definition sample_tensor :: tensor_descriptor where
  "sample_tensor = \<lparr>td_name = ''a'', td_dtype = ''U8'', td_shape = [3], td_shard = ''model.safetensors'',
     td_path = ''/m/model.safetensors'', td_absolute_offset = 10, td_data_offset = 0,
     td_byte_length = 3, td_shard_sha256 = zeros 64\<rparr>"

lemma sample_ws_good: "ws_good 4096 sample_ws sample_ws"
  by (simp add: ws_good_def within_cap_def windows_within_def sample_ws_def)

lemma sample_verified:
  "verify_source_lock sample_env ''/l'' ''/m'' sample_ws = Some (Inr sample_source, sample_ws\<lparr>readings := 3\<rparr>)"
  by code_simp

lemma sample_read:
  "read_source_tensors sample_env sample_source sample_ws
     = (Inr [(''a'', sample_tensor)], sample_ws\<lparr>max_header_bytes := 2, readings := 3\<rparr>)"
  by code_simp


theorem verified_source_tensors_witness:
  "tensor_locked sample_env sample_source ''a'' sample_tensor"
  using verified_source_tensors [OF sample_ws_good sample_verified sample_read] by simp

end
