(* ===== verification/Digest_Facts.thy ===== *)
theory Digest_Facts
  imports Encoder_Facts Reader_Facts
begin

text \<open>
  The digests of ranges: hashing a range returns, keeps the workspace within its bounds, and when it
  succeeds the range is inside the file and the digest is that of its bytes.
\<close>

lemma ends_bind_only:
  "(\<And>x. r = Inr x \<Longrightarrow> ends (f x s) Q) \<Longrightarrow> ends (run_bind (run_only r s) f) Q"
  by (cases r) auto

lemma ends_prog: "(\<And>x s'. m = (Inr x, s') \<Longrightarrow> P x s') \<Longrightarrow> ends (Some m) P"
  by (cases m) (auto simp: ends_def)

definition stored_range :: "bytes option \<Rightarrow> int \<Rightarrow> int \<Rightarrow> bytes \<Rightarrow> bool" where
  "stored_range stored offset len content \<longleftrightarrow> (\<exists>data. stored = Some data \<and> 0 \<le> offset \<and> 0 \<le> len
     \<and> offset + len \<le> int (length data) \<and> content = take (nat len) (drop (nat offset) data))"

lemma stored_range_length: "stored_range stored offset len content \<Longrightarrow> int (length content) = len"
  by (auto simp: stored_range_def)

lemma viewing_reader:
  assumes "0 < g"
  shows "range_reader (staging_bytes \<circ> fst) (mapped_body g rss (None :: 'o writer option) data) data
    (\<lambda>acc s. ws_good g start (fst s)) (\<lambda>s. True)"
proof
  fix acc :: bytes and s :: "workspace \<times> 'o" and n position chunk s'
  assume inv: "ws_good g start (fst s)" and n: "0 < n" "int n \<le> (staging_bytes \<circ> fst) s"
    and run: "mapped_body g rss None data position n s = (Inr chunk, s')"
  obtain ws out where s: "s = (ws, out)" by fastforce
  obtain v ws1 where v: "mapped_window g data position n ws = (v, ws1)" by fastforce
  from run s v have chunk: "v = Inr chunk" and check: "workspace_check rss ws1 = (Inr (), fst s')"
    by (auto simp: mapped_body_def split: prod.splits sum.splits)
  have "ws_good g start ws1" using ws_good_window [OF _ assms _ v] inv s n(2) by simp
  with ws_good_check [OF _ check] mapped_window_Inr [of g data position n ws chunk ws1] v chunk
  show "position + n \<le> length data \<and> chunk = file_read data position n \<and> ws_good g start (fst s')" by simp
qed (auto simp: ws_good_def)

lemma hash_tensor_range_ends:
  assumes "0 < g" "ws_good g ws ws"
  shows "ends (hash_tensor_range sha g rss stored offset len ws) (\<lambda>digest ws'. ws_good g ws' ws'
    \<and> (\<exists>content. stored_range stored offset len content \<and> digest = sha content))"
proof -
  let ?ws = "record_tensor len ws"
  show ?thesis
  proof (cases stored)
    case None
    then show ?thesis by (simp add: hash_tensor_range_def mapped_tensor_range_def Let_def)
  next
    case (Some data)
    show ?thesis
    proof (cases "offset < 0 \<or> len < 0 \<or> int (length data) - len < offset")
      case True
      with Some show ?thesis by (simp add: hash_tensor_range_def mapped_tensor_range_def Let_def)
    next
      case False
      then obtain p n where range: "offset = int p" "len = int n"
        by (metis nonneg_int_cases not_less)
      with False have room: "p + n \<le> length data" by simp
      have good: "ws_good g ?ws (fst (?ws, ()))"
        using assms(2) by (simp add: ws_good_def record_tensor_def within_cap_def windows_within_def)
      from range_reader.range_loop_total [OF viewing_reader [OF assms(1)] good lessI, of n _ data p "[]"]
      obtain r st where run: "range_loop (Suc n) (staging_bytes \<circ> fst) (mapped_body g rss (None :: unit writer option) data)
          p n [] (?ws, ()) = Some (r, st)"
        and r: "case r of Inl e \<Rightarrow> True
          | Inr d \<Rightarrow> (n = 0 \<or> p + n \<le> length data) \<and> d = [] @ file_read data p n \<and> ws_good g ?ws (fst st)" by blast
      have "hash_tensor_range sha g rss stored offset len ws = Some (map_sum id sha r, fst st)"
        using run range room Some
        by (cases r; cases st) (auto simp: hash_tensor_range_def mapped_tensor_range_def Let_def)
      moreover have "stored_range (Some data) (int p) (int n) (file_read data p n)"
        using room by (auto simp: stored_range_def file_read_def)
      ultimately show ?thesis
        using r range(1,2) Some ws_good_self by (cases r) (auto simp: ends_def)
    qed
  qed
qed

lemma hash_range_at:
  assumes "ws_good g ws ws" "0 \<le> offset" "0 \<le> len"
  shows "ends (hash_range sha rss stored (nat offset) (nat len) ws) (\<lambda>digest ws'. ws_good g ws' ws'
    \<and> (\<exists>content. (len = 0 \<or> stored_range stored offset len content) \<and> (len = 0 \<longrightarrow> content = []) \<and> digest = sha content))"
proof (cases stored)
  case None
  then show ?thesis by (simp add: hash_range_def)
next
  case (Some data)
  from hashing.range_loop_total [of g ws ws "nat len" "Suc (nat len)" rss data "nat offset" "[]"] assms(1)
  obtain r s' where run: "range_loop (Suc (nat len)) staging_bytes (hash_body rss data) (nat offset) (nat len) [] ws = Some (r, s')"
    and r: "case r of Inl e \<Rightarrow> ws_step ws s'
      | Inr d \<Rightarrow> (nat len = 0 \<or> nat offset + nat len \<le> length data) \<and> d = file_read data (nat offset) (nat len) \<and> ws_good g ws s'"
    unfolding append_Nil using lessI by blast
  show ?thesis
  proof (cases r)
    case (Inl e)
    with run Some show ?thesis by (simp add: hash_range_def)
  next
    case (Inr d)
    with r have d: "nat len = 0 \<or> nat offset + nat len \<le> length data" "d = file_read data (nat offset) (nat len)"
      "ws_good g s' s'" using ws_good_self by auto
    have "(len = 0 \<or> stored_range (Some data) offset len d) \<and> (len = 0 \<longrightarrow> d = [])"
      using d(1,2) assms(2,3) by (auto simp: stored_range_def file_read_def)
    with d(3) run Inr Some show ?thesis by (auto simp: hash_range_def)
  qed
qed

end
