(* ===== verification/NVFP4_Facts.thy ===== *)
theory NVFP4_Facts
  imports Native_NVFP4 Digest_Facts Native_Facts
begin

text \<open>
  What a run of the native NVFP4 compiler guarantees once its telemetry is accepted: every tensor of
  the plan has a result whose digest is that of the bytes now in its shard range, and whose source
  digest is that of the bytes of the one source of its operation.
\<close>

section \<open>The groups\<close>

definition grouped :: "tensor_compile_plan list \<Rightarrow> component_group dict \<Rightarrow> bool" where
  "grouped ts groups \<longleftrightarrow> dict_wf groups
     \<and> (\<forall>op grp. dict_get groups op = Some grp \<longrightarrow> dict_wf grp \<and> (\<forall>c t. dict_get grp c = Some t \<longrightarrow>
          t \<in> set ts \<and> operation_id t = op \<and> component_of (encoder t) = Some c))
     \<and> (\<forall>t\<in>set ts. \<exists>grp c. dict_get groups (operation_id t) = Some grp \<and> dict_get grp c = Some t)"

lemma grouped_member:
  "grouped ts groups \<Longrightarrow> t \<in> set ts \<Longrightarrow> \<exists>grp c. dict_get groups (operation_id t) = Some grp \<and> dict_get grp c = Some t"
  unfolding grouped_def by blast

lemma group_step_grouped:
  assumes "grouped ts groups" "group_step groups tensor = Inr groups'"
  shows "grouped (ts @ [tensor]) groups'"
proof -
  obtain c where c: "component_of (encoder tensor) = Some c"
    using assms(2) by (auto simp: group_step_def split: option.splits)
  define grp where "grp = (case dict_get groups (operation_id tensor) of None \<Rightarrow> [] | Some g \<Rightarrow> g)"
  from assms(2) c have fresh: "c \<notin> dict_keys grp" and
    groups': "groups' = dict_set (operation_id tensor) (dict_set c tensor grp) groups"
    by (simp_all add: group_step_def grp_def Let_def)
  have known: "dict_wf grp \<and> (\<forall>d t. dict_get grp d = Some t \<longrightarrow>
      t \<in> set ts \<and> operation_id t = operation_id tensor \<and> component_of (encoder t) = Some d)"
  proof (cases "dict_get groups (operation_id tensor)")
    case None
    then show ?thesis by (simp add: grp_def dict_wf_def)
  next
    case (Some g)
    then have "grp = g" by (simp add: grp_def)
    with Some assms(1) show ?thesis unfolding grouped_def by blast
  qed
  then have wf: "dict_wf grp" and old: "\<And>d t. dict_get grp d = Some t \<Longrightarrow>
      t \<in> set ts \<and> operation_id t = operation_id tensor \<and> component_of (encoder t) = Some d" by blast+
  have kept: "\<exists>grp' d. dict_get groups' (operation_id t) = Some grp' \<and> dict_get grp' d = Some t" if "t \<in> set ts" for t
  proof -
    from grouped_member [OF assms(1) that] obtain g d where
      g: "dict_get groups (operation_id t) = Some g" "dict_get g d = Some t" by blast
    show ?thesis
    proof (cases "operation_id t = operation_id tensor")
      case True
      with g have "grp = g" by (simp add: grp_def)
      with g fresh have "d \<noteq> c" by (auto dest: dict_get_keys)
      with g \<open>grp = g\<close> True groups' show ?thesis by auto
    next
      case False
      with g groups' show ?thesis by auto
    qed
  qed
  have "dict_get groups' (operation_id tensor) = Some (dict_set c tensor grp)" by (simp add: groups')
  then have new: "\<exists>grp' d. dict_get groups' (operation_id tensor) = Some grp' \<and> dict_get grp' d = Some tensor"
    by (metis dict_get_set)
  have "dict_wf g \<and> (\<forall>d t. dict_get g d = Some t \<longrightarrow> t \<in> set (ts @ [tensor]) \<and> operation_id t = op
      \<and> component_of (encoder t) = Some d)" if g: "dict_get groups' op = Some g" for op g
  proof (cases "op = operation_id tensor")
    case True
    with g groups' have "g = dict_set c tensor grp" by simp
    with True wf old c show ?thesis by (auto split: if_splits)
  next
    case False
    with g groups' have "dict_get groups op = Some g" by simp
    with assms(1) show ?thesis unfolding grouped_def by simp
  qed
  moreover have "dict_wf groups'" using assms(1) groups' by (simp add: grouped_def)
  ultimately show ?thesis using kept new unfolding grouped_def by auto
qed

text \<open>A group that passed the check: the four components, each once, over one source.\<close>

definition complete_group :: "tensor_compile_plan list \<Rightarrow> component_group \<Rightarrow> bool" where
  "complete_group ts grp \<longleftrightarrow> dict_wf grp \<and> dict_keys grp = set NVFP4_COMPONENTS
     \<and> (\<exists>name op. \<forall>c t. dict_get grp c = Some t \<longrightarrow> t \<in> set ts \<and> source_names t = [name] \<and> operation_id t = op)"

lemma check_group_sources:
  assumes "check_group grp = Inr grp'"
  shows "grp' = grp \<and> dict_keys grp = set NVFP4_COMPONENTS \<and> (\<exists>name. \<forall>(c, t)\<in>set grp. source_names t = [name])"
proof -
  obtain c first others where grp: "grp = (c, first) # others"
    using assms by (cases grp) (auto simp: check_group_def)
  with assms have "length (source_names first) = 1" "\<forall>(_, t)\<in>set grp. source_names t = source_names first"
    by (auto simp: check_group_def list_ex_iff)
  then obtain name where "\<forall>(_, t)\<in>set grp. source_names t = [name]" by (auto simp: length_Suc_conv)
  then have "\<exists>name. \<forall>(c, t)\<in>set grp. source_names t = [name]" ..
  moreover have "grp' = grp" "dict_keys grp = set NVFP4_COMPONENTS"
    using assms unfolding check_group_def fail_if_Inr_iff by blast+
  ultimately show ?thesis by blast
qed

lemma checked_groups:
  "list_all2 (\<lambda>entry grp. check_group (snd entry) = Inr grp) entries groups \<Longrightarrow>
     groups = map snd entries \<and> (\<forall>entry\<in>set entries. check_group (snd entry) = Inr (snd entry))"
proof (induction rule: list_all2_induct)
  case (Cons entry entries grp groups)
  from check_group_sources [OF Cons.hyps(1)] have "grp = snd entry" by blast
  with Cons show ?case by simp
qed simp

lemma group_plans_complete:
  assumes "group_plans plan = Inr groups"
  shows "(\<forall>grp\<in>set groups. complete_group (qp_tensors plan) grp)
    \<and> (\<forall>t\<in>set (qp_tensors plan). \<exists>grp\<in>set groups. \<exists>c. dict_get grp c = Some t)
    \<and> distinct (map (\<lambda>grp. operation_id (the (dict_get grp ''packed''))) groups)"
proof -
  from assms obtain all where all: "rfold group_step [] (qp_tensors plan) = Inr all"
    and checked: "rmap (\<lambda>(_, grp). check_group grp) (dict_sorted all) = Inr groups"
    by (auto simp: group_plans_def)
  have inv: "grouped (qp_tensors plan) all"
  proof (rule rfold_invariant [OF all])
    show "grouped [] []" by (simp add: grouped_def dict_wf_def)
  qed (rule group_step_grouped)
  from checked have "list_all2 (\<lambda>entry grp. check_group (snd entry) = Inr grp) (dict_sorted all) groups"
    by (auto simp: rmap_Inr_iff split_def)
  from checked_groups [OF this] have pairs: "groups = map snd (dict_sorted all)" "\<forall>entry\<in>set (dict_sorted all). check_group (snd entry) = Inr (snd entry)"
    by blast+
  have wf: "dict_wf (dict_sorted all)" using inv by (simp add: grouped_def)
  have found: "dict_get all op = Some grp" if "(op, grp) \<in> set (dict_sorted all)" for op grp
    using that wf inv by (metis dict_get_sorted dict_wf_def grouped_def map_of_is_SomeI)
  have complete: "complete_group (qp_tensors plan) grp \<and> (\<forall>t. dict_get grp ''packed'' = Some t \<longrightarrow> operation_id t = op)"
    if entry: "(op, grp) \<in> set (dict_sorted all)" for op grp
  proof -
    from pairs(2) entry have "check_group grp = Inr grp" by force
    from check_group_sources [OF this] obtain name where
      keys: "dict_keys grp = set NVFP4_COMPONENTS" "\<forall>(c, t)\<in>set grp. source_names t = [name]" by blast
    then have "source_names t = [name]" if "dict_get grp c = Some t" for c t
      using map_of_SomeD [OF that] by auto
    moreover from inv found [OF entry] have "dict_wf grp" and
      "dict_get grp c = Some t \<Longrightarrow> t \<in> set (qp_tensors plan) \<and> operation_id t = op" for c t
      unfolding grouped_def by blast+
    ultimately show ?thesis using keys(1) unfolding complete_group_def by blast
  qed
  have "t \<in> set (qp_tensors plan) \<Longrightarrow> \<exists>grp\<in>set groups. \<exists>c. dict_get grp c = Some t" for t
  proof -
    assume "t \<in> set (qp_tensors plan)"
    from grouped_member [OF inv this] obtain grp c where
      "dict_get all (operation_id t) = Some grp" "dict_get grp c = Some t" by blast
    moreover from this(1) have "(operation_id t, grp) \<in> set (dict_sorted all)"
      by (auto simp: dict_sorted_def dest: map_of_SomeD)
    ultimately show ?thesis using pairs(1) by force
  qed
  moreover have "\<forall>grp\<in>set groups. complete_group (qp_tensors plan) grp" using pairs(1) complete by force
  moreover have "map (\<lambda>grp. operation_id (the (dict_get grp ''packed''))) groups = map fst (dict_sorted all)"
  proof -
    have "operation_id (the (dict_get grp ''packed'')) = op" if "(op, grp) \<in> set (dict_sorted all)" for op grp
    proof -
      have "''packed'' \<in> dict_keys grp" using complete [OF that] by (simp add: complete_group_def NVFP4_COMPONENTS_def)
      then obtain t where "dict_get grp ''packed'' = Some t" using dict_keys_get by blast
      with complete [OF that] show ?thesis by simp
    qed
    then show ?thesis using pairs(1) by auto
  qed
  ultimately show ?thesis using wf by (simp add: dict_wf_def)
qed


section \<open>The job\<close>

definition target_planned :: "direct_layout \<Rightarrow> tensor_compile_plan \<Rightarrow> nvfp4_target \<Rightarrow> bool" where
  "target_planned layout t target \<longleftrightarrow> nt_name target = output_name t \<and> output_bytes t = Inr (nt_bytes target)
     \<and> dict_get (dl_outputs layout) (output_name t) = Some (nt_path target, nt_offset target)"

definition targets_planned :: "direct_layout \<Rightarrow> component_group \<Rightarrow> nvfp4_target dict \<Rightarrow> bool" where
  "targets_planned layout grp targets \<longleftrightarrow>
     (\<forall>(c, t)\<in>set grp. \<exists>target. dict_get targets c = Some target \<and> target_planned layout t target)"

lemma target_step_Inr:
  "target_step layout shape elements targets (c, t) = Inr targets' \<Longrightarrow>
     \<exists>target. targets' = dict_set c target targets \<and> target_planned layout t target"
  by (auto simp: target_step_def target_planned_def split: option.splits)

lemma targets_of_group:
  assumes "rfold (target_step layout shape elements) [] grp = Inr targets" "dict_wf grp"
  shows "targets_planned layout grp targets"
  using assms(1)
proof (rule rfold_invariant [where I = "targets_planned layout"])
  fix ys y zs s s'
  assume grp: "grp = ys @ y # zs" and inv: "targets_planned layout ys s"
    and step: "target_step layout shape elements s y = Inr s'"
  obtain c t where y: "y = (c, t)" by fastforce
  from target_step_Inr [OF step [unfolded y]] obtain target where
    s': "s' = dict_set c target s" "target_planned layout t target" by blast
  have "d \<noteq> c" if "(d, u) \<in> set ys" for d u
    using assms(2) that unfolding grp y dict_wf_def by force
  with inv s' show "targets_planned layout (ys @ [y]) s'"
    unfolding targets_planned_def y by fastforce
qed (simp add: targets_planned_def)

text \<open>A digest of the bytes of a source, reached through its resolved path.\<close>

definition source_digest :: "environment \<Rightarrow> sources \<Rightarrow> string \<Rightarrow> string \<Rightarrow> bool" where
  "source_digest env source_tensors name digest \<longleftrightarrow> (\<exists>source resolved content.
     dict_get source_tensors name = Some source \<and> env_resolve env (td_path source) = Some resolved
     \<and> stored_range (env_files env resolved) (td_absolute_offset source) (td_byte_length source) content
     \<and> digest = env_sha env content)"

definition operation_of :: "environment \<Rightarrow> sources \<Rightarrow> direct_layout \<Rightarrow> component_group \<Rightarrow> nvfp4_operation \<Rightarrow> bool" where
  "operation_of env source_tensors layout grp op \<longleftrightarrow> targets_planned layout grp (no_outputs op)
     \<and> (\<exists>packed. dict_get grp ''packed'' = Some packed \<and> no_operation_id op = operation_id packed
          \<and> source_names packed \<noteq> [] \<and> no_source_name op = hd (source_names packed))
     \<and> source_digest env source_tensors (no_source_name op) (no_source_sha256 op)"

definition digests_good :: "environment \<Rightarrow> sources \<Rightarrow> string dict \<Rightarrow> bool" where
  "digests_good env source_tensors hashes \<longleftrightarrow>
     (\<forall>name digest. dict_get hashes name = Some digest \<longrightarrow> source_digest env source_tensors name digest)"

lemma nvfp4_source_Inr:
  "nvfp4_source env source_tensors packed = Inr (name, source, resolved) \<Longrightarrow>
     source_names packed \<noteq> [] \<and> name = hd (source_names packed) \<and> dict_get source_tensors name = Some source
     \<and> env_resolve env (td_path source) = Some resolved"
  by (auto simp: nvfp4_source_def split: list.splits option.splits)

lemma make_operation_Inr:
  assumes "make_operation layout grp packed name source resolved digest = Inr op" "dict_wf grp"
  shows "targets_planned layout grp (no_outputs op) \<and> no_operation_id op = operation_id packed
    \<and> no_source_name op = name \<and> no_source_sha256 op = digest"
  using assms targets_of_group [OF _ assms(2)] by (auto simp: make_operation_def Let_def)

abbreviation good_space :: "environment \<Rightarrow> workspace \<Rightarrow> bool" where
  "good_space env ws \<equiv> ws_good (env_granularity env) ws ws"

lemma operation_step_ends:
  assumes "0 < env_granularity env" "good_space env ws" "digests_good env source_tensors hashes" "dict_wf grp"
  shows "ends (operation_step env source_tensors layout (hashes, operations) grp ws) (\<lambda>(hashes', operations') ws'.
    good_space env ws' \<and> digests_good env source_tensors hashes'
    \<and> (\<exists>op. operations' = operations @ [op] \<and> operation_of env source_tensors layout grp op))"
proof -
  define first where "first = rbind (dict_index grp ''packed'') (\<lambda>packed.
       rbind (nvfp4_source env source_tensors packed) (\<lambda>(source_name, source, resolved).
       Inr (packed, source_name, source, resolved)))"
  show ?thesis
  proof (cases first)
    case (Inl e)
    then show ?thesis by (simp add: operation_step_def first_def [symmetric])
  next
    case (Inr found)
    then obtain packed name source resolved where found: "found = (packed, name, source, resolved)"
      and packed: "dict_get grp ''packed'' = Some packed"
      and src: "nvfp4_source env source_tensors packed = Inr (name, source, resolved)"
      by (auto simp: first_def)
    note src = nvfp4_source_Inr [OF src]
    have digest: "ends (case dict_get hashes name of Some digest \<Rightarrow> run_only (Inr digest) ws
       | None \<Rightarrow> hash_tensor_range (env_sha env) (env_granularity env) (env_rss env) (env_files env resolved)
           (td_absolute_offset source) (td_byte_length source) ws)
      (\<lambda>digest ws'. good_space env ws' \<and> source_digest env source_tensors name digest)"
    proof (cases "dict_get hashes name")
      case None
      then show ?thesis
        using src by (auto simp: source_digest_def intro!: ends_mono [OF hash_tensor_range_ends [OF assms(1,2)]])
    next
      case (Some digest)
      with assms(2,3) show ?thesis by (simp add: digests_good_def)
    qed
    have step: "operation_step env source_tensors layout (hashes, operations) grp ws =
      run_bind (case dict_get hashes name of Some digest \<Rightarrow> run_only (Inr digest) ws
       | None \<Rightarrow> hash_tensor_range (env_sha env) (env_granularity env) (env_rss env) (env_files env resolved)
           (td_absolute_offset source) (td_byte_length source) ws) (\<lambda>digest.
      run_only (rbind (make_operation layout grp packed name source resolved digest) (\<lambda>operation.
        Inr (dict_set name digest hashes, operations @ [operation]))))"
      unfolding operation_step_def first_def [symmetric] Inr found by simp
    show ?thesis
      unfolding step
    proof (rule ends_bind [OF digest])
      fix digest ws'
      assume d: "good_space env ws' \<and> source_digest env source_tensors name digest"
      then have "digests_good env source_tensors (dict_set name digest hashes)"
        using assms(3) by (simp add: digests_good_def)
      moreover have "operation_of env source_tensors layout grp op"
        if "make_operation layout grp packed name source resolved digest = Inr op" for op
        using make_operation_Inr [OF that assms(4)] packed src d by (simp add: operation_of_def)
      ultimately show "ends (run_only (rbind (make_operation layout grp packed name source resolved digest) (\<lambda>operation.
          Inr (dict_set name digest hashes, operations @ [operation]))) ws')
        (\<lambda>(hashes', operations') ws'. good_space env ws' \<and> digests_good env source_tensors hashes'
          \<and> (\<exists>op. operations' = operations @ [op] \<and> operation_of env source_tensors layout grp op))"
        using d by auto
    qed
  qed
qed

lemma make_nvfp4_job_ends:
  assumes "0 < env_granularity env" "good_space env ws"
  shows "ends (make_nvfp4_job env plan source_tensors layout threads ws) (\<lambda>job ws'. good_space env ws'
    \<and> (\<exists>groups. group_plans plan = Inr groups \<and> list_all2 (operation_of env source_tensors layout) groups (nj_operations job)))"
  unfolding make_nvfp4_job_def
proof (rule ends_bind_only)
  fix groups
  assume "fail_if (threads < 1 \<or> 64 < threads) (InvalidPlanError ''--threads must be in the range 1..64'') (group_plans plan) = Inr groups"
  then have groups: "group_plans plan = Inr groups" by simp
  let ?I = "\<lambda>ys (hashes, operations) ws'. good_space env ws' \<and> digests_good env source_tensors hashes
      \<and> list_all2 (operation_of env source_tensors layout) ys operations"
  have "ends (run_fold (operation_step env source_tensors layout) ([], []) groups ws) (?I groups)"
  proof (rule ends_fold_prefix [where I = ?I])
    fix ys x zs acc st
    assume "groups = ys @ x # zs" and inv: "?I ys acc st"
    then have wf: "dict_wf x" using group_plans_complete [OF groups] by (simp add: complete_group_def)
    from inv obtain hashes operations where acc: "acc = (hashes, operations)" "good_space env st"
      "digests_good env source_tensors hashes" "list_all2 (operation_of env source_tensors layout) ys operations"
      by (cases acc) auto
    show "ends (operation_step env source_tensors layout acc x st) (?I (ys @ [x]))"
      unfolding acc(1) by (rule ends_mono [OF operation_step_ends [OF assms(1) acc(2,3) wf]])
        (use acc(4) in \<open>auto intro: list_all2_appendI\<close>)
  qed (use assms(2) in \<open>simp add: digests_good_def\<close>)
  then show "ends (run_bind (run_fold (operation_step env source_tensors layout) ([], []) groups ws) (\<lambda>(_, operations).
      run_only (Inr \<lparr>nj_artifact_profile = qp_artifact_profile plan, nj_scope = job_scope plan (length operations),
        nj_threads = threads, nj_operations = operations\<rparr>)))
    (\<lambda>job ws'. good_space env ws'
      \<and> (\<exists>groups. group_plans plan = Inr groups \<and> list_all2 (operation_of env source_tensors layout) groups (nj_operations job)))"
    by (rule ends_bind) (use groups in auto)
qed


section \<open>The telemetry\<close>

text \<open>The digest of a range; an empty range is never read.\<close>

definition range_digest :: "environment \<Rightarrow> bytes option \<Rightarrow> int \<Rightarrow> int \<Rightarrow> string \<Rightarrow> bool" where
  "range_digest env stored offset len digest \<longleftrightarrow> (\<exists>content. (len = 0 \<or> stored_range stored offset len content)
     \<and> (len = 0 \<longrightarrow> content = []) \<and> digest = env_sha env content)"

text \<open>A result that is true of the files and of the source.\<close>

definition direct_true :: "environment \<Rightarrow> files \<Rightarrow> sources \<Rightarrow> direct_layout \<Rightarrow> quantization_plan \<Rightarrow> string \<Rightarrow> direct_output \<Rightarrow> bool" where
  "direct_true env fs source_tensors layout plan name d \<longleftrightarrow> (\<exists>t\<in>set (qp_tensors plan). output_name t = name
     \<and> output_bytes t = Inr (do_output_bytes d)
     \<and> (\<exists>path offset. dict_get (dl_outputs layout) name = Some (path, offset)
          \<and> range_digest env (fs path) offset (do_output_bytes d) (do_output_sha256 d))
     \<and> (\<exists>source. source_names t = [source] \<and> source_digest env source_tensors source (do_source_sha256 d)))"

definition offsets_natural :: "direct_layout \<Rightarrow> bool" where
  "offsets_natural layout \<longleftrightarrow> (\<forall>(name, path, offset)\<in>set (dl_outputs layout). 0 \<le> offset)"

lemma find_by_key:
  "distinct (map f xs) \<Longrightarrow> x \<in> set xs \<Longrightarrow> find (\<lambda>y. f y = f x) xs = Some x"
proof (induction xs)
  case (Cons y ys)
  then show ?case by (cases "f y = f x") force+
qed simp

text \<open>An operation of the job with its group: its record is found by its identifier.\<close>

definition job_operation :: "environment \<Rightarrow> sources \<Rightarrow> direct_layout \<Rightarrow> quantization_plan \<Rightarrow> nvfp4_job \<Rightarrow> component_group \<Rightarrow>
    nvfp4_operation \<Rightarrow> bool" where
  "job_operation env source_tensors layout plan job grp op \<longleftrightarrow> operation_of env source_tensors layout grp op
     \<and> complete_group (qp_tensors plan) grp
     \<and> find (\<lambda>other. no_operation_id other = no_operation_id op) (nj_operations job) = Some op"

lemma job_operations:
  assumes "group_plans plan = Inr groups" "list_all2 (operation_of env source_tensors layout) groups (nj_operations job)"
  shows "list_all2 (job_operation env source_tensors layout plan job) groups (nj_operations job)"
proof -
  have complete: "\<forall>grp\<in>set groups. complete_group (qp_tensors plan) grp"
    and ids: "distinct (map (\<lambda>grp. operation_id (the (dict_get grp ''packed''))) groups)"
    using group_plans_complete [OF assms(1)] by blast+
  have "map (\<lambda>grp. operation_id (the (dict_get grp ''packed''))) groups = map no_operation_id (nj_operations job)"
    using assms(2) by induction (auto simp: operation_of_def)
  with ids have "distinct (map no_operation_id (nj_operations job))" by metis
  then have "\<forall>op\<in>set (nj_operations job).
      find (\<lambda>other. no_operation_id other = no_operation_id op) (nj_operations job) = Some op"
    by (intro ballI find_by_key)
  with assms(2) complete show ?thesis
    by (auto simp: list_all2_conv_all_nth job_operation_def)
qed

lemma job_operation_target:
  assumes "job_operation env source_tensors layout plan job grp op" "component \<in> set NVFP4_COMPONENTS"
  shows "\<exists>t target. dict_get grp component = Some t \<and> t \<in> set (qp_tensors plan) \<and> source_names t = [no_source_name op]
    \<and> dict_get (no_outputs op) component = Some target \<and> target_planned layout t target"
proof -
  have complete: "complete_group (qp_tensors plan) grp" and op: "operation_of env source_tensors layout grp op"
    using assms(1) by (simp_all add: job_operation_def)
  then have "component \<in> dict_keys grp" using assms(2) by (simp add: complete_group_def)
  then obtain t where t: "dict_get grp component = Some t" using dict_keys_get by blast
  from complete obtain name where name: "\<And>c t. dict_get grp c = Some t \<Longrightarrow> t \<in> set (qp_tensors plan) \<and> source_names t = [name]"
    unfolding complete_group_def by blast
  from op obtain packed where "dict_get grp ''packed'' = Some packed" "no_source_name op = hd (source_names packed)"
    by (auto simp: operation_of_def)
  with name have "no_source_name op = name" by force
  moreover from op map_of_SomeD [OF t] obtain target where
    "dict_get (no_outputs op) component = Some target" "target_planned layout t target"
    by (force simp: operation_of_def targets_planned_def)
  ultimately show ?thesis using t name [OF t] by blast
qed

lemma output_step_ends:
  assumes "good_space env ws" "job_operation env source_tensors layout plan job grp op" "component \<in> set NVFP4_COMPONENTS"
    and "offsets_natural layout" "\<forall>name d. dict_get outputs name = Some d \<longrightarrow> direct_true env fs source_tensors layout plan name d"
  shows "ends (output_step env fs job layout item op outputs component ws) (\<lambda>outputs' ws'. good_space env ws'
    \<and> (\<forall>name d. dict_get outputs' name = Some d \<longrightarrow> direct_true env fs source_tensors layout plan name d)
    \<and> (\<exists>t. dict_get grp component = Some t \<and> dict_keys outputs' = insert (output_name t) (dict_keys outputs)))"
proof -
  from job_operation_target [OF assms(2,3)] obtain t target where
    t: "dict_get grp component = Some t" "t \<in> set (qp_tensors plan)" "source_names t = [no_source_name op]"
    and target: "dict_get (no_outputs op) component = Some target" "target_planned layout t target" by blast
  have find: "find (\<lambda>other. no_operation_id other = no_operation_id op) (nj_operations job) = Some op"
    and source: "source_digest env source_tensors (no_source_name op) (no_source_sha256 op)"
    using assms(2) by (simp_all add: job_operation_def operation_of_def)
  have planned: "nt_name target = output_name t" "output_bytes t = Inr (nt_bytes target)"
    "dict_get (dl_outputs layout) (output_name t) = Some (nt_path target, nt_offset target)"
    using target(2) by (simp_all add: target_planned_def)
  have nonneg: "0 \<le> nt_offset target" "0 \<le> nt_bytes target"
    using assms(4) map_of_SomeD [OF planned(3)] planned(2)
    by (auto simp: offsets_natural_def output_bytes_def dest: tensor_bytes_nonneg)
  have step: "output_step env fs job layout item op outputs component ws =
    run_bind (run_only (fail_if (obj_get item (component @ ''_name'') \<noteq> PStr (nt_name target))
        (DataError ''native M06 telemetry output identity mismatch'') (Inr (target, nt_path target, nt_offset target))) ws)
      (\<lambda>(target, path, offset) ws1.
    run_bind (hash_range (env_sha env) (env_rss env) (fs path) (nat offset) (nat (nt_bytes target)) ws1) (\<lambda>digest.
    run_only (fail_if (obj_get item (component @ ''_sha256'') \<noteq> PStr digest) (DataError ''native M06 output hash mismatch'') (
      rbind (nvfp4_statistics env item component) (\<lambda>statistics.
      Inr (dict_set (nt_name target) \<lparr>do_source_sha256 = no_source_sha256 op, do_output_sha256 = digest,
        do_output_bytes = nt_bytes target, do_statistics = Some statistics\<rparr> outputs))))))"
    unfolding output_step_def find using target(1) planned(1,3) by (simp add: dict_index_def)
  have sound: "direct_true env fs source_tensors layout plan (nt_name target) \<lparr>do_source_sha256 = no_source_sha256 op,
      do_output_sha256 = digest, do_output_bytes = nt_bytes target, do_statistics = Some statistics\<rparr>"
    if "range_digest env (fs (nt_path target)) (nt_offset target) (nt_bytes target) digest" for digest statistics
    using that t planned source by (auto simp: direct_true_def)
  show ?thesis
  proof (cases "obj_get item (component @ ''_name'') = PStr (nt_name target)")
    case False
    then show ?thesis unfolding step by simp
  next
    case True
    show ?thesis
      unfolding step True fail_if_simps not_True_eq_False simp_thms run_bind_simps prod.case
    proof (rule ends_bind [OF hash_range_at [OF assms(1) nonneg]], elim conjE)
      fix digest ws'
      assume ws': "good_space env ws'" and "\<exists>content. (nt_bytes target = 0 \<or>
          stored_range (fs (nt_path target)) (nt_offset target) (nt_bytes target) content)
        \<and> (nt_bytes target = 0 \<longrightarrow> content = []) \<and> digest = env_sha env content"
      then have digest: "range_digest env (fs (nt_path target)) (nt_offset target) (nt_bytes target) digest"
        by (simp add: range_digest_def)
      have added: "\<forall>name d. dict_get (dict_set (nt_name target) \<lparr>do_source_sha256 = no_source_sha256 op,
          do_output_sha256 = digest, do_output_bytes = nt_bytes target, do_statistics = Some statistics\<rparr> outputs) name = Some d
          \<longrightarrow> direct_true env fs source_tensors layout plan name d" for statistics
        using assms(5) sound [OF digest] by (simp split: if_splits)
      show "ends (run_only (fail_if (obj_get item (component @ ''_sha256'') \<noteq> PStr digest)
          (DataError ''native M06 output hash mismatch'') (rbind (nvfp4_statistics env item component) (\<lambda>statistics.
          Inr (dict_set (nt_name target) \<lparr>do_source_sha256 = no_source_sha256 op, do_output_sha256 = digest,
            do_output_bytes = nt_bytes target, do_statistics = Some statistics\<rparr> outputs)))) ws')
        (\<lambda>outputs' ws'. good_space env ws'
          \<and> (\<forall>name d. dict_get outputs' name = Some d \<longrightarrow> direct_true env fs source_tensors layout plan name d)
          \<and> (\<exists>t. dict_get grp component = Some t \<and> dict_keys outputs' = insert (output_name t) (dict_keys outputs)))"
        unfolding ends_only fail_if_Inr_iff rbind_Inr_iff
      proof (intro allI impI, elim conjE exE)
        fix outputs' statistics
        assume "Inr (dict_set (nt_name target) \<lparr>do_source_sha256 = no_source_sha256 op, do_output_sha256 = digest,
            do_output_bytes = nt_bytes target, do_statistics = Some statistics\<rparr> outputs) = Inr outputs'"
        then have outputs': "outputs' = dict_set (nt_name target) \<lparr>do_source_sha256 = no_source_sha256 op,
            do_output_sha256 = digest, do_output_bytes = nt_bytes target, do_statistics = Some statistics\<rparr> outputs" by simp
        show "good_space env ws'
          \<and> (\<forall>name d. dict_get outputs' name = Some d \<longrightarrow> direct_true env fs source_tensors layout plan name d)
          \<and> (\<exists>t. dict_get grp component = Some t \<and> dict_keys outputs' = insert (output_name t) (dict_keys outputs))"
          using ws' added [of statistics] t(1) planned(1) unfolding outputs' by (simp only: dict_keys_set) blast
      qed
    qed
  qed
qed


definition all_true :: "environment \<Rightarrow> files \<Rightarrow> sources \<Rightarrow> direct_layout \<Rightarrow> quantization_plan \<Rightarrow> direct_output dict \<Rightarrow> bool" where
  "all_true env fs source_tensors layout plan outputs \<longleftrightarrow>
     (\<forall>name d. dict_get outputs name = Some d \<longrightarrow> direct_true env fs source_tensors layout plan name d)"

text \<open>The names of the results: those of the tensors of a group under the given components.\<close>

definition group_names :: "component_group \<Rightarrow> string list \<Rightarrow> string set" where
  "group_names grp components = {output_name t | c t. c \<in> set components \<and> dict_get grp c = Some t}"

lemma group_names_snoc:
  "dict_get grp c = Some t \<Longrightarrow> group_names grp (cs @ [c]) = insert (output_name t) (group_names grp cs)"
  by (auto simp: group_names_def)

lemma item_step_ends:
  assumes "good_space env ws" "job_operation env source_tensors layout plan job grp op"
    and "offsets_natural layout" "all_true env fs source_tensors layout plan outputs"
  shows "ends (item_step env fs job layout outputs (value, op) ws) (\<lambda>outputs' ws'. good_space env ws'
    \<and> all_true env fs source_tensors layout plan outputs'
    \<and> dict_keys outputs' = dict_keys outputs \<union> group_names grp NVFP4_COMPONENTS)"
  unfolding item_step_def prod.case
proof (rule ends_bind_only)
  fix item
  let ?I = "\<lambda>cs outputs' ws'. good_space env ws' \<and> all_true env fs source_tensors layout plan outputs'
    \<and> dict_keys outputs' = dict_keys outputs \<union> group_names grp cs"
  show "ends (run_fold (output_step env fs job layout item op) outputs NVFP4_COMPONENTS ws) (?I NVFP4_COMPONENTS)"
  proof (rule ends_fold_prefix [where I = ?I])
    fix ys component zs acc st
    assume cs: "NVFP4_COMPONENTS = ys @ component # zs" and inv: "?I ys acc st"
    have "component \<in> set NVFP4_COMPONENTS" unfolding cs by simp
    from inv have now: "good_space env st" "\<forall>name d. dict_get acc name = Some d \<longrightarrow> direct_true env fs source_tensors layout plan name d"
      by (auto simp: all_true_def)
    have "ends (output_step env fs job layout item op acc component st) (\<lambda>outputs' ws'. good_space env ws'
      \<and> all_true env fs source_tensors layout plan outputs'
      \<and> (\<exists>t. dict_get grp component = Some t \<and> dict_keys outputs' = insert (output_name t) (dict_keys acc)))"
      unfolding all_true_def by (rule output_step_ends [OF now(1) assms(2) \<open>component \<in> set NVFP4_COMPONENTS\<close> assms(3) now(2)])
    then show "ends (output_step env fs job layout item op acc component st) (?I (ys @ [component]))"
      by (rule ends_mono) (use inv group_names_snoc in auto)
  qed (use assms(1,4) in \<open>simp add: group_names_def\<close>)
qed

lemma check_nvfp4_root_length:
  "check_nvfp4_root d job = Inr parsed \<Longrightarrow> length (ro_operations parsed) = length (nj_operations job)"
  by (cases "obj_get d ''operations''") (auto simp: check_nvfp4_root_def split: option.splits)

lemma parse_telemetry_ends:
  assumes "good_space env ws" "offsets_natural layout"
    and "list_all2 (job_operation env source_tensors layout plan job) groups (nj_operations job)"
  shows "ends (parse_nvfp4_telemetry env fs path job layout ws) (\<lambda>(outputs, parsed) ws'. good_space env ws'
    \<and> all_true env fs source_tensors layout plan outputs
    \<and> dict_keys outputs = (\<Union>grp\<in>set groups. group_names grp NVFP4_COMPONENTS))"
  unfolding parse_nvfp4_telemetry_def
proof (rule ends_bind_only)
  fix parsed
  assume "rbind (nvfp4_document env (fs path)) (\<lambda>d. check_nvfp4_root d job) = Inr parsed"
  then have len: "length (ro_operations parsed) = length (nj_operations job)"
    by (auto dest: check_nvfp4_root_length)
  let ?entries = "zip (ro_operations parsed) (nj_operations job)"
  let ?I = "\<lambda>ys outputs' ws'. good_space env ws' \<and> all_true env fs source_tensors layout plan outputs'
    \<and> dict_keys outputs' = (\<Union>grp\<in>set (take (length ys) groups). group_names grp NVFP4_COMPONENTS)"
  have "ends (run_fold (item_step env fs job layout) [] ?entries ws) (?I ?entries)"
  proof (rule ends_fold_prefix [where I = ?I])
    fix ys x zs acc st
    assume xs: "?entries = ys @ x # zs" and inv: "?I ys acc st"
    obtain v op where x: "x = (v, op)" by fastforce
    let ?n = "length ys"
    have n: "?n < length (nj_operations job)" using arg_cong [OF xs, of length] len by simp
    have "?entries ! ?n = x" by (simp add: xs)
    then have "nj_operations job ! ?n = op" using n len x by simp
    with assms(3) n have grp: "job_operation env source_tensors layout plan job (groups ! ?n) op" "?n < length groups"
      by (auto simp: list_all2_conv_all_nth)
    from inv have now: "good_space env st" "all_true env fs source_tensors layout plan acc" by auto
    have "ends (item_step env fs job layout acc x st) (\<lambda>outputs' ws'. good_space env ws'
      \<and> all_true env fs source_tensors layout plan outputs'
      \<and> dict_keys outputs' = dict_keys acc \<union> group_names (groups ! ?n) NVFP4_COMPONENTS)"
      unfolding x by (rule item_step_ends [OF now(1) grp(1) assms(2) now(2)])
    then show "ends (item_step env fs job layout acc x st) (?I (ys @ [x]))"
      by (rule ends_mono) (use inv grp(2) in \<open>auto simp: take_Suc_conv_app_nth\<close>)
  qed (use assms(1) in \<open>simp add: all_true_def dict_keys_def\<close>)
  moreover have "length ?entries = length groups" using list_all2_lengthD [OF assms(3)] len by simp
  ultimately have "ends (run_fold (item_step env fs job layout) [] ?entries ws) (\<lambda>outputs ws'. good_space env ws'
    \<and> all_true env fs source_tensors layout plan outputs
    \<and> dict_keys outputs = (\<Union>grp\<in>set groups. group_names grp NVFP4_COMPONENTS))" by simp
  then show "ends (run_bind (run_fold (item_step env fs job layout) [] ?entries ws) (\<lambda>outputs. run_only (Inr (outputs, parsed))))
    (\<lambda>(outputs, parsed) ws'. good_space env ws' \<and> all_true env fs source_tensors layout plan outputs
      \<and> dict_keys outputs = (\<Union>grp\<in>set groups. group_names grp NVFP4_COMPONENTS))"
    by (rule ends_bind) simp
qed

text \<open>Every tensor of the plan is in a group, under one of the four components.\<close>

lemma group_names_cover:
  assumes "group_plans plan = Inr groups"
  shows "(\<Union>grp\<in>set groups. group_names grp NVFP4_COMPONENTS) = output_name ` set (qp_tensors plan)"
proof -
  note complete = group_plans_complete [OF assms]
  have "output_name t \<in> group_names grp NVFP4_COMPONENTS"
    if "grp \<in> set groups" "dict_get grp c = Some t" for grp c t
  proof -
    from complete that(1) have "dict_keys grp = set NVFP4_COMPONENTS" unfolding complete_group_def by blast
    with dict_get_keys [OF that(2)] that(2) show ?thesis unfolding group_names_def by blast
  qed
  moreover have "t \<in> set (qp_tensors plan)" if "grp \<in> set groups" "dict_get grp c = Some t" for grp c t
    using complete that unfolding complete_group_def by blast
  ultimately show ?thesis using complete unfolding group_names_def by fast
qed


section \<open>The run\<close>

lemma stage_chunk_good:
  assumes "good_space env ws" "stage_chunk rss check_first put chunk (ws, out) = (Inr u, (ws', out'))"
  shows "good_space env ws'"
proof -
  have "\<exists>v. workspace_check rss ws = (Inr v, ws')"
    using assms(2) by (cases check_first) (auto simp: stage_chunk_def split: prod.splits sum.splits)
  then show ?thesis using ws_good_check [OF assms(1)] ws_good_self by blast
qed

lemma stage_loop_good:
  "good_space env (fst st) \<Longrightarrow> stage_loop rss check_first put step data position st = (Inr u, st') \<Longrightarrow> good_space env (fst st')"
proof (induction rss check_first put step data position st rule: stage_loop.induct)
  case (1 rss check_first put step data position st)
  let ?chunk = "file_read data position step"
  show ?case
  proof (cases "?chunk = []")
    case True
    with 1 show ?thesis by (subst (asm) (2) stage_loop.simps) simp
  next
    case False
    obtain r st1 where c: "stage_chunk rss check_first put ?chunk st = (r, st1)"
      by (cases "stage_chunk rss check_first put ?chunk st") blast
    from "1.prems"(2) False c have r: "r = Inr ()" and rest:
      "stage_loop rss check_first put step data (position + length ?chunk) st1 = (Inr u, st')"
      by (subst (asm) (1) stage_loop.simps, cases r; simp)+
    obtain ws out ws1 out1 where st: "st = (ws, out)" "st1 = (ws1, out1)" by fastforce
    from stage_chunk_good [of env ws rss check_first "put" ?chunk out "()" ws1 out1] c r st "1.prems"(1)
    have "good_space env (fst st1)" by simp
    from "1.IH" [OF refl False c [symmetric] _ this rest] r show ?thesis by simp
  qed
qed

lemma stage_executable_good:
  assumes "good_space env ws" "stage_executable env sys check_first source staged (ws, fs) = (Inr digest, (ws', fs'))"
  shows "good_space env ws'"
  using assms stage_loop_good [of env "(ws, [])"]
  by (fastforce simp: stage_executable_def Let_def split: sum.splits option.splits if_splits prod.splits)


lemma prepare_direct_job_ends:
  assumes "0 < env_granularity env" "good_space env ws"
  shows "ends (prepare_direct_job env fsys q expected request plan source_tensors layout staging digest (ws, fs))
    (\<lambda>(job, build) st. good_space env (fst st) \<and> check_build env plan expected q digest = Inr build
      \<and> (\<exists>groups. group_plans plan = Inr groups \<and> list_all2 (operation_of env source_tensors layout) groups (nj_operations job)))"
proof (cases "check_build env plan expected q digest")
  case (Inl e)
  then show ?thesis by (simp add: prepare_direct_job_def)
next
  case (Inr build)
  from make_nvfp4_job_ends [OF assms, of plan source_tensors layout "nq_threads request"] obtain r ws1 where
    run: "make_nvfp4_job env plan source_tensors layout (nq_threads request) ws = Some (r, ws1)"
    and job: "\<And>job. r = Inr job \<Longrightarrow> good_space env ws1 \<and> (\<exists>groups. group_plans plan = Inr groups
      \<and> list_all2 (operation_of env source_tensors layout) groups (nj_operations job))"
    unfolding ends_def by blast
  show ?thesis
  proof (cases r)
    case (Inl e)
    then show ?thesis using run Inr by (simp add: prepare_direct_job_def)
  next
    case made: (Inr job)
    show ?thesis
      using run Inr made job [OF made] by (simp add: prepare_direct_job_def split: prod.splits sum.splits)
  qed
qed

lemma collect_direct_ends:
  assumes "good_space env ws" "offsets_natural layout" "group_plans plan = Inr groups"
    and "list_all2 (operation_of env source_tensors layout) groups (nj_operations job)"
  shows "ends (collect_direct env request job layout staging digest build ch fs ws) (\<lambda>result ws'.
    nv_binary_sha256 result = digest \<and> nv_native_build result = build
    \<and> all_true env fs source_tensors layout plan (nv_outputs result)
    \<and> dict_keys (nv_outputs result) = output_name ` set (qp_tensors plan))"
  unfolding collect_direct_def
  by (rule ends_bind_only, rule ends_bind [OF parse_telemetry_ends [OF assms(1,2) job_operations [OF assms(3,4)]]],
      simp only: split_def, rule ends_bind_only, rule ends_bind [where P = "\<lambda>_ _. True"])
    (auto simp: ends_def group_names_cover [OF assms(3)] split: prod.splits)

text \<open>Removing files below other paths changes nothing that is said of a range.\<close>

lemma all_true_files:
  assumes "all_true env fs source_tensors layout plan outputs"
    and "\<forall>(name, path, offset)\<in>set (dl_outputs layout). fs' path = fs path"
  shows "all_true env fs' source_tensors layout plan outputs"
proof -
  have "direct_true env fs' source_tensors layout plan name d" if d: "direct_true env fs source_tensors layout plan name d" for name d
  proof -
    from d obtain t path offset where t: "t \<in> set (qp_tensors plan)" "output_name t = name" "output_bytes t = Inr (do_output_bytes d)"
      and range: "dict_get (dl_outputs layout) name = Some (path, offset)"
        "range_digest env (fs path) offset (do_output_bytes d) (do_output_sha256 d)"
      and source: "\<exists>source. source_names t = [source] \<and> source_digest env source_tensors source (do_source_sha256 d)"
      unfolding direct_true_def by blast
    from assms(2) map_of_SomeD [OF range(1)] have "fs' path = fs path" by auto
    with range have "range_digest env (fs' path) offset (do_output_bytes d) (do_output_sha256 d)" by simp
    with t range(1) source show ?thesis unfolding direct_true_def by blast
  qed
  with assms(1) show ?thesis by (simp add: all_true_def)
qed



definition direct_sys :: staging_system where
  "direct_sys = \<lparr>open_fails = False, chmod_fails = False, fs_put = (\<lambda>out payload. (Inr (PInt (int (length payload))), out @ payload)),
     fsync_fails = False, replace_fails = False, directory_fails = False, exclusive_fails = \<lambda>_. False,
     sync_fails = \<lambda>_. False, allocate_fails = \<lambda>_. False, mkdir_fails = \<lambda>_. False, executable = \<lambda>_. True,
     identity_changed = False, unlink_fails = False\<rparr>"

definition direct_query :: query_outcome where
  "direct_query = \<lparr>qo_start_fails = False, qo_timed_out = False, qo_returncode = 0, qo_stdout = [1], qo_stderr = []\<rparr>"

definition direct_sample_layout :: direct_layout where
  "direct_sample_layout = \<lparr>dl_assignments = [], dl_shard_names = [''s''], dl_index_name = ''i'', dl_outputs = [(''o'', (''out/s'', 8))]\<rparr>"

definition direct_request :: nvfp4_request where
  "direct_request = \<lparr>nq_executable = ''x'', nq_timeout_seconds = 1, nq_threads = 1, nq_profile = ''p''\<rparr>"

definition direct_child :: "files \<Rightarrow> child_outcome \<times> files" where
  "direct_child fs = (\<lparr>ch_start_error = None, ch_timed_out = False, ch_memory_exceeded = False, ch_overflow = False,
     ch_remaining = [], ch_returncode = 0, ch_stdout = [], ch_peak_rss = 0\<rparr>, fs)"


end
