(* ===== verification/Compiler_Request.thy ===== *)
theory Compiler_Request
  imports Writer Plan_Load
begin

text \<open>
  \<open>tools/gem16_compile/compiler.py\<close>, first part: the request and the identity of a compiler run,
  their validation, the loading of source and plan, and the check that the source has not changed.
\<close>

definition COMPILATION_MANIFEST :: string where "COMPILATION_MANIFEST = ''gem16_compilation.json''"

definition COMPLETE_HYBRID_PROFILES :: "string list" where
  "COMPLETE_HYBRID_PROFILES = [''sm120-text-hybrid-v1'', ''sm120-mtp-assistant-hybrid-v1'']"

record compiler_identity =
  ci_repository :: string
  ci_commit :: string
  ci_dirty :: bool
  ci_environment :: "string dict"

text \<open>\<open>CompilerIdentity.from_repository\<close>: the outputs of the two git commands and the platform.\<close>

definition identity_from_repository :: "string option \<Rightarrow> string option \<Rightarrow> string dict \<Rightarrow> compiler_identity res" where
  "identity_from_repository rev_parse status environment_identity =
     rbind (git_compiler_identity rev_parse status) (\<lambda>(commit, dirty).
     Inr \<lparr>ci_repository = ''Danmoreng/gem16'', ci_commit = commit, ci_dirty = dirty,
       ci_environment = environment_identity\<rparr>)"

record compiler_request =
  cr_source_lock :: string
  cr_source_directory :: string
  cr_compiler_manifest :: string
  cr_profile :: string
  cr_head_format :: string
  cr_host_memory_cap_bytes :: int
  cr_staging_bytes :: int
  cr_shard_size :: "int option"
  cr_threads :: int
  cr_reference_platform_strict :: bool
  cr_dependencies_lock :: string
  cr_native_encoder :: "string option"
  cr_native_fp8_encoder :: "string option"
  cr_native_nvfp4_encoder :: "string option"
  cr_artifact_lock :: "string option"
  cr_native_timeout_seconds :: int

definition validate_dependencies_lock :: "environment \<Rightarrow> string \<Rightarrow> (pyval dict \<times> string) res" where
  "validate_dependencies_lock env path =
     rbind (load_json (json_file_of env path) (1024 * 1024)) (\<lambda>document.
     fail_if (\<not> py_eq (obj_get document ''schema_version'') (PInt 1))
       (InvalidPlanError ''unsupported compiler dependency-lock schema'') (
     fail_if (\<not> py_eq (obj_get document ''runtime'') (PStr ''python-standard-library-only''))
       (InvalidPlanError ''compiler dependencies must be standard-library-only'') (
     fail_if (\<not> py_eq (obj_get document ''external_packages'') (PList []))
       (InvalidPlanError ''M04 compiler dependency lock contains external packages'') (
     case env_files env path of
       None \<Rightarrow> Inl (OSError ''read'')
     | Some payload \<Rightarrow> Inr (document, env_sha env payload)))))"

definition validate_request :: "compiler_request \<Rightarrow> unit res" where
  "validate_request request =
     fail_if (cr_threads request < 1 \<or> 64 < cr_threads request)
       (InvalidPlanError ''--threads must be in the range 1..64'') (
     fail_if (cr_profile request = ''synthetic-copy-v1'' \<and> cr_threads request \<noteq> 1)
       (InvalidPlanError ''M04 supports exactly one deterministic thread'') (
     fail_if (cr_profile request = ''synthetic-copy-v1'' \<and> cr_native_encoder request \<noteq> None)
       (InvalidPlanError ''M04 does not accept a native encoder'') (
     fail_if (cr_native_timeout_seconds request \<le> 0)
       (InvalidPlanError ''--native-timeout-seconds must be positive'') (
     fail_if (case cr_shard_size request of None \<Rightarrow> False | Some n \<Rightarrow> n \<le> 0)
       (InvalidPlanError ''--shard-size must be positive'') (Inr ())))))"

definition plan_with_encoders :: "quantization_plan \<Rightarrow> string list \<Rightarrow> quantization_plan res" where
  "plan_with_encoders plan encoders =
    (let selected = filter (\<lambda>tensor. encoder tensor \<in> set encoders) (qp_tensors plan) in
     fail_if (selected = []) (InvalidPlanError ''compiler plan has no tensors for encoders'')
       (Inr (plan\<lparr>qp_tensors := selected, qp_excluded_tensors := []\<rparr>)))"

definition validate_reference_environment :: "quantization_plan \<Rightarrow> compiler_identity \<Rightarrow> unit res" where
  "validate_reference_environment plan identity =
     fail_if (list_ex (\<lambda>(key, expected). dict_get (ci_environment identity) key \<noteq> Some expected)
         (qp_reference_environment plan))
       (InvalidPlanError ''compiler environment differs from reference policy'') (Inr ())"

text \<open>The plan of a request; the manifest's bytes are only hashed once they have been parsed.\<close>

definition request_plan :: "environment \<Rightarrow> compiler_request \<Rightarrow> verified_source \<Rightarrow> sources \<Rightarrow> quantization_plan res" where
  "request_plan env request source source_tensors =
     load_quantization_plan (env_sha env) (env_canonical env) (json_file_of env (cr_compiler_manifest request))
       (case env_files env (cr_compiler_manifest request) of None \<Rightarrow> [] | Some raw \<Rightarrow> raw) source source_tensors
       (cr_profile request) (cr_head_format request)
       (case cr_shard_size request of None \<Rightarrow> PNone | Some n \<Rightarrow> PInt n)"

definition load_request :: "environment \<Rightarrow> compiler_request \<Rightarrow>
    (workspace, verified_source \<times> sources \<times> quantization_plan \<times> string) run" where
  "load_request env request ws =
     run_bind (run_only (validate_request request) ws) (\<lambda>_ ws1.
     run_bind (run_only (validate_dependencies_lock env (cr_dependencies_lock request)) ws1) (\<lambda>(_, dependency_hash) ws2.
     run_bind (verify_source_lock env (cr_source_lock request) (cr_source_directory request) ws2) (\<lambda>source ws3.
     run_bind (Some (read_source_tensors env source ws3)) (\<lambda>source_tensors ws4.
     run_only (rbind (request_plan env request source source_tensors) (\<lambda>plan.
       Inr (source, source_tensors, plan, dependency_hash))) ws4))))"

text \<open>\<open>==\<close> on dictionaries with distinct keys.\<close>

definition same_dict :: "'v dict \<Rightarrow> 'v dict \<Rightarrow> bool" where
  "same_dict d e \<longleftrightarrow> dict_keys d = dict_keys e \<and> list_all (\<lambda>(key, v). dict_get e key = Some v) d"

definition file_identities :: "locked_file dict \<Rightarrow> (int \<times> string) dict" where
  "file_identities files = map (\<lambda>(name, f). (name, (lf_size f, lf_sha256 f))) files"

definition reverify_source_files :: "environment \<Rightarrow> compiler_request \<Rightarrow> verified_source \<Rightarrow> (workspace, unit) run" where
  "reverify_source_files env request expected ws =
     run_bind (verify_source_lock env (cr_source_lock request) (cr_source_directory request) ws) (\<lambda>verified.
     run_only (fail_if (vs_lock_sha256 verified \<noteq> vs_lock_sha256 expected
       \<or> vs_repository verified \<noteq> vs_repository expected \<or> vs_revision verified \<noteq> vs_revision expected
       \<or> \<not> same_dict (file_identities (vs_files verified)) (file_identities (vs_files expected)))
       (SourceVerificationError ''source identity changed during compiler operation'') (Inr ())))"

end
