(* ===== verification/Compiler_Manifest.thy ===== *)
theory Compiler_Manifest
  imports Compiler_Request
begin

text \<open>
  \<open>tools/gem16_compile/compiler.py\<close>, second part: the compilation manifest of an artifact, with the
  provenance of every tensor, the excluded tensors, their groups and the files.
\<close>

section \<open>Excluded tensors\<close>

record group_total =
  gt_group :: string
  gt_reason :: string
  gt_tensor_count :: int
  gt_bytes :: int

definition omitted_totals :: "string list \<Rightarrow> group_total dict" where
  "omitted_totals families = foldl (\<lambda>acc fam. dict_set fam \<lparr>gt_group = fam,
     gt_reason = ''absent from source and excluded by text-only profile'', gt_tensor_count = 0, gt_bytes = 0\<rparr> acc) [] families"

text \<open>\<open>setdefault\<close> on the family of an excluded tensor.\<close>

definition default_total :: "group_total dict \<Rightarrow> excluded_tensor_plan \<Rightarrow> group_total dict" where
  "default_total totals item = (if ex_family item \<in> dict_keys totals then totals
     else dict_set (ex_family item) \<lparr>gt_group = ex_family item, gt_reason = ex_reason item, gt_tensor_count = 0, gt_bytes = 0\<rparr> totals)"

definition add_total :: "excluded_tensor_plan \<Rightarrow> int \<Rightarrow> group_total dict \<Rightarrow> group_total dict res" where
  "add_total item byte_length totals = rbind (dict_index totals (ex_family item)) (\<lambda>g.
     Inr (dict_set (ex_family item) (g\<lparr>gt_reason := ex_reason item, gt_tensor_count := gt_tensor_count g + 1,
       gt_bytes := gt_bytes g + byte_length\<rparr>) totals))"

definition group_document :: "group_total \<Rightarrow> pyval" where
  "group_document g = PDict [(''group'', PStr (gt_group g)), (''reason'', PStr (gt_reason g)),
     (''source_tensor_count'', PInt (gt_tensor_count g)), (''source_bytes'', PInt (gt_bytes g))]"

definition group_documents :: "group_total dict \<Rightarrow> pyval list" where
  "group_documents totals = map (group_document \<circ> snd) (dict_sorted totals)"

definition hash_source_tensor :: "environment \<Rightarrow> tensor_descriptor \<Rightarrow> (workspace, string) run" where
  "hash_source_tensor env tensor ws = hash_tensor_range (env_sha env) (env_granularity env) (env_rss env)
     (env_files env (td_path tensor)) (td_absolute_offset tensor) (td_byte_length tensor) ws"

definition excluded_document :: "environment \<Rightarrow> excluded_tensor_plan \<Rightarrow> tensor_descriptor \<Rightarrow> string \<Rightarrow> pyval dict" where
  "excluded_document env item tensor payload_hash =
    [(''source_name'', PStr (ex_source_name item)), (''source_dtype'', PStr (td_dtype tensor)),
     (''source_shape'', PList (map PInt (td_shape tensor))), (''source_bytes'', PInt (td_byte_length tensor)),
     (''source_tensor_sha256'', PStr payload_hash), (''source_range'', PDict (tensor_source_identity env tensor)),
     (''family'', PStr (ex_family item)), (''role'', PStr (ex_role item)),
     (''residency_class'', PStr (ex_residency_class item)), (''reason'', PStr (ex_reason item))]"

definition excluded_step :: "environment \<Rightarrow> sources \<Rightarrow> pyval dict list \<times> group_total dict \<Rightarrow> excluded_tensor_plan \<Rightarrow>
    (workspace, pyval dict list \<times> group_total dict) run" where
  "excluded_step env source_tensors acc item ws = (case acc of (records, totals) \<Rightarrow>
     run_bind (run_only (dict_index source_tensors (ex_source_name item)) ws) (\<lambda>tensor ws1.
     run_bind (hash_source_tensor env tensor ws1) (\<lambda>payload_hash.
     run_only (rbind (add_total item (td_byte_length tensor) totals) (\<lambda>totals'.
       Inr (records @ [excluded_document env item tensor payload_hash], totals'))))))"

definition excluded_records :: "environment \<Rightarrow> quantization_plan \<Rightarrow> sources \<Rightarrow> (workspace, pyval dict list \<times> pyval list) run" where
  "excluded_records env plan source_tensors ws =
    (let totals = foldl default_total (omitted_totals (qp_omitted_families plan)) (qp_excluded_tensors plan) in
     run_bind (run_fold (excluded_step env source_tensors) ([], totals) (sort_key ex_source_name (qp_excluded_tensors plan)) ws)
       (\<lambda>(records, totals'). run_only (Inr (records, group_documents totals'))))"

section \<open>Files\<close>

text \<open>The files a run has written, seen through the environment that reads them.\<close>

definition seeing :: "environment \<Rightarrow> (string \<Rightarrow> bool) \<Rightarrow> files \<Rightarrow> environment" where
  "seeing env dirs fs = env\<lparr>
     env_files := (\<lambda>p. case fs p of Some data \<Rightarrow> Some data | None \<Rightarrow> env_files env p),
     env_entry := (\<lambda>p. case fs p of Some data \<Rightarrow> Regular (int (length data))
       | None \<Rightarrow> if dirs p then Directory else env_entry env p)\<rparr>"

definition file_document :: "string \<Rightarrow> string \<Rightarrow> int \<Rightarrow> string \<Rightarrow> pyval dict" where
  "file_document relative kind byte_count digest =
    [(''path'', PStr relative), (''kind'', PStr kind), (''size'', PInt byte_count), (''sha256'', PStr digest)]"

definition file_record :: "environment \<Rightarrow> string \<Rightarrow> string \<Rightarrow> string \<Rightarrow> (workspace, pyval dict) run" where
  "file_record env base relative kind ws =
     run_bind (run_only (rbind (safe_relative_path relative) (\<lambda>parts.
       let path = join_parts base parts in
       reraise is_os_error (OutputError ''cannot inspect compiled artifact file'') (
       fail_if (env_symlink env path) (OutputError ''compiled artifact file is unsafe or missing'') (
       rbind (is_file env path) (\<lambda>present.
       fail_if (\<not> present) (OutputError ''compiled artifact file is unsafe or missing'') (
       rbind (stat_size env path) (\<lambda>byte_count. Inr (path, byte_count)))))))) ws) (\<lambda>(path, byte_count) ws1.
     run_bind (hash_range (env_sha env) (env_rss env) (env_files env path) 0 (nat byte_count) ws1) (\<lambda>digest.
     run_only (Inr (file_document relative kind byte_count digest))))"

section \<open>Provenance\<close>

definition source_document :: "environment \<Rightarrow> tensor_descriptor \<Rightarrow> string \<Rightarrow> pyval" where
  "source_document env tensor source_hash = PDict [(''name'', PStr (td_name tensor)), (''sha256'', PStr source_hash),
     (''range'', PDict (tensor_source_identity env tensor))]"

text \<open>The record of one output tensor, from its plan and from where its bytes are.\<close>

definition tensor_document :: "tensor_compile_plan \<Rightarrow> int \<Rightarrow> string \<Rightarrow> string \<Rightarrow> int \<times> int \<Rightarrow> pyval list \<Rightarrow> pyval dict" where
  "tensor_document plan byte_length digest shard data_offsets source_records =
    [(''output_name'', PStr (output_name plan)), (''operation_id'', PStr (operation_id plan)),
     (''output_dtype'', PStr (output_dtype plan)), (''physical_shape'', PList (map PInt (physical_shape plan))),
     (''logical_dtype'', PStr (logical_dtype plan)), (''logical_shape'', PList (map PInt (logical_shape plan))),
     (''byte_length'', PInt byte_length), (''sha256'', PStr digest), (''output_shard'', PStr shard),
     (''output_data_offsets'', PList [PInt (fst data_offsets), PInt (snd data_offsets)]),
     (''sources'', PList source_records), (''transformation'', PStr (transformation plan)),
     (''transformation_version'', PInt (transformation_version plan)),
     (''axis_transformation'', PStr (axis_transformation plan)),
     (''quantizer_parameters'', PDict (quantizer_parameters plan)),
     (''dequantization_equation'', PStr (dequantization_equation plan)), (''role'', PStr (role plan)),
     (''residency_class'', PStr (residency_class plan)), (''disk_layout'', PStr (disk_layout plan)),
     (''runtime_layout'', PStr (runtime_layout plan)), (''aliased'', PBool (aliased plan))]"

definition written_document :: "environment \<Rightarrow> sources \<Rightarrow> written_tensor \<Rightarrow> pyval dict res" where
  "written_document env source_tensors w =
     rbind (rmap (dict_index source_tensors) (source_names (wr_plan w))) (\<lambda>sources.
     fail_if (length sources \<noteq> length (er_source_sha256 (wr_source_result w)))
       (DataError ''encoder source-hash count mismatch'')
       (Inr (tensor_document (wr_plan w) (er_output_bytes (wr_source_result w)) (er_output_sha256 (wr_source_result w))
          (wr_shard w) (wr_data_offsets w)
          (map2 (source_document env) sources (er_source_sha256 (wr_source_result w))))))"

definition tensor_provenance :: "environment \<Rightarrow> written_payload \<Rightarrow> sources \<Rightarrow> pyval dict list res" where
  "tensor_provenance env payload source_tensors =
     rmap (written_document env source_tensors) (sort_key (output_name \<circ> wr_plan) (wp_tensors payload))"

section \<open>The manifest\<close>

definition metadata_kind :: "quantization_plan \<Rightarrow> string \<Rightarrow> string" where
  "metadata_kind plan name = (if qp_artifact_profile plan \<in> set COMPLETE_HYBRID_PROFILES \<and> name = ''config.json''
     then ''generated_config'' else ''source_metadata_copy'')"

definition manifest_files :: "quantization_plan \<Rightarrow> written_payload \<Rightarrow> (string \<times> string) list" where
  "manifest_files plan payload = map (\<lambda>name. (name, ''safetensors_shard'')) (wp_shard_names payload)
     @ [(wp_index_name payload, ''safetensors_index'')]
     @ map (\<lambda>name. (name, metadata_kind plan name)) (sort (wp_metadata_names payload))"

definition PARTIAL_PROFILES :: "string list" where
  "PARTIAL_PROFILES = [''fp8-attention-partial-v1'', ''nvfp4-experts-partial-v1'', ''nvfp4-tied-head-partial-v1'']"

text \<open>
  The identity of the native encoders: that of the one encoder, or those of the two encoders of a
  complete hybrid by name.
\<close>

datatype native_identity =
    OneNative "pyval dict"
  | BothNatives "pyval dict" "pyval dict"

definition native_entries :: "quantization_plan \<Rightarrow> native_identity option \<Rightarrow> pyval dict res" where
  "native_entries plan native =
    (if qp_artifact_profile plan \<in> set PARTIAL_PROFILES
     then (case native of
         Some (OneNative d) \<Rightarrow> Inr [(''native_encoder'', PDict d)]
       | Some (BothNatives f n) \<Rightarrow> Inr [(''native_encoder'', PDict [(''fp8'', PDict f), (''nvfp4'', PDict n)])]
       | None \<Rightarrow> Inl (InvalidPlanError ''native compilation is missing execution identity''))
     else if qp_artifact_profile plan \<in> set COMPLETE_HYBRID_PROFILES
     then (case native of
         Some (BothNatives f n) \<Rightarrow> Inr [(''native_encoders'', PDict [(''fp8'', PDict f), (''nvfp4'', PDict n)])]
       | _ \<Rightarrow> Inl (InvalidPlanError ''M08 compilation is missing both native identities''))
     else Inr [])"

definition file_hash_scope :: "quantization_plan \<Rightarrow> string" where
  "file_hash_scope plan = (if qp_artifact_profile plan \<in> set COMPLETE_HYBRID_PROFILES
     then ''all artifact files except gem16_compilation.json; its self-hash is supplied by the external artifact lock''
     else ''all artifact files except gem16_compilation.json; its self-hash is supplied by the external artifact lock in M08'')"

definition source_provenance :: "verified_source \<Rightarrow> pyval" where
  "source_provenance source = PDict [(''lock_sha256'', PStr (vs_lock_sha256 source)),
     (''repository'', PStr (vs_repository source)), (''revision'', PStr (vs_revision source)),
     (''resolved_at_utc'', PStr (vs_resolved_at_utc source))]"

definition plan_provenance :: "quantization_plan \<Rightarrow> pyval dict" where
  "plan_provenance plan = [(''schema_version'', PInt (qp_schema_version plan)),
     (''compiler_manifest_sha256'', PStr (qp_compiler_manifest_sha256 plan)),
     (''resolved_plan_sha256'', PStr (qp_resolved_plan_sha256 plan)),
     (''source_contract'', PStr (qp_source_contract plan)), (''target_shard_bytes'', PInt (qp_target_shard_bytes plan))]"

definition byte_totals :: "sources \<Rightarrow> quantization_plan \<Rightarrow> int \<Rightarrow> int \<Rightarrow> int \<Rightarrow> pyval" where
  "byte_totals source_tensors plan output_total excluded_count excluded_bytes = PDict [
     (''source_tensor_count'', PInt (int (length source_tensors))),
     (''output_tensor_count'', PInt (int (length (qp_tensors plan)))), (''output_tensor_bytes'', PInt output_total),
     (''excluded_tensor_count'', PInt excluded_count), (''excluded_tensor_bytes'', PInt excluded_bytes)]"

definition compiler_settings :: "compiler_request \<Rightarrow> pyval" where
  "compiler_settings request = PDict [(''threads'', PInt (cr_threads request)),
     (''host_memory_cap_bytes'', PInt (cr_host_memory_cap_bytes request)),
     (''staging_buffer_bytes'', PInt (cr_staging_bytes request)),
     (''reference_platform_strict'', PBool (cr_reference_platform_strict request)),
     (''resume_policy'', PStr ''restart-only'')]"

definition compiler_record :: "string \<Rightarrow> compiler_identity \<Rightarrow> compiler_profile \<Rightarrow> pyval dict res" where
  "compiler_record dependency_hash identity profile =
     rbind (dict_index (ci_environment identity) ''python_version'') (\<lambda>python.
     Inr [(''repository'', PStr (ci_repository identity)), (''commit'', PStr (ci_commit identity)),
       (''dirty'', PBool (ci_dirty identity)), (''python'', PStr python),
       (''platform'', PDict (map (\<lambda>(k, v). (k, PStr v)) (ci_environment identity))),
       (''dependencies_lock_sha256'', PStr dependency_hash),
       (''implementation'', PStr (prof_compiler_implementation profile))])"

definition excluded_bytes_of :: "pyval dict \<Rightarrow> int" where
  "excluded_bytes_of d = (case obj_get d ''source_bytes'' of PInt n \<Rightarrow> n | _ \<Rightarrow> 0)"

text \<open>The document, once its parts are known.\<close>

definition manifest_document :: "compiler_request \<Rightarrow> verified_source \<Rightarrow> quantization_plan \<Rightarrow> compiler_profile \<Rightarrow>
    pyval dict \<Rightarrow> sources \<Rightarrow> pyval dict list \<Rightarrow> pyval list \<Rightarrow> pyval dict list \<Rightarrow> pyval dict list \<Rightarrow> int \<Rightarrow> pyval dict" where
  "manifest_document request source plan profile compiler source_tensors excluded omitted_groups tensors files output_total =
    [(''schema_version'', PInt 1), (''artifact_profile'', PStr (qp_artifact_profile plan)),
     (''artifact_status'', PStr (prof_artifact_status profile)), (''source'', source_provenance source),
     (''compiler'', PDict compiler), (''plan'', PDict (plan_provenance plan)),
     (''quantization'', PDict (profile_quantization profile)), (''head_format'', PStr (qp_head_format plan)),
     (''text_only'', PBool True), (''omitted_families'', PList (map PStr (qp_omitted_families plan))),
     (''omitted_tensor_groups'', PList omitted_groups), (''excluded_tensors'', PList (map PDict excluded)),
     (''tensors'', PList (map PDict tensors)), (''files'', PList (map PDict files)),
     (''file_hash_scope'', PStr (file_hash_scope plan)),
     (''byte_totals'', byte_totals source_tensors plan output_total (int (length excluded))
        (sum_list (map excluded_bytes_of excluded))),
     (''compiler_settings'', compiler_settings request)]"

definition file_path_of :: "pyval dict \<Rightarrow> string" where
  "file_path_of d = (case obj_get d ''path'' of PStr s \<Rightarrow> s | _ \<Rightarrow> [])"

definition build_compilation_manifest :: "environment \<Rightarrow> compiler_request \<Rightarrow> verified_source \<Rightarrow> quantization_plan \<Rightarrow> string \<Rightarrow>
    compiler_identity \<Rightarrow> written_payload \<Rightarrow> sources \<Rightarrow> string \<Rightarrow> native_identity option \<Rightarrow> (workspace, pyval dict) run" where
  "build_compilation_manifest env request source plan dependency_hash identity payload source_tensors staging native ws =
     run_bind (excluded_records env plan source_tensors ws) (\<lambda>(excluded, omitted_groups) ws1.
     run_bind (run_only (profile_for (qp_artifact_profile plan) (qp_head_format plan)) ws1) (\<lambda>profile ws2.
     run_bind (run_fold (\<lambda>records (name, kind) st. run_bind (file_record env staging name kind st) (\<lambda>r.
         run_only (Inr (records @ [r])))) [] (manifest_files plan payload) ws2) (\<lambda>files.
     run_only (rbind (compiler_record dependency_hash identity profile) (\<lambda>compiler.
       rbind (native_entries plan native) (\<lambda>entries.
       rbind (tensor_provenance env payload source_tensors) (\<lambda>tensors.
       rbind (output_tensor_bytes plan) (\<lambda>output_total.
       Inr (manifest_document request source plan profile (compiler @ entries) source_tensors excluded omitted_groups
         tensors (sort_key file_path_of files) output_total)))))))))"

end
