(* ===== verification/Compiler_Verify.thy ===== *)
theory Compiler_Verify
  imports Compiler_Manifest
begin

text \<open>
  \<open>tools/gem16_compile/compiler.py\<close>, third part: the verification of a compiled artifact against its
  plan, its source and its compilation manifest, and the external lock of an artifact.

  \<open>walk\<close> is the traversal \<open>rglob\<close>: the relative paths below a directory.
\<close>

definition M05_PROTOCOL :: string where "M05_PROTOCOL = ''gem16-fp8-batch-v1''"
definition M06_PROTOCOL :: string where "M06_PROTOCOL = ''gem16-nvfp4-direct-v1''"

section \<open>The manifest's own structure\<close>

definition FILE_KEYS :: "string set" where "FILE_KEYS = {''path'', ''kind'', ''size'', ''sha256''}"

definition file_map_step :: "pyval dict \<Rightarrow> pyval \<Rightarrow> pyval dict res" where
  "file_map_step acc value = (case value of
     PDict d \<Rightarrow>
       fail_if (dict_keys d \<noteq> FILE_KEYS) (DataError ''compilation manifest file record must match schema'') (
       case obj_get d ''path'' of
         PStr path \<Rightarrow> rbind (safe_relative_path path) (\<lambda>_.
           fail_if (path \<in> dict_keys acc) (DataError ''duplicate compilation file record'')
             (Inr (dict_set path value acc)))
       | _ \<Rightarrow> Inl (DataError ''compilation manifest file path must be a string''))
   | _ \<Rightarrow> Inl (DataError ''compilation manifest file record must match schema''))"

definition manifest_file_map :: "pyval dict \<Rightarrow> pyval dict res" where
  "manifest_file_map compilation = (case obj_get compilation ''files'' of
     PList entries \<Rightarrow> rfold file_map_step [] entries
   | _ \<Rightarrow> Inl (DataError ''compilation manifest files must be an array''))"

definition tensor_map_step :: "pyval dict \<Rightarrow> pyval \<Rightarrow> pyval dict res" where
  "tensor_map_step acc value = (case value of
     PDict d \<Rightarrow> (case obj_get d ''output_name'' of
         PStr name \<Rightarrow> fail_if (name \<in> dict_keys acc) (DataError ''duplicate compilation tensor record'')
           (Inr (dict_set name value acc))
       | _ \<Rightarrow> Inl (DataError ''compilation tensor record is malformed''))
   | _ \<Rightarrow> Inl (DataError ''compilation tensor record is malformed''))"

definition manifest_tensor_map :: "pyval dict \<Rightarrow> pyval dict res" where
  "manifest_tensor_map compilation = (case obj_get compilation ''tensors'' of
     PList entries \<Rightarrow> rfold tensor_map_step [] entries
   | _ \<Rightarrow> Inl (DataError ''compilation manifest tensors must be an array''))"

section \<open>The files of an artifact\<close>

definition artifact_file_step :: "environment \<Rightarrow> string \<Rightarrow> string list \<Rightarrow> string \<Rightarrow> string list res" where
  "artifact_file_step env base found relative = (let path = path_join base relative in
     fail_if (env_symlink env path) (DataError ''compiled artifact contains a symlink'') (
     rbind (is_dir env path) (\<lambda>directory.
     if directory then Inr found
     else rbind (is_file env path) (\<lambda>present.
       fail_if (\<not> present) (DataError ''compiled artifact contains a non-file'') (Inr (found @ [relative]))))))"

definition actual_artifact_files :: "environment \<Rightarrow> (string \<Rightarrow> string list) \<Rightarrow> string \<Rightarrow> string list res" where
  "actual_artifact_files env walk base = rfold (artifact_file_step env base) [] (walk base)"

function read_chunks :: "bytes \<Rightarrow> nat \<Rightarrow> nat \<Rightarrow> bytes res" where
  "read_chunks data position remaining = (if remaining = 0 then Inr []
     else let chunk = file_read data position remaining in
       if chunk = [] then Inl (DataError ''short read'')
       else rbind (read_chunks data (position + length chunk) (remaining - length chunk)) (\<lambda>rest. Inr (chunk @ rest)))"
  by auto
termination
  by (relation "measure (\<lambda>(_, _, remaining). remaining)") (auto simp: file_read_def)

declare read_chunks.simps [simp del]

definition read_exact_path :: "environment \<Rightarrow> string \<Rightarrow> int \<Rightarrow> bytes res" where
  "read_exact_path env path len =
     fail_if (len < 0) (DataError ''invalid byte length'') (
     case env_files env path of
       None \<Rightarrow> Inl (DataError ''cannot read'')
     | Some data \<Rightarrow> read_chunks data 0 (nat len))"

definition index_map :: "shard_assignment list \<Rightarrow> string dict" where
  "index_map shards = foldl (\<lambda>acc a. foldl (\<lambda>acc t. dict_set (output_name t) (sa_name a) acc) acc (sa_tensors a)) [] shards"

definition canonical_index_bytes :: "environment \<Rightarrow> quantization_plan \<Rightarrow> bytes res" where
  "canonical_index_bytes env plan = rbind (assign_shards plan) (\<lambda>shards.
     rbind (output_tensor_bytes plan) (\<lambda>total.
     Inr (env_canonical env (index_document total (index_map shards)))))"

text \<open>A file that must hold exactly the bytes \<open>expected\<close>: its record.\<close>

definition layout_shard :: "environment \<Rightarrow> string \<Rightarrow> string \<Rightarrow> pyval dict dict \<Rightarrow> shard_assignment \<Rightarrow> (workspace, pyval dict dict) run" where
  "layout_shard env artifact label records a ws =
    (let path = path_join artifact (sa_name a) in
     run_bind (run_only (rbind (safetensors_header env (sa_tensors a) label) (\<lambda>(header, _).
       rbind (read_exact_path env path 8) (\<lambda>prefix.
       fail_if (unpack_u64 prefix \<noteq> length header - 8) (DataError ''canonical header length mismatch'') (
       rbind (read_exact_path env path (int (length header))) (\<lambda>actual.
       fail_if (actual \<noteq> header) (DataError ''canonical Safetensors header mismatch'') (stat_size env path)))))) ws)
     (\<lambda>byte_count ws1.
     run_bind (hash_range (env_sha env) (env_rss env) (env_files env path) 0 (nat byte_count) ws1) (\<lambda>digest.
     run_only (Inr (dict_set (sa_name a) (file_document (sa_name a) ''safetensors_shard'' byte_count digest) records)))))"

definition layout_index :: "environment \<Rightarrow> string \<Rightarrow> quantization_plan \<Rightarrow> pyval dict dict \<Rightarrow> (workspace, pyval dict dict) run" where
  "layout_index env artifact plan records ws =
    (let path = path_join artifact INDEX_NAME in
     run_bind (run_only (rbind (canonical_index_bytes env plan) (\<lambda>expected.
       rbind (read_exact_path env path (int (length expected))) (\<lambda>actual.
       fail_if (actual \<noteq> expected) (DataError ''canonical Safetensors index mismatch'') (
       rbind (stat_size env path) (\<lambda>byte_count.
       fail_if (byte_count \<noteq> int (length expected)) (DataError ''Safetensors index has trailing bytes'')
         (Inr byte_count)))))) ws) (\<lambda>byte_count ws1.
     run_bind (hash_range (env_sha env) (env_rss env) (env_files env path) 0 (nat byte_count) ws1) (\<lambda>digest.
     run_only (Inr (dict_set INDEX_NAME (file_document INDEX_NAME ''safetensors_index'' byte_count digest) records)))))"

text \<open>What a metadata file must be: the source's file, or the generated configuration.\<close>

definition expected_metadata :: "environment \<Rightarrow> quantization_plan \<Rightarrow> string \<Rightarrow> locked_file \<Rightarrow> (int \<times> string) res" where
  "expected_metadata env plan relative source_file =
    (if is_generated_config plan relative
     then (case env_files env (lf_path source_file) of
         None \<Rightarrow> Inl (OSError ''read'')
       | Some raw \<Rightarrow> rbind (compiled_config_bytes env raw (qp_artifact_profile plan)) (\<lambda>payload.
           Inr (int (length payload), env_sha env payload)))
     else Inr (lf_size source_file, lf_sha256 source_file))"

definition layout_metadata :: "environment \<Rightarrow> string \<Rightarrow> quantization_plan \<Rightarrow> verified_source \<Rightarrow> pyval dict dict \<Rightarrow> string \<Rightarrow>
    (workspace, pyval dict dict) run" where
  "layout_metadata env artifact plan source records relative ws =
     run_bind (run_only (rbind (safe_relative_path relative) (\<lambda>parts. let path = join_parts artifact parts in
       rbind (dict_index (vs_files source) relative) (\<lambda>source_file.
       rbind (expected_metadata env plan relative source_file) (\<lambda>(expected_size, expected_digest).
       rbind (stat_size env path) (\<lambda>byte_count.
       fail_if (byte_count \<noteq> expected_size) (DataError ''compiled metadata size differs from expected'')
         (Inr (path, expected_size, expected_digest))))))) ws) (\<lambda>(path, expected_size, expected_digest) ws1.
     run_bind (hash_range (env_sha env) (env_rss env) (env_files env path) 0 (nat expected_size) ws1) (\<lambda>digest.
     run_only (fail_if (digest \<noteq> expected_digest) (DataError ''compiled metadata differs from expected'')
       (Inr (dict_set relative (file_document relative (metadata_kind plan relative) expected_size expected_digest) records)))))"

fun is_source_error :: "error \<Rightarrow> bool" where
  "is_source_error (SourceVerificationError _) = True"
| "is_source_error _ = False"

text \<open>A computation whose source errors are reported as data errors.\<close>

definition as_data_error :: "('a res \<times> 's) option \<Rightarrow> ('a res \<times> 's) option" where
  "as_data_error m = map_option (\<lambda>(r, s). (reraise is_source_error (DataError ''invalid compiled Safetensors artifact'') r, s)) m"

definition check_file_set :: "environment \<Rightarrow> (string \<Rightarrow> string list) \<Rightarrow> string \<Rightarrow> quantization_plan \<Rightarrow> shard_assignment list \<Rightarrow> unit res" where
  "check_file_set env walk artifact plan shards =
     rbind (actual_artifact_files env walk artifact) (\<lambda>found.
     fail_if (set found - {COMPILATION_MANIFEST}
         \<noteq> set (map sa_name shards) \<union> {INDEX_NAME} \<union> set (qp_approved_metadata_files plan))
       (DataError ''compiled artifact file set differs from canonical plan'') (Inr ()))"

definition validate_canonical_layout :: "environment \<Rightarrow> (string \<Rightarrow> string list) \<Rightarrow> string \<Rightarrow> quantization_plan \<Rightarrow> verified_source \<Rightarrow>
    (workspace, pyval dict dict \<times> sources \<times> string list \<times> string) run" where
  "validate_canonical_layout env walk artifact plan source ws =
     run_bind (run_only (rbind (assign_shards plan) (\<lambda>shards.
       rbind (profile_for (qp_artifact_profile plan) (qp_head_format plan)) (\<lambda>profile.
       rbind (check_file_set env walk artifact plan shards) (\<lambda>_. Inr (shards, profile))))) ws) (\<lambda>(shards, profile) ws1.
     run_bind (run_fold (layout_shard env artifact (prof_header_label profile)) [] shards ws1) (\<lambda>records1 ws2.
     run_bind (layout_index env artifact plan records1 ws2) (\<lambda>records2 ws3.
     run_bind (run_fold (layout_metadata env artifact plan source) records2 (qp_approved_metadata_files plan) ws3) (\<lambda>records ws4.
     run_bind (as_data_error (read_artifact_tensors env artifact (map sa_name shards) INDEX_NAME ws4)) (\<lambda>output_tensors.
     run_only (Inr (records, output_tensors, map sa_name shards, prof_header_label profile)))))))"

section \<open>Provenance of the run\<close>

definition MANIFEST_KEYS :: "string set" where
  "MANIFEST_KEYS = {''schema_version'', ''artifact_profile'', ''artifact_status'', ''source'', ''compiler'', ''plan'',
     ''quantization'', ''head_format'', ''text_only'', ''omitted_families'', ''omitted_tensor_groups'',
     ''excluded_tensors'', ''tensors'', ''files'', ''file_hash_scope'', ''byte_totals'', ''compiler_settings''}"

text \<open>\<open>value == expected\<close> on every key of a record with exactly the expected keys.\<close>

definition record_agrees :: "pyval \<Rightarrow> pyval dict \<Rightarrow> bool" where
  "record_agrees value expected = (case value of
     PDict d \<Rightarrow> dict_keys d = dict_keys expected \<and> list_all (\<lambda>(key, v). py_eq (obj_get d key) v) expected
   | _ \<Rightarrow> False)"

definition check_contract :: "pyval dict \<Rightarrow> quantization_plan \<Rightarrow> verified_source \<Rightarrow> compiler_profile res" where
  "check_contract compilation plan source =
     fail_if (dict_keys compilation \<noteq> MANIFEST_KEYS) (DataError ''gem16_compilation top-level schema mismatch'') (
     fail_if (\<not> py_eq (obj_get compilation ''schema_version'') (PInt 1))
       (DataError ''unsupported gem16_compilation schema_version'') (
     fail_if (\<not> py_eq (obj_get compilation ''artifact_profile'') (PStr (qp_artifact_profile plan)))
       (DataError ''compiled artifact profile differs from compiler plan'') (
     rbind (profile_for (qp_artifact_profile plan) (qp_head_format plan)) (\<lambda>profile.
     fail_if (\<not> py_eq (obj_get compilation ''artifact_status'') (PStr (prof_artifact_status profile)))
       (DataError ''compiled artifact status is missing or incorrect'') (
     fail_if (\<not> py_eq (obj_get compilation ''quantization'') (PDict (profile_quantization profile))
       \<or> \<not> py_eq (obj_get compilation ''head_format'') (PStr (qp_head_format plan))
       \<or> obj_get compilation ''text_only'' \<noteq> PBool True)
       (DataError ''compiled precision/text-only contract mismatch'') (
     fail_if (\<not> py_eq (obj_get compilation ''source'') (source_provenance source))
       (DataError ''compiled artifact source provenance mismatch'') (
     fail_if (\<not> record_agrees (obj_get compilation ''plan'') (plan_provenance plan))
       (DataError ''compiled artifact plan provenance mismatch'') (Inr profile))))))))"

definition is_string :: "pyval \<Rightarrow> bool" where
  "is_string v = (case v of PStr s \<Rightarrow> True | _ \<Rightarrow> False)"

definition hex_text :: "nat \<Rightarrow> pyval \<Rightarrow> bool" where
  "hex_text n v = (case v of PStr s \<Rightarrow> length s = n \<and> list_all lower_hex s | _ \<Rightarrow> False)"

definition PLATFORM_FIELDS :: "string set" where
  "PLATFORM_FIELDS = {''system'', ''machine'', ''python_implementation'', ''python_version'', ''python_major_minor'',
     ''byteorder'', ''locale''}"

definition compiler_keys :: "quantization_plan \<Rightarrow> string set" where
  "compiler_keys plan = {''repository'', ''commit'', ''dirty'', ''python'', ''platform'', ''dependencies_lock_sha256'',
       ''implementation''}
     \<union> (if qp_artifact_profile plan \<in> set PARTIAL_PROFILES then {''native_encoder''}
        else if qp_artifact_profile plan \<in> set COMPLETE_HYBRID_PROFILES then {''native_encoders''} else {})"

definition valid_platform :: "pyval \<Rightarrow> bool" where
  "valid_platform v = (case v of
     PDict d \<Rightarrow> dict_keys d = PLATFORM_FIELDS \<and> list_all (\<lambda>(key, x). is_string x \<and> x \<noteq> PStr []) d
   | _ \<Rightarrow> False)"

definition check_compiler :: "pyval \<Rightarrow> quantization_plan \<Rightarrow> compiler_profile \<Rightarrow> string \<Rightarrow> pyval dict res" where
  "check_compiler value plan profile dependency_hash = (case value of
     PDict d \<Rightarrow>
       fail_if (dict_keys d \<noteq> compiler_keys plan) (DataError ''compiled artifact compiler provenance is missing'') (
       fail_if (\<not> py_eq (obj_get d ''repository'') (PStr ''Danmoreng/gem16'')
         \<or> \<not> hex_text 40 (obj_get d ''commit'')
         \<or> (\<forall>b. obj_get d ''dirty'' \<noteq> PBool b)
         \<or> \<not> py_eq (obj_get d ''dependencies_lock_sha256'') (PStr dependency_hash)
         \<or> \<not> py_eq (obj_get d ''implementation'') (PStr (prof_compiler_implementation profile))
         \<or> \<not> valid_platform (obj_get d ''platform'')
         \<or> \<not> py_eq (obj_get d ''python'')
              (case obj_get d ''platform'' of PDict p \<Rightarrow> obj_get p ''python_version'' | _ \<Rightarrow> PNone))
         (DataError ''compiled artifact compiler provenance is invalid'') (Inr d))
   | _ \<Rightarrow> Inl (DataError ''compiled artifact compiler provenance is missing''))"

definition check_native :: "pyval \<Rightarrow> string \<Rightarrow> int \<Rightarrow> bool \<Rightarrow> unit res" where
  "check_native value protocol expected_threads release = (case value of
     PDict d \<Rightarrow>
       fail_if (dict_keys d \<noteq> {''protocol'', ''sha256'', ''threads'', ''build''}
         \<or> \<not> py_eq (obj_get d ''protocol'') (PStr protocol)
         \<or> \<not> py_eq (obj_get d ''threads'') (PInt expected_threads)
         \<or> \<not> hex_text 64 (obj_get d ''sha256''))
         (DataError ''compiled native encoder provenance is invalid'') (
       rbind (native_build (obj_get d ''build'')) (\<lambda>build.
       fail_if (release \<and> dict_get build ''build_type'' \<noteq> Some ''Release'')
         (DataError ''compiled native build must be Release'') (Inr ())))
   | _ \<Rightarrow> Inl (DataError ''compiled native encoder provenance is invalid''))"

definition check_natives :: "pyval dict \<Rightarrow> quantization_plan \<Rightarrow> int \<Rightarrow> unit res" where
  "check_natives compiler plan expected_threads =
    (if qp_artifact_profile plan \<in> set PARTIAL_PROFILES
     then let fp8 = qp_artifact_profile plan = ''fp8-attention-partial-v1'' in
       check_native (obj_get compiler ''native_encoder'') (if fp8 then M05_PROTOCOL else M06_PROTOCOL) expected_threads (\<not> fp8)
     else if qp_artifact_profile plan \<in> set COMPLETE_HYBRID_PROFILES
     then (case obj_get compiler ''native_encoders'' of
         PDict d \<Rightarrow>
           fail_if (dict_keys d \<noteq> {''fp8'', ''nvfp4''}) (DataError ''compiled native M08 encoder provenance is invalid'') (
           rbind (check_native (obj_get d ''fp8'') M05_PROTOCOL expected_threads True) (\<lambda>_.
           check_native (obj_get d ''nvfp4'') M06_PROTOCOL expected_threads True))
       | _ \<Rightarrow> Inl (DataError ''compiled native M08 encoder provenance is invalid''))
     else Inr ())"

section \<open>The tensors\<close>

text \<open>The digests of source tensors are computed once each.\<close>

definition source_hash_step :: "environment \<Rightarrow> sources \<Rightarrow> string dict \<times> pyval list \<Rightarrow> string \<Rightarrow>
    (workspace, string dict \<times> pyval list) run" where
  "source_hash_step env source_tensors acc name ws = (case acc of (hashes, records) \<Rightarrow>
     run_bind (run_only (dict_index source_tensors name) ws) (\<lambda>tensor ws1.
     run_bind (case dict_get hashes name of
         Some digest \<Rightarrow> run_only (Inr digest) ws1
       | None \<Rightarrow> hash_source_tensor env tensor ws1) (\<lambda>digest.
     run_only (Inr (dict_set name digest hashes, records @ [source_document env tensor digest])))))"

definition verify_output :: "environment \<Rightarrow> sources \<Rightarrow> sources \<Rightarrow> pyval dict \<Rightarrow> string dict \<Rightarrow> tensor_compile_plan \<Rightarrow>
    (workspace, string dict) run" where
  "verify_output env source_tensors output_tensors manifest_tensors hashes expected ws =
     run_bind (run_only (case dict_get output_tensors (output_name expected) of
         None \<Rightarrow> Inl (DataError ''compiled output tensor is missing'')
       | Some out \<Rightarrow> rbind (dict_index manifest_tensors (output_name expected)) (\<lambda>recorded.
           fail_if (td_dtype out \<noteq> output_dtype expected \<or> td_shape out \<noteq> physical_shape expected)
             (DataError ''compiled output dtype/shape mismatch'') (Inr (out, recorded)))) ws) (\<lambda>(out, recorded) ws1.
     run_bind (hash_source_tensor env out ws1) (\<lambda>output_hash ws2.
     run_bind (run_only (rbind (output_bytes expected) (\<lambda>byte_count.
       fail_if (td_byte_length out \<noteq> byte_count) (DataError ''compiled output byte count mismatch'') (Inr ()))) ws2) (\<lambda>_ ws3.
     run_bind (run_fold (source_hash_step env source_tensors) (hashes, []) (source_names expected) ws3) (\<lambda>(hashes', records).
     run_only (fail_if (\<not> py_eq recorded (PDict (tensor_document expected (td_byte_length out) output_hash (td_shard out)
         (td_data_offset out, td_data_offset out + td_byte_length out) records)))
       (DataError ''compiled tensor provenance mismatch'') (Inr hashes'))))))"

definition excluded_map :: "pyval list \<Rightarrow> pyval dict" where
  "excluded_map entries = foldl (\<lambda>acc v. case v of
     PDict d \<Rightarrow> (case obj_get d ''source_name'' of PStr name \<Rightarrow> dict_set name v acc | _ \<Rightarrow> acc) | _ \<Rightarrow> acc) [] entries"

definition verify_exclusion :: "environment \<Rightarrow> sources \<Rightarrow> pyval dict \<Rightarrow> unit \<Rightarrow> excluded_tensor_plan \<Rightarrow> (workspace, unit) run" where
  "verify_exclusion env source_tensors excluded_by_name u item ws =
     run_bind (run_only (dict_index source_tensors (ex_source_name item)) ws) (\<lambda>tensor ws1.
     run_bind (hash_source_tensor env tensor ws1) (\<lambda>source_hash.
     run_only (rbind (dict_index excluded_by_name (ex_source_name item)) (\<lambda>recorded.
       fail_if (\<not> py_eq recorded (PDict (excluded_document env item tensor source_hash)))
         (DataError ''compiled exclusion provenance mismatch'') (Inr ())))))"

definition verify_exclusions :: "environment \<Rightarrow> sources \<Rightarrow> quantization_plan \<Rightarrow> pyval dict \<Rightarrow> (workspace, unit) run" where
  "verify_exclusions env source_tensors plan compilation ws = (case obj_get compilation ''excluded_tensors'' of
     PList entries \<Rightarrow> (let excluded_by_name = excluded_map entries in
       if length excluded_by_name \<noteq> length entries
         \<or> dict_keys excluded_by_name \<noteq> ex_source_name ` set (qp_excluded_tensors plan)
       then Some (Inl (DataError ''compiled artifact exclusion set differs from plan''), ws)
       else run_fold (verify_exclusion env source_tensors excluded_by_name) () (qp_excluded_tensors plan) ws)
   | _ \<Rightarrow> Some (Inl (DataError ''compiled artifact excluded_tensors must be an array''), ws))"

definition verify_metadata :: "environment \<Rightarrow> string \<Rightarrow> verified_source \<Rightarrow> quantization_plan \<Rightarrow> pyval dict \<Rightarrow> unit \<Rightarrow> string \<Rightarrow>
    (workspace, unit) run" where
  "verify_metadata env artifact source plan file_records u relative ws =
     run_bind (run_only (rbind (dict_index (vs_files source) relative) (\<lambda>source_file.
       rbind (safe_relative_path relative) (\<lambda>parts. let path = join_parts artifact parts in
       rbind (stat_size env path) (\<lambda>byte_count. Inr (source_file, path, byte_count))))) ws)
     (\<lambda>(source_file, path, byte_count) ws1.
     run_bind (hash_range (env_sha env) (env_rss env) (env_files env path) 0 (nat byte_count) ws1) (\<lambda>digest.
     run_only (rbind (expected_metadata env plan relative source_file) (\<lambda>(_, expected_digest).
       fail_if (digest \<noteq> expected_digest) (DataError ''compiled metadata differs from expected'') (
       fail_if (case dict_get file_records relative of
            Some (PDict d) \<Rightarrow> \<not> py_eq (obj_get d ''kind'') (PStr (metadata_kind plan relative))
          | _ \<Rightarrow> True) (DataError ''compiled metadata file record is missing'') (Inr ()))))))"

section \<open>Totals and settings\<close>

definition check_index_total :: "environment \<Rightarrow> string \<Rightarrow> quantization_plan \<Rightarrow> unit res" where
  "check_index_total env artifact plan =
     rbind (load_json (json_file_of env (path_join artifact INDEX_NAME)) (256 * 1024 * 1024)) (\<lambda>document.
     rbind (output_tensor_bytes plan) (\<lambda>total.
     fail_if (case obj_get document ''metadata'' of PDict d \<Rightarrow> \<not> py_eq (obj_get d ''total_size'') (PInt total) | _ \<Rightarrow> True)
       (DataError ''compiled Safetensors index total_size mismatch'') (Inr ())))"

definition excluded_length :: "sources \<Rightarrow> excluded_tensor_plan \<Rightarrow> int res" where
  "excluded_length source_tensors item = rbind (dict_index source_tensors (ex_source_name item)) (\<lambda>t. Inr (td_byte_length t))"

definition expected_group_step :: "sources \<Rightarrow> group_total dict \<Rightarrow> excluded_tensor_plan \<Rightarrow> group_total dict res" where
  "expected_group_step source_tensors totals item = rbind (excluded_length source_tensors item) (\<lambda>byte_length.
     add_total item byte_length (default_total totals item))"

definition check_totals :: "sources \<Rightarrow> quantization_plan \<Rightarrow> pyval dict \<Rightarrow> unit res" where
  "check_totals source_tensors plan compilation =
     rbind (output_tensor_bytes plan) (\<lambda>total.
     rbind (rmap (excluded_length source_tensors) (qp_excluded_tensors plan)) (\<lambda>lengths.
     fail_if (\<not> py_eq (obj_get compilation ''byte_totals'') (byte_totals source_tensors plan total
         (int (length (qp_excluded_tensors plan))) (sum_list lengths)))
       (DataError ''compiled artifact byte totals do not reconcile'') (
     fail_if (\<not> py_eq (obj_get compilation ''omitted_families'') (PList (map PStr (qp_omitted_families plan))))
       (DataError ''compiled artifact omitted_families mismatch'') (
     rbind (rfold (expected_group_step source_tensors) (omitted_totals (qp_omitted_families plan)) (qp_excluded_tensors plan)) (\<lambda>groups.
     fail_if (\<not> py_eq (obj_get compilation ''omitted_tensor_groups'') (PList (group_documents groups)))
       (DataError ''compiled artifact omitted tensor groups do not reconcile'') (Inr ()))))))"

text \<open>\<open>isinstance(value, int)\<close>, which holds of booleans, and the comparison with a bound.\<close>

definition int_below :: "pyval \<Rightarrow> int \<Rightarrow> bool" where
  "int_below v bound = (case v of PInt n \<Rightarrow> n < bound | PBool b \<Rightarrow> of_bool b < bound | _ \<Rightarrow> True)"

definition check_settings :: "pyval \<Rightarrow> int \<Rightarrow> unit res" where
  "check_settings value expected_threads = fail_if (case value of
       PDict d \<Rightarrow> dict_keys d \<noteq> {''threads'', ''host_memory_cap_bytes'', ''staging_buffer_bytes'',
           ''reference_platform_strict'', ''resume_policy''}
         \<or> \<not> py_eq (obj_get d ''threads'') (PInt expected_threads)
         \<or> int_below (obj_get d ''host_memory_cap_bytes'') 1
         \<or> int_below (obj_get d ''staging_buffer_bytes'') 4096
         \<or> (\<forall>b. obj_get d ''reference_platform_strict'' \<noteq> PBool b)
         \<or> \<not> py_eq (obj_get d ''resume_policy'') (PStr ''restart-only'')
     | _ \<Rightarrow> True) (DataError ''compiled artifact compiler settings are invalid'') (Inr ())"

section \<open>The verification\<close>

definition outputs_by_name :: "quantization_plan \<Rightarrow> tensor_compile_plan dict" where
  "outputs_by_name plan = foldl (\<lambda>acc t. dict_set (output_name t) t acc) [] (qp_tensors plan)"

text \<open>The manifest read from the artifact, up to the checks of the run's provenance.\<close>

definition load_compilation :: "environment \<Rightarrow> string \<Rightarrow> quantization_plan \<Rightarrow> verified_source \<Rightarrow> string \<Rightarrow> int \<Rightarrow> pyval dict res" where
  "load_compilation env artifact plan source dependency_hash expected_threads =
     rbind (reraise is_invalid_plan (DataError ''invalid compilation manifest'')
       (load_json (json_file_of env (path_join artifact COMPILATION_MANIFEST)) (64 * 1024 * 1024))) (\<lambda>compilation.
     rbind (check_contract compilation plan source) (\<lambda>profile.
     rbind (check_compiler (obj_get compilation ''compiler'') plan profile dependency_hash) (\<lambda>compiler.
     rbind (check_natives compiler plan expected_threads) (\<lambda>_.
     fail_if (\<not> py_eq (obj_get compilation ''file_hash_scope'') (PStr (file_hash_scope plan)))
       (DataError ''compiled artifact file-hash scope is invalid'') (Inr compilation)))))"

text \<open>The maps of the manifest, once the layout is known: files and tensors must be the expected ones.\<close>

definition match_manifest :: "quantization_plan \<Rightarrow> pyval dict \<Rightarrow> pyval dict dict \<Rightarrow> sources \<Rightarrow> (pyval dict \<times> pyval dict) res" where
  "match_manifest plan compilation expected_records output_tensors =
     rbind (manifest_file_map compilation) (\<lambda>file_records.
     fail_if (\<not> py_eq (PDict file_records) (PDict (map (\<lambda>(name, d). (name, PDict d)) expected_records)))
       (DataError ''compiled artifact file records differ from canonical layout'') (
     let expected_outputs = dict_keys (outputs_by_name plan) in
     fail_if (dict_keys output_tensors \<noteq> expected_outputs)
       (DataError ''compiled output tensor names differ from compiler plan'') (
     rbind (manifest_tensor_map compilation) (\<lambda>manifest_tensors.
     fail_if (dict_keys manifest_tensors \<noteq> expected_outputs)
       (DataError ''compilation provenance tensor names differ from plan'') (Inr (file_records, manifest_tensors))))))"

definition verify_loaded_artifact :: "environment \<Rightarrow> (string \<Rightarrow> string list) \<Rightarrow> string \<Rightarrow> verified_source \<Rightarrow> sources \<Rightarrow>
    quantization_plan \<Rightarrow> string \<Rightarrow> int \<Rightarrow> (workspace, pyval dict) run" where
  "verify_loaded_artifact env walk artifact source source_tensors plan dependency_hash expected_threads ws =
     run_bind (run_only (load_compilation env artifact plan source dependency_hash expected_threads) ws) (\<lambda>compilation ws1.
     run_bind (validate_canonical_layout env walk artifact plan source ws1) (\<lambda>(expected_records, output_tensors, _, _) ws2.
     run_bind (run_only (match_manifest plan compilation expected_records output_tensors) ws2) (\<lambda>(file_records, manifest_tensors) ws3.
     run_bind (run_fold (verify_output env source_tensors output_tensors manifest_tensors) []
       (map snd (outputs_by_name plan)) ws3) (\<lambda>_ ws4.
     run_bind (verify_exclusions env source_tensors plan compilation ws4) (\<lambda>_ ws5.
     run_bind (run_fold (verify_metadata env artifact source plan file_records) () (qp_approved_metadata_files plan) ws5) (\<lambda>_ ws6.
     run_bind (run_only (rbind (check_index_total env artifact plan) (\<lambda>_.
       rbind (check_totals source_tensors plan compilation) (\<lambda>_.
       check_settings (obj_get compilation ''compiler_settings'') expected_threads))) ws6) (\<lambda>_ ws7.
     run_bind (Some (workspace_check (env_rss env) ws7)) (\<lambda>_.
     run_only (Inr compilation)))))))))"

definition expected_threads_of :: "compiler_request \<Rightarrow> quantization_plan \<Rightarrow> int" where
  "expected_threads_of request plan =
    (if qp_artifact_profile plan \<in> set (PARTIAL_PROFILES @ COMPLETE_HYBRID_PROFILES) then cr_threads request else 1)"

section \<open>The external lock\<close>

definition lock_file_step :: "environment \<Rightarrow> string \<Rightarrow> pyval list \<Rightarrow> string \<Rightarrow> (workspace, pyval list) run" where
  "lock_file_step env artifact records relative ws =
     run_bind (run_only (rbind (safe_relative_path relative) (\<lambda>parts. let path = join_parts artifact parts in
       rbind (stat_size env path) (\<lambda>byte_count. Inr (path, byte_count)))) ws) (\<lambda>(path, byte_count) ws1.
     run_bind (hash_range (env_sha env) (env_rss env) (env_files env path) 0 (nat byte_count) ws1) (\<lambda>digest.
     run_only (Inr (records @ [PDict [(''path'', PStr relative), (''size'', PInt byte_count), (''sha256'', PStr digest)]]))))"

definition lock_content :: "pyval dict \<Rightarrow> pyval list \<Rightarrow> pyval dict res" where
  "lock_content compilation files = (case (obj_get compilation ''source'', obj_get compilation ''compiler'') of
     (PDict source, PDict compiler) \<Rightarrow> Inr [
       (''artifact_profile'', obj_get compilation ''artifact_profile''),
       (''artifact_status'', obj_get compilation ''artifact_status''),
       (''source_lock_sha256'', obj_get source ''lock_sha256''),
       (''compiler_commit'', obj_get compiler ''commit''), (''files'', PList files)]
   | _ \<Rightarrow> Inl (DataError ''M08 compilation provenance is incomplete for external lock''))"

definition external_lock_document :: "environment \<Rightarrow> (string \<Rightarrow> string list) \<Rightarrow> string \<Rightarrow> pyval dict \<Rightarrow> (workspace, pyval dict) run" where
  "external_lock_document env walk artifact compilation ws =
     run_bind (run_only (actual_artifact_files env walk artifact) ws) (\<lambda>found ws1.
     run_bind (run_fold (lock_file_step env artifact) [] (sorted_list_of_set (set found)) ws1) (\<lambda>files.
     run_only (rbind (lock_content compilation files) (\<lambda>content.
       Inr ((''schema_version'', PInt 1) # content
         @ [(''artifact_content_sha256'', PStr (env_sha env (env_canonical env (PDict content))))])))))"

definition verify_external_artifact_lock :: "environment \<Rightarrow> (string \<Rightarrow> string list) \<Rightarrow> string \<Rightarrow> string \<Rightarrow> pyval dict \<Rightarrow> (workspace, string) run" where
  "verify_external_artifact_lock env walk artifact lock_path compilation ws =
     run_bind (run_only (reraise is_os_error (DataError ''cannot inspect M08 external artifact lock'') (
       fail_if (env_symlink env lock_path) (DataError ''M08 external artifact lock is missing or unsafe'') (
       rbind (is_file env lock_path) (\<lambda>present.
       fail_if (\<not> present) (DataError ''M08 external artifact lock is missing or unsafe'')
         (load_json (json_file_of env lock_path) (16 * 1024 * 1024)))))) ws) (\<lambda>actual ws1.
     run_bind (external_lock_document env walk artifact compilation ws1) (\<lambda>expected.
     run_only (
       fail_if (\<not> py_eq (PDict actual) (PDict expected)) (DataError ''M08 external artifact lock does not bind the artifact'') (
       case env_files env lock_path of
         None \<Rightarrow> Inl (OSError ''read'')
       | Some raw \<Rightarrow> let payload = env_canonical env (PDict actual) in
           fail_if (raw \<noteq> payload) (DataError ''M08 external artifact lock is not canonical JSON'') (Inr (env_sha env payload))))))"

end
