(* ===== verification/Writer_Facts.thy ===== *)
theory Writer_Facts
  imports Writer Native_Facts Plan_Facts
begin

text \<open>
  The pure part of the shard writer: every tensor of a plan lands in exactly one shard of bounded
  size, and the header gives the tensors of a shard consecutive ranges.
\<close>

section \<open>Shards\<close>

definition bytes_of :: "tensor_compile_plan \<Rightarrow> int" where
  "bytes_of t = (case output_bytes t of Inr n \<Rightarrow> n | Inl _ \<Rightarrow> 0)"

definition total_bytes :: "tensor_compile_plan list \<Rightarrow> int" where
  "total_bytes ts = sum_list (map bytes_of ts)"

lemma bytes_of_nonneg: "0 \<le> bytes_of t"
  by (auto simp: bytes_of_def dest: output_bytes_nonneg split: sum.splits)

lemma bytes_of_Inr: "output_bytes t = Inr n \<Longrightarrow> bytes_of t = n"
  by (simp add: bytes_of_def)

lemma total_bytes_simps [simp]:
  "total_bytes [] = 0" "total_bytes (t # ts) = bytes_of t + total_bytes ts"
  "total_bytes (ts @ us) = total_bytes ts + total_bytes us"
  by (simp_all add: total_bytes_def)

lemma total_bytes_nonneg: "0 \<le> total_bytes ts"
  using bytes_of_nonneg by (induction ts) auto

text \<open>A group that fits the target size, or a single tensor that does not.\<close>

definition fits :: "int \<Rightarrow> tensor_compile_plan list \<Rightarrow> bool" where
  "fits target g \<longleftrightarrow> g \<noteq> [] \<and> (total_bytes g \<le> target \<or> length g = 1)"

text \<open>A shard is closed only when the next tensor does not fit, or its last tensor fills a shard.\<close>

definition closed_before :: "int \<Rightarrow> tensor_compile_plan list \<Rightarrow> tensor_compile_plan list \<Rightarrow> bool" where
  "closed_before target g h \<longleftrightarrow> target < total_bytes g + bytes_of (hd h) \<or> target \<le> bytes_of (last g)"

definition shard_invariant :: "int \<Rightarrow> tensor_compile_plan list \<Rightarrow> shard_groups \<Rightarrow> bool" where
  "shard_invariant target ys st \<longleftrightarrow> concat (sg_groups st) @ sg_current st = ys
     \<and> (\<forall>g\<in>set (sg_groups st). fits target g) \<and> successively (closed_before target) (sg_groups st)
     \<and> sg_bytes st = total_bytes (sg_current st)
     \<and> (sg_current st \<noteq> [] \<longrightarrow> fits target (sg_current st)
          \<and> (sg_groups st \<noteq> [] \<longrightarrow> closed_before target (last (sg_groups st)) (sg_current st)))
     \<and> (sg_current st = [] \<longrightarrow> sg_groups st \<noteq> [] \<longrightarrow> target \<le> bytes_of (last (last (sg_groups st))))"

lemma shard_invariant_closed:
  assumes "shard_invariant target ys st" "sg_current st \<noteq> []"
  shows "concat (sg_groups (close_group st)) = ys \<and> (\<forall>g\<in>set (sg_groups (close_group st)). fits target g)
    \<and> successively (closed_before target) (sg_groups (close_group st))"
  using assms by (auto simp: shard_invariant_def close_group_def successively_append_iff)

lemma close_full:
  assumes "shard_invariant target ys st" "sg_current st \<noteq> []" "target \<le> bytes_of (last (sg_current st))"
  shows "shard_invariant target ys (close_group st)"
  using shard_invariant_closed [OF assms(1,2)] assms(2,3) by (simp add: shard_invariant_def close_group_def)

lemma shard_step_invariant:
  assumes "shard_invariant target ys st" "shard_step target st t = Inr st'"
    and clean: "sg_current st \<noteq> [] \<Longrightarrow> bytes_of (last (sg_current st)) < target \<and> total_bytes (sg_current st) \<le> target"
  shows "shard_invariant target (ys @ [t]) st'
    \<and> (sg_current st' \<noteq> [] \<longrightarrow> bytes_of (last (sg_current st')) < target \<and> total_bytes (sg_current st') \<le> target)"
proof -
  from assms(2) obtain n where n: "output_bytes t = Inr n" by (auto simp: shard_step_def)
  note b = bytes_of_Inr [OF n]
  let ?c = "sg_current st \<noteq> [] \<and> target < sg_bytes st + n"
  define st1 where "st1 = (if ?c then close_group st else st)"
  define st2 where "st2 = st1\<lparr>sg_current := sg_current st1 @ [t], sg_bytes := sg_bytes st1 + n\<rparr>"
  have st': "st' = (if target \<le> n then close_group st2 else st2)"
    using assms(2) by (simp only: shard_step_def n rbind_simps Let_def st1_def st2_def sum.inject)
  have inv2: "shard_invariant target (ys @ [t]) st2"
  proof (cases ?c)
    case True
    then have c: "sg_current st \<noteq> []" "target < total_bytes (sg_current st) + n"
      using assms(1) by (auto simp: shard_invariant_def)
    from shard_invariant_closed [OF assms(1) c(1)] c b show ?thesis
      by (simp add: shard_invariant_def st1_def st2_def True close_group_def fits_def closed_before_def)
  next
    case False
    show ?thesis
    proof (cases "sg_current st = []")
      case True
      with assms(1) b show ?thesis
        by (auto simp: shard_invariant_def st1_def st2_def fits_def closed_before_def)
    next
      case nonempty: False
      with False assms(1) have small: "total_bytes (sg_current st) + n \<le> target"
        by (auto simp: shard_invariant_def)
      from nonempty False assms(1) b small show ?thesis
        by (auto simp: shard_invariant_def st1_def st2_def fits_def closed_before_def)
    qed
  qed
  have last2: "sg_current st2 \<noteq> [] \<and> last (sg_current st2) = t" by (simp add: st2_def)
  show ?thesis
  proof (cases "target \<le> n")
    case True
    with close_full [OF inv2] last2 b st' show ?thesis by (simp add: close_group_def)
  next
    case False
    have "total_bytes (sg_current st2) \<le> target"
      using False clean assms(1) b by (auto simp: st2_def st1_def close_group_def shard_invariant_def)
    with False inv2 last2 b st' show ?thesis by simp
  qed
qed

lemma shard_fold:
  assumes "rfold (shard_step target) \<lparr>sg_groups = [], sg_current = [], sg_bytes = 0\<rparr> ts = Inr st"
  shows "shard_invariant target ts st"
proof -
  define J where "J ys st \<longleftrightarrow> shard_invariant target ys st
    \<and> (sg_current st \<noteq> [] \<longrightarrow> bytes_of (last (sg_current st)) < target \<and> total_bytes (sg_current st) \<le> target)" for ys st
  have "J ts st"
  proof (rule rfold_invariant [OF assms])
    show "J [] \<lparr>sg_groups = [], sg_current = [], sg_bytes = 0\<rparr>" by (simp add: J_def shard_invariant_def)
    fix ys y zs st st'
    assume "J ys st" "shard_step target st y = Inr st'"
    then show "J (ys @ [y]) st'" unfolding J_def by (intro shard_step_invariant) blast+
  qed
  then show ?thesis by (simp add: J_def)
qed

text \<open>Shard names.\<close>

lemma str_nat_zeros: "str_nat (replicate k CHR ''0'' @ s) = str_nat s"
proof -
  have "digit_value CHR ''0'' = 0" by (simp add: digit_value_def)
  then have "foldl (\<lambda>n c. 10 * n + digit_value c) 0 (replicate k CHR ''0'') = 0" by (induction k) auto
  then show ?thesis by (simp add: str_nat_def)
qed

lemma pad5_inject [simp]: "pad5 m = pad5 n \<longleftrightarrow> m = n"
proof
  assume "pad5 m = pad5 n"
  then have "str_nat (pad5 m) = str_nat (pad5 n)" by simp
  then show "m = n" by (simp add: pad5_def Let_def str_nat_zeros)
qed simp

lemma shard_name_inject [simp]: "shard_name i n = shard_name j n \<longleftrightarrow> i = j"
  by (simp add: shard_name_def)

lemma distinct_shard_names: "distinct (map sa_name (map (\<lambda>(i, g). \<lparr>sa_name = shard_name i n, sa_tensors = g\<rparr>) (enumerate k groups)))"
proof -
  have "map sa_name (map (\<lambda>(i, g). \<lparr>sa_name = shard_name i n, sa_tensors = g\<rparr>) (enumerate k groups))
      = map (\<lambda>i. shard_name i n) [k..<k + length groups]"
    by (induction groups arbitrary: k) (auto simp: upt_rec)
  then show ?thesis by (simp add: distinct_map inj_on_def)
qed

lemma assign_shards_Inr:
  assumes "assign_shards plan = Inr shards"
  shows "concat (map sa_tensors shards) = qp_tensors plan \<and> shards \<noteq> []
    \<and> (\<forall>a\<in>set shards. fits (qp_target_shard_bytes plan) (sa_tensors a))
    \<and> successively (closed_before (qp_target_shard_bytes plan)) (map sa_tensors shards)
    \<and> distinct (map sa_name shards)"
proof -
  from assms obtain st where st: "rfold (shard_step (qp_target_shard_bytes plan))
      \<lparr>sg_groups = [], sg_current = [], sg_bytes = 0\<rparr> (qp_tensors plan) = Inr st"
    by (auto simp: assign_shards_def)
  note inv = shard_fold [OF st]
  define groups where "groups = (if sg_current st \<noteq> [] then sg_groups st @ [sg_current st] else sg_groups st)"
  have a: "shards = map (\<lambda>(i, g). \<lparr>sa_name = shard_name i (length groups), sa_tensors = g\<rparr>) (enumerate 0 groups)"
    "groups \<noteq> []"
    using assms st by (auto simp: assign_shards_def groups_def Let_def)
  have tensors: "map sa_tensors shards = groups"
    by (simp add: a(1) o_def case_prod_unfold)
  have "concat groups = qp_tensors plan \<and> (\<forall>g\<in>set groups. fits (qp_target_shard_bytes plan) g)
      \<and> successively (closed_before (qp_target_shard_bytes plan)) groups"
    using inv shard_invariant_closed [OF inv]
    by (auto simp: groups_def shard_invariant_def close_group_def)
  moreover have "shards \<noteq> []" using a tensors by auto
  ultimately show ?thesis
    unfolding tensors [symmetric] using distinct_shard_names [of "length groups" 0 groups] a(1) by auto
qed

text \<open>
  C21. Sharding loses and reorders nothing: the shards joined are the plan's tensors, each shard is
  non-empty and stays within the target size unless it is a single larger tensor, no shard is
  closed while the next tensor would still have fitted, and the names are distinct.
\<close>

theorem assign_shards_partition:
  assumes "assign_shards plan = Inr shards"
  shows "concat (map sa_tensors shards) = qp_tensors plan
    \<and> (\<forall>a\<in>set shards. sa_tensors a \<noteq> []
         \<and> (total_bytes (sa_tensors a) \<le> qp_target_shard_bytes plan \<or> length (sa_tensors a) = 1))
    \<and> successively (closed_before (qp_target_shard_bytes plan)) (map sa_tensors shards)
    \<and> distinct (map sa_name shards)"
  using assign_shards_Inr [OF assms] by (auto simp: fits_def)

theorem assign_shards_partition_witness:
  "\<exists>a b. assign_shards (sample_plan\<lparr>qp_target_shard_bytes := 2\<rparr>) = Inr [a, b]
     \<and> sa_tensors a @ sa_tensors b = qp_tensors sample_plan \<and> sa_name a \<noteq> sa_name b"
proof -
  have "(case assign_shards (sample_plan\<lparr>qp_target_shard_bytes := 2\<rparr>) of Inr [a, b] \<Rightarrow> True | _ \<Rightarrow> False)"
    by code_simp
  then obtain a b where run: "assign_shards (sample_plan\<lparr>qp_target_shard_bytes := 2\<rparr>) = Inr [a, b]"
    by (auto split: sum.splits list.splits)
  from assign_shards_partition [OF run] run show ?thesis by simp
qed

section \<open>Headers\<close>

fun ranges_from :: "int \<Rightarrow> tensor_compile_plan list \<Rightarrow> (int \<times> int) list" where
  "ranges_from start [] = []"
| "ranges_from start (t # ts) = (start, start + bytes_of t) # ranges_from (start + bytes_of t) ts"

lemma length_ranges_from [simp]: "length (ranges_from start ts) = length ts"
  by (induction ts arbitrary: start) auto

lemma ranges_from_append:
  "ranges_from start (ts @ us) = ranges_from start ts @ ranges_from (start + total_bytes ts) us"
  by (induction ts arbitrary: start) (auto simp: algebra_simps)

definition metadata_entry :: "string \<Rightarrow> string \<times> pyval" where
  "metadata_entry label = (''__metadata__'', PDict [(''format'', PStr ''pt''), (''gem16_artifact'', PStr label)])"

definition header_entries :: "tensor_compile_plan list \<Rightarrow> pyval dict" where
  "header_entries ts = map2 (\<lambda>t (start, stop). (output_name t, header_entry t start stop)) ts (ranges_from 0 ts)"

definition offset_entries :: "tensor_compile_plan list \<Rightarrow> (int \<times> int) dict" where
  "offset_entries ts = map2 (\<lambda>t r. (output_name t, r)) ts (ranges_from 0 ts)"

lemma map_fst_entries:
  "map fst (header_entries ts) = map output_name ts" "map fst (offset_entries ts) = map output_name ts"
proof -
  have "map fst (map2 (\<lambda>t (start, stop). (output_name t, header_entry t start stop)) ts rs) = map output_name ts"
    "map fst (map2 (\<lambda>t r. (output_name t, r)) ts rs) = map output_name ts"
    if "length rs = length ts" for rs :: "(int \<times> int) list" and ts
    using that by (induction rs ts rule: list_induct2) auto
  then show "map fst (header_entries ts) = map output_name ts" "map fst (offset_entries ts) = map output_name ts"
    by (simp_all add: header_entries_def offset_entries_def)
qed

lemma header_entries_snoc:
  "header_entries (ts @ [t]) = header_entries ts @ [(output_name t, header_entry t (total_bytes ts) (total_bytes ts + bytes_of t))]"
  "offset_entries (ts @ [t]) = offset_entries ts @ [(output_name t, (total_bytes ts, total_bytes ts + bytes_of t))]"
  by (simp_all add: header_entries_def offset_entries_def ranges_from_append)

definition header_names :: "tensor_compile_plan list \<Rightarrow> bool" where
  "header_names ts \<longleftrightarrow> distinct (map output_name ts) \<and> ''__metadata__'' \<notin> set (map output_name ts)"

lemma header_fold:
  assumes "rfold header_step (header_start label) ts = Inr st" "header_names ts"
  shows "st = (total_bytes ts, metadata_entry label # header_entries ts, offset_entries ts)"
proof -
  define J where "J ys st \<longleftrightarrow> st = (total_bytes ys, metadata_entry label # header_entries ys, offset_entries ys)"
    for ys and st :: header_state
  have "J ts st"
  proof (rule rfold_invariant [OF assms(1)])
    show "J [] (header_start label)"
      by (simp add: J_def header_start_def metadata_entry_def header_entries_def offset_entries_def)
    fix ys y zs and st st' :: header_state
    assume ts: "ts = ys @ y # zs" and J: "J ys st" and step: "header_step st y = Inr st'"
    from step J obtain n where n: "output_bytes y = Inr n" by (auto simp: header_step_def J_def)
    have fresh: "output_name y \<notin> set (map output_name ys)" "output_name y \<noteq> ''__metadata__''"
      using assms(2) ts by (auto simp: header_names_def)
    have "output_name y \<notin> dict_keys (metadata_entry label # header_entries ys)"
      "output_name y \<notin> dict_keys (offset_entries ys)"
      using fresh map_fst_entries [of ys] by (simp_all add: dict_keys_code metadata_entry_def)
    then have "dict_set (output_name y) v (metadata_entry label # header_entries ys) = (metadata_entry label # header_entries ys) @ [(output_name y, v)]"
      "dict_set (output_name y) w (offset_entries ys) = offset_entries ys @ [(output_name y, w)]" for v w
      by - (rule dict_set_fresh, assumption)+
    with step J n show "J (ys @ [y]) st'"
      by (simp add: J_def header_step_def header_entries_snoc bytes_of_Inr Let_def)
  qed
  then show ?thesis by (simp add: J_def)
qed

lemma length_pad8: "length (pad8 h) mod 8 = 0"
proof -
  have "int (length (pad8 h)) mod 8 = (int (length h) + (- int (length h)) mod 8) mod 8"
    by (simp add: pad8_def)
  also have "\<dots> = 0" by (simp add: mod_add_right_eq)
  finally show ?thesis by presburger
qed

lemma safetensors_header_Inr:
  assumes "safetensors_header env ts label = Inr (header, offsets)" "header_names ts"
  shows "header = pack_u64 (length (pad8 (env_compact env (PDict (metadata_entry label # header_entries ts)))))
      @ pad8 (env_compact env (PDict (metadata_entry label # header_entries ts)))
    \<and> offsets = offset_entries ts"
proof -
  from assms(1) obtain st where st: "rfold header_step (header_start label) ts = Inr st"
    by (auto simp: safetensors_header_def)
  from header_fold [OF st assms(2)] assms(1) st show ?thesis
    by (auto simp: safetensors_header_def Let_def)
qed

lemma header_fold_bytes:
  assumes "rfold header_step (header_start label) ts = Inr st" "t \<in> set ts"
  shows "output_bytes t = Inr (bytes_of t)"
proof -
  from rfold_each [OF assms] obtain s1 s2 where "header_step s1 t = Inr s2" by blast
  then show ?thesis by (cases s1) (auto simp: header_step_def bytes_of_Inr)
qed

lemma offset_entries_get:
  assumes "header_names ts" "i < length ts"
  shows "dict_get (offset_entries ts) (output_name (ts ! i)) = Some (ranges_from 0 ts ! i)"
proof -
  have "(output_name (ts ! i), ranges_from 0 ts ! i) \<in> set (offset_entries ts)"
    using assms(2) by (force simp: offset_entries_def set_zip)
  moreover have "distinct (map fst (offset_entries ts))"
    using assms(1) by (simp only: map_fst_entries header_names_def)
  ultimately show ?thesis by simp
qed

lemma ranges_from_nth:
  "i < length ts \<Longrightarrow> ranges_from start ts ! i
     = (start + total_bytes (take i ts), start + total_bytes (take i ts) + bytes_of (ts ! i))"
  by (induction ts arbitrary: start i) (auto simp: nth_Cons split: nat.split)

end
