(* ===== verification/Range_Facts.thy ===== *)
theory Range_Facts
  imports Writer_Facts
begin

text \<open>
  Writing through a range of a preallocated file: whatever the encoder does, no byte outside the
  range changes, and the call succeeds only when every byte of the range was written.
\<close>

section \<open>Raw files\<close>

text \<open>
  An unbuffered file: each write takes some of the offered bytes, all of them at most, and says
  how many, or it raises and takes none.
\<close>

definition file_stream :: "(bytes \<Rightarrow> bytes \<Rightarrow> nat option) \<Rightarrow> bytes writer" where
  "file_stream takes out payload = (case takes out payload of
     None \<Rightarrow> (Inl (OSError ''write''), out)
   | Some k \<Rightarrow> (Inr (PInt (int (min k (length payload)))), out @ take k payload))"

interpretation raw: sink "file_stream takes" id for takes
proof
  fix out payload n out'
  assume "file_stream takes out payload = (Inr (PInt (int n)), out')"
  then show "id out' = id out @ take n payload"
    by (auto simp: file_stream_def min_def split: option.splits if_splits)
next
  fix out payload r out'
  assume "file_stream takes out payload = (r, out')"
  then have "\<exists>k. out' = out @ take k payload"
    by (auto simp: file_stream_def split: option.splits intro: exI [of _ 0])
  then obtain k where "out' = out @ take k payload" ..
  then show "\<exists>k\<le>length payload. id out' = id out @ take k payload"
    by (intro exI [of _ "min k (length payload)"]) (auto simp: min_def)
qed

section \<open>Ranges\<close>

text \<open>
  The contents of a range writer, with a mark before them that says whether the range still ends
  at \<open>stop\<close> and the bytes from there on are the original ones. A write cannot change the mark,
  so the encoder's contract carries it through.
\<close>

definition untouched :: "bytes \<Rightarrow> nat \<Rightarrow> patch_state \<times> int \<Rightarrow> bool" where
  "untouched original stop st = (case st of ((data, position), remaining) \<Rightarrow>
     int (length (take position data)) + remaining = int stop \<and> 0 \<le> remaining \<and> drop stop data = drop stop original)"

definition marked :: "bytes \<Rightarrow> nat \<Rightarrow> patch_state \<times> int \<Rightarrow> bytes" where
  "marked original stop st = (if untouched original stop st then 1 else 0) # take (snd (fst st)) (fst (fst st))"

definition overwrite :: "bytes \<Rightarrow> nat \<Rightarrow> bytes \<Rightarrow> bytes" where
  "overwrite data position written = (let new = take position data @ written in new @ drop (length new) data)"

lemma take_overwrite: "take (length (take position data @ written)) (overwrite data position written) = take position data @ written"
proof -
  have "take (length xs) (xs @ ys) = xs" for xs ys :: bytes by simp
  then show ?thesis unfolding overwrite_def Let_def .
qed

lemma range_write_cases:
  assumes "range_write (patch_write (file_stream takes)) ((data, position), remaining) payload = (r, st')"
  obtains (refused) e position' where "r = Inl e" "st' = ((data, position'), remaining)" "take position' data = take position data"
  | (some) k where "k \<le> length payload" "int (length payload) \<le> remaining" "r = Inr (PInt (int k))"
      "st' = ((overwrite data position (take k payload), length (take position data @ take k payload)), remaining - int k)"
proof (cases "remaining < int (length payload)")
  case True
  then have "r = Inl (OutputError ''encoder exceeded output range'')" "st' = ((data, position), remaining)"
    using assms by (simp_all add: range_write_def)
  then show thesis by (rule refused) (rule refl)
next
  case False
  show thesis
  proof (cases "takes (take position data) payload")
    case None
    have "take position data @ drop (length (take position data)) data = data" by (simp add: min_def)
    then have "r = Inl (OSError ''write'')" "st' = ((data, length (take position data)), remaining)"
      using assms False None by (simp_all add: range_write_def patch_write_def file_stream_def del: length_take)
    then show thesis by (rule refused) (simp add: min_def)
  next
    case (Some k)
    let ?k = "min k (length payload)"
    have "take k payload = take ?k payload" by (simp add: min_def)
    then show thesis
      using assms False Some some [of ?k]
      by (simp add: range_write_def patch_write_def file_stream_def overwrite_def Let_def del: length_take length_append)
  qed
qed

lemma untouched_step:
  assumes "int k \<le> remaining" "k \<le> length payload"
  shows "untouched original stop ((overwrite data position (take k payload), length (take position data @ take k payload)), remaining - int k)
    \<longleftrightarrow> untouched original stop ((data, position), remaining)"
proof -
  define new where "new = take position data @ take k payload"
  have size: "length new = length (take position data) + k" using assms by (simp add: new_def)
  have step: "overwrite data position (take k payload) = new @ drop (length new) data" by (simp add: overwrite_def new_def)
  show ?thesis
    unfolding step new_def [symmetric]
  proof (cases "int (length (take position data)) + remaining = int stop")
    case True
    then have "length new \<le> stop" using assms size by simp
    then have "drop stop (new @ drop (length new) data) = drop stop data" by simp
    with True size assms(1) show "untouched original stop ((new @ drop (length new) data, length new), remaining - int k)
        \<longleftrightarrow> untouched original stop ((data, position), remaining)" by (simp add: untouched_def)
  next
    case False
    with size show "untouched original stop ((new @ drop (length new) data, length new), remaining - int k)
        \<longleftrightarrow> untouched original stop ((data, position), remaining)" by (simp add: untouched_def)
  qed
qed

lemma marked_step:
  assumes "int k \<le> remaining" "k \<le> length payload"
  shows "marked original stop ((overwrite data position (take k payload), length (take position data @ take k payload)), remaining - int k)
    = marked original stop ((data, position), remaining) @ take k payload"
  unfolding marked_def untouched_step [OF assms] by (simp add: take_overwrite del: length_append length_take)

lemma marked_sink: "sink (range_write (patch_write (file_stream takes))) (marked original stop)"
proof
  fix st st' :: "patch_state \<times> int" and payload n
  assume w: "range_write (patch_write (file_stream takes)) st payload = (Inr (PInt (int n)), st')" "n \<le> length payload"
  obtain data position remaining where st: "st = ((data, position), remaining)" by (metis surj_pair)
  show "marked original stop st' = marked original stop st @ take n payload"
  proof (rule range_write_cases [OF w(1) [unfolded st]])
    fix k
    assume some: "k \<le> length payload" "int (length payload) \<le> remaining" "Inr (PInt (int n)) = Inr (PInt (int k))"
      "st' = ((overwrite data position (take k payload), length (take position data @ take k payload)), remaining - int k)"
    then have "int k \<le> remaining" "n = k" by simp_all
    with some show ?thesis by (simp only: marked_step st)
  qed simp
next
  fix st st' :: "patch_state \<times> int" and payload r
  assume w: "range_write (patch_write (file_stream takes)) st payload = (r, st')"
  obtain data position remaining where st: "st = ((data, position), remaining)" by (metis surj_pair)
  show "\<exists>k\<le>length payload. marked original stop st' = marked original stop st @ take k payload"
  proof (rule range_write_cases [OF w [unfolded st]])
    fix e position'
    assume refused: "st' = ((data, position'), remaining)" "take position' data = take position data"
    have "marked original stop st' = marked original stop st"
      unfolding st refused(1) marked_def untouched_def prod.case fst_conv snd_conv refused(2) ..
    then show ?thesis by (intro exI [of _ 0]) simp
  next
    fix k
    assume some: "k \<le> length payload" "int (length payload) \<le> remaining"
      "st' = ((overwrite data position (take k payload), length (take position data @ take k payload)), remaining - int k)"
    then have "int k \<le> remaining" by simp
    with some show ?thesis by (intro exI [of _ k]) (simp only: marked_step st)
  qed
qed

section \<open>Filling a range\<close>

text \<open>What the encoder left of the file, from what its contract says of the marked contents.\<close>

lemma marked_start:
  assumes "offset \<le> length data" "0 \<le> byte_count"
  shows "marked data (offset + nat byte_count) ((data, offset), byte_count) = 1 # take offset data"
  using assms by (simp add: marked_def untouched_def)

lemma marked_extension:
  assumes "marked original stop ((data, position), remaining) = (1 # before) @ payload"
  shows "take position data = before @ payload \<and> drop stop data = drop stop original
    \<and> length (before @ payload) \<le> stop \<and> int (length (before @ payload)) + remaining = int stop"
proof -
  from assms have u: "untouched original stop ((data, position), remaining)"
    by (simp add: marked_def split: if_splits)
  with assms have "take position data = before @ payload" by (simp add: marked_def)
  with u show ?thesis by (simp add: untouched_def del: length_take)
qed

lemma split_at_stop:
  assumes "take position data = start" "length start = stop"
  shows "data = start @ drop stop data"
proof -
  have "length (take position data) = stop" using assms by simp
  then have "take position data = take stop data" by (simp add: min_def split: if_splits)
  with assms(1) show ?thesis by (metis append_take_drop_id)
qed

definition range_filled :: "environment \<Rightarrow> bytes \<Rightarrow> nat \<Rightarrow> nat \<Rightarrow> encoder_result res \<Rightarrow> bytes \<Rightarrow> bool" where
  "range_filled env data start stop r data' \<longleftrightarrow> take start data' = take start data \<and> drop stop data' = drop stop data
     \<and> (case r of
          Inl e \<Rightarrow> True
        | Inr res \<Rightarrow> \<exists>payload. data' = take start data @ payload @ drop stop data \<and> start + length payload = stop
            \<and> er_output_bytes res = int (length payload) \<and> er_output_sha256 res = env_sha env payload)"

lemma range_untouched: "range_filled env data start stop (Inl e) data"
  by (simp add: range_filled_def)

lemma encode_range:
  assumes "tensor_encoder encode" "0 < env_granularity env" "ws_good (env_granularity env) ws ws"
    and "0 \<le> byte_count" "start + nat byte_count \<le> length data"
    and "encode env (range_write (patch_write (file_stream takes))) plan sources ws ((data, start), byte_count)
      = Some (r, ws', ((data', position), remaining))"
  shows "range_filled env data start (start + nat byte_count)
    (rbind r (\<lambda>result. rbind (range_finish ((data', position), remaining)) (\<lambda>_.
       fail_if (er_output_bytes result \<noteq> byte_count) e (Inr result)))) data'"
proof -
  let ?stop = "start + nat byte_count"
  have before: "marked data ?stop ((data, start), byte_count) = 1 # take start data"
    using marked_start [of start data byte_count] assms(4,5) by simp
  from tensor_encoder.appends [OF assms(1) marked_sink [of _ data ?stop] assms(2,3,6)] obtain extra where
    extra: "marked data ?stop ((data', position), remaining) = (1 # take start data) @ extra"
    unfolding before by blast
  note ext = marked_extension [OF extra]
  have "take start (take position data') = take start data" using ext assms(5) by simp
  moreover have "start \<le> length (take position data')" using ext assms(5) by simp
  ultimately have kept: "take start data' = take start data" by (simp add: min_def split: if_splits)
  show ?thesis
  proof (cases "\<exists>result. r = Inr result \<and> remaining = 0 \<and> er_output_bytes result = byte_count")
    case False
    then have "\<exists>e'. rbind r (\<lambda>result. rbind (range_finish ((data', position), remaining)) (\<lambda>_.
       fail_if (er_output_bytes result \<noteq> byte_count) e (Inr result))) = Inl e'"
      by (cases r) (auto simp: range_finish_def fail_if_def)
    with kept ext show ?thesis by (auto simp: range_filled_def)
  next
    case True
    then obtain result where result: "r = Inr result" "remaining = 0" "er_output_bytes result = byte_count" by blast
    from tensor_encoder.writes [OF assms(1) marked_sink [of _ data ?stop] assms(2,3)] assms(6) result(1) obtain payload where
      payload: "marked data ?stop ((data', position), remaining) = (1 # take start data) @ payload"
      "er_output_bytes result = int (length payload)" "er_output_sha256 result = env_sha env payload"
      unfolding before [symmetric] by metis
    note full = marked_extension [OF payload(1)]
    with result(2) have "data' = (take start data @ payload) @ drop ?stop data"
      by (metis split_at_stop add.right_neutral of_nat_eq_iff)
    with kept ext payload result assms(5) show ?thesis
      by (auto simp: range_filled_def range_finish_def)
  qed
qed

text \<open>
  C17. An encoder given a range of a preallocated shard cannot touch anything else: the call
  returns, other files and the bytes of the shard before and after the range are unchanged whether
  it succeeds or raises, and on success the whole range holds what the encoder reports by size and digest.
\<close>

theorem fill_range_stays_inside:
  assumes "fs_put fsys = file_stream takes"
    and "\<forall>encode. dict_get registry (encoder tensor) = Some encode \<longrightarrow> tensor_encoder encode"
    and "0 < env_granularity env" "ws_good (env_granularity env) ws ws"
    and "fs path = Some data" "output_bytes tensor = Inr byte_count" "0 \<le> offset" "nat offset + nat byte_count \<le> length data"
  shows "\<exists>r ws' data'. fill_range env fsys source_tensors registry path offset tensor (ws, fs) = Some (r, (ws', fs(path \<mapsto> data')))
    \<and> range_filled env data (nat offset) (nat offset + nat byte_count) r data'"
proof -
  let ?filled = "\<lambda>q. \<exists>r ws' data'. q = Some (r, (ws', fs(path \<mapsto> data')))
    \<and> range_filled env data (nat offset) (nat offset + nat byte_count) r data'"
  have early: "?filled (Some (Inl e, (ws, fs)))" for e
    using assms(5) range_untouched by (metis fun_upd_triv)
  show ?thesis
  proof (cases "dict_get registry (encoder tensor)")
    case None
    then show ?thesis using early by (simp add: fill_range_def)
  next
    case (Some encode)
    with assms(2) have contract: "tensor_encoder encode" by simp
    show ?thesis
    proof (cases "rmap (dict_index source_tensors) (source_names tensor)")
      case (Inl e)
      with Some early show ?thesis by (simp add: fill_range_def)
    next
      case (Inr sources)
      from tensor_encoder.returns [OF contract marked_sink assms(3,4)] obtain r ws' data' position remaining where
        run: "encode env (range_write (patch_write (file_stream takes))) tensor sources ws ((data, nat offset), byte_count)
          = Some (r, ws', ((data', position), remaining))" by (metis surj_pair)
      from encode_range [OF contract assms(3,4) output_bytes_nonneg [OF assms(6)] assms(8) run]
      show ?thesis
        using Some Inr assms(1,5,6,7) run by (simp add: fill_range_def not_less) blast
    qed
  qed
qed

definition whole_writes :: output_system where
  "whole_writes = \<lparr>open_fails = False, chmod_fails = False,
     fs_put = file_stream (\<lambda>_ payload. Some (length payload)), fsync_fails = False, replace_fails = False,
     directory_fails = False, exclusive_fails = \<lambda>_. False, sync_fails = \<lambda>_. False,
     allocate_fails = \<lambda>_. False, mkdir_fails = \<lambda>_. False\<rparr>"

theorem fill_range_stays_inside_witness:
  "\<exists>r ws' data'. fill_range matrix_env whole_writes [(''m'', matrix_source)] [(''e'', copy_encoder)] ''shard'' 4
       (matrix_plan ''BF16'') (small_ws, [''shard'' \<mapsto> [1, 2, 3, 4, 5, 6, 7, 8]]) = Some (r, (ws', [''shard'' \<mapsto> data']))
     \<and> take 4 data' = [1, 2, 3, 4] \<and> drop 6 data' = [7, 8]"
proof -
  have size: "output_bytes (matrix_plan ''BF16'') = Inr 2"
    by (simp add: output_bytes_def matrix_plan_def tensor_bytes_Inr DTYPE_BYTES_def UINT64_MAX_def)
  have system: "fs_put whole_writes = file_stream (\<lambda>_ payload. Some (length payload))" by (simp add: whole_writes_def)
  have registered: "\<forall>encode. dict_get [(''e'', copy_encoder)] (encoder (matrix_plan ''BF16'')) = Some encode \<longrightarrow> tensor_encoder encode"
    using copying.tensor_encoder_axioms by (simp add: matrix_plan_def)
  have good: "0 < env_granularity matrix_env" "ws_good (env_granularity matrix_env) small_ws small_ws"
    by (simp_all add: matrix_env_def small_ws_good)
  have room: "nat 4 + nat 2 \<le> length ([1, 2, 3, 4, 5, 6, 7, 8] :: bytes)" by simp
  from fill_range_stays_inside [OF system registered good _ size _ room, of "[''shard'' \<mapsto> [1, 2, 3, 4, 5, 6, 7, 8]]" "''shard''"
      "[(''m'', matrix_source)]"]
  obtain r ws' data' where "fill_range matrix_env whole_writes [(''m'', matrix_source)] [(''e'', copy_encoder)] ''shard'' 4
      (matrix_plan ''BF16'') (small_ws, [''shard'' \<mapsto> [1, 2, 3, 4, 5, 6, 7, 8]]) = Some (r, (ws', [''shard'' \<mapsto> data']))"
    "range_filled matrix_env [1, 2, 3, 4, 5, 6, 7, 8] (nat 4) (nat 4 + nat 2) r data'" by auto
  then show ?thesis by (auto simp: range_filled_def)
qed

end
