(* ===== verification/Shard_Facts.thy ===== *)
theory Shard_Facts
  imports Range_Facts Reader_Facts
begin

text \<open>
  Writing shards and reading them back: a shard holds its header and then exactly the bytes its
  encoders report, and the reader finds every tensor of the plan in it.
\<close>

section \<open>Writing\<close>

definition encoders_conform :: "'o encoder dict \<Rightarrow> bool" where
  "encoders_conform encoders \<longleftrightarrow> (\<forall>name encode. dict_get encoders name = Some encode \<longrightarrow> tensor_encoder encode)"

text \<open>What the writer records of one tensor and the bytes it stands for.\<close>

definition recorded :: "environment \<Rightarrow> string \<Rightarrow> (int \<times> int) dict \<Rightarrow> tensor_compile_plan \<Rightarrow> bytes \<times> written_tensor \<Rightarrow> bool" where
  "recorded env shard offsets t = (\<lambda>(payload, w). wr_plan w = t \<and> wr_shard w = shard
     \<and> dict_get offsets (output_name t) = Some (wr_data_offsets w)
     \<and> output_bytes t = Inr (int (length payload))
     \<and> er_output_bytes (wr_source_result w) = int (length payload)
     \<and> er_output_sha256 (wr_source_result w) = env_sha env payload)"

lemma encode_tensor_ends:
  assumes "sink put contents" "encoders_conform encoders" "0 < env_granularity env" "ws_good (env_granularity env) ws ws"
  shows "ends (encode_tensor env put source_tensors encoders t (ws, out)) (\<lambda>res (ws', out').
    \<exists>payload. contents out' = contents out @ payload \<and> output_bytes t = Inr (int (length payload))
      \<and> er_output_bytes res = int (length payload) \<and> er_output_sha256 res = env_sha env payload
      \<and> ws_good (env_granularity env) ws' ws')"
proof (cases "dict_get encoders (encoder t)")
  case None
  then show ?thesis by (simp add: encode_tensor_def)
next
  case (Some encode)
  with assms(2) have contract: "tensor_encoder encode" by (auto simp: encoders_conform_def)
  show ?thesis
  proof (cases "rmap (dict_index source_tensors) (source_names t)")
    case (Inl e)
    with Some show ?thesis by (simp add: encode_tensor_def)
  next
    case (Inr sources)
    note args = contract assms(1,3,4)
    from tensor_encoder.returns [OF args, of t sources out] obtain r ws' out' where
      run: "encode env put t sources ws out = Some (r, (ws', out'))" by auto
    show ?thesis
    proof (cases r)
      case (Inl e)
      with Some Inr run show ?thesis by (simp add: encode_tensor_def)
    next
      case result: (Inr result)
      from tensor_encoder.writes [OF args run [unfolded result]] Some Inr run result show ?thesis
        by (auto simp: encode_tensor_def)
    qed
  qed
qed

lemma shard_tensor_ends:
  assumes "sink put contents" "encoders_conform encoders" "0 < env_granularity env" "ws_good (env_granularity env) ws ws"
  shows "ends (shard_tensor env put source_tensors encoders shard offsets written t (ws, out)) (\<lambda>written' (ws', out').
    \<exists>payload w. written' = written @ [w] \<and> contents out' = contents out @ payload
      \<and> recorded env shard offsets t (payload, w) \<and> ws_good (env_granularity env) ws' ws')"
  unfolding shard_tensor_def
  by (rule ends_bind [OF encode_tensor_ends [OF assms]])
    (auto simp: recorded_def)

lemma shard_tensors_end:
  fixes put :: "bytes writer" and contents :: "bytes \<Rightarrow> bytes"
  assumes "sink put contents" "encoders_conform encoders" "0 < env_granularity env"
  shows "ws_good (env_granularity env) ws ws \<Longrightarrow>
    ends (run_fold (shard_tensor env put source_tensors encoders shard offsets) written ts (ws, out)) (\<lambda>written' (ws', out').
    \<exists>parts. list_all2 (recorded env shard offsets) ts parts \<and> written' = written @ map snd parts
      \<and> contents out' = contents out @ concat (map fst parts) \<and> ws_good (env_granularity env) ws' ws')"
proof (induction ts arbitrary: written ws out)
  case (Cons t ts)
  show ?case
    unfolding run_fold.simps
  proof (rule ends_bind [OF shard_tensor_ends [OF assms Cons.prems]])
    fix written1 st1
    assume "case st1 of (ws', out') \<Rightarrow> \<exists>payload w. written1 = written @ [w] \<and> contents out' = contents out @ payload
      \<and> recorded env shard offsets t (payload, w) \<and> ws_good (env_granularity env) ws' ws'"
    then obtain ws1 out1 payload w where st1: "st1 = (ws1, out1)" "written1 = written @ [w]"
      "contents out1 = contents out @ payload" "recorded env shard offsets t (payload, w)"
      "ws_good (env_granularity env) ws1 ws1" by (cases st1) auto
    show "ends (run_fold (shard_tensor env put source_tensors encoders shard offsets) written1 ts st1) (\<lambda>written' (ws', out').
      \<exists>parts. list_all2 (recorded env shard offsets) (t # ts) parts \<and> written' = written @ map snd parts
        \<and> contents out' = contents out @ concat (map fst parts) \<and> ws_good (env_granularity env) ws' ws')"
      unfolding st1(1)
    proof (rule ends_mono [OF Cons.IH [OF st1(5)]], clarify)
      fix ws' out' parts
      assume "list_all2 (recorded env shard offsets) ts parts"
        "contents out' = contents out1 @ concat (map fst parts)" "ws_good (env_granularity env) ws' ws'"
      with st1 show "\<exists>ps. list_all2 (recorded env shard offsets) (t # ts) ps \<and> written1 @ map snd parts = written @ map snd ps
        \<and> contents out' = contents out @ concat (map fst ps) \<and> ws_good (env_granularity env) ws' ws'"
        by (intro exI [of _ "(payload, w) # parts"]) simp
    qed
  qed
qed simp

lemma record_header_good:
  assumes "ws_good g ws ws" "record_header rss n ws = (Inr u, ws')"
  shows "ws_good g ws' ws'"
proof -
  have "ws_good g (ws\<lparr>max_header_bytes := max (max_header_bytes ws) n\<rparr>) (ws\<lparr>max_header_bytes := max (max_header_bytes ws) n\<rparr>)"
    using assms(1) by (simp add: ws_good_def within_cap_def windows_within_def)
  from ws_good_check [OF this assms(2) [unfolded record_header_def]] show ?thesis by (rule ws_good_self)
qed

text \<open>A shard on disk: its header and the recorded bytes of its tensors, in order.\<close>

definition shard_holds :: "environment \<Rightarrow> string \<Rightarrow> shard_assignment \<Rightarrow> (bytes \<times> written_tensor) list \<Rightarrow> bytes \<Rightarrow> bool" where
  "shard_holds env label a parts data \<longleftrightarrow> (\<exists>header offsets.
     safetensors_header env (sa_tensors a) label = Inr (header, offsets)
     \<and> list_all2 (recorded env (sa_name a) offsets) (sa_tensors a) parts
     \<and> data = header @ concat (map fst parts))"

lemma write_shard_ends:
  assumes "sink (fs_put fsys) id" "encoders_conform encoders" "0 < env_granularity env" "ws_good (env_granularity env) ws ws"
  shows "ends (write_shard env fsys label source_tensors encoders staging written a (ws, fs)) (\<lambda>written' (ws', fs').
    \<exists>parts data. shard_holds env label a parts data \<and> fs (path_join staging (sa_name a)) = None
      \<and> fs' = fs(path_join staging (sa_name a) \<mapsto> data) \<and> written' = written @ map snd parts
      \<and> ws_good (env_granularity env) ws' ws')"
proof (cases "safetensors_header env (sa_tensors a) label")
  case (Inl e)
  then show ?thesis by (simp add: write_shard_def)
next
  case header: (Inr hd_off)
  obtain header offsets where ho: "hd_off = (header, offsets)" by fastforce
  let ?path = "path_join staging (sa_name a)"
  obtain rr ws1 where rec: "record_header (env_rss env) (int (length header) - 8) ws = (rr, ws1)" by fastforce
  show ?thesis
  proof (cases "rr \<noteq> Inr () \<or> fs ?path \<noteq> None \<or> exclusive_fails fsys ?path")
    case True
    with header ho rec show ?thesis
      by (cases rr) (auto simp: write_shard_def Let_def open_exclusive_def)
  next
    case False
    then have ok: "rr = Inr ()" "fs ?path = None" "\<not> exclusive_fails fsys ?path" by simp_all
    note good = record_header_good [OF assms(4) rec [unfolded ok(1)]]
    have body: "ends (run_bind (write_header (fs_put fsys) header ws1) (\<lambda>_.
        run_fold (shard_tensor env (fs_put fsys) source_tensors encoders (sa_name a) offsets) written (sa_tensors a)))
      (\<lambda>written' (ws', out'). \<exists>parts. list_all2 (recorded env (sa_name a) offsets) (sa_tensors a) parts
        \<and> written' = written @ map snd parts \<and> out' = header @ concat (map fst parts) \<and> ws_good (env_granularity env) ws' ws')"
    proof (rule ends_bind)
      show "ends (write_header (fs_put fsys) header ws1) (\<lambda>_ (ws', out'). out' = header \<and> ws_good (env_granularity env) ws' ws')"
        using good sink.write_all_complete [OF assms(1), of "[]" header]
        by (auto simp: write_header_def split: prod.split)
      fix u and st :: "workspace \<times> bytes"
      assume "case st of (ws', out') \<Rightarrow> out' = header \<and> ws_good (env_granularity env) ws' ws'"
      then obtain ws2 where st: "st = (ws2, header)" "ws_good (env_granularity env) ws2 ws2" by (cases st) auto
      show "ends (run_fold (shard_tensor env (fs_put fsys) source_tensors encoders (sa_name a) offsets) written (sa_tensors a) st)
        (\<lambda>written' (ws', out'). \<exists>parts. list_all2 (recorded env (sa_name a) offsets) (sa_tensors a) parts
        \<and> written' = written @ map snd parts \<and> out' = header @ concat (map fst parts) \<and> ws_good (env_granularity env) ws' ws')"
        unfolding st(1) using shard_tensors_end [OF assms(1-3) st(2)] by simp
    qed
    then obtain r ws2 out where run: "run_bind (write_header (fs_put fsys) header ws1) (\<lambda>_.
        run_fold (shard_tensor env (fs_put fsys) source_tensors encoders (sa_name a) offsets) written (sa_tensors a))
        = Some (r, (ws2, out))" by (auto dest: ends_Some)
    obtain q ws3 where chk: "workspace_check (env_rss env) ws2 = (q, ws3)" by fastforce
    have step: "write_shard env fsys label source_tensors encoders staging written a (ws, fs)
      = (case r of Inl e \<Rightarrow> Some (Inl e, (ws2, fs(?path \<mapsto> out)))
         | Inr w \<Rightarrow> if sync_fails fsys ?path then Some (Inl (OSError ''fsync''), (ws2, fs(?path \<mapsto> out)))
             else Some (case q of Inl e \<Rightarrow> Inl e | Inr _ \<Rightarrow> Inr w, (ws3, fs(?path \<mapsto> out))))"
      using header ho rec ok run chk
      by (simp add: write_shard_def Let_def open_exclusive_def on_file_def fsync_file_def split: sum.split)
    show ?thesis
    proof (cases "\<exists>w. r = Inr w \<and> \<not> sync_fails fsys ?path \<and> q = Inr ()")
      case False
      then show ?thesis unfolding step by (cases r; cases q) auto
    next
      case True
      then obtain w where w: "r = Inr w" "\<not> sync_fails fsys ?path" "q = Inr ()" by blast
      from ends_Inr [OF body run [unfolded w(1)]] obtain parts where
        parts: "list_all2 (recorded env (sa_name a) offsets) (sa_tensors a) parts" "w = written @ map snd parts"
        "out = header @ concat (map fst parts)" "ws_good (env_granularity env) ws2 ws2" by auto
      have "shard_holds env label a parts out"
        unfolding shard_holds_def using header ho parts(1,3) by blast
      moreover have "ws_good (env_granularity env) ws3 ws3"
        using ws_good_check [OF parts(4) chk [unfolded w(3)]] by (rule ws_good_self)
      ultimately show ?thesis
        unfolding step using w parts(2) ok(2) by auto
    qed
  qed
qed

text \<open>Shards are created exclusively, so none overwrites a file, another shard included.\<close>

definition shards_on_disk :: "environment \<Rightarrow> string \<Rightarrow> string \<Rightarrow> files \<Rightarrow> shard_assignment list \<Rightarrow> (bytes \<times> written_tensor) list list \<Rightarrow> bool" where
  "shards_on_disk env label staging fs = list_all2 (\<lambda>a parts. \<exists>data.
     fs (path_join staging (sa_name a)) = Some data \<and> shard_holds env label a parts data)"

lemma write_all_shards_end:
  assumes "sink (fs_put fsys) id" "encoders_conform encoders" "0 < env_granularity env"
  shows "ws_good (env_granularity env) ws ws \<Longrightarrow>
    ends (run_fold (write_shard env fsys label source_tensors encoders staging) written shards (ws, fs)) (\<lambda>written' (ws', fs').
      \<exists>partss. shards_on_disk env label staging fs' shards partss \<and> written' = written @ map snd (concat partss)
        \<and> (\<forall>p. fs p \<noteq> None \<or> p \<notin> (\<lambda>a. path_join staging (sa_name a)) ` set shards \<longrightarrow> fs' p = fs p)
        \<and> ws_good (env_granularity env) ws' ws')"
proof (induction shards arbitrary: written ws fs)
  case (Cons a shards)
  let ?path = "path_join staging (sa_name a)"
  show ?case
    unfolding run_fold.simps
  proof (rule ends_bind [OF write_shard_ends [OF assms Cons.prems]])
    fix written1 st1
    assume "case st1 of (ws', fs') \<Rightarrow> \<exists>parts data. shard_holds env label a parts data \<and> fs ?path = None
      \<and> fs' = fs(?path \<mapsto> data) \<and> written1 = written @ map snd parts \<and> ws_good (env_granularity env) ws' ws'"
    then obtain ws1 fs1 parts data where st1: "st1 = (ws1, fs1)" "shard_holds env label a parts data" "fs ?path = None"
      "fs1 = fs(?path \<mapsto> data)" "written1 = written @ map snd parts" "ws_good (env_granularity env) ws1 ws1"
      by (cases st1) auto
    show "ends (run_fold (write_shard env fsys label source_tensors encoders staging) written1 shards st1) (\<lambda>written' (ws', fs').
      \<exists>partss. shards_on_disk env label staging fs' (a # shards) partss \<and> written' = written @ map snd (concat partss)
        \<and> (\<forall>p. fs p \<noteq> None \<or> p \<notin> (\<lambda>a. path_join staging (sa_name a)) ` set (a # shards) \<longrightarrow> fs' p = fs p)
        \<and> ws_good (env_granularity env) ws' ws')"
      unfolding st1(1)
    proof (rule ends_mono [OF Cons.IH [OF st1(6)]], clarify)
      fix ws' fs' partss
      assume rest: "shards_on_disk env label staging fs' shards partss" "ws_good (env_granularity env) ws' ws'"
        "\<forall>p. fs1 p \<noteq> None \<or> p \<notin> (\<lambda>a. path_join staging (sa_name a)) ` set shards \<longrightarrow> fs' p = fs1 p"
      have "fs' ?path = Some data" using rest(3) st1(4) by simp
      then have "shards_on_disk env label staging fs' (a # shards) (parts # partss)"
        using rest(1) st1(2) by (auto simp: shards_on_disk_def)
      moreover have "fs' p = fs p" if "fs p \<noteq> None \<or> p \<notin> (\<lambda>a. path_join staging (sa_name a)) ` set (a # shards)" for p
      proof -
        have p: "p \<noteq> ?path" using that st1(3) by auto
        then have "fs1 p \<noteq> None \<or> p \<notin> (\<lambda>a. path_join staging (sa_name a)) ` set shards"
          using that st1(4) by auto
        then have "fs' p = fs1 p" using rest(3) by blast
        with p st1(4) show ?thesis by simp
      qed
      ultimately show "\<exists>pss. shards_on_disk env label staging fs' (a # shards) pss
        \<and> written1 @ map snd (concat partss) = written @ map snd (concat pss)
        \<and> (\<forall>p. fs p \<noteq> None \<or> p \<notin> (\<lambda>a. path_join staging (sa_name a)) ` set (a # shards) \<longrightarrow> fs' p = fs p)
        \<and> ws_good (env_granularity env) ws' ws'"
        using rest(2) st1(5) by (intro exI [of _ "parts # partss"]) simp
    qed
  qed
qed (simp add: shards_on_disk_def)

lemma write_file_atomic_Inr:
  assumes "sink (fs_put env) id" "write_file_atomic env path payload fs = (Inr u, fs')"
  shows "fs' = fs(path := Some payload, path @ ''.tmp'' := None)"
proof -
  obtain w written where w: "write_all (fs_put env) [] payload = (w, written)" by fastforce
  then have "written = payload" if "w = Inr ()"
    using sink.write_all_complete [OF assms(1)] that by fastforce
  with assms(2) w show ?thesis
    by (cases w) (auto simp: write_file_atomic_def fsync_directory_def Let_def split: if_splits)
qed

lemma native_registry_conforms: "encoders_conform encoders \<Longrightarrow> encoders_conform (native_registry nb encoders)"
  using native.tensor_encoder_axioms by (auto simp: encoders_conform_def native_registry_def split: option.splits)

lemma recorded_plans: "list_all2 (recorded env shard offsets) ts parts \<Longrightarrow> map (wr_plan \<circ> snd) parts = ts"
  by (induction rule: list_all2_induct) (auto simp: recorded_def)

lemma shards_on_disk_plans:
  "shards_on_disk env label staging fs shards partss \<Longrightarrow> map (wr_plan \<circ> snd) (concat partss) = concat (map sa_tensors shards)"
  unfolding shards_on_disk_def
proof (induction rule: list_all2_induct)
  case (Cons a shards parts partss)
  then have "map (wr_plan \<circ> snd) parts = sa_tensors a" by (auto simp: shard_holds_def dest: recorded_plans)
  with Cons show ?case by (simp add: o_def)
qed simp

lemma shard_not_index:
  "path_join staging (shard_name i n) \<noteq> path_join staging INDEX_NAME"
  "path_join staging (shard_name i n) \<noteq> path_join staging INDEX_NAME @ ''.tmp''"
proof -
  have tmp: "path_join staging INDEX_NAME @ ''.tmp'' = path_join staging (INDEX_NAME @ ''.tmp'')"
    by (simp add: path_join_def)
  show "path_join staging (shard_name i n) \<noteq> path_join staging INDEX_NAME"
    "path_join staging (shard_name i n) \<noteq> path_join staging INDEX_NAME @ ''.tmp''"
    unfolding tmp by (simp_all add: shard_name_def INDEX_NAME_def)
qed

lemma assigned_names:
  "assign_shards plan = Inr shards \<Longrightarrow> a \<in> set shards \<Longrightarrow> \<exists>i n. sa_name a = shard_name i n"
  by (auto simp: assign_shards_def Let_def) blast+

lemma write_index_returns:
  "\<exists>q ws' fs'. write_index env fsys plan path weight_map (ws, fs) = Some (q, (ws', fs'))"
  by (cases "output_tensor_bytes plan") (auto simp: write_index_def case_prod_unfold)

lemma write_index_Inr:
  assumes "write_index env fsys plan path weight_map (ws, fs) = Some (Inr u, (ws', fs'))" "sink (fs_put fsys) id"
  shows "\<exists>total. output_tensor_bytes plan = Inr total \<and> ws' = ws
    \<and> fs' = fs(path \<mapsto> env_canonical env (index_document total weight_map), path @ ''.tmp'' := None)"
proof -
  from assms(1) obtain total where total: "output_tensor_bytes plan = Inr total"
    by (auto simp: write_index_def)
  obtain q fs2 where w: "write_file_atomic (atomic fsys) path (env_canonical env (index_document total weight_map)) fs = (q, fs2)"
    by fastforce
  with assms(1) total have w: "write_file_atomic (atomic fsys) path (env_canonical env (index_document total weight_map)) fs = (Inr u, fs')"
    and ws: "ws' = ws" by (simp_all add: write_index_def)
  have "sink (fs_put (atomic fsys)) id" using assms(2) by (simp add: atomic_def file_system.truncate_def)
  from write_file_atomic_Inr [OF this w] total ws show ?thesis by blast
qed

text \<open>
  C6. Writing the shards always returns, and a successful run leaves exactly what was planned:
  every shard of the assignment is a file holding its header and then, tensor by tensor, bytes of
  the planned size with the digest recorded for it; the records name every tensor of the plan in
  order; the index maps them to their shards; and the memory readings stayed within the cap.
\<close>

theorem write_shards_complete:
  assumes "sink (fs_put fsys) id" "encoders_conform encoders" "0 < env_granularity env" "ws_good (env_granularity env) ws ws"
  shows "\<exists>r ws' fs'. write_shards env fsys staging plan source_tensors encoders nb (ws, fs) = Some (r, (ws', fs'))
    \<and> (\<forall>payload. r = Inr payload \<longrightarrow> (\<exists>profile shards partss total.
        profile_for (qp_artifact_profile plan) (qp_head_format plan) = Inr profile
        \<and> assign_shards plan = Inr shards \<and> wp_shard_names payload = map sa_name shards
        \<and> shards_on_disk env (prof_header_label profile) staging fs' shards partss
        \<and> wp_tensors payload = map snd (concat partss) \<and> map wr_plan (wp_tensors payload) = qp_tensors plan
        \<and> output_tensor_bytes plan = Inr total
        \<and> fs' (path_join staging INDEX_NAME) = Some (env_canonical env (index_document total (weight_map_of (wp_tensors payload))))
        \<and> ws_good (env_granularity env) ws' ws'))"
proof (cases "assign_shards plan")
  case (Inl e)
  then show ?thesis by (simp add: write_shards_def)
next
  case shards: (Inr shards)
  show ?thesis
  proof (cases "profile_for (qp_artifact_profile plan) (qp_head_format plan)")
    case (Inl e)
    with shards show ?thesis by (simp add: write_shards_def)
  next
    case profile: (Inr profile)
    let ?run = "run_fold (write_shard env fsys (prof_header_label profile) source_tensors (native_registry nb encoders) staging) [] shards (ws, fs)"
    note ended = write_all_shards_end [OF assms(1) native_registry_conforms [OF assms(2)] assms(3,4),
        of "prof_header_label profile" source_tensors nb staging "[]" shards fs]
    from ends_Some [OF ended] obtain r ws1 fs1 where run: "?run = Some (r, (ws1, fs1))" by auto
    show ?thesis
    proof (cases r)
      case (Inl e)
      with shards profile run show ?thesis by (simp add: write_shards_def)
    next
      case (Inr written)
      from ends_Inr [OF ended run [unfolded Inr]] obtain partss where
        disk: "shards_on_disk env (prof_header_label profile) staging fs1 shards partss"
        and written: "written = map snd (concat partss)" and good: "ws_good (env_granularity env) ws1 ws1" by auto
      let ?index = "write_index env fsys plan (path_join staging INDEX_NAME) (weight_map_of written) (ws1, fs1)"
      obtain q ws2 fs2 where idx: "?index = Some (q, (ws2, fs2))"
        using write_index_returns by blast
      have run_eq: "write_shards env fsys staging plan source_tensors encoders nb (ws, fs) = Some (rbind q (\<lambda>_. Inr
          \<lparr>wp_tensors = written, wp_shard_names = map sa_name shards, wp_index_name = INDEX_NAME, wp_metadata_names = []\<rparr>), (ws2, fs2))"
        using shards profile run Inr idx by (cases q) (simp_all add: write_shards_def)
      show ?thesis
      proof (cases q)
        case (Inl e)
        with run_eq show ?thesis by simp
      next
        case q: (Inr u)
        from write_index_Inr [OF idx [unfolded q] assms(1)] obtain total where
          total: "output_tensor_bytes plan = Inr total" "ws2 = ws1"
          "fs2 = fs1(path_join staging INDEX_NAME \<mapsto> env_canonical env (index_document total (weight_map_of written)),
            path_join staging INDEX_NAME @ ''.tmp'' := None)" by blast
        have "fs2 (path_join staging (sa_name a)) = fs1 (path_join staging (sa_name a))" if "a \<in> set shards" for a
        proof -
          from assigned_names [OF shards that] obtain i n where "sa_name a = shard_name i n" by blast
          then show ?thesis using shard_not_index [of staging i n] by (simp add: total(3))
        qed
        with disk have "shards_on_disk env (prof_header_label profile) staging fs2 shards partss"
          unfolding shards_on_disk_def by (elim list.rel_mono_strong) simp
        moreover have "map wr_plan written = qp_tensors plan"
          using shards_on_disk_plans [OF disk] assign_shards_Inr [OF shards] written by simp
        moreover have "fs2 (path_join staging INDEX_NAME) = Some (env_canonical env (index_document total (weight_map_of written)))"
          using total(3) by simp
        ultimately show ?thesis
          using run_eq q shards profile written total(1,2) good by auto
      qed
    qed
  qed
qed

definition copy_plan :: quantization_plan where
  "copy_plan = sample_plan\<lparr>qp_artifact_profile := ''synthetic-copy-v1'', qp_head_format := ''source'',
     qp_tensors := [matrix_plan ''BF16'']\<rparr>"

lemma whole_writes_sink: "sink (fs_put whole_writes) id"
  by (simp add: whole_writes_def raw.sink_axioms)

lemma copying_conforms: "encoders_conform [(''e'', copy_encoder)]"
  using copying.tensor_encoder_axioms by (simp add: encoders_conform_def)

theorem write_shards_complete_witness:
  "\<exists>r ws' fs'. write_shards matrix_env whole_writes ''out'' copy_plan [(''m'', matrix_source)] [(''e'', copy_encoder)] None
     (small_ws, \<lambda>_. None) = Some (r, (ws', fs')) \<and> (\<forall>payload. r = Inr payload \<longrightarrow> map wr_plan (wp_tensors payload) = [matrix_plan ''BF16''])"
proof -
  have good: "0 < env_granularity matrix_env" "ws_good (env_granularity matrix_env) small_ws small_ws"
    by (simp_all add: matrix_env_def small_ws_good)
  have tensors: "qp_tensors copy_plan = [matrix_plan ''BF16'']" by (simp add: copy_plan_def)
  from write_shards_complete [OF whole_writes_sink copying_conforms good, of "''out''" copy_plan "[(''m'', matrix_source)]" None "\<lambda>_. None"]
  show ?thesis unfolding tensors by blast
qed

end
