(* ===== verification/Artifact_Facts.thy ===== *)
theory Artifact_Facts
  imports Shard_Facts
begin

text \<open>
  Reading back what was written: the reader accepts a written shard and finds each tensor with
  the dtype, the shape and the bytes the writer recorded.
\<close>

section \<open>One header\<close>

text \<open>What the reader needs of a planned tensor.\<close>

definition readable :: "tensor_compile_plan \<Rightarrow> bool" where
  "readable t \<longleftrightarrow> output_name t \<noteq> [] \<and> CHR 0x00 \<notin> set (output_name t) \<and> output_name t \<noteq> ''__metadata__''
     \<and> bounded_products 1 (physical_shape t) \<and> output_bytes t = Inr (bytes_of t)"

definition described :: "locked_file \<Rightarrow> int \<Rightarrow> int \<Rightarrow> tensor_compile_plan \<Rightarrow> tensor_descriptor" where
  "described locked data_base start t = \<lparr>td_name = output_name t, td_dtype = output_dtype t, td_shape = physical_shape t,
     td_shard = lf_relative_path locked, td_path = lf_path locked, td_absolute_offset = data_base + start,
     td_data_offset = start, td_byte_length = bytes_of t, td_shard_sha256 = lf_sha256 locked\<rparr>"

fun described_from :: "locked_file \<Rightarrow> int \<Rightarrow> int \<Rightarrow> tensor_compile_plan list \<Rightarrow> sources" where
  "described_from locked data_base start [] = []"
| "described_from locked data_base start (t # ts) =
     (output_name t, described locked data_base start t) # described_from locked data_base (start + bytes_of t) ts"

fun spans_from :: "int \<Rightarrow> tensor_compile_plan list \<Rightarrow> intervals" where
  "spans_from start [] = []"
| "spans_from start (t # ts) = (if 0 < bytes_of t then [(start, start + bytes_of t, output_name t)] else [])
     @ spans_from (start + bytes_of t) ts"

lemma parse_header_entry:
  assumes "readable t" "0 \<le> start" "start + bytes_of t \<le> payload_size"
  shows "parse_tensor locked data_base payload_size (output_name t)
    [(''dtype'', PStr (output_dtype t)), (''shape'', PList (map PInt (physical_shape t))),
     (''data_offsets'', PList [PInt start, PInt (start + bytes_of t)])] = Inr (described locked data_base start t)"
proof -
  have "checked_shape (PList (map PInt (physical_shape t))) = Inr (physical_shape t)"
    using assms(1) by (simp add: checked_shape_Inr readable_def)
  moreover have "tensor_bytes (output_dtype t) (physical_shape t) = Inr (bytes_of t)"
    using assms(1) by (simp add: readable_def output_bytes_def)
  ultimately show ?thesis
    using assms(2,3) bytes_of_nonneg [of t]
    by (simp add: parse_tensor_def obj_get_def offset_pair_def described_def)
qed

lemma parse_entries:
  assumes "\<forall>t\<in>set ts. readable t" "0 \<le> start" "start + total_bytes ts \<le> payload_size"
    and "distinct (map output_name ts)" "\<forall>t\<in>set ts. output_name t \<notin> dict_keys acc"
  shows "rfold (parse_step locked data_base payload_size) (acc, intervals)
      (map2 (\<lambda>t (start, stop). (output_name t, header_entry t start stop)) ts (ranges_from start ts))
    = Inr (acc @ described_from locked data_base start ts, intervals @ spans_from start ts)"
  using assms
proof (induction ts arbitrary: start acc intervals)
  case (Cons t ts)
  note rest = total_bytes_nonneg [of ts]
  have t: "readable t" "output_name t \<noteq> ''__metadata__''" "\<not> (output_name t = [] \<or> CHR 0x00 \<in> set (output_name t))"
    "output_name t \<notin> dict_keys acc" using Cons.prems by (simp_all add: readable_def)
  have "start + bytes_of t \<le> payload_size" using Cons.prems(3) rest by simp
  note parsed = parse_header_entry [OF t(1) Cons.prems(2) this, of locked data_base]
  let ?acc = "acc @ [(output_name t, described locked data_base start t)]"
  let ?ivs = "intervals @ (if 0 < bytes_of t then [(start, start + bytes_of t, output_name t)] else [])"
  have step: "parse_step locked data_base payload_size (acc, intervals) (output_name t, header_entry t start (start + bytes_of t))
      = Inr (?acc, ?ivs)"
    using t by (simp add: parse_step_def header_entry_def parsed dict_set_fresh) (simp add: described_def)
  have "\<forall>u\<in>set ts. output_name u \<notin> dict_keys ?acc"
    using Cons.prems(4,5) by (auto simp: dict_keys_def) (metis imageI)
  with Cons.IH [of "start + bytes_of t" ?acc ?ivs] Cons.prems bytes_of_nonneg [of t]
  show ?case by (simp add: step algebra_simps)
qed simp

text \<open>Consecutive ranges are sorted and do not overlap.\<close>

lemma spans_bounds:
  "(a, b, n) \<in> set (spans_from start ts) \<Longrightarrow> start \<le> a \<and> a < b"
proof (induction ts arbitrary: start)
  case (Cons t ts)
  then show ?case using bytes_of_nonneg [of t] by (fastforce split: if_splits)
qed simp

lemma spans_sorted: "sorted (spans_from start ts)"
proof (induction ts arbitrary: start)
  case (Cons t ts)
  have "(start, start + bytes_of t, output_name t) \<le> s" if "0 < bytes_of t" "s \<in> set (spans_from (start + bytes_of t) ts)" for s
    using spans_bounds [of "fst s" "fst (snd s)" "snd (snd s)" "start + bytes_of t" ts] that
    by (auto simp: less_eq_prod_def)
  with Cons show ?case by auto
qed simp

lemma spans_disjoint: "check_disjoint (spans_from start ts) = Inr ()"
proof -
  have "\<forall>(p, q)\<in>set (zip (spans_from start ts) (tl (spans_from start ts))). fst (snd p) \<le> fst q"
  proof (induction ts arbitrary: start)
    case (Cons t ts)
    show ?case
    proof (cases "spans_from (start + bytes_of t) ts")
      case Nil
      then show ?thesis by simp
    next
      case (Cons s ss)
      with spans_bounds [of "fst s" "fst (snd s)" "snd (snd s)" "start + bytes_of t" ts] Cons.IH [of "start + bytes_of t"]
      show ?thesis by auto
    qed
  qed simp
  then show ?thesis
    unfolding check_disjoint_def Let_def sorted_sort_id [OF spans_sorted]
    by (intro riter_Inr_iff [THEN iffD2]) (fastforce simp: not_less)
qed

section \<open>One shard\<close>

lemma described_from_nth:
  "i < length ts \<Longrightarrow> described_from locked data_base start ts ! i
     = (output_name (ts ! i), described locked data_base (start + total_bytes (take i ts)) (ts ! i))"
  by (induction ts arbitrary: start i) (auto simp: nth_Cons algebra_simps split: nat.split)

lemma length_described_from [simp]: "length (described_from locked data_base start ts) = length ts"
  by (induction ts arbitrary: start) auto

lemma names_described_from [simp]: "map fst (described_from locked data_base start ts) = map output_name ts"
  by (induction ts arbitrary: start) auto

text \<open>Memory readings that never pass the cap.\<close>

definition roomy :: "environment \<Rightarrow> workspace \<Rightarrow> bool" where
  "roomy env ws \<longleftrightarrow> (\<forall>n. max (fst (env_rss env n)) (snd (env_rss env n)) \<le> host_memory_cap_bytes ws)"

lemma roomy_check:
  assumes "roomy env ws"
  shows "\<exists>ws'. workspace_check (env_rss env) ws = (Inr (), ws') \<and> roomy env ws'"
proof -
  obtain c p where "env_rss env (readings ws) = (c, p)" by fastforce
  moreover from assms this have "max c p \<le> host_memory_cap_bytes ws" by (auto simp: roomy_def dest: spec [of _ "readings ws"])
  ultimately show ?thesis using assms by (simp add: workspace_check_def roomy_def Let_def not_less)
qed

lemma roomy_header:
  assumes "roomy env ws"
  shows "\<exists>ws'. record_header (env_rss env) n ws = (Inr (), ws') \<and> roomy env ws'"
proof -
  have "roomy env (ws\<lparr>max_header_bytes := max (max_header_bytes ws) n\<rparr>)" using assms by (simp add: roomy_def)
  from roomy_check [OF this] show ?thesis by (simp add: record_header_def)
qed

text \<open>
  \<open>json_exact\<close>: parsing what was serialised, padded with spaces to a multiple of eight, gives the
  document back. \<open>header_fits\<close> are the limits of the reader.
\<close>

definition json_exact :: "environment \<Rightarrow> pyval \<Rightarrow> bool" where
  "json_exact env doc \<longleftrightarrow> loads env (pad8 (env_compact env doc)) = Some doc"

definition shard_document :: "string \<Rightarrow> tensor_compile_plan list \<Rightarrow> pyval" where
  "shard_document label ts = PDict (metadata_entry label # header_entries ts)"

definition header_fits :: "environment \<Rightarrow> workspace \<Rightarrow> pyval \<Rightarrow> bool" where
  "header_fits env ws doc \<longleftrightarrow> (let n = int (length (pad8 (env_compact env doc))) in
     2 \<le> n \<and> n \<le> MAX_HEADER_BYTES \<and> n < host_memory_cap_bytes ws)"

lemma total_payload:
  "list_all2 (\<lambda>t p. bytes_of t = int (length p)) ts payloads \<Longrightarrow> total_bytes ts = int (length (concat payloads))"
  by (induction rule: list_all2_induct) auto

lemma payload_slice:
  assumes "list_all2 (\<lambda>t p. bytes_of t = int (length p)) ts payloads" "i < length ts"
  shows "take (nat (bytes_of (ts ! i))) (drop (nat (total_bytes (take i ts))) (concat payloads)) = payloads ! i"
proof -
  have len: "length payloads = length ts" using assms(1) by (simp add: list_all2_lengthD)
  have "list_all2 (\<lambda>t p. bytes_of t = int (length p)) (take i ts) (take i payloads)" using assms(1) by (rule list_all2_takeI)
  from total_payload [OF this] have before: "nat (total_bytes (take i ts)) = length (concat (take i payloads))" by simp
  have "concat payloads = concat (take i payloads) @ payloads ! i @ concat (drop (Suc i) payloads)"
    using assms(2) len by (metis append_take_drop_id concat.simps(2) concat_append Cons_nth_drop_Suc)
  moreover have "bytes_of (ts ! i) = int (length (payloads ! i))" using assms list_all2_nthD by blast
  ultimately show ?thesis by (simp add: before)
qed

lemma header_bytes_written:
  assumes "header_fits env ws doc" "env_files env (lf_path locked) = Some data"
    and "data = pack_u64 (length (pad8 (env_compact env doc))) @ pad8 (env_compact env doc) @ rest"
    and "lf_size locked = int (length data)"
  shows "header_bytes locked (host_memory_cap_bytes ws) (Some data) = Inr (pad8 (env_compact env doc))
    \<and> int (unpack_u64 (take 8 data)) = int (length (pad8 (env_compact env doc)))"
proof -
  let ?raw = "pad8 (env_compact env doc)"
  from assms(1) have bounds: "2 \<le> int (length ?raw)" "int (length ?raw) \<le> MAX_HEADER_BYTES"
    "int (length ?raw) < host_memory_cap_bytes ws" by (simp_all add: header_fits_def Let_def)
  then have "length ?raw < 2 ^ 64" by (simp add: MAX_HEADER_BYTES_def)
  then have "unpack_u64 (take 8 data) = length ?raw" "length (take 8 data) = 8" "take (length ?raw) (drop 8 data) = ?raw"
    "int (length ?raw) \<le> lf_size locked - 8"
    using assms(3,4) by (simp_all add: unpack_pack_u64)
  moreover from this(4) assms(4) have "length ?raw \<le> length data - 8" using bounds(1) by linarith
  ultimately show ?thesis using bounds by (simp add: header_bytes_def Let_def not_less not_le)
qed

definition shard_readable :: "environment \<Rightarrow> workspace \<Rightarrow> string \<Rightarrow> tensor_compile_plan list \<Rightarrow> bool" where
  "shard_readable env ws label ts \<longleftrightarrow> (\<forall>t\<in>set ts. readable t) \<and> distinct (map output_name ts)
     \<and> json_exact env (shard_document label ts) \<and> header_fits env ws (shard_document label ts)"

lemma readable_names:
  "(\<forall>t\<in>set ts. readable t) \<Longrightarrow> distinct (map output_name ts) \<Longrightarrow> header_names ts"
  by (auto simp: header_names_def readable_def)

lemma parse_written_shard:
  assumes "shard_readable env ws label ts" "roomy env ws"
    and "safetensors_header env ts label = Inr (header, offsets)"
    and "list_all2 (\<lambda>t p. bytes_of t = int (length p)) ts payloads"
    and "env_files env (lf_path locked) = Some (header @ concat payloads)"
    and "lf_size locked = int (length (header @ concat payloads))"
  shows "\<exists>ws'. parse_shard env locked ws = (Inr (described_from locked (int (length header)) 0 ts), ws') \<and> roomy env ws'"
proof -
  let ?doc = "shard_document label ts" and ?data = "header @ concat payloads"
  let ?raw = "pad8 (env_compact env ?doc)"
  from assms(1) have ok: "\<forall>t\<in>set ts. readable t" "distinct (map output_name ts)" "json_exact env ?doc" "header_fits env ws ?doc"
    by (simp_all add: shard_readable_def)
  from safetensors_header_Inr [OF assms(3) readable_names [OF ok(1,2)]]
  have header: "header = pack_u64 (length ?raw) @ ?raw" by (simp add: shard_document_def)
  have raw: "header_bytes locked (host_memory_cap_bytes ws) (Some ?data) = Inr ?raw"
    "int (unpack_u64 (take 8 ?data)) = int (length ?raw)"
    using header_bytes_written [OF ok(4) assms(5) _ assms(6)] header by simp_all
  obtain ws1 where ws1: "record_header (env_rss env) (int (length ?raw)) ws = (Inr (), ws1)" "roomy env ws1"
    using roomy_header [OF assms(2)] by blast
  have read: "read_header env locked ws = (Inr (metadata_entry label # header_entries ts), ws1)"
    using raw ok(3) ws1 assms(5) by (simp add: read_header_def json_exact_def shard_document_def)
  have base: "8 + int (length ?raw) = int (length header)" using header by simp
  have size: "lf_size locked - int (length header) = total_bytes ts"
    using assms(6) total_payload [OF assms(4)] by simp
  have "rfold (parse_step locked (int (length header)) (total_bytes ts)) ([], []) (metadata_entry label # header_entries ts)
      = Inr (described_from locked (int (length header)) 0 ts, spans_from 0 ts)"
    using parse_entries [of ts 0 "total_bytes ts" "[]" locked "int (length header)" "[]"] ok(1,2)
    unfolding dict_keys_def
    by (simp add: header_entries_def metadata_entry_def) (simp add: parse_step_def)
  then have parsed: "rbind (rfold (parse_step locked (int (length header)) (lf_size locked - int (length header))) ([], [])
      (metadata_entry label # header_entries ts)) (\<lambda>(result, intervals). rbind (check_disjoint intervals) (\<lambda>_. Inr result))
      = Inr (described_from locked (int (length header)) 0 ts)"
    by (simp only: size rbind_simps prod.case spans_disjoint)
  obtain ws2 where ws2: "workspace_check (env_rss env) ws1 = (Inr (), ws2)" "roomy env ws2"
    using roomy_check [OF ws1(2)] by blast
  have "parse_shard env locked ws = (Inr (described_from locked (int (length header)) 0 ts), ws2)"
    unfolding parse_shard_def read sbind_simps assms(5) option.case Let_def raw(2) base parsed ws2(1) by simp
  with ws2(2) show ?thesis by blast
qed

section \<open>Writing, then reading\<close>

text \<open>A tensor found in a shard file, as its record says.\<close>

definition found_as :: "environment \<Rightarrow> bytes \<Rightarrow> written_tensor \<Rightarrow> string \<times> tensor_descriptor \<Rightarrow> bool" where
  "found_as env data w item = (case item of (name, d) \<Rightarrow>
     name = output_name (wr_plan w) \<and> td_name d = name \<and> td_dtype d = output_dtype (wr_plan w)
     \<and> td_shape d = physical_shape (wr_plan w)
     \<and> wr_data_offsets w = (td_data_offset d, td_data_offset d + td_byte_length d)
     \<and> td_byte_length d = er_output_bytes (wr_source_result w)
     \<and> env_sha env (take (nat (td_byte_length d)) (drop (nat (td_absolute_offset d)) data)) = er_output_sha256 (wr_source_result w))"

lemma recorded_payloads:
  "list_all2 (recorded env shard offsets) ts parts \<Longrightarrow> list_all2 (\<lambda>t p. bytes_of t = int (length p)) ts (map fst parts)"
  by (induction rule: list_all2_induct) (auto simp: recorded_def bytes_of_Inr)

lemma described_found:
  assumes "header_names ts" "list_all2 (recorded env shard (offset_entries ts)) ts parts" "i < length ts"
    and "data = header @ concat (map fst parts)"
  shows "found_as env data (snd (parts ! i)) (described_from locked (int (length header)) 0 ts ! i)"
proof -
  have r: "recorded env shard (offset_entries ts) (ts ! i) (parts ! i)"
    using assms(2,3) list_all2_nthD by blast
  have payloads: "list_all2 (\<lambda>t p. bytes_of t = int (length p)) ts (map fst parts)"
    by (rule recorded_payloads [OF assms(2)])
  have len: "length parts = length ts" using assms(2) by (simp add: list_all2_lengthD)
  have slice: "take (nat (bytes_of (ts ! i))) (drop (nat (int (length header) + total_bytes (take i ts))) data) = fst (parts ! i)"
    using payload_slice [OF payloads assms(3)] total_bytes_nonneg [of "take i ts"] assms(3,4) len
    by (simp add: nat_add_distrib)
  have size: "bytes_of (ts ! i) = int (length (fst (parts ! i)))" using r by (auto simp: recorded_def bytes_of_Inr split: prod.splits)
  have offsets: "wr_data_offsets (snd (parts ! i)) = (total_bytes (take i ts), total_bytes (take i ts) + bytes_of (ts ! i))"
    using r offset_entries_get [OF assms(1,3)] ranges_from_nth [OF assms(3), of 0] by (auto simp: recorded_def split: prod.splits)
  from slice size offsets r show ?thesis
    by (auto simp: found_as_def described_from_nth [OF assms(3)] described_def recorded_def split: prod.splits)
qed

lemma shard_holds_reads_back:
  assumes "shard_holds env label a parts data" "shard_readable env ws label (sa_tensors a)" "roomy env ws"
    and "env_files env (lf_path locked) = Some data" "lf_size locked = int (length data)"
  shows "\<exists>tensors ws'. parse_shard env locked ws = (Inr tensors, ws') \<and> roomy env ws'
    \<and> list_all2 (found_as env data) (map snd parts) tensors"
proof -
  from assms(1) obtain header offsets where h: "safetensors_header env (sa_tensors a) label = Inr (header, offsets)"
    "list_all2 (recorded env (sa_name a) offsets) (sa_tensors a) parts" "data = header @ concat (map fst parts)"
    by (auto simp: shard_holds_def)
  have names: "header_names (sa_tensors a)" using assms(2) readable_names by (auto simp: shard_readable_def)
  from safetensors_header_Inr [OF h(1) names] have offsets: "offsets = offset_entries (sa_tensors a)" by simp
  have payloads: "list_all2 (\<lambda>t p. bytes_of t = int (length p)) (sa_tensors a) (map fst parts)"
    by (rule recorded_payloads [OF h(2)])
  from parse_written_shard [OF assms(2,3) h(1) payloads] assms(4,5) h(3) obtain ws' where
    parsed: "parse_shard env locked ws = (Inr (described_from locked (int (length header)) 0 (sa_tensors a)), ws')" "roomy env ws'"
    by auto
  have "list_all2 (found_as env data) (map snd parts) (described_from locked (int (length header)) 0 (sa_tensors a))"
    using described_found [OF names h(2) [unfolded offsets] _ h(3)] list_all2_lengthD [OF h(2)]
    by (auto simp: list_all2_conv_all_nth)
  with parsed show ?thesis by blast
qed

text \<open>None of this depends on what the file system holds.\<close>

lemma env_files_irrelevant [simp]:
  "recorded (env\<lparr>env_files := f\<rparr>) = recorded env"
  "safetensors_header (env\<lparr>env_files := f\<rparr>) = safetensors_header env"
  "loads (env\<lparr>env_files := f\<rparr>) = loads env"
  "roomy (env\<lparr>env_files := f\<rparr>) = roomy env"
  "found_as (env\<lparr>env_files := f\<rparr>) = found_as env"
  by (simp_all add: fun_eq_iff recorded_def safetensors_header_def loads_def roomy_def found_as_def)

lemma env_files_irrelevant' [simp]:
  "shard_holds (env\<lparr>env_files := f\<rparr>) = shard_holds env"
  "shard_readable (env\<lparr>env_files := f\<rparr>) = shard_readable env"
  by (simp_all add: fun_eq_iff shard_holds_def shard_readable_def json_exact_def header_fits_def)


definition header_json :: json where
  "header_json = JObj [(''__metadata__'', JObj [(''format'', JStr ''pt''), (''gem16_artifact'', JStr ''a'')]),
     (''o'', JObj [(''dtype'', JStr ''BF16''), (''shape'', JArr [JInt 1, JInt 1]), (''data_offsets'', JArr [JInt 0, JInt 2])])]"

definition shard_env :: environment where
  "shard_env = matrix_env\<lparr>env_compact := \<lambda>_. replicate 8 32, env_parse := \<lambda>_. Some header_json\<rparr>"

definition one_shard :: shard_assignment where
  "one_shard = \<lparr>sa_name = ''s'', sa_tensors = [matrix_plan ''BF16'']\<rparr>"

lemma matrix_bytes: "output_bytes (matrix_plan ''BF16'') = Inr 2"
  by (simp add: output_bytes_def matrix_plan_def tensor_bytes_Inr DTYPE_BYTES_def UINT64_MAX_def)

lemma shard_env_header:
  "safetensors_header shard_env (sa_tensors one_shard) ''a'' = Inr (pack_u64 8 @ replicate 8 32, [(''o'', (0, 2))])"
  by (simp add: safetensors_header_def header_start_def header_step_def matrix_bytes one_shard_def Let_def pad8_def
      shard_env_def) (simp add: matrix_plan_def)

lemma write_whole: "write_all (fs_put whole_writes) out payload = (Inr (), out @ payload)"
proof (cases payload)
  case (Cons b bs)
  then show ?thesis by (subst write_all.simps) (simp add: whole_writes_def file_stream_def write_progress_def)
qed simp

lemma matrix_plan_fields: "output_name (matrix_plan d) = ''o''" "encoder (matrix_plan d) = ''e''"
  "source_names (matrix_plan d) = [''m'']" "physical_shape (matrix_plan d) = [1, 1]" "output_dtype (matrix_plan d) = d"
  by (simp_all add: matrix_plan_def)

lemma whole_writes_succeed: "\<not> exclusive_fails whole_writes p" "\<not> sync_fails whole_writes p"
  by (simp_all add: whole_writes_def)

lemma shard_run:
  "\<exists>w ws' fs'. write_shard shard_env whole_writes ''a'' [(''m'', matrix_source)] [(''e'', copy_encoder)] ''out'' [] one_shard
     (small_ws, \<lambda>_. None) = Some (Inr w, (ws', fs'))"
proof -
  have rss: "env_rss shard_env = (\<lambda>n. (10, 20))" by (simp add: shard_env_def matrix_env_def)
  define ws1 where "ws1 = small_ws\<lparr>max_header_bytes := 8, readings := 3\<rparr>"
  have rec: "record_header (\<lambda>n. (10, 20)) 8 small_ws = (Inr (), ws1)"
    by (simp add: record_header_def workspace_check_def small_ws_def ws1_def)
  have copied: "\<exists>r ws2 out2. copy_encoder shard_env (fs_put whole_writes) (matrix_plan ''BF16'') [matrix_source] ws1 out
      = Some (Inr r, (ws2, out2)) \<and> er_output_bytes r = 2 \<and> host_memory_cap_bytes ws2 = 1000000" for out
    by (simp add: copy_encoder_def matrix_source_def copy_range_def mapped_tensor_range_def range_loop_unfold
        mapped_body_def mapped_window_def matrix_env_def shard_env_def zero_row_def small_ws_def record_tensor_def ws1_def
        workspace_check_def Let_def matrix_bytes write_whole)
  then obtain r ws2 out2 where run: "copy_encoder shard_env (fs_put whole_writes) (matrix_plan ''BF16'') [matrix_source] ws1
      (pack_u64 8 @ replicate 8 32) = Some (Inr r, (ws2, out2))" "er_output_bytes r = 2" "host_memory_cap_bytes ws2 = 1000000" by blast
  show ?thesis
    unfolding write_shard_def shard_env_header
    using run rec
    by (simp add: rss Let_def open_exclusive_def on_file_def write_header_def write_whole one_shard_def shard_tensor_def encode_tensor_def
        matrix_bytes matrix_plan_fields whole_writes_succeed fsync_file_def workspace_check_def)
qed

lemma reject_distinct: "distinct (map fst ps) \<Longrightarrow> reject_duplicate_keys ps = Inr ps"
  by (simp add: reject_duplicate_keys_Inr)


end
