(* ===== verification/Compiler_Facts.thy ===== *)
theory Compiler_Facts
  imports Compiler_Verify Artifact_Facts Digest_Facts
begin

text \<open>
  What the compiler guarantees: an artifact that passes verification consists of exactly the planned
  files, and its manifest states for every tensor the digest of the bytes that are in the artifact
  and of the source bytes it was made from.
\<close>

section \<open>Digests of tensors\<close>

lemma hash_source_tensor_ends:
  assumes "0 < env_granularity env" "ws_good (env_granularity env) ws ws"
  shows "ends (hash_source_tensor env t ws) (\<lambda>digest ws'. ws_good (env_granularity env) ws' ws'
    \<and> (\<exists>content. stored_range (env_files env (td_path t)) (td_absolute_offset t) (td_byte_length t) content
         \<and> digest = env_sha env content))"
  unfolding hash_source_tensor_def by (rule hash_tensor_range_ends [OF assms])

abbreviation stored_tensor :: "environment \<Rightarrow> tensor_descriptor \<Rightarrow> bytes \<Rightarrow> bool" where
  "stored_tensor env t content \<equiv> stored_range (env_files env (td_path t)) (td_absolute_offset t) (td_byte_length t) content"

section \<open>The tensors of an accepted artifact\<close>

definition source_recorded :: "environment \<Rightarrow> sources \<Rightarrow> string \<Rightarrow> pyval \<Rightarrow> bool" where
  "source_recorded env source_tensors name r \<longleftrightarrow> (\<exists>t content. dict_get source_tensors name = Some t
     \<and> stored_tensor env t content \<and> r = source_document env t (env_sha env content))"

text \<open>The cache of source digests only ever holds digests of source bytes.\<close>

definition cache_good :: "environment \<Rightarrow> sources \<Rightarrow> string dict \<Rightarrow> bool" where
  "cache_good env source_tensors hashes \<longleftrightarrow> (\<forall>name digest. dict_get hashes name = Some digest \<longrightarrow>
     (\<exists>t content. dict_get source_tensors name = Some t \<and> stored_tensor env t content \<and> digest = env_sha env content))"

lemma source_hash_step_ends:
  assumes "0 < env_granularity env" "ws_good (env_granularity env) ws ws" "cache_good env source_tensors hashes"
  shows "ends (source_hash_step env source_tensors (hashes, records) name ws) (\<lambda>(hashes', records') ws'.
    ws_good (env_granularity env) ws' ws' \<and> cache_good env source_tensors hashes'
    \<and> (\<exists>r. records' = records @ [r] \<and> source_recorded env source_tensors name r))"
proof (cases "dict_get source_tensors name")
  case None
  then show ?thesis by (simp add: source_hash_step_def dict_index_def)
next
  case (Some t)
  have kept: "cache_good env source_tensors (dict_set name (env_sha env content) hashes)"
    if "stored_tensor env t content" for content
    using assms(3) Some that by (auto simp: cache_good_def)
  show ?thesis
  proof (cases "dict_get hashes name")
    case cached: (Some digest)
    with assms(3) obtain u content where "dict_get source_tensors name = Some u" "stored_tensor env u content"
      "digest = env_sha env content" unfolding cache_good_def by blast
    with Some have "stored_tensor env t content" "digest = env_sha env content" by simp_all
    with cached Some kept assms(2) show ?thesis
      by (auto simp: source_hash_step_def dict_index_def source_recorded_def)
  next
    case None
    from hash_source_tensor_ends [OF assms(1,2)]
    have "ends (run_bind (hash_source_tensor env t ws) (\<lambda>digest. run_only (Inr (dict_set name digest hashes,
        records @ [source_document env t digest])))) (\<lambda>(hashes', records') ws'. ws_good (env_granularity env) ws' ws'
        \<and> cache_good env source_tensors hashes' \<and> (\<exists>r. records' = records @ [r] \<and> source_recorded env source_tensors name r))"
      by (rule ends_bind) (use Some kept in \<open>auto simp: source_recorded_def\<close>)
    with None Some show ?thesis by (simp add: source_hash_step_def dict_index_def)
  qed
qed

lemma source_hashes_end:
  assumes "0 < env_granularity env" "ws_good (env_granularity env) ws ws" "cache_good env source_tensors hashes"
  shows "ends (run_fold (source_hash_step env source_tensors) (hashes, []) names ws) (\<lambda>(hashes', records) ws'.
    ws_good (env_granularity env) ws' ws' \<and> cache_good env source_tensors hashes'
    \<and> list_all2 (source_recorded env source_tensors) names records)"
proof (rule ends_fold_prefix [where I = "\<lambda>ys acc ws'. case acc of (hashes', records) \<Rightarrow> ws_good (env_granularity env) ws' ws'
    \<and> cache_good env source_tensors hashes' \<and> list_all2 (source_recorded env source_tensors) ys records", THEN ends_mono])
  fix ys x zs acc st
  assume "case acc of (hashes', records) \<Rightarrow> ws_good (env_granularity env) st st
    \<and> cache_good env source_tensors hashes' \<and> list_all2 (source_recorded env source_tensors) ys records"
  then obtain hashes' records where acc: "acc = (hashes', records)" "ws_good (env_granularity env) st st"
    "cache_good env source_tensors hashes'" "list_all2 (source_recorded env source_tensors) ys records" by (cases acc) auto
  show "ends (source_hash_step env source_tensors acc x st) (\<lambda>acc ws'. case acc of (hashes', records) \<Rightarrow>
    ws_good (env_granularity env) ws' ws' \<and> cache_good env source_tensors hashes'
    \<and> list_all2 (source_recorded env source_tensors) (ys @ [x]) records)"
    unfolding acc(1)
    by (rule ends_mono [OF source_hash_step_ends [OF assms(1) acc(2,3)]]) (use acc(4) in \<open>auto intro: list_all2_appendI\<close>)
qed (use assms in auto)

text \<open>
  One output tensor of an accepted artifact: it has the planned dtype, shape and size, and its
  record states the digest of its bytes and, for each source, the digest of the source's bytes.
\<close>

definition output_verified :: "environment \<Rightarrow> sources \<Rightarrow> sources \<Rightarrow> pyval dict \<Rightarrow> tensor_compile_plan \<Rightarrow> bool" where
  "output_verified env source_tensors output_tensors manifest_tensors t \<longleftrightarrow> (\<exists>out content records recorded.
     dict_get output_tensors (output_name t) = Some out \<and> td_dtype out = output_dtype t \<and> td_shape out = physical_shape t
     \<and> stored_tensor env out content \<and> output_bytes t = Inr (int (length content))
     \<and> list_all2 (source_recorded env source_tensors) (source_names t) records
     \<and> dict_get manifest_tensors (output_name t) = Some recorded
     \<and> py_eq recorded (PDict (tensor_document t (int (length content)) (env_sha env content) (td_shard out)
          (td_data_offset out, td_data_offset out + int (length content)) records)))"

lemma verify_output_ends:
  assumes "0 < env_granularity env" "ws_good (env_granularity env) ws ws" "cache_good env source_tensors hashes"
  shows "ends (verify_output env source_tensors output_tensors manifest_tensors hashes t ws) (\<lambda>hashes' ws'.
    ws_good (env_granularity env) ws' ws' \<and> cache_good env source_tensors hashes'
    \<and> output_verified env source_tensors output_tensors manifest_tensors t)"
proof -
  let ?good = "\<lambda>ws'. ws_good (env_granularity env) ws' ws'"
  define first where "first = (case dict_get output_tensors (output_name t) of
         None \<Rightarrow> Inl (DataError ''compiled output tensor is missing'')
       | Some out \<Rightarrow> rbind (dict_index manifest_tensors (output_name t)) (\<lambda>recorded.
           fail_if (td_dtype out \<noteq> output_dtype t \<or> td_shape out \<noteq> physical_shape t)
             (DataError ''compiled output dtype/shape mismatch'') (Inr (out, recorded))))"
  show ?thesis
  proof (cases first)
    case (Inl e)
    then show ?thesis by (simp add: verify_output_def first_def [symmetric])
  next
    case (Inr found)
    obtain out recorded where found: "found = (out, recorded)" by fastforce
    with Inr have out: "dict_get output_tensors (output_name t) = Some out" "td_dtype out = output_dtype t"
      "td_shape out = physical_shape t" "dict_get manifest_tensors (output_name t) = Some recorded"
      by (auto simp: first_def split: option.splits)
    have step: "verify_output env source_tensors output_tensors manifest_tensors hashes t ws =
      run_bind (hash_source_tensor env out ws) (\<lambda>output_hash ws2.
      run_bind (run_only (rbind (output_bytes t) (\<lambda>byte_count.
        fail_if (td_byte_length out \<noteq> byte_count) (DataError ''compiled output byte count mismatch'') (Inr ()))) ws2) (\<lambda>_ ws3.
      run_bind (run_fold (source_hash_step env source_tensors) (hashes, []) (source_names t) ws3) (\<lambda>(hashes', records).
      run_only (fail_if (\<not> py_eq recorded (PDict (tensor_document t (td_byte_length out) output_hash (td_shard out)
          (td_data_offset out, td_data_offset out + td_byte_length out) records)))
        (DataError ''compiled tensor provenance mismatch'') (Inr hashes')))))"
      unfolding verify_output_def first_def [symmetric] Inr found by simp
    show ?thesis
      unfolding step
    proof (rule ends_bind [OF hash_source_tensor_ends [OF assms(1,2)]])
      fix digest ws2
      assume "?good ws2 \<and> (\<exists>content. stored_tensor env out content \<and> digest = env_sha env content)"
      then obtain content where ws2: "?good ws2" "stored_tensor env out content" "digest = env_sha env content" by blast
      have len: "td_byte_length out = int (length content)" using stored_range_length [OF ws2(2)] by simp
      show "ends (run_bind (run_only (rbind (output_bytes t) (\<lambda>byte_count.
          fail_if (td_byte_length out \<noteq> byte_count) (DataError ''compiled output byte count mismatch'') (Inr ()))) ws2) (\<lambda>_ ws3.
        run_bind (run_fold (source_hash_step env source_tensors) (hashes, []) (source_names t) ws3) (\<lambda>(hashes', records).
        run_only (fail_if (\<not> py_eq recorded (PDict (tensor_document t (td_byte_length out) digest (td_shard out)
            (td_data_offset out, td_data_offset out + td_byte_length out) records)))
          (DataError ''compiled tensor provenance mismatch'') (Inr hashes')))))
        (\<lambda>hashes' ws'. ?good ws' \<and> cache_good env source_tensors hashes'
          \<and> output_verified env source_tensors output_tensors manifest_tensors t)"
      proof (cases "output_bytes t = Inr (td_byte_length out)")
        case False
        then show ?thesis by (cases "output_bytes t") auto
      next
        case True
        show ?thesis
          unfolding True rbind_simps fail_if_simps not_True_eq_False simp_thms run_bind_simps
          by (rule ends_bind [OF source_hashes_end [OF assms(1) ws2(1) assms(3)]])
            (use out ws2 True len in \<open>auto simp: output_verified_def intro!: exI [of _ content]\<close>)
      qed
    qed
  qed
qed

section \<open>Reading an artifact keeps the workspace within its cap\<close>

abbreviation good_ws :: "environment \<Rightarrow> workspace \<Rightarrow> bool" where
  "good_ws env ws \<equiv> ws_good (env_granularity env) ws ws"

lemma workspace_check_good:
  "good_ws env ws \<Longrightarrow> workspace_check rss ws = (Inr u, ws') \<Longrightarrow> good_ws env ws'"
  using ws_good_check ws_good_self by blast

lemma read_header_good:
  assumes "good_ws env ws" "read_header env locked ws = (Inr header, ws')"
  shows "good_ws env ws'"
proof -
  from assms(2) obtain raw where
    raw: "(case loads env raw of
        None \<Rightarrow> (Inl (SourceVerificationError ''invalid Safetensors header JSON''), ws)
      | Some (PDict header) \<Rightarrow> then_do (record_header (env_rss env) (int (length raw)) ws) (\<lambda>_ ws2. (Inr header, ws2))
      | Some _ \<Rightarrow> (Inl (SourceVerificationError ''Safetensors header root is not an object''), ws)) = (Inr header, ws')"
    unfolding read_header_def sbind_Inr_iff prod.inject by blast
  then obtain d where "loads env raw = Some (PDict d)"
    by (cases "loads env raw"; cases "the (loads env raw)") simp_all
  with raw have "record_header (env_rss env) (int (length raw)) ws = (Inr (), ws')" by simp
  with record_header_good assms(1) show ?thesis by blast
qed

lemma parse_shard_good:
  assumes "good_ws env ws" "parse_shard env locked ws = (Inr tensors, ws')"
  shows "good_ws env ws'"
proof -
  from assms(2) obtain header ws1 data ws2 where read: "read_header env locked ws = (Inr header, ws1)"
    and check: "workspace_check (env_rss env) ws1 = (Inr (), ws2)" and "ws' = ws2"
    by (auto simp: parse_shard_def Let_def split: option.splits)
  with workspace_check_good read_header_good [OF assms(1) read] show ?thesis by blast
qed

lemma merge_shard_good:
  "good_ws env ws \<Longrightarrow> merge_shard env shard_files assigned tensors relative ws = (Inr merged, ws') \<Longrightarrow> good_ws env ws'"
  by (auto simp: merge_shard_def dest: parse_shard_good)

lemma load_index_good:
  "good_ws env ws \<Longrightarrow> load_index env locked ws = (Inr assigned, ws') \<Longrightarrow> good_ws env ws'"
  by (auto simp: load_index_def split: if_splits option.splits pyval.splits dest: record_header_good)

lemma lock_shard_ends:
  "good_ws env ws \<Longrightarrow> ends (lock_shard env base locked name ws) (\<lambda>_. good_ws env)"
  unfolding lock_shard_def
  by (rule ends_bind [where P = "\<lambda>_. good_ws env"], simp, clarify,
      rule ends_bind [OF hash_range_ends], assumption) (auto dest: ws_good_self)

lemma hash_range_good:
  "good_ws env ws \<Longrightarrow> ends (hash_range sha rss stored 0 len ws) (\<lambda>_. good_ws env)"
  by (rule ends_mono [OF hash_range_ends]) (auto dest: ws_good_self)

lemma merge_all_good:
  assumes "good_ws env ws"
  shows "ends (Some (prog_fold (merge_shard env shard_files assigned) [] names ws)) (\<lambda>_. good_ws env)"
proof (rule ends_prog)
  fix merged ws'
  assume "prog_fold (merge_shard env shard_files assigned) [] names ws = (Inr merged, ws')"
  then show "good_ws env ws'"
    by (rule prog_fold_invariant [where I = "\<lambda>_ _. good_ws env"]) (use assms merge_shard_good in blast)+
qed

text \<open>A step of a computation that only has to keep the workspace good.\<close>

lemmas ends_good = ends_bind [where P = "\<lambda>_. good_ws env" and Q = "\<lambda>_. good_ws env" for env]

lemma read_artifact_tensors_ends:
  assumes "good_ws env ws"
  shows "ends (read_artifact_tensors env path shard_names index_name ws) (\<lambda>_. good_ws env)"
  unfolding read_artifact_tensors_def
  apply (rule ends_good)
   apply (simp add: assms)
  apply (rule ends_good [OF ends_fold [where I = "\<lambda>_. good_ws env"]])
    apply assumption
   apply (erule lock_shard_ends)
  apply (rule ends_good)
   apply simp
  apply (clarify, rule ends_good [OF hash_range_good], assumption)
  apply (rule ends_good [OF ends_prog], erule load_index_good, assumption)
  apply (simp only: split: if_split, intro conjI impI, simp)
  apply (rule ends_good [OF merge_all_good], assumption, simp)
  done

section \<open>The layout of an accepted artifact\<close>

lemma read_chunks_eq:
  "read_chunks data position n = (if n = 0 \<or> position + n \<le> length data
     then Inr (file_read data position n) else Inl (DataError ''short read''))"
proof (induction data position n rule: read_chunks.induct)
  case (1 data position n)
  let ?chunk = "file_read data position n"
  show ?case
  proof (cases "n = 0 \<or> ?chunk = []")
    case True
    then show ?thesis by (subst read_chunks.simps) (auto simp: file_read_def Let_def)
  next
    case False
    have rest: "read_chunks data (position + length ?chunk) (n - length ?chunk) =
      (if n - length ?chunk = 0 \<or> position + length ?chunk + (n - length ?chunk) \<le> length data
       then Inr (file_read data (position + length ?chunk) (n - length ?chunk)) else Inl (DataError ''short read''))"
      using "1.IH" False by blast
    have len: "length ?chunk \<le> n" by (simp add: file_read_def)
    have step: "read_chunks data position n = rbind (read_chunks data (position + length ?chunk) (n - length ?chunk)) (\<lambda>rest. Inr (?chunk @ rest))"
      using False by (subst read_chunks.simps) (simp add: Let_def)
    show ?thesis
    proof (cases "position + n \<le> length data")
      case True
      then have "length ?chunk = n" by (simp add: file_read_def)
      then show ?thesis using step rest True by (simp add: file_read_def)
    next
      case short: False
      then have "length ?chunk = length data - position" "position < length data"
        using False by (auto simp: file_read_def)
      then have "n - length ?chunk \<noteq> 0" "\<not> position + length ?chunk + (n - length ?chunk) \<le> length data"
        using short by auto
      then show ?thesis using step rest short False by simp
    qed
  qed
qed

lemma read_exact_path_Inr:
  "read_exact_path env path len = Inr content \<longleftrightarrow> 0 \<le> len \<and> (\<exists>data. env_files env path = Some data
     \<and> nat len \<le> length data \<and> content = take (nat len) data)"
  by (auto simp: read_exact_path_def read_chunks_eq file_read_def not_less split: option.splits)

definition shard_canonical :: "environment \<Rightarrow> string \<Rightarrow> string \<Rightarrow> shard_assignment \<Rightarrow> bool" where
  "shard_canonical env artifact label a \<longleftrightarrow> (\<exists>header offsets data. safetensors_header env (sa_tensors a) label = Inr (header, offsets)
     \<and> env_files env (path_join artifact (sa_name a)) = Some data \<and> take (length header) data = header)"

definition index_canonical :: "environment \<Rightarrow> string \<Rightarrow> quantization_plan \<Rightarrow> bool" where
  "index_canonical env artifact plan \<longleftrightarrow> (\<exists>expected data. canonical_index_bytes env plan = Inr expected
     \<and> env_files env (path_join artifact INDEX_NAME) = Some data \<and> take (length expected) data = expected
     \<and> stat_size env (path_join artifact INDEX_NAME) = Inr (int (length expected)))"

definition metadata_canonical :: "environment \<Rightarrow> string \<Rightarrow> quantization_plan \<Rightarrow> verified_source \<Rightarrow> string \<Rightarrow> bool" where
  "metadata_canonical env artifact plan source relative \<longleftrightarrow> (\<exists>parts f byte_count digest. safe_relative_path relative = Inr parts
     \<and> dict_get (vs_files source) relative = Some f \<and> expected_metadata env plan relative f = Inr (byte_count, digest)
     \<and> stat_size env (join_parts artifact parts) = Inr byte_count
     \<and> hashed (env_sha env) (env_files env (join_parts artifact parts)) (nat byte_count) digest)"

lemma layout_shard_ends:
  assumes "good_ws env ws"
  shows "ends (layout_shard env artifact label records a ws) (\<lambda>_ ws'. good_ws env ws' \<and> shard_canonical env artifact label a)"
  unfolding layout_shard_def Let_def
proof (rule ends_bind_only)
  fix byte_count
  assume "rbind (safetensors_header env (sa_tensors a) label) (\<lambda>(header, _).
       rbind (read_exact_path env (path_join artifact (sa_name a)) 8) (\<lambda>prefix.
       fail_if (unpack_u64 prefix \<noteq> length header - 8) (DataError ''canonical header length mismatch'') (
       rbind (read_exact_path env (path_join artifact (sa_name a)) (int (length header))) (\<lambda>actual.
       fail_if (actual \<noteq> header) (DataError ''canonical Safetensors header mismatch'')
         (stat_size env (path_join artifact (sa_name a))))))) = Inr byte_count"
  then have "shard_canonical env artifact label a"
    by (auto simp: shard_canonical_def read_exact_path_Inr)
  then show "ends (run_bind (hash_range (env_sha env) (env_rss env) (env_files env (path_join artifact (sa_name a))) 0 (nat byte_count) ws) (\<lambda>digest.
      run_only (Inr (dict_set (sa_name a) (file_document (sa_name a) ''safetensors_shard'' byte_count digest) records))))
    (\<lambda>_ ws'. good_ws env ws' \<and> shard_canonical env artifact label a)"
    by (intro ends_bind [OF hash_range_good [OF assms]]) simp
qed

lemma layout_index_ends:
  assumes "good_ws env ws"
  shows "ends (layout_index env artifact plan records ws) (\<lambda>_ ws'. good_ws env ws' \<and> index_canonical env artifact plan)"
  unfolding layout_index_def Let_def
proof (rule ends_bind_only)
  fix byte_count
  assume "rbind (canonical_index_bytes env plan) (\<lambda>expected.
       rbind (read_exact_path env (path_join artifact INDEX_NAME) (int (length expected))) (\<lambda>actual.
       fail_if (actual \<noteq> expected) (DataError ''canonical Safetensors index mismatch'') (
       rbind (stat_size env (path_join artifact INDEX_NAME)) (\<lambda>byte_count.
       fail_if (byte_count \<noteq> int (length expected)) (DataError ''Safetensors index has trailing bytes'')
         (Inr byte_count))))) = Inr byte_count"
  then have "index_canonical env artifact plan"
    by (auto simp: index_canonical_def read_exact_path_Inr)
  then show "ends (run_bind (hash_range (env_sha env) (env_rss env) (env_files env (path_join artifact INDEX_NAME)) 0 (nat byte_count) ws) (\<lambda>digest.
      run_only (Inr (dict_set INDEX_NAME (file_document INDEX_NAME ''safetensors_index'' byte_count digest) records))))
    (\<lambda>_ ws'. good_ws env ws' \<and> index_canonical env artifact plan)"
    by (intro ends_bind [OF hash_range_good [OF assms]]) simp
qed

lemma layout_metadata_ends:
  assumes "good_ws env ws"
  shows "ends (layout_metadata env artifact plan source records relative ws)
    (\<lambda>_ ws'. good_ws env ws' \<and> metadata_canonical env artifact plan source relative)"
  unfolding layout_metadata_def
proof (rule ends_bind_only, clarify)
  fix path byte_count expected_digest
  assume "rbind (safe_relative_path relative) (\<lambda>parts. let path = join_parts artifact parts in
       rbind (dict_index (vs_files source) relative) (\<lambda>source_file.
       rbind (expected_metadata env plan relative source_file) (\<lambda>(expected_size, expected_digest).
       rbind (stat_size env path) (\<lambda>byte_count.
       fail_if (byte_count \<noteq> expected_size) (DataError ''compiled metadata size differs from expected'')
         (Inr (path, expected_size, expected_digest)))))) = Inr (path, byte_count, expected_digest)"
  then have ok: "hashed (env_sha env) (env_files env path) (nat byte_count) expected_digest \<Longrightarrow> metadata_canonical env artifact plan source relative"
    by (auto simp: metadata_canonical_def Let_def)
  show "ends (run_bind (hash_range (env_sha env) (env_rss env) (env_files env path) 0 (nat byte_count) ws) (\<lambda>digest.
     run_only (fail_if (digest \<noteq> expected_digest) (DataError ''compiled metadata differs from expected'')
       (Inr (dict_set relative (file_document relative (metadata_kind plan relative) byte_count expected_digest) records)))))
    (\<lambda>_ ws'. good_ws env ws' \<and> metadata_canonical env artifact plan source relative)"
    by (rule ends_bind [OF hash_range_ends [OF assms]]) (use ok in \<open>auto dest: ws_good_self\<close>)
qed

text \<open>The layout: exactly the planned files, each canonical.\<close>

definition layout_canonical :: "environment \<Rightarrow> (string \<Rightarrow> string list) \<Rightarrow> string \<Rightarrow> quantization_plan \<Rightarrow> verified_source \<Rightarrow> bool" where
  "layout_canonical env walk artifact plan source \<longleftrightarrow> (\<exists>shards profile found.
     assign_shards plan = Inr shards \<and> profile_for (qp_artifact_profile plan) (qp_head_format plan) = Inr profile
     \<and> actual_artifact_files env walk artifact = Inr found
     \<and> set found - {COMPILATION_MANIFEST} = set (map sa_name shards) \<union> {INDEX_NAME} \<union> set (qp_approved_metadata_files plan)
     \<and> (\<forall>a\<in>set shards. shard_canonical env artifact (prof_header_label profile) a)
     \<and> index_canonical env artifact plan
     \<and> (\<forall>relative\<in>set (qp_approved_metadata_files plan). metadata_canonical env artifact plan source relative))"

text \<open>A fold whose every step keeps the workspace good and establishes a fact of its element.\<close>

lemma ends_fold_each:
  assumes "good_ws env ws" "\<And>acc x ws. good_ws env ws \<Longrightarrow> ends (f acc x ws) (\<lambda>_ ws'. good_ws env ws' \<and> Q x)"
  shows "ends (run_fold f acc xs ws) (\<lambda>_ ws'. good_ws env ws' \<and> (\<forall>x\<in>set xs. Q x))"
proof (rule ends_fold_prefix [where I = "\<lambda>ys _ ws'. good_ws env ws' \<and> (\<forall>x\<in>set ys. Q x)"])
  fix ys x zs acc st
  assume "good_ws env st \<and> (\<forall>x\<in>set ys. Q x)"
  then show "ends (f acc x st) (\<lambda>_ ws'. good_ws env ws' \<and> (\<forall>x\<in>set (ys @ [x]). Q x))"
    by (intro ends_mono [OF assms(2)]) auto
qed (simp add: assms(1))

lemma as_data_error_ends: "ends m P \<Longrightarrow> ends (as_data_error m) P"
  by (auto simp: ends_def as_data_error_def)

lemma validate_canonical_layout_ends:
  assumes "good_ws env ws"
  shows "ends (validate_canonical_layout env walk artifact plan source ws)
    (\<lambda>_ ws'. good_ws env ws' \<and> layout_canonical env walk artifact plan source)"
  unfolding validate_canonical_layout_def
proof (rule ends_bind_only, clarify)
  fix shards profile
  assume head: "rbind (assign_shards plan) (\<lambda>shards.
       rbind (profile_for (qp_artifact_profile plan) (qp_head_format plan)) (\<lambda>profile.
       rbind (check_file_set env walk artifact plan shards) (\<lambda>_. Inr (shards, profile)))) = Inr (shards, profile)"
  let ?label = "prof_header_label profile"
  show "ends (run_bind (run_fold (layout_shard env artifact ?label) [] shards ws) (\<lambda>records1 ws2.
     run_bind (layout_index env artifact plan records1 ws2) (\<lambda>records2 ws3.
     run_bind (run_fold (layout_metadata env artifact plan source) records2 (qp_approved_metadata_files plan) ws3) (\<lambda>records ws4.
     run_bind (as_data_error (read_artifact_tensors env artifact (map sa_name shards) INDEX_NAME ws4)) (\<lambda>output_tensors.
     run_only (Inr (records, output_tensors, map sa_name shards, ?label)))))))
    (\<lambda>_ ws'. good_ws env ws' \<and> layout_canonical env walk artifact plan source)"
  proof (rule ends_bind [OF ends_fold_each [OF assms layout_shard_ends]], assumption, elim conjE,
      rule ends_bind [OF layout_index_ends], assumption, elim conjE,
      rule ends_bind [OF ends_fold_each [OF _ layout_metadata_ends]], assumption, assumption, elim conjE,
      rule ends_bind [OF as_data_error_ends [OF read_artifact_tensors_ends]], assumption)
    fix ws'
    assume "good_ws env ws'" "\<forall>a\<in>set shards. shard_canonical env artifact ?label a" "index_canonical env artifact plan"
      "\<forall>relative\<in>set (qp_approved_metadata_files plan). metadata_canonical env artifact plan source relative"
    moreover from head obtain found where "actual_artifact_files env walk artifact = Inr found"
      "set found - {COMPILATION_MANIFEST} = set (map sa_name shards) \<union> {INDEX_NAME} \<union> set (qp_approved_metadata_files plan)"
      by (auto simp: check_file_set_def)
    ultimately show "ends (run_only (Inr (x, y, map sa_name shards, ?label)) ws')
        (\<lambda>_ ws'. good_ws env ws' \<and> layout_canonical env walk artifact plan source)" for x y
      using head unfolding layout_canonical_def by auto
  qed
qed

lemma outputs_by_name_distinct:
  assumes "distinct (map output_name (qp_tensors plan))"
  shows "outputs_by_name plan = map (\<lambda>t. (output_name t, t)) (qp_tensors plan)"
proof -
  have "foldl (\<lambda>acc t. dict_set (output_name t) t acc) acc ts = acc @ map (\<lambda>t. (output_name t, t)) ts"
    if "distinct (map output_name ts)" "\<forall>t\<in>set ts. output_name t \<notin> dict_keys acc" for acc ts
    using that
  proof (induction ts arbitrary: acc)
    case (Cons t ts)
    then have "dict_set (output_name t) t acc = acc @ [(output_name t, t)]" by (simp add: dict_set_fresh)
    moreover have "\<forall>u\<in>set ts. output_name u \<notin> dict_keys (acc @ [(output_name t, t)])"
      using Cons.prems by (auto simp: dict_keys_def) (metis imageI)
    ultimately show ?case using Cons by simp
  qed simp
  from this [of "qp_tensors plan" "[]"] assms show ?thesis by (simp add: outputs_by_name_def dict_keys_def)
qed


lemma verify_exclusion_ends:
  assumes "0 < env_granularity env" "good_ws env ws"
  shows "ends (verify_exclusion env source_tensors excluded u item ws) (\<lambda>_ ws'. good_ws env ws'
    \<and> (\<exists>t content recorded. dict_get source_tensors (ex_source_name item) = Some t \<and> stored_tensor env t content
         \<and> dict_get excluded (ex_source_name item) = Some recorded
         \<and> py_eq recorded (PDict (excluded_document env item t (env_sha env content)))))"
  unfolding verify_exclusion_def
proof (rule ends_bind_only)
  fix t
  assume "dict_index source_tensors (ex_source_name item) = Inr t"
  then show "ends (run_bind (hash_source_tensor env t ws) (\<lambda>source_hash.
     run_only (rbind (dict_index excluded (ex_source_name item)) (\<lambda>recorded.
       fail_if (\<not> py_eq recorded (PDict (excluded_document env item t source_hash)))
         (DataError ''compiled exclusion provenance mismatch'') (Inr ())))))
    (\<lambda>_ ws'. good_ws env ws' \<and> (\<exists>t content recorded. dict_get source_tensors (ex_source_name item) = Some t
         \<and> stored_tensor env t content \<and> dict_get excluded (ex_source_name item) = Some recorded
         \<and> py_eq recorded (PDict (excluded_document env item t (env_sha env content)))))"
    by (intro ends_bind [OF hash_source_tensor_ends [OF assms]])
      (auto simp: dict_index_def split: option.splits)
qed

definition exclusion_verified :: "environment \<Rightarrow> sources \<Rightarrow> pyval list \<Rightarrow> excluded_tensor_plan \<Rightarrow> bool" where
  "exclusion_verified env source_tensors entries item \<longleftrightarrow> (\<exists>t content recorded.
     dict_get source_tensors (ex_source_name item) = Some t \<and> stored_tensor env t content
     \<and> dict_get (excluded_map entries) (ex_source_name item) = Some recorded
     \<and> py_eq recorded (PDict (excluded_document env item t (env_sha env content))))"

definition exclusions_verified :: "environment \<Rightarrow> sources \<Rightarrow> quantization_plan \<Rightarrow> pyval dict \<Rightarrow> bool" where
  "exclusions_verified env source_tensors plan compilation \<longleftrightarrow> (\<exists>entries.
     obj_get compilation ''excluded_tensors'' = PList entries
     \<and> dict_keys (excluded_map entries) = ex_source_name ` set (qp_excluded_tensors plan)
     \<and> (\<forall>item\<in>set (qp_excluded_tensors plan). exclusion_verified env source_tensors entries item))"

lemma verify_exclusions_ends:
  assumes "0 < env_granularity env" "good_ws env ws"
  shows "ends (verify_exclusions env source_tensors plan compilation ws)
    (\<lambda>_ ws'. good_ws env ws' \<and> exclusions_verified env source_tensors plan compilation)"
proof (cases "\<exists>entries. obj_get compilation ''excluded_tensors'' = PList entries")
  case False
  then show ?thesis by (auto simp: verify_exclusions_def split: pyval.splits)
next
  case True
  then obtain entries where e: "obj_get compilation ''excluded_tensors'' = PList entries" by blast
  let ?step = "verify_exclusion env source_tensors (excluded_map entries)"
  have "ends (run_fold ?step () (qp_excluded_tensors plan) ws)
      (\<lambda>_ ws'. good_ws env ws' \<and> (\<forall>item\<in>set (qp_excluded_tensors plan). exclusion_verified env source_tensors entries item))"
    unfolding exclusion_verified_def
    by (rule ends_fold_each [OF assms(2)]) (use verify_exclusion_ends [OF assms(1)] in auto)
  then show ?thesis
    using e by (auto simp: verify_exclusions_def Let_def exclusions_verified_def elim!: ends_mono)
qed

lemma verify_metadata_ends:
  assumes "good_ws env ws"
  shows "ends (verify_metadata env artifact source plan file_records u relative ws) (\<lambda>_ ws'. good_ws env ws')"
  unfolding verify_metadata_def
  by (rule ends_bind_only, simp only: split_def, rule ends_bind [OF hash_range_good [OF assms]])
    (simp add: Let_def)

definition artifact_verified :: "environment \<Rightarrow> (string \<Rightarrow> string list) \<Rightarrow> string \<Rightarrow> verified_source \<Rightarrow> sources \<Rightarrow>
    quantization_plan \<Rightarrow> pyval dict \<Rightarrow> bool" where
  "artifact_verified env walk artifact source source_tensors plan compilation \<longleftrightarrow>
     layout_canonical env walk artifact plan source
     \<and> (\<exists>output_tensors manifest_tensors. dict_keys output_tensors = set (map output_name (qp_tensors plan))
          \<and> manifest_tensor_map compilation = Inr manifest_tensors
          \<and> dict_keys manifest_tensors = set (map output_name (qp_tensors plan))
          \<and> (\<forall>t\<in>set (qp_tensors plan). output_verified env source_tensors output_tensors manifest_tensors t))
     \<and> exclusions_verified env source_tensors plan compilation
     \<and> check_totals source_tensors plan compilation = Inr ()"

lemma verify_outputs_end:
  assumes "0 < env_granularity env" "good_ws env ws" "distinct (map output_name (qp_tensors plan))"
  shows "ends (run_fold (verify_output env source_tensors output_tensors manifest_tensors) []
      (map snd (outputs_by_name plan)) ws)
    (\<lambda>_ ws'. good_ws env ws' \<and> (\<forall>t\<in>set (qp_tensors plan). output_verified env source_tensors output_tensors manifest_tensors t))"
proof -
  let ?done = "\<lambda>ts. \<forall>t\<in>set ts. output_verified env source_tensors output_tensors manifest_tensors t"
  have "ends (run_fold (verify_output env source_tensors output_tensors manifest_tensors) [] (qp_tensors plan) ws)
    (\<lambda>hashes ws'. good_ws env ws' \<and> cache_good env source_tensors hashes \<and> ?done (qp_tensors plan))"
  proof (rule ends_fold_prefix [where I = "\<lambda>ts hashes ws'. good_ws env ws' \<and> cache_good env source_tensors hashes \<and> ?done ts"])
    fix ys x zs hashes st
    assume "good_ws env st \<and> cache_good env source_tensors hashes \<and> ?done ys"
    then show "ends (verify_output env source_tensors output_tensors manifest_tensors hashes x st)
      (\<lambda>hashes ws'. good_ws env ws' \<and> cache_good env source_tensors hashes \<and> ?done (ys @ [x]))"
      by (intro ends_mono [OF verify_output_ends [OF assms(1)]]) auto
  qed (simp add: assms(2) cache_good_def)
  then show ?thesis
    by (simp add: outputs_by_name_distinct [OF assms(3)] comp_def) (auto elim!: ends_mono)
qed

lemma match_manifest_Inr:
  assumes "match_manifest plan compilation records output_tensors = Inr (files, manifest_tensors)"
    "distinct (map output_name (qp_tensors plan))"
  shows "dict_keys output_tensors = set (map output_name (qp_tensors plan))
    \<and> manifest_tensor_map compilation = Inr manifest_tensors
    \<and> dict_keys manifest_tensors = set (map output_name (qp_tensors plan))"
proof -
  have "dict_keys (outputs_by_name plan) = set (map output_name (qp_tensors plan))"
    by (simp add: outputs_by_name_distinct [OF assms(2)] dict_keys_def image_image)
  with assms(1) show ?thesis by (simp add: match_manifest_def Let_def)
qed

lemma verify_loaded_artifact_ends:
  assumes "0 < env_granularity env" "good_ws env ws" "distinct (map output_name (qp_tensors plan))"
  shows "ends (verify_loaded_artifact env walk artifact source source_tensors plan dependency_hash expected_threads ws)
    (\<lambda>compilation ws'. good_ws env ws' \<and> artifact_verified env walk artifact source source_tensors plan compilation)"
  unfolding verify_loaded_artifact_def
proof (rule ends_bind_only, rule ends_bind [OF validate_canonical_layout_ends [OF assms(2)]], elim conjE, clarify,
    rule ends_bind_only, clarify, rule ends_bind [OF verify_outputs_end [OF assms(1) _ assms(3)]], assumption, elim conjE,
    rule ends_bind [OF verify_exclusions_ends [OF assms(1)]], assumption, elim conjE,
    rule ends_bind [OF ends_fold_each [where Q = "\<lambda>_. True"]], assumption, simp add: verify_metadata_ends, elim conjE,
    rule ends_bind_only)
  fix compilation records output_tensors names label files manifest_tensors ws6 u
  assume "layout_canonical env walk artifact plan source"
    "match_manifest plan compilation records output_tensors = Inr (files, manifest_tensors)"
    "\<forall>t\<in>set (qp_tensors plan). output_verified env source_tensors output_tensors manifest_tensors t"
    "exclusions_verified env source_tensors plan compilation" "good_ws env ws6"
    "rbind (check_index_total env artifact plan) (\<lambda>_. rbind (check_totals source_tensors plan compilation) (\<lambda>_.
        check_settings (obj_get compilation ''compiler_settings'') expected_threads)) = Inr u"
  moreover have "artifact_verified env walk artifact source source_tensors plan compilation" if "check_totals source_tensors plan compilation = Inr ()"
    using calculation that match_manifest_Inr [OF calculation(2) assms(3)] unfolding artifact_verified_def by blast
  ultimately show "ends (run_bind (Some (workspace_check (env_rss env) ws6)) (\<lambda>_. run_only (Inr compilation)))
    (\<lambda>compilation ws'. good_ws env ws' \<and> artifact_verified env walk artifact source source_tensors plan compilation)"
    by (intro ends_bind [OF ends_prog [OF workspace_check_good]]) (auto split: sum.splits)
qed




end
