(* ===== verification/Compiler_Run.thy ===== *)
theory Compiler_Run
  imports Compiler_Verify Native_NVFP4
begin

text \<open>
  \<open>tools/gem16_compile/compiler.py\<close>, fourth part: the paths of a report and of an external lock, the
  reports, and the four actions: plan, compile, verify and compare. A compilation is a transaction
  over the disk: it works in a staging directory beside the output and publishes it by one rename.

  Paths are given absolute, as \<open>expanduser().absolute()\<close> leaves them.
\<close>

section \<open>The system\<close>

text \<open>
  Everything outside a run that it depends on: the calls that fail, the paths a removal leaves
  behind, the traversal of a directory, the answers of the native executables and what running
  them does to the files, and the duration stated in a report.
\<close>

record compile_system = staging_system +
  cs_dirs :: directory_system
  cs_made :: "string \<Rightarrow> bool"
  cs_kept :: "string \<Rightarrow> bool"
  cs_stuck :: "string \<Rightarrow> bool"
  cs_walk :: "disk \<Rightarrow> string \<Rightarrow> string list"
  cs_temporary :: "string option"
  cs_preflight_query :: query_outcome
  cs_build_query :: query_outcome
  cs_fp8_child :: "files \<Rightarrow> child_outcome \<times> files"
  cs_nvfp4_child :: "files \<Rightarrow> child_outcome \<times> files"
  cs_duration :: pyval

text \<open>The environment as it reads a disk.\<close>

definition looking :: "environment \<Rightarrow> disk \<Rightarrow> environment" where
  "looking env d = seeing env (dk_dirs d) (dk_files d)"

text \<open>
  The state of a compilation: the workspace, the disk with everything a run may change, and the
  local variables its exception handler reads.
\<close>

record compile_state =
  cp_workspace :: workspace
  cp_disk :: disk
  cp_bundle :: "native_bundle option"
  cp_published :: bool
  cp_lock_written :: bool
  cp_report_written :: bool

abbreviation cp_files :: "compile_state \<Rightarrow> files" where
  "cp_files s \<equiv> dk_files (cp_disk s)"

abbreviation view_of :: "environment \<Rightarrow> compile_state \<Rightarrow> environment" where
  "view_of env s \<equiv> looking env (cp_disk s)"

definition set_files :: "compile_state \<Rightarrow> files \<Rightarrow> compile_state" where
  "set_files s fs = s\<lparr>cp_disk := (cp_disk s)\<lparr>dk_files := fs\<rparr>\<rparr>"

text \<open>Computations over a part of the state.\<close>

definition on_files :: "(workspace \<times> files, 'a) run \<Rightarrow> (compile_state, 'a) run" where
  "on_files m s = map_option (\<lambda>(r, (ws, fs)). (r, set_files (s\<lparr>cp_workspace := ws\<rparr>) fs))
     (m (cp_workspace s, cp_files s))"

definition on_workspace :: "(workspace, 'a) run \<Rightarrow> (compile_state, 'a) run" where
  "on_workspace m s = map_option (\<lambda>(r, ws). (r, s\<lparr>cp_workspace := ws\<rparr>)) (m (cp_workspace s))"

section \<open>Paths\<close>

definition path_exists :: "environment \<Rightarrow> string \<Rightarrow> bool res" where
  "path_exists env path = (case env_entry env path of
     Denied \<Rightarrow> Inl (OSError ''stat'') | Missing \<Rightarrow> Inr False | _ \<Rightarrow> Inr True)"

text \<open>\<open>path.exists() or path.is_symlink()\<close>\<close>

definition path_taken :: "environment \<Rightarrow> string \<Rightarrow> bool res" where
  "path_taken env path = rbind (path_exists env path) (\<lambda>found. Inr (found \<or> env_symlink env path))"

lemma remove_suffix_length: "length (remove_suffix x s) \<le> length s"
proof (cases "strip_prefix (rev x) (rev s)")
  case (Some r)
  then show ?thesis using strip_prefix_Some [of "rev x" "rev s" r] by (simp add: remove_suffix_def) (metis length_append length_rev le_add2)
qed (simp add: remove_suffix_def)

lemma remove_suffix_shorter: "remove_suffix x s \<noteq> s \<Longrightarrow> length (remove_suffix x s) < length s"
proof (cases "strip_prefix (rev x) (rev s)")
  case (Some r)
  then have s: "rev s = rev x @ r" by (rule strip_prefix_Some [THEN iffD1])
  then have "length s = length x + length r" by (metis length_append length_rev)
  moreover assume "remove_suffix x s \<noteq> s"
  with Some have "rev r \<noteq> s" by (simp add: remove_suffix_def)
  with s have "x \<noteq> []" by auto
  ultimately show ?thesis using Some by (simp add: remove_suffix_def)
qed (simp add: remove_suffix_def)

lemma parent_path_length: "parent_path p \<noteq> p \<Longrightarrow> length (parent_path p) < length p"
  using remove_suffix_shorter [of "after_last CHR ''/'' p" p] remove_suffix_length [of "after_last CHR ''/'' p" p]
  by (cases "remove_suffix (after_last CHR ''/'' p) p") (auto simp: parent_path_def Let_def ends_with_def split: if_splits)

function canonical_path_allow_missing :: "environment \<Rightarrow> string \<Rightarrow> string list \<Rightarrow> string res" where
  "canonical_path_allow_missing env candidate missing =
     rbind (path_taken env candidate) (\<lambda>taken.
     if taken
     then (case env_resolve env candidate of
         None \<Rightarrow> Inl (OutputError ''cannot resolve path'')
       | Some resolved \<Rightarrow> Inr (join_parts resolved missing))
     else if parent_path candidate = candidate then Inl (OutputError ''cannot resolve path'')
     else canonical_path_allow_missing env (parent_path candidate) (after_last CHR ''/'' candidate # missing))"
  by auto
termination
  by (relation "measure (\<lambda>(_, candidate, _). length candidate)") (auto simp: parent_path_length)

definition path_is_within :: "string \<Rightarrow> string \<Rightarrow> bool" where
  "path_is_within path base \<longleftrightarrow> take (length (path_parts base)) (path_parts path) = path_parts base"

text \<open>
  \<open>path.mkdir(parents=True, exist_ok=True)\<close>. A failing call may have created some of the parents,
  those that \<open>cs_made\<close> names.
\<close>

definition make_directories :: "compile_system \<Rightarrow> string \<Rightarrow> (disk, unit) prog" where
  "make_directories sys path d =
    (if mkdir_fails sys path
     then (Inl (OSError ''mkdir''), d\<lparr>dk_dirs := (\<lambda>p. dk_dirs d p \<or> (below p path \<and> cs_made sys p))\<rparr>)
     else (Inr (), d\<lparr>dk_dirs := (\<lambda>p. dk_dirs d p \<or> below p path)\<rparr>))"

text \<open>\<open>path.name\<close> is empty for the root, which \<open>with_name\<close> refuses.\<close>

definition incomplete_path :: "string \<Rightarrow> string res" where
  "incomplete_path out_path = fail_if (after_last CHR ''/'' out_path = []) (ValueError ''path has an empty name'')
     (Inr (staging_path out_path))"

definition canonical_report_path :: "environment \<Rightarrow> string \<Rightarrow> string \<Rightarrow> string res" where
  "canonical_report_path env requested out_path =
     rbind (path_taken env requested) (\<lambda>taken.
     fail_if taken (OutputError ''compiler report already exists'') (
     rbind (canonical_path_allow_missing env requested []) (\<lambda>canonical_report.
     rbind (canonical_path_allow_missing env out_path []) (\<lambda>canonical_output.
     rbind (incomplete_path out_path) (\<lambda>staging.
     rbind (canonical_path_allow_missing env staging []) (\<lambda>canonical_staging.
     fail_if (path_is_within canonical_report canonical_output)
       (OutputError ''compiler report must not be inside output'') (
     fail_if (path_is_within canonical_report canonical_staging)
       (OutputError ''compiler report must not be inside staging output'') (
     rbind (path_taken env canonical_report) (\<lambda>taken'.
     fail_if taken' (OutputError ''compiler report already exists'') (Inr canonical_report))))))))))"

definition preflight_report_path :: "environment \<Rightarrow> compile_system \<Rightarrow> string option \<Rightarrow> string \<Rightarrow> (disk, string option) prog" where
  "preflight_report_path env sys report_path out_path d = (case report_path of
     None \<Rightarrow> (Inr None, d)
   | Some requested \<Rightarrow>
       then_do (canonical_report_path (looking env d) requested out_path, d) (\<lambda>canonical d1.
       case make_directories sys (parent_path canonical) d1 of
         (Inl e, d2) \<Rightarrow> (Inl (OutputError ''cannot create compiler report directory''), d2)
       | (Inr _, d2) \<Rightarrow> (Inr (Some canonical), d2)))"

definition write_report :: "environment \<Rightarrow> file_system \<Rightarrow> string option \<Rightarrow> pyval dict \<Rightarrow> (disk, unit) prog" where
  "write_report env fsys report_path report d = (case report_path of
     None \<Rightarrow> (Inr (), d)
   | Some path \<Rightarrow>
       then_do (rbind (path_taken (looking env d) path) (\<lambda>taken.
         fail_if taken (OutputError ''compiler report already exists'') (Inr ())), d) (\<lambda>_ d1.
       case write_file_atomic fsys path (env_canonical env (PDict report)) (dk_files d1) of
         (r, fs) \<Rightarrow> (r, d1\<lparr>dk_files := fs\<rparr>)))"

section \<open>Reports\<close>

text \<open>\<open>d.update(entries)\<close>\<close>

definition dict_update :: "'v dict \<Rightarrow> 'v dict \<Rightarrow> 'v dict" where
  "dict_update d entries = foldl (\<lambda>acc (key, v). dict_set key v acc) d entries"

definition telemetry_value :: "environment \<Rightarrow> (workspace, pyval) prog" where
  "telemetry_value env ws = then_do (telemetry (env_rss env) ws) (\<lambda>entries ws1.
     (Inr (PDict (map (\<lambda>(key, n). (key, PInt n)) entries)), ws1))"

definition base_report :: "environment \<Rightarrow> compile_system \<Rightarrow> string \<Rightarrow> compiler_request \<Rightarrow> (workspace, pyval dict) prog" where
  "base_report env sys action request ws =
     then_do (profile_for (cr_profile request) (cr_head_format request), ws) (\<lambda>profile ws1.
     then_do (telemetry_value env ws1) (\<lambda>memory ws2.
     (Inr ([(''schema_version'', PInt 1), (''milestone'', PStr (prof_milestone profile)), (''action'', PStr action),
        (''status'', PStr ''pass''), (''artifact_profile'', PStr (cr_profile request)),
        (''duration_seconds'', cs_duration sys), (''memory'', memory)]
        @ (if cr_profile request = ''fp8-attention-partial-v1'' \<and> action = ''verify''
           then [(''transformation_recomputed'', PBool False)] else [])), ws2)))"

definition complete_statistics_record :: "written_tensor \<Rightarrow> pyval" where
  "complete_statistics_record written = (let plan = wr_plan written; result = wr_source_result written in PDict [
     (''output_name'', PStr (output_name plan)), (''operation_id'', PStr (operation_id plan)),
     (''source_names'', PList (map PStr (source_names plan))),
     (''source_sha256'', PList (map PStr (er_source_sha256 result))),
     (''logical_dtype'', PStr (logical_dtype plan)), (''logical_shape'', PList (map PInt (logical_shape plan))),
     (''quantizer_parameters'', PDict (quantizer_parameters plan)),
     (''statistics'', (case er_statistics result of None \<Rightarrow> PNone | Some statistics \<Rightarrow> PDict statistics))])"

definition statistics_records :: "written_payload \<Rightarrow> pyval list" where
  "statistics_records payload =
     map complete_statistics_record (filter (\<lambda>w. er_statistics (wr_source_result w) \<noteq> None) (wp_tensors payload))"

section \<open>Plan\<close>

definition projected_shard :: "shard_assignment \<Rightarrow> pyval res" where
  "projected_shard assignment = rbind (rmap output_bytes (sa_tensors assignment)) (\<lambda>sizes.
     Inr (PDict [(''name'', PStr (sa_name assignment)), (''tensor_count'', PInt (int (length (sa_tensors assignment)))),
       (''payload_bytes'', PInt (sum_list sizes))]))"

definition mapping_record :: "tensor_compile_plan \<Rightarrow> pyval res" where
  "mapping_record tensor = rbind (output_bytes tensor) (\<lambda>byte_count. Inr (PDict [
     (''operation_id'', PStr (operation_id tensor)), (''output_name'', PStr (output_name tensor)),
     (''source_names'', PList (map PStr (source_names tensor))), (''encoder'', PStr (encoder tensor)),
     (''output_dtype'', PStr (output_dtype tensor)), (''physical_shape'', PList (map PInt (physical_shape tensor))),
     (''output_bytes'', PInt byte_count), (''role'', PStr (role tensor)),
     (''residency_class'', PStr (residency_class tensor))]))"

definition exclusion_record :: "sources \<Rightarrow> excluded_tensor_plan \<Rightarrow> pyval res" where
  "exclusion_record source_tensors item = rbind (dict_index source_tensors (ex_source_name item)) (\<lambda>tensor. Inr (PDict [
     (''source_name'', PStr (ex_source_name item)), (''family'', PStr (ex_family item)), (''role'', PStr (ex_role item)),
     (''residency_class'', PStr (ex_residency_class item)), (''source_bytes'', PInt (td_byte_length tensor))]))"

definition excluded_total :: "sources \<Rightarrow> quantization_plan \<Rightarrow> int res" where
  "excluded_total source_tensors plan =
     rbind (rmap (\<lambda>item. dict_index source_tensors (ex_source_name item)) (qp_excluded_tensors plan)) (\<lambda>tensors.
     Inr (sum_list (map td_byte_length tensors)))"

definition source_summary :: "verified_source \<Rightarrow> sources \<Rightarrow> pyval" where
  "source_summary source source_tensors = PDict [(''repository'', PStr (vs_repository source)),
     (''revision'', PStr (vs_revision source)), (''lock_sha256'', PStr (vs_lock_sha256 source)),
     (''tensor_count'', PInt (int (length source_tensors)))]"

text \<open>The entries a plan report adds to the summary.\<close>

definition plan_entries :: "compiler_request \<Rightarrow> verified_source \<Rightarrow> sources \<Rightarrow> quantization_plan \<Rightarrow> string \<Rightarrow>
    shard_assignment list \<Rightarrow> int \<Rightarrow> workspace \<Rightarrow> pyval dict res" where
  "plan_entries request source source_tensors plan dependency_hash assigned excluded ws =
     rbind (plan_summary plan) (\<lambda>summary.
     rbind (rmap projected_shard assigned) (\<lambda>shards.
     rbind (rmap mapping_record (qp_tensors plan)) (\<lambda>mapping.
     rbind (rmap (exclusion_record source_tensors) (qp_excluded_tensors plan)) (\<lambda>exclusions.
     Inr (summary @ [(''status'', PStr ''pass''), (''source'', source_summary source source_tensors),
       (''dependencies_lock_sha256'', PStr dependency_hash), (''projected_shards'', PList shards),
       (''excluded_tensor_bytes'', PInt excluded), (''tensor_mapping'', PList mapping),
       (''excluded_tensors'', PList exclusions),
       (''predicted_incremental_host_bytes'', PInt (cr_staging_bytes request + max_header_bytes ws))])))))"

definition check_environment :: "compiler_request \<Rightarrow> quantization_plan \<Rightarrow> compiler_identity \<Rightarrow> unit res" where
  "check_environment request plan identity =
    (if cr_reference_platform_strict request then validate_reference_environment plan identity else Inr ())"

definition plan_run :: "environment \<Rightarrow> compile_system \<Rightarrow> compiler_identity res \<Rightarrow> compiler_request \<Rightarrow> (workspace, pyval dict) run" where
  "plan_run env sys identity request ws =
     run_bind (load_request env request ws) (\<lambda>(source, source_tensors, plan, dependency_hash) ws1.
     run_bind (run_only (rbind identity (\<lambda>who. rbind (check_environment request plan who) (\<lambda>_.
       rbind (assign_shards plan) (\<lambda>assigned.
       rbind (excluded_total source_tensors plan) (\<lambda>excluded. Inr (assigned, excluded)))))) ws1) (\<lambda>(assigned, excluded) ws2.
     run_bind (reverify_source_files env request source ws2) (\<lambda>_ ws3.
     run_bind (Some (base_report env sys ''plan'' request ws3)) (\<lambda>report ws4.
     run_bind (run_only (plan_entries request source source_tensors plan dependency_hash assigned excluded ws4) ws4)
       (\<lambda>entries ws5.
     run_bind (Some (telemetry_value env ws5)) (\<lambda>memory.
     run_only (Inr (dict_update report (entries @ [(''memory'', memory)])))))))))"

definition plan_artifact :: "environment \<Rightarrow> compile_system \<Rightarrow> compiler_identity res \<Rightarrow> compiler_request \<Rightarrow> pyval dict res option" where
  "plan_artifact env sys identity request =
    (case workspace_new (env_rss env) (cr_host_memory_cap_bytes request) (cr_staging_bytes request) of
       Inl e \<Rightarrow> Some (Inl e)
     | Inr ws \<Rightarrow> map_option fst (plan_run env sys identity request ws))"

section \<open>Writing the payload\<close>

text \<open>\<open>encoders or default_encoder_registry()\<close>; no registry is the empty one.\<close>

definition registry_or_default :: "'o encoder dict \<Rightarrow> 'o encoder dict" where
  "registry_or_default encoders = (if encoders = [] then default_encoder_registry else encoders)"

definition native_execution :: "string \<Rightarrow> string \<Rightarrow> int \<Rightarrow> string dict \<Rightarrow> pyval dict" where
  "native_execution protocol digest threads build = [(''protocol'', PStr protocol), (''sha256'', PStr digest),
     (''threads'', PInt threads), (''build'', PDict (map (\<lambda>(key, v). (key, PStr v)) build))]"

definition bundle_execution :: "compiler_request \<Rightarrow> native_bundle \<Rightarrow> pyval dict" where
  "bundle_execution request bundle =
     native_execution M05_PROTOCOL (nb_binary_sha256 bundle) (cr_threads request) (nb_native_build bundle)"

definition direct_execution :: "compiler_request \<Rightarrow> nvfp4_result \<Rightarrow> pyval dict" where
  "direct_execution request result =
     native_execution M06_PROTOCOL (nv_binary_sha256 result) (cr_threads request) (nv_native_build result)"

definition direct_runtime :: "string \<Rightarrow> nvfp4_result \<Rightarrow> pyval dict" where
  "direct_runtime prefix result = map (\<lambda>(key, v). (prefix @ key, v)) [
     (''child_peak_rss_bytes'', PInt (nv_child_peak_rss_bytes result)),
     (''maximum_source_row_bytes'', PInt (nv_maximum_source_row_bytes result)),
     (''source_passes'', PInt (nv_source_passes result)),
     (''analysis_seconds'', PFloat (nv_analysis_seconds result)),
     (''conversion_seconds'', PFloat (nv_conversion_seconds result))]"

definition fp8_request :: "compiler_request \<Rightarrow> string \<Rightarrow> native_request" where
  "fp8_request request executable_path = \<lparr>nr_executable = executable_path,
     nr_timeout_seconds = cr_native_timeout_seconds request, nr_threads = cr_threads request\<rparr>"

definition direct_request_of :: "compiler_request \<Rightarrow> string \<Rightarrow> nvfp4_request" where
  "direct_request_of request executable_path = \<lparr>nq_executable = executable_path,
     nq_timeout_seconds = cr_native_timeout_seconds request, nq_threads = cr_threads request,
     nq_profile = cr_profile request\<rparr>"

text \<open>The native steps over the state; a bundle is remembered for the handler.\<close>

definition bundle_stage :: "environment \<Rightarrow> compile_system \<Rightarrow> native_request \<Rightarrow> quantization_plan \<Rightarrow> sources \<Rightarrow>
    string \<Rightarrow> (compile_state, native_bundle) run" where
  "bundle_stage env sys request plan source_tensors staging s =
     run_bind (on_files (prepare_native_bundle (view_of env s) (file_system.truncate sys) (cs_stuck sys)
       (stage_fp8_executable (view_of env s) (staging_system.truncate sys) (nr_executable request) staging) (cs_fp8_child sys)
       request plan source_tensors staging) s) (\<lambda>bundle s1.
     run_only (Inr bundle) (s1\<lparr>cp_bundle := Some bundle\<rparr>))"

definition direct_stage :: "environment \<Rightarrow> compile_system \<Rightarrow> compiler_request \<Rightarrow> string \<Rightarrow> quantization_plan \<Rightarrow> quantization_plan \<Rightarrow>
    sources \<Rightarrow> string \<Rightarrow> nvfp4_preflight option \<Rightarrow> (compile_state, direct_layout \<times> nvfp4_result) run" where
  "direct_stage env sys request executable_path plan native_plan source_tensors staging preflight s =
     run_bind (on_files (\<lambda>st. Some (prepare_direct_shards (view_of env s) (output_system.truncate sys) staging plan st)) s) (\<lambda>layout s1.
     run_bind (on_files (prepare_native_direct (view_of env s1) (staging_system.truncate sys) (cs_stuck sys) (cs_build_query sys)
       (cs_nvfp4_child sys) (direct_request_of request executable_path) native_plan source_tensors staging layout preflight) s1)
       (\<lambda>result s2. run_only (Inr (layout, result)) s2))"

type_synonym payload_outcome = "written_payload \<times> native_identity option \<times> pyval dict option"

definition fp8_payload :: "environment \<Rightarrow> compile_system \<Rightarrow> compiler_request \<Rightarrow> quantization_plan \<Rightarrow> sources \<Rightarrow> string \<Rightarrow>
    bytes encoder dict \<Rightarrow> (compile_state, payload_outcome) run" where
  "fp8_payload env sys request plan source_tensors staging encoders s = (case cr_native_encoder request of
     None \<Rightarrow> Some (Inl (InvalidPlanError ''M05 compilation requires --native-encoder''), s)
   | Some executable_path \<Rightarrow>
       run_bind (bundle_stage env sys (fp8_request request executable_path) plan source_tensors staging s) (\<lambda>bundle s1.
       run_bind (on_files (write_shards (view_of env s1) (output_system.truncate sys) staging plan source_tensors
         (registry_or_default encoders) (Some bundle)) s1) (\<lambda>payload.
       run_only (Inr (payload, Some (OneNative (bundle_execution request bundle)),
         Some [(''child_peak_rss_bytes'', PInt (nb_child_peak_rss_bytes bundle))])))))"

definition nvfp4_payload :: "environment \<Rightarrow> compile_system \<Rightarrow> compiler_request \<Rightarrow> quantization_plan \<Rightarrow> sources \<Rightarrow> string \<Rightarrow>
    nvfp4_preflight option \<Rightarrow> (compile_state, payload_outcome) run" where
  "nvfp4_payload env sys request plan source_tensors staging preflight s = (case cr_native_encoder request of
     None \<Rightarrow> Some (Inl (InvalidPlanError ''M06/M07 compilation requires --native-encoder''), s)
   | Some executable_path \<Rightarrow>
       run_bind (direct_stage env sys request executable_path plan plan source_tensors staging preflight s)
         (\<lambda>(layout, result) s1.
       run_bind (on_files (finalize_direct_shards (view_of env s1) (output_system.truncate sys) staging plan layout
         (nv_outputs result)) s1) (\<lambda>payload.
       run_only (Inr (payload, Some (OneNative (direct_execution request result)), Some (direct_runtime [] result))))))"

definition FP8_ENCODERS :: "string list" where
  "FP8_ENCODERS = [''fp8-rowwise-weight-v1'', ''fp8-rowwise-scale-v1'']"

definition hybrid_payload :: "environment \<Rightarrow> compile_system \<Rightarrow> compiler_request \<Rightarrow> quantization_plan \<Rightarrow> sources \<Rightarrow> string \<Rightarrow>
    (patch_state \<times> int) encoder dict \<Rightarrow> nvfp4_preflight option \<Rightarrow> (compile_state, payload_outcome) run" where
  "hybrid_payload env sys request plan source_tensors staging encoders preflight s =
    (case (cr_native_fp8_encoder request, cr_native_nvfp4_encoder request) of
       (Some fp8_executable, Some nvfp4_executable) \<Rightarrow>
         run_bind (run_only (rbind (plan_with_encoders plan FP8_ENCODERS) (\<lambda>fp8_plan.
           rbind (plan_with_encoders plan NVFP4_ENCODERS) (\<lambda>nvfp4_plan. Inr (fp8_plan, nvfp4_plan)))) s)
           (\<lambda>(fp8_plan, nvfp4_plan) s1.
         run_bind (bundle_stage env sys (fp8_request request fp8_executable) fp8_plan source_tensors staging s1) (\<lambda>bundle s2.
         run_bind (direct_stage env sys request nvfp4_executable plan nvfp4_plan source_tensors staging preflight s2)
           (\<lambda>(layout, result) s3.
         run_bind (on_files (finalize_mixed_shards (view_of env s3) (output_system.truncate sys) staging plan source_tensors
           layout (nv_outputs result) bundle (registry_or_default encoders)) s3) (\<lambda>payload.
         run_only (Inr (payload, Some (BothNatives (bundle_execution request bundle) (direct_execution request result)),
           Some ((''fp8_child_peak_rss_bytes'', PInt (nb_child_peak_rss_bytes bundle)) # direct_runtime ''nvfp4_'' result)))))))
     | _ \<Rightarrow> Some (Inl (AssertionError ''native encoders''), s))"

definition NVFP4_PROFILES :: "string list" where
  "NVFP4_PROFILES = [''nvfp4-experts-partial-v1'', ''nvfp4-tied-head-partial-v1'']"

definition build_payload :: "environment \<Rightarrow> compile_system \<Rightarrow> compiler_request \<Rightarrow> quantization_plan \<Rightarrow> sources \<Rightarrow> string \<Rightarrow>
    bytes encoder dict \<Rightarrow> (patch_state \<times> int) encoder dict \<Rightarrow> nvfp4_preflight option \<Rightarrow> (compile_state, payload_outcome) run" where
  "build_payload env sys request plan source_tensors staging encoders ranged preflight s =
    (if qp_artifact_profile plan = ''fp8-attention-partial-v1''
     then fp8_payload env sys request plan source_tensors staging encoders s
     else if qp_artifact_profile plan \<in> set NVFP4_PROFILES
     then nvfp4_payload env sys request plan source_tensors staging preflight s
     else if qp_artifact_profile plan \<in> set COMPLETE_HYBRID_PROFILES
     then hybrid_payload env sys request plan source_tensors staging ranged preflight s
     else run_bind (on_files (write_shards (view_of env s) (output_system.truncate sys) staging plan source_tensors
         (registry_or_default encoders) None) s) (\<lambda>payload. run_only (Inr (payload, None, None))))"

text \<open>\<open>NativeBundle.cleanup\<close>\<close>

definition bundle_cleanup :: "compile_system \<Rightarrow> compile_state \<Rightarrow> compile_state" where
  "bundle_cleanup sys s = (case cp_bundle s of
     None \<Rightarrow> s
   | Some bundle \<Rightarrow> set_files s (remove_files (cs_stuck sys) [nb_payload bundle, nb_telemetry_path bundle] (cp_files s)))"

section \<open>The staged artifact\<close>

definition finish_staging :: "environment \<Rightarrow> compile_system \<Rightarrow> compiler_identity \<Rightarrow> compiler_request \<Rightarrow> verified_source \<Rightarrow>
    sources \<Rightarrow> quantization_plan \<Rightarrow> string \<Rightarrow> string \<Rightarrow> written_payload \<Rightarrow> native_identity option \<Rightarrow>
    (compile_state, written_payload \<times> pyval dict) run" where
  "finish_staging env sys identity request source source_tensors plan dependency_hash staging payload native s =
     run_bind (on_files (copy_approved_metadata (view_of env s) (output_system.truncate sys) staging plan (vs_files source)) s)
       (\<lambda>metadata_names s1.
     let written = payload\<lparr>wp_metadata_names := metadata_names\<rparr> in
     run_bind (on_workspace (build_compilation_manifest (view_of env s1) request source plan dependency_hash identity written
       source_tensors staging native) s1) (\<lambda>compilation s2.
     run_bind (on_files (\<lambda>(ws, fs). case write_file_atomic (file_system.truncate sys) (path_join staging COMPILATION_MANIFEST)
         (env_canonical env (PDict compilation)) fs of (r, fs') \<Rightarrow> Some (r, (ws, fs'))) s2) (\<lambda>_ s3.
     run_bind (on_workspace (verify_loaded_artifact (view_of env s3) (cs_walk sys (cp_disk s3)) staging source source_tensors plan
       dependency_hash (expected_threads_of request plan)) s3) (\<lambda>_ s4.
     run_bind (on_workspace (reverify_source_files (view_of env s4) request source) s4) (\<lambda>_.
     run_only (Inr (written, compilation)))))))"

definition manifest_digest :: "environment \<Rightarrow> string \<Rightarrow> (workspace, string) run" where
  "manifest_digest env artifact ws = (let path = path_join artifact COMPILATION_MANIFEST in
     run_bind (run_only (stat_size env path) ws) (\<lambda>byte_count.
     hash_range (env_sha env) (env_rss env) (env_files env path) 0 (nat byte_count)))"

definition native_report :: "quantization_plan \<Rightarrow> native_identity option \<Rightarrow> pyval dict res" where
  "native_report plan native = (case native of
     None \<Rightarrow> Inr []
   | Some (BothNatives f n) \<Rightarrow>
       if qp_artifact_profile plan \<in> set COMPLETE_HYBRID_PROFILES
       then rbind (dict_index f ''build'') (\<lambda>fp8_build. rbind (dict_index n ''build'') (\<lambda>nvfp4_build.
         Inr [(''native_encoders'', PDict [(''fp8'', PDict f), (''nvfp4'', PDict n)]),
           (''native_builds'', PDict [(''fp8'', fp8_build), (''nvfp4'', nvfp4_build)])]))
       else Inl (KeyError ''build'')
   | Some (OneNative d) \<Rightarrow>
       if qp_artifact_profile plan \<in> set COMPLETE_HYBRID_PROFILES
       then Inl (TypeError ''string indices must be integers'')
       else rbind (dict_index d ''build'') (\<lambda>build. Inr [(''native_encoder'', PDict d), (''native_build'', build)]))"

definition statistics_key :: "quantization_plan \<Rightarrow> string" where
  "statistics_key plan = (if qp_artifact_profile plan \<in> set COMPLETE_HYBRID_PROFILES then ''tensor_statistics''
     else if qp_artifact_profile plan = ''fp8-attention-partial-v1'' then ''fp8_tensor_statistics''
     else ''nvfp4_tensor_statistics'')"

definition native_statistics_entries :: "quantization_plan \<Rightarrow> written_payload \<Rightarrow> pyval dict option \<Rightarrow> pyval dict" where
  "native_statistics_entries plan payload runtime =
     (case runtime of None \<Rightarrow> [] | Some entries \<Rightarrow> [(''native_runtime'', PDict entries)])
     @ (case statistics_records payload of [] \<Rightarrow> [] | records \<Rightarrow> [(statistics_key plan, PList records)])"

definition file_count :: "pyval dict \<Rightarrow> int res" where
  "file_count compilation = rbind (dict_index compilation ''files'') (\<lambda>files. case files of
     PList records \<Rightarrow> Inr (int (length records) + 1) | _ \<Rightarrow> Inl (TypeError ''len''))"

definition compile_report :: "environment \<Rightarrow> compile_system \<Rightarrow> compiler_identity \<Rightarrow> compiler_request \<Rightarrow> string \<Rightarrow> string \<Rightarrow>
    verified_source \<Rightarrow> quantization_plan \<Rightarrow> written_payload \<Rightarrow> pyval dict \<Rightarrow> native_identity option \<Rightarrow> pyval dict option \<Rightarrow>
    (workspace, pyval dict) run" where
  "compile_report env sys identity request out_path staging source plan payload compilation native runtime ws =
     run_bind (Some (base_report env sys ''compile'' request ws)) (\<lambda>report ws1.
     run_bind (manifest_digest env staging ws1) (\<lambda>digest ws2.
     run_bind (run_only (rbind (output_tensor_bytes plan) (\<lambda>output_total.
       rbind (file_count compilation) (\<lambda>n_files. Inr (output_total, n_files)))) ws2) (\<lambda>(output_total, n_files) ws3.
     run_bind (Some (telemetry_value env ws3)) (\<lambda>memory.
     run_only (rbind (native_report plan native) (\<lambda>entries.
       Inr (dict_update report ([(''output'', PStr out_path), (''compiler_commit'', PStr (ci_commit identity)),
         (''compiler_dirty'', PBool (ci_dirty identity)), (''source_lock_sha256'', PStr (vs_lock_sha256 source)),
         (''compiler_manifest_sha256'', PStr (qp_compiler_manifest_sha256 plan)),
         (''resolved_plan_sha256'', PStr (qp_resolved_plan_sha256 plan)),
         (''compilation_manifest_sha256'', PStr digest),
         (''output_tensor_count'', PInt (int (length (qp_tensors plan)))), (''output_tensor_bytes'', PInt output_total),
         (''output_file_count'', PInt n_files), (''memory'', memory)]
         @ entries @ native_statistics_entries plan payload runtime))))))))"

section \<open>Compile\<close>

definition preflight_stage :: "environment \<Rightarrow> compile_system \<Rightarrow> compiler_request \<Rightarrow> (workspace, nvfp4_preflight option) prog" where
  "preflight_stage env sys request ws =
    (let run = \<lambda>executable_path. then_do (preflight_native_nvfp4 env (staging_system.truncate sys) (cs_preflight_query sys)
         (cs_temporary sys) (direct_request_of request executable_path) ws) (\<lambda>preflight ws1. (Inr (Some preflight), ws1))
     in if cr_profile request \<in> set COMPLETE_HYBRID_PROFILES
          \<and> (cr_native_fp8_encoder request = None \<or> cr_native_nvfp4_encoder request = None)
        then (Inl (InvalidPlanError ''M08 compilation requires --native-fp8-encoder and --native-nvfp4-encoder''), ws)
        else if cr_profile request \<in> set NVFP4_PROFILES
        then (case cr_native_encoder request of
            None \<Rightarrow> (Inl (InvalidPlanError ''M06/M07 compilation requires --native-encoder''), ws)
          | Some executable_path \<Rightarrow> run executable_path)
        else if cr_profile request \<in> set COMPLETE_HYBRID_PROFILES
        then (case cr_native_nvfp4_encoder request of
            None \<Rightarrow> (Inl (AssertionError ''native encoder''), ws)
          | Some executable_path \<Rightarrow> run executable_path)
        else (Inr None, ws))"

definition check_lock_path :: "environment \<Rightarrow> string option \<Rightarrow> string \<Rightarrow> unit res" where
  "check_lock_path env lock_path out_path = (case lock_path of
     None \<Rightarrow> Inr ()
   | Some path \<Rightarrow>
       rbind (path_taken env path) (\<lambda>taken.
       fail_if taken (OutputError ''external artifact lock already exists'') (
       rbind (canonical_path_allow_missing env path []) (\<lambda>canonical_lock.
       rbind (canonical_path_allow_missing env out_path []) (\<lambda>canonical_output.
       fail_if (path_is_within canonical_lock canonical_output)
         (OutputError ''M08 artifact lock must be external to the artifact directory'') (Inr ()))))))"

text \<open>Steps on the disk and on the workspace of the state.\<close>

definition on_disk :: "(disk, 'a) prog \<Rightarrow> (compile_state, 'a) run" where
  "on_disk m s = (case m (cp_disk s) of (r, d) \<Rightarrow> Some (r, s\<lparr>cp_disk := d\<rparr>))"

text \<open>Everything before the handler: it ends with a new staging directory.\<close>

definition open_staging :: "environment \<Rightarrow> compile_system \<Rightarrow> compiler_request \<Rightarrow> string \<Rightarrow> string option \<Rightarrow>
    (compile_state, string option \<times> string) run" where
  "open_staging env sys request out_path report_path s =
     run_bind (on_disk (preflight_report_path env sys report_path out_path) s) (\<lambda>report s1.
     run_bind (run_only (check_lock_path (view_of env s1) (cr_artifact_lock request) out_path) s1) (\<lambda>_ s2.
     run_bind (on_disk (\<lambda>d. case make_directories sys (parent_path out_path) d of
         (Inl e, d') \<Rightarrow> (Inl (OutputError ''cannot create compiler output parent''), d')
       | (Inr _, d') \<Rightarrow> (Inr (), d')) s2) (\<lambda>_ s3.
     run_bind (on_disk (create_staging_directory (cs_dirs sys) (env_symlink env) out_path) s3) (\<lambda>staging s4.
     run_only (Inr (report, staging)) s4))))"

definition open_compilation :: "environment \<Rightarrow> compile_system \<Rightarrow> compiler_identity \<Rightarrow> compiler_request \<Rightarrow> string \<Rightarrow> string option \<Rightarrow>
    (compile_state, nvfp4_preflight option \<times> (verified_source \<times> sources \<times> quantization_plan \<times> string) \<times>
      string option \<times> string) run" where
  "open_compilation env sys identity request out_path report_path s =
     run_bind (on_workspace (\<lambda>ws. Some (preflight_stage (view_of env s) sys request ws)) s) (\<lambda>preflight s1.
     run_bind (on_workspace (load_request (view_of env s1) request) s1) (\<lambda>(source, source_tensors, plan, dependency_hash) s2.
     run_bind (run_only (check_environment request plan identity) s2) (\<lambda>_ s3.
     run_bind (open_staging env sys request out_path report_path s3) (\<lambda>(report, staging).
     run_only (Inr (preflight, (source, source_tensors, plan, dependency_hash), report, staging))))))"

definition lock_payload :: "environment \<Rightarrow> compile_system \<Rightarrow> compiler_request \<Rightarrow> quantization_plan \<Rightarrow> string \<Rightarrow> pyval dict \<Rightarrow>
    pyval dict \<Rightarrow> (compile_state, pyval dict \<times> bytes option) run" where
  "lock_payload env sys request plan staging compilation report s =
    (if qp_artifact_profile plan \<in> set COMPLETE_HYBRID_PROFILES
     then (case cr_artifact_lock request of
         None \<Rightarrow> Some (Inl (InvalidPlanError ''M08 external artifact lock path is missing''), s)
       | Some path \<Rightarrow>
           run_bind (on_workspace (external_lock_document (view_of env s) (cs_walk sys (cp_disk s)) staging compilation) s)
             (\<lambda>document. run_only (rbind (dict_index document ''artifact_content_sha256'') (\<lambda>content.
               let payload = env_canonical env (PDict document) in
               Inr (dict_update report [(''artifact_lock_sha256'', PStr (env_sha env payload)),
                 (''artifact_content_sha256'', content)], Some payload)))))
     else Some (Inr (report, None), s))"

definition publish_stage :: "compile_system \<Rightarrow> string \<Rightarrow> string \<Rightarrow> (compile_state, unit) run" where
  "publish_stage sys staging out_path s =
     run_bind (on_disk (publish_staging (cs_dirs sys) staging out_path) s) (\<lambda>_ s1.
     run_only (Inr ()) (s1\<lparr>cp_published := True\<rparr>))"

definition write_lock :: "compile_system \<Rightarrow> string option \<Rightarrow> bytes option \<Rightarrow> (compile_state, unit) run" where
  "write_lock sys lock_path payload s = (case payload of
     None \<Rightarrow> Some (Inr (), s)
   | Some document \<Rightarrow> (case lock_path of
       None \<Rightarrow> Some (Inl (AssertionError ''artifact lock''), s)
     | Some path \<Rightarrow>
         run_bind (on_disk (make_directories sys (parent_path path)) s) (\<lambda>_ s1.
         run_bind (on_files (\<lambda>(ws, fs). case write_file_atomic (file_system.truncate sys) path document fs of
             (r, fs') \<Rightarrow> Some (r, (ws, fs'))) s1) (\<lambda>_ s2.
         run_only (Inr ()) (s2\<lparr>cp_lock_written := True\<rparr>)))))"

definition report_stage :: "environment \<Rightarrow> compile_system \<Rightarrow> string option \<Rightarrow> pyval dict \<Rightarrow> (compile_state, unit) run" where
  "report_stage env sys report_path report s =
     run_bind (on_disk (write_report env (file_system.truncate sys) report_path report) s) (\<lambda>_ s1.
     run_only (Inr ()) (s1\<lparr>cp_report_written := report_path \<noteq> None\<rparr>))"

text \<open>The handler: what it removes, and in which order.\<close>

definition unlink_if :: "compile_system \<Rightarrow> bool \<Rightarrow> string option \<Rightarrow> compile_state \<Rightarrow> compile_state" where
  "unlink_if sys b path s = (case path of
     Some p \<Rightarrow> if b then set_files s (remove_files (cs_stuck sys) [p] (cp_files s)) else s
   | None \<Rightarrow> s)"

definition abandon :: "environment \<Rightarrow> compile_system \<Rightarrow> compiler_request \<Rightarrow> string \<Rightarrow> string option \<Rightarrow> compile_state \<Rightarrow> compile_state" where
  "abandon env sys request staging report_path s =
    (let s1 = bundle_cleanup sys s;
         s2 = (if cp_published s1 then s1
           else s1\<lparr>cp_disk := discard_staging (cs_dirs sys) (env_symlink env) (cs_kept sys) staging (cp_disk s1)\<rparr>);
         s3 = unlink_if sys (cp_report_written s2) report_path s2
     in unlink_if sys (cp_lock_written s3 \<and> \<not> cp_published s3) (cr_artifact_lock request) s3)"

definition guarded :: "(compile_state \<Rightarrow> compile_state) \<Rightarrow> ('a res \<times> compile_state) option \<Rightarrow> ('a res \<times> compile_state) option" where
  "guarded handler m = map_option (\<lambda>(r, s). case r of Inl e \<Rightarrow> (Inl e, handler s) | Inr x \<Rightarrow> (Inr x, s)) m"

text \<open>The guarded part, up to the publication and after it.\<close>

definition staged_compilation :: "environment \<Rightarrow> compile_system \<Rightarrow> compiler_identity \<Rightarrow> compiler_request \<Rightarrow> string \<Rightarrow>
    nvfp4_preflight option \<Rightarrow> verified_source \<Rightarrow> sources \<Rightarrow> quantization_plan \<Rightarrow> string \<Rightarrow> string \<Rightarrow>
    bytes encoder dict \<Rightarrow> (patch_state \<times> int) encoder dict \<Rightarrow> (compile_state, pyval dict \<times> bytes option) run" where
  "staged_compilation env sys identity request out_path preflight source source_tensors plan dependency_hash staging
     encoders ranged s =
     run_bind (build_payload env sys request plan source_tensors staging encoders ranged preflight s)
       (\<lambda>(payload, native, runtime) s1.
     let s2 = (bundle_cleanup sys s1)\<lparr>cp_bundle := None\<rparr> in
     run_bind (finish_staging env sys identity request source source_tensors plan dependency_hash staging payload native s2)
       (\<lambda>(written, compilation) s3.
     run_bind (on_workspace (compile_report (view_of env s3) sys identity request out_path staging source plan written
       compilation native runtime) s3) (\<lambda>report s4.
     lock_payload env sys request plan staging compilation report s4)))"

definition publish_compilation :: "environment \<Rightarrow> compile_system \<Rightarrow> compiler_request \<Rightarrow> string \<Rightarrow> string \<Rightarrow> string option \<Rightarrow>
    pyval dict \<Rightarrow> bytes option \<Rightarrow> (compile_state, pyval dict) run" where
  "publish_compilation env sys request staging out_path report_path report payload s =
     run_bind (publish_stage sys staging out_path s) (\<lambda>_ s1.
     run_bind (write_lock sys (cr_artifact_lock request) payload s1) (\<lambda>_ s2.
     run_bind (report_stage env sys report_path report s2) (\<lambda>_. run_only (Inr report))))"

definition compile_run :: "environment \<Rightarrow> compile_system \<Rightarrow> compiler_identity \<Rightarrow> compiler_request \<Rightarrow> string \<Rightarrow> string option \<Rightarrow>
    bytes encoder dict \<Rightarrow> (patch_state \<times> int) encoder dict \<Rightarrow> (compile_state, pyval dict) run" where
  "compile_run env sys identity request out_path report_path encoders ranged s =
     run_bind (open_compilation env sys identity request out_path report_path s)
       (\<lambda>(preflight, (source, source_tensors, plan, dependency_hash), report, staging) s1.
     guarded (abandon env sys request staging report) (
       run_bind (staged_compilation env sys identity request out_path preflight source source_tensors plan dependency_hash
         staging encoders ranged s1) (\<lambda>(document, payload).
       publish_compilation env sys request staging out_path report document payload)))"

definition compile_start :: "workspace \<Rightarrow> disk \<Rightarrow> compile_state" where
  "compile_start ws d = \<lparr>cp_workspace = ws, cp_disk = d, cp_bundle = None, cp_published = False, cp_lock_written = False,
     cp_report_written = False\<rparr>"

definition compile_artifact :: "environment \<Rightarrow> compile_system \<Rightarrow> compiler_identity res \<Rightarrow> bool \<Rightarrow> compiler_request \<Rightarrow> string \<Rightarrow>
    string option \<Rightarrow> bytes encoder dict \<Rightarrow> (patch_state \<times> int) encoder dict \<Rightarrow> (disk, pyval dict) run" where
  "compile_artifact env sys identity allow_dirty request out_path report_path encoders ranged d =
    (case rbind (workspace_new (env_rss env) (cr_host_memory_cap_bytes request) (cr_staging_bytes request)) (\<lambda>ws.
       rbind identity (\<lambda>who. fail_if (ci_dirty who \<and> \<not> allow_dirty)
         (InvalidPlanError ''release compiler requires a clean repository'') (Inr (ws, who)))) of
       Inl e \<Rightarrow> Some (Inl e, d)
     | Inr (ws, who) \<Rightarrow> map_option (\<lambda>(r, s). (r, cp_disk s))
         (compile_run env sys who request out_path report_path encoders ranged (compile_start ws d)))"

section \<open>Verify\<close>

definition verify_paths :: "environment \<Rightarrow> compile_system \<Rightarrow> string \<Rightarrow> string option \<Rightarrow> (disk, string \<times> string option) prog" where
  "verify_paths env sys requested report_path d =
     then_do (fail_if (env_symlink env requested)
       (SourceVerificationError ''compiled artifact root must not be a symlink'') (
       case env_resolve env requested of
         None \<Rightarrow> Inl (SourceVerificationError ''cannot resolve compiled artifact'')
       | Some artifact \<Rightarrow> rbind (is_dir (looking env d) artifact) (\<lambda>directory.
           fail_if (\<not> directory) (SourceVerificationError ''compiled artifact is not a directory'') (Inr artifact))), d)
     (\<lambda>artifact d1.
     then_do (preflight_report_path env sys report_path artifact d1) (\<lambda>report d2. (Inr (artifact, report), d2)))"

definition external_lock_digest :: "environment \<Rightarrow> compile_system \<Rightarrow> compiler_request \<Rightarrow> quantization_plan \<Rightarrow> string \<Rightarrow> pyval dict \<Rightarrow>
    (compile_state, string option) run" where
  "external_lock_digest env sys request plan artifact compilation s =
    (if qp_artifact_profile plan \<in> set COMPLETE_HYBRID_PROFILES
     then (case cr_artifact_lock request of
         None \<Rightarrow> Some (Inl (InvalidPlanError ''M08 external artifact lock path is missing''), s)
       | Some path \<Rightarrow>
           run_bind (on_workspace (verify_external_artifact_lock (view_of env s) (cs_walk sys (cp_disk s)) artifact path compilation) s)
             (\<lambda>digest. run_only (Inr (Some digest))))
     else Some (Inr None, s))"

definition recorded_compiler :: "pyval dict \<Rightarrow> (pyval \<times> pyval) res" where
  "recorded_compiler compilation = rbind (dict_index compilation ''compiler'') (\<lambda>v. case v of
     PDict compiler \<Rightarrow> rbind (dict_index compiler ''commit'') (\<lambda>commit.
       rbind (dict_index compiler ''dirty'') (\<lambda>dirty. Inr (commit, dirty)))
   | _ \<Rightarrow> Inl (TypeError ''subscript''))"

definition lock_entries :: "environment \<Rightarrow> compiler_request \<Rightarrow> string option \<Rightarrow> pyval dict res" where
  "lock_entries env request digest = (case (digest, cr_artifact_lock request) of
     (Some lock_digest, Some path) \<Rightarrow>
       rbind (load_json (json_file_of env path) (16 * 1024 * 1024)) (\<lambda>document.
       rbind (dict_index document ''artifact_content_sha256'') (\<lambda>content.
       Inr [(''artifact_lock_sha256'', PStr lock_digest), (''artifact_content_sha256'', content)]))
   | _ \<Rightarrow> Inr [])"

definition verify_report :: "environment \<Rightarrow> compile_system \<Rightarrow> compiler_request \<Rightarrow> string \<Rightarrow> verified_source \<Rightarrow> quantization_plan \<Rightarrow>
    pyval dict \<Rightarrow> string option \<Rightarrow> (workspace, pyval dict) run" where
  "verify_report env sys request artifact source plan compilation lock_digest ws =
     run_bind (Some (base_report env sys ''verify'' request ws)) (\<lambda>report ws1.
     run_bind (run_only (recorded_compiler compilation) ws1) (\<lambda>(commit, dirty) ws2.
     run_bind (manifest_digest env artifact ws2) (\<lambda>digest ws3.
     run_bind (run_only (output_tensor_bytes plan) ws3) (\<lambda>output_total ws4.
     run_bind (Some (telemetry_value env ws4)) (\<lambda>memory.
     run_only (rbind (lock_entries env request lock_digest) (\<lambda>entries.
       Inr (dict_update report ([(''artifact'', PStr artifact), (''source_lock_sha256'', PStr (vs_lock_sha256 source)),
         (''compiler_manifest_sha256'', PStr (qp_compiler_manifest_sha256 plan)),
         (''resolved_plan_sha256'', PStr (qp_resolved_plan_sha256 plan)), (''recorded_compiler_commit'', commit),
         (''recorded_compiler_dirty'', dirty), (''compilation_manifest_sha256'', PStr digest),
         (''output_tensor_count'', PInt (int (length (qp_tensors plan)))), (''output_tensor_bytes'', PInt output_total),
         (''memory'', memory)] @ entries)))))))))"

definition verify_run :: "environment \<Rightarrow> compile_system \<Rightarrow> compiler_identity res \<Rightarrow> compiler_request \<Rightarrow> string \<Rightarrow> string option \<Rightarrow>
    (compile_state, pyval dict) run" where
  "verify_run env sys identity request requested report_path s =
     run_bind (on_disk (verify_paths env sys requested report_path) s) (\<lambda>(artifact, report) s1.
     run_bind (on_workspace (load_request (view_of env s1) request) s1) (\<lambda>(source, source_tensors, plan, dependency_hash) s2.
     run_bind (run_only (rbind identity (check_environment request plan)) s2) (\<lambda>_ s3.
     run_bind (on_workspace (verify_loaded_artifact (view_of env s3) (cs_walk sys (cp_disk s3)) artifact source source_tensors
       plan dependency_hash (expected_threads_of request plan)) s3) (\<lambda>compilation s4.
     run_bind (external_lock_digest env sys request plan artifact compilation s4) (\<lambda>lock_digest s5.
     run_bind (on_workspace (reverify_source_files (view_of env s5) request source) s5) (\<lambda>_ s6.
     run_bind (on_workspace (verify_report (view_of env s6) sys request artifact source plan compilation lock_digest) s6)
       (\<lambda>document s7.
     run_bind (on_disk (write_report env (file_system.truncate sys) report document) s7) (\<lambda>_.
     run_only (Inr document)))))))))"

definition verify_artifact :: "environment \<Rightarrow> compile_system \<Rightarrow> compiler_identity res \<Rightarrow> compiler_request \<Rightarrow> string \<Rightarrow>
    string option \<Rightarrow> (disk, pyval dict) run" where
  "verify_artifact env sys identity request requested report_path d =
    (case workspace_new (env_rss env) (cr_host_memory_cap_bytes request) (cr_staging_bytes request) of
       Inl e \<Rightarrow> Some (Inl e, d)
     | Inr ws \<Rightarrow> map_option (\<lambda>(r, s). (r, cp_disk s))
         (verify_run env sys identity request requested report_path (compile_start ws d)))"

section \<open>Compare\<close>

text \<open>Size and digest of every file below a directory, by relative path; paths are ordered by component.\<close>

definition hash_file_step :: "environment \<Rightarrow> string \<Rightarrow> (int \<times> string) dict \<Rightarrow> string \<Rightarrow> (int \<times> string) dict res" where
  "hash_file_step env base hashes relative = (let path = path_join base relative in
     fail_if (env_symlink env path) (ReproducibilityError ''artifact contains symlink'') (
     rbind (is_dir env path) (\<lambda>directory.
     if directory then Inr hashes
     else case env_files env path of
         None \<Rightarrow> Inl (ReproducibilityError ''cannot hash'')
       | Some data \<Rightarrow> Inr (dict_set relative (int (length data), env_sha env data) hashes))))"

definition directory_hashes :: "environment \<Rightarrow> (string \<Rightarrow> string list) \<Rightarrow> string \<Rightarrow> (int \<times> string) dict res" where
  "directory_hashes env walk path = (case env_resolve env path of
     None \<Rightarrow> Inl (ReproducibilityError ''cannot resolve artifact'')
   | Some resolved \<Rightarrow> rbind (is_dir env resolved) (\<lambda>directory.
       fail_if (\<not> directory) (ReproducibilityError ''artifact is not a directory'')
         (rfold (hash_file_step env resolved) [] (sort_key path_parts (walk resolved)))))"

definition hash_value :: "int \<times> string \<Rightarrow> pyval" where
  "hash_value entry = PDict [(''size'', PInt (fst entry)), (''sha256'', PStr (snd entry))]"

definition mismatch_record :: "(int \<times> string) dict \<Rightarrow> (int \<times> string) dict \<Rightarrow> string \<Rightarrow> pyval" where
  "mismatch_record left right path = (let value = \<lambda>d. (case dict_get d path of None \<Rightarrow> PNone | Some h \<Rightarrow> hash_value h) in
     PDict [(''path'', PStr path), (''left'', value left), (''right'', value right)])"

definition mismatched_paths :: "(int \<times> string) dict \<Rightarrow> (int \<times> string) dict \<Rightarrow> string list" where
  "mismatched_paths left right = filter (\<lambda>path. dict_get left path \<noteq> dict_get right path)
     (sorted_list_of_set (dict_keys left \<union> dict_keys right))"

text \<open>\<open>value in COMPLETE_HYBRID_PROFILES\<close>, which needs a hashable value.\<close>

definition is_hybrid_value :: "pyval \<Rightarrow> bool res" where
  "is_hybrid_value v = (case v of
     PStr s \<Rightarrow> Inr (s \<in> set COMPLETE_HYBRID_PROFILES)
   | PList _ \<Rightarrow> Inl (TypeError ''unhashable type'')
   | PDict _ \<Rightarrow> Inl (TypeError ''unhashable type'')
   | _ \<Rightarrow> Inr False)"

definition compared_milestone :: "environment \<Rightarrow> string \<Rightarrow> string \<Rightarrow> string res" where
  "compared_milestone env left right =
    (case rbind (load_json (json_file_of env (path_join left COMPILATION_MANIFEST)) (64 * 1024 * 1024)) (\<lambda>left_manifest.
       rbind (load_json (json_file_of env (path_join right COMPILATION_MANIFEST)) (64 * 1024 * 1024)) (\<lambda>right_manifest.
       let profile = obj_get left_manifest ''artifact_profile'' in
       rbind (is_hybrid_value profile) (\<lambda>hybrid.
       Inr (if hybrid \<and> obj_get right_manifest ''artifact_profile'' = profile
         then (if profile = PStr ''sm120-mtp-assistant-hybrid-v1'' then ''M25'' else ''M08'') else ''M04'')))) of
       Inl e \<Rightarrow> if is_invalid_plan e then Inr ''M04'' else Inl e
     | Inr milestone \<Rightarrow> Inr milestone)"

definition compare_report :: "compile_system \<Rightarrow> string \<Rightarrow> (int \<times> string) dict \<Rightarrow> (int \<times> string) dict \<Rightarrow> pyval dict" where
  "compare_report sys milestone left right = (let mismatches = mismatched_paths left right in
    [(''schema_version'', PInt 1), (''milestone'', PStr milestone), (''action'', PStr ''compare-reproducibility''),
     (''status'', PStr (if mismatches = [] then ''pass'' else ''fail'')), (''duration_seconds'', cs_duration sys),
     (''file_count'', PInt (int (card (dict_keys left \<union> dict_keys right)))),
     (''mismatch_count'', PInt (int (length mismatches))),
     (''mismatches'', PList (map (mismatch_record left right) (take 1 mismatches))),
     (''files'', PDict (if mismatches = [] then map (\<lambda>(path, h). (path, hash_value h)) left else []))])"

definition compare_reproducibility :: "environment \<Rightarrow> compile_system \<Rightarrow> string \<Rightarrow> string \<Rightarrow> string option \<Rightarrow> (disk, pyval dict) prog" where
  "compare_reproducibility env sys left right report_path d =
    (let view = looking env d; walk = cs_walk sys d in
     then_do (rbind (directory_hashes view walk left) (\<lambda>left_hashes.
       rbind (directory_hashes view walk right) (\<lambda>right_hashes.
       rbind (compared_milestone view left right) (\<lambda>milestone. Inr (left_hashes, right_hashes, milestone)))), d)
     (\<lambda>(left_hashes, right_hashes, milestone) d1.
     let report = compare_report sys milestone left_hashes right_hashes in
     then_do (write_report env (file_system.truncate sys) report_path report d1) (\<lambda>_ d2.
     (fail_if (mismatched_paths left_hashes right_hashes \<noteq> []) (ReproducibilityError ''artifact reproducibility mismatch'')
        (Inr report), d2))))"

end
