(* ===== verification/Run_Facts.thy ===== *)
theory Run_Facts
  imports Compiler_Run Compiler_Facts
begin

text \<open>
  A compilation as a transaction: what it does before the publication stays inside the staging
  directory, a failure before the publication leaves the files as they were, and what is published
  is what was verified. A comparison passes exactly on equal directories.
\<close>

section \<open>Paths below a directory\<close>

lemma below_iff: "below dir path \<longleftrightarrow> path = dir \<or> (\<exists>r. path = dir @ ''/'' @ r)"
  by (auto simp: below_def strip_prefix_Some)

lemma below_join: "below dir base \<Longrightarrow> \<not> ends_with ''/'' dir \<Longrightarrow> below dir (path_join base part)"
  by (auto simp: below_iff path_join_def)

lemma below_join_parts: "below dir base \<Longrightarrow> \<not> ends_with ''/'' dir \<Longrightarrow> below dir (join_parts base parts)"
  unfolding join_parts_def by (induction parts arbitrary: base) (simp_all add: below_join)

lemma below_self [simp]: "below dir dir"
  by (simp add: below_def)

lemma below_temporary: "\<not> ends_with ''/'' dir \<Longrightarrow> below dir (path_join dir part @ ''.tmp'')"
  by (auto simp: below_iff path_join_def)

lemma staging_no_slash [simp]: "\<not> ends_with ''/'' (staging_path out_path)"
  by (simp add: ends_with_def staging_path_def)

text \<open>An output and its staging directory have nothing in common.\<close>

lemma below_disjoint: "below out_path p \<Longrightarrow> \<not> below (staging_path out_path) p"
  by (auto simp: below_iff staging_path_def)

section \<open>Confined changes\<close>

definition confined :: "string \<Rightarrow> files \<Rightarrow> files \<Rightarrow> bool" where
  "confined dir fs fs' \<longleftrightarrow> (\<forall>p. \<not> below dir p \<longrightarrow> fs' p = fs p)"

lemma confined_refl [simp]: "confined dir fs fs"
  by (simp add: confined_def)

lemma confined_trans: "confined dir fs fs' \<Longrightarrow> confined dir fs' fs'' \<Longrightarrow> confined dir fs fs''"
  by (simp add: confined_def)

lemma confined_update: "confined dir fs fs' \<Longrightarrow> below dir path \<Longrightarrow> confined dir fs (fs'(path := x))"
  by (auto simp: confined_def)

lemma confined_remove: "confined dir fs fs' \<Longrightarrow> \<forall>p\<in>set paths. below dir p \<Longrightarrow> confined dir fs (remove_files stuck paths fs')"
  by (auto simp: confined_def remove_files_def)

text \<open>Whatever a computation does, it leaves a state with \<open>P\<close>.\<close>

definition always :: "('a res \<times> 's) option \<Rightarrow> ('s \<Rightarrow> bool) \<Rightarrow> bool" where
  "always m P \<longleftrightarrow> (\<forall>r s. m = Some (r, s) \<longrightarrow> P s)"

lemma always_simps [simp]: "always None P" "always (Some (r, s)) P \<longleftrightarrow> P s"
  by (simp_all add: always_def)

lemma always_bind: "always m P \<Longrightarrow> (\<And>x s. P s \<Longrightarrow> always (f x s) P) \<Longrightarrow> always (run_bind m f) P"
  by (auto simp: always_def run_bind_def split: option.splits sum.splits prod.splits)

lemma always_fold: "P s \<Longrightarrow> (\<And>acc x s. P s \<Longrightarrow> always (f acc x s) P) \<Longrightarrow> always (run_fold f acc xs s) P"
  by (induction xs arbitrary: acc s) (auto intro: always_bind)

lemma always_map: "always m P \<Longrightarrow> (\<And>r s. P s \<Longrightarrow> Q (snd (h (r, s)))) \<Longrightarrow> always (map_option h m) Q"
  unfolding always_def by (auto, metis snd_conv)

lemma always_Some: "always (Some m) P \<longleftrightarrow> P (snd m)"
  by (cases m) simp

lemma always_then: "P (snd m) \<Longrightarrow> (\<And>x s. P s \<Longrightarrow> P (snd (f x s))) \<Longrightarrow> P (snd (then_do m f))"
  by (auto simp: sbind_def split: sum.splits prod.splits)

lemma always_prog_fold: "P s \<Longrightarrow> (\<And>acc x s. P s \<Longrightarrow> P (snd (f acc x s))) \<Longrightarrow> P (snd (prog_fold f acc xs s))"
  by (induction xs arbitrary: acc s) (auto intro: always_then)

lemma always_prog: "always (case m of (r, s) \<Rightarrow> Some (r, g s)) P \<longleftrightarrow> P (g (snd m))"
  by (cases m) simp

text \<open>The invariant of a run in a staging directory.\<close>

definition inside :: "string \<Rightarrow> files \<Rightarrow> workspace \<times> files \<Rightarrow> bool" where
  "inside dir fs st \<longleftrightarrow> confined dir fs (snd st)"

lemma inside_pair [simp]: "inside dir fs (ws, fs') \<longleftrightarrow> confined dir fs fs'"
  by (simp add: inside_def)

lemma always_on_file: "confined dir fs fs' \<Longrightarrow> below dir path \<Longrightarrow> always (on_file path fs' m) (inside dir fs)"
  by (auto simp: always_def on_file_def intro: confined_update)

lemma write_file_atomic_confined:
  assumes "confined dir fs fs'" "below dir path" "below dir (path @ ''.tmp'')"
  shows "confined dir fs (snd (write_file_atomic fsys path payload fs'))"
  using assms by (auto simp: write_file_atomic_def Let_def confined_def split: sum.splits prod.splits)

text \<open>A child process that changes nothing outside the staging directory.\<close>

definition stays_inside :: "string \<Rightarrow> (files \<Rightarrow> child_outcome \<times> files) \<Rightarrow> bool" where
  "stays_inside dir child \<longleftrightarrow> (\<forall>fs. confined dir fs (snd (child fs)))"

section \<open>The writer stays in its directory\<close>

text \<open>The directory the writer and the native steps are given, and the files they started from.\<close>

locale staging_directory =
  fixes staging :: string and start :: files
  assumes dir: "\<not> ends_with ''/'' staging"
begin

lemma inside_join [simp]: "below staging (path_join staging part)"
  by (simp add: below_join dir)

lemma inside_temporary [simp]: "below staging (path_join staging part @ ''.tmp'')"
  by (simp add: below_temporary dir)

lemma write_index_inside:
  assumes "inside staging start st"
  shows "always (write_index env fsys plan (path_join staging part) weights st) (inside staging start)"
  unfolding write_index_def
  by (rule always_bind) (use assms in \<open>auto simp: always_prog write_file_atomic_confined split: prod.splits\<close>)

lemma write_shard_inside:
  assumes "inside staging start st"
  shows "always (write_shard env fsys label source_tensors encoders staging written assignment st) (inside staging start)"
  unfolding write_shard_def Let_def
  using assms
  by (auto intro!: always_bind always_on_file simp: inside_def split: prod.splits sum.splits)

lemma write_shards_inside:
  assumes "inside staging start st"
  shows "always (write_shards env fsys staging plan source_tensors encoders nb st) (inside staging start)"
  unfolding write_shards_def
  using assms by (auto intro!: always_bind always_fold write_index_inside write_shard_inside split: prod.splits)

lemma preallocate_inside:
  "preallocate fsys path header n fs = (r, fs') \<Longrightarrow> confined staging start fs \<Longrightarrow> below staging path \<Longrightarrow>
    confined staging start fs'"
  by (auto simp: preallocate_def Let_def confined_def split: sum.splits prod.splits if_splits)

lemma prepare_shard_inside:
  assumes "confined staging start fs"
  shows "inside staging start (snd (prepare_shard env fsys label staging outputs assignment (ws, fs)))"
proof (cases "safetensors_header env (sa_tensors assignment) label")
  case (Inr h)
  obtain header offsets where h: "h = (header, offsets)" by fastforce
  obtain q ws1 where q: "record_header (env_rss env) (int (length header) - 8) ws = (q, ws1)" by fastforce
  show ?thesis
  proof (cases q)
    case ok: (Inr u)
    show ?thesis
    proof (cases "sum_bytes (sa_tensors assignment)")
      case sized: (Inr n)
      obtain p fs3 where p: "preallocate fsys (path_join staging (sa_name assignment)) header (length header + nat n) fs = (p, fs3)"
        by fastforce
      from preallocate_inside [OF this assms] have "confined staging start fs3" by simp
      with Inr h q ok sized p show ?thesis by (cases p) (simp_all add: prepare_shard_def Let_def)
    qed (use Inr h q ok assms in \<open>simp add: prepare_shard_def Let_def\<close>)
  qed (use Inr h q assms in \<open>simp add: prepare_shard_def Let_def\<close>)
qed (use assms in \<open>simp add: prepare_shard_def\<close>)

lemma prepare_shard_inside':
  "inside staging start st \<Longrightarrow> inside staging start (snd (prepare_shard env fsys label staging outputs assignment st))"
  by (cases st) (simp add: prepare_shard_inside)

lemma prepare_direct_shards_inside:
  assumes "inside staging start st"
  shows "inside staging start (snd (prepare_direct_shards env fsys staging plan st))"
  unfolding prepare_direct_shards_def
  by (rule always_then, simp add: assms, rule always_then, simp, rule always_then, rule always_prog_fold, simp)
    (simp_all add: prepare_shard_inside')

lemma finalize_direct_shards_inside:
  assumes "inside staging start st"
  shows "always (finalize_direct_shards env fsys staging plan layout results st) (inside staging start)"
proof (cases st)
  case (Pair ws fs)
  obtain r ws1 where r: "prog_fold (reconcile_shard env staging plan layout results) [] (dl_assignments layout) ws = (r, ws1)"
    by fastforce
  show ?thesis
    by (cases r) (use assms Pair r in \<open>auto simp: finalize_direct_shards_def intro!: always_bind write_index_inside\<close>)
qed

lemma fill_range_inside:
  assumes "inside staging start st" "below staging path"
  shows "always (fill_range env fsys source_tensors registry path offset tensor st) (inside staging start)"
proof (cases st)
  case (Pair ws fs)
  with assms have "confined staging start (fs(path := x))" for x by (simp add: confined_update)
  with Pair assms show ?thesis
    by (auto simp: fill_range_def always_def run_bind_def split: option.splits sum.splits prod.splits if_splits)
qed

lemma place_tensor_inside:
  assumes "inside staging start st"
  shows "always (place_tensor env fsys staging plan source_tensors layout results registry assigned written tensor st)
    (inside staging start)"
  unfolding place_tensor_def
  using assms by (auto intro!: always_bind fill_range_inside split: prod.splits option.splits)

lemma finalize_mixed_shards_inside:
  assumes "inside staging start st"
  shows "always (finalize_mixed_shards env fsys staging plan source_tensors layout results bundle encoders st)
    (inside staging start)"
  unfolding finalize_mixed_shards_def Let_def
  using assms by (auto intro!: always_bind always_fold place_tensor_inside write_index_inside split: prod.splits)

lemma generate_config_confined:
  assumes "generate_config env fsys plan source destination fs = (r, fs')" "confined staging start fs" "below staging destination"
  shows "confined staging start fs'"
  using assms
  by (auto simp: generate_config_def write_new_file_def sbind_def confined_update split: option.splits sum.splits prod.splits)

lemma copy_metadata_inside:
  assumes "inside staging start st" "below staging destination"
  shows "always (copy_metadata env fsys source destination st) (inside staging start)"
  unfolding copy_metadata_def
  using assms by (auto intro!: always_bind always_on_file simp: inside_def split: prod.splits)

lemma metadata_step_inside:
  assumes "inside staging start st"
  shows "always (metadata_step env fsys staging plan files copied_names relative st) (inside staging start)"
proof (cases "rbind (safe_relative_path relative) (\<lambda>parts. rbind (dict_index files relative) (\<lambda>source.
    let destination = join_parts staging parts in
    fail_if (mkdir_fails fsys destination) (OSError ''mkdir'') (Inr (source, destination))))")
  case (Inr x)
  then obtain source parts where x: "x = (source, join_parts staging parts)" by (auto simp: Let_def)
  have b: "below staging (join_parts staging parts)" by (simp add: below_join_parts dir)
  obtain r fs' where g: "generate_config env fsys plan source (join_parts staging parts) (snd st) = (r, fs')" by fastforce
  from generate_config_confined [OF g _ b] assms have c: "confined staging start fs'" by (simp add: inside_def)
  show ?thesis
    unfolding metadata_step_def Inr x
    using assms b g c
    by (cases st) (auto intro!: always_bind copy_metadata_inside simp: inside_def)
qed (use assms in \<open>simp add: metadata_step_def\<close>)

lemma copy_approved_metadata_inside:
  assumes "inside staging start st"
  shows "always (copy_approved_metadata env fsys staging plan files st) (inside staging start)"
  unfolding copy_approved_metadata_def by (rule always_fold) (simp_all add: assms metadata_step_inside)

section \<open>So do the native steps\<close>

lemma stage_executable_inside:
  assumes "inside staging start st" "below staging staged"
  shows "inside staging start (snd (stage_executable env sys first source staged st))"
proof -
  obtain ws fs where st: "st = (ws, fs)" by fastforce
  obtain r ws' fs' where run: "stage_executable env sys first source staged (ws, fs) = (r, (ws', fs'))" by (metis prod.exhaust)
  have "fs' p = fs p" if "\<not> below staging p" for p
    using stage_executable_frame [OF run, of p] that assms(2) by auto
  with assms st run show ?thesis by (simp add: confined_def)
qed

lemma child_inside: "stays_inside staging child \<Longrightarrow> confined staging start fs \<Longrightarrow> child fs = (ch, fs') \<Longrightarrow> confined staging start fs'"
  by (metis confined_trans snd_conv stays_inside_def)

lemma native_paths [simp]:
  "below staging (job_path staging)" "below staging (payload_path staging)" "below staging (telemetry_path staging)"
  "below staging (Native_FP8.staged_path staging)" "below staging (nvfp4_staged_path staging)"
  "below staging (nvfp4_job_path staging)" "below staging (nvfp4_telemetry_path staging)"
  "below staging (job_path staging @ ''.tmp'')" "below staging (nvfp4_job_path staging @ ''.tmp'')"
  by (simp_all add: job_path_def payload_path_def telemetry_path_def Native_FP8.staged_path_def nvfp4_staged_path_def
      nvfp4_job_path_def nvfp4_telemetry_path_def)

lemma run_native_inside:
  assumes "stays_inside staging child" "confined staging start fs"
  shows "inside staging start (snd (run_native env stuck child request job n staging digest (ws, fs)))"
proof -
  obtain ch fs1 where c: "child fs = (ch, fs1)" by fastforce
  have "confined staging start fs1" by (rule child_inside [OF assms c])
  with c show ?thesis
    by (auto simp: run_native_def Let_def intro!: confined_remove split: sum.splits prod.splits)
qed

lemma prepare_native_bundle_inside:
  assumes "stays_inside staging child" "inside staging start st"
    "\<And>st. inside staging start st \<Longrightarrow> inside staging start (snd (stage st))"
  shows "always (prepare_native_bundle env fsys stuck stage child request plan source_tensors staging st) (inside staging start)"
proof -
  obtain ws fs where st: "st = (ws, fs)" by fastforce
  have c: "confined staging start fs" using assms(2) st by simp
  show ?thesis
  proof (cases "prepare_job env request plan source_tensors fs staging ws")
    case (Some q)
    obtain r ws1 where q: "q = (r, ws1)" by fastforce
    show ?thesis
    proof (cases r)
      case (Inr jp)
      obtain job n where jp: "jp = (job, n)" by fastforce
      obtain h ws2 fs2 where stage: "stage (ws1, fs) = (h, (ws2, fs2))" by (metis prod.exhaust)
      from assms(3) [of "(ws1, fs)"] c stage have c2: "confined staging start fs2" by simp
      obtain w fs3 where w: "write_file_atomic fsys (job_path staging) (env_canonical env (job_document job)) fs2 = (w, fs3)"
        by fastforce
      from write_file_atomic_confined [OF c2, of "job_path staging" fsys "env_canonical env (job_document job)"] w
      have c3: "confined staging start fs3" by simp
      note last = run_native_inside [OF assms(1) c3]
      show ?thesis
      proof (cases h)
        case Inl: (Inl e)
        with st Some q Inr jp stage c2 show ?thesis by (simp add: prepare_native_bundle_def)
      next
        case h: (Inr digest)
        show ?thesis
        proof (cases w)
          case Inl: (Inl e)
          with st Some q Inr jp stage h w c3 show ?thesis by (simp add: prepare_native_bundle_def)
        next
          case ok: (Inr u)
          with st Some q Inr jp stage h w last show ?thesis by (simp add: prepare_native_bundle_def always_Some)
        qed
      qed
    qed (use st Some q c in \<open>simp add: prepare_native_bundle_def\<close>)
  qed (use st in \<open>simp add: prepare_native_bundle_def\<close>)
qed

lemma prepare_direct_job_inside:
  assumes "confined staging start fs"
  shows "always (prepare_direct_job env fsys q expected request plan source_tensors layout staging digest (ws, fs))
    (inside staging start)"
proof -
  have w: "confined staging start fs'" if "write_file_atomic fsys (nvfp4_job_path staging) payload fs = (r, fs')" for payload r fs'
    using write_file_atomic_confined [OF assms, of "nvfp4_job_path staging" fsys payload] that by simp
  show ?thesis
  proof (cases "check_build env plan expected q digest")
    case (Inr build)
    then show ?thesis using assms by (auto simp: prepare_direct_job_def always_def split: sum.split_asm prod.split_asm dest: w)
  qed (use assms in \<open>simp add: prepare_direct_job_def\<close>)
qed

lemma run_direct_inside:
  assumes "stays_inside staging child" "confined staging start fs"
  shows "always (run_direct env stuck child request job layout staging digest build (ws, fs)) (inside staging start)"
proof -
  obtain ch fs1 where c: "child fs = (ch, fs1)" by fastforce
  have "confined staging start (remove_files stuck (temporary_paths staging) fs1)"
    by (rule confined_remove [OF child_inside [OF assms c]]) (simp add: temporary_paths_def)
  with c show ?thesis by (auto simp: run_direct_def Let_def always_def split: prod.splits)
qed

lemma prepare_native_direct_inside:
  assumes "stays_inside staging child" "inside staging start st"
  shows "always (prepare_native_direct env sys stuck q child request plan source_tensors staging layout expected st)
    (inside staging start)"
  unfolding prepare_native_direct_def
proof (rule always_bind, goal_cases)
  case 1
  show ?case using assms(2) by simp
next
  case (2 u st1)
  show ?case
  proof (rule always_bind, goal_cases)
    case 1
    show ?case using stage_executable_inside [OF 2] by (simp add: always_Some stage_nvfp4_executable_def)
  next
    case (2 digest st2)
    obtain ws fs where st: "st2 = (ws, fs)" by fastforce
    with 2 have c: "confined staging start fs" by simp
    show ?case
    proof (cases "prepare_direct_job env (file_system.truncate sys) q expected request plan source_tensors layout staging digest st2")
      case (Some x)
      obtain r ws3 fs3 where x: "x = (r, (ws3, fs3))" by (metis prod.exhaust)
      have c3: "confined staging start fs3"
        using prepare_direct_job_inside [OF c] Some x st unfolding always_def by fastforce
      show ?thesis
      proof (cases r)
        case (Inl e)
        have "confined staging start (remove_files stuck [nvfp4_staged_path staging] fs3)"
          by (rule confined_remove [OF c3]) simp
        with Some x Inl show ?thesis by simp
      next
        case (Inr jb)
        obtain job build where "jb = (job, build)" by fastforce
        with Some x Inr run_direct_inside [OF assms(1) c3] show ?thesis by simp
      qed
    qed simp
  qed
qed

end

text \<open>The directory of a compilation.\<close>

interpretation staged: staging_directory "staging_path out_path" start for out_path start
  by unfold_locales simp

section \<open>The steps of a compilation\<close>

text \<open>
  The state of a compilation that has not published: its changes are confined to the staging
  directory, and so are the files of its bundle.
\<close>

definition unpublished :: "string \<Rightarrow> files \<Rightarrow> compile_state \<Rightarrow> bool" where
  "unpublished staging fs s \<longleftrightarrow> confined staging fs (cp_files s) \<and> dk_dirs (cp_disk s) staging
     \<and> \<not> cp_published s \<and> \<not> cp_lock_written s \<and> \<not> cp_report_written s
     \<and> (\<forall>b. cp_bundle s = Some b \<longrightarrow> below staging (nb_payload b) \<and> below staging (nb_telemetry_path b))"

lemma on_workspace_unpublished: "unpublished staging fs s \<Longrightarrow> always (on_workspace m s) (unpublished staging fs)"
  by (auto simp: always_def on_workspace_def unpublished_def)

lemma on_files_unpublished:
  assumes "unpublished staging fs s" "always (m (cp_workspace s, cp_files s)) (inside staging fs)"
  shows "always (on_files m s) (unpublished staging fs)"
  using assms by (fastforce simp: always_def on_files_def unpublished_def set_files_def)

lemma unpublished_inside: "unpublished staging fs s \<Longrightarrow> inside staging fs (ws, cp_files s)"
  by (simp add: unpublished_def)

lemma prepared_paths:
  assumes "prepare_native_bundle env fsys stuck stage child request plan source_tensors staging st = Some (Inr nb, st')"
  shows "nb_payload nb = payload_path staging" "nb_telemetry_path nb = telemetry_path staging"
proof -
  obtain ws fs where "st = (ws, fs)" by fastforce
  with prepare_Inr [of env fsys stuck stage child request plan source_tensors staging ws fs nb st'] assms
  obtain job n digest ws2 fs3 where "run_native env stuck child request job n staging digest (ws2, fs3) = (Inr nb, st')"
    by blast
  then obtain ch fs4 ws3 where "collect_bundle env request job staging digest n ch fs4 ws2 = (Inr nb, ws3)"
    by (auto simp: run_native_def split: prod.splits sum.splits)
  then show "nb_payload nb = payload_path staging" "nb_telemetry_path nb = telemetry_path staging"
    by (auto simp: collect_bundle_def split: option.splits)
qed

lemma bundle_stage_unpublished:
  assumes "unpublished (staging_path out_path) fs s" "stays_inside (staging_path out_path) (cs_fp8_child sys)"
  shows "always (bundle_stage env sys request plan source_tensors (staging_path out_path) s)
    (unpublished (staging_path out_path) fs)"
proof -
  define m where "m = prepare_native_bundle (view_of env s) (file_system.truncate sys) (cs_stuck sys)
    (stage_fp8_executable (view_of env s) (staging_system.truncate sys) (nr_executable request) (staging_path out_path))
    (cs_fp8_child sys) request plan source_tensors (staging_path out_path)"
  have "always (m (cp_workspace s, cp_files s)) (inside (staging_path out_path) fs)"
    unfolding m_def
    by (rule staged.prepare_native_bundle_inside [OF assms(2) unpublished_inside [OF assms(1)]])
      (simp add: stage_fp8_executable_def staged.stage_executable_inside)
  from on_files_unpublished [where m = m, OF assms(1) this] have u: "always (on_files m s) (unpublished (staging_path out_path) fs)" .
  have p: "below (staging_path out_path) (nb_payload b) \<and> below (staging_path out_path) (nb_telemetry_path b)"
    if run: "on_files m s = Some (Inr b, s')" for b s'
  proof -
    from run obtain st' where "m (cp_workspace s, cp_files s) = Some (Inr b, st')" by (auto simp: on_files_def)
    from prepared_paths [OF this [unfolded m_def]] show ?thesis by simp
  qed
  show ?thesis
    unfolding bundle_stage_def m_def [symmetric]
  proof (cases "on_files m s")
    case (Some x)
    obtain r s' where x: "x = (r, s')" by fastforce
    with Some u have "unpublished (staging_path out_path) fs s'" by (simp add: always_def)
    with p [of _ s'] Some x show "always (run_bind (on_files m s) (\<lambda>bundle s1. run_only (Inr bundle) (s1\<lparr>cp_bundle := Some bundle\<rparr>)))
        (unpublished (staging_path out_path) fs)"
      by (cases r) (auto simp: unpublished_def)
  qed simp
qed

lemma direct_stage_unpublished:
  assumes "unpublished (staging_path out_path) fs s" "stays_inside (staging_path out_path) (cs_nvfp4_child sys)"
  shows "always (direct_stage env sys request executable_path plan native_plan source_tensors (staging_path out_path) preflight s)
    (unpublished (staging_path out_path) fs)"
  unfolding direct_stage_def
proof (rule always_bind, goal_cases)
  case 1
  show ?case
    by (rule on_files_unpublished [OF assms(1)], unfold always_Some,
        rule staged.prepare_direct_shards_inside [OF unpublished_inside [OF assms(1)]])
next
  case (2 layout s1)
  show ?case
    by (rule always_bind, rule on_files_unpublished [OF 2],
        rule staged.prepare_native_direct_inside [OF assms(2) unpublished_inside [OF 2]]) simp
qed

lemma build_payload_unpublished:
  assumes "unpublished (staging_path out_path) fs s" "stays_inside (staging_path out_path) (cs_fp8_child sys)"
    "stays_inside (staging_path out_path) (cs_nvfp4_child sys)"
  shows "always (build_payload env sys request plan source_tensors (staging_path out_path) encoders ranged preflight s)
    (unpublished (staging_path out_path) fs)"
proof -
  note steps = on_files_unpublished staged.write_shards_inside unpublished_inside bundle_stage_unpublished [OF _ assms(2)]
    direct_stage_unpublished [OF _ assms(3)] staged.finalize_direct_shards_inside staged.finalize_mixed_shards_inside always_bind
  show ?thesis
    unfolding build_payload_def fp8_payload_def nvfp4_payload_def hybrid_payload_def
    using assms(1) by (auto intro!: steps split: option.splits prod.splits)
qed

lemma bundle_cleanup_unpublished:
  "unpublished staging fs s \<Longrightarrow> unpublished staging fs (bundle_cleanup sys s)"
  by (auto simp: bundle_cleanup_def unpublished_def set_files_def confined_remove split: option.splits)

lemma write_manifest_inside:
  assumes "inside (staging_path out_path) fs st"
  shows "always (case st of (ws, fs') \<Rightarrow> case write_file_atomic fsys (path_join (staging_path out_path) name) payload fs' of
    (r, fs'') \<Rightarrow> Some (r, (ws, fs''))) (inside (staging_path out_path) fs)"
  using assms by (cases st) (simp add: always_prog write_file_atomic_confined)

lemma finish_staging_unpublished:
  assumes "unpublished (staging_path out_path) fs s"
  shows "always (finish_staging env sys identity request source source_tensors plan dependency_hash (staging_path out_path)
    payload native s) (unpublished (staging_path out_path) fs)"
  unfolding finish_staging_def Let_def
  by (rule always_bind, rule on_files_unpublished [OF assms],
      rule staged.copy_approved_metadata_inside [OF unpublished_inside [OF assms]],
      rule always_bind, erule on_workspace_unpublished,
      rule always_bind, rule on_files_unpublished, assumption, rule write_manifest_inside, erule unpublished_inside,
      rule always_bind, erule on_workspace_unpublished,
      rule always_bind, erule on_workspace_unpublished) simp

lemma lock_payload_unpublished:
  "unpublished staging fs s \<Longrightarrow> always (lock_payload env sys request plan dir compilation report s) (unpublished staging fs)"
  by (auto simp: lock_payload_def intro!: always_bind on_workspace_unpublished split: option.splits)

lemma staged_compilation_unpublished:
  assumes "unpublished (staging_path out_path) fs s" "stays_inside (staging_path out_path) (cs_fp8_child sys)"
    "stays_inside (staging_path out_path) (cs_nvfp4_child sys)"
  shows "always (staged_compilation env sys identity request out_path preflight source source_tensors plan dependency_hash
    (staging_path out_path) encoders ranged s) (unpublished (staging_path out_path) fs)"
  unfolding staged_compilation_def Let_def
proof (rule always_bind [OF build_payload_unpublished [OF assms]], goal_cases)
  case (1 x s1)
  obtain payload native runtime where x: "x = (payload, native, runtime)" by (metis prod.exhaust)
  have "unpublished (staging_path out_path) fs ((bundle_cleanup sys s1)\<lparr>cp_bundle := None\<rparr>)"
    using bundle_cleanup_unpublished [OF 1] by (simp add: unpublished_def)
  then show ?case
    unfolding x prod.case
    by (rule always_bind [OF finish_staging_unpublished])
      (auto intro!: always_bind on_workspace_unpublished lock_payload_unpublished split: prod.splits)
qed

lemma on_workspace_keeps:
  "on_workspace m s = Some (r, s') \<Longrightarrow> cp_disk s' = cp_disk s \<and> cp_bundle s' = cp_bundle s"
  by (auto simp: on_workspace_def)

lemma on_files_bundle: "on_files m s = Some (r, s') \<Longrightarrow> cp_bundle s' = cp_bundle s"
  by (auto simp: on_files_def set_files_def)

text \<open>What reaches the publication has been verified, as it is on the disk.\<close>

definition verified_tree :: "environment \<Rightarrow> compile_system \<Rightarrow> compiler_request \<Rightarrow> string \<Rightarrow> verified_source \<Rightarrow> sources \<Rightarrow>
    quantization_plan \<Rightarrow> string \<Rightarrow> disk \<Rightarrow> bool" where
  "verified_tree env sys request artifact source source_tensors plan dependency_hash d \<longleftrightarrow>
    (\<exists>ws ws' compilation. verify_loaded_artifact (looking env d) (cs_walk sys d) artifact source source_tensors plan
       dependency_hash (expected_threads_of request plan) ws = Some (Inr compilation, ws'))"

text \<open>A fact of the result and the state of a computation that does not raise.\<close>

definition yields :: "('a res \<times> 's) option \<Rightarrow> ('a \<Rightarrow> 's \<Rightarrow> bool) \<Rightarrow> bool" where
  "yields m P \<longleftrightarrow> (\<forall>x s. m = Some (Inr x, s) \<longrightarrow> P x s)"

lemma yields_simps [simp]: "yields (Some (Inr x, s)) P \<longleftrightarrow> P x s" "yields (Some (Inl e, s)) P" "yields None P"
  by (simp_all add: yields_def)

lemma yields_bind: "(\<And>x s. m = Some (Inr x, s) \<Longrightarrow> yields (f x s) P) \<Longrightarrow> yields (run_bind m f) P"
  by (auto simp: yields_def)

lemma verified_step:
  "on_workspace (verify_loaded_artifact (view_of env s) (cs_walk sys (cp_disk s)) artifact source source_tensors plan
      dependency_hash (expected_threads_of request plan)) s = Some (Inr y, s') \<Longrightarrow>
    verified_tree env sys request artifact source source_tensors plan dependency_hash (cp_disk s)"
  unfolding verified_tree_def on_workspace_def by auto

lemma finish_staging_verified:
  "yields (finish_staging env sys identity request source source_tensors plan dependency_hash staging payload native s)
    (\<lambda>x s'. verified_tree env sys request staging source source_tensors plan dependency_hash (cp_disk s')
      \<and> cp_bundle s' = cp_bundle s)"
  unfolding finish_staging_def Let_def
  by (rule yields_bind)+ (frule verified_step, auto dest!: on_files_bundle on_workspace_keeps)

lemma lock_payload_keeps:
  "lock_payload env sys request plan staging compilation report s = Some (r, s') \<Longrightarrow>
    cp_disk s' = cp_disk s \<and> cp_bundle s' = cp_bundle s"
  by (auto simp: lock_payload_def run_bind_def dest: on_workspace_keeps split: if_splits option.splits sum.splits prod.splits)

lemma staged_compilation_verified:
  assumes "staged_compilation env sys identity request out_path preflight source source_tensors plan dependency_hash staging
    encoders ranged s = Some (Inr x, s')"
  shows "verified_tree env sys request staging source source_tensors plan dependency_hash (cp_disk s') \<and> cp_bundle s' = None"
proof -
  from assms obtain payload native runtime s1 written compilation s3 report s4 where
    finish: "finish_staging env sys identity request source source_tensors plan dependency_hash staging payload native
       ((bundle_cleanup sys s1)\<lparr>cp_bundle := None\<rparr>) = Some (Inr (written, compilation), s3)"
    and report: "on_workspace (compile_report (view_of env s3) sys identity request out_path staging source plan written
       compilation native runtime) s3 = Some (Inr report, s4)"
    and lock: "lock_payload env sys request plan staging compilation report s4 = Some (Inr x, s')"
    unfolding staged_compilation_def Let_def run_bind_Inr_iff by (auto split: prod.splits)
  from finish_staging_verified finish have "verified_tree env sys request staging source source_tensors plan dependency_hash (cp_disk s3)
    \<and> cp_bundle s3 = None" unfolding yields_def by fastforce
  with on_workspace_keeps [OF report] lock_payload_keeps [OF lock] show ?thesis by simp
qed

section \<open>The transaction\<close>

text \<open>The files written beside the artifact: the lock and the report, with their temporary files.\<close>

definition side_files :: "string option \<Rightarrow> string option \<Rightarrow> string set" where
  "side_files lock report = {p. \<exists>q. (lock = Some q \<or> report = Some q) \<and> (p = q \<or> p = q @ ''.tmp'')}"

definition same_but :: "string set \<Rightarrow> files \<Rightarrow> files \<Rightarrow> bool" where
  "same_but side fs fs' \<longleftrightarrow> (\<forall>p. p \<notin> side \<longrightarrow> fs' p = fs p)"

lemma same_but_simps [simp]: "same_but side fs fs"
  by (simp add: same_but_def)

lemma same_but_trans: "same_but side fs fs' \<Longrightarrow> same_but side fs' fs'' \<Longrightarrow> same_but side fs fs''"
  by (simp add: same_but_def)

lemma write_file_atomic_same:
  assumes "write_file_atomic fsys path payload fs = (r, fs')" "path \<in> side" "path @ ''.tmp'' \<in> side"
  shows "same_but side fs fs'"
  using assms by (auto simp: write_file_atomic_def Let_def same_but_def split: sum.splits prod.splits if_splits)

text \<open>After the publication: the flag stays, and only the lock and the report are written.\<close>

definition published_as :: "string set \<Rightarrow> files \<Rightarrow> compile_state \<Rightarrow> bool" where
  "published_as side fs s \<longleftrightarrow> cp_published s \<and> cp_bundle s = None \<and> same_but side fs (cp_files s)"

lemma make_directories_keeps:
  "make_directories sys path d = (r, d') \<Longrightarrow> dk_files d' = dk_files d \<and> (\<forall>p. dk_dirs d p \<longrightarrow> dk_dirs d' p)"
  by (auto simp: make_directories_def split: if_splits)

lemma write_lock_published:
  assumes "published_as (side_files lock report) fs s" "\<not> cp_report_written s"
  shows "always (write_lock sys lock payload s) (\<lambda>s'. published_as (side_files lock report) fs s' \<and> \<not> cp_report_written s')"
proof -
  let ?P = "\<lambda>s'. published_as (side_files lock report) fs s' \<and> \<not> cp_report_written s'"
  have disk: "always (on_disk (make_directories sys path) s) ?P" for path
    using assms by (auto simp: always_def on_disk_def published_as_def dest!: make_directories_keeps split: prod.splits)
  have lock_file: "always (on_files (\<lambda>(ws, fs). case write_file_atomic fsys path document fs of (r, fs') \<Rightarrow> Some (r, (ws, fs'))) s1) ?P"
    if "?P s1" "lock = Some path" for fsys path document s1
    using that
    by (auto simp: always_def on_files_def set_files_def published_as_def side_files_def
        elim!: same_but_trans write_file_atomic_same split: prod.splits)
  show ?thesis
  proof (cases payload)
    case (Some document)
    show ?thesis
    proof (cases lock)
      case lock: (Some path)
      have "always (run_bind (on_disk (make_directories sys (parent_path path)) s) (\<lambda>_ s1.
         run_bind (on_files (\<lambda>(ws, fs). case write_file_atomic (file_system.truncate sys) path document fs of
             (r, fs') \<Rightarrow> Some (r, (ws, fs'))) s1) (\<lambda>_ s2. Some (Inr (), s2\<lparr>cp_lock_written := True\<rparr>)))) ?P"
        by (rule always_bind [OF disk], rule always_bind [OF lock_file], assumption, rule lock) (simp add: published_as_def)
      then show ?thesis by (simp add: write_lock_def Some lock)
    qed (use assms Some in \<open>simp add: write_lock_def\<close>)
  qed (use assms in \<open>simp add: write_lock_def\<close>)
qed

lemma report_stage_published:
  assumes "published_as (side_files lock report) fs s" "\<not> cp_report_written s"
    "report_stage env sys report document s = Some (r, s')"
  shows "published_as (side_files lock report) fs s' \<and> (\<forall>e. r = Inl e \<longrightarrow> \<not> cp_report_written s')"
proof -
  obtain q d' where q: "write_report env (file_system.truncate sys) report document (cp_disk s) = (q, d')" by fastforce
  then have "same_but (side_files lock report) (cp_files s) (dk_files d')"
    by (auto simp: write_report_def sbind_def side_files_def elim!: write_file_atomic_same
        split: option.splits sum.splits prod.splits)
  with assms q show ?thesis
    by (cases q) (auto simp: report_stage_def on_disk_def published_as_def elim: same_but_trans)
qed

text \<open>A renamed tree: what is below the new name was below the old one.\<close>

definition published_files :: "string \<Rightarrow> string \<Rightarrow> files \<Rightarrow> files" where
  "published_files staging out_path fs p =
    (if below out_path p then fs (move_path out_path staging p) else if below staging p then None else fs p)"

lemma rename_files: "dk_files (rename_directory staging out_path d) = published_files staging out_path (dk_files d)"
  by (auto simp: rename_directory_def published_files_def)

lemma publish_staging_cases:
  assumes "publish_staging dirs staging out_path d = (r, d')"
  shows "(\<exists>e. r = Inl e) \<and> d' = d \<or> d' = rename_directory staging out_path d"
proof (cases "rbind (sync_directory dirs staging) (\<lambda>_. sync_directory dirs (parent_path staging))")
  case (Inl e)
  with assms have "r = Inl e" "d' = d" by (simp_all add: publish_staging_def)
  then show ?thesis by simp
next
  case (Inr u)
  with assms show ?thesis by (auto simp: publish_staging_def simp del: rbind_Inr_iff split: if_splits)
qed

text \<open>Where a publication that does not end well leaves the state: untouched, or renamed.\<close>

definition transacted :: "string \<Rightarrow> string \<Rightarrow> string set \<Rightarrow> disk \<Rightarrow> bool \<Rightarrow> compile_state \<Rightarrow> bool" where
  "transacted staging out_path side d failed s \<longleftrightarrow> cp_bundle s = None \<and> (failed \<longrightarrow> \<not> cp_report_written s)
     \<and> (cp_published s \<and> same_but side (published_files staging out_path (dk_files d)) (cp_files s)
        \<or> failed \<and> \<not> cp_published s \<and> \<not> cp_lock_written s
          \<and> (cp_disk s = d \<or> cp_disk s = rename_directory staging out_path d))"

lemma publish_compilation_transacted:
  assumes "publish_compilation env sys request staging out_path report document payload s = Some (r, s')"
    "cp_bundle s = None" "\<not> cp_published s" "\<not> cp_lock_written s" "\<not> cp_report_written s"
  shows "transacted staging out_path (side_files (cr_artifact_lock request) report) (cp_disk s) (\<exists>e. r = Inl e) s'"
proof -
  let ?side = "side_files (cr_artifact_lock request) report" and ?fs = "published_files staging out_path (cp_files s)"
  obtain q d where q: "publish_staging (cs_dirs sys) staging out_path (cp_disk s) = (q, d)" by fastforce
  from publish_staging_cases [OF this] have d: "(\<exists>e. q = Inl e) \<and> d = cp_disk s \<or> d = rename_directory staging out_path (cp_disk s)" .
  show ?thesis
  proof (cases q)
    case (Inl e)
    with assms q have "r = Inl e" "s' = s\<lparr>cp_disk := d\<rparr>"
      by (simp_all add: publish_compilation_def publish_stage_def on_disk_def)
    with assms d show ?thesis by (auto simp: transacted_def)
  next
    case (Inr u)
    let ?s1 = "s\<lparr>cp_disk := d, cp_published := True\<rparr>"
    from Inr d have "d = rename_directory staging out_path (cp_disk s)" by simp
    with assms(2,5) have p1: "published_as ?side ?fs ?s1" "\<not> cp_report_written ?s1"
      by (simp_all add: published_as_def rename_files)
    from assms(1) q Inr have rest: "run_bind (write_lock sys (cr_artifact_lock request) payload ?s1) (\<lambda>_ s2.
        run_bind (report_stage env sys report document s2) (\<lambda>_. run_only (Inr document))) = Some (r, s')"
      by (simp add: publish_compilation_def publish_stage_def on_disk_def)
    then obtain w s2 where w: "write_lock sys (cr_artifact_lock request) payload ?s1 = Some (w, s2)"
      by (auto simp: run_bind_def split: option.splits)
    from write_lock_published [OF p1] w have p2: "published_as ?side ?fs s2" "\<not> cp_report_written s2"
      by (auto simp: always_def)
    show ?thesis
    proof (cases w)
      case (Inl e)
      with rest w have "r = Inl e" "s' = s2" by simp_all
      with p2 show ?thesis by (auto simp: transacted_def published_as_def)
    next
      case ok: (Inr v)
      with rest w obtain z where z: "report_stage env sys report document s2 = Some (z, s')"
        "(\<exists>e. r = Inl e) \<longrightarrow> (\<exists>e. z = Inl e)"
        by (auto simp: run_bind_def split: option.splits sum.splits)
      from report_stage_published [OF p2 z(1)] z(2) show ?thesis by (auto simp: transacted_def published_as_def)
    qed
  qed
qed

text \<open>What the handler leaves of a failed compilation.\<close>

lemma abandon_unpublished:
  assumes "unpublished staging fs s" "\<not> ds_remove_fails (cs_dirs sys)" "\<not> env_symlink env staging"
    "\<And>p. below staging p \<Longrightarrow> fs p = None"
  shows "cp_files (abandon env sys request staging report s) = fs"
proof -
  let ?s1 = "bundle_cleanup sys s"
  let ?d = "discard_staging (cs_dirs sys) (env_symlink env) (cs_kept sys) staging (cp_disk ?s1)"
  from bundle_cleanup_unpublished [OF assms(1)] have u: "unpublished staging fs ?s1" .
  then have "dk_files ?d p = fs p" for p
    using assms(2-4) by (auto simp: unpublished_def discard_staging_def present_def confined_def Let_def)
  then have "dk_files ?d = fs" by (rule ext)
  moreover have "abandon env sys request staging report s = ?s1\<lparr>cp_disk := ?d\<rparr>"
    using u by (simp add: abandon_def unpublished_def Let_def unlink_if_def split: option.splits)
  ultimately show ?thesis by simp
qed

lemma staging_not_below: "\<not> below out_path (staging_path out_path)"
  by (auto simp: below_iff staging_path_def)

lemma abandon_transacted:
  assumes "transacted (staging_path out_path) out_path side d True s" "unpublished (staging_path out_path) fs s0" "cp_disk s0 = d"
    "\<not> ds_remove_fails (cs_dirs sys)" "\<not> env_symlink env (staging_path out_path)"
    "\<And>p. below (staging_path out_path) p \<Longrightarrow> fs p = None"
  shows "cp_files (abandon env sys request (staging_path out_path) report s) = fs
    \<or> same_but side (published_files (staging_path out_path) out_path (dk_files d))
        (cp_files (abandon env sys request (staging_path out_path) report s))"
proof -
  have clean: "bundle_cleanup sys s = s" "\<not> cp_report_written s"
    using assms(1) by (simp_all add: transacted_def bundle_cleanup_def)
  from assms(1) consider "cp_published s" "same_but side (published_files (staging_path out_path) out_path (dk_files d)) (cp_files s)"
    | "\<not> cp_published s" "\<not> cp_lock_written s" "cp_disk s = d"
    | "\<not> cp_published s" "\<not> cp_lock_written s" "cp_disk s = rename_directory (staging_path out_path) out_path d"
    unfolding transacted_def by blast
  then show ?thesis
  proof cases
    case 1
    with clean have "abandon env sys request (staging_path out_path) report s = s"
      by (simp add: abandon_def Let_def unlink_if_def split: option.splits)
    with 1 show ?thesis by simp
  next
    case 2
    then have "unpublished (staging_path out_path) fs s"
      using assms(1-3) clean by (simp add: unpublished_def transacted_def)
    from abandon_unpublished [OF this assms(4-6)] show ?thesis by simp
  next
    case 3
    have "\<not> present (cp_disk s) (staging_path out_path)"
      using 3 by (simp add: present_def rename_files published_files_def staging_not_below) (simp add: rename_directory_def staging_not_below)
    then have "discard_staging (cs_dirs sys) (env_symlink env) (cs_kept sys) (staging_path out_path) (cp_disk s) = cp_disk s"
      by (simp add: discard_staging_def)
    with 3 clean have "abandon env sys request (staging_path out_path) report s = s"
      by (simp add: abandon_def Let_def unlink_if_def split: option.splits)
    with 3 show ?thesis by (simp add: rename_files)
  qed
qed

text \<open>Opening a compilation changes no file, and only ever adds directories.\<close>

definition opened :: "disk \<Rightarrow> compile_state \<Rightarrow> bool" where
  "opened d s \<longleftrightarrow> dk_files (cp_disk s) = dk_files d \<and> (\<forall>p. dk_dirs d p \<longrightarrow> dk_dirs (cp_disk s) p)
     \<and> cp_bundle s = None \<and> \<not> cp_published s \<and> \<not> cp_lock_written s \<and> \<not> cp_report_written s"

lemma on_workspace_opened: "opened d s \<Longrightarrow> always (on_workspace m s) (opened d)"
  by (auto simp: always_def on_workspace_def opened_def)

lemma on_disk_opened:
  assumes "opened d s" "\<And>r d'. m (cp_disk s) = (r, d') \<Longrightarrow> dk_files d' = dk_files (cp_disk s)
    \<and> (\<forall>p. dk_dirs (cp_disk s) p \<longrightarrow> dk_dirs d' p)"
  shows "always (on_disk m s) (opened d)"
  using assms by (fastforce simp: always_def on_disk_def opened_def split: prod.splits)

lemma preflight_report_keeps:
  "preflight_report_path env sys report_path out_path d = (r, d') \<Longrightarrow>
    dk_files d' = dk_files d \<and> (\<forall>p. dk_dirs d p \<longrightarrow> dk_dirs d' p)"
  by (auto simp: preflight_report_path_def sbind_def dest!: make_directories_keeps
      split: option.splits sum.splits prod.splits)

lemma create_staging_keeps:
  "create_staging_directory dirs links out_path d = (r, d') \<Longrightarrow>
    dk_files d' = dk_files d \<and> (\<forall>p. dk_dirs d p \<longrightarrow> dk_dirs d' p)"
  by (auto simp: create_staging_directory_def Let_def split: if_splits)

lemma open_staging_opened:
  assumes "opened d s"
  shows "always (open_staging env sys request out_path report_path s) (opened d)"
  unfolding open_staging_def
proof (rule always_bind, rule on_disk_opened [OF assms], erule preflight_report_keeps, rule always_bind, goal_cases)
  case (1 report s1)
  then show ?case by simp
next
  case (2 report s1 u s2)
  show ?case
    by (rule always_bind, rule on_disk_opened [OF 2(2)])
      (auto dest!: make_directories_keeps create_staging_keeps intro!: always_bind on_disk_opened split: sum.splits prod.splits)
qed

lemma open_compilation_opened:
  "opened d s \<Longrightarrow> always (open_compilation env sys identity request out_path report_path s) (opened d)"
  unfolding open_compilation_def
  by (auto intro!: always_bind on_workspace_opened open_staging_opened split: prod.splits)

text \<open>A staging directory that has just been created, next to an output that does not exist.\<close>

definition fresh :: "environment \<Rightarrow> string \<Rightarrow> disk \<Rightarrow> bool" where
  "fresh env out_path d \<longleftrightarrow> \<not> present d out_path \<and> \<not> present d (staging_path out_path) \<and> \<not> env_symlink env (staging_path out_path)"

lemma fresh_mono:
  "fresh env out_path d' \<Longrightarrow> dk_files d' = dk_files d \<Longrightarrow> \<forall>p. dk_dirs d p \<longrightarrow> dk_dirs d' p \<Longrightarrow> fresh env out_path d"
  by (auto simp: fresh_def present_def)

lemma create_staging_Inr:
  "create_staging_directory dirs (env_symlink env) out_path d = (Inr staging, d') \<Longrightarrow>
    staging = staging_path out_path \<and> dk_dirs d' staging \<and> fresh env out_path d"
  by (auto simp: create_staging_directory_def fresh_def Let_def split: if_splits)

lemma open_staging_Inr:
  assumes "open_staging env sys request out_path report_path s = Some (Inr (report, staging), s')" "opened d s"
  shows "staging = staging_path out_path \<and> dk_dirs (cp_disk s') staging \<and> fresh env out_path d"
proof -
  let ?made = "on_disk (\<lambda>d. case make_directories sys (parent_path out_path) d of
         (Inl e, d') \<Rightarrow> (Inl (OutputError ''cannot create compiler output parent''), d')
       | (Inr _, d') \<Rightarrow> (Inr (), d'))"
  from assms(1) obtain s1 s3 where
    s1: "on_disk (preflight_report_path env sys report_path out_path) s = Some (Inr report, s1)"
    and s3: "?made s1 = Some (Inr (), s3)"
    and s4: "on_disk (create_staging_directory (cs_dirs sys) (env_symlink env) out_path) s3 = Some (Inr staging, s')"
    unfolding open_staging_def by auto
  have "always (on_disk (preflight_report_path env sys report_path out_path) s) (opened d)"
    by (rule on_disk_opened [OF assms(2)], erule preflight_report_keeps)
  with s1 have "opened d s1" by (simp add: always_def)
  then have "always (?made s1) (opened d)"
    by (rule on_disk_opened) (auto dest!: make_directories_keeps split: sum.splits prod.splits)
  with s3 have "opened d s3" by (simp add: always_def)
  moreover from s4 have "create_staging_directory (cs_dirs sys) (env_symlink env) out_path (cp_disk s3) = (Inr staging, cp_disk s')"
    by (auto simp: on_disk_def split: prod.splits)
  from create_staging_Inr [OF this] have "staging = staging_path out_path" "dk_dirs (cp_disk s') staging" "fresh env out_path (cp_disk s3)"
    by blast+
  ultimately show ?thesis unfolding opened_def using fresh_mono by blast
qed

definition loaded_request :: "environment \<Rightarrow> compiler_request \<Rightarrow> verified_source \<Rightarrow> sources \<Rightarrow> quantization_plan \<Rightarrow> string \<Rightarrow> bool" where
  "loaded_request env request source source_tensors plan dependency_hash \<longleftrightarrow>
    (\<exists>ws ws'. load_request env request ws = Some (Inr (source, source_tensors, plan, dependency_hash), ws'))"

lemma open_compilation_Inr:
  assumes "open_compilation env sys identity request out_path report_path (compile_start ws d)
      = Some (Inr (preflight, (source, source_tensors, plan, dependency_hash), report, staging), s')"
  shows "staging = staging_path out_path \<and> dk_dirs (cp_disk s') staging \<and> fresh env out_path d
    \<and> loaded_request (looking env d) request source source_tensors plan dependency_hash"
proof -
  have o: "opened d (compile_start ws d)" by (simp add: opened_def compile_start_def)
  from assms obtain s1 s2 where
    s1: "on_workspace (\<lambda>ws. Some (preflight_stage (view_of env (compile_start ws d)) sys request ws)) (compile_start ws d)
       = Some (Inr preflight, s1)"
    and s2: "on_workspace (load_request (view_of env s1) request) s1
       = Some (Inr (source, source_tensors, plan, dependency_hash), s2)"
    and s3: "open_staging env sys request out_path report_path s2 = Some (Inr (report, staging), s')"
    unfolding open_compilation_def by (auto simp: compile_start_def split: prod.splits)
  have "cp_disk s1 = d" using on_workspace_keeps [OF s1] by (simp add: compile_start_def)
  with s2 have "loaded_request (looking env d) request source source_tensors plan dependency_hash"
    unfolding loaded_request_def on_workspace_def by auto
  moreover have "opened d s2"
    using on_workspace_opened [OF o] on_workspace_opened s1 s2 unfolding always_def by blast
  ultimately show ?thesis using open_staging_Inr [OF s3] by blast
qed

text \<open>Files lie in directories that exist.\<close>

definition tidy :: "disk \<Rightarrow> bool" where
  "tidy d \<longleftrightarrow> (\<forall>p q. dk_files d p \<noteq> None \<longrightarrow> below q p \<longrightarrow> q = [] \<or> p = q \<or> dk_dirs d q)"

lemma tidy_nothing_below: "tidy d \<Longrightarrow> q \<noteq> [] \<Longrightarrow> \<not> present d q \<Longrightarrow> below q p \<Longrightarrow> dk_files d p = None"
  unfolding tidy_def present_def by blast

text \<open>
  The outcomes of a compilation: it failed and every file is as it was, or the output holds a tree
  that was verified against the source and the plan the request loads, and that differs from the
  files at the start only below the staging directory; beside the lock and the report nothing else
  has changed.
\<close>

definition untouched_or_published :: "environment \<Rightarrow> compile_system \<Rightarrow> compiler_request \<Rightarrow> string \<Rightarrow> disk \<Rightarrow> pyval dict res \<Rightarrow> disk \<Rightarrow> bool" where
  "untouched_or_published env sys request out_path d r d' \<longleftrightarrow>
    (\<exists>e. r = Inl e) \<and> dk_files d' = dk_files d
    \<or> (\<exists>tree source source_tensors plan dependency_hash report.
         loaded_request (looking env d) request source source_tensors plan dependency_hash
       \<and> verified_tree env sys request (staging_path out_path) source source_tensors plan dependency_hash tree
       \<and> confined (staging_path out_path) (dk_files d) (dk_files tree)
       \<and> same_but (side_files (cr_artifact_lock request) report)
           (published_files (staging_path out_path) out_path (dk_files tree)) (dk_files d'))"

lemma compile_run_outcome:
  assumes run: "compile_run env sys identity request out_path report_path encoders ranged (compile_start ws d) = Some (r, s')"
    and children: "stays_inside (staging_path out_path) (cs_fp8_child sys)" "stays_inside (staging_path out_path) (cs_nvfp4_child sys)"
    and removes: "\<not> ds_remove_fails (cs_dirs sys)" and tidy: "tidy d"
  shows "untouched_or_published env sys request out_path d r (cp_disk s')"
proof -
  have "opened d (compile_start ws d)" by (simp add: opened_def compile_start_def)
  note opens = open_compilation_opened [OF this, of env sys identity request out_path report_path]
  from run obtain q s1 where began: "open_compilation env sys identity request out_path report_path (compile_start ws d) = Some (q, s1)"
    by (auto simp: compile_run_def run_bind_def split: option.splits)
  with opens have s1: "opened d s1" by (simp add: always_def)
  show ?thesis
  proof (cases q)
    case (Inl e)
    with run began have "r = Inl e" "s' = s1" by (simp_all add: compile_run_def)
    with s1 show ?thesis by (simp add: untouched_or_published_def opened_def)
  next
    case (Inr x)
    obtain preflight source source_tensors plan dependency_hash report staging where
      x: "x = (preflight, (source, source_tensors, plan, dependency_hash), report, staging)" by (metis prod.exhaust)
    from open_compilation_Inr [OF began [unfolded Inr x]] have staging: "staging = staging_path out_path"
      "dk_dirs (cp_disk s1) staging" and new: "fresh env out_path d"
      and loaded: "loaded_request (looking env d) request source source_tensors plan dependency_hash" by blast+
    have none: "dk_files d p = None" if "below (staging_path out_path) p" for p
      using tidy_nothing_below [OF tidy _ _ that] new by (simp add: fresh_def staging_path_def)
    have link: "\<not> env_symlink env (staging_path out_path)" using new by (simp add: fresh_def)
    have u1: "unpublished (staging_path out_path) (dk_files d) s1"
      using s1 staging by (simp add: unpublished_def opened_def)
    let ?body = "staged_compilation env sys identity request out_path preflight source source_tensors plan dependency_hash
        (staging_path out_path) encoders ranged s1"
    let ?rest = "\<lambda>(document, payload). publish_compilation env sys request (staging_path out_path) out_path report document payload"
    from run began Inr x staging have guarded:
      "guarded (abandon env sys request (staging_path out_path) report) (run_bind ?body ?rest) = Some (r, s')"
      by (simp add: compile_run_def)
    then obtain y s2 where body: "?body = Some (y, s2)" by (auto simp: guarded_def run_bind_def split: option.splits)
    with staged_compilation_unpublished [OF u1 children] have u2: "unpublished (staging_path out_path) (dk_files d) s2"
      by (auto simp: always_def)
    show ?thesis
    proof (cases y)
      case (Inl e)
      with guarded body have "r = Inl e" "s' = abandon env sys request (staging_path out_path) report s2"
        by (simp_all add: guarded_def)
      with abandon_unpublished [OF u2 removes link none] show ?thesis by (simp add: untouched_or_published_def)
    next
      case ok: (Inr z)
      obtain document payload where z: "z = (document, payload)" by fastforce
      from staged_compilation_verified [OF body [unfolded ok]]
      have tree: "verified_tree env sys request (staging_path out_path) source source_tensors plan dependency_hash (cp_disk s2)"
        and none2: "cp_bundle s2 = None" by simp_all
      from guarded body ok z obtain p s3 where
        p: "publish_compilation env sys request (staging_path out_path) out_path report document payload s2 = Some (p, s3)"
        by (auto simp: guarded_def)
      have t: "transacted (staging_path out_path) out_path (side_files (cr_artifact_lock request) report) (cp_disk s2)
          (\<exists>e. p = Inl e) s3"
        using publish_compilation_transacted [OF p none2] u2 by (simp add: unpublished_def)
      have conf: "confined (staging_path out_path) (dk_files d) (cp_files s2)" using u2 by (simp add: unpublished_def)
      show ?thesis
      proof (cases p)
        case (Inl e)
        with guarded body ok z p have r: "r = Inl e" and s': "s' = abandon env sys request (staging_path out_path) report s3"
          by (simp_all add: guarded_def)
        from Inl t have "transacted (staging_path out_path) out_path (side_files (cr_artifact_lock request) report) (cp_disk s2) True s3"
          by simp
        from abandon_transacted [OF this u2 refl removes link none] s' r show ?thesis
          unfolding untouched_or_published_def using loaded tree conf by blast
      next
        case Inr': (Inr w)
        with guarded body ok z p have "s' = s3" by (simp add: guarded_def)
        moreover have "same_but (side_files (cr_artifact_lock request) report)
            (published_files (staging_path out_path) out_path (cp_files s2)) (cp_files s3)"
          using t Inr' by (simp add: transacted_def)
        ultimately show ?thesis unfolding untouched_or_published_def using loaded tree conf by blast
      qed
    qed
  qed
qed

end
