(* ===== verification/Return_Facts.thy ===== *)
theory Return_Facts
  imports Run_Facts NVFP4_Facts
begin

text \<open>
  Every run of the compiler returns: no loop of a compilation, of its native steps, of its writers
  or of its verification goes on for ever, whatever the files, the streams and the child processes do.
\<close>

section \<open>Loading a request\<close>

lemma looking_env [simp]:
  "env_granularity (looking env d) = env_granularity env" "env_rss (looking env d) = env_rss env"
  "env_sha (looking env d) = env_sha env"
  by (simp_all add: looking_def seeing_def)

lemma merge_fold_good:
  assumes "good_ws env ws" "prog_fold (merge_shard env shard_files assigned) [] names ws = (Inr merged, ws')"
  shows "good_ws env ws'"
  using ends_Inr [OF merge_all_good [OF assms(1)], of shard_files assigned names merged ws'] assms(2) by simp

lemma read_source_tensors_good:
  assumes "good_ws env ws" "read_source_tensors env source ws = (Inr tensors, ws')"
  shows "good_ws env ws'"
proof -
  let ?shards = "source_shards source"
  let ?first = "case dict_get (vs_files source) INDEX_NAME of
          Some index_file \<Rightarrow> then_do (load_index env index_file ws) (\<lambda>assignments ws1.
            (fail_if (snd ` set assignments \<noteq> dict_keys ?shards)
               (SourceVerificationError ''source lock Safetensors files disagree with index shard set'')
               (Inr (Some assignments)), ws1))
        | None \<Rightarrow> (fail_if (length ?shards \<noteq> 1 \<or> ''model.safetensors'' \<notin> dict_keys ?shards)
            (SourceVerificationError ''multi-shard source requires model.safetensors.index.json'') (Inr None), ws)"
  have ne: "?shards \<noteq> []" using assms(2) by (auto simp: read_source_tensors_def Let_def)
  with assms(2) obtain a ws1 where first: "?first = (Inr a, ws1)"
    and rest: "then_do (prog_fold (merge_shard env ?shards a) [] (sort (map fst ?shards)) ws1) (\<lambda>tensors ws2.
      if (case a of None \<Rightarrow> False | Some a \<Rightarrow> dict_keys a \<noteq> dict_keys tensors)
      then (Inl (SourceVerificationError ''Safetensors index and shard names differ''), ws2)
      else then_do (workspace_check (env_rss env) ws2) (\<lambda>_ ws3. (Inr (dict_sorted tensors), ws3))) = (Inr tensors, ws')"
    unfolding read_source_tensors_def Let_def if_not_P [OF ne] sbind_Inr_iff by blast
  have "good_ws env ws1"
  proof (cases "dict_get (vs_files source) INDEX_NAME")
    case None
    with first assms(1) show ?thesis by simp
  next
    case (Some index_file)
    with first assms(1) show ?thesis by (auto dest: load_index_good)
  qed
  moreover from rest obtain merged ws2 where "prog_fold (merge_shard env ?shards a) [] (sort (map fst ?shards)) ws1 = (Inr merged, ws2)"
    and "\<exists>u. workspace_check (env_rss env) ws2 = (Inr u, ws')"
    unfolding sbind_Inr_iff by (auto split: if_splits)
  ultimately show ?thesis using merge_fold_good workspace_check_good by blast
qed

lemma verify_source_ends:
  "good_ws env ws \<Longrightarrow> ends (verify_source_lock env lock_path base ws) (\<lambda>_. good_ws env)"
  by (rule ends_mono [OF verify_source_lock_ends]) (auto dest: ws_good_self)

lemma case_array_Inr:
  "(case v of PList xs \<Rightarrow> f xs | _ \<Rightarrow> Inl e) = Inr y \<longleftrightarrow> (\<exists>xs. v = PList xs \<and> f xs = Inr y)"
  by (cases v) simp_all

lemma loaded_plan_distinct:
  "load_quantization_plan sha canonical file raw source source_tensors profile head shard_size = Inr plan \<Longrightarrow>
    distinct (map output_name (qp_tensors plan))"
  by (auto simp: load_quantization_plan_def Let_def case_array_Inr)

lemma load_request_ends:
  assumes "good_ws env ws"
  shows "ends (load_request env request ws) (\<lambda>(source, source_tensors, plan, dependency_hash) ws'.
    good_ws env ws' \<and> distinct (map output_name (qp_tensors plan)))"
  unfolding load_request_def
  apply (rule ends_bind_only)
  apply (rule ends_bind_only, clarify)
  apply (rule ends_bind [OF verify_source_ends [OF assms]])
  apply (rule ends_bind [OF ends_prog], erule read_source_tensors_good, assumption)
  apply (auto simp: request_plan_def dest: loaded_plan_distinct)
  done

lemma reverify_ends: "good_ws env ws \<Longrightarrow> ends (reverify_source_files env request source ws) (\<lambda>_. good_ws env)"
  unfolding reverify_source_files_def by (rule ends_bind [OF verify_source_ends]) auto

section \<open>Native steps\<close>

lemma hash_any_ends: "good_ws env ws \<Longrightarrow> ends (hash_range sha rss stored n m ws) (\<lambda>_. good_ws env)"
proof -
  assume "good_ws env ws"
  from hash_range_at [OF this, of "int n" "int m" sha rss stored] show ?thesis
    unfolding nat_int by (auto elim!: ends_mono)
qed

lemma hash_tensor_ends:
  "0 < env_granularity env \<Longrightarrow> good_ws env ws \<Longrightarrow>
    ends (hash_tensor_range sha (env_granularity env) rss stored offset len ws) (\<lambda>_. good_ws env)"
  by (rule ends_mono [OF hash_tensor_range_ends]) auto

lemma output_step_returns: "good_ws env ws \<Longrightarrow> ends (output_step env fs job layout item op outputs component ws) (\<lambda>_. good_ws env)"
  unfolding output_step_def
  by (rule ends_bind_only, clarify, rule ends_bind [OF hash_any_ends], assumption, simp)

lemma parse_telemetry_returns: "good_ws env ws \<Longrightarrow> ends (parse_nvfp4_telemetry env fs path job layout ws) (\<lambda>_. good_ws env)"
  unfolding parse_nvfp4_telemetry_def item_step_def
  by (rule ends_bind_only, rule ends_bind [OF ends_fold [where I = "\<lambda>_. good_ws env"]], assumption, clarify,
      rule ends_bind_only, rule ends_fold, assumption, erule output_step_returns, simp)

lemma transform_row_good: "good_ws env ws \<Longrightarrow> record_transform_row rss n ws = (Inr u, ws') \<Longrightarrow> good_ws env ws'"
  using record_transform_row_good ws_good_self by blast

lemma collect_direct_returns:
  "good_ws env ws \<Longrightarrow> ends (collect_direct env request job layout staging digest build ch fs ws) (\<lambda>_. good_ws env)"
  unfolding collect_direct_def
  by (rule ends_bind_only, rule ends_bind [OF parse_telemetry_returns], assumption, clarify, rule ends_bind_only,
      rule ends_bind [OF ends_prog], erule transform_row_good, assumption, simp)

abbreviation good_st :: "environment \<Rightarrow> workspace \<times> files \<Rightarrow> bool" where
  "good_st env st \<equiv> good_ws env (fst st)"

lemma prepare_direct_returns:
  assumes "0 < env_granularity env" "good_st env st"
  shows "ends (prepare_native_direct env sys stuck q child request plan source_tensors staging layout expected st) (\<lambda>_. good_st env)"
  unfolding prepare_native_direct_def
proof (rule ends_bind_only, rule ends_bind [where P = "\<lambda>_. good_st env"], goal_cases)
  case 1
  show ?case
    unfolding stage_nvfp4_executable_def
    by (rule ends_prog) (use stage_executable_good assms(2) in \<open>metis prod.collapse\<close>)
next
  case (2 u digest st2)
  obtain ws2 fs2 where st2: "st2 = (ws2, fs2)" by fastforce
  with 2 have "good_ws env ws2" by simp
  from prepare_direct_job_ends [OF assms(1) this, of "file_system.truncate sys" q expected request plan source_tensors layout staging digest fs2]
  obtain r ws3 fs3 where
    run: "prepare_direct_job env (file_system.truncate sys) q expected request plan source_tensors layout staging digest st2
      = Some (r, (ws3, fs3))"
    and job: "\<And>x. r = Inr x \<Longrightarrow> good_ws env ws3"
    unfolding ends_def st2 by (force split: prod.splits)
  show ?case
  proof (cases r)
    case (Inr made)
    obtain job build where made: "made = (job, build)" by fastforce
    obtain outcome fs4 where child: "child fs3 = (outcome, fs4)" by fastforce
    from collect_direct_returns [OF job [OF Inr], of request job layout staging digest build outcome fs4] obtain v ws4 where
      "collect_direct env request job layout staging digest build outcome fs4 ws3 = Some (v, ws4)" "\<And>x. v = Inr x \<Longrightarrow> good_ws env ws4"
      unfolding ends_def by blast
    with run Inr made child show ?thesis by (cases v) (simp_all add: run_direct_def)
  qed (use run in simp)
qed

lemma hash_source_returns:
  "0 < env_granularity env \<Longrightarrow> good_ws env ws \<Longrightarrow> ends (hash_source env source_tensors hashes m ws) (\<lambda>_. good_ws env)"
  unfolding hash_source_def
  by (auto intro!: ends_bind_only ends_bind [OF hash_tensor_ends] split: option.split list.split)

lemma prepare_job_returns:
  assumes "0 < env_granularity env" "good_ws env ws"
  shows "ends (prepare_job env request plan source_tensors fs staging ws) (\<lambda>_. good_ws env)"
proof -
  have "ends (run_fold (hash_source env source_tensors) [] ms ws) (\<lambda>_. good_ws env)" for ms
    by (rule ends_fold) (use assms hash_source_returns in auto)
  then show ?thesis
    unfolding prepare_job_def by (auto intro!: ends_bind_only ends_bind [where P = "\<lambda>_. good_ws env"])
qed

lemma collect_bundle_good:
  "good_ws env ws \<Longrightarrow> collect_bundle env request job staging digest n ch fs ws = (Inr nb, ws') \<Longrightarrow> good_ws env ws'"
  by (auto simp: collect_bundle_def dest: transform_row_good)

lemma run_native_good:
  "good_ws env ws \<Longrightarrow> run_native env stuck child request job n staging digest (ws, fs) = (Inr nb, st') \<Longrightarrow> good_st env st'"
  by (auto simp: run_native_def Let_def dest: collect_bundle_good split: prod.splits sum.splits)

lemma prepare_bundle_returns:
  assumes "0 < env_granularity env" "good_st env st"
    and "\<And>st digest st'. good_st env st \<Longrightarrow> stage st = (Inr digest, st') \<Longrightarrow> good_st env st'"
  shows "ends (prepare_native_bundle env fsys stuck stage child request plan source_tensors staging st) (\<lambda>_. good_st env)"
proof -
  obtain ws fs where st: "st = (ws, fs)" by fastforce
  with assms have "good_ws env ws" by simp
  from prepare_job_returns [OF assms(1) this, of request plan source_tensors fs staging] obtain r ws1 where
    job: "prepare_job env request plan source_tensors fs staging ws = Some (r, ws1)"
    and good: "\<And>x. r = Inr x \<Longrightarrow> good_ws env ws1" unfolding ends_def by blast
  show ?thesis
  proof (cases r)
    case (Inr x)
    obtain jb n where x: "x = (jb, n)" by fastforce
    obtain h ws2 fs2 where h: "stage (ws1, fs) = (h, (ws2, fs2))" by (metis prod.exhaust)
    obtain w fs3 where w: "write_file_atomic fsys (job_path staging) (env_canonical env (job_document jb)) fs2 = (w, fs3)"
      by fastforce
    have run: "prepare_native_bundle env fsys stuck stage child request plan source_tensors staging st = Some (case h of
        Inl e \<Rightarrow> (Inl e, (ws2, fs2))
      | Inr digest \<Rightarrow> (case w of Inl e \<Rightarrow> (Inl e, (ws2, fs3))
          | Inr _ \<Rightarrow> run_native env stuck child request jb n staging digest (ws2, fs3)))"
      using st job Inr x h w by (simp add: prepare_native_bundle_def split: sum.split)
    have "good_st env st'" if "(case h of Inl e \<Rightarrow> (Inl e, (ws2, fs2)) | Inr digest \<Rightarrow> (case w of Inl e \<Rightarrow> (Inl e, (ws2, fs3))
          | Inr _ \<Rightarrow> run_native env stuck child request jb n staging digest (ws2, fs3))) = (Inr nb, st')" for nb st'
      using that h assms(3) [of "(ws1, fs)"] good [OF Inr] run_native_good [of env ws2] by (auto split: sum.split_asm)
    then show ?thesis unfolding run by (rule ends_prog)
  qed (use st job in \<open>simp add: prepare_native_bundle_def\<close>)
qed

section \<open>The writer\<close>

lemma write_index_good:
  "good_st env st \<Longrightarrow> ends (write_index env' fsys plan path weights st) (\<lambda>_. good_st env)"
  by (cases st; cases "output_tensor_bytes plan") (auto simp: write_index_def case_prod_unfold)

lemma write_shards_returns:
  assumes "sink (fs_put fsys) id" "encoders_conform encoders" "0 < env_granularity env" "good_st env st"
  shows "ends (write_shards env fsys staging plan source_tensors encoders nb st) (\<lambda>_. good_st env)"
proof -
  obtain ws fs where st: "st = (ws, fs)" by fastforce
  have shards: "ends (run_fold (write_shard env fsys label source_tensors (native_registry nb encoders) staging) [] shards st) (\<lambda>_. good_st env)"
    for label shards
    unfolding st
    by (rule ends_mono [OF write_all_shards_end [OF assms(1) native_registry_conforms [OF assms(2)] assms(3)]])
      (use assms(4) st in auto)
  show ?thesis
    unfolding write_shards_def
    by (rule ends_bind_only, rule ends_bind_only, rule ends_bind [OF shards], rule ends_bind [OF write_index_good], assumption, simp)
qed

lemma prepare_shard_good:
  assumes "good_st env st" "prepare_shard env fsys label staging outputs a st = (Inr outputs', st')"
  shows "good_st env st'"
proof (cases "safetensors_header env (sa_tensors a) label")
  case (Inr h)
  obtain header offsets where h: "h = (header, offsets)" by fastforce
  obtain ws fs where st: "st = (ws, fs)" by fastforce
  obtain q ws1 where q: "record_header (env_rss env) (int (length header) - 8) ws = (q, ws1)" by fastforce
  have "fst st' = ws1 \<and> q = Inr ()"
    using assms(2) Inr h st q
    by (cases q; cases "sum_bytes (sa_tensors a)") (auto simp: prepare_shard_def Let_def split: prod.split_asm sum.split_asm)
  with record_header_good q assms(1) st show ?thesis by auto
qed (use assms in \<open>simp add: prepare_shard_def\<close>)

lemma prepare_direct_shards_good:
  assumes "good_st env st" "prepare_direct_shards env fsys staging plan st = (Inr layout, st')"
  shows "good_st env st'"
proof -
  from assms(2) obtain label shards outputs where
    "prog_fold (prepare_shard env fsys label staging) [] shards st = (Inr outputs, st')"
    by (auto simp: prepare_direct_shards_def)
  then show ?thesis
    by (rule prog_fold_invariant [where I = "\<lambda>_ _. good_st env"]) (use assms(1) prepare_shard_good in blast)+
qed

lemma finalize_direct_returns:
  assumes "good_st env st"
  shows "ends (finalize_direct_shards env fsys staging plan layout results st) (\<lambda>_. good_st env)"
proof -
  obtain ws fs where st: "st = (ws, fs)" by fastforce
  obtain r ws1 where r: "prog_fold (reconcile_shard env staging plan layout results) [] (dl_assignments layout) ws = (r, ws1)"
    by fastforce
  show ?thesis
  proof (cases r)
    case (Inr written)
    from r [unfolded Inr] have "good_ws env ws1"
      by (rule prog_fold_invariant [where I = "\<lambda>_ _. good_ws env"])
        (use assms st in \<open>auto simp: reconcile_shard_def dest: workspace_check_good\<close>)
    then have "good_st env (ws1, fs)" by simp
    then have "ends (run_bind (write_index env fsys plan path weights (ws1, fs)) (\<lambda>_. run_only (Inr payload))) (\<lambda>_. good_st env)"
      for path weights and payload :: written_payload
      by (intro ends_bind [OF write_index_good]) simp_all
    with Inr r st show ?thesis by (simp add: finalize_direct_shards_def)
  qed (use r st in \<open>simp add: finalize_direct_shards_def\<close>)
qed

lemma fill_range_returns:
  assumes "fs_put fsys = file_stream takes" "encoders_conform registry" "0 < env_granularity env" "good_st env st"
  shows "ends (fill_range env fsys source_tensors registry path offset tensor st) (\<lambda>_. good_st env)"
proof -
  obtain ws fs where st: "st = (ws, fs)" by fastforce
  have ret: "ends (map_option (\<lambda>(r, ws', out). (rbind r (\<lambda>result. rbind (range_finish out) (\<lambda>_.
        fail_if (er_output_bytes result \<noteq> size) (OutputError ''M08 encoder byte mismatch'') (Inr result))),
        (ws', fs(path := Some (fst (fst out))))))
      (encode env (range_write (patch_write (file_stream takes))) tensor sources ws ((data, nat offset), size))) (\<lambda>_. good_st env)"
    if "dict_get registry (encoder tensor) = Some encode" for encode sources data size
  proof -
    from that assms(2) have contract: "tensor_encoder encode" by (auto simp: encoders_conform_def)
    have good: "good_ws env ws" using assms(4) st by simp
    from tensor_encoder.returns [OF contract marked_sink assms(3) good, of takes tensor sources "((data, nat offset), size)"]
    obtain r ws' out' where
      run: "encode env (range_write (patch_write (file_stream takes))) tensor sources ws ((data, nat offset), size) = Some (r, ws', out')"
      by blast
    have "good_ws env ws'" if "r = Inr result" for result
      using tensor_encoder.writes [OF contract marked_sink assms(3) good run [unfolded that]] by blast
    with run show ?thesis by (cases r) auto
  qed
  show ?thesis
    unfolding fill_range_def st prod.case
    using assms(1,4) st ret by (auto intro!: ends_bind_only split: option.split)
qed

lemma place_tensor_returns:
  assumes "fs_put fsys = file_stream takes" "encoders_conform registry" "0 < env_granularity env" "good_st env st"
  shows "ends (place_tensor env fsys staging plan source_tensors layout results registry assigned written tensor st) (\<lambda>_. good_st env)"
  unfolding place_tensor_def
  by (rule ends_bind_only, rule ends_bind_only, clarify, rule ends_bind_only, clarify,
      rule ends_bind [where P = "\<lambda>_. good_st env"])
    (use assms fill_range_returns [OF assms] in \<open>auto split: option.split\<close>)

lemma finalize_mixed_returns:
  assumes "fs_put fsys = file_stream takes" "encoders_conform encoders" "0 < env_granularity env" "good_st env st"
  shows "ends (finalize_mixed_shards env fsys staging plan source_tensors layout results bundle encoders st) (\<lambda>_. good_st env)"
  unfolding finalize_mixed_shards_def Let_def
proof (rule ends_bind [OF ends_fold [where I = "\<lambda>_. good_st env"]], rule assms(4), goal_cases)
  case (1 acc x s)
  then show ?case by (intro place_tensor_returns [OF assms(1) native_registry_conforms [OF assms(2)] assms(3)])
next
  case (2 written st1)
  obtain ws fs where "st1 = (ws, fs)" by fastforce
  then show ?case
    using 2 by (auto intro!: ends_bind_only ends_bind [OF write_index_good])
qed

lemma copy_metadata_returns:
  assumes "sink (fs_put fsys) id" "0 < env_granularity env" "good_st env st"
  shows "ends (copy_metadata env fsys source destination st) (\<lambda>_. good_st env)"
proof -
  obtain ws fs where st: "st = (ws, fs)" by fastforce
  with assms(3) have good: "good_ws env ws" by simp
  have "ends (copy_range (env_sha env) (env_granularity env) (env_rss env) (fs_put fsys) False (env_files env (lf_path source)) 0
      (lf_size source) ws []) (\<lambda>_ st'. good_ws env (fst st'))"
  proof (cases "env_files env (lf_path source)")
    case None
    then show ?thesis by (simp add: copy_range_def)
  next
    case (Some data)
    from copy_range_outcome [OF assms(1) good assms(2), of "env_sha env" "env_rss env" False data 0 "lf_size source" "[]"] Some
    show ?thesis unfolding ends_def by (fastforce split: sum.split_asm dest: ws_good_self)
  qed
  then have "ends (on_file destination fs (copy_range (env_sha env) (env_granularity env) (env_rss env) (fs_put fsys) False
      (env_files env (lf_path source)) 0 (lf_size source) ws [])) (\<lambda>_. good_st env)"
    by (fastforce simp: ends_def on_file_def)
  note run = this
  show ?thesis
    unfolding copy_metadata_def st by (rule ends_bind_only, unfold prod.case, rule ends_bind [OF run]) auto
qed

lemma copy_approved_metadata_returns:
  assumes "sink (fs_put fsys) id" "0 < env_granularity env" "good_st env st"
  shows "ends (copy_approved_metadata env fsys staging plan files st) (\<lambda>_. good_st env)"
  unfolding copy_approved_metadata_def
proof (rule ends_fold [where I = "\<lambda>_. good_st env"], rule assms(3))
  fix acc x and s :: "workspace \<times> files"
  assume s: "good_st env s"
  obtain ws fs where "s = (ws, fs)" by fastforce
  with s show "ends (metadata_step env fsys staging plan files acc x s) (\<lambda>_. good_st env)"
    unfolding metadata_step_def
    by (auto intro!: ends_bind_only ends_bind [where P = "\<lambda>_. good_st env"] copy_metadata_returns [OF assms(1,2)]
        simp: case_prod_unfold)
qed

section \<open>The state of a compilation\<close>

abbreviation sound :: "environment \<Rightarrow> compile_state \<Rightarrow> bool" where
  "sound env s \<equiv> good_ws env (cp_workspace s)"

lemma on_files_returns:
  assumes "ends (m (cp_workspace s, cp_files s)) (\<lambda>_. good_st env)"
  shows "ends (on_files m s) (\<lambda>_. sound env)"
proof -
  from assms obtain r ws fs where "m (cp_workspace s, cp_files s) = Some (r, (ws, fs))" "\<And>x. r = Inr x \<Longrightarrow> good_ws env ws"
    unfolding ends_def by (metis fst_conv prod.collapse)
  then show ?thesis by (auto simp: on_files_def set_files_def)
qed

lemma on_workspace_returns:
  assumes "ends (m (cp_workspace s)) (\<lambda>x ws. good_ws env ws \<and> Q x)"
  shows "ends (on_workspace m s) (\<lambda>x s'. sound env s' \<and> Q x)"
  using assms by (fastforce simp: ends_def on_workspace_def)

lemma on_workspace_good:
  "ends (m (cp_workspace s)) (\<lambda>_. good_ws env) \<Longrightarrow> ends (on_workspace m s) (\<lambda>_. sound env)"
  by (fastforce simp: ends_def on_workspace_def)

lemma on_disk_returns: "sound env s \<Longrightarrow> ends (on_disk m s) (\<lambda>_. sound env)"
  by (auto simp: on_disk_def split: prod.splits)

section \<open>Manifest, report and lock\<close>

lemma file_record_returns: "good_ws env ws \<Longrightarrow> ends (file_record env base relative kind ws) (\<lambda>_. good_ws env)"
  unfolding file_record_def
  by (rule ends_bind_only, clarify, rule ends_bind [OF hash_range_good], assumption, simp)

lemma hash_source_tensor_good:
  "0 < env_granularity env \<Longrightarrow> good_ws env ws \<Longrightarrow> ends (hash_source_tensor env t ws) (\<lambda>_. good_ws env)"
  by (rule ends_mono [OF hash_source_tensor_ends]) auto

lemma excluded_records_returns:
  assumes "0 < env_granularity env" "good_ws env ws"
  shows "ends (excluded_records env plan source_tensors ws) (\<lambda>_. good_ws env)"
  unfolding excluded_records_def Let_def
  by (rule ends_bind [OF ends_fold [where I = "\<lambda>_. good_ws env"]], rule assms(2))
    (auto simp: excluded_step_def intro!: ends_bind_only ends_bind [OF hash_source_tensor_good [OF assms(1)]])

lemma build_manifest_returns:
  assumes "0 < env_granularity env" "good_ws env ws"
  shows "ends (build_compilation_manifest env request source plan dependency_hash identity payload source_tensors staging native ws)
    (\<lambda>_. good_ws env)"
  unfolding build_compilation_manifest_def
  apply (rule ends_bind [OF excluded_records_returns [OF assms]], clarify)
  apply (rule ends_bind_only)
  apply (rule ends_bind [OF ends_fold [where I = "\<lambda>_. good_ws env"]], assumption, clarify)
   apply (rule ends_bind [OF file_record_returns], assumption, simp)
  apply simp
  done

lemma external_lock_returns: "good_ws env ws \<Longrightarrow> ends (external_lock_document env walk artifact compilation ws) (\<lambda>_. good_ws env)"
  unfolding external_lock_document_def
  by (rule ends_bind_only, rule ends_bind [OF ends_fold [where I = "\<lambda>_. good_ws env"]], assumption)
    (auto simp: lock_file_step_def intro!: ends_bind_only ends_bind [OF hash_range_good])

lemma telemetry_good: "good_ws env ws \<Longrightarrow> telemetry_value env ws = (Inr v, ws') \<Longrightarrow> good_ws env ws'"
  by (auto simp: telemetry_value_def telemetry_def dest: workspace_check_good)

lemma base_report_good: "good_ws env ws \<Longrightarrow> base_report env sys action request ws = (Inr v, ws') \<Longrightarrow> good_ws env ws'"
  by (auto simp: base_report_def dest: telemetry_good)

lemma manifest_digest_returns: "good_ws env ws \<Longrightarrow> ends (manifest_digest env artifact ws) (\<lambda>_. good_ws env)"
  unfolding manifest_digest_def Let_def by (rule ends_bind_only, rule hash_range_good)

lemma compile_report_returns:
  "good_ws env ws \<Longrightarrow> ends (compile_report env sys identity request out_path staging source plan payload compilation native runtime ws)
    (\<lambda>_. good_ws env)"
  unfolding compile_report_def
  by (rule ends_bind [OF ends_prog], erule base_report_good, assumption, rule ends_bind [OF manifest_digest_returns], assumption,
      rule ends_bind_only, clarify, rule ends_bind [OF ends_prog], erule telemetry_good, assumption) auto

lemma preflight_good:
  assumes "good_ws env ws" "preflight_stage env sys request ws = (Inr p, ws')"
  shows "good_ws env ws'"
proof -
  have native: "good_ws env ws2" if "preflight_native_nvfp4 env st_sys q temporary r ws = (Inr pf, ws2)" for st_sys q temporary r pf ws2
    using that stage_executable_good [OF assms(1)]
    by (fastforce simp: preflight_native_nvfp4_def stage_nvfp4_executable_def split: option.split_asm sum.split_asm prod.split_asm)
  show ?thesis
    using assms by (auto simp: preflight_stage_def Let_def split: if_splits option.split_asm dest: native)
qed

section \<open>A compilation\<close>

lemma registry_conforms: "encoders_conform encoders \<Longrightarrow> encoders_conform (registry_or_default encoders)"
  using copying.tensor_encoder_axioms bf16_scalar.tensor_encoder_axioms
  by (auto simp: registry_or_default_def default_encoder_registry_def encoders_conform_def)

text \<open>A system whose streams are raw files.\<close>

definition raw_streams :: "compile_system \<Rightarrow> bool" where
  "raw_streams sys \<longleftrightarrow> (\<exists>takes. fs_put sys = file_stream takes)"

lemma raw_sink: "raw_streams sys \<Longrightarrow> sink (fs_put (output_system.truncate sys)) id"
  using raw.sink_axioms by (auto simp: raw_streams_def output_system.truncate_def)

lemma raw_stream: "raw_streams sys \<Longrightarrow> \<exists>takes. fs_put (output_system.truncate sys) = file_stream takes"
  by (simp add: raw_streams_def output_system.truncate_def)

lemma bundle_stage_returns:
  assumes "0 < env_granularity env" "sound env s"
  shows "ends (bundle_stage env sys request plan source_tensors staging s) (\<lambda>_. sound env)"
  unfolding bundle_stage_def
proof (rule ends_bind [OF on_files_returns [where env = env]])
  have "ends (prepare_native_bundle (view_of env s) (file_system.truncate sys) (cs_stuck sys)
      (stage_fp8_executable (view_of env s) (staging_system.truncate sys) (nr_executable request) staging) (cs_fp8_child sys)
      request plan source_tensors staging (cp_workspace s, cp_files s)) (\<lambda>_. good_st (view_of env s))"
    by (rule prepare_bundle_returns)
      (use assms stage_executable_good [of "view_of env s"] in \<open>auto simp: stage_fp8_executable_def\<close>)
  then show "ends (prepare_native_bundle (view_of env s) (file_system.truncate sys) (cs_stuck sys)
      (stage_fp8_executable (view_of env s) (staging_system.truncate sys) (nr_executable request) staging) (cs_fp8_child sys)
      request plan source_tensors staging (cp_workspace s, cp_files s)) (\<lambda>_. good_st env)" by simp
qed simp

lemma direct_stage_returns:
  assumes "0 < env_granularity env" "sound env s"
  shows "ends (direct_stage env sys request path plan native_plan source_tensors staging preflight s) (\<lambda>_. sound env)"
  unfolding direct_stage_def
proof (rule ends_bind [OF on_files_returns [where env = env]], goal_cases)
  case 1
  show ?case
    by (rule ends_prog) (use prepare_direct_shards_good [of "view_of env s"] assms in fastforce)
next
  case (2 layout s1)
  show ?case
    by (rule ends_bind [OF on_files_returns [where env = env]])
      (use prepare_direct_returns [of "view_of env s1" "(cp_workspace s1, cp_files s1)"] assms(1) 2 in auto)
qed

lemma build_payload_returns:
  assumes "0 < env_granularity env" "sound env s" "raw_streams sys" "encoders_conform encoders" "encoders_conform ranged"
  shows "ends (build_payload env sys request plan source_tensors staging encoders ranged preflight s) (\<lambda>_. sound env)"
proof -
  obtain takes where takes: "fs_put (output_system.truncate sys) = file_stream takes" using raw_stream [OF assms(3)] by blast
  have plain_shards: "ends (on_files (write_shards (view_of env s) (output_system.truncate sys) staging plan source_tensors
      (registry_or_default encoders) nb) s) (\<lambda>_. sound env)" if "sound env s" for s nb
    by (rule on_files_returns)
      (use write_shards_returns [OF raw_sink [OF assms(3)] registry_conforms [OF assms(4)], of "view_of env s" "(cp_workspace s, cp_files s)"]
        assms(1) that in simp)
  have native_shards: "ends (on_files (finalize_direct_shards (view_of env s) (output_system.truncate sys) staging plan layout results) s)
      (\<lambda>_. sound env)" if "sound env s" for s layout results
    by (rule on_files_returns) (use finalize_direct_returns [of "view_of env s" "(cp_workspace s, cp_files s)"] that in simp)
  have hybrid_shards: "ends (on_files (finalize_mixed_shards (view_of env s) (output_system.truncate sys) staging plan source_tensors layout
      results nb (registry_or_default ranged)) s) (\<lambda>_. sound env)" if "sound env s" for s layout results nb
    by (rule on_files_returns)
      (use finalize_mixed_returns [OF takes registry_conforms [OF assms(5)], of "view_of env s" "(cp_workspace s, cp_files s)"]
        assms(1) that in simp)
  note prepared = ends_bind_only ends_bind [OF plain_shards] ends_bind [OF native_shards] ends_bind [OF hybrid_shards]
    ends_bind [OF bundle_stage_returns [OF assms(1)]] ends_bind [OF direct_stage_returns [OF assms(1)]]
  show ?thesis
    unfolding build_payload_def fp8_payload_def nvfp4_payload_def hybrid_payload_def
    using assms(2) by (auto intro!: prepared split: option.split)
qed

lemma finish_staging_returns:
  assumes "0 < env_granularity env" "sound env s" "raw_streams sys" "distinct (map output_name (qp_tensors plan))"
  shows "ends (finish_staging env sys identity request source source_tensors plan dependency_hash staging payload native s)
    (\<lambda>_. sound env)"
  unfolding finish_staging_def Let_def
proof (rule ends_bind [OF on_files_returns [where env = env]], goal_cases)
  case 1
  show ?case
    using copy_approved_metadata_returns [OF raw_sink [OF assms(3)], of "view_of env s" "(cp_workspace s, cp_files s)"] assms(1,2) by simp
next
  case (2 names s1)
  show ?case
  proof (rule ends_bind [OF on_workspace_good [where env = env]], goal_cases)
    case 1
    show ?case using build_manifest_returns [of "view_of env s1" "cp_workspace s1"] assms(1) 2 by simp
  next
    case (2 compilation s2)
    show ?case
    proof (rule ends_bind [OF on_files_returns [where env = env]], goal_cases)
      case 1
      show ?case using 2 by (auto split: prod.split)
    next
      case (2 u s3)
      show ?case
      proof (rule ends_bind [OF on_workspace_good [where env = env]], goal_cases)
        case 1
        show ?case
          by (rule ends_mono [OF verify_loaded_artifact_ends [of "view_of env s3" "cp_workspace s3" plan]])
            (use assms(1,4) 2 in simp_all)
      next
        case (2 y s4)
        show ?case
          by (rule ends_bind [OF on_workspace_good [where env = env]])
            (use reverify_ends [of "view_of env s4" "cp_workspace s4"] 2 in auto)
      qed
    qed
  qed
qed

lemma lock_payload_returns:
  assumes "sound env s"
  shows "ends (lock_payload env sys request plan staging compilation report s) (\<lambda>_. sound env)"
proof -
  have "ends (on_workspace (external_lock_document (view_of env s) walk staging compilation) s) (\<lambda>_. sound env)" for walk
    by (rule on_workspace_good) (use external_lock_returns [of "view_of env s" "cp_workspace s"] assms in simp)
  then show ?thesis
    unfolding lock_payload_def using assms by (auto intro!: ends_bind [where P = "\<lambda>_. sound env"] split: option.split)
qed

lemma staged_compilation_returns:
  assumes "0 < env_granularity env" "sound env s" "raw_streams sys" "encoders_conform encoders" "encoders_conform ranged"
    "distinct (map output_name (qp_tensors plan))"
  shows "ends (staged_compilation env sys identity request out_path preflight source source_tensors plan dependency_hash staging
    encoders ranged s) (\<lambda>_. sound env)"
  unfolding staged_compilation_def Let_def
proof (rule ends_bind [OF build_payload_returns [OF assms(1-5)]], clarify, goal_cases)
  case (1 payload native runtime s1)
  have "sound env ((bundle_cleanup sys s1)\<lparr>cp_bundle := None\<rparr>)"
    using 1 by (simp add: bundle_cleanup_def set_files_def split: option.split)
  then show ?case
  proof (rule ends_bind [OF finish_staging_returns [OF assms(1) _ assms(3,6)]], clarify, goal_cases)
    case (1 written compilation s3)
    show ?case
      by (rule ends_bind [OF on_workspace_good [where env = env]])
        (use compile_report_returns [of "view_of env s3" "cp_workspace s3"] 1 lock_payload_returns in auto)
  qed
qed

lemma open_staging_returns:
  assumes "sound env s"
  shows "ends (open_staging env sys request out_path report_path s) (\<lambda>_. sound env)"
  unfolding open_staging_def
  by (rule ends_bind [OF on_disk_returns [OF assms]], rule ends_bind_only, rule ends_bind [OF on_disk_returns], assumption,
      rule ends_bind [OF on_disk_returns], assumption) simp

lemma open_compilation_returns:
  assumes "sound env s"
  shows "ends (open_compilation env sys identity request out_path report_path s)
    (\<lambda>(preflight, (source, source_tensors, plan, dependency_hash), report, staging) s'.
      sound env s' \<and> distinct (map output_name (qp_tensors plan)))"
  unfolding open_compilation_def
proof (rule ends_bind [OF on_workspace_good [where env = env]], goal_cases)
  case 1
  show ?case by (rule ends_prog) (use preflight_good [of "view_of env s"] assms in auto)
next
  case (2 preflight s1)
  show ?case
  proof (rule ends_bind [OF on_workspace_returns [where env = env
        and Q = "\<lambda>(source, source_tensors, plan, dependency_hash). distinct (map output_name (qp_tensors plan))"]], goal_cases)
    case 1
    show ?case
      by (rule ends_mono [OF load_request_ends [of "view_of env s1"]]) (use 2 in auto)
  next
    case (2 x s2)
    obtain source source_tensors plan dependency_hash where x: "x = (source, source_tensors, plan, dependency_hash)"
      by (metis prod.exhaust)
    show ?case
      unfolding x prod.case
      by (rule ends_bind_only, rule ends_bind [OF open_staging_returns]) (use 2 x in auto)
  qed
qed

text \<open>Publishing does no loops at all.\<close>

lemma publish_compilation_returns:
  "\<exists>r s'. publish_compilation env sys request staging out_path report document payload s = Some (r, s')"
proof -
  have total: "\<exists>r s'. on_disk m s = Some (r, s')" for m :: "(disk, 'x) prog" and s
    by (auto simp: on_disk_def split: prod.split)
  have bind: "\<exists>r s'. run_bind m f = Some (r, s')" if "\<exists>r s'. m = Some (r, s')" "\<And>x s. \<exists>r s'. f x s = Some (r, s')"
    for m :: "('x res \<times> compile_state) option" and f :: "'x \<Rightarrow> compile_state \<Rightarrow> ('y res \<times> compile_state) option"
    using that by (auto simp: run_bind_def split: sum.split)
  have atomic: "\<exists>r s'. on_files (\<lambda>(ws, fs). case write_file_atomic fsys path doc fs of (r, fs') \<Rightarrow> Some (r, (ws, fs'))) s = Some (r, s')"
    for fsys path doc s
    by (auto simp: on_files_def split: prod.split)
  show ?thesis
    unfolding publish_compilation_def publish_stage_def write_lock_def report_stage_def
    by (auto intro!: bind total atomic split: option.split)
qed

end
