(* ===== verification/Transaction_Facts.thy ===== *)
theory Transaction_Facts
  imports Return_Facts
begin

text \<open>
  The guarantees of the four actions: a compilation always returns and is a transaction, and a
  comparison passes exactly on directories with the same files.
\<close>

section \<open>Compile\<close>

lemma compile_run_returns:
  assumes "0 < env_granularity env" "good_ws env ws" "raw_streams sys" "encoders_conform encoders" "encoders_conform ranged"
  shows "\<exists>r s'. compile_run env sys identity request out_path report_path encoders ranged (compile_start ws d) = Some (r, s')"
proof -
  have "sound env (compile_start ws d)" using assms(2) by (simp add: compile_start_def)
  note started = open_compilation_returns [OF this, of sys identity request out_path report_path]
  then obtain q s1 where start:
    "open_compilation env sys identity request out_path report_path (compile_start ws d) = Some (q, s1)"
    using ends_Some by blast
  show ?thesis
  proof (cases q)
    case (Inl e)
    with start show ?thesis by (simp add: compile_run_def)
  next
    case (Inr x)
    obtain preflight source source_tensors plan dependency_hash report staging where
      x: "x = (preflight, (source, source_tensors, plan, dependency_hash), report, staging)" by (metis prod.exhaust)
    from ends_Inr [OF started start [unfolded Inr]] x have good: "sound env s1" "distinct (map output_name (qp_tensors plan))"
      by simp_all
    from ends_Some [OF staged_compilation_returns [OF assms(1) good(1) assms(3-5) good(2)]] obtain y s2 where
      body: "staged_compilation env sys identity request out_path preflight source source_tensors plan dependency_hash staging
        encoders ranged s1 = Some (y, s2)" by blast
    show ?thesis
    proof (cases y)
      case (Inl e)
      with start Inr x body show ?thesis by (simp add: compile_run_def guarded_def)
    next
      case ok: (Inr z)
      obtain document payload where z: "z = (document, payload)" by fastforce
      from publish_compilation_returns [of env sys request staging out_path report document payload s2] obtain p s3 where
        "publish_compilation env sys request staging out_path report document payload s2 = Some (p, s3)" by blast
      with start Inr x body ok z show ?thesis by (cases p) (simp_all add: compile_run_def guarded_def)
    qed
  qed
qed

lemma workspace_good:
  "workspace_new (env_rss env) cap staging = Inr ws \<Longrightarrow> high_water (env_rss env) \<Longrightarrow> 0 < env_granularity env \<Longrightarrow> good_ws env ws"
  using workspace_new_good by blast



definition quiet_child :: "files \<Rightarrow> child_outcome \<times> files" where
  "quiet_child fs = (\<lparr>ch_start_error = None, ch_timed_out = False, ch_memory_exceeded = False, ch_overflow = False,
     ch_remaining = [], ch_returncode = 0, ch_stdout = [], ch_peak_rss = 0\<rparr>, fs)"

definition calm_sys :: compile_system where
  "calm_sys = \<lparr>open_fails = False, chmod_fails = False, fs_put = file_stream (\<lambda>_ payload. Some (length payload)),
     fsync_fails = False, replace_fails = False, directory_fails = False, exclusive_fails = \<lambda>_. False,
     sync_fails = \<lambda>_. False, allocate_fails = \<lambda>_. False, mkdir_fails = \<lambda>_. False, executable = \<lambda>_. True,
     identity_changed = False, unlink_fails = False,
     cs_dirs = \<lparr>ds_mkdir_fails = False, ds_remove_fails = False, ds_rename_fails = False, ds_sync_fails = \<lambda>_. False\<rparr>,
     cs_made = \<lambda>_. False, cs_kept = \<lambda>_. False, cs_stuck = \<lambda>_. False, cs_walk = \<lambda>_ _. [], cs_temporary = Some ''/tmp/t'',
     cs_preflight_query = direct_query, cs_build_query = direct_query, cs_fp8_child = quiet_child,
     cs_nvfp4_child = quiet_child, cs_duration = PFloat (Fin False 1)\<rparr>"

definition calm_request :: compiler_request where
  "calm_request = \<lparr>cr_source_lock = ''/l'', cr_source_directory = ''/m'', cr_compiler_manifest = ''/c'',
     cr_profile = ''synthetic-copy-v1'', cr_head_format = ''bf16'', cr_host_memory_cap_bytes = 1000000,
     cr_staging_bytes = 4096, cr_shard_size = None, cr_threads = 1, cr_reference_platform_strict = False,
     cr_dependencies_lock = ''/d'', cr_native_encoder = None, cr_native_fp8_encoder = None,
     cr_native_nvfp4_encoder = None, cr_artifact_lock = None, cr_native_timeout_seconds = 600\<rparr>"

definition calm_identity :: compiler_identity where
  "calm_identity = \<lparr>ci_repository = ''r'', ci_commit = ''c'', ci_dirty = False, ci_environment = []\<rparr>"

definition calm_disk :: disk where
  "calm_disk = \<lparr>dk_dirs = \<lambda>p. p = ''/o'', dk_files = [''/o/old'' \<mapsto> [1, 2]]\<rparr>"

lemma calm_streams: "raw_streams calm_sys"
  by (auto simp: raw_streams_def calm_sys_def)

lemma calm_env: "0 < env_granularity sample_env" "high_water (env_rss sample_env)"
  by (simp_all add: sample_env_def high_water_def)

lemma calm_tidy: "tidy calm_disk"
proof -
  have "q = [] \<or> q = ''/o'' \<or> q = ''/o/old''" if "below q ''/o/old''" for q
  proof (cases "q = ''/o/old''")
    case False
    with that obtain r where r: "''/o/old'' = q @ ''/'' @ r" by (auto simp: below_iff)
    then have "length ''/o/old'' = length (q @ ''/'' @ r)" by (rule arg_cong)
    then have "length q < 6" by simp
    moreover have "''/o/old'' ! length q = CHR ''/''" using r by simp
    ultimately have "length q = 0 \<or> length q = 2" by (auto simp: less_Suc_eq numeral_eq_Suc)
    moreover have "q = take (length q) ''/o/old''" using r by simp
    ultimately show ?thesis by auto
  qed simp
  then show ?thesis by (auto simp: tidy_def calm_disk_def split: if_splits)
qed



section \<open>Compare\<close>

text \<open>The file of a directory at a relative path: a path the traversal lists that is no directory.\<close>

definition artifact_file :: "environment \<Rightarrow> (string \<Rightarrow> string list) \<Rightarrow> string \<Rightarrow> string \<Rightarrow> bytes option" where
  "artifact_file env walk path p = (case env_resolve env path of
     None \<Rightarrow> None
   | Some base \<Rightarrow> if p \<in> set (walk base) \<and> env_entry env (path_join base p) \<noteq> Directory
       then env_files env (path_join base p) else None)"

definition summary_of :: "environment \<Rightarrow> bytes option \<Rightarrow> (int \<times> string) option" where
  "summary_of env = map_option (\<lambda>data. (int (length data), env_sha env data))"

lemma directory_hashes_get:
  assumes "directory_hashes env walk path = Inr hashes"
  shows "dict_get hashes p = summary_of env (artifact_file env walk path p)"
proof -
  from assms obtain base where base: "env_resolve env path = Some base"
    and run: "rfold (hash_file_step env base) [] (sort_key path_parts (walk base)) = Inr hashes"
    by (auto simp: directory_hashes_def split: option.split_asm)
  let ?I = "\<lambda>ys h. \<forall>q. dict_get h q = (if q \<in> set ys \<and> env_entry env (path_join base q) \<noteq> Directory
    then summary_of env (env_files env (path_join base q)) else None)"
  have "?I (sort_key path_parts (walk base)) hashes"
  proof (rule rfold_invariant [where I = ?I, OF run])
    fix ys y zs h h'
    assume inv: "?I ys h" and step: "hash_file_step env base h y = Inr h'"
    show "?I (ys @ [y]) h'"
    proof (cases "env_entry env (path_join base y) = Directory")
      case True
      with step have "h' = h" by (simp add: hash_file_step_def is_dir_def Let_def)
      with inv True show ?thesis by auto
    next
      case False
      with step obtain data where "env_files env (path_join base y) = Some data"
        "h' = dict_set y (int (length data), env_sha env data) h"
        by (auto simp: hash_file_step_def is_dir_def Let_def split: path_entry.split_asm option.split_asm)
      with inv False show ?thesis by (simp add: summary_of_def)
    qed
  qed simp
  then show ?thesis using base by (simp add: artifact_file_def summary_of_def)
qed

lemma mismatched_none: "mismatched_paths left right = [] \<longleftrightarrow> (\<forall>p. dict_get left p = dict_get right p)"
proof -
  have "finite (dict_keys left \<union> dict_keys right)" by (simp add: dict_keys_def)
  moreover have "dict_get left p = dict_get right p" if "p \<notin> dict_keys left \<union> dict_keys right" for p
    using that dict_get_None_iff [of left p] dict_get_None_iff [of right p] by simp
  ultimately show ?thesis by (auto simp: mismatched_paths_def filter_empty_conv)
qed

text \<open>
  C16. Two directories whose files could be read compare as reproducible exactly when they hold the
  same files with the same bytes, and otherwise the comparison raises; nothing on the disk changes.
  No two different files at one path have the same size and digest.
\<close>

theorem compare_reproducibility_exact:
  assumes "directory_hashes (looking env d) (cs_walk sys d) left = Inr left_hashes"
    and "directory_hashes (looking env d) (cs_walk sys d) right = Inr right_hashes"
    and "compared_milestone (looking env d) left right = Inr milestone"
    and "\<forall>p x y. artifact_file (looking env d) (cs_walk sys d) left p = Some x \<longrightarrow>
      artifact_file (looking env d) (cs_walk sys d) right p = Some y \<longrightarrow>
      length x = length y \<longrightarrow> env_sha env x = env_sha env y \<longrightarrow> x = y"
  shows "compare_reproducibility env sys left right None d =
    (if artifact_file (looking env d) (cs_walk sys d) left = artifact_file (looking env d) (cs_walk sys d) right
     then Inr (compare_report sys milestone left_hashes right_hashes)
     else Inl (ReproducibilityError ''artifact reproducibility mismatch''), d)"
proof -
  let ?file = "artifact_file (looking env d) (cs_walk sys d)"
  have "mismatched_paths left_hashes right_hashes = [] \<longleftrightarrow> (\<forall>p. summary_of env (?file left p) = summary_of env (?file right p))"
    by (simp add: mismatched_none directory_hashes_get [OF assms(1)] directory_hashes_get [OF assms(2)] summary_of_def)
  also have "\<dots> \<longleftrightarrow> ?file left = ?file right"
  proof
    assume same: "\<forall>p. summary_of env (?file left p) = summary_of env (?file right p)"
    show "?file left = ?file right"
    proof
      fix p
      from same have "summary_of env (?file left p) = summary_of env (?file right p)" by simp
      then show "?file left p = ?file right p"
        using assms(4) by (cases "?file left p"; cases "?file right p") (auto simp: summary_of_def)
    qed
  qed simp
  finally show ?thesis
    using assms(1-3) by (simp add: compare_reproducibility_def Let_def write_report_def fail_if_def)
qed

definition twin_env :: environment where
  "twin_env = sample_env\<lparr>env_entry := \<lambda>path. if path \<in> {''/x'', ''/y''} then Directory
     else if path \<in> {''/x/a'', ''/y/a''} then Regular 1 else Missing,
     env_files := \<lambda>path. if path = ''/x/a'' then Some [1] else if path = ''/y/a'' then Some [2] else None,
     env_sha := \<lambda>data. if data = [1] then ''1'' else ''2''\<rparr>"

definition twin_sys :: compile_system where
  "twin_sys = calm_sys\<lparr>cs_walk := \<lambda>_ _. [''a'']\<rparr>"

theorem compare_reproducibility_exact_witness:
  "compare_reproducibility twin_env twin_sys ''/x'' ''/y'' None calm_disk =
    (Inl (ReproducibilityError ''artifact reproducibility mismatch''), calm_disk)"
proof -
  have left: "directory_hashes (looking twin_env calm_disk) (cs_walk twin_sys calm_disk) ''/x'' = Inr [(''a'', (1, ''1''))]"
    and right: "directory_hashes (looking twin_env calm_disk) (cs_walk twin_sys calm_disk) ''/y'' = Inr [(''a'', (1, ''2''))]"
    and milestone: "compared_milestone (looking twin_env calm_disk) ''/x'' ''/y'' = Inr ''M04''"
    and found: "artifact_file (looking twin_env calm_disk) (cs_walk twin_sys calm_disk) ''/x'' ''a'' = Some [1]"
      "artifact_file (looking twin_env calm_disk) (cs_walk twin_sys calm_disk) ''/y'' ''a'' = Some [2]"
    by code_simp+
  have none: "artifact_file (looking twin_env calm_disk) (cs_walk twin_sys calm_disk) base p = None" if "p \<noteq> ''a''" for base p
    using that by (simp add: artifact_file_def twin_sys_def split: option.split)
  have apart: "\<forall>p x y. artifact_file (looking twin_env calm_disk) (cs_walk twin_sys calm_disk) ''/x'' p = Some x \<longrightarrow>
      artifact_file (looking twin_env calm_disk) (cs_walk twin_sys calm_disk) ''/y'' p = Some y \<longrightarrow>
      length x = length y \<longrightarrow> env_sha twin_env x = env_sha twin_env y \<longrightarrow> x = y"
  proof (intro allI impI)
    fix p x y
    assume here: "artifact_file (looking twin_env calm_disk) (cs_walk twin_sys calm_disk) ''/x'' p = Some x"
      "artifact_file (looking twin_env calm_disk) (cs_walk twin_sys calm_disk) ''/y'' p = Some y"
      and same: "env_sha twin_env x = env_sha twin_env y"
    have "p = ''a''" using here(1) none [of p "''/x''"] by (cases "p = ''a''") simp_all
    with here found have "x = [1]" "y = [2]" by simp_all
    with same show "x = y" by (simp add: twin_env_def)
  qed
  have "artifact_file (looking twin_env calm_disk) (cs_walk twin_sys calm_disk) ''/x'' \<noteq>
      artifact_file (looking twin_env calm_disk) (cs_walk twin_sys calm_disk) ''/y''"
  proof
    assume "artifact_file (looking twin_env calm_disk) (cs_walk twin_sys calm_disk) ''/x'' =
      artifact_file (looking twin_env calm_disk) (cs_walk twin_sys calm_disk) ''/y''"
    then show False using found by simp
  qed
  then show ?thesis using compare_reproducibility_exact [OF left right milestone apart] by simp
qed

end
