(* ===== verification/Vision_Module.thy ===== *)
theory Vision_Module
  imports Compiler_Run
begin

unbundle bit_operations_syntax

text \<open>
  \<open>tools/gem16_compile/vision_module.py\<close>: the compiler of the vision module. The 356 vision tensors
  of the source become one aligned file of 547 tensors, an FP8 weight and a BF16 scale for each
  linear matrix and a copy of every other tensor, beside three small documents that bind its digest.
\<close>

section \<open>The frozen contract\<close>

definition PROFILE :: string where "PROFILE = ''gemma4_26b_trellis35_vision_fp8''"
definition TEXT_ARTIFACT_PROFILE :: string where "TEXT_ARTIFACT_PROFILE = ''gem16-trellis35-w4a8-v1''"
definition VISION_FILENAME :: string where "VISION_FILENAME = ''vision.gem16''"
definition DESCRIPTOR_FILENAME :: string where "DESCRIPTOR_FILENAME = ''gem16_vision.json''"
definition COMPILATION_FILENAME :: string where "COMPILATION_FILENAME = ''vision_compilation.json''"
definition LOCK_FILENAME :: string where "LOCK_FILENAME = ''vision.lock.json''"
definition SOURCE_TENSOR_COUNT :: nat where "SOURCE_TENSOR_COUNT = 356"
definition SOURCE_TENSOR_BYTES :: int where "SOURCE_TENSOR_BYTES = 1145588832"
definition LINEAR_COUNT :: nat where "LINEAR_COUNT = 191"
definition LINEAR_PARAMETERS :: int where "LINEAR_PARAMETERS = 549070848"
definition BF16_COPY_COUNT :: nat where "BF16_COPY_COUNT = 165"
definition OUTPUT_TENSOR_COUNT :: nat where "OUTPUT_TENSOR_COUNT = 547"
definition OUTPUT_TENSOR_BYTES :: int where "OUTPUT_TENSOR_BYTES = 597301792"
definition OUTPUT_PADDING_BYTES :: int where "OUTPUT_PADDING_BYTES = 11232"
definition OUTPUT_PAYLOAD_BYTES :: int where "OUTPUT_PAYLOAD_BYTES = 597313024"
definition TENSOR_ALIGNMENT :: int where "TENSOR_ALIGNMENT = 256"

record vision_output =
  vo_name :: string
  vo_dtype :: string
  vo_shape :: "int list"
  vo_source_name :: string
  vo_role :: string
  vo_kind :: string
  vo_byte_length :: int

text \<open>\<open>_file_sha256\<close>: a file that cannot be opened raises.\<close>

definition file_sha256 :: "environment \<Rightarrow> string \<Rightarrow> string res" where
  "file_sha256 env path = (case env_files env path of
     None \<Rightarrow> Inl (OSError ''open'') | Some data \<Rightarrow> Inr (env_sha env data))"

section \<open>Sources and outputs\<close>

definition expected_vision_specs :: "source_specs res" where
  "expected_vision_specs = rbind m06_expected_source_specs (\<lambda>specs.
     let result = filter (\<lambda>(name, role, shape). starts_with ''vision_'' role) specs in
     fail_if (length result \<noteq> SOURCE_TENSOR_COUNT)
       (InvalidPlanError ''frozen Vision source table has an unexpected size'') (Inr (dict_sorted result)))"

definition EMBEDDING_PROJECTION :: string where
  "EMBEDDING_PROJECTION = ''model.embed_vision.embedding_projection.weight''"

definition is_linear_source :: "string \<Rightarrow> int list \<Rightarrow> bool" where
  "is_linear_source name shape \<longleftrightarrow> length shape = 2
     \<and> (name = EMBEDDING_PROJECTION \<or> name = ''model.vision_tower.patch_embedder.input_proj.weight''
        \<or> ends_with ''.linear.weight'' name)"

definition is_vision_name :: "string \<Rightarrow> bool" where
  "is_vision_name name \<longleftrightarrow> name = EMBEDDING_PROJECTION \<or> starts_with ''model.vision_tower.'' name"

type_synonym source_totals = "sources \<times> int \<times> nat \<times> int"

definition select_step :: "sources \<Rightarrow> source_totals \<Rightarrow> string \<times> string \<times> int list \<Rightarrow> source_totals res" where
  "select_step source_tensors acc item = (case (acc, item) of ((selected, source_bytes, linears, parameters), (name, expected_role, shape)) \<Rightarrow>
     rbind (dict_index source_tensors name) (\<lambda>tensor.
     fail_if (td_dtype tensor \<noteq> ''BF16'' \<or> td_shape tensor \<noteq> shape)
       (DataError ''Vision source dtype/shape mismatch'') (
     rbind (classify_m05_source name) (\<lambda>actual.
     fail_if (actual \<noteq> expected_role) (DataError ''Vision source role mismatch'') (
     let linear = is_linear_source name shape in
     Inr (dict_set name tensor selected, source_bytes + td_byte_length tensor,
       if linear then linears + 1 else linears,
       if linear then parameters + shape ! 0 * shape ! 1 else parameters))))))"

definition validate_vision_sources :: "sources \<Rightarrow> sources res" where
  "validate_vision_sources source_tensors =
     rbind expected_vision_specs (\<lambda>expected.
     fail_if ({name \<in> dict_keys source_tensors. is_vision_name name} \<noteq> dict_keys expected)
       (DataError ''Vision source inventory mismatch'') (
     rbind (rfold (select_step source_tensors) ([], 0, 0, 0) expected) (\<lambda>(selected, source_bytes, linears, parameters).
     fail_if (length selected \<noteq> SOURCE_TENSOR_COUNT \<or> source_bytes \<noteq> SOURCE_TENSOR_BYTES
         \<or> linears \<noteq> LINEAR_COUNT \<or> parameters \<noteq> LINEAR_PARAMETERS)
       (DataError ''Vision source totals changed'') (Inr selected))))"

definition scale_name :: "string \<Rightarrow> string" where
  "scale_name name = remove_suffix ''.weight'' name @ ''.weight_scale''"

text \<open>The outputs of one source; a linear matrix has two dimensions.\<close>

definition outputs_of :: "string \<times> tensor_descriptor \<Rightarrow> vision_output list res" where
  "outputs_of item = (case item of (name, tensor) \<Rightarrow>
     rbind (classify_m05_source name) (\<lambda>role.
     Inr (if is_linear_source name (td_shape tensor)
       then let rows = td_shape tensor ! 0; columns = td_shape tensor ! 1 in [
         \<lparr>vo_name = name, vo_dtype = ''F8_E4M3'', vo_shape = [rows, columns], vo_source_name = name, vo_role = role,
           vo_kind = ''fp8_weight'', vo_byte_length = rows * columns\<rparr>,
         \<lparr>vo_name = scale_name name, vo_dtype = ''BF16'', vo_shape = [rows, 1], vo_source_name = name, vo_role = role,
           vo_kind = ''fp8_scale'', vo_byte_length = rows * 2\<rparr>]
       else [\<lparr>vo_name = name, vo_dtype = ''BF16'', vo_shape = td_shape tensor, vo_source_name = name, vo_role = role,
         vo_kind = ''bf16_copy'', vo_byte_length = td_byte_length tensor\<rparr>])))"

definition output_plan :: "sources \<Rightarrow> vision_output list res" where
  "output_plan selected =
     rbind (rmap outputs_of (dict_sorted selected)) (\<lambda>parts.
     let outputs = sort_key vo_name (concat parts) in
     fail_if (length outputs \<noteq> OUTPUT_TENSOR_COUNT) (DataError ''Vision output tensor count changed'') (
     fail_if (sum_list (map vo_byte_length outputs) \<noteq> OUTPUT_TENSOR_BYTES)
       (DataError ''Vision output tensor byte total changed'') (
     fail_if (length (filter (\<lambda>item. vo_kind item = ''bf16_copy'') outputs) \<noteq> BF16_COPY_COUNT)
       (DataError ''Vision BF16 copy tensor count changed'') (Inr outputs))))"

definition fp8_pair :: "string \<times> tensor_descriptor \<Rightarrow> tensor_compile_plan list res" where
  "fp8_pair item = (case item of (name, source) \<Rightarrow>
     if \<not> is_linear_source name (td_shape source) then Inr []
     else rbind (classify_m05_source name) (\<lambda>source_role.
       let rows = td_shape source ! 0; columns = td_shape source ! 1;
           weight = \<lparr>output_name = name, operation_id = ''vision-fp8:'' @ remove_suffix ''.weight'' name,
             source_names = [name], encoder = ''fp8-rowwise-weight-v1'',
             transformation = ''bf16-to-fp8-e4m3fn-rowwise-weight'', transformation_version = 1,
             output_dtype = ''F8_E4M3'', physical_shape = [rows, columns], logical_dtype = ''BF16'',
             logical_shape = [rows, columns], axis_transformation = ''identity'',
             quantizer_parameters = M05_QUANTIZER_PARAMETERS, dequantization_equation = M05_DEQUANTIZATION_EQUATION,
             role = source_role, residency_class = ''immutable_device_vision'', disk_layout = ''source_nk_fp8'',
             runtime_layout = ''source_nk_fp8'', aliased = False\<rparr>
       in Inr [weight, weight\<lparr>output_name := scale_name name, encoder := ''fp8-rowwise-scale-v1'',
         transformation := ''bf16-to-bf16-rowwise-scale'', output_dtype := ''BF16'', physical_shape := [rows, 1],
         logical_shape := [rows, 1], disk_layout := ''row_bf16'', runtime_layout := ''row_bf16''\<rparr>]))"

definition fp8_plan :: "sources \<Rightarrow> quantization_plan res" where
  "fp8_plan selected =
     rbind (rmap fp8_pair (dict_sorted selected)) (\<lambda>pairs.
     fail_if (length (concat pairs) \<noteq> LINEAR_COUNT * 2) (DataError ''Vision FP8 plan has an unexpected size'') (
     Inr \<lparr>qp_schema_version = 1, qp_artifact_profile = PROFILE, qp_head_format = ''not-applicable'',
       qp_source_contract = ''gemma4-26b-qat-bf16-vision-v1'', qp_compiler_manifest_sha256 = replicate 64 CHR ''0'',
       qp_resolved_plan_sha256 = replicate 64 CHR ''0'', qp_target_shard_bytes = OUTPUT_PAYLOAD_BYTES,
       qp_approved_metadata_files = [], qp_omitted_families = [''audio'', ''mtp'', ''text'', ''video''],
       qp_tensors = concat pairs, qp_excluded_tensors = [], qp_reference_environment = []\<rparr>))"

section \<open>The header\<close>

text \<open>\<open>(cursor + TENSOR_ALIGNMENT - 1) & -TENSOR_ALIGNMENT\<close>\<close>

definition aligned :: "int \<Rightarrow> int" where
  "aligned cursor = (cursor + TENSOR_ALIGNMENT - 1) AND (- TENSOR_ALIGNMENT)"

definition module_metadata :: pyval where
  "module_metadata = PDict [(''format'', PStr ''pt''), (''gem16_artifact'', PStr ''gemma4-26b-vision-fp8-v1''),
     (''gem16_capability_profile'', PStr PROFILE), (''gem16_required_text_profile'', PStr TEXT_ARTIFACT_PROFILE),
     (''gem16_schema_version'', PStr ''1'')]"

type_synonym layout_state = "int \<times> (int \<times> int) dict \<times> pyval dict"

definition layout_step :: "layout_state \<Rightarrow> vision_output \<Rightarrow> layout_state" where
  "layout_step acc item = (case acc of (cursor, offsets, header) \<Rightarrow>
     let start = aligned cursor; stop = start + vo_byte_length item in
     (stop, dict_set (vo_name item) (start, stop) offsets,
      dict_set (vo_name item) (PDict [(''dtype'', PStr (vo_dtype item)), (''shape'', PList (map PInt (vo_shape item))),
        (''data_offsets'', PList [PInt start, PInt stop])]) header))"

definition artifact_header :: "environment \<Rightarrow> vision_output list \<Rightarrow> bytes \<times> (int \<times> int) dict" where
  "artifact_header env outputs = (case foldl layout_step (0, [], [(''__metadata__'', module_metadata)]) outputs of
     (cursor, offsets, header) \<Rightarrow>
       let raw = pad8 (env_compact env (PDict header)) in (pack_u64 (length raw) @ raw, offsets))"

section \<open>The configuration of the source\<close>

definition VISION_CONFIG :: "pyval dict" where
  "VISION_CONFIG = [(''default_output_length'', PInt 280), (''dtype'', PStr ''bfloat16''), (''head_dim'', PInt 72),
     (''hidden_activation'', PStr ''gelu_pytorch_tanh''), (''hidden_size'', PInt 1152),
     (''intermediate_size'', PInt 4304), (''num_attention_heads'', PInt 16), (''num_hidden_layers'', PInt 27),
     (''num_key_value_heads'', PInt 16), (''patch_size'', PInt 16), (''pooling_kernel_size'', PInt 3),
     (''position_embedding_size'', PInt 10240),
     (''rms_norm_eps'', PFloat (Fin False (4722366482869645 / 4722366482869645213696))), (''standardize'', PBool True)]"

definition IMAGE_PROCESSOR :: "pyval dict" where
  "IMAGE_PROCESSOR = [(''do_convert_rgb'', PBool True), (''do_normalize'', PBool False), (''do_rescale'', PBool True),
     (''do_resize'', PBool True), (''image_seq_length'', PInt 280), (''max_soft_tokens'', PInt 280),
     (''patch_size'', PInt 16), (''pooling_kernel_size'', PInt 3), (''resample'', PInt 3),
     (''rescale_factor'', PFloat (Fin False (282578800148737 / 72057594037927936)))]"

definition differs :: "pyval \<Rightarrow> pyval dict \<Rightarrow> bool" where
  "differs v expected = (case v of
     PDict d \<Rightarrow> list_ex (\<lambda>(key, e). \<not> py_eq (obj_get d key) e) expected | _ \<Rightarrow> True)"

definition validate_config :: "environment \<Rightarrow> string \<Rightarrow> pyval dict res" where
  "validate_config env source_root =
     rbind (load_json (json_file_of env (path_join source_root ''config.json'')) (1024 * 1024)) (\<lambda>config.
     rbind (load_json (json_file_of env (path_join source_root ''processor_config.json'')) (1024 * 1024)) (\<lambda>processor.
     let vision = obj_get config ''vision_config''; image = obj_get processor ''image_processor'' in
     fail_if (differs vision VISION_CONFIG) (DataError ''Google QAT Vision config differs from the V00 contract'') (
     fail_if (differs vision [(''rope_parameters'',
         PDict [(''rope_theta'', PFloat (Fin False 100)), (''rope_type'', PStr ''default'')])])
       (DataError ''Google QAT Vision RoPE contract changed'') (
     fail_if (differs image IMAGE_PROCESSOR)
       (DataError ''Google QAT image processor differs from the V00 contract'') (
     Inr [(''vision_config'', PDict VISION_CONFIG), (''image_processor'', PDict IMAGE_PROCESSOR)])))))"

section \<open>Writing the module\<close>

text \<open>
  What the module compiler takes from outside beside the system of a compilation: the root of the
  repository, \<open>x ** 0.5\<close>, the answers of git, and the description of the platform.
\<close>

record vision_system = compile_system +
  vm_root :: string
  vm_power :: "pyfloat \<Rightarrow> pyfloat res"
  vm_commit :: "(string \<times> bool) res"
  vm_environment :: "pyval dict"

abbreviation plain_system :: "vision_system \<Rightarrow> compile_system" where
  "plain_system sys \<equiv> compile_system.truncate sys"

abbreviation module_put :: "vision_system \<Rightarrow> bytes writer" where
  "module_put sys \<equiv> fs_put (output_system.truncate sys)"

text \<open>\<open>a / b\<close> on numbers.\<close>

fun int_value :: "pyval \<Rightarrow> int option" where
  "int_value (PInt i) = Some i"
| "int_value (PBool b) = Some (of_bool b)"
| "int_value _ = None"

definition py_div :: "pyval \<Rightarrow> pyval \<Rightarrow> pyfloat res" where
  "py_div a b = (case (int_value a, int_value b) of
     (Some i, Some j) \<Rightarrow> int_true_div i j
   | _ \<Rightarrow> rbind (py_float a) (\<lambda>x. rbind (py_float b) (float_div x)))"

definition module_statistics :: "vision_system \<Rightarrow> pyval dict \<Rightarrow> pyval res" where
  "module_statistics sys item =
     rbind (dict_index item ''max_absolute_error'') (\<lambda>max_absolute_error.
     rbind (dict_index item ''source_sum_squares'') (\<lambda>source.
     rbind (if py_true source
       then rbind (dict_index item ''error_sum_squares'') (\<lambda>errors.
         rbind (py_div errors source) (vm_power sys))
       else Inr (Fin False 0)) (\<lambda>relative_l2.
     rbind (dict_index item ''saturation_count'') (\<lambda>saturation_count.
     rbind (dict_index item ''zero_rows'') (\<lambda>zero_rows.
     Inr (PDict [(''max_absolute_error'', max_absolute_error), (''relative_l2_error'', PFloat relative_l2),
       (''saturation_count'', saturation_count), (''zero_rows'', zero_rows)]))))))"

text \<open>One payload: copied from the source or, with its digest checked, from the native bundle.\<close>

type_synonym copied_output = "string \<times> string \<times> pyval option"

definition copy_native :: "environment \<Rightarrow> vision_system \<Rightarrow> native_bundle \<Rightarrow> vision_output \<Rightarrow> (workspace \<times> bytes, copied_output) run" where
  "copy_native env sys nb item st =
     run_bind (run_only (rbind (dict_index (nb_matrices nb) (vo_name item)) (\<lambda>matrix.
       let weight = vo_kind item = ''fp8_weight'' in
       rbind (dict_index (nm_telemetry matrix) (if weight then ''weight_sha256'' else ''scale_sha256'')) (\<lambda>expected_hash.
       Inr (matrix, if weight then nm_weight_offset matrix else nm_scale_offset matrix,
         if weight then nm_weight_bytes matrix else nm_scale_bytes matrix, expected_hash)))) st)
       (\<lambda>(matrix, offset, len, expected_hash) (ws, out).
     run_bind (copy_range (env_sha env) (env_granularity env) (env_rss env) (module_put sys) False
         (env_files env (nb_payload nb)) offset len ws out) (\<lambda>(_, output_hash).
     run_only (fail_if (PStr output_hash \<noteq> expected_hash) (DataError ''native Vision FP8 output hash mismatch'')
       (rbind (module_statistics sys (nm_telemetry matrix)) (\<lambda>statistics.
         Inr (nm_source_sha256 matrix, output_hash, Some statistics))))))"

definition copy_source :: "environment \<Rightarrow> vision_system \<Rightarrow> tensor_descriptor \<Rightarrow> (workspace \<times> bytes, copied_output) run" where
  "copy_source env sys source st = (case st of (ws, out) \<Rightarrow>
     run_bind (copy_range (env_sha env) (env_granularity env) (env_rss env) (module_put sys) True
         (env_files env (td_path source)) (td_absolute_offset source) (td_byte_length source) ws out)
       (\<lambda>(source_hash, output_hash). run_only (Inr (source_hash, output_hash, None))))"

definition output_record :: "vision_output \<Rightarrow> int \<Rightarrow> int \<Rightarrow> copied_output \<Rightarrow> pyval" where
  "output_record item start stop copied_parts = (case copied_parts of (source_hash, output_hash, statistics) \<Rightarrow> PDict ([
     (''byte_length'', PInt (vo_byte_length item)), (''data_offsets'', PList [PInt start, PInt stop]),
     (''dtype'', PStr (vo_dtype item)), (''kind'', PStr (vo_kind item)),
     (''logical_shape'', PList (map PInt (vo_shape item))), (''name'', PStr (vo_name item)),
     (''output_sha256'', PStr output_hash), (''physical_shape'', PList (map PInt (vo_shape item))),
     (''role'', PStr (vo_role item)),
     (''runtime_layout'', PStr (if vo_kind item = ''fp8_weight'' then ''source_nk_fp8''
        else if vo_kind item = ''fp8_scale'' then ''row_bf16'' else ''source_bf16'')),
     (''source_name'', PStr (vo_source_name item)), (''source_sha256'', PStr source_hash)]
     @ (case statistics of None \<Rightarrow> [] | Some v \<Rightarrow> [(''statistics'', v)])))"

definition write_padding :: "bytes writer \<Rightarrow> int \<Rightarrow> (workspace \<times> bytes, unit) run" where
  "write_padding put n st = (if n = 0 then Some (Inr (), st)
     else case write_all put (snd st) (replicate (nat n) 0) of (r, out) \<Rightarrow> Some (r, (fst st, out)))"

definition copy_step :: "environment \<Rightarrow> vision_system \<Rightarrow> (int \<times> int) dict \<Rightarrow> sources \<Rightarrow> native_bundle \<Rightarrow>
    pyval list \<times> int \<Rightarrow> vision_output \<Rightarrow> (workspace \<times> bytes, pyval list \<times> int) run" where
  "copy_step env sys offsets selected nb acc item st = (case acc of (records, cursor) \<Rightarrow>
     run_bind (run_only (rbind (dict_index offsets (vo_name item)) (\<lambda>(start, stop).
       fail_if (start < cursor) (DataError ''Vision module output order overlaps'') (Inr (start, stop)))) st)
       (\<lambda>(start, stop) st1.
     run_bind (write_padding (module_put sys) (start - cursor) st1) (\<lambda>_ st2.
     run_bind (run_only (dict_index selected (vo_source_name item)) st2) (\<lambda>source st3.
     run_bind (if vo_kind item = ''bf16_copy'' then copy_source env sys source st3 else copy_native env sys nb item st3)
       (\<lambda>copied_parts.
     run_only (Inr (records @ [output_record item start stop copied_parts], stop)))))))"

text \<open>\<open>except (OSError, ValueError)\<close>\<close>

definition as_output_error :: "('a res \<times> 's) option \<Rightarrow> ('a res \<times> 's) option" where
  "as_output_error m = map_option (\<lambda>(r, s). (reraise is_os_or_value_error (OutputError ''cannot write Vision module'') r, s)) m"

definition write_module :: "environment \<Rightarrow> vision_system \<Rightarrow> string \<Rightarrow> bytes \<Rightarrow> (int \<times> int) dict \<Rightarrow> vision_output list \<Rightarrow>
    sources \<Rightarrow> native_bundle \<Rightarrow> (workspace \<times> files, pyval list) run" where
  "write_module env sys path header offsets outputs selected nb st = (case st of (ws, fs) \<Rightarrow>
     if fs path \<noteq> None \<or> exclusive_fails sys path then Some (Inl (OSError ''open''), st)
     else if chmod_fails sys then Some (Inl (OSError ''chmod''), (ws, fs(path := Some [])))
     else run_bind (on_file path fs (run_bind (write_header (module_put sys) header ws) (\<lambda>_.
         run_fold (copy_step env sys offsets selected nb) ([], 0) outputs))) (\<lambda>(records, _).
       run_only (rbind (fsync_file (output_system.truncate sys) path) (\<lambda>_. Inr records))))"

definition check_module_size :: "files \<Rightarrow> string \<Rightarrow> bytes \<Rightarrow> unit res" where
  "check_module_size fs path header = (case fs path of
     None \<Rightarrow> Inl (OSError ''stat'')
   | Some data \<Rightarrow> fail_if (int (length data) \<noteq> int (length header) + OUTPUT_PAYLOAD_BYTES)
       (DataError ''Vision module size mismatch'') (Inr ()))"

definition copy_artifact :: "environment \<Rightarrow> vision_system \<Rightarrow> string \<Rightarrow> vision_output list \<Rightarrow> sources \<Rightarrow> native_bundle \<Rightarrow>
    (workspace \<times> files, pyval list \<times> int) run" where
  "copy_artifact env sys path outputs selected nb st = (case (artifact_header env outputs, st) of ((header, offsets), (ws, fs)) \<Rightarrow>
     case record_header (env_rss env) (int (length header) - 8) ws of
       (Inl e, ws1) \<Rightarrow> Some (Inl e, (ws1, fs))
     | (Inr _, ws1) \<Rightarrow>
       run_bind (as_output_error (write_module env sys path header offsets outputs selected nb (ws1, fs)))
         (\<lambda>records (ws2, fs2).
       run_only (rbind (check_module_size fs2 path header) (\<lambda>_. Inr (records, int (length header)))) (ws2, fs2)))"

section \<open>The inputs of a module\<close>

definition subscript :: "pyval \<Rightarrow> string \<Rightarrow> pyval res" where
  "subscript v key = (case v of PDict d \<Rightarrow> dict_index d key | _ \<Rightarrow> Inl (TypeError ''subscript''))"

definition SPEC_RELATIVE :: string where "SPEC_RELATIVE = ''tools/gem16_compile/specs/gemma4-26b-vision-fp8-v1.json''"
definition REFERENCE_RELATIVE :: string where "REFERENCE_RELATIVE = ''models/gemma4-26b-reference-sources.lock.json''"

definition spec_path :: "vision_system \<Rightarrow> string" where "spec_path sys = path_join (vm_root sys) SPEC_RELATIVE"
definition source_lock_path :: "vision_system \<Rightarrow> string" where
  "source_lock_path sys = path_join (vm_root sys) ''models/gemma4-26b-qat-bf16.lock.json''"
definition reference_lock_path :: "vision_system \<Rightarrow> string" where
  "reference_lock_path sys = path_join (vm_root sys) REFERENCE_RELATIVE"

definition pinned_lock :: "environment \<Rightarrow> vision_system \<Rightarrow> string \<Rightarrow> string res" where
  "pinned_lock env sys requested = (case (env_resolve env requested, env_resolve env (source_lock_path sys)) of
     (Some lock, Some pinned) \<Rightarrow>
       fail_if (lock \<noteq> pinned)
         (InvalidPlanError ''Vision v1 requires the repository-pinned Google QAT BF16 source lock'') (Inr lock)
   | _ \<Rightarrow> Inl (OSError ''resolve''))"

text \<open>\<open>path.relative_to(root).as_posix()\<close>\<close>

definition relative_to :: "string \<Rightarrow> string \<Rightarrow> string res" where
  "relative_to path base = (if path_is_within path base
     then Inr (join_with CHR ''/'' (drop (length (path_parts base)) (path_parts path)))
     else Inl (ValueError ''path is not in the subpath''))"

definition pinned_value :: "pyval \<Rightarrow> string \<Rightarrow> string \<Rightarrow> error \<Rightarrow> unit res" where
  "pinned_value expected key actual e = rbind (subscript expected key) (\<lambda>v. fail_if (v \<noteq> PStr actual) e (Inr ()))"

definition PINNED_FILES :: "(string \<times> string) list" where
  "PINNED_FILES = [(''config.json'', ''config_sha256''), (''processor_config.json'', ''processor_config_sha256''),
     (''model.safetensors.index.json'', ''index_sha256'')]"

definition check_pins :: "pyval dict \<Rightarrow> verified_source \<Rightarrow> unit res" where
  "check_pins spec source =
    (let e = DataError ''Vision source is not the pinned Google QAT BF16 checkpoint'' in
     rbind (dict_index spec ''source'') (\<lambda>expected.
     rbind (pinned_value expected ''lock_sha256'' (vs_lock_sha256 source) e) (\<lambda>_.
     rbind (pinned_value expected ''repository'' (vs_repository source) e) (\<lambda>_.
     rbind (pinned_value expected ''revision'' (vs_revision source) e) (\<lambda>_.
     riter (\<lambda>(filename, key). rbind (dict_index (vs_files source) filename) (\<lambda>file.
       pinned_value expected key (lf_sha256 file) (DataError ''Vision source metadata hash mismatch''))) PINNED_FILES)))))"

text \<open>The request; the output directory is the absolute path of line 427.\<close>

record vision_request =
  vq_source_directory :: string
  vq_output_directory :: string
  vq_native_encoder :: string
  vq_source_lock :: string
  vq_threads :: int
  vq_host_memory_cap_bytes :: int
  vq_staging_bytes :: int
  vq_native_timeout_seconds :: int

record vision_inputs =
  vi_source :: verified_source
  vi_contract :: "pyval dict"
  vi_selected :: sources
  vi_outputs :: "vision_output list"
  vi_plan :: quantization_plan

definition load_inputs :: "environment \<Rightarrow> vision_request \<Rightarrow> string \<Rightarrow> pyval dict \<Rightarrow> (workspace, vision_inputs) run" where
  "load_inputs env request lock spec ws =
     run_bind (verify_source_lock env lock (vq_source_directory request) ws) (\<lambda>source ws1.
     run_bind (run_only (rbind (check_pins spec source) (\<lambda>_. validate_config env (vs_root source))) ws1) (\<lambda>contract ws2.
     run_bind (Some (read_source_tensors env source ws2)) (\<lambda>source_tensors.
     run_only (rbind (validate_vision_sources source_tensors) (\<lambda>selected.
       rbind (output_plan selected) (\<lambda>outputs.
       rbind (fp8_plan selected) (\<lambda>plan.
       Inr \<lparr>vi_source = source, vi_contract = contract, vi_selected = selected, vi_outputs = outputs, vi_plan = plan\<rparr>)))))))"

section \<open>The documents beside the module\<close>

definition vision_workspace :: "workspace \<Rightarrow> native_bundle \<Rightarrow> pyval" where
  "vision_workspace ws nb = PDict [(''host_memory_cap_bytes'', PInt (host_memory_cap_bytes ws)),
     (''maximum_header_bytes'', PInt (max_header_bytes ws)),
     (''maximum_mapped_window_bytes'', PInt (max_mapped_window_bytes ws)),
     (''maximum_tensor_bytes'', PInt (max_tensor_bytes ws)),
     (''maximum_transform_row_bytes'', PInt (maximum_transform_row_bytes ws)),
     (''native_maximum_source_row_bytes'', PInt (nb_maximum_source_row_bytes nb)),
     (''staging_buffer_bytes'', PInt (staging_bytes ws))]"

definition artifact_entry :: "pyval \<Rightarrow> int \<Rightarrow> string \<Rightarrow> int \<Rightarrow> int \<Rightarrow> pyval" where
  "artifact_entry fmt payload_offset artifact_hash artifact_size n_tensors = PDict [
     (''filename'', PStr VISION_FILENAME), (''format'', fmt), (''payload_bytes'', PInt OUTPUT_PAYLOAD_BYTES),
     (''payload_offset'', PInt payload_offset), (''sha256'', PStr artifact_hash), (''size'', PInt artifact_size),
     (''tensor_count'', PInt n_tensors)]"

definition vision_compiler :: "vision_system \<Rightarrow> vision_request \<Rightarrow> native_bundle \<Rightarrow> string \<Rightarrow> string \<Rightarrow> bool \<Rightarrow> pyval" where
  "vision_compiler sys request nb spec_hash commit dirty = PDict [
     (''commit'', PStr commit), (''dirty'', PBool dirty), (''environment'', PDict (vm_environment sys)),
     (''implementation'', PStr ''gem16_vision_module_compiler_v1''),
     (''native_build'', PDict (map (\<lambda>(key, v). (key, PStr v)) (nb_native_build nb))),
     (''native_encoder_sha256'', PStr (nb_binary_sha256 nb)), (''native_threads'', PInt (vq_threads request)),
     (''spec_path'', PStr SPEC_RELATIVE), (''spec_sha256'', PStr spec_hash)]"

definition vision_quantization :: "pyval \<Rightarrow> pyval res" where
  "vision_quantization v = (case v of
     PDict d \<Rightarrow> Inr (PDict (dict_update d [(''bf16_copy_tensor_count'', PInt (int BF16_COPY_COUNT)),
       (''fp8_linear_count'', PInt (int LINEAR_COUNT)), (''fp8_linear_parameters'', PInt LINEAR_PARAMETERS),
       (''output_padding_bytes'', PInt OUTPUT_PADDING_BYTES), (''output_payload_bytes'', PInt OUTPUT_PAYLOAD_BYTES),
       (''output_tensor_bytes'', PInt OUTPUT_TENSOR_BYTES), (''tensor_alignment'', PInt TENSOR_ALIGNMENT)]))
   | _ \<Rightarrow> Inl (TypeError ''not a mapping''))"

definition vision_source :: "string \<Rightarrow> vision_inputs \<Rightarrow> pyval" where
  "vision_source relative_lock inputs = PDict [(''lock_path'', PStr relative_lock),
     (''lock_sha256'', PStr (vs_lock_sha256 (vi_source inputs))), (''repository'', PStr (vs_repository (vi_source inputs))),
     (''revision'', PStr (vs_revision (vi_source inputs))), (''tensor_count'', PInt (int (length (vi_selected inputs)))),
     (''tensor_payload_bytes'', PInt (sum_list (map (td_byte_length \<circ> snd) (vi_selected inputs))))]"

definition compilation_document :: "vision_system \<Rightarrow> vision_request \<Rightarrow> string \<Rightarrow> pyval dict \<Rightarrow> string \<Rightarrow> string \<Rightarrow>
    vision_inputs \<Rightarrow> native_bundle \<Rightarrow> pyval list \<Rightarrow> int \<Rightarrow> string \<Rightarrow> int \<Rightarrow> workspace \<Rightarrow> pyval dict res" where
  "compilation_document sys request lock spec spec_hash reference_hash inputs nb records payload_offset artifact_hash
     artifact_size ws =
     rbind (vm_commit sys) (\<lambda>(commit, dirty).
     rbind (rbind (dict_index spec ''artifact'') (\<lambda>v. subscript v ''format'')) (\<lambda>fmt.
     rbind (dict_index spec ''contract_id'') (\<lambda>contract_id.
     rbind (dict_index spec ''physical_shapes'') (\<lambda>physical_shapes.
     rbind (rbind (dict_index spec ''quantization'') vision_quantization) (\<lambda>quantization.
     rbind (dict_index spec ''transformers_reference'') (\<lambda>transformers.
     rbind (dict_index spec ''scope'') (\<lambda>scope.
     rbind (relative_to lock (vm_root sys)) (\<lambda>relative_lock.
     Inr [(''artifact'', artifact_entry fmt payload_offset artifact_hash artifact_size (int (length records))),
       (''capability_profile'', PStr PROFILE),
       (''compiler'', vision_compiler sys request nb spec_hash commit dirty), (''contract_id'', contract_id),
       (''contract_version'', PInt 1), (''physical_shapes'', physical_shapes), (''quantization'', quantization),
       (''reference'', PDict [(''lock_path'', PStr REFERENCE_RELATIVE), (''lock_sha256'', PStr reference_hash),
          (''transformers'', transformers)]),
       (''required_text_artifact_profile'', PStr TEXT_ARTIFACT_PROFILE), (''schema_version'', PInt 1),
       (''scope'', scope), (''semantics'', PDict (vi_contract inputs)), (''source'', vision_source relative_lock inputs),
       (''tensors'', PList records), (''workspace'', vision_workspace ws nb)]))))))))"

definition descriptor_document :: "string \<Rightarrow> int \<Rightarrow> string \<Rightarrow> pyval dict" where
  "descriptor_document artifact_hash artifact_size compilation_hash = [
     (''artifact'', PStr VISION_FILENAME), (''artifact_sha256'', PStr artifact_hash),
     (''artifact_size'', PInt artifact_size), (''capability_profile'', PStr PROFILE),
     (''compilation_manifest'', PStr COMPILATION_FILENAME), (''compilation_manifest_sha256'', PStr compilation_hash),
     (''enablement'', PStr ''explicit-profile-selection-only''),
     (''required_text_artifact_profile'', PStr TEXT_ARTIFACT_PROFILE), (''schema_version'', PInt 1),
     (''supports'', PDict [(''audio'', PBool False), (''image'', PBool True), (''text'', PBool True), (''video'', PBool False)])]"

definition lock_document :: "string \<Rightarrow> int \<Rightarrow> string \<Rightarrow> string \<Rightarrow> string \<Rightarrow> string \<Rightarrow> string \<Rightarrow> pyval dict" where
  "lock_document artifact_hash artifact_size compilation_hash descriptor_hash lock_hash repository revision = [
     (''artifact_sha256'', PStr artifact_hash), (''artifact_size'', PInt artifact_size),
     (''capability_profile'', PStr PROFILE), (''compilation_manifest_sha256'', PStr compilation_hash),
     (''descriptor_sha256'', PStr descriptor_hash), (''required_text_artifact_profile'', PStr TEXT_ARTIFACT_PROFILE),
     (''schema_version'', PInt 1), (''source_lock_sha256'', PStr lock_hash),
     (''source_repository'', PStr repository), (''source_revision'', PStr revision)]"

section \<open>Compiling\<close>

definition write_document :: "environment \<Rightarrow> vision_system \<Rightarrow> string \<Rightarrow> pyval dict \<Rightarrow> (compile_state, unit) run" where
  "write_document env sys path document s = on_files (\<lambda>(ws, fs).
     case write_file_atomic (file_system.truncate sys) path (env_canonical env (PDict document)) fs of
       (r, fs') \<Rightarrow> Some (r, (ws, fs'))) s"

definition digest_and_size :: "environment \<Rightarrow> string \<Rightarrow> string \<Rightarrow> (string \<times> int) res" where
  "digest_and_size env path artifact =
     rbind (file_sha256 env path) (\<lambda>digest. rbind (stat_size env artifact) (\<lambda>n. Inr (digest, n)))"

definition write_documents :: "environment \<Rightarrow> vision_system \<Rightarrow> string \<Rightarrow> verified_source \<Rightarrow> pyval dict \<Rightarrow> string \<Rightarrow>
    (compile_state, unit) run" where
  "write_documents env sys staging source compilation artifact_hash s =
    (let artifact = path_join staging VISION_FILENAME; compilation_path = path_join staging COMPILATION_FILENAME;
         descriptor_path = path_join staging DESCRIPTOR_FILENAME in
     run_bind (write_document env sys compilation_path compilation s) (\<lambda>_ s1.
     run_bind (run_only (digest_and_size (view_of env s1) compilation_path artifact) s1) (\<lambda>(compilation_hash, n1) s2.
     run_bind (write_document env sys descriptor_path (descriptor_document artifact_hash n1 compilation_hash) s2) (\<lambda>_ s3.
     run_bind (run_only (digest_and_size (view_of env s3) descriptor_path artifact) s3) (\<lambda>(descriptor_hash, n2) s4.
     write_document env sys (path_join staging LOCK_FILENAME) (lock_document artifact_hash n2 compilation_hash
       descriptor_hash (vs_lock_sha256 source) (vs_repository source) (vs_revision source)) s4)))))"

definition path_digest :: "environment \<Rightarrow> string \<Rightarrow> (workspace, string \<times> int) run" where
  "path_digest env path ws = run_bind (run_only (stat_size env path) ws) (\<lambda>n ws1.
     run_bind (hash_range (env_sha env) (env_rss env) (env_files env path) 0 (nat n) ws1) (\<lambda>digest.
     run_only (Inr (digest, n))))"

definition native_request_of :: "vision_request \<Rightarrow> native_request" where
  "native_request_of request = \<lparr>nr_executable = vq_native_encoder request,
     nr_timeout_seconds = vq_native_timeout_seconds request, nr_threads = vq_threads request\<rparr>"

text \<open>The guarded part up to the publication; the bundle is removed before it.\<close>

definition stage_module :: "environment \<Rightarrow> vision_system \<Rightarrow> vision_request \<Rightarrow> string \<Rightarrow> pyval dict \<Rightarrow> string \<Rightarrow> string \<Rightarrow>
    string \<Rightarrow> (compile_state, pyval dict) run" where
  "stage_module env sys request lock spec spec_hash reference_hash staging s =
    (let artifact = path_join staging VISION_FILENAME in
     run_bind (on_workspace (load_inputs (view_of env s) request lock spec) s) (\<lambda>inputs s1.
     run_bind (bundle_stage env (plain_system sys) (native_request_of request) (vi_plan inputs) (vi_selected inputs) staging s1)
       (\<lambda>nb s2.
     run_bind (on_files (copy_artifact (view_of env s2) sys artifact (vi_outputs inputs) (vi_selected inputs) nb) s2)
       (\<lambda>(records, payload_offset) s3.
     run_bind (on_workspace (path_digest (view_of env s3) artifact) s3) (\<lambda>(artifact_hash, artifact_size) s4.
     run_bind (run_only (compilation_document sys request lock spec spec_hash reference_hash inputs nb records payload_offset
         artifact_hash artifact_size (cp_workspace s4)) s4) (\<lambda>compilation s5.
     run_bind (write_documents env sys staging (vi_source inputs) compilation artifact_hash s5) (\<lambda>_ s6.
     let s7 = (bundle_cleanup (plain_system sys) s6)\<lparr>cp_bundle := None\<rparr> in
     run_only (rbind (stat_size (view_of env s7) artifact) (\<lambda>final_size.
       Inr [(''artifact_sha256'', PStr artifact_hash), (''artifact_size'', PInt final_size),
         (''output'', PStr (vq_output_directory request)), (''payload_bytes'', PInt OUTPUT_PAYLOAD_BYTES),
         (''tensor_count'', PInt (int (length records)))])) s7)))))))"

definition abandon_module :: "environment \<Rightarrow> vision_system \<Rightarrow> string \<Rightarrow> compile_state \<Rightarrow> compile_state" where
  "abandon_module env sys staging s = bundle_cleanup (plain_system sys)
     (s\<lparr>cp_disk := discard_staging (cs_dirs sys) (env_symlink env) (cs_kept sys) staging (cp_disk s)\<rparr>)"

definition module_run :: "environment \<Rightarrow> vision_system \<Rightarrow> vision_request \<Rightarrow> string \<Rightarrow> pyval dict \<Rightarrow> string \<Rightarrow> string \<Rightarrow>
    (compile_state, pyval dict) run" where
  "module_run env sys request lock spec spec_hash reference_hash s =
     run_bind (on_disk (create_staging_directory (cs_dirs sys) (env_symlink env) (vq_output_directory request)) s) (\<lambda>staging s1.
     guarded (abandon_module env sys staging) (
       run_bind (stage_module env sys request lock spec spec_hash reference_hash staging s1) (\<lambda>report s2.
       run_bind (on_disk (publish_staging (cs_dirs sys) staging (vq_output_directory request)) s2) (\<lambda>_.
       run_only (Inr report)))))"

definition module_inputs :: "environment \<Rightarrow> vision_system \<Rightarrow> vision_request \<Rightarrow>
    (string \<times> pyval dict \<times> string \<times> string \<times> workspace) res" where
  "module_inputs env sys request =
     rbind (pinned_lock env sys (vq_source_lock request)) (\<lambda>lock.
     rbind (load_json (json_file_of env (spec_path sys)) (1024 * 1024)) (\<lambda>spec.
     rbind (file_sha256 env (spec_path sys)) (\<lambda>spec_hash.
     rbind (file_sha256 env (reference_lock_path sys)) (\<lambda>reference_hash.
     rbind (workspace_new (env_rss env) (vq_host_memory_cap_bytes request) (vq_staging_bytes request)) (\<lambda>ws.
     Inr (lock, spec, spec_hash, reference_hash, ws))))))"

definition compile_vision_module :: "environment \<Rightarrow> vision_system \<Rightarrow> vision_request \<Rightarrow> (disk, pyval dict) run" where
  "compile_vision_module env sys request d = (case module_inputs (looking env d) sys request of
     Inl e \<Rightarrow> Some (Inl e, d)
   | Inr (lock, spec, spec_hash, reference_hash, ws) \<Rightarrow> map_option (\<lambda>(r, s). (r, cp_disk s))
       (module_run env sys request lock spec spec_hash reference_hash (compile_start ws d)))"

end
