(* ===== verification/Vision_Verify.thy ===== *)
theory Vision_Verify
  imports Vision_Module
begin

text \<open>
  \<open>tools/gem16_compile/vision_module_verify.py\<close>: the offline verifier of a vision module. It accepts
  exactly the file set, the frozen tensor layout, and three documents that bind the file's digest.
\<close>

section \<open>Files and documents\<close>

definition REQUIRED_FILES :: "string list" where
  "REQUIRED_FILES = [VISION_FILENAME, DESCRIPTOR_FILENAME, COMPILATION_FILENAME, LOCK_FILENAME]"

text \<open>\<open>_regular\<close>: the size \<open>lstat\<close> reports.\<close>

definition regular_size :: "environment \<Rightarrow> string \<Rightarrow> int res" where
  "regular_size env path =
     fail_if (env_symlink env path) (DataError ''must be a regular non-symlink file'') (case env_entry env path of
       Regular n \<Rightarrow> Inr n
     | Missing \<Rightarrow> Inl (DataError ''cannot inspect'')
     | Denied \<Rightarrow> Inl (DataError ''cannot inspect'')
     | _ \<Rightarrow> Inl (DataError ''must be a regular non-symlink file''))"

text \<open>\<open>json.loads\<close> over an object; a repeated key raises out of the handler.\<close>

definition parse_object :: "environment \<Rightarrow> bytes \<Rightarrow> error \<Rightarrow> pyval dict res" where
  "parse_object env raw e = (case env_parse env raw of
     None \<Rightarrow> Inl e
   | Some t \<Rightarrow> rbind (json_value t) (\<lambda>v. case v of PDict d \<Rightarrow> Inr d | _ \<Rightarrow> Inl (DataError ''root must be an object'')))"

definition read_document :: "environment \<Rightarrow> string \<Rightarrow> int \<Rightarrow> pyval dict res" where
  "read_document env path maximum =
     rbind (regular_size env path) (\<lambda>n.
     fail_if (maximum < n) (DataError ''exceeds verifier size limit'') (case env_files env path of
       None \<Rightarrow> Inl (DataError ''cannot parse'')
     | Some raw \<Rightarrow> parse_object env raw (DataError ''cannot parse'')))"

section \<open>The header\<close>

definition locked_descriptor :: "string \<Rightarrow> int list \<Rightarrow> tensor_descriptor" where
  "locked_descriptor name shape = \<lparr>td_name = name, td_dtype = ''BF16'', td_shape = shape, td_shard = ''locked'',
     td_path = ''/locked'', td_absolute_offset = 0, td_data_offset = 0, td_byte_length = foldl (*) 2 shape,
     td_shard_sha256 = replicate 64 CHR ''0''\<rparr>"

definition expected_outputs :: "vision_output list res" where
  "expected_outputs = rbind expected_vision_specs (\<lambda>specs.
     output_plan (map (\<lambda>(name, _, shape). (name, locked_descriptor name shape)) specs))"

definition by_name :: "vision_output list \<Rightarrow> vision_output dict" where
  "by_name outputs = foldl (\<lambda>acc item. dict_set (vo_name item) item acc) [] outputs"

text \<open>The length of the header and its bytes.\<close>

definition module_header :: "environment \<Rightarrow> string \<Rightarrow> int \<Rightarrow> (int \<times> bytes) res" where
  "module_header env path n = (case env_files env path of
     None \<Rightarrow> Inl (DataError ''cannot read Vision module header'')
   | Some data \<Rightarrow> (let prefix = take 8 data; len = int (unpack_u64 prefix); raw = take (nat len) (drop 8 data) in
       fail_if (length prefix \<noteq> 8) (DataError ''Vision module has a short header prefix'') (
       fail_if (len < 2 \<or> MAX_HEADER_BYTES < len \<or> n < 8 + len) (DataError ''Vision module header length is invalid'') (
       fail_if (int (length raw) \<noteq> len) (DataError ''Vision module header is truncated'') (Inr (len, raw))))))"

type_synonym extent_state = "int \<times> int \<times> pyval list dict"

definition extent_step :: "pyval dict \<Rightarrow> extent_state \<Rightarrow> string \<times> vision_output \<Rightarrow> extent_state res" where
  "extent_step header acc entry = (case (acc, entry) of ((cursor, padding, offsets), (name, item)) \<Rightarrow>
     let start = aligned cursor; stop = start + vo_byte_length item in
     rbind (dict_index header name) (\<lambda>v. case v of
       PDict record \<Rightarrow>
         fail_if (dict_keys record \<noteq> {''dtype'', ''shape'', ''data_offsets''})
           (DataError ''Vision module tensor header schema mismatch'') (
         case obj_get record ''data_offsets'' of
           PList positions \<Rightarrow>
             fail_if (\<not> py_eq (obj_get record ''dtype'') (PStr (vo_dtype item))
                 \<or> \<not> py_eq (obj_get record ''shape'') (PList (map PInt (vo_shape item)))
                 \<or> \<not> py_eq (PList positions) (PList [PInt start, PInt stop]))
               (DataError ''Vision module tensor extent mismatch'')
               (Inr (stop, padding + (start - cursor), dict_set name positions offsets))
         | _ \<Rightarrow> Inl (DataError ''Vision module tensor extent mismatch''))
     | _ \<Rightarrow> Inl (DataError ''Vision module tensor header schema mismatch'')))"

text \<open>\<open>header.pop("__metadata__", None)\<close> leaves the other entries.\<close>

definition without_metadata :: "pyval dict \<Rightarrow> pyval dict" where
  "without_metadata header = filter (\<lambda>(key, _). key \<noteq> ''__metadata__'') header"

definition check_extents :: "pyval dict \<Rightarrow> vision_output dict \<Rightarrow> int \<Rightarrow> int \<Rightarrow> pyval list dict res" where
  "check_extents header expected n header_length =
     fail_if (dict_keys header \<noteq> dict_keys expected \<or> length header \<noteq> OUTPUT_TENSOR_COUNT)
       (DataError ''Vision module tensor-name inventory mismatch'') (
     rbind (rfold (extent_step header) (0, 0, []) (dict_sorted expected)) (\<lambda>(cursor, padding, offsets).
     fail_if (cursor \<noteq> OUTPUT_PAYLOAD_BYTES \<or> padding \<noteq> OUTPUT_PADDING_BYTES
         \<or> sum_list (map (vo_byte_length \<circ> snd) expected) \<noteq> OUTPUT_TENSOR_BYTES \<or> n \<noteq> 8 + header_length + cursor)
       (DataError ''Vision module total extent mismatch'') (Inr offsets)))"

definition verify_header :: "environment \<Rightarrow> string \<Rightarrow> (int \<times> pyval list dict) res" where
  "verify_header env path =
     rbind (regular_size env path) (\<lambda>n.
     rbind (module_header env path n) (\<lambda>(header_length, raw).
     rbind (parse_object env raw (DataError ''Vision module header JSON is invalid'')) (\<lambda>header.
     fail_if (\<not> py_eq (obj_get header ''__metadata__'') module_metadata)
       (DataError ''Vision module metadata contract mismatch'') (
     rbind expected_outputs (\<lambda>outputs.
     rbind (check_extents (without_metadata header) (by_name outputs) n header_length) (\<lambda>offsets.
     Inr (8 + header_length, offsets)))))))"

section \<open>The documents\<close>

definition SOURCE_REPOSITORY :: string where "SOURCE_REPOSITORY = ''google/gemma-4-26B-A4B-it-qat-q4_0-unquantized''"
definition SOURCE_REVISION :: string where "SOURCE_REVISION = ''f1e06dc520982d9b9edd76859fdb7ab209449949''"

definition check_profile :: "pyval dict \<Rightarrow> unit res" where
  "check_profile compilation = fail_if
     (\<not> py_eq (obj_get compilation ''schema_version'') (PInt 1)
      \<or> \<not> py_eq (obj_get compilation ''contract_id'') (PStr ''gem16.gemma4_26b_vision_fp8'')
      \<or> \<not> py_eq (obj_get compilation ''contract_version'') (PInt 1)
      \<or> \<not> py_eq (obj_get compilation ''capability_profile'') (PStr PROFILE)
      \<or> \<not> py_eq (obj_get compilation ''required_text_artifact_profile'') (PStr TEXT_ARTIFACT_PROFILE))
     (DataError ''Vision compilation profile contract mismatch'') (Inr ())"

definition check_source :: "pyval dict \<Rightarrow> string \<Rightarrow> unit res" where
  "check_source compilation lock_hash = fail_if
     (differs (obj_get compilation ''source'') [(''lock_sha256'', PStr lock_hash),
        (''repository'', PStr SOURCE_REPOSITORY), (''revision'', PStr SOURCE_REVISION), (''tensor_count'', PInt 356),
        (''tensor_payload_bytes'', PInt 1145588832)])
     (DataError ''Vision compilation source record mismatch'') (Inr ())"

definition valid_hash :: "pyval \<Rightarrow> bool" where
  "valid_hash v = (case v of PStr s \<Rightarrow> length s = 64 | _ \<Rightarrow> False)"

definition record_step :: "pyval list dict \<Rightarrow> string set \<Rightarrow> pyval \<Rightarrow> string set res" where
  "record_step offsets names v = (case v of
     PDict record \<Rightarrow> (case obj_get record ''name'' of
         PStr name \<Rightarrow>
           fail_if (name \<in> names) (DataError ''Vision compilation tensor identity mismatch'') (
           case dict_get offsets name of
             None \<Rightarrow> Inl (DataError ''Vision compilation tensor identity mismatch'')
           | Some positions \<Rightarrow>
               fail_if (\<not> py_eq (obj_get record ''data_offsets'') (PList positions))
                 (DataError ''Vision compilation tensor offset mismatch'') (
               fail_if (\<not> valid_hash (obj_get record ''output_sha256'') \<or> \<not> valid_hash (obj_get record ''source_sha256''))
                 (DataError ''Vision compilation tensor hash is invalid'') (Inr (insert name names))))
       | _ \<Rightarrow> Inl (DataError ''Vision compilation tensor record is malformed''))
   | _ \<Rightarrow> Inl (DataError ''Vision compilation tensor record is malformed''))"

definition check_records :: "pyval dict \<Rightarrow> pyval list dict \<Rightarrow> unit res" where
  "check_records compilation offsets = (case obj_get compilation ''tensors'' of
     PList tensors \<Rightarrow>
       fail_if (length tensors \<noteq> OUTPUT_TENSOR_COUNT) (DataError ''Vision compilation tensor inventory is incomplete'') (
       rbind (rfold (record_step offsets) {} tensors) (\<lambda>names.
       fail_if (names \<noteq> dict_keys offsets) (DataError ''Vision compilation tensor names are incomplete'') (Inr ())))
   | _ \<Rightarrow> Inl (DataError ''Vision compilation tensor inventory is incomplete''))"

section \<open>The verifier\<close>

text \<open>\<open>names\<close> lists a directory.\<close>

definition module_root :: "environment \<Rightarrow> (string \<Rightarrow> string list) \<Rightarrow> string \<Rightarrow> string res" where
  "module_root env names directory =
     fail_if (env_symlink env directory) (DataError ''Vision module directory must not be a symlink'') (
     case env_resolve env directory of
       None \<Rightarrow> Inl (DataError ''cannot resolve Vision module directory'')
     | Some base \<Rightarrow> rbind (is_dir env base) (\<lambda>directory_found.
         fail_if (\<not> directory_found) (DataError ''Vision module path is not a directory'') (
         fail_if (set (names base) \<noteq> set REQUIRED_FILES) (DataError ''Vision module file set mismatch'') (Inr base))))"

record module_digests =
  md_artifact :: string
  md_descriptor :: string
  md_compilation :: string
  md_source_lock :: string
  md_size :: int

definition check_documents :: "module_digests \<Rightarrow> int \<Rightarrow> pyval list dict \<Rightarrow> pyval dict \<Rightarrow> pyval dict \<Rightarrow> pyval dict \<Rightarrow> unit res" where
  "check_documents digests payload_offset offsets descriptor compilation lock =
     fail_if (\<not> py_eq (PDict lock) (PDict (lock_document (md_artifact digests) (md_size digests) (md_compilation digests)
         (md_descriptor digests) (md_source_lock digests) SOURCE_REPOSITORY SOURCE_REVISION)))
       (DataError ''Vision immutable lock contract mismatch'') (
     fail_if (\<not> py_eq (obj_get compilation ''artifact'') (artifact_entry (PStr ''gem16-aligned-vision-module-v1'')
         payload_offset (md_artifact digests) (md_size digests) (int OUTPUT_TENSOR_COUNT)))
       (DataError ''Vision compilation artifact record mismatch'') (
     rbind (check_profile compilation) (\<lambda>_.
     rbind (check_source compilation (md_source_lock digests)) (\<lambda>_.
     check_records compilation offsets))))"

definition verify_vision_module :: "environment \<Rightarrow> vision_system \<Rightarrow> (string \<Rightarrow> string list) \<Rightarrow> string \<Rightarrow> pyval dict res" where
  "verify_vision_module env sys names directory =
     rbind (module_root env names directory) (\<lambda>base.
     let artifact = path_join base VISION_FILENAME; descriptor_path = path_join base DESCRIPTOR_FILENAME;
         compilation_path = path_join base COMPILATION_FILENAME; lock_path = path_join base LOCK_FILENAME in
     rbind (verify_header env artifact) (\<lambda>(payload_offset, offsets).
     rbind (file_sha256 env artifact) (\<lambda>artifact_hash.
     rbind (file_sha256 env descriptor_path) (\<lambda>descriptor_hash.
     rbind (file_sha256 env compilation_path) (\<lambda>compilation_hash.
     rbind (read_document env descriptor_path (1024 * 1024)) (\<lambda>descriptor.
     rbind (read_document env compilation_path (64 * 1024 * 1024)) (\<lambda>compilation.
     rbind (read_document env lock_path (1024 * 1024)) (\<lambda>lock.
     rbind (stat_size env artifact) (\<lambda>n.
     fail_if (\<not> py_eq (PDict descriptor) (PDict (descriptor_document artifact_hash n compilation_hash)))
       (DataError ''Vision runtime descriptor contract mismatch'') (
     rbind (file_sha256 env (source_lock_path sys)) (\<lambda>source_lock_hash.
     rbind (check_documents \<lparr>md_artifact = artifact_hash, md_descriptor = descriptor_hash, md_compilation = compilation_hash,
         md_source_lock = source_lock_hash, md_size = n\<rparr> payload_offset offsets descriptor compilation lock) (\<lambda>_.
     Inr [(''artifact_sha256'', PStr artifact_hash), (''artifact_size'', PInt n),
       (''capability_profile'', PStr PROFILE), (''payload_bytes'', PInt OUTPUT_PAYLOAD_BYTES), (''status'', PStr ''pass''),
       (''tensor_count'', PInt (int OUTPUT_TENSOR_COUNT))]))))))))))))"

end
