(* ===== verification/Vision_Facts.thy ===== *)
theory Vision_Facts
  imports Vision_Verify Transaction_Facts
begin

unbundle bit_operations_syntax

text \<open>
  The frozen numbers of the vision module follow from its tables; the layout of the writer is the one
  the verifier expects; and a bound module is accepted and an accepted one is bound.
\<close>

section \<open>Alignment\<close>

lemma aligned_eq: "aligned c = (c + 255) div 256 * 256"
proof -
  have "x AND - 256 = x div 256 * 256" for x :: int
  proof -
    have "x AND NOT (mask 8) = push_bit 8 (drop_bit 8 x)"
      by (rule bit_eqI) (auto simp: bit_simps)
    then show ?thesis by (simp add: mask_eq_exp_minus_1 push_bit_eq_mult drop_bit_eq_div not_int_def)
  qed
  then show ?thesis by (simp add: aligned_def TENSOR_ALIGNMENT_def)
qed

lemma aligned_bounds: "c \<le> aligned c" "aligned c < c + 256" "256 dvd aligned c"
  by (simp_all add: aligned_eq)

lemma aligned_multiple: "256 dvd c \<Longrightarrow> aligned (c + n) = c + aligned n"
proof (elim dvdE)
  fix k assume c: "c = 256 * k"
  have "(n + 255 + k * 256) div 256 = k + (n + 255) div 256" by (rule div_mult_self1) simp
  moreover have "c + n + 255 = n + 255 + k * 256" using c by simp
  ultimately have "(c + n + 255) div 256 = k + (n + 255) div 256" by (simp only:)
  then show "aligned (c + n) = c + aligned n" unfolding aligned_eq c by (simp add: algebra_simps)
qed

lemma aligned_idem [simp]: "256 dvd c \<Longrightarrow> aligned c = c"
  using aligned_multiple [of c 0] by (simp add: aligned_eq)

section \<open>The layout\<close>

fun ranges_at :: "int \<Rightarrow> vision_output list \<Rightarrow> (int \<times> int) list" where
  "ranges_at c [] = []"
| "ranges_at c (v # vs) = (aligned c, aligned c + vo_byte_length v) # ranges_at (aligned c + vo_byte_length v) vs"

fun end_at :: "int \<Rightarrow> vision_output list \<Rightarrow> int" where
  "end_at c [] = c"
| "end_at c (v # vs) = end_at (aligned c + vo_byte_length v) vs"

definition tensor_entry :: "vision_output \<Rightarrow> int \<times> int \<Rightarrow> string \<times> pyval" where
  "tensor_entry v bounds = (vo_name v, PDict [(''dtype'', PStr (vo_dtype v)), (''shape'', PList (map PInt (vo_shape v))),
     (''data_offsets'', PList [PInt (fst bounds), PInt (snd bounds)])])"

definition offsets_from :: "int \<Rightarrow> vision_output list \<Rightarrow> (int \<times> int) dict" where
  "offsets_from c vs = zip (map vo_name vs) (ranges_at c vs)"

lemma length_ranges_at [simp]: "length (ranges_at c vs) = length vs"
  by (induction vs arbitrary: c) auto

lemma layout_fold:
  assumes "distinct (map vo_name vs)" "set (map vo_name vs) \<inter> (dict_keys offsets \<union> dict_keys header) = {}"
  shows "foldl layout_step (c, offsets, header) vs
    = (end_at c vs, offsets @ offsets_from c vs, header @ map2 tensor_entry vs (ranges_at c vs))"
  using assms
proof (induction vs arbitrary: c offsets header)
  case (Cons v vs)
  let ?s = "aligned c" and ?e = "aligned c + vo_byte_length v"
  have "layout_step (c, offsets, header) v
      = (?e, offsets @ [(vo_name v, (?s, ?e))], header @ [tensor_entry v (?s, ?e)])"
    using Cons.prems(2) by (simp add: layout_step_def Let_def dict_set_fresh tensor_entry_def)
  moreover have "foldl layout_step (?e, offsets @ [(vo_name v, (?s, ?e))], header @ [tensor_entry v (?s, ?e)]) vs
      = (end_at ?e vs, (offsets @ [(vo_name v, (?s, ?e))]) @ offsets_from ?e vs,
         (header @ [tensor_entry v (?s, ?e)]) @ map2 tensor_entry vs (ranges_at ?e vs))"
    by (rule Cons.IH) (use Cons.prems in \<open>auto simp: dict_keys_def tensor_entry_def\<close>)
  ultimately show ?case by (simp add: offsets_from_def)
qed (simp add: offsets_from_def)

text \<open>After an aligned start every tensor takes a multiple of the alignment, but for the last one.\<close>

lemma end_at_append: "end_at c (vs @ [v]) = aligned (end_at c vs) + vo_byte_length v"
  by (induction vs arbitrary: c) auto

lemma aligned_end: "aligned (end_at c vs) = aligned c + sum_list (map (aligned \<circ> vo_byte_length) vs)"
proof (induction vs arbitrary: c)
  case (Cons v vs)
  then show ?case by (simp add: aligned_multiple aligned_bounds(3))
qed simp

lemma end_at_last:
  "vs \<noteq> [] \<Longrightarrow> 256 dvd vo_byte_length (last vs) \<Longrightarrow> end_at 0 vs = sum_list (map (aligned \<circ> vo_byte_length) vs)"
proof (cases vs rule: rev_cases)
  case (snoc us u)
  assume "256 dvd vo_byte_length (last vs)"
  then show ?thesis using aligned_end [of 0 us] by (simp add: snoc end_at_append)
qed simp

section \<open>The expected outputs\<close>

definition is_vision_item :: "string \<times> string \<times> int list \<Rightarrow> bool" where
  "is_vision_item = (\<lambda>(name, role, shape). starts_with ''vision_'' role)"

definition vision_inventory :: source_specs where
  "vision_inventory = filter is_vision_item inventory"

definition fixed_vision :: source_specs where
  "fixed_vision = filter is_vision_item m06_fixed_specs"

lemma vision_inventory_eq: "vision_inventory = fixed_vision @ concat (map vision_items [0..<27])"
proof -
  have layers: "filter is_vision_item (layer_items n) = []" for n
    unfolding layer_items_explicit Let_def is_vision_item_def by simp
  have none: "filter is_vision_item (concat (map layer_items ns)) = []" for ns
    by (induction ns) (simp_all only: list.map concat.simps filter_append layers append_Nil filter.simps)
  have "filter is_vision_item (vision_items n) = vision_items n" for n
    by (simp add: vision_items_def M05_VISION_LAYER_ROLES_def is_vision_item_def)
  then have "filter is_vision_item (concat (map vision_items ns)) = concat (map vision_items ns)" for ns
    by (induction ns) (simp_all only: list.map concat.simps filter_append filter.simps)
  then show ?thesis by (simp only: vision_inventory_def fixed_vision_def inventory_def filter_append none append_Nil)
qed

text \<open>The outputs of an item, without the errors.\<close>

definition plain_outputs :: "string \<times> string \<times> int list \<Rightarrow> vision_output list" where
  "plain_outputs item = (case item of (name, item_role, shape) \<Rightarrow>
     if is_linear_source name shape
     then [\<lparr>vo_name = name, vo_dtype = ''F8_E4M3'', vo_shape = [shape ! 0, shape ! 1], vo_source_name = name,
         vo_role = item_role, vo_kind = ''fp8_weight'', vo_byte_length = shape ! 0 * shape ! 1\<rparr>,
       \<lparr>vo_name = scale_name name, vo_dtype = ''BF16'', vo_shape = [shape ! 0, 1], vo_source_name = name,
         vo_role = item_role, vo_kind = ''fp8_scale'', vo_byte_length = shape ! 0 * 2\<rparr>]
     else [\<lparr>vo_name = name, vo_dtype = ''BF16'', vo_shape = shape, vo_source_name = name, vo_role = item_role,
         vo_kind = ''bf16_copy'', vo_byte_length = foldl (*) 2 shape\<rparr>])"

definition vision_outputs :: "vision_output list" where
  "vision_outputs = sort_key vo_name (concat (map plain_outputs (dict_sorted vision_inventory)))"

lemma dict_sorted_twice [simp]: "dict_sorted (dict_sorted d) = dict_sorted d"
  by (simp add: dict_sorted_def sort_key_id_if_sorted)

lemma expected_specs_eq:
  "expected_vision_specs = Inr (dict_sorted vision_inventory)"
proof -
  have "filter (\<lambda>(name, role, shape). starts_with ''vision_'' role) (dict_sorted inventory) = dict_sorted vision_inventory"
    by (simp add: dict_sorted_def filter_sort vision_inventory_def is_vision_item_def)
  moreover have "length (dict_sorted vision_inventory) = 356"
    using inventory_vision_count by (simp add: dict_sorted_def vision_inventory_def is_vision_item_def)
  ultimately show ?thesis
    by (simp add: expected_vision_specs_def m06_specs_value Let_def SOURCE_TENSOR_COUNT_def)
qed

lemma outputs_of_locked:
  "classify_m05_source name = Inr item_role \<Longrightarrow>
    outputs_of (name, locked_descriptor name shape) = Inr (plain_outputs (name, item_role, shape))"
  by (simp add: outputs_of_def plain_outputs_def locked_descriptor_def Let_def)

lemma vision_classified: "(name, item_role, shape) \<in> set vision_inventory \<Longrightarrow> classify_m05_source name = Inr item_role"
  using inventory_classified by (auto simp: list_all_iff vision_inventory_def)

lemma dict_sorted_map: "dict_sorted (map (\<lambda>(name, v). (name, f name v)) d) = map (\<lambda>(name, v). (name, f name v)) (dict_sorted d)"
proof -
  have "insort_key fst (case x of (name, v) \<Rightarrow> (name, f name v)) (map (\<lambda>(name, v). (name, f name v)) e)
      = map (\<lambda>(name, v). (name, f name v)) (insort_key fst x e)" for x e
    by (induction e) (auto split: prod.splits)
  then show ?thesis by (induction d) (auto simp: dict_sorted_def)
qed

lemma raw_outputs:
  "rmap outputs_of (dict_sorted (map (\<lambda>(name, _, shape). (name, locked_descriptor name shape)) (dict_sorted vision_inventory)))
    = Inr (map plain_outputs (dict_sorted vision_inventory))"
proof -
  have "map (\<lambda>(name, _, shape). (name, locked_descriptor name shape)) (dict_sorted vision_inventory)
      = map (\<lambda>(name, v). (name, locked_descriptor name (snd v))) (dict_sorted vision_inventory)"
    by (simp add: case_prod_unfold)
  moreover have "rmap outputs_of (map (\<lambda>(name, v). (name, locked_descriptor name (snd v))) ds) = Inr (map plain_outputs ds)"
    if "set ds \<subseteq> set vision_inventory" for ds
    using that vision_classified by (induction ds) (auto simp: outputs_of_locked)
  ultimately show ?thesis
    by (simp only: dict_sorted_map dict_sorted_twice) (simp add: set_dict_sorted)
qed

text \<open>What the totals are made of: the kinds and the sizes.\<close>

abbreviation sized :: "vision_output \<Rightarrow> string \<times> int" where
  "sized v \<equiv> (vo_kind v, vo_byte_length v)"

definition layer_sizes :: "(string \<times> int) list" where
  "layer_sizes = [(''bf16_copy'', 2304),
     (''fp8_weight'', 4958208), (''fp8_scale'', 2304), (''fp8_weight'', 4958208), (''fp8_scale'', 8608),
     (''fp8_weight'', 4958208), (''fp8_scale'', 8608), (''bf16_copy'', 2304), (''bf16_copy'', 2304), (''bf16_copy'', 2304),
     (''bf16_copy'', 144), (''fp8_weight'', 1327104), (''fp8_scale'', 2304), (''fp8_weight'', 1327104), (''fp8_scale'', 2304),
     (''bf16_copy'', 144), (''fp8_weight'', 1327104), (''fp8_scale'', 2304), (''fp8_weight'', 1327104), (''fp8_scale'', 2304)]"

definition fixed_sizes :: "(string \<times> int) list" where
  "fixed_sizes = [(''fp8_weight'', 3244032), (''fp8_scale'', 5632), (''bf16_copy'', 47185920), (''fp8_weight'', 884736),
     (''fp8_scale'', 2304), (''bf16_copy'', 2304), (''bf16_copy'', 2304)]"

lemma layer_not_fixed: "vision_prefix n @ s \<noteq> EMBEDDING_PROJECTION"
    "vision_prefix n @ s \<noteq> ''model.vision_tower.patch_embedder.input_proj.weight''"
  by (simp_all add: vision_prefix_def EMBEDDING_PROJECTION_def)

lemma layer_output_sizes: "map sized (concat (map plain_outputs (vision_items n))) = layer_sizes"
  by (simp add: vision_items_def M05_VISION_LAYER_ROLES_def plain_outputs_def is_linear_source_def layer_not_fixed
      vision_shape_def layer_sizes_def ends_with_def)

lemma fixed_output_sizes: "map sized (concat (map plain_outputs fixed_vision)) = fixed_sizes"
  by (simp add: fixed_vision_def m06_fixed_specs_def is_vision_item_def plain_outputs_def is_linear_source_def
      EMBEDDING_PROJECTION_def fixed_sizes_def ends_with_def)

lemma inventory_sizes:
  "map sized (concat (map plain_outputs vision_inventory)) = fixed_sizes @ concat (replicate 27 layer_sizes)"
proof -
  have "map sized (concat (map plain_outputs (concat (map vision_items ns)))) = concat (replicate (length ns) layer_sizes)" for ns
    by (induction ns) (simp_all only: list.map concat.simps concat_append map_append layer_output_sizes list.size
        replicate.simps add_0_right add_Suc_right One_nat_def)
  from this [of "[0..<27]"] fixed_output_sizes show ?thesis by (simp add: vision_inventory_eq)
qed

text \<open>A total over the outputs is a total over these sizes.\<close>

lemma mset_vision_outputs: "mset vision_outputs = mset (concat (map plain_outputs vision_inventory))"
proof -
  have "mset (concat (map f xs)) = mset (concat (map f ys))" if "mset xs = mset ys" for f and xs ys :: "'x list"
    using that by (simp add: mset_concat flip: mset_map) (metis mset_map sum_mset_sum_list)
  from this [of "dict_sorted vision_inventory" vision_inventory plain_outputs] show ?thesis
    by (simp only: vision_outputs_def mset_sort dict_sorted_def)
qed

lemma sum_vision_outputs:
  fixes f :: "string \<times> int \<Rightarrow> int"
  shows "sum_list (map (f \<circ> sized) vision_outputs) = sum_list (map f fixed_sizes) + 27 * sum_list (map f layer_sizes)"
proof -
  have "sum_list (map (f \<circ> sized) vision_outputs) = sum_list (map f (map sized (concat (map plain_outputs vision_inventory))))"
  proof -
    have "mset (map f (map sized vision_outputs)) = mset (map f (map sized (concat (map plain_outputs vision_inventory))))"
      by (simp only: mset_map mset_vision_outputs)
    then have "sum_mset (mset (map f (map sized vision_outputs)))
        = sum_mset (mset (map f (map sized (concat (map plain_outputs vision_inventory)))))" by (rule arg_cong)
    then show ?thesis by (simp only: sum_mset_sum_list map_map)
  qed
  also have "\<dots> = sum_list (map f fixed_sizes) + 27 * sum_list (map f layer_sizes)"
  proof -
    have "sum_list (map f (concat (replicate k xs))) = int k * sum_list (map f xs)" for k xs
      by (induction k) (simp_all add: algebra_simps)
    then show ?thesis by (simp add: inventory_sizes)
  qed
  finally show ?thesis .
qed

lemma length_vision_outputs: "length vision_outputs = 547"
proof -
  have "length vision_outputs = length (map sized (concat (map plain_outputs vision_inventory)))"
    by (simp only: length_map flip: mset_eq_length [OF mset_vision_outputs])
  also have "\<dots> = 547" unfolding inventory_sizes by (simp add: fixed_sizes_def layer_sizes_def length_concat sum_list_replicate)
  finally show ?thesis .
qed

lemma vision_output_totals:
  "sum_list (map vo_byte_length vision_outputs) = OUTPUT_TENSOR_BYTES"
  "sum_list (map (aligned \<circ> vo_byte_length) vision_outputs) = OUTPUT_PAYLOAD_BYTES"
  "length (filter (\<lambda>v. vo_kind v = ''bf16_copy'') vision_outputs) = BF16_COPY_COUNT"
proof -
  show "sum_list (map vo_byte_length vision_outputs) = OUTPUT_TENSOR_BYTES"
    using sum_vision_outputs [of snd] by (simp add: comp_def fixed_sizes_def layer_sizes_def OUTPUT_TENSOR_BYTES_def)
  show "sum_list (map (aligned \<circ> vo_byte_length) vision_outputs) = OUTPUT_PAYLOAD_BYTES"
    using sum_vision_outputs [of "aligned \<circ> snd"]
    by (simp add: comp_def fixed_sizes_def layer_sizes_def OUTPUT_PAYLOAD_BYTES_def aligned_eq)
  have "int (length (filter (\<lambda>v. vo_kind v = ''bf16_copy'') vs))
      = sum_list (map ((\<lambda>(kind, _). of_bool (kind = ''bf16_copy'')) \<circ> sized) vs)" for vs
    by (induction vs) auto
  from this [of vision_outputs]
  have "int (length (filter (\<lambda>v. vo_kind v = ''bf16_copy'') vision_outputs))
      = sum_list (map ((\<lambda>(kind, _). of_bool (kind = ''bf16_copy'')) \<circ> sized) vision_outputs)" .
  also have "\<dots> = int BF16_COPY_COUNT"
    unfolding sum_vision_outputs by (simp add: fixed_sizes_def layer_sizes_def BF16_COPY_COUNT_def)
  finally show "length (filter (\<lambda>v. vo_kind v = ''bf16_copy'') vision_outputs) = BF16_COPY_COUNT" by linarith
qed

lemma expected_outputs_eq: "expected_outputs = Inr vision_outputs"
  unfolding expected_outputs_def expected_specs_eq output_plan_def rbind_simps raw_outputs Let_def vision_outputs_def [symmetric]
  using length_vision_outputs vision_output_totals by (simp add: OUTPUT_TENSOR_COUNT_def)

section \<open>Names and order\<close>

definition output_names :: "string \<times> string \<times> int list \<Rightarrow> string list" where
  "output_names item = (if is_linear_source (fst item) (snd (snd item)) then [fst item, scale_name (fst item)] else [fst item])"

lemma names_plain_outputs: "map vo_name (plain_outputs item) = output_names item"
  by (cases item) (simp add: plain_outputs_def output_names_def)

definition scale_like :: "string \<Rightarrow> bool" where
  "scale_like name \<longleftrightarrow> ends_with ''.weight_scale'' name"

lemma scale_name_like: "scale_like (scale_name name)"
  by (simp add: scale_name_def scale_like_def)

text \<open>A linear source ends in \<open>.weight\<close>, none in \<open>.weight_scale\<close>, and all are at most the last name.\<close>

definition last_name :: string where "last_name = ''model.vision_tower.std_scale''"

definition good_item :: "string \<times> string \<times> int list \<Rightarrow> bool" where
  "good_item item \<longleftrightarrow> \<not> scale_like (fst item) \<and> fst item \<le> last_name \<and> hd (fst item) = CHR ''m''
     \<and> (is_linear_source (fst item) (snd (snd item)) \<longrightarrow> ends_with ''.weight'' (fst item) \<and> scale_name (fst item) \<le> last_name
        \<and> hd (scale_name (fst item)) = CHR ''m'')"

lemma vision_prefix_less: "vision_prefix n @ s \<le> last_name" "hd (vision_prefix n @ s) = CHR ''m''"
  by (simp_all add: vision_prefix_def last_name_def)

lemma good_vision_items: "item \<in> set (vision_items n) \<Longrightarrow> good_item item"
proof -
  assume "item \<in> set (vision_items n)"
  then obtain s r where item: "item = (vision_prefix n @ s, (r, vision_shape s))" and s: "(s, r) \<in> set M05_VISION_LAYER_ROLES"
    by (auto simp: vision_items_def)
  from s have "ends_with ''.weight'' s \<and> \<not> ends_with ''.weight_scale'' (vision_prefix n @ s)"
    by (auto simp: M05_VISION_LAYER_ROLES_def ends_with_def)
  then obtain stem where stem: "s = stem @ ''.weight''" and no: "\<not> ends_with ''.weight_scale'' (vision_prefix n @ s)"
    by (auto simp: ends_with_iff)
  have "scale_name (vision_prefix n @ s) = vision_prefix n @ stem @ ''.weight_scale''"
    using remove_suffix_append [of "''.weight''" "vision_prefix n @ stem"] by (simp add: scale_name_def stem)
  moreover have "ends_with ''.weight'' (vision_prefix n @ s)"
    using ends_with_append [of "''.weight''" "vision_prefix n @ stem"] by (simp add: stem)
  ultimately show ?thesis using no vision_prefix_less by (simp add: good_item_def item scale_like_def)
qed

lemma good_fixed_items: "item \<in> set fixed_vision \<Longrightarrow> good_item item"
  by (auto simp: fixed_vision_def m06_fixed_specs_def is_vision_item_def good_item_def scale_like_def ends_with_def scale_name_def
      remove_suffix_def last_name_def is_linear_source_def EMBEDDING_PROJECTION_def)

lemma good_items: "item \<in> set vision_inventory \<Longrightarrow> good_item item"
  by (auto simp: vision_inventory_eq good_fixed_items good_vision_items)

lemma scale_name_inject: "ends_with ''.weight'' x \<Longrightarrow> ends_with ''.weight'' y \<Longrightarrow> scale_name x = scale_name y \<longleftrightarrow> x = y"
  by (auto simp: ends_with_iff scale_name_def)

lemma distinct_inventory: "distinct (map fst vision_inventory)"
  unfolding vision_inventory_def by (rule distinct_map_filter [OF inventory_wf])

lemma distinct_output_names:
  "distinct (map fst items) \<Longrightarrow> \<forall>item\<in>set items. good_item item \<Longrightarrow> distinct (concat (map output_names items))"
proof (induction items)
  case (Cons a items)
  have a: "\<not> scale_like (fst a)" "is_linear_source (fst a) (snd (snd a)) \<Longrightarrow> ends_with ''.weight'' (fst a)"
    using Cons.prems(2) by (simp_all add: good_item_def)
  have "set (output_names a) \<inter> set (output_names b) = {}" if b: "b \<in> set items" for b
  proof -
    have "\<not> scale_like (fst b)" "is_linear_source (fst b) (snd (snd b)) \<Longrightarrow> ends_with ''.weight'' (fst b)"
      using Cons.prems(2) b by (simp_all add: good_item_def)
    moreover have "fst a \<noteq> fst b" using Cons.prems(1) b by (metis distinct.simps(2) image_eqI list.simps(9) set_map)
    ultimately show ?thesis
      using a scale_name_like [of "fst a"] scale_name_like [of "fst b"]
      by (auto simp: output_names_def scale_name_inject)
  qed
  moreover have "distinct (output_names a)" using a(1) scale_name_like [of "fst a"] by (auto simp: output_names_def)
  ultimately show ?case using Cons by auto
qed simp

lemma vision_names: "map vo_name (concat (map plain_outputs items)) = concat (map output_names items)"
  by (induction items) (simp_all add: names_plain_outputs)

lemma distinct_vision_names: "distinct (map vo_name vision_outputs)"
proof -
  have "mset (map vo_name vision_outputs) = mset (concat (map output_names vision_inventory))"
    by (simp only: mset_map mset_vision_outputs flip: vision_names)
  moreover have "distinct (concat (map output_names vision_inventory))"
    by (rule distinct_output_names [OF distinct_inventory]) (simp add: good_items)
  ultimately show ?thesis by (metis mset_eq_imp_distinct_iff)
qed

lemma sorted_vision_names: "sorted (map vo_name vision_outputs)"
  by (simp add: vision_outputs_def)

lemma vision_names_bounded: "v \<in> set vision_outputs \<Longrightarrow> vo_name v \<le> last_name \<and> hd (vo_name v) = CHR ''m''"
proof -
  assume "v \<in> set vision_outputs"
  then have "v \<in> set (concat (map plain_outputs vision_inventory))" by (metis mset_vision_outputs set_mset_mset)
  then obtain item where item: "item \<in> set vision_inventory" "v \<in> set (plain_outputs item)" by auto
  then have "vo_name v \<in> set (output_names item)" using names_plain_outputs [of item] by (metis image_eqI set_map)
  with good_items [OF item(1)] show ?thesis by (auto simp: output_names_def good_item_def split: if_splits)
qed

lemma last_vision_output: "vo_byte_length (last vision_outputs) = 2304"
proof -
  let ?v = "\<lparr>vo_name = last_name, vo_dtype = ''BF16'', vo_shape = [1152], vo_source_name = last_name, vo_role = ''vision_norm'',
    vo_kind = ''bf16_copy'', vo_byte_length = 2304\<rparr>"
  have "(last_name, ''vision_norm'', [1152]) \<in> set vision_inventory"
    by (simp add: vision_inventory_eq fixed_vision_def m06_fixed_specs_def is_vision_item_def last_name_def)
  moreover have "plain_outputs (last_name, ''vision_norm'', [1152]) = [?v]" by (simp add: plain_outputs_def is_linear_source_def)
  ultimately have "?v \<in> set (concat (map plain_outputs vision_inventory))" by force
  then have v: "?v \<in> set vision_outputs" by (metis mset_vision_outputs set_mset_mset)
  then have nonempty: "vision_outputs \<noteq> []" by auto
  then have l: "last vision_outputs \<in> set vision_outputs" by simp
  from sorted_vision_names nonempty v have "last_name \<le> vo_name (last vision_outputs)"
    using sorted_le_last [of "map vo_name vision_outputs" last_name] by (force simp: last_map)
  with vision_names_bounded [OF l] have "vo_name (last vision_outputs) = last_name" by simp
  with distinct_vision_names l v have "last vision_outputs = ?v" by (auto simp: distinct_map inj_on_def)
  then show ?thesis by simp
qed

lemma vision_payload_end: "end_at 0 vision_outputs = OUTPUT_PAYLOAD_BYTES"
proof -
  have "vision_outputs \<noteq> []" using length_vision_outputs by auto
  moreover have "256 dvd vo_byte_length (last vision_outputs)" by (simp add: last_vision_output)
  ultimately show ?thesis using end_at_last vision_output_totals(2) by simp
qed

section \<open>The header of the module\<close>

lemma names_not_metadata: "''__metadata__'' \<notin> set (map vo_name vision_outputs)"
proof
  assume "''__metadata__'' \<in> set (map vo_name vision_outputs)"
  then obtain v where "v \<in> set vision_outputs" "vo_name v = ''__metadata__''" by auto
  with vision_names_bounded [of v] show False by simp
qed

definition module_document :: "vision_output list \<Rightarrow> pyval dict" where
  "module_document outputs = (''__metadata__'', module_metadata) # map2 tensor_entry outputs (ranges_at 0 outputs)"

lemma artifact_header_eq:
  assumes "distinct (map vo_name outputs)" "''__metadata__'' \<notin> set (map vo_name outputs)"
  shows "artifact_header env outputs = (let raw = pad8 (env_compact env (PDict (module_document outputs)))
    in (pack_u64 (length raw) @ raw, offsets_from 0 outputs))"
  using layout_fold [OF assms(1), of "[]" "[(''__metadata__'', module_metadata)]" 0] assms(2)
  by (simp add: artifact_header_def module_document_def dict_keys_def)

lemma vision_header: "artifact_header env vision_outputs = (let raw = pad8 (env_compact env (PDict (module_document vision_outputs)))
    in (pack_u64 (length raw) @ raw, offsets_from 0 vision_outputs))"
  by (rule artifact_header_eq [OF distinct_vision_names names_not_metadata])

text \<open>One range after the other: aligned, of the stated size, and without a gap of an alignment or more.\<close>

lemma ranges_at_nth: "i < length vs \<Longrightarrow> ranges_at c vs ! i
    = (aligned (end_at c (take i vs)), aligned (end_at c (take i vs)) + vo_byte_length (vs ! i))"
  by (induction vs arbitrary: c i) (auto simp: nth_Cons split: nat.split)

lemma end_at_take: "i < length vs \<Longrightarrow> end_at c (take (Suc i) vs) = snd (ranges_at c vs ! i)"
  by (simp add: take_Suc_conv_app_nth end_at_append ranges_at_nth)

definition well_laid :: "vision_output list \<Rightarrow> (int \<times> int) list \<Rightarrow> bool" where
  "well_laid outputs ranges \<longleftrightarrow> length ranges = length outputs \<and> fst (ranges ! 0) = 0
     \<and> (\<forall>i < length outputs. 256 dvd fst (ranges ! i) \<and> snd (ranges ! i) = fst (ranges ! i) + vo_byte_length (outputs ! i))
     \<and> (\<forall>i < length outputs - 1. snd (ranges ! i) \<le> fst (ranges ! Suc i) \<and> fst (ranges ! Suc i) < snd (ranges ! i) + 256)"

lemma ranges_well_laid: "vs \<noteq> [] \<Longrightarrow> well_laid vs (ranges_at 0 vs)"
  using end_at_take [of _ vs 0]
  by (auto simp: well_laid_def ranges_at_nth aligned_bounds)

lemma vision_last_range: "snd (last (ranges_at 0 vision_outputs)) = OUTPUT_PAYLOAD_BYTES"
proof -
  have n: "length vision_outputs = 547" by (rule length_vision_outputs)
  then have "ranges_at 0 vision_outputs \<noteq> []" by (metis length_ranges_at list.size(3) zero_neq_numeral)
  then have "last (ranges_at 0 vision_outputs) = ranges_at 0 vision_outputs ! 546" using n by (simp add: last_conv_nth)
  with end_at_take [of 546 vision_outputs 0] vision_payload_end n show ?thesis by simp
qed

text \<open>
  C23. The frozen numbers of the vision module follow from its tables. The expected outputs are built
  without raising: 547 tensors in name order with distinct names, 165 of them copies, 597,301,792
  bytes together. The layout of the artifact places them in that order, each at a multiple of 256,
  starting at 0 and leaving less than 256 bytes between neighbours, and ends after exactly
  597,313,024 bytes, of which 11,232 are padding.
\<close>

theorem vision_layout_exact:
  "\<exists>outputs offsets. expected_outputs = Inr outputs \<and> snd (artifact_header env outputs) = offsets
    \<and> length outputs = 547 \<and> sorted (map vo_name outputs) \<and> distinct (map vo_name outputs)
    \<and> length (filter (\<lambda>v. vo_kind v = ''bf16_copy'') outputs) = 165
    \<and> sum_list (map vo_byte_length outputs) = 597301792
    \<and> map fst offsets = map vo_name outputs \<and> well_laid outputs (map snd offsets)
    \<and> snd (last (map snd offsets)) = 597313024 \<and> 597313024 - sum_list (map vo_byte_length outputs) = OUTPUT_PADDING_BYTES"
proof (intro exI conjI)
  show "expected_outputs = Inr vision_outputs" by (rule expected_outputs_eq)
  show "snd (artifact_header env vision_outputs) = offsets_from 0 vision_outputs" by (simp add: vision_header Let_def)
  show "map fst (offsets_from 0 vision_outputs) = map vo_name vision_outputs" by (simp add: offsets_from_def)
  have snd: "map snd (offsets_from 0 vision_outputs) = ranges_at 0 vision_outputs" by (simp add: offsets_from_def)
  have "vision_outputs \<noteq> []" using length_vision_outputs by auto
  then show "well_laid vision_outputs (map snd (offsets_from 0 vision_outputs))" unfolding snd by (rule ranges_well_laid)
  show "snd (last (map snd (offsets_from 0 vision_outputs))) = 597313024"
    unfolding snd using vision_last_range by (simp add: OUTPUT_PAYLOAD_BYTES_def)
qed (use length_vision_outputs sorted_vision_names distinct_vision_names vision_output_totals in
    \<open>simp_all add: BF16_COPY_COUNT_def OUTPUT_TENSOR_BYTES_def OUTPUT_PADDING_BYTES_def\<close>)

section \<open>The verifier on a header\<close>

lemma foldl_dict_fresh:
  "distinct (map f xs) \<Longrightarrow> set (map f xs) \<inter> dict_keys d = {} \<Longrightarrow>
    foldl (\<lambda>acc x. dict_set (f x) (g x) acc) d xs = d @ map (\<lambda>x. (f x, g x)) xs"
proof (induction xs arbitrary: d)
  case (Cons x xs)
  from Cons.prems(2) have "dict_set (f x) (g x) d = d @ [(f x, g x)]" by (simp add: dict_set_fresh)
  with Cons show ?case by (simp add: dict_keys_def)
qed simp

abbreviation named :: "vision_output list \<Rightarrow> vision_output dict" where
  "named outputs \<equiv> map (\<lambda>v. (vo_name v, v)) outputs"

lemma by_name_eq: "distinct (map vo_name outputs) \<Longrightarrow> by_name outputs = named outputs"
  by (simp add: by_name_def foldl_dict_fresh [where f = vo_name and g = "\<lambda>v. v"] dict_keys_def)

lemma dict_sorted_named: "sorted (map vo_name outputs) \<Longrightarrow> dict_sorted (named outputs) = named outputs"
  by (simp add: dict_sorted_def sort_key_id_if_sorted comp_def)

text \<open>What one step accepts, and the state it leaves.\<close>

definition entry_agrees :: "pyval dict \<Rightarrow> vision_output \<Rightarrow> int \<times> int \<Rightarrow> pyval list \<Rightarrow> bool" where
  "entry_agrees header v bounds positions \<longleftrightarrow> (\<exists>record. dict_get header (vo_name v) = Some (PDict record)
     \<and> dict_keys record = {''dtype'', ''shape'', ''data_offsets''} \<and> obj_get record ''data_offsets'' = PList positions
     \<and> py_eq (obj_get record ''dtype'') (PStr (vo_dtype v)) \<and> py_eq (obj_get record ''shape'') (PList (map PInt (vo_shape v)))
     \<and> py_eq (PList positions) (PList [PInt (fst bounds), PInt (snd bounds)]))"

lemma extent_step_Inr:
  "extent_step header (c, padding, offsets) (vo_name v, v) = Inr st \<longleftrightarrow>
    (\<exists>positions. entry_agrees header v (aligned c, aligned c + vo_byte_length v) positions
      \<and> st = (aligned c + vo_byte_length v, padding + (aligned c - c), dict_set (vo_name v) positions offsets))"
proof (cases "\<exists>record positions. dict_get header (vo_name v) = Some (PDict record) \<and> obj_get record ''data_offsets'' = PList positions")
  case True
  then obtain rec positions where r: "dict_get header (vo_name v) = Some (PDict rec)"
    "obj_get rec ''data_offsets'' = PList positions" by blast
  then have "extent_step header (c, padding, offsets) (vo_name v, v) =
      fail_if (dict_keys rec \<noteq> {''dtype'', ''shape'', ''data_offsets''}) (DataError ''Vision module tensor header schema mismatch'')
       (fail_if (\<not> py_eq (obj_get rec ''dtype'') (PStr (vo_dtype v)) \<or> \<not> py_eq (obj_get rec ''shape'') (PList (map PInt (vo_shape v)))
           \<or> \<not> py_eq (PList positions) (PList [PInt (aligned c), PInt (aligned c + vo_byte_length v)]))
         (DataError ''Vision module tensor extent mismatch'')
         (Inr (aligned c + vo_byte_length v, padding + (aligned c - c), dict_set (vo_name v) positions offsets)))"
    by (simp only: extent_step_def Let_def dict_index_def option.case rbind_simps pyval.case prod.case)
  moreover have "entry_agrees header v b p \<longleftrightarrow> p = positions \<and> dict_keys rec = {''dtype'', ''shape'', ''data_offsets''}
      \<and> py_eq (obj_get rec ''dtype'') (PStr (vo_dtype v)) \<and> py_eq (obj_get rec ''shape'') (PList (map PInt (vo_shape v)))
      \<and> py_eq (PList positions) (PList [PInt (fst b), PInt (snd b)])" for b p
    using r unfolding entry_agrees_def by (metis option.inject pyval.inject(5) pyval.inject(6))
  ultimately show ?thesis
    by (simp only: fail_if_Inr_iff fst_conv snd_conv) (safe, simp_all only: simp_thms)
next
  case False
  have "\<not> entry_agrees header v b positions" for b positions using False by (auto simp: entry_agrees_def)
  moreover have "extent_step header (c, padding, offsets) (vo_name v, v) \<noteq> Inr st"
  proof (cases "\<exists>rec. dict_get header (vo_name v) = Some (PDict rec)")
    case True
    then obtain rec where r: "dict_get header (vo_name v) = Some (PDict rec)" by blast
    with False have "\<forall>positions. obj_get rec ''data_offsets'' \<noteq> PList positions" by blast
    with r show ?thesis by (cases "obj_get rec ''data_offsets''") (simp_all add: extent_step_def Let_def dict_index_def)
  next
    case no: False
    show ?thesis
    proof (cases "dict_get header (vo_name v)")
      case (Some w)
      with no show ?thesis by (cases w) (simp_all add: extent_step_def Let_def dict_index_def)
    qed (simp add: extent_step_def Let_def dict_index_def)
  qed
  ultimately show ?thesis by blast
qed

definition gaps :: "int \<Rightarrow> vision_output list \<Rightarrow> int" where
  "gaps c vs = end_at c vs - c - sum_list (map vo_byte_length vs)"

lemma gaps_simps [simp]: "gaps c [] = 0"
  "gaps c (v # vs) = (aligned c - c) + gaps (aligned c + vo_byte_length v) vs"
  by (simp_all add: gaps_def)

definition all_agree :: "pyval dict \<Rightarrow> int \<Rightarrow> vision_output list \<Rightarrow> pyval list list \<Rightarrow> bool" where
  "all_agree header c vs positions \<longleftrightarrow>
     list_all2 (\<lambda>(v, bounds) p. entry_agrees header v bounds p) (zip vs (ranges_at c vs)) positions"

abbreviation store_positions :: "vision_output list \<Rightarrow> pyval list list \<Rightarrow> pyval list dict \<Rightarrow> pyval list dict" where
  "store_positions vs positions offsets \<equiv>
     foldl (\<lambda>acc (name, p). dict_set name p acc) offsets (zip (map vo_name vs) positions)"

lemma extents_fold:
  "rfold (extent_step header) (c, padding, offsets) (named vs) = Inr st \<longleftrightarrow>
    (\<exists>positions. all_agree header c vs positions
      \<and> st = (end_at c vs, padding + gaps c vs, store_positions vs positions offsets))"
proof (induction vs arbitrary: c padding offsets)
  case (Cons v vs)
  let ?c = "aligned c + vo_byte_length v"
  have "rfold (extent_step header) (c, padding, offsets) (named (v # vs)) = Inr st \<longleftrightarrow>
      (\<exists>p. entry_agrees header v (aligned c, ?c) p
        \<and> (\<exists>ps. all_agree header ?c vs ps \<and> st = (end_at ?c vs, padding + (aligned c - c) + gaps ?c vs,
            store_positions vs ps (dict_set (vo_name v) p offsets))))"
    by (auto simp: extent_step_Inr Cons.IH)
  moreover have "(\<exists>positions. all_agree header c (v # vs) positions
        \<and> st = (end_at c (v # vs), padding + gaps c (v # vs), store_positions (v # vs) positions offsets)) \<longleftrightarrow>
      (\<exists>p ps. entry_agrees header v (aligned c, ?c) p \<and> all_agree header ?c vs ps
        \<and> st = (end_at ?c vs, padding + (aligned c - c) + gaps ?c vs, store_positions vs ps (dict_set (vo_name v) p offsets)))"
    unfolding all_agree_def ranges_at.simps zip_Cons_Cons list_all2_Cons1 end_at.simps gaps_simps add.assoc
    by (safe; fastforce)
  ultimately show ?case by blast
qed (auto simp: all_agree_def)

lemma store_positions_eq:
  "distinct (map vo_name vs) \<Longrightarrow> length positions = length vs \<Longrightarrow> store_positions vs positions [] = zip (map vo_name vs) positions"
proof -
  assume "distinct (map vo_name vs)" "length positions = length vs"
  then have "distinct (map fst (zip (map vo_name vs) positions))" by simp
  from foldl_dict_fresh [OF this, of "[]" snd] show ?thesis by (simp add: dict_keys_def case_prod_unfold)
qed

lemma all_agree_length: "all_agree header c vs positions \<Longrightarrow> length positions = length vs"
  by (auto simp: all_agree_def dest: list_all2_lengthD)

lemma vision_gaps: "gaps 0 vision_outputs = OUTPUT_PADDING_BYTES"
  by (simp add: gaps_def vision_payload_end vision_output_totals OUTPUT_PAYLOAD_BYTES_def OUTPUT_TENSOR_BYTES_def OUTPUT_PADDING_BYTES_def)

lemma check_extents_Inr:
  "check_extents header (by_name vision_outputs) n len = Inr offsets \<longleftrightarrow>
    dict_keys header = set (map vo_name vision_outputs) \<and> length header = 547 \<and> n = 8 + len + OUTPUT_PAYLOAD_BYTES
    \<and> (\<exists>positions. all_agree header 0 vision_outputs positions \<and> offsets = zip (map vo_name vision_outputs) positions)"
proof -
  have keys: "dict_keys (named vision_outputs) = set (map vo_name vision_outputs)"
    by (force simp: dict_keys_def)
  have total: "sum_list (map (vo_byte_length \<circ> snd) (named vision_outputs)) = OUTPUT_TENSOR_BYTES"
    using vision_output_totals(1) by (simp add: comp_def)
  have "check_extents header (by_name vision_outputs) n len = Inr offsets \<longleftrightarrow>
      dict_keys header = set (map vo_name vision_outputs) \<and> length header = 547
      \<and> (\<exists>positions. all_agree header 0 vision_outputs positions
          \<and> n = 8 + len + OUTPUT_PAYLOAD_BYTES \<and> offsets = store_positions vision_outputs positions [])"
    unfolding check_extents_def by_name_eq [OF distinct_vision_names] dict_sorted_named [OF sorted_vision_names] keys total
    by (auto simp: extents_fold vision_payload_end vision_gaps OUTPUT_TENSOR_COUNT_def fail_if_def)
  then show ?thesis using store_positions_eq [OF distinct_vision_names] all_agree_length by auto
qed

lemma verify_header_Inr:
  "verify_header env path = Inr (payload_offset, offsets) \<longleftrightarrow>
    (\<exists>n len raw header positions. regular_size env path = Inr n \<and> module_header env path n = Inr (len, raw)
      \<and> parse_object env raw (DataError ''Vision module header JSON is invalid'') = Inr header
      \<and> py_eq (obj_get header ''__metadata__'') module_metadata
      \<and> dict_keys (without_metadata header) = set (map vo_name vision_outputs) \<and> length (without_metadata header) = 547
      \<and> n = 8 + len + OUTPUT_PAYLOAD_BYTES \<and> payload_offset = 8 + len
      \<and> all_agree (without_metadata header) 0 vision_outputs positions \<and> offsets = zip (map vo_name vision_outputs) positions)"
  unfolding verify_header_def expected_outputs_eq
  by (auto simp: check_extents_Inr)

text \<open>The document the writer serialises agrees with every expectation.\<close>

abbreviation vision_positions :: "pyval list list" where
  "vision_positions \<equiv> map (\<lambda>(a, b). [PInt a, PInt b]) (ranges_at 0 vision_outputs)"

lemma names_map2: "length vs = length rs \<Longrightarrow> map fst (map2 tensor_entry vs rs) = map vo_name vs"
  by (induction vs rs rule: list_induct2) (simp_all add: tensor_entry_def)

lemma without_module_metadata:
  "without_metadata (module_document vision_outputs) = map2 tensor_entry vision_outputs (ranges_at 0 vision_outputs)"
proof -
  have other: "key \<noteq> ''__metadata__''" if "(key, w) \<in> set (map2 tensor_entry vision_outputs (ranges_at 0 vision_outputs))" for key w
  proof -
    from imageI [OF that, of fst]
    have "key \<in> set (map fst (map2 tensor_entry vision_outputs (ranges_at 0 vision_outputs)))" by (simp only: fst_conv set_map)
    then have "key \<in> set (map vo_name vision_outputs)" by (simp only: names_map2 length_ranges_at)
    with names_not_metadata show ?thesis by blast
  qed
  have "case e of (key, _) \<Rightarrow> key \<noteq> ''__metadata__''" if "e \<in> set (map2 tensor_entry vision_outputs (ranges_at 0 vision_outputs))" for e
  proof (cases e)
    case (Pair key w)
    from that have "(key, w) \<in> set (map2 tensor_entry vision_outputs (ranges_at 0 vision_outputs))" unfolding Pair .
    from other [OF this] show ?thesis by (simp add: Pair)
  qed
  then have "filter (\<lambda>(key, _). key \<noteq> ''__metadata__'') (map2 tensor_entry vision_outputs (ranges_at 0 vision_outputs))
      = map2 tensor_entry vision_outputs (ranges_at 0 vision_outputs)" by (intro filter_True ballI)
  then show ?thesis by (simp add: without_metadata_def module_document_def)
qed

lemma tensor_entry_agrees:
  assumes "dict_get header (vo_name v) = Some (snd (tensor_entry v bounds))"
  shows "entry_agrees header v bounds [PInt (fst bounds), PInt (snd bounds)]"
proof -
  have "py_eq (PList (map PInt xs)) (PList (map PInt xs))" for xs by (rule py_eq_refl) (simp add: list_all_iff)
  moreover have "py_eq (PList [PInt a, PInt b]) (PList [PInt a, PInt b])" for a b by (rule py_eq_refl) simp
  ultimately show ?thesis
    using assms unfolding entry_agrees_def
    by (intro exI [of _ "[(''dtype'', PStr (vo_dtype v)), (''shape'', PList (map PInt (vo_shape v))),
        (''data_offsets'', PList [PInt (fst bounds), PInt (snd bounds)])]"])
      (simp add: tensor_entry_def dict_keys_def obj_get_def insert_commute)
qed

lemma module_document_agrees:
  "all_agree (without_metadata (module_document vision_outputs)) 0 vision_outputs vision_positions"
  unfolding all_agree_def without_module_metadata list_all2_conv_all_nth
proof (intro conjI allI impI)
  fix i assume "i < length (zip vision_outputs (ranges_at 0 vision_outputs))"
  then have i: "i < length vision_outputs" by simp
  let ?header = "map2 tensor_entry vision_outputs (ranges_at 0 vision_outputs)"
  have "distinct (map fst ?header)" using names_map2 distinct_vision_names by simp
  moreover have "tensor_entry (vision_outputs ! i) (ranges_at 0 vision_outputs ! i) \<in> set ?header"
    using i by (force simp: in_set_conv_nth)
  ultimately have "dict_get ?header (vo_name (vision_outputs ! i)) = Some (snd (tensor_entry (vision_outputs ! i) (ranges_at 0 vision_outputs ! i)))"
    by (simp add: tensor_entry_def)
  from tensor_entry_agrees [OF this] show "(case zip vision_outputs (ranges_at 0 vision_outputs) ! i of
      (v, bounds) \<Rightarrow> entry_agrees ?header v bounds) (vision_positions ! i)"
    using i by (simp add: case_prod_unfold)
qed simp

section \<open>A bound module\<close>

text \<open>
  The four files of a module: an artifact that starts with the header of the outputs and carries the
  payload, and three canonical documents, each with the digests of the files it binds.
\<close>

definition bound_descriptor :: "environment \<Rightarrow> pyval dict \<Rightarrow> bytes \<Rightarrow> pyval dict" where
  "bound_descriptor env compilation artifact = descriptor_document (env_sha env artifact) (int (length artifact))
     (env_sha env (env_canonical env (PDict compilation)))"

definition bound_lock :: "environment \<Rightarrow> string \<Rightarrow> string \<Rightarrow> string \<Rightarrow> pyval dict \<Rightarrow> bytes \<Rightarrow> pyval dict" where
  "bound_lock env lock_hash repository revision compilation artifact = lock_document (env_sha env artifact) (int (length artifact))
     (env_sha env (env_canonical env (PDict compilation)))
     (env_sha env (env_canonical env (PDict (bound_descriptor env compilation artifact)))) lock_hash repository revision"

definition bound_module :: "environment \<Rightarrow> string \<Rightarrow> string \<Rightarrow> string \<Rightarrow> string \<Rightarrow> vision_output list \<Rightarrow> pyval dict \<Rightarrow> bytes \<Rightarrow> bool" where
  "bound_module env base lock_hash repository revision outputs compilation artifact \<longleftrightarrow>
     env_files env (path_join base VISION_FILENAME) = Some artifact
   \<and> (\<exists>payload. artifact = fst (artifact_header env outputs) @ payload \<and> int (length payload) = OUTPUT_PAYLOAD_BYTES)
   \<and> env_files env (path_join base COMPILATION_FILENAME) = Some (env_canonical env (PDict compilation))
   \<and> env_files env (path_join base DESCRIPTOR_FILENAME)
       = Some (env_canonical env (PDict (bound_descriptor env compilation artifact)))
   \<and> env_files env (path_join base LOCK_FILENAME)
       = Some (env_canonical env (PDict (bound_lock env lock_hash repository revision compilation artifact)))"

text \<open>What its compilation document says of the artifact, of the source and of every tensor.\<close>

definition recorded_as :: "vision_output \<times> int \<times> int \<Rightarrow> pyval \<Rightarrow> bool" where
  "recorded_as placed v \<longleftrightarrow> (\<exists>source_hash output_hash statistics. length source_hash = 64 \<and> length output_hash = 64
     \<and> v = output_record (fst placed) (fst (snd placed)) (snd (snd placed)) (source_hash, output_hash, statistics))"

definition compiled_as :: "environment \<Rightarrow> string \<Rightarrow> string \<Rightarrow> string \<Rightarrow> vision_output list \<Rightarrow> pyval dict \<Rightarrow> bytes \<Rightarrow> bool" where
  "compiled_as env lock_hash repository revision outputs compilation artifact \<longleftrightarrow>
     obj_get compilation ''artifact'' = artifact_entry (PStr ''gem16-aligned-vision-module-v1'')
       (int (length (fst (artifact_header env outputs)))) (env_sha env artifact) (int (length artifact)) (int (length outputs))
   \<and> obj_get compilation ''schema_version'' = PInt 1 \<and> obj_get compilation ''contract_version'' = PInt 1
   \<and> obj_get compilation ''contract_id'' = PStr ''gem16.gemma4_26b_vision_fp8''
   \<and> obj_get compilation ''capability_profile'' = PStr PROFILE
   \<and> obj_get compilation ''required_text_artifact_profile'' = PStr TEXT_ARTIFACT_PROFILE
   \<and> (\<exists>source. obj_get compilation ''source'' = PDict source \<and> obj_get source ''lock_sha256'' = PStr lock_hash
       \<and> obj_get source ''repository'' = PStr repository \<and> obj_get source ''revision'' = PStr revision
       \<and> obj_get source ''tensor_count'' = PInt 356 \<and> obj_get source ''tensor_payload_bytes'' = PInt SOURCE_TENSOR_BYTES)
   \<and> (\<exists>records. obj_get compilation ''tensors'' = PList records
       \<and> list_all2 recorded_as (zip outputs (ranges_at 0 outputs)) records)"

text \<open>The files are regular, and parsing a document that was serialised gives it back.\<close>

definition plain_file :: "environment \<Rightarrow> string \<Rightarrow> bool" where
  "plain_file env path \<longleftrightarrow> \<not> env_symlink env path
     \<and> (\<exists>data. env_files env path = Some data \<and> env_entry env path = Regular (int (length data)))"

definition document_exact :: "environment \<Rightarrow> int \<Rightarrow> pyval dict \<Rightarrow> bool" where
  "document_exact env maximum document \<longleftrightarrow> loads env (env_canonical env (PDict document)) = Some (PDict document)
     \<and> int (length (env_canonical env (PDict document))) \<le> maximum"

lemma loads_object:
  "loads env raw = Some (PDict d) \<Longrightarrow> parse_object env raw e = Inr d"
  by (auto simp: loads_def parse_object_def split: option.splits sum.splits)

lemma read_exact_document:
  assumes "plain_file env path" "env_files env path = Some (env_canonical env (PDict document))" "document_exact env maximum document"
  shows "read_document env path maximum = Inr document"
  using assms loads_object [of env "env_canonical env (PDict document)" document]
  by (auto simp: read_document_def plain_file_def regular_size_def document_exact_def)

lemma plain_documents: "py_plain (PDict (descriptor_document a n c))" "py_plain (PDict (lock_document a n c d l p r))"
    "py_plain (artifact_entry (PStr f) o' a n k)" "py_plain module_metadata"
  by (simp_all add: descriptor_document_def lock_document_def artifact_entry_def module_metadata_def dict_wf_def)

section \<open>A bound module is accepted\<close>

lemma obj_get_record:
  "obj_get record_dict ''name'' = PStr (vo_name v) \<and> obj_get record_dict ''data_offsets'' = PList [PInt a, PInt b]
     \<and> obj_get record_dict ''output_sha256'' = PStr y \<and> obj_get record_dict ''source_sha256'' = PStr x"
  if "PDict record_dict = output_record v a b (x, y, z)"
  using that by (auto simp: output_record_def obj_get_def)

lemma recorded_step:
  assumes "recorded_as (v, a, b) w" "vo_name v \<notin> names" "dict_get offsets (vo_name v) = Some [PInt a, PInt b]"
  shows "record_step offsets names w = Inr (insert (vo_name v) names)"
proof -
  from assms(1) obtain x y z where w: "w = output_record v a b (x, y, z)" "length x = 64" "length y = 64"
    by (auto simp: recorded_as_def)
  then obtain d where d: "w = PDict d" by (auto simp: output_record_def)
  then have eq: "PDict d = output_record v a b (x, y, z)" using w by simp
  have "py_eq (PList [PInt a, PInt b]) (PList [PInt a, PInt b])" by (rule py_eq_refl) simp
  with obj_get_record [OF eq] assms(2,3) w(2,3) show ?thesis unfolding d by (simp add: record_step_def valid_hash_def)
qed

lemma recorded_fold:
  assumes "list_all2 recorded_as (zip vs bounds) records" "length bounds = length vs" "distinct (map vo_name vs)"
    and "set (map vo_name vs) \<inter> names = {}"
    and "\<forall>(v, a, b)\<in>set (zip vs bounds). dict_get offsets (vo_name v) = Some [PInt a, PInt b]"
  shows "rfold (record_step offsets) names records = Inr (names \<union> set (map vo_name vs))"
  using assms
proof (induction vs bounds arbitrary: records names rule: list_induct2')
  case (4 v vs b bounds)
  then obtain r rs where records: "records = r # rs" "recorded_as (v, b) r" "list_all2 recorded_as (zip vs bounds) rs"
    by (auto simp: list_all2_Cons1)
  obtain x y where b: "b = (x, y)" by fastforce
  have "record_step offsets names r = Inr (insert (vo_name v) names)"
    by (rule recorded_step [of v x y]) (use 4 records b in auto)
  moreover have "rfold (record_step offsets) (insert (vo_name v) names) rs = Inr (insert (vo_name v) names \<union> set (map vo_name vs))"
    by (rule "4.IH") (use 4 records in auto)
  ultimately show ?case by (simp add: records)
qed auto

lemma positions_get:
  "distinct (map vo_name vs) \<Longrightarrow> length bounds = length vs \<Longrightarrow> (v, a, b) \<in> set (zip vs bounds) \<Longrightarrow>
    dict_get (zip (map vo_name vs) (map (\<lambda>(a, b). [PInt a, PInt b]) bounds)) (vo_name v) = Some [PInt a, PInt b]"
proof -
  assume assms: "distinct (map vo_name vs)" "length bounds = length vs" "(v, a, b) \<in> set (zip vs bounds)"
  then have "(vo_name v, [PInt a, PInt b]) \<in> set (zip (map vo_name vs) (map (\<lambda>(a, b). [PInt a, PInt b]) bounds))"
    by (force simp: zip_map_map)
  with assms(1,2) show ?thesis by simp
qed

lemma recorded_accepted:
  assumes "obj_get compilation ''tensors'' = PList records"
    and "list_all2 recorded_as (zip vision_outputs (ranges_at 0 vision_outputs)) records"
  shows "check_records compilation (zip (map vo_name vision_outputs) vision_positions) = Inr ()"
proof -
  have n: "length records = 547"
    using list_all2_lengthD [OF assms(2)] length_vision_outputs by simp
  have positions: "\<forall>(v, a, b)\<in>set (zip vision_outputs (ranges_at 0 vision_outputs)).
      dict_get (zip (map vo_name vision_outputs) vision_positions) (vo_name v) = Some [PInt a, PInt b]"
    using positions_get [OF distinct_vision_names length_ranges_at] by blast
  have "rfold (record_step (zip (map vo_name vision_outputs) vision_positions)) {} records
      = Inr ({} \<union> set (map vo_name vision_outputs))"
    by (rule recorded_fold [OF assms(2) length_ranges_at distinct_vision_names _ positions]) simp
  moreover have "dict_keys (zip (map vo_name vision_outputs) vision_positions) = set (map vo_name vision_outputs)"
    unfolding dict_keys_def set_map [symmetric] by (simp only: map_fst_zip length_map length_ranges_at)
  ultimately show ?thesis using n by (simp add: check_records_def assms(1) OUTPUT_TENSOR_COUNT_def)
qed

definition acceptable :: "environment \<Rightarrow> vision_system \<Rightarrow> (string \<Rightarrow> string list) \<Rightarrow> string \<Rightarrow> string \<Rightarrow> string \<Rightarrow> pyval dict \<Rightarrow> bytes \<Rightarrow> bool" where
  "acceptable env sys names directory base lock_hash compilation artifact \<longleftrightarrow>
     \<not> env_symlink env directory \<and> env_resolve env directory = Some base \<and> env_entry env base = Directory
   \<and> set (names base) = set REQUIRED_FILES \<and> list_all (\<lambda>name. plain_file env (path_join base name)) REQUIRED_FILES
   \<and> json_exact env (PDict (module_document vision_outputs))
   \<and> 2 \<le> int (length (pad8 (env_compact env (PDict (module_document vision_outputs)))))
   \<and> int (length (pad8 (env_compact env (PDict (module_document vision_outputs))))) \<le> MAX_HEADER_BYTES
   \<and> document_exact env (64 * 1024 * 1024) compilation
   \<and> document_exact env (1024 * 1024) (bound_descriptor env compilation artifact)
   \<and> document_exact env (1024 * 1024) (bound_lock env lock_hash SOURCE_REPOSITORY SOURCE_REVISION compilation artifact)
   \<and> (\<exists>lock. env_files env (source_lock_path sys) = Some lock \<and> env_sha env lock = lock_hash)"

lemma bound_header_accepted:
  assumes "env_files env path = Some artifact" "plain_file env path"
    and artifact: "artifact = fst (artifact_header env vision_outputs) @ payload" "int (length payload) = OUTPUT_PAYLOAD_BYTES"
    and json: "json_exact env (PDict (module_document vision_outputs))"
    and bounds: "2 \<le> int (length (pad8 (env_compact env (PDict (module_document vision_outputs)))))"
      "int (length (pad8 (env_compact env (PDict (module_document vision_outputs))))) \<le> MAX_HEADER_BYTES"
  shows "verify_header env path = Inr (int (length (fst (artifact_header env vision_outputs))),
    zip (map vo_name vision_outputs) vision_positions)"
proof -
  let ?raw = "pad8 (env_compact env (PDict (module_document vision_outputs)))"
  have header: "fst (artifact_header env vision_outputs) = pack_u64 (length ?raw) @ ?raw" by (simp add: vision_header Let_def)
  have small: "length ?raw < 2 ^ 64" using bounds(2) by (simp add: MAX_HEADER_BYTES_def)
  have size: "regular_size env path = Inr (int (length artifact))"
    using assms(1,2) by (auto simp: regular_size_def plain_file_def)
  have "take 8 artifact = pack_u64 (length ?raw)" by (simp add: artifact(1) header)
  then have read: "module_header env path (int (length artifact)) = Inr (int (length ?raw), ?raw)"
    using bounds small assms(1) artifact(2)
    by (simp add: module_header_def Let_def unpack_pack_u64 artifact(1) header OUTPUT_PAYLOAD_BYTES_def)
  have parsed: "parse_object env ?raw e = Inr (module_document vision_outputs)" for e
    by (rule loads_object) (use json in \<open>simp add: json_exact_def\<close>)
  have metadata: "obj_get (module_document vision_outputs) ''__metadata__'' = module_metadata"
    by (simp add: module_document_def obj_get_def)
  have keys: "dict_keys (without_metadata (module_document vision_outputs)) = set (map vo_name vision_outputs)"
    unfolding without_module_metadata dict_keys_def set_map [symmetric] by (simp only: names_map2 length_ranges_at)
  have "length (without_metadata (module_document vision_outputs)) = 547"
    unfolding without_module_metadata by (simp add: length_vision_outputs)
  moreover have "int (length artifact) = 8 + int (length ?raw) + OUTPUT_PAYLOAD_BYTES"
    using artifact(2) by (simp add: artifact(1) header)
  moreover have "int (length (fst (artifact_header env vision_outputs))) = 8 + int (length ?raw)" by (simp add: header)
  ultimately show ?thesis
    unfolding verify_header_Inr
    using size read parsed metadata py_eq_refl [OF plain_documents(4)] keys module_document_agrees by metis
qed

lemma module_root_accepted:
  "acceptable env sys names directory base lock_hash compilation artifact \<Longrightarrow> module_root env names directory = Inr base"
  by (simp add: acceptable_def module_root_def is_dir_def)

lemma compiled_accepted:
  assumes "compiled_as env lock_hash SOURCE_REPOSITORY SOURCE_REVISION vision_outputs compilation artifact"
  shows "check_documents \<lparr>md_artifact = env_sha env artifact, md_descriptor = descriptor_hash,
      md_compilation = compilation_hash, md_source_lock = lock_hash, md_size = int (length artifact)\<rparr>
    (int (length (fst (artifact_header env vision_outputs)))) (zip (map vo_name vision_outputs) vision_positions) descriptor compilation
    (lock_document (env_sha env artifact) (int (length artifact)) compilation_hash descriptor_hash lock_hash
      SOURCE_REPOSITORY SOURCE_REVISION) = Inr ()"
proof -
  from assms obtain source records where
    artifact: "obj_get compilation ''artifact'' = artifact_entry (PStr ''gem16-aligned-vision-module-v1'')
       (int (length (fst (artifact_header env vision_outputs)))) (env_sha env artifact) (int (length artifact)) 547"
    and profile: "obj_get compilation ''schema_version'' = PInt 1" "obj_get compilation ''contract_version'' = PInt 1"
      "obj_get compilation ''contract_id'' = PStr ''gem16.gemma4_26b_vision_fp8''"
      "obj_get compilation ''capability_profile'' = PStr PROFILE"
      "obj_get compilation ''required_text_artifact_profile'' = PStr TEXT_ARTIFACT_PROFILE"
    and source: "obj_get compilation ''source'' = PDict source" "obj_get source ''lock_sha256'' = PStr lock_hash"
      "obj_get source ''repository'' = PStr SOURCE_REPOSITORY" "obj_get source ''revision'' = PStr SOURCE_REVISION"
      "obj_get source ''tensor_count'' = PInt 356" "obj_get source ''tensor_payload_bytes'' = PInt SOURCE_TENSOR_BYTES"
    and records: "obj_get compilation ''tensors'' = PList records"
      "list_all2 recorded_as (zip vision_outputs (ranges_at 0 vision_outputs)) records"
    using length_vision_outputs unfolding compiled_as_def by auto
  have "check_profile compilation = Inr ()" by (simp add: check_profile_def profile del: py_eq.simps)
  moreover have "check_source compilation lock_hash = Inr ()"
    by (simp add: check_source_def differs_def source SOURCE_TENSOR_BYTES_def del: py_eq.simps)
  moreover have "check_records compilation (zip (map vo_name vision_outputs) vision_positions) = Inr ()"
    by (rule recorded_accepted [OF records])
  ultimately show ?thesis
    using py_eq_refl [OF plain_documents(2)] py_eq_refl [OF plain_documents(3)]
    by (simp add: check_documents_def artifact OUTPUT_TENSOR_COUNT_def del: py_eq.simps)
qed

lemma bound_module_accepted:
  assumes "bound_module env base lock_hash SOURCE_REPOSITORY SOURCE_REVISION vision_outputs compilation artifact"
    and "compiled_as env lock_hash SOURCE_REPOSITORY SOURCE_REVISION vision_outputs compilation artifact"
    and "acceptable env sys names directory base lock_hash compilation artifact"
  shows "verify_vision_module env sys names directory = Inr [(''artifact_sha256'', PStr (env_sha env artifact)),
    (''artifact_size'', PInt (int (length artifact))), (''capability_profile'', PStr PROFILE),
    (''payload_bytes'', PInt OUTPUT_PAYLOAD_BYTES), (''status'', PStr ''pass''), (''tensor_count'', PInt 547)]"
proof -
  let ?path = "path_join base"
  note stored = assms(1) [unfolded bound_module_def] and accepted = assms(3) [unfolded acceptable_def]
  then obtain payload where payload: "artifact = fst (artifact_header env vision_outputs) @ payload"
    "int (length payload) = OUTPUT_PAYLOAD_BYTES" by blast
  from accepted have plain: "plain_file env (?path name)" if "name \<in> set REQUIRED_FILES" for name
    using that by (simp add: list_all_iff)
  then have files: "plain_file env (?path VISION_FILENAME)" "plain_file env (?path DESCRIPTOR_FILENAME)"
    "plain_file env (?path COMPILATION_FILENAME)" "plain_file env (?path LOCK_FILENAME)"
    by (simp_all add: REQUIRED_FILES_def)
  have header: "verify_header env (?path VISION_FILENAME)
      = Inr (int (length (fst (artifact_header env vision_outputs))), zip (map vo_name vision_outputs) vision_positions)"
    by (rule bound_header_accepted [OF _ files(1) payload]) (use stored accepted in simp_all)
  have size: "stat_size env (?path VISION_FILENAME) = Inr (int (length artifact))"
    using files(1) stored by (auto simp: plain_file_def stat_size_def)
  have documents: "read_document env (?path DESCRIPTOR_FILENAME) (1024 * 1024) = Inr (bound_descriptor env compilation artifact)"
    "read_document env (?path COMPILATION_FILENAME) (64 * 1024 * 1024) = Inr compilation"
    "read_document env (?path LOCK_FILENAME) (1024 * 1024)
      = Inr (bound_lock env lock_hash SOURCE_REPOSITORY SOURCE_REVISION compilation artifact)"
    using read_exact_document [OF files(2)] read_exact_document [OF files(3)] read_exact_document [OF files(4)] stored accepted
    by blast+
  have hashes: "file_sha256 env (?path VISION_FILENAME) = Inr (env_sha env artifact)"
    "file_sha256 env (?path COMPILATION_FILENAME) = Inr (env_sha env (env_canonical env (PDict compilation)))"
    "file_sha256 env (?path DESCRIPTOR_FILENAME)
      = Inr (env_sha env (env_canonical env (PDict (bound_descriptor env compilation artifact))))"
    "file_sha256 env (source_lock_path sys) = Inr lock_hash"
    using stored accepted by (auto simp: file_sha256_def)
  show ?thesis
    unfolding verify_vision_module_def module_root_accepted [OF assms(3)] Let_def rbind_simps header prod.case hashes documents size
    using py_eq_refl [OF plain_documents(1)] compiled_accepted [OF assms(2)]
    by (simp add: bound_descriptor_def bound_lock_def OUTPUT_TENSOR_COUNT_def del: py_eq.simps)
qed


section \<open>An accepted module is bound\<close>

text \<open>What a document file holds, and what the records of the compilation say of the tensors.\<close>

definition holds_document :: "environment \<Rightarrow> string \<Rightarrow> bytes \<Rightarrow> pyval dict \<Rightarrow> bool" where
  "holds_document env path raw document \<longleftrightarrow> \<not> env_symlink env path \<and> env_files env path = Some raw
     \<and> loads env raw = Some (PDict document)"

lemma parse_object_Inr: "parse_object env raw e = Inr d \<Longrightarrow> loads env raw = Some (PDict d)"
proof -
  assume ok: "parse_object env raw e = Inr d"
  then obtain t where t: "env_parse env raw = Some t" by (cases "env_parse env raw") (simp_all add: parse_object_def)
  with ok obtain v where v: "json_value t = Inr v" by (cases "json_value t") (simp_all add: parse_object_def)
  with ok t have "v = PDict d" by (cases v) (simp_all add: parse_object_def)
  with t v show ?thesis by (simp add: loads_def)
qed

lemma read_document_Inr:
  "read_document env path maximum = Inr d \<Longrightarrow> \<exists>raw. holds_document env path raw d"
  by (auto simp: read_document_def regular_size_def holds_document_def parse_object_Inr split: option.splits)

definition names_tensor :: "pyval list dict \<Rightarrow> string \<Rightarrow> pyval \<Rightarrow> bool" where
  "names_tensor offsets name v \<longleftrightarrow> (\<exists>d positions. v = PDict d \<and> obj_get d ''name'' = PStr name
     \<and> dict_get offsets name = Some positions \<and> py_eq (obj_get d ''data_offsets'') (PList positions)
     \<and> valid_hash (obj_get d ''output_sha256'') \<and> valid_hash (obj_get d ''source_sha256''))"

lemma record_step_Inr:
  assumes "record_step offsets names v = Inr names'"
  shows "\<exists>name. name \<notin> names \<and> names' = insert name names \<and> names_tensor offsets name v"
proof (cases v)
  case (PDict d)
  show ?thesis
  proof (cases "obj_get d ''name''")
    case (PStr name)
    with assms PDict obtain positions where "dict_get offsets name = Some positions" "name \<notin> names" "names' = insert name names"
      "py_eq (obj_get d ''data_offsets'') (PList positions)"
      "valid_hash (obj_get d ''output_sha256'')" "valid_hash (obj_get d ''source_sha256'')"
      by (cases "dict_get offsets name") (simp_all add: record_step_def)
    with PDict PStr show ?thesis unfolding names_tensor_def by blast
  qed (use assms PDict in \<open>simp_all add: record_step_def\<close>)
qed (use assms in \<open>simp_all add: record_step_def\<close>)

lemma records_fold_Inr:
  "rfold (record_step offsets) names vs = Inr names' \<Longrightarrow>
    \<exists>found. distinct found \<and> set found \<inter> names = {} \<and> names' = names \<union> set found \<and> list_all2 (names_tensor offsets) found vs"
proof (induction vs arbitrary: names)
  case (Cons v vs)
  then obtain mid where mid: "record_step offsets names v = Inr mid" "rfold (record_step offsets) mid vs = Inr names'" by auto
  from record_step_Inr [OF mid(1)] obtain name where name: "name \<notin> names" "mid = insert name names" "names_tensor offsets name v"
    by blast
  from Cons.IH [OF mid(2)] obtain found where "distinct found" "set found \<inter> mid = {}" "names' = mid \<union> set found"
    "list_all2 (names_tensor offsets) found vs" by blast
  with name show ?case by (intro exI [of _ "name # found"]) auto
qed simp

definition tensors_recorded :: "pyval dict \<Rightarrow> pyval list dict \<Rightarrow> bool" where
  "tensors_recorded compilation offsets \<longleftrightarrow> (\<exists>found records. obj_get compilation ''tensors'' = PList records
     \<and> distinct found \<and> set found = dict_keys offsets \<and> list_all2 (names_tensor offsets) found records)"

lemma check_records_Inr: "check_records compilation offsets = Inr u \<Longrightarrow> tensors_recorded compilation offsets"
proof -
  assume ok: "check_records compilation offsets = Inr u"
  then obtain records where records: "obj_get compilation ''tensors'' = PList records"
    by (cases "obj_get compilation ''tensors''") (simp_all add: check_records_def)
  with ok have "rfold (record_step offsets) {} records = Inr (dict_keys offsets)" by (auto simp: check_records_def)
  from records_fold_Inr [OF this] records show ?thesis unfolding tensors_recorded_def by auto
qed

text \<open>The header places every expected tensor, and nothing else, where the layout puts it.\<close>

definition header_places :: "environment \<Rightarrow> bytes \<Rightarrow> int \<Rightarrow> pyval list dict \<Rightarrow> bool" where
  "header_places env artifact len offsets \<longleftrightarrow> (\<exists>header positions.
     8 \<le> length artifact \<and> len = int (unpack_u64 (take 8 artifact)) \<and> 2 \<le> len \<and> len \<le> MAX_HEADER_BYTES
   \<and> loads env (take (nat len) (drop 8 artifact)) = Some (PDict header)
   \<and> py_eq (obj_get header ''__metadata__'') module_metadata
   \<and> dict_keys (without_metadata header) = set (map vo_name vision_outputs) \<and> length (without_metadata header) = 547
   \<and> list_all2 (\<lambda>(v, bounds) p. entry_agrees (without_metadata header) v bounds p)
       (zip vision_outputs (ranges_at 0 vision_outputs)) positions
   \<and> offsets = zip (map vo_name vision_outputs) positions)"

lemma module_header_Inr:
  "module_header env path n = Inr (len, raw) \<longleftrightarrow> (\<exists>data. env_files env path = Some data \<and> 8 \<le> length data
     \<and> len = int (unpack_u64 (take 8 data)) \<and> raw = take (nat len) (drop 8 data) \<and> 2 \<le> len \<and> len \<le> MAX_HEADER_BYTES
     \<and> 8 + len \<le> n \<and> int (length raw) = len)"
  by (auto simp: module_header_def Let_def split: option.splits)

lemma verified_header_places:
  assumes "verify_header env path = Inr (payload_offset, offsets)" "env_files env path = Some artifact"
  shows "\<exists>len. payload_offset = 8 + len \<and> header_places env artifact len offsets \<and> \<not> env_symlink env path
    \<and> env_entry env path = Regular (payload_offset + OUTPUT_PAYLOAD_BYTES)"
proof -
  from assms(1) obtain n len raw header positions where h: "regular_size env path = Inr n" "module_header env path n = Inr (len, raw)"
    "parse_object env raw (DataError ''Vision module header JSON is invalid'') = Inr header"
    "py_eq (obj_get header ''__metadata__'') module_metadata"
    "dict_keys (without_metadata header) = set (map vo_name vision_outputs)" "length (without_metadata header) = 547"
    "n = 8 + len + OUTPUT_PAYLOAD_BYTES" "payload_offset = 8 + len"
    "all_agree (without_metadata header) 0 vision_outputs positions" "offsets = zip (map vo_name vision_outputs) positions"
    unfolding verify_header_Inr by metis
  from h(1) have "\<not> env_symlink env path" "env_entry env path = Regular n"
    by (auto simp: regular_size_def split: path_entry.splits)
  moreover have "header_places env artifact len offsets"
    unfolding header_places_def
    using h(2,4-6,9,10) parse_object_Inr [OF h(3)] assms(2) unfolding module_header_Inr all_agree_def by auto
  ultimately show ?thesis using h(7,8) by auto
qed

lemma check_documents_Inr:
  "check_documents digests payload_offset offsets descriptor compilation lock = Inr u \<Longrightarrow>
    py_eq (PDict lock) (PDict (lock_document (md_artifact digests) (md_size digests) (md_compilation digests)
      (md_descriptor digests) (md_source_lock digests) SOURCE_REPOSITORY SOURCE_REVISION))
  \<and> py_eq (obj_get compilation ''artifact'') (artifact_entry (PStr ''gem16-aligned-vision-module-v1'') payload_offset
      (md_artifact digests) (md_size digests) 547)
  \<and> check_source compilation (md_source_lock digests) = Inr () \<and> tensors_recorded compilation offsets"
  by (auto simp: check_documents_def OUTPUT_TENSOR_COUNT_def check_records_Inr simp del: py_eq.simps)

text \<open>
  C13. What the verifier accepts is bound. The directory holds exactly the four files, none of them a
  link; the artifact has the length its header and the frozen payload add up to, and its header
  places exactly the 547 expected tensors, each with its type, its shape and the range of the
  frozen layout; the descriptor states the digests of the artifact and of the compilation, the lock
  those of all files and of the pinned source lock; and the compilation records every tensor once,
  at its range, for the pinned source.
\<close>

theorem accepted_module_bound:
  assumes "verify_vision_module env sys names directory = Inr report"
  shows "\<exists>base artifact len offsets compiled compilation raw descriptor raw_lock lock source_lock.
     env_resolve env directory = Some base \<and> \<not> env_symlink env directory \<and> set (names base) = set REQUIRED_FILES
   \<and> env_files env (path_join base VISION_FILENAME) = Some artifact \<and> \<not> env_symlink env (path_join base VISION_FILENAME)
   \<and> env_entry env (path_join base VISION_FILENAME) = Regular (8 + len + 597313024)
   \<and> header_places env artifact len offsets
   \<and> holds_document env (path_join base COMPILATION_FILENAME) compiled compilation
   \<and> holds_document env (path_join base DESCRIPTOR_FILENAME) raw descriptor
   \<and> holds_document env (path_join base LOCK_FILENAME) raw_lock lock
   \<and> env_files env (source_lock_path sys) = Some source_lock
   \<and> py_eq (PDict descriptor)
       (PDict (descriptor_document (env_sha env artifact) (8 + len + 597313024) (env_sha env compiled)))
   \<and> py_eq (PDict lock) (PDict (lock_document (env_sha env artifact) (8 + len + 597313024) (env_sha env compiled)
       (env_sha env raw) (env_sha env source_lock) SOURCE_REPOSITORY SOURCE_REVISION))
   \<and> py_eq (obj_get compilation ''artifact'') (artifact_entry (PStr ''gem16-aligned-vision-module-v1'') (8 + len)
       (env_sha env artifact) (8 + len + 597313024) 547)
   \<and> check_source compilation (env_sha env source_lock) = Inr () \<and> tensors_recorded compilation offsets"
proof -
  from assms obtain base where base: "module_root env names directory = Inr base"
    by (auto simp: verify_vision_module_def)
  let ?path = "path_join base"
  from assms obtain payload_offset offsets artifact_hash descriptor_hash compilation_hash descriptor compilation lock n
      source_lock_hash u where
    header: "verify_header env (?path VISION_FILENAME) = Inr (payload_offset, offsets)"
    and hashes: "file_sha256 env (?path VISION_FILENAME) = Inr artifact_hash"
      "file_sha256 env (?path DESCRIPTOR_FILENAME) = Inr descriptor_hash"
      "file_sha256 env (?path COMPILATION_FILENAME) = Inr compilation_hash"
      "file_sha256 env (source_lock_path sys) = Inr source_lock_hash"
    and documents: "read_document env (?path DESCRIPTOR_FILENAME) (1024 * 1024) = Inr descriptor"
      "read_document env (?path COMPILATION_FILENAME) (64 * 1024 * 1024) = Inr compilation"
      "read_document env (?path LOCK_FILENAME) (1024 * 1024) = Inr lock"
    and size: "stat_size env (?path VISION_FILENAME) = Inr n"
    and agree: "py_eq (PDict descriptor) (PDict (descriptor_document artifact_hash n compilation_hash))"
    and checked: "check_documents \<lparr>md_artifact = artifact_hash, md_descriptor = descriptor_hash,
      md_compilation = compilation_hash, md_source_lock = source_lock_hash, md_size = n\<rparr> payload_offset offsets descriptor
      compilation lock = Inr u"
    unfolding verify_vision_module_def base rbind_simps Let_def
    by (auto simp del: py_eq.simps)
  from hashes obtain artifact source_lock where
    artifact: "env_files env (?path VISION_FILENAME) = Some artifact" "artifact_hash = env_sha env artifact"
    and source_lock: "env_files env (source_lock_path sys) = Some source_lock" "source_lock_hash = env_sha env source_lock"
    by (auto simp: file_sha256_def split: option.splits)
  from verified_header_places [OF header artifact(1)] obtain len where len: "payload_offset = 8 + len"
    "header_places env artifact len offsets" "\<not> env_symlink env (?path VISION_FILENAME)"
    "env_entry env (?path VISION_FILENAME) = Regular (8 + len + 597313024)"
    by (auto simp: OUTPUT_PAYLOAD_BYTES_def)
  then have n: "n = 8 + len + 597313024" using size by (simp add: stat_size_def)
  from read_document_Inr [OF documents(1)] read_document_Inr [OF documents(2)] read_document_Inr [OF documents(3)]
  obtain raw compiled raw_lock where raw: "holds_document env (?path DESCRIPTOR_FILENAME) raw descriptor"
    "holds_document env (?path COMPILATION_FILENAME) compiled compilation"
    "holds_document env (?path LOCK_FILENAME) raw_lock lock" by blast
  then have digests: "descriptor_hash = env_sha env raw" "compilation_hash = env_sha env compiled"
    using hashes by (auto simp: holds_document_def file_sha256_def)
  have root: "env_resolve env directory = Some base" "\<not> env_symlink env directory" "set (names base) = set REQUIRED_FILES"
    using base by (auto simp: module_root_def split: option.splits)
  show ?thesis
    using root artifact(1) len(2-4) raw source_lock(1) agree [unfolded artifact(2) n digests]
      check_documents_Inr [OF checked, unfolded module_digests.simps artifact(2) n digests len(1) source_lock(2)]
    by blast
qed

section \<open>A module that is accepted\<close>

text \<open>The JSON text of a value, when its objects repeat no key.\<close>

fun json_of :: "pyval \<Rightarrow> json" where
  "json_of PNone = JNull"
| "json_of (PBool b) = JBool b"
| "json_of (PInt i) = JInt i"
| "json_of (PFloat f) = JFloat f"
| "json_of (PStr s) = JStr s"
| "json_of (PList xs) = JArr (map json_of xs)"
| "json_of (PDict d) = JObj (map (\<lambda>(k, v). (k, json_of v)) d)"

lemma json_embed_of: "json_embed (json_of v) = v"
proof (induction v)
  case (PDict d)
  have "(case (case e of (k, v) \<Rightarrow> (k, json_of v)) of (k, v) \<Rightarrow> (k, json_embed v)) = e" if "e \<in> set d" for e
    using PDict that by (cases e) fastforce
  then show ?case by (simp add: map_idI)
qed (simp_all add: map_idI)

lemma json_distinct_of: "py_plain v \<Longrightarrow> json_distinct (json_of v)"
proof (induction v)
  case (PDict d)
  have keys: "map fst (map (\<lambda>(k, v). (k, json_of v)) d) = map fst d" by (induction d) auto
  have "json_distinct (json_of v)" if e: "(k, v) \<in> set d" for k v
  proof -
    have "py_plain v" using PDict.prems e by (auto simp: list_all_iff)
    then show ?thesis using PDict.IH [OF e] by simp
  qed
  then have "list_all (\<lambda>(k, v). json_distinct v) (map (\<lambda>(k, v). (k, json_of v)) d)" by (auto simp: list_all_iff)
  moreover have "distinct (map fst d)" using PDict.prems by (simp add: dict_wf_def)
  ultimately show ?case unfolding json_of.simps json_distinct.simps keys by (simp only: simp_thms)
qed (auto simp: list_all_iff)

lemma loads_of: "env_parse env raw = Some (json_of v) \<Longrightarrow> py_plain v \<Longrightarrow> loads env raw = Some v"
  using json_value_Inr [of "json_of v" v] by (simp add: loads_def json_embed_of json_distinct_of)

definition demo_hash :: string where "demo_hash = replicate 64 CHR ''0''"

definition demo_payload :: bytes where "demo_payload = replicate 597313024 0"

lemma length_demo_payload: "length demo_payload = 597313024"
  by (simp only: demo_payload_def length_replicate)

definition demo_artifact :: bytes where "demo_artifact = (pack_u64 8 @ replicate 8 0x20) @ demo_payload"

lemma length_demo_artifact: "length demo_artifact = 597313040"
  by (simp add: demo_artifact_def length_demo_payload)

definition demo_record :: "vision_output \<times> int \<times> int \<Rightarrow> pyval" where
  "demo_record placed = output_record (fst placed) (fst (snd placed)) (snd (snd placed)) (demo_hash, demo_hash, None)"

definition demo_compilation :: "pyval dict" where
  "demo_compilation = [
     (''artifact'', artifact_entry (PStr ''gem16-aligned-vision-module-v1'') 16 demo_hash 597313040 547),
     (''capability_profile'', PStr PROFILE), (''contract_id'', PStr ''gem16.gemma4_26b_vision_fp8''),
     (''contract_version'', PInt 1), (''required_text_artifact_profile'', PStr TEXT_ARTIFACT_PROFILE),
     (''schema_version'', PInt 1),
     (''source'', PDict [(''lock_sha256'', PStr demo_hash), (''repository'', PStr SOURCE_REPOSITORY),
        (''revision'', PStr SOURCE_REVISION), (''tensor_count'', PInt 356), (''tensor_payload_bytes'', PInt SOURCE_TENSOR_BYTES)]),
     (''tensors'', PList (map demo_record (zip vision_outputs (ranges_at 0 vision_outputs))))]"

definition demo_descriptor :: "pyval dict" where
  "demo_descriptor = descriptor_document demo_hash 597313040 demo_hash"

definition demo_lock :: "pyval dict" where
  "demo_lock = lock_document demo_hash 597313040 demo_hash demo_hash demo_hash SOURCE_REPOSITORY SOURCE_REVISION"

definition demo_text :: "pyval \<Rightarrow> bytes" where
  "demo_text v = (case v of PDict d \<Rightarrow>
       if dict_get d ''tensors'' \<noteq> None then [1] else if dict_get d ''enablement'' \<noteq> None then [2] else [3] | _ \<Rightarrow> [])"

definition demo_files :: files where
  "demo_files path = Some (if path = path_join ''/m'' VISION_FILENAME then demo_artifact
     else demo_text (PDict (if path = path_join ''/m'' COMPILATION_FILENAME then demo_compilation
       else if path = path_join ''/m'' DESCRIPTOR_FILENAME then demo_descriptor else demo_lock)))"

definition demo_env :: environment where
  "demo_env = matrix_env\<lparr>env_sha := \<lambda>_. demo_hash, env_compact := \<lambda>_. replicate 8 0x20, env_canonical := demo_text,
     env_parse := \<lambda>raw. Some (json_of (PDict (if raw = [1] then demo_compilation else if raw = [2] then demo_descriptor
       else if raw = [3] then demo_lock else module_document vision_outputs))),
     env_resolve := Some, env_symlink := \<lambda>_. False, env_files := demo_files,
     env_entry := \<lambda>path. if path = ''/m'' then Directory else Regular (int (length (the (demo_files path))))\<rparr>"

lemma demo_env_fields:
  "env_sha demo_env raw = demo_hash" "env_compact demo_env v = replicate 8 0x20" "env_canonical demo_env = demo_text"
  "env_resolve demo_env = Some" "env_symlink demo_env path = False" "env_files demo_env = demo_files"
  "env_entry demo_env path = (if path = ''/m'' then Directory else Regular (int (length (the (demo_files path)))))"
  "env_parse demo_env raw = Some (json_of (PDict (if raw = [1] then demo_compilation else if raw = [2] then demo_descriptor
       else if raw = [3] then demo_lock else module_document vision_outputs)))"
  by (simp_all add: demo_env_def)

lemma demo_texts: "demo_text (PDict demo_compilation) = [1]" "demo_text (PDict demo_descriptor) = [2]"
    "demo_text (PDict demo_lock) = [3]"
  by (simp_all add: demo_text_def demo_compilation_def demo_descriptor_def demo_lock_def descriptor_document_def
      lock_document_def)

lemma plain_entries:
  "py_plain (PDict (module_document vision_outputs))"
  "py_plain (PDict demo_compilation)" "py_plain (PDict demo_descriptor)" "py_plain (PDict demo_lock)"
proof -
  have entry: "py_plain (snd (tensor_entry v b))" for v b by (simp add: tensor_entry_def dict_wf_def list_all_iff)
  have keys: "map fst (map2 tensor_entry vision_outputs (ranges_at 0 vision_outputs)) = map vo_name vision_outputs"
    by (rule names_map2) simp
  have "dict_wf (module_document vision_outputs)"
    using keys distinct_vision_names names_not_metadata
    unfolding dict_wf_def module_document_def list.map fst_conv distinct.simps(2) by (simp only: simp_thms)
  moreover have "py_plain (snd e)" if "e \<in> set (map2 tensor_entry vision_outputs (ranges_at 0 vision_outputs))" for e
    using that entry by force
  ultimately show "py_plain (PDict (module_document vision_outputs))"
    using plain_documents(4)
    by (simp add: list_all_iff module_document_def case_prod_unfold del: py_plain.simps(2)) 
  have "py_plain (demo_record p)" for p by (simp add: demo_record_def output_record_def dict_wf_def list_all_iff)
  then show "py_plain (PDict demo_compilation)"
    by (simp add: demo_compilation_def plain_documents dict_wf_def list_all_iff)
qed (simp_all add: demo_descriptor_def demo_lock_def plain_documents del: py_plain.simps)

lemma demo_header: "fst (artifact_header demo_env vision_outputs) = pack_u64 8 @ replicate 8 0x20"
  by (simp add: vision_header demo_env_fields pad8_def)

lemma demo_paths:
  "path_join ''/m'' VISION_FILENAME = ''/m/vision.gem16''" "path_join ''/m'' DESCRIPTOR_FILENAME = ''/m/gem16_vision.json''"
  "path_join ''/m'' COMPILATION_FILENAME = ''/m/vision_compilation.json''" "path_join ''/m'' LOCK_FILENAME = ''/m/vision.lock.json''"
  by (simp_all add: path_join_def ends_with_def VISION_FILENAME_def DESCRIPTOR_FILENAME_def COMPILATION_FILENAME_def LOCK_FILENAME_def)

lemma demo_stored:
  "demo_files ''/m/vision.gem16'' = Some demo_artifact" "demo_files ''/m/gem16_vision.json'' = Some [2]"
  "demo_files ''/m/vision_compilation.json'' = Some [1]" "demo_files ''/m/vision.lock.json'' = Some [3]"
  by (simp_all add: demo_files_def demo_paths demo_texts)

lemma demo_documents:
  "bound_descriptor demo_env demo_compilation demo_artifact = demo_descriptor"
  "bound_lock demo_env demo_hash SOURCE_REPOSITORY SOURCE_REVISION demo_compilation demo_artifact = demo_lock"
  by (simp_all add: bound_descriptor_def bound_lock_def demo_env_fields length_demo_artifact demo_descriptor_def demo_lock_def)

lemma demo_bound:
  "bound_module demo_env ''/m'' demo_hash SOURCE_REPOSITORY SOURCE_REVISION vision_outputs demo_compilation demo_artifact"
proof -
  have "demo_artifact = fst (artifact_header demo_env vision_outputs) @ demo_payload"
    by (simp only: demo_artifact_def demo_header)
  moreover have "int (length demo_payload) = OUTPUT_PAYLOAD_BYTES" by (simp add: length_demo_payload OUTPUT_PAYLOAD_BYTES_def)
  ultimately show ?thesis
    by (simp add: bound_module_def demo_documents demo_paths demo_env_fields demo_stored demo_texts) blast
qed

lemma demo_compiled:
  "compiled_as demo_env demo_hash SOURCE_REPOSITORY SOURCE_REVISION vision_outputs demo_compilation demo_artifact"
proof -
  have "length demo_hash = 64" by (simp add: demo_hash_def)
  then have "recorded_as p (demo_record p)" for p by (auto simp: recorded_as_def demo_record_def)
  then have "list_all2 recorded_as ps (map demo_record ps)" for ps by (induction ps) auto
  then show ?thesis
    by (simp add: compiled_as_def demo_header demo_env_fields length_demo_artifact length_vision_outputs demo_compilation_def obj_get_def)
qed

lemma demo_acceptable: "acceptable demo_env sys (\<lambda>_. REQUIRED_FILES) ''/m'' ''/m'' demo_hash demo_compilation demo_artifact"
proof -
  have "loads demo_env [1] = Some (PDict demo_compilation)" "loads demo_env [2] = Some (PDict demo_descriptor)"
    "loads demo_env [3] = Some (PDict demo_lock)"
    by (rule loads_of; simp add: demo_env_fields plain_entries del: json_of.simps py_plain.simps)+
  moreover have "replicate 8 (0x20 :: 8 word) \<noteq> [k]" for k by (simp add: numeral_eq_Suc)
  then have "json_exact demo_env (PDict (module_document vision_outputs))"
    unfolding json_exact_def by (intro loads_of) (simp_all add: demo_env_fields pad8_def plain_entries del: json_of.simps py_plain.simps)
  moreover have "plain_file demo_env path" if "path \<noteq> ''/m''" for path
    using that by (simp add: plain_file_def demo_env_fields demo_files_def)
  ultimately show ?thesis
    unfolding acceptable_def document_exact_def demo_documents
    by (simp add: demo_env_fields REQUIRED_FILES_def demo_paths demo_texts pad8_def MAX_HEADER_BYTES_def demo_files_def)
qed

lemma demo_verifies: "\<exists>report. verify_vision_module demo_env sys (\<lambda>_. REQUIRED_FILES) ''/m'' = Inr report"
  using bound_module_accepted [OF demo_bound demo_compiled demo_acceptable] by blast

theorem accepted_module_bound_witness:
  "\<forall>sys. \<exists>artifact len offsets compilation. demo_files ''/m/vision.gem16'' = Some artifact \<and> header_places demo_env artifact len offsets
    \<and> tensors_recorded compilation offsets"
proof
  fix sys
  from demo_verifies obtain report where "verify_vision_module demo_env sys (\<lambda>_. REQUIRED_FILES) ''/m'' = Inr report" by blast
  from accepted_module_bound [OF this] show "\<exists>artifact len offsets compilation. demo_files ''/m/vision.gem16'' = Some artifact
      \<and> header_places demo_env artifact len offsets \<and> tensors_recorded compilation offsets"
    by (elim exE conjE) (auto simp: demo_env_fields demo_paths simp flip: demo_paths(1) simp del: py_eq.simps)
qed


end
