(* ===== verification/Bundle_Facts.thy ===== *)
theory Bundle_Facts
  imports Return_Facts
begin

text \<open>
  What a prepared FP8 bundle says of every pair of its plan: the sizes of the two components and the
  digest of the source tensor they were made from.
\<close>

section \<open>The digests of the sources\<close>

definition source_digest :: "environment \<Rightarrow> sources \<Rightarrow> string \<Rightarrow> string \<Rightarrow> bool" where
  "source_digest env source_tensors name digest \<longleftrightarrow> (\<exists>source path content. dict_get source_tensors name = Some source
     \<and> env_resolve env (td_path source) = Some path
     \<and> stored_range (env_files env path) (td_absolute_offset source) (td_byte_length source) content
     \<and> digest = env_sha env content)"

definition digests_right :: "environment \<Rightarrow> sources \<Rightarrow> string dict \<Rightarrow> bool" where
  "digests_right env source_tensors hashes \<longleftrightarrow>
     (\<forall>name digest. dict_get hashes name = Some digest \<longrightarrow> source_digest env source_tensors name digest)"

lemma hash_source_right:
  assumes "0 < env_granularity env" "good_ws env ws" "digests_right env source_tensors hashes"
  shows "ends (hash_source env source_tensors hashes m ws) (\<lambda>h ws'. good_ws env ws' \<and> digests_right env source_tensors h)"
proof -
  have fresh: "ends (run_bind (run_only (dict_index source_tensors (jm_source_name m)) ws) (\<lambda>source ws1.
     case env_resolve env (td_path source) of
       None \<Rightarrow> Some (Inl (OSError ''resolve''), ws1)
     | Some resolved \<Rightarrow>
         run_bind (hash_tensor_range (env_sha env) (env_granularity env) (env_rss env) (env_files env resolved)
            (td_absolute_offset source) (td_byte_length source) ws1) (\<lambda>digest.
         run_only (Inr (dict_set (jm_source_name m) digest hashes)))))
      (\<lambda>h ws'. good_ws env ws' \<and> digests_right env source_tensors h)"
  proof (rule ends_bind_only)
    fix source
    assume "dict_index source_tensors (jm_source_name m) = Inr source"
    then have source: "dict_get source_tensors (jm_source_name m) = Some source" by (auto simp: dict_index_def split: option.splits)
    show "ends (case env_resolve env (td_path source) of
       None \<Rightarrow> Some (Inl (OSError ''resolve''), ws)
     | Some resolved \<Rightarrow>
         run_bind (hash_tensor_range (env_sha env) (env_granularity env) (env_rss env) (env_files env resolved)
            (td_absolute_offset source) (td_byte_length source) ws) (\<lambda>digest.
         run_only (Inr (dict_set (jm_source_name m) digest hashes))))
      (\<lambda>h ws'. good_ws env ws' \<and> digests_right env source_tensors h)"
    proof (cases "env_resolve env (td_path source)")
      case (Some path)
      have "digests_right env source_tensors (dict_set (jm_source_name m) digest hashes)"
        if "stored_range (env_files env path) (td_absolute_offset source) (td_byte_length source) content"
          "digest = env_sha env content" for digest content
        using assms(3) that source Some by (auto simp: digests_right_def source_digest_def)
      then show ?thesis
        using hash_tensor_range_ends [OF assms(1,2), of "env_sha env" "env_rss env" "env_files env path" "td_absolute_offset source"
          "td_byte_length source"]
        by (auto simp: Some intro: ends_bind)
    qed simp
  qed
  show ?thesis
    using fresh assms(2,3) unfolding hash_source_def
    by (auto split: option.split list.split)
qed

definition right_matrix :: "environment \<Rightarrow> sources \<Rightarrow> plan_pair \<Rightarrow> job_matrix \<Rightarrow> bool" where
  "right_matrix env source_tensors pair m \<longleftrightarrow> describes env source_tensors pair m
     \<and> source_digest env source_tensors (jm_source_name m) (jm_source_sha256 m)"

lemma filled_right:
  assumes "fill_hashes hashes made = Inr job" "digests_right env source_tensors hashes"
    and "list_all2 (describes env source_tensors) pairs (job_matrices made)"
  shows "list_all2 (right_matrix env source_tensors) pairs (job_matrices job)"
proof -
  let ?f = "\<lambda>m. rbind (dict_index hashes (jm_source_name m)) (\<lambda>digest. Inr (m\<lparr>jm_source_sha256 := digest\<rparr>))"
  from assms(1) obtain ms where ms: "rmap ?f (job_matrices made) = Inr ms" "job_matrices job = ms"
    by (auto simp: fill_hashes_def)
  have "list_all2 (describes env source_tensors) ps xs \<Longrightarrow> rmap ?f xs = Inr ys \<Longrightarrow> list_all2 (right_matrix env source_tensors) ps ys" for ps xs ys
  proof (induction ps xs arbitrary: ys rule: list_all2_induct)
    case (Cons p ps x xs)
    then obtain digest zs where d: "dict_get hashes (jm_source_name x) = Some digest" "ys = x\<lparr>jm_source_sha256 := digest\<rparr> # zs"
      "rmap ?f xs = Inr zs" by (auto simp: dict_index_def split: option.splits)
    have "right_matrix env source_tensors p (x\<lparr>jm_source_sha256 := digest\<rparr>)"
      using Cons.hyps(1) assms(2) d(1) by (auto simp: right_matrix_def describes_def digests_right_def split: prod.splits)
    with Cons.IH [OF d(3)] d(2) show ?case by simp
  qed simp
  from this [OF assms(3) ms(1)] ms(2) show ?thesis by simp
qed

lemma prepare_job_right:
  assumes "0 < env_granularity env" "good_ws env ws"
    and "prepare_job env request plan source_tensors fs staging ws = Some (Inr (job, payload_bytes), ws')"
  shows "\<exists>pairs. pair_plans plan = Inr pairs \<and> list_all2 (right_matrix env source_tensors) pairs (job_matrices job)"
proof -
  from assms(3) obtain made pairs hashes ws1 where
    made: "make_job env plan source_tensors payload_bytes (nr_threads request) = Inr (made, pairs)"
    and hashed: "run_fold (hash_source env source_tensors) [] (job_matrices made) ws = Some (Inr hashes, ws1)"
    and filled: "fill_hashes hashes made = Inr job"
    by (auto simp: prepare_job_def split: if_splits)
  have "ends (run_fold (hash_source env source_tensors) [] (job_matrices made) ws)
      (\<lambda>h ws'. good_ws env ws' \<and> digests_right env source_tensors h)"
    by (rule ends_fold) (use assms(1,2) hash_source_right in \<open>auto simp: digests_right_def\<close>)
  with hashed have "digests_right env source_tensors hashes" by (auto dest: ends_Inr)
  from filled_right [OF filled this] make_job_Inr [OF made] show ?thesis by blast
qed

section \<open>The entries of a bundle\<close>

definition serves_pair :: "environment \<Rightarrow> sources \<Rightarrow> native_bundle \<Rightarrow> plan_pair \<Rightarrow> bool" where
  "serves_pair env source_tensors nb pair \<longleftrightarrow> (case pair of (w, s) \<Rightarrow> \<exists>m.
     dict_get (nb_matrices nb) (output_name w) = Some m \<and> dict_get (nb_matrices nb) (output_name s) = Some m
   \<and> output_bytes w = Inr (nm_weight_bytes m) \<and> output_bytes s = Inr (nm_scale_bytes m)
   \<and> source_names w = [nm_source_name m] \<and> source_digest env source_tensors (nm_source_name m) (nm_source_sha256 m))"

lemma bundle_serves:
  assumes "0 < env_granularity env" "good_ws env ws"
    and "prepare_native_bundle env fsys stuck stage child request plan source_tensors staging (ws, fs) = Some (Inr nb, st')"
    and "distinct (map output_name (qp_tensors plan))"
  shows "\<exists>pairs. pair_plans plan = Inr pairs \<and> (\<forall>p\<in>set pairs. serves_pair env source_tensors nb p)"
proof -
  from prepare_Inr [OF assms(3)] obtain job payload_bytes ws1 binary_hash ws2 fs3 where
    prepared: "prepare_job env request plan source_tensors fs staging ws = Some (Inr (job, payload_bytes), ws1)"
    and ran: "run_native env stuck child request job payload_bytes staging binary_hash (ws2, fs3) = (Inr nb, st')" by blast
  from prepare_job_right [OF assms(1,2) prepared] obtain pairs where
    pairs: "pair_plans plan = Inr pairs" "list_all2 (right_matrix env source_tensors) pairs (job_matrices job)" by blast
  obtain outcome fs4 where child: "child fs3 = (outcome, fs4)" by fastforce
  from ran child obtain ws3 where
    collected: "collect_bundle env request job staging binary_hash payload_bytes outcome fs4 ws2 = (Inr nb, ws3)"
    by (auto simp: run_native_def split: prod.splits sum.splits)
  from collect_bundle_Inr [OF collected] obtain items where
    folded: "rfold (bundle_step items) [] (job_matrices job) = Inr (nb_matrices nb)" by blast
  have "list_all2 (describes env source_tensors) pairs (job_matrices job)"
    by (rule list_all2_mono [OF pairs(2)]) (simp add: right_matrix_def)
  from described_names [OF this] pair_plans_Inr [OF pairs(1)]
  have "mset (job_names (job_matrices job)) = mset (map output_name (qp_tensors plan))" by (simp add: mset_map)
  with assms(4) have "distinct (job_names (job_matrices job))" using mset_eq_imp_distinct_iff by blast
  from bundle_fold [OF folded this] obtain entries where
    entries: "list_all2 same_matrix (job_matrices job) entries" "\<forall>e\<in>set entries. served (nb_matrices nb) e" by blast
  have "serves_pair env source_tensors nb p" if p: "p \<in> set pairs" for p
  proof -
    from p pairs(2) obtain m where m: "m \<in> set (job_matrices job)" "right_matrix env source_tensors p m"
      by (metis in_set_conv_nth list_all2_conv_all_nth)
    from m(1) entries(1) obtain e where e: "e \<in> set entries" "same_matrix m e"
      by (metis in_set_conv_nth list_all2_conv_all_nth)
    with entries(2) have "served (nb_matrices nb) e" by blast
    with m(2) e(2) show ?thesis
      by (auto simp: serves_pair_def right_matrix_def describes_def same_matrix_def served_def split: prod.splits)
  qed
  with pairs(1) show ?thesis by blast
qed

end
