(* ===== verification/Vision_Run.thy ===== *)
theory Vision_Run
  imports Vision_Facts Bundle_Facts
begin

text \<open>
  The run that writes a vision module: every payload lies in its range with the digest the document
  records, the documents bind the file, and the whole is a transaction over the disk.
\<close>

section \<open>One payload\<close>

abbreviation appends :: "environment \<Rightarrow> bytes \<Rightarrow> (bytes \<Rightarrow> copied_output \<Rightarrow> bool) \<Rightarrow> copied_output \<Rightarrow> workspace \<times> bytes \<Rightarrow> bool" where
  "appends env out P c st \<equiv> good_ws env (fst st) \<and> (\<exists>piece. snd st = out @ piece \<and> P piece c)"

definition piece_of :: "bytes option \<Rightarrow> int \<Rightarrow> int \<Rightarrow> bytes \<Rightarrow> bool" where
  "piece_of stored offset len piece \<longleftrightarrow> (\<exists>data. stored = Some data \<and> 0 \<le> offset \<and> piece = take (nat len) (drop (nat offset) data)
     \<and> int (length piece) = len)"

lemma copy_range_appends:
  assumes "sink put id" "0 < env_granularity env" "good_ws env ws"
  shows "ends (copy_range (env_sha env) (env_granularity env) (env_rss env) put track stored offset len ws out)
    (\<lambda>(x, y) st. good_ws env (fst st) \<and> (\<exists>piece. snd st = out @ piece \<and> piece_of stored offset len piece
      \<and> x = env_sha env piece \<and> y = env_sha env piece))"
proof (cases stored)
  case None
  then show ?thesis by (simp add: copy_range_def mapped_tensor_range_def)
next
  case (Some data)
  from copy_range_outcome [OF assms(1,3,2), of "env_sha env" "env_rss env" track data offset len out]
  show ?thesis
    unfolding ends_def Some by (fastforce split: sum.split_asm dest: ws_good_self simp: piece_of_def)
qed

lemma copy_source_appends:
  assumes "sink (module_put sys) id" "0 < env_granularity env" "good_ws env ws"
  shows "ends (copy_source env sys source (ws, out)) (appends env out (\<lambda>piece (x, y, z).
    piece_of (env_files env (td_path source)) (td_absolute_offset source) (td_byte_length source) piece
    \<and> x = env_sha env piece \<and> y = env_sha env piece \<and> z = None))"
  unfolding copy_source_def prod.case
  by (rule ends_bind [OF copy_range_appends [OF assms]]) (auto split: prod.splits)

definition native_range :: "native_bundle \<Rightarrow> vision_output \<Rightarrow> (int \<times> int) option" where
  "native_range nb v = map_option (\<lambda>m. if vo_kind v = ''fp8_weight'' then (nm_weight_offset m, nm_weight_bytes m)
     else (nm_scale_offset m, nm_scale_bytes m)) (dict_get (nb_matrices nb) (vo_name v))"

lemma copy_native_appends:
  assumes "sink (module_put sys) id" "0 < env_granularity env" "good_ws env ws"
  shows "ends (copy_native env sys nb v (ws, out)) (appends env out (\<lambda>piece (x, y, z).
    \<exists>offset len m. native_range nb v = Some (offset, len) \<and> piece_of (env_files env (nb_payload nb)) offset len piece
      \<and> dict_get (nb_matrices nb) (vo_name v) = Some m \<and> x = nm_source_sha256 m \<and> y = env_sha env piece))"
  unfolding copy_native_def
proof (rule ends_bind_only, clarify)
  fix m offset len expected_hash
  assume "rbind (dict_index (nb_matrices nb) (vo_name v)) (\<lambda>matrix.
       let weight = vo_kind v = ''fp8_weight'' in
       rbind (dict_index (nm_telemetry matrix) (if weight then ''weight_sha256'' else ''scale_sha256'')) (\<lambda>expected_hash.
       Inr (matrix, if weight then nm_weight_offset matrix else nm_scale_offset matrix,
         if weight then nm_weight_bytes matrix else nm_scale_bytes matrix, expected_hash))) = Inr (m, offset, len, expected_hash)"
  then have m: "dict_get (nb_matrices nb) (vo_name v) = Some m" "native_range nb v = Some (offset, len)"
    by (auto simp: Let_def native_range_def)
  show "ends (run_bind (copy_range (env_sha env) (env_granularity env) (env_rss env) (module_put sys) False
         (env_files env (nb_payload nb)) offset len ws out) (\<lambda>(_, output_hash).
     run_only (fail_if (PStr output_hash \<noteq> expected_hash) (DataError ''native Vision FP8 output hash mismatch'')
       (rbind (module_statistics sys (nm_telemetry m)) (\<lambda>statistics.
         Inr (nm_source_sha256 m, output_hash, Some statistics))))))
     (appends env out (\<lambda>piece (x, y, z).
    \<exists>offset len m. native_range nb v = Some (offset, len) \<and> piece_of (env_files env (nb_payload nb)) offset len piece
      \<and> dict_get (nb_matrices nb) (vo_name v) = Some m \<and> x = nm_source_sha256 m \<and> y = env_sha env piece))"
    by (rule ends_bind [OF copy_range_appends [OF assms]]) (use m in \<open>auto split: prod.splits\<close>)
qed

section \<open>All payloads\<close>

lemma write_padding_appends:
  assumes "sink put id"
  shows "ends (write_padding put n (ws, out)) (\<lambda>_ st. st = (ws, out @ replicate (nat n) 0))"
  using sink.write_all_complete [OF assms, of out "replicate (nat n) 0"]
  by (auto simp: write_padding_def split: prod.split)

text \<open>
  Where the bytes of an output come from: the range of its source, or the range of the bundle; and
  the size that range has to have.
\<close>

definition drawn_from :: "environment \<Rightarrow> sources \<Rightarrow> native_bundle \<Rightarrow> vision_output \<Rightarrow> string \<Rightarrow> bytes \<Rightarrow> bool" where
  "drawn_from env selected nb v source_hash piece \<longleftrightarrow>
    (if vo_kind v = ''bf16_copy'' then source_hash = env_sha env piece \<and> (\<exists>t. dict_get selected (vo_source_name v) = Some t
       \<and> piece_of (env_files env (td_path t)) (td_absolute_offset t) (td_byte_length t) piece)
     else (\<exists>offset len m. native_range nb v = Some (offset, len) \<and> piece_of (env_files env (nb_payload nb)) offset len piece
       \<and> dict_get (nb_matrices nb) (vo_name v) = Some m \<and> source_hash = nm_source_sha256 m))"

definition sized_as_planned :: "sources \<Rightarrow> native_bundle \<Rightarrow> vision_output \<Rightarrow> bool" where
  "sized_as_planned selected nb v \<longleftrightarrow>
    (if vo_kind v = ''bf16_copy'' then \<exists>t. dict_get selected (vo_source_name v) = Some t \<and> td_byte_length t = vo_byte_length v
     else \<exists>offset. native_range nb v = Some (offset, vo_byte_length v))"

lemma drawn_size: "drawn_from env selected nb v x piece \<Longrightarrow> sized_as_planned selected nb v \<Longrightarrow> int (length piece) = vo_byte_length v"
  by (auto simp: drawn_from_def sized_as_planned_def piece_of_def split: if_splits)

lemma copied_appends:
  assumes "sink (module_put sys) id" "0 < env_granularity env" "good_ws env ws" "dict_get selected (vo_source_name v) = Some source"
  shows "ends (if vo_kind v = ''bf16_copy'' then copy_source env sys source (ws, out) else copy_native env sys nb v (ws, out))
    (appends env out (\<lambda>piece (x, y, z). drawn_from env selected nb v x piece \<and> y = env_sha env piece))"
proof (cases "vo_kind v = ''bf16_copy''")
  case True
  then show ?thesis
    by (auto intro!: ends_mono [OF copy_source_appends [OF assms(1-3)]] simp: drawn_from_def assms(4) split: prod.splits)
next
  case False
  then show ?thesis
    by (auto intro!: ends_mono [OF copy_native_appends [OF assms(1-3)]] simp: drawn_from_def split: prod.splits)
qed

text \<open>An output lies in its range of the payload, with the digest its record states.\<close>

definition written_as :: "environment \<Rightarrow> sources \<Rightarrow> native_bundle \<Rightarrow> bytes \<Rightarrow> vision_output \<times> int \<times> int \<Rightarrow> pyval \<Rightarrow> bool" where
  "written_as env selected nb body placed r \<longleftrightarrow> (case placed of (v, start, stop) \<Rightarrow> \<exists>piece source_hash statistics.
     0 \<le> start \<and> stop \<le> int (length body) \<and> piece = take (nat (stop - start)) (drop (nat start) body)
   \<and> int (length piece) = vo_byte_length v \<and> drawn_from env selected nb v source_hash piece
   \<and> r = output_record v start stop (source_hash, env_sha env piece, statistics))"

lemma written_asI:
  "0 \<le> start \<Longrightarrow> stop \<le> int (length body) \<Longrightarrow> take (nat (stop - start)) (drop (nat start) body) = piece \<Longrightarrow>
    int (length piece) = vo_byte_length v \<Longrightarrow> drawn_from env selected nb v x piece \<Longrightarrow>
    written_as env selected nb body (v, start, stop) (output_record v start stop (x, env_sha env piece, z))"
  unfolding written_as_def prod.case by blast

lemma written_as_append: "written_as env selected nb body placed r \<Longrightarrow> written_as env selected nb (body @ rest) placed r"
proof -
  assume written: "written_as env selected nb body placed r"
  obtain v start stop where placed: "placed = (v, start, stop)" by (metis prod.exhaust)
  from written placed obtain piece x z where p: "0 \<le> start" "stop \<le> int (length body)" "take (nat (stop - start)) (drop (nat start) body) = piece"
    "int (length piece) = vo_byte_length v" "drawn_from env selected nb v x piece" "r = output_record v start stop (x, env_sha env piece, z)"
    by (auto simp: written_as_def)
  have "take (nat (stop - start)) (drop (nat start) (body @ rest)) = piece" using p(1-3) by (cases "stop \<le> start") auto
  then show ?thesis unfolding placed p(6) by (intro written_asI) (use p in auto)
qed

lemma ranges_at_snoc: "ranges_at c (vs @ [v])
    = ranges_at c vs @ [(aligned (end_at c vs), aligned (end_at c vs) + vo_byte_length v)]"
  by (induction vs arbitrary: c) auto

definition copied :: "environment \<Rightarrow> sources \<Rightarrow> native_bundle \<Rightarrow> bytes \<Rightarrow> vision_output list \<Rightarrow> pyval list \<times> int \<Rightarrow> workspace \<times> bytes \<Rightarrow> bool" where
  "copied env selected nb header vs acc st \<longleftrightarrow> good_ws env (fst st) \<and> snd acc = end_at 0 vs \<and> (\<exists>body. snd st = header @ body
     \<and> int (length body) = end_at 0 vs \<and> list_all2 (written_as env selected nb body) (zip vs (ranges_at 0 vs)) (fst acc))"

lemma copy_step_copied:
  assumes "sink (module_put sys) id" "0 < env_granularity env" "copied env selected nb header ys acc st"
    and "dict_get offsets (vo_name v) = Some (aligned (end_at 0 ys), aligned (end_at 0 ys) + vo_byte_length v)"
    and "sized_as_planned selected nb v"
  shows "ends (copy_step env sys offsets selected nb acc v st) (copied env selected nb header (ys @ [v]))"
proof -
  let ?c = "end_at 0 ys" and ?a = "aligned (end_at 0 ys)"
  obtain records cursor ws out where st: "acc = (records, cursor)" "st = (ws, out)" by fastforce
  with assms(3) obtain body where c: "good_ws env ws" "cursor = ?c" "out = header @ body" "int (length body) = ?c"
    "list_all2 (written_as env selected nb body) (zip ys (ranges_at 0 ys)) records" by (auto simp: copied_def)
  have a: "?c \<le> ?a" by (rule aligned_bounds)
  show ?thesis
    unfolding copy_step_def st prod.case
  proof (rule ends_bind_only, clarify)
    fix start stop
    assume "rbind (dict_index offsets (vo_name v)) (\<lambda>(start, stop).
       fail_if (start < cursor) (DataError ''Vision module output order overlaps'') (Inr (start, stop))) = Inr (start, stop)"
    with assms(4) have range: "start = ?a" "stop = ?a + vo_byte_length v" by (auto simp: dict_index_def)
    let ?out = "header @ body @ replicate (nat (?a - ?c)) 0"
    show "ends (run_bind (write_padding (module_put sys) (start - cursor) (ws, out)) (\<lambda>_ st2.
        run_bind (run_only (dict_index selected (vo_source_name v)) st2) (\<lambda>source st3.
        run_bind (if vo_kind v = ''bf16_copy'' then copy_source env sys source st3 else copy_native env sys nb v st3)
          (\<lambda>copied_parts. run_only (Inr (records @ [output_record v start stop copied_parts], stop))))))
      (copied env selected nb header (ys @ [v]))"
    proof (rule ends_bind [OF write_padding_appends [OF assms(1)]], clarify, rule ends_bind_only)
      fix source
      assume "dict_index selected (vo_source_name v) = Inr source"
      then have source: "dict_get selected (vo_source_name v) = Some source" by (auto simp: dict_index_def split: option.splits)
      have out: "out @ replicate (nat (start - cursor)) 0 = ?out" using c range by simp
      show "ends (run_bind (if vo_kind v = ''bf16_copy''
            then copy_source env sys source (ws, out @ replicate (nat (start - cursor)) 0)
            else copy_native env sys nb v (ws, out @ replicate (nat (start - cursor)) 0))
          (\<lambda>copied_parts. run_only (Inr (records @ [output_record v start stop copied_parts], stop))))
        (copied env selected nb header (ys @ [v]))"
        unfolding out
      proof (rule ends_bind [OF copied_appends [OF assms(1,2) c(1) source]], clarify)
        fix x y z ws' out' piece
        assume "good_ws env (fst (ws', out'))"
          and piece: "snd (ws', out') = ?out @ piece" "drawn_from env selected nb v x piece"
        then have good: "good_ws env ws'" by simp
        have n: "int (length piece) = vo_byte_length v" by (rule drawn_size [OF piece(2) assms(5)])
        let ?body = "body @ replicate (nat (?a - ?c)) 0 @ piece"
        have pad: "int (length (body @ replicate (nat (?a - ?c)) 0)) = ?a" using a c(4) by simp
        then have cut: "nat ?a = length (body @ replicate (nat (?a - ?c)) (0 :: 8 word))" by linarith
        have "take (nat (stop - start)) (drop (nat start) ?body) = piece"
          unfolding range cut append.assoc [symmetric] using n by (simp add: cut)
        moreover have "stop \<le> int (length ?body)" "0 \<le> start" using a c(4) n range by simp_all
        ultimately have "written_as env selected nb ?body (v, start, stop) (output_record v start stop (x, env_sha env piece, z))"
          using n piece(2) by (intro written_asI)
        moreover have "list_all2 (written_as env selected nb ?body) (zip ys (ranges_at 0 ys)) records"
          using c(5) written_as_append by (fastforce elim: list_all2_mono)
        ultimately have "list_all2 (written_as env selected nb ?body) (zip (ys @ [v]) (ranges_at 0 (ys @ [v])))
            (records @ [output_record v start stop (x, env_sha env piece, z)])"
          by (simp add: ranges_at_snoc range list_all2_appendI)
        moreover have "int (length ?body) = end_at 0 (ys @ [v])" using pad n by (simp add: end_at_append)
        ultimately show "ends (run_only (Inr (records @ [output_record v start stop (x, env_sha env piece, z)], stop)) (ws', out'))
            (copied env selected nb header (ys @ [v]))"
          using good piece(1) range by (auto simp: copied_def end_at_append)
      qed
    qed
  qed
qed

section \<open>The artifact\<close>

lemma offsets_get:
  assumes "distinct (map vo_name (ys @ v # zs))"
  shows "dict_get (offsets_from 0 (ys @ v # zs)) (vo_name v)
    = Some (aligned (end_at 0 ys), aligned (end_at 0 ys) + vo_byte_length v)"
proof -
  let ?vs = "ys @ v # zs"
  have range: "ranges_at 0 ?vs ! length ys = (aligned (end_at 0 ys), aligned (end_at 0 ys) + vo_byte_length v)"
    by (simp add: ranges_at_nth)
  have "map vo_name ?vs ! length ys = vo_name v" by (simp add: nth_append)
  then have "(vo_name v, ranges_at 0 ?vs ! length ys) \<in> set (offsets_from 0 ?vs)"
    unfolding offsets_from_def in_set_zip by (intro exI [of _ "length ys"]) simp
  moreover have "distinct (map fst (offsets_from 0 ?vs))" using assms by (simp add: offsets_from_def)
  ultimately show ?thesis using range by simp
qed

abbreviation module_prefix :: "environment \<Rightarrow> vision_output list \<Rightarrow> bytes" where
  "module_prefix env outputs \<equiv> fst (artifact_header env outputs)"

lemma on_file_ends:
  "ends m P \<Longrightarrow> ends (on_file path fs m) (\<lambda>x st. \<exists>out. P x (fst st, out) \<and> snd st = fs(path := Some out))"
  by (fastforce simp: ends_def on_file_def)

lemma write_module_copied:
  assumes "sink (module_put sys) id" "0 < env_granularity env" "good_ws env ws"
    and outputs: "distinct (map vo_name outputs)" "\<forall>v\<in>set outputs. sized_as_planned selected nb v"
  shows "ends (write_module env sys path header (offsets_from 0 outputs) outputs selected nb (ws, fs)) (\<lambda>records st.
    \<exists>out. copied env selected nb header outputs (records, end_at 0 outputs) (fst st, out) \<and> snd st = fs(path := Some out))"
proof -
  let ?body = "run_bind (write_header (module_put sys) header ws) (\<lambda>_.
         run_fold (copy_step env sys (offsets_from 0 outputs) selected nb) ([], 0) outputs)"
  have "ends ?body (copied env selected nb header outputs)"
  proof (rule ends_bind)
    show "ends (write_header (module_put sys) header ws) (\<lambda>_ st. st = (ws, header))"
      using sink.write_all_complete [OF assms(1), of "[]" header] by (auto simp: write_header_def split: prod.split)
    fix u and st :: "workspace \<times> bytes"
    assume st: "st = (ws, header)"
    show "ends (run_fold (copy_step env sys (offsets_from 0 outputs) selected nb) ([], 0) outputs st)
        (copied env selected nb header outputs)"
    proof (rule ends_fold_prefix [where I = "copied env selected nb header"])
      show "copied env selected nb header [] ([], 0) st" using assms(3) st by (simp add: copied_def)
      fix ys v zs acc st
      assume split: "outputs = ys @ v # zs" and "copied env selected nb header ys acc st"
      then show "ends (copy_step env sys (offsets_from 0 outputs) selected nb acc v st) (copied env selected nb header (ys @ [v]))"
        using outputs by (intro copy_step_copied [OF assms(1,2)]) (simp_all add: offsets_get)
    qed
  qed
  from on_file_ends [OF this, of path fs] have written: "ends (on_file path fs ?body) (\<lambda>x st. \<exists>out.
      copied env selected nb header outputs x (fst st, out) \<and> snd st = fs(path := Some out))" .
  show ?thesis
    unfolding write_module_def prod.case
    by (auto intro!: ends_bind [OF written] split: prod.splits) (auto simp: copied_def)
qed

lemma as_output_error_ends: "ends m P \<Longrightarrow> ends (as_output_error m) P"
  by (fastforce simp: ends_def as_output_error_def)

definition artifact_written :: "environment \<Rightarrow> sources \<Rightarrow> native_bundle \<Rightarrow> vision_output list \<Rightarrow> bytes \<Rightarrow> pyval list \<Rightarrow> bool" where
  "artifact_written env selected nb outputs artifact records \<longleftrightarrow> (\<exists>body. artifact = module_prefix env outputs @ body
     \<and> int (length body) = OUTPUT_PAYLOAD_BYTES
     \<and> list_all2 (written_as env selected nb body) (zip outputs (ranges_at 0 outputs)) records)"

lemma copy_artifact_written:
  assumes "sink (module_put sys) id" "0 < env_granularity env" "good_ws env ws"
    and outputs: "distinct (map vo_name outputs)" "''__metadata__'' \<notin> set (map vo_name outputs)"
      "\<forall>v\<in>set outputs. sized_as_planned selected nb v"
  shows "ends (copy_artifact env sys path outputs selected nb (ws, fs)) (\<lambda>(records, payload_offset) st.
    good_ws env (fst st) \<and> payload_offset = int (length (module_prefix env outputs))
    \<and> (\<exists>artifact. snd st = fs(path := Some artifact) \<and> artifact_written env selected nb outputs artifact records))"
proof -
  obtain header where header: "artifact_header env outputs = (header, offsets_from 0 outputs)"
    using artifact_header_eq [OF outputs(1,2), of env] by (simp add: Let_def)
  then have same: "module_prefix env outputs = header" by simp
  let ?header = "module_prefix env outputs"
  obtain q ws1 where q: "record_header (env_rss env) (int (length ?header) - 8) ws = (q, ws1)" by fastforce
  show ?thesis
  proof (cases q)
    case (Inl e)
    with q show ?thesis by (simp add: copy_artifact_def header)
  next
    case (Inr u)
    with record_header_good [OF assms(3)] q have good: "good_ws env ws1" by blast
    have run: "copy_artifact env sys path outputs selected nb (ws, fs) = run_bind (as_output_error (write_module env sys path ?header
          (offsets_from 0 outputs) outputs selected nb (ws1, fs))) (\<lambda>records (ws2, fs2).
        run_only (rbind (check_module_size fs2 path ?header) (\<lambda>_. Inr (records, int (length ?header)))) (ws2, fs2))"
      using q Inr by (simp add: copy_artifact_def header)
    show ?thesis
      unfolding run
    proof (rule ends_bind [OF as_output_error_ends [OF write_module_copied [OF assms(1,2) good outputs(1,3)]]], clarify)
      fix records ws2 fs2 out
      assume "copied env selected nb ?header outputs (records, end_at 0 outputs) (fst (ws2, fs2), out)"
        and fs2: "snd (ws2, fs2) = fs(path := Some out)"
      then obtain body where body: "good_ws env ws2" "out = ?header @ body"
        "list_all2 (written_as env selected nb body) (zip outputs (ranges_at 0 outputs)) records" by (auto simp: copied_def)
      have "int (length body) = OUTPUT_PAYLOAD_BYTES" if "check_module_size fs2 path ?header = Inr x" for x
        using that fs2 body(2) by (simp add: check_module_size_def)
      with body have "artifact_written env selected nb outputs out records" if "check_module_size fs2 path ?header = Inr x" for x
        using that unfolding artifact_written_def by blast
      with body(1) fs2 show "ends (run_only (rbind (check_module_size fs2 path ?header) (\<lambda>_. Inr (records, int (length ?header)))) (ws2, fs2))
          (\<lambda>(records, payload_offset) st. good_ws env (fst st) \<and> payload_offset = int (length ?header)
            \<and> (\<exists>artifact. snd st = fs(path := Some artifact) \<and> artifact_written env selected nb outputs artifact records))"
        by auto
    qed
  qed
qed

section \<open>The inputs\<close>

lemma read_tensor_size:
  assumes "read_source_tensors env source ws = (Inr tensors, ws')" "(name, t) \<in> set tensors"
  shows "\<exists>item_bytes. dict_get DTYPE_BYTES (td_dtype t) = Some item_bytes \<and> td_byte_length t = item_bytes * prod_list (td_shape t)"
proof -
  from read_source_tensors_Inr [OF assms(1)] obtain assignments merged parts where
    tensors: "tensors = dict_sorted merged" and parts: "merged = concat (map snd parts)"
      "list_all (shard_parsed env (source_shards source) assignments) parts"
    unfolding merged_shards_def by blast
  with assms(2) obtain relative parsed where "(relative, parsed) \<in> set parts" "(name, t) \<in> set parsed"
    by (auto simp: set_dict_sorted)
  with parts(2) show ?thesis
    by (fastforce simp: list_all_iff shard_parsed_def placed_tensors_def tensor_placed_def)
qed

lemma read_tensors_wf: "read_source_tensors env source ws = (Inr tensors, ws') \<Longrightarrow> dict_wf tensors"
  using read_source_tensors_Inr [of env source ws tensors ws'] by (auto simp: merged_shards_def)

lemma foldl_prod: "foldl (*) k xs = k * prod_list xs" for k :: int
  by (induction xs arbitrary: k) simp_all

text \<open>A selected source is the tensor of its specification.\<close>

definition as_specified :: "sources \<Rightarrow> string \<times> string \<times> int list \<Rightarrow> string \<times> tensor_descriptor \<Rightarrow> bool" where
  "as_specified source_tensors item entry \<longleftrightarrow> (case item of (name, _, shape) \<Rightarrow> fst entry = name
     \<and> dict_get source_tensors name = Some (snd entry) \<and> td_dtype (snd entry) = ''BF16'' \<and> td_shape (snd entry) = shape)"

lemma select_fold:
  assumes "rfold (select_step source_tensors) (selected, b, l, p) items = Inr (selected', b', l', p')"
    and "distinct (map fst items)" "set (map fst items) \<inter> dict_keys selected = {}"
  shows "\<exists>entries. selected' = selected @ entries \<and> list_all2 (as_specified source_tensors) items entries
    \<and> b' = b + sum_list (map (td_byte_length \<circ> snd) entries)"
  using assms
proof (induction items arbitrary: selected b l p)
  case (Cons item items)
  obtain name item_role shape where item: "item = (name, item_role, shape)" by (metis prod.exhaust)
  from Cons.prems(1) obtain st where st: "select_step source_tensors (selected, b, l, p) item = Inr st"
    "rfold (select_step source_tensors) st items = Inr (selected', b', l', p')" by auto
  then obtain t l1 p1 where t: "dict_get source_tensors name = Some t" "td_dtype t = ''BF16''" "td_shape t = shape"
    "st = (dict_set name t selected, b + td_byte_length t, l1, p1)"
    by (auto simp: select_step_def item Let_def dict_index_def split: option.splits)
  have fresh: "dict_set name t selected = selected @ [(name, t)]"
    using Cons.prems(3) item by (simp add: dict_set_fresh)
  have "\<exists>entries. selected' = (selected @ [(name, t)]) @ entries \<and> list_all2 (as_specified source_tensors) items entries
      \<and> b' = (b + td_byte_length t) + sum_list (map (td_byte_length \<circ> snd) entries)"
    by (rule Cons.IH) (use Cons.prems(2,3) st(2) t(4) fresh item in \<open>auto simp: dict_keys_def\<close>)
  then obtain entries where "selected' = selected @ (name, t) # entries" "list_all2 (as_specified source_tensors) items entries"
    "b' = b + td_byte_length t + sum_list (map (td_byte_length \<circ> snd) entries)" by auto
  moreover have "as_specified source_tensors item (name, t)" using t item by (simp add: as_specified_def)
  ultimately show ?case by (intro exI [of _ "(name, t) # entries"]) (simp add: comp_def)
qed simp

lemma validated_sources:
  assumes "validate_vision_sources source_tensors = Inr selected"
  shows "list_all2 (as_specified source_tensors) (dict_sorted vision_inventory) selected"
    and "sum_list (map (td_byte_length \<circ> snd) selected) = SOURCE_TENSOR_BYTES"
proof -
  have "distinct (map fst (dict_sorted vision_inventory))"
    using distinct_inventory dict_wf_sorted [of vision_inventory] by (simp add: dict_wf_def)
  moreover from assms obtain l p where
    "rfold (select_step source_tensors) ([], 0, 0, 0) (dict_sorted vision_inventory) = Inr (selected, SOURCE_TENSOR_BYTES, l, p)"
    by (auto simp: validate_vision_sources_def expected_specs_eq)
  ultimately show "list_all2 (as_specified source_tensors) (dict_sorted vision_inventory) selected"
    and "sum_list (map (td_byte_length \<circ> snd) selected) = SOURCE_TENSOR_BYTES"
    by (auto simp: dict_keys_def dest: select_fold)
qed

text \<open>The outputs of the sources as specified are the frozen ones.\<close>

definition full_size :: "string \<times> tensor_descriptor \<Rightarrow> bool" where
  "full_size entry \<longleftrightarrow> td_byte_length (snd entry) = foldl (*) 2 (td_shape (snd entry))"

lemma outputs_of_specified:
  assumes "as_specified source_tensors item entry" "item \<in> set vision_inventory" "full_size entry"
  shows "outputs_of entry = Inr (plain_outputs item)"
proof -
  obtain name item_role shape where item: "item = (name, item_role, shape)" by (metis prod.exhaust)
  from assms(2) have "classify_m05_source name = Inr item_role" unfolding item by (rule vision_classified)
  with assms(1,3) show ?thesis
    by (cases entry) (simp add: item as_specified_def full_size_def outputs_of_def plain_outputs_def Let_def)
qed

lemma specified_names:
  "list_all2 (as_specified source_tensors) items selected \<Longrightarrow> map fst selected = map fst items"
  by (induction rule: list_all2_induct) (auto simp: as_specified_def)

lemma specified_sorted:
  "list_all2 (as_specified source_tensors) (dict_sorted vision_inventory) selected \<Longrightarrow> dict_sorted selected = selected"
proof -
  assume "list_all2 (as_specified source_tensors) (dict_sorted vision_inventory) selected"
  from specified_names [OF this] have "sorted (map fst selected)" by (simp add: dict_sorted_def)
  then show ?thesis by (simp add: dict_sorted_def sort_key_id_if_sorted)
qed

lemma planned_outputs:
  assumes "list_all2 (as_specified source_tensors) (dict_sorted vision_inventory) selected" "\<forall>entry\<in>set selected. full_size entry"
    and "output_plan selected = Inr outputs"
  shows "outputs = vision_outputs"
proof -
  have "rmap outputs_of es = Inr (map plain_outputs items)"
    if "list_all2 (as_specified source_tensors) items es" "set items \<subseteq> set vision_inventory" "\<forall>e\<in>set es. full_size e" for items es
    using that by (induction rule: list_all2_induct) (auto simp: outputs_of_specified)
  from this [OF assms(1) _ assms(2)] have "rmap outputs_of selected = Inr (map plain_outputs (dict_sorted vision_inventory))"
    by (simp add: set_dict_sorted)
  with assms(3) show ?thesis
    by (simp add: output_plan_def specified_sorted [OF assms(1)] vision_outputs_def Let_def)
qed

section \<open>The FP8 plan and its bundle\<close>

lemma tensor_bytes_product:
  "tensor_bytes dtype shape = Inr b \<Longrightarrow> \<exists>e. dict_get DTYPE_BYTES dtype = Some e \<and> b = e * prod_list shape"
proof -
  have "rfold bytes_step e shape = Inr b \<Longrightarrow> b = e * prod_list shape" for e
  proof (induction shape arbitrary: e)
    case (Cons d shape)
    then obtain x where "bytes_step e d = Inr x" "rfold bytes_step x shape = Inr b" by auto
    moreover from this(1) have "x = e * d" by (simp add: bytes_step_def split: if_splits)
    ultimately show ?case using Cons.IH [of x] by (simp add: mult.assoc)
  qed simp
  then show "tensor_bytes dtype shape = Inr b \<Longrightarrow> ?thesis" by (auto simp: tensor_bytes_def split: option.splits)
qed

lemma dtype_sizes: "dict_get DTYPE_BYTES ''F8_E4M3'' = Some 1" "dict_get DTYPE_BYTES ''BF16'' = Some 2"
  by (simp_all add: DTYPE_BYTES_def)

text \<open>The two plans of a linear source, as far as the bundle depends on them.\<close>

definition is_linear_entry :: "string \<times> tensor_descriptor \<Rightarrow> bool" where
  "is_linear_entry entry \<longleftrightarrow> is_linear_source (fst entry) (td_shape (snd entry))"

definition weight_of :: "string \<times> tensor_descriptor \<Rightarrow> tensor_compile_plan \<Rightarrow> bool" where
  "weight_of entry w \<longleftrightarrow> encoder w = ''fp8-rowwise-weight-v1'' \<and> source_names w = [fst entry] \<and> output_name w = fst entry
     \<and> output_dtype w = ''F8_E4M3'' \<and> physical_shape w = [td_shape (snd entry) ! 0, td_shape (snd entry) ! 1]"

definition scale_of :: "string \<times> tensor_descriptor \<Rightarrow> tensor_compile_plan \<Rightarrow> bool" where
  "scale_of entry s \<longleftrightarrow> encoder s = ''fp8-rowwise-scale-v1'' \<and> source_names s = [fst entry] \<and> output_name s = scale_name (fst entry)
     \<and> output_dtype s = ''BF16'' \<and> physical_shape s = [td_shape (snd entry) ! 0, 1]"

lemma fp8_pair_Inr:
  "fp8_pair entry = Inr ts \<Longrightarrow> if is_linear_entry entry then \<exists>w s. ts = [w, s] \<and> weight_of entry w \<and> scale_of entry s else ts = []"
  by (cases entry) (auto simp: fp8_pair_def is_linear_entry_def Let_def weight_of_def scale_of_def split: if_splits)

definition pair_names :: "string \<times> tensor_descriptor \<Rightarrow> string list" where
  "pair_names entry = (if is_linear_entry entry then [fst entry, scale_name (fst entry)] else [])"

lemma fp8_pairs:
  assumes "rmap fp8_pair entries = Inr parts"
  shows "map output_name (concat parts) = concat (map pair_names entries)
    \<and> (\<forall>t\<in>set (concat parts). \<exists>entry\<in>set entries. weight_of entry t \<or> scale_of entry t)
    \<and> (\<forall>entry\<in>set entries. is_linear_entry entry \<longrightarrow> (\<exists>w\<in>set (concat parts). weight_of entry w))"
  using assms
proof (induction entries arbitrary: parts)
  case (Cons entry entries)
  then obtain ts rest where p: "fp8_pair entry = Inr ts" "rmap fp8_pair entries = Inr rest" "parts = ts # rest" by auto
  note here = fp8_pair_Inr [OF p(1)]
  show ?case
  proof (cases "is_linear_entry entry")
    case True
    with here obtain w s where ts: "ts = [w, s]" "weight_of entry w" "scale_of entry s" by auto
    then have "map output_name ts = pair_names entry" using True by (simp add: pair_names_def weight_of_def scale_of_def)
    with Cons.IH [OF p(2)] ts p(3) show ?thesis by auto
  next
    case False
    with here Cons.IH [OF p(2)] p(3) show ?thesis by (auto simp: pair_names_def)
  qed
qed simp

lemma specified_linear:
  "as_specified source_tensors item entry \<Longrightarrow> is_linear_entry entry \<longleftrightarrow> is_linear_source (fst item) (snd (snd item))"
  by (auto simp: as_specified_def is_linear_entry_def split: prod.splits)

lemma specified_pair_names:
  assumes "list_all2 (as_specified source_tensors) items selected"
  shows "concat (map pair_names selected) = concat (map output_names (filter (\<lambda>item. is_linear_source (fst item) (snd (snd item))) items))"
  using assms
proof (induction rule: list_all2_induct)
  case (Cons item items entry selected)
  have "fst entry = fst item" using Cons.hyps by (auto simp: as_specified_def)
  with Cons specified_linear [OF Cons.hyps(1)] show ?case by (auto simp: pair_names_def output_names_def)
qed simp

lemma fp8_plan_facts:
  assumes "list_all2 (as_specified source_tensors) (dict_sorted vision_inventory) selected" "fp8_plan selected = Inr plan"
  shows "distinct (map output_name (qp_tensors plan))"
    and "\<forall>t\<in>set (qp_tensors plan). \<exists>entry\<in>set selected. weight_of entry t \<or> scale_of entry t"
    and "\<forall>entry\<in>set selected. is_linear_entry entry \<longrightarrow> (\<exists>w\<in>set (qp_tensors plan). weight_of entry w)"
proof -
  from assms(2) obtain parts where parts: "rmap fp8_pair selected = Inr parts" "qp_tensors plan = concat parts"
    by (auto simp: fp8_plan_def specified_sorted [OF assms(1)])
  note pairs = fp8_pairs [OF parts(1)]
  let ?linear = "filter (\<lambda>item. is_linear_source (fst item) (snd (snd item))) (dict_sorted vision_inventory)"
  have "distinct (map fst (dict_sorted vision_inventory))"
    using distinct_inventory dict_wf_sorted [of vision_inventory] by (simp add: dict_wf_def)
  then have "distinct (concat (map output_names ?linear))"
    by (intro distinct_output_names distinct_map_filter) (auto simp: good_items set_dict_sorted)
  then show "distinct (map output_name (qp_tensors plan))"
    using pairs parts(2) specified_pair_names [OF assms(1)] by simp
  show "\<forall>t\<in>set (qp_tensors plan). \<exists>entry\<in>set selected. weight_of entry t \<or> scale_of entry t"
    and "\<forall>entry\<in>set selected. is_linear_entry entry \<longrightarrow> (\<exists>w\<in>set (qp_tensors plan). weight_of entry w)"
    using pairs parts(2) by simp_all
qed

text \<open>The bundle serves both outputs of every linear source, at their planned sizes.\<close>

definition serves_linear :: "environment \<Rightarrow> sources \<Rightarrow> native_bundle \<Rightarrow> string \<times> tensor_descriptor \<Rightarrow> bool" where
  "serves_linear env selected nb entry \<longleftrightarrow> (\<exists>m. dict_get (nb_matrices nb) (fst entry) = Some m
     \<and> dict_get (nb_matrices nb) (scale_name (fst entry)) = Some m
     \<and> nm_weight_bytes m = td_shape (snd entry) ! 0 * td_shape (snd entry) ! 1 \<and> nm_scale_bytes m = td_shape (snd entry) ! 0 * 2
     \<and> source_digest env selected (fst entry) (nm_source_sha256 m))"

lemma weight_scale_apart: "weight_of entry t \<Longrightarrow> scale_of entry' t \<Longrightarrow> False"
  by (simp add: weight_of_def scale_of_def)

lemma in_pair_elements: "t \<in> set (pair_elements pairs) \<longleftrightarrow> (\<exists>w s. (w, s) \<in> set pairs \<and> (t = w \<or> t = s))"
  by (force simp: pair_elements_def)

lemma bundle_serves_linear:
  assumes "list_all2 (as_specified source_tensors) (dict_sorted vision_inventory) selected" "fp8_plan selected = Inr plan"
    and "pair_plans plan = Inr pairs" "\<forall>p\<in>set pairs. serves_pair env selected nb p"
    and entry: "entry \<in> set selected" "is_linear_entry entry"
  shows "serves_linear env selected nb entry"
proof -
  note plan = fp8_plan_facts [OF assms(1,2)]
  from plan(3) entry obtain w where w: "w \<in> set (qp_tensors plan)" "weight_of entry w" by blast
  have elements: "set (pair_elements pairs) = set (qp_tensors plan)"
    using pair_plans_Inr [OF assms(3)] by (metis set_mset_mset)
  with w(1) obtain a b where ab: "(a, b) \<in> set pairs" "w = a \<or> w = b" using in_pair_elements by blast
  have proper: "proper_pair (a, b)" using pair_plans_Inr [OF assms(3)] ab(1) by blast
  with ab(2) w(2) have a: "w = a" by (auto simp: proper_pair_def weight_of_def)
  have b: "b \<in> set (qp_tensors plan)" using ab(1) elements in_pair_elements by blast
  with plan(2) obtain entry' where entry': "entry' \<in> set selected" "weight_of entry' b \<or> scale_of entry' b" by blast
  with proper have s: "scale_of entry' b" by (auto simp: proper_pair_def weight_of_def)
  with proper w(2) a have "fst entry' = fst entry" by (auto simp: proper_pair_def weight_of_def scale_of_def)
  moreover have "distinct (map fst selected)"
    using specified_names [OF assms(1)] distinct_inventory dict_wf_sorted [of vision_inventory] by (simp add: dict_wf_def)
  ultimately have same: "entry' = entry" using entry(1) entry'(1) by (metis eq_key_imp_eq_value prod.collapse)
  from assms(4) ab(1) have "serves_pair env selected nb (w, b)" using a by blast
  then obtain m where m: "dict_get (nb_matrices nb) (output_name w) = Some m" "dict_get (nb_matrices nb) (output_name b) = Some m"
    "output_bytes w = Inr (nm_weight_bytes m)" "output_bytes b = Inr (nm_scale_bytes m)"
    "source_names w = [nm_source_name m]" "source_digest env selected (nm_source_name m) (nm_source_sha256 m)"
    by (auto simp: serves_pair_def)
  have "nm_weight_bytes m = td_shape (snd entry) ! 0 * td_shape (snd entry) ! 1" "nm_scale_bytes m = td_shape (snd entry) ! 0 * 2"
    using tensor_bytes_product [OF m(3) [unfolded output_bytes_def]] tensor_bytes_product [OF m(4) [unfolded output_bytes_def]] w(2) s
    unfolding weight_of_def scale_of_def same by (auto simp: dtype_sizes)
  with m w(2) s show ?thesis unfolding serves_linear_def weight_of_def scale_of_def same by auto
qed

section \<open>Nothing outside the staging directory\<close>

lemma looking_file:
  "dk_files d path = Some data \<Longrightarrow> env_files (looking env d) path = Some data
    \<and> env_entry (looking env d) path = Regular (int (length data))"
  by (simp add: looking_def seeing_def)

lemma write_module_inside:
  assumes "confined (staging_path out_path) fs (snd st)"
  shows "always (write_module env sys (path_join (staging_path out_path) name) header offsets outputs selected nb st)
    (inside (staging_path out_path) fs)"
  using assms unfolding write_module_def
  by (auto intro!: always_bind always_on_file confined_update split: prod.splits)

lemma as_output_error_inside: "always m P \<Longrightarrow> always (as_output_error m) P"
  by (auto simp: always_def as_output_error_def)

lemma copy_artifact_inside:
  assumes "inside (staging_path out_path) fs st"
  shows "always (copy_artifact env sys (path_join (staging_path out_path) name) outputs selected nb st) (inside (staging_path out_path) fs)"
  using assms unfolding copy_artifact_def
  by (auto intro!: always_bind as_output_error_inside write_module_inside simp: inside_def split: prod.splits sum.splits)

lemma write_document_unpublished:
  "unpublished (staging_path out_path) fs s \<Longrightarrow>
    always (write_document env sys (path_join (staging_path out_path) name) document s) (unpublished (staging_path out_path) fs)"
  unfolding write_document_def
  by (rule on_files_unpublished, assumption, rule write_manifest_inside, erule unpublished_inside)

lemma write_documents_unpublished:
  "unpublished (staging_path out_path) fs s \<Longrightarrow>
    always (write_documents env sys (staging_path out_path) source compilation artifact_hash s) (unpublished (staging_path out_path) fs)"
  unfolding write_documents_def Let_def
  by (rule always_bind, erule write_document_unpublished, rule always_bind, simp, clarify,
      rule always_bind, erule write_document_unpublished, rule always_bind, simp, clarify, erule write_document_unpublished)

lemma cleanup_cleared:
  "unpublished staging fs s \<Longrightarrow> unpublished staging fs ((bundle_cleanup sys s)\<lparr>cp_bundle := None\<rparr>)"
  using bundle_cleanup_unpublished [of staging fs s sys] by (simp add: unpublished_def)

lemma stage_module_unpublished:
  assumes "unpublished (staging_path out_path) fs s" "stays_inside (staging_path out_path) (cs_fp8_child sys)"
  shows "always (stage_module env sys request lock spec spec_hash reference_hash (staging_path out_path) s)
    (unpublished (staging_path out_path) fs)"
proof -
  have child: "stays_inside (staging_path out_path) (cs_fp8_child (plain_system sys))"
    using assms(2) by (simp add: compile_system.truncate_def)
  have copies: "always (on_files (copy_artifact env' sys (path_join (staging_path out_path) VISION_FILENAME) outputs selected nb) s')
      (unpublished (staging_path out_path) fs)" if "unpublished (staging_path out_path) fs s'" for env' outputs selected nb s'
    by (rule on_files_unpublished [OF that], rule copy_artifact_inside, rule unpublished_inside [OF that])
  show ?thesis
    unfolding stage_module_def Let_def
    apply (rule always_bind, rule on_workspace_unpublished [OF assms(1)])
    apply (rule always_bind, erule bundle_stage_unpublished [OF _ child])
    apply (rule always_bind, erule copies, clarify)
    apply (rule always_bind, erule on_workspace_unpublished, clarify)
    apply (rule always_bind, simp)
    apply (rule always_bind, erule write_documents_unpublished)
    apply (simp add: cleanup_cleared)
    done
qed

text \<open>The handler leaves the files of the start.\<close>

lemma abandon_module_unpublished:
  assumes "unpublished staging fs s" "\<not> ds_remove_fails (cs_dirs sys)" "\<not> env_symlink env staging"
    "\<And>p. below staging p \<Longrightarrow> fs p = None"
  shows "cp_files (abandon_module env sys staging s) = fs"
proof
  fix p
  let ?d = "discard_staging (cs_dirs sys) (env_symlink env) (cs_kept sys) staging (cp_disk s)"
  have d: "dk_files ?d q = fs q" for q
    using assms by (auto simp: unpublished_def discard_staging_def present_def confined_def Let_def)
  have "cp_files (bundle_cleanup (plain_system sys) (s\<lparr>cp_disk := ?d\<rparr>)) p = fs p"
  proof (cases "cp_bundle s")
    case (Some nb)
    with assms(1) have "below staging (nb_payload nb)" "below staging (nb_telemetry_path nb)" by (auto simp: unpublished_def)
    with assms(4) d Some show ?thesis by (auto simp: bundle_cleanup_def set_files_def remove_files_def)
  qed (use d in \<open>simp add: bundle_cleanup_def\<close>)
  then show "cp_files (abandon_module env sys staging s) p = fs p" by (simp add: abandon_module_def)
qed

section \<open>The documents\<close>

lemma looking_same [simp]:
  "env_canonical (looking env d) = env_canonical env" "env_compact (looking env d) = env_compact env"
  "env_resolve (looking env d) = env_resolve env" "env_parse (looking env d) = env_parse env"
  "env_symlink (looking env d) = env_symlink env"
  by (simp_all add: looking_def seeing_def)

lemma looking_reads:
  assumes "dk_files d path = Some data"
  shows "file_sha256 (looking env d) path = Inr (env_sha env data)" "stat_size (looking env d) path = Inr (int (length data))"
  using looking_file [OF assms, of env] by (simp_all add: file_sha256_def stat_size_def)

text \<open>What a step that writes one document leaves.\<close>

definition wrote :: "string \<Rightarrow> bytes \<Rightarrow> compile_state \<Rightarrow> compile_state \<Rightarrow> bool" where
  "wrote path payload s s' \<longleftrightarrow> cp_workspace s' = cp_workspace s \<and> cp_bundle s' = cp_bundle s \<and> cp_files s' path = Some payload
     \<and> (\<forall>q. q \<noteq> path \<and> q \<noteq> path @ ''.tmp'' \<longrightarrow> cp_files s' q = cp_files s q)"

lemma atomic_write_Inr:
  assumes "sink (fs_put fsys) id" "write_file_atomic fsys path payload fs = (Inr u, fs')"
  shows "fs' path = Some payload \<and> (\<forall>q. q \<noteq> path \<and> q \<noteq> path @ ''.tmp'' \<longrightarrow> fs' q = fs q)"
proof -
  obtain w written where w: "write_all (fs_put fsys) [] payload = (w, written)" by fastforce
  have "written = payload" if "w = Inr ()"
    using sink.write_all_complete [OF assms(1)] w that by fastforce
  then show ?thesis
    using assms(2) w by (cases w) (auto simp: write_file_atomic_def fsync_directory_def Let_def split: if_splits)
qed

lemma write_document_wrote:
  assumes "sink (fs_put sys) id"
  shows "ends (write_document env sys path document s) (\<lambda>_. wrote path (env_canonical env (PDict document)) s)"
proof -
  obtain r fs' where r: "write_file_atomic (file_system.truncate sys) path (env_canonical env (PDict document)) (cp_files s) = (r, fs')"
    by fastforce
  have put: "sink (fs_put (file_system.truncate sys)) id" using assms by (simp add: file_system.truncate_def)
  have "write_document env sys path document s = Some (r, set_files s fs')"
    by (simp add: write_document_def on_files_def r set_files_def)
  with atomic_write_Inr [OF put] r show ?thesis by (fastforce simp: wrote_def set_files_def)
qed

text \<open>The four files below the staging directory, with the digests they state of each other.\<close>

definition staged_files :: "environment \<Rightarrow> files \<Rightarrow> string \<Rightarrow> verified_source \<Rightarrow> pyval dict \<Rightarrow> bytes \<Rightarrow> bool" where
  "staged_files env fs staging source compilation artifact \<longleftrightarrow>
     fs (path_join staging VISION_FILENAME) = Some artifact
   \<and> fs (path_join staging COMPILATION_FILENAME) = Some (env_canonical env (PDict compilation))
   \<and> fs (path_join staging DESCRIPTOR_FILENAME) = Some (env_canonical env (PDict (bound_descriptor env compilation artifact)))
   \<and> fs (path_join staging LOCK_FILENAME) = Some (env_canonical env (PDict (bound_lock env (vs_lock_sha256 source)
       (vs_repository source) (vs_revision source) compilation artifact)))"

lemma staged_names:
  "VISION_FILENAME \<noteq> COMPILATION_FILENAME" "VISION_FILENAME \<noteq> DESCRIPTOR_FILENAME" "VISION_FILENAME \<noteq> LOCK_FILENAME"
  "COMPILATION_FILENAME \<noteq> DESCRIPTOR_FILENAME" "COMPILATION_FILENAME \<noteq> LOCK_FILENAME" "DESCRIPTOR_FILENAME \<noteq> LOCK_FILENAME"
  "a \<in> set REQUIRED_FILES \<Longrightarrow> b \<in> set REQUIRED_FILES \<Longrightarrow> a \<noteq> b @ ''.tmp''"
  by (auto simp: REQUIRED_FILES_def VISION_FILENAME_def COMPILATION_FILENAME_def DESCRIPTOR_FILENAME_def LOCK_FILENAME_def)

lemma wrote_keeps:
  assumes "wrote (path_join staging b) payload s s'" "a \<in> set REQUIRED_FILES" "b \<in> set REQUIRED_FILES" "a \<noteq> b"
  shows "cp_files s' (path_join staging a) = cp_files s (path_join staging a)"
proof -
  have "path_join staging b @ ''.tmp'' = path_join staging (b @ ''.tmp'')" by (simp add: path_join_def)
  with assms staged_names(7) [OF assms(2,3)] show ?thesis by (simp add: wrote_def)
qed

lemma write_documents_staged:
  assumes "sink (fs_put sys) id" "cp_files s (path_join staging VISION_FILENAME) = Some artifact" "artifact_hash = env_sha env artifact"
  shows "ends (write_documents env sys staging source compilation artifact_hash s) (\<lambda>_ s'. cp_workspace s' = cp_workspace s
    \<and> cp_bundle s' = cp_bundle s \<and> staged_files env (cp_files s') staging source compilation artifact)"
proof -
  let ?n = "int (length artifact)" and ?compiled = "env_canonical env (PDict compilation)"
  let ?descriptor = "bound_descriptor env compilation artifact"
  have in_required: "VISION_FILENAME \<in> set REQUIRED_FILES" "COMPILATION_FILENAME \<in> set REQUIRED_FILES"
    "DESCRIPTOR_FILENAME \<in> set REQUIRED_FILES" "LOCK_FILENAME \<in> set REQUIRED_FILES" by (simp_all add: REQUIRED_FILES_def)
  note names = staged_names(1-6) staged_names(1-6) [symmetric]
  show ?thesis
    unfolding write_documents_def Let_def
  proof (rule ends_bind [OF write_document_wrote [OF assms(1)]], rule ends_bind_only, clarify)
    fix s1 digest n
    assume s1: "wrote (path_join staging COMPILATION_FILENAME) ?compiled s s1"
      and read: "digest_and_size (view_of env s1) (path_join staging COMPILATION_FILENAME) (path_join staging VISION_FILENAME) = Inr (digest, n)"
    have a1: "cp_files s1 (path_join staging VISION_FILENAME) = Some artifact"
      using wrote_keeps [OF s1 in_required(1,2)] names assms(2) by simp
    have "cp_files s1 (path_join staging COMPILATION_FILENAME) = Some ?compiled" using s1 by (simp add: wrote_def)
    with read a1 have digest: "digest = env_sha env ?compiled" "n = ?n"
      by (simp_all add: digest_and_size_def looking_reads)
    show "ends (run_bind (write_document env sys (path_join staging DESCRIPTOR_FILENAME) (descriptor_document artifact_hash n digest) s1)
        (\<lambda>_ s3. run_bind (run_only (digest_and_size (view_of env s3) (path_join staging DESCRIPTOR_FILENAME) (path_join staging VISION_FILENAME)) s3)
          (\<lambda>(descriptor_hash, n2) s4. write_document env sys (path_join staging LOCK_FILENAME) (lock_document artifact_hash n2 digest
            descriptor_hash (vs_lock_sha256 source) (vs_repository source) (vs_revision source)) s4)))
      (\<lambda>_ s'. cp_workspace s' = cp_workspace s \<and> cp_bundle s' = cp_bundle s
        \<and> staged_files env (cp_files s') staging source compilation artifact)"
    proof (rule ends_bind [OF write_document_wrote [OF assms(1)]], rule ends_bind_only, clarify)
      fix s3 digest2 n2
      assume "wrote (path_join staging DESCRIPTOR_FILENAME) (env_canonical env (PDict (descriptor_document artifact_hash n digest))) s1 s3"
        and read: "digest_and_size (view_of env s3) (path_join staging DESCRIPTOR_FILENAME) (path_join staging VISION_FILENAME) = Inr (digest2, n2)"
      then have s3: "wrote (path_join staging DESCRIPTOR_FILENAME) (env_canonical env (PDict ?descriptor)) s1 s3"
        by (simp add: bound_descriptor_def digest assms(3))
      have a3: "cp_files s3 (path_join staging VISION_FILENAME) = Some artifact"
        "cp_files s3 (path_join staging COMPILATION_FILENAME) = Some ?compiled"
        using wrote_keeps [OF s3 in_required(1,3)] wrote_keeps [OF s3 in_required(2,3)] names a1 s1 by (simp_all add: wrote_def)
      have d3: "cp_files s3 (path_join staging DESCRIPTOR_FILENAME) = Some (env_canonical env (PDict ?descriptor))"
        using s3 by (simp add: wrote_def)
      with read a3 have digest2: "digest2 = env_sha env (env_canonical env (PDict ?descriptor))" "n2 = ?n"
        by (simp_all add: digest_and_size_def looking_reads)
      let ?lock = "bound_lock env (vs_lock_sha256 source) (vs_repository source) (vs_revision source) compilation artifact"
      have lock: "lock_document artifact_hash n2 digest digest2 (vs_lock_sha256 source) (vs_repository source) (vs_revision source) = ?lock"
        by (simp add: bound_lock_def digest digest2 assms(3))
      show "ends (write_document env sys (path_join staging LOCK_FILENAME) (lock_document artifact_hash n2 digest digest2
            (vs_lock_sha256 source) (vs_repository source) (vs_revision source)) s3)
        (\<lambda>_ s'. cp_workspace s' = cp_workspace s \<and> cp_bundle s' = cp_bundle s
          \<and> staged_files env (cp_files s') staging source compilation artifact)"
        unfolding lock
      proof (rule ends_mono [OF write_document_wrote [OF assms(1)]])
        fix s4
        assume s4: "wrote (path_join staging LOCK_FILENAME) (env_canonical env (PDict ?lock)) s3 s4"
        have "cp_files s4 (path_join staging a) = cp_files s3 (path_join staging a)" if "a \<in> set REQUIRED_FILES" "a \<noteq> LOCK_FILENAME" for a
          using wrote_keeps [OF s4 that(1) in_required(4) that(2)] .
        then have "staged_files env (cp_files s4) staging source compilation artifact"
          using in_required names a3 d3 s4 by (simp add: staged_files_def wrote_def)
        then show "cp_workspace s4 = cp_workspace s \<and> cp_bundle s4 = cp_bundle s
            \<and> staged_files env (cp_files s4) staging source compilation artifact"
          using s1 s3 s4 by (simp add: wrote_def)
      qed
    qed
  qed
qed

section \<open>The guarded part\<close>

lemma specified_get:
  assumes "list_all2 (as_specified source_tensors) (dict_sorted vision_inventory) selected" "item \<in> set vision_inventory"
  shows "\<exists>entry. entry \<in> set selected \<and> as_specified source_tensors item entry \<and> dict_get selected (fst item) = Some (snd entry)"
proof -
  from assms(2) have "item \<in> set (dict_sorted vision_inventory)" by (simp add: set_dict_sorted)
  with assms(1) obtain entry where entry: "entry \<in> set selected" "as_specified source_tensors item entry"
    by (metis in_set_conv_nth list_all2_conv_all_nth)
  have "distinct (map fst selected)"
    using specified_names [OF assms(1)] distinct_inventory dict_wf_sorted [of vision_inventory] by (simp add: dict_wf_def)
  moreover have "fst entry = fst item" using entry(2) by (auto simp: as_specified_def)
  ultimately have "dict_get selected (fst item) = Some (snd entry)" using entry(1) by (metis map_of_is_SomeI prod.collapse)
  with entry show ?thesis by blast
qed

lemma outputs_sized:
  assumes "list_all2 (as_specified source_tensors) (dict_sorted vision_inventory) selected" "\<forall>entry\<in>set selected. full_size entry"
    and "\<forall>entry\<in>set selected. is_linear_entry entry \<longrightarrow> serves_linear env selected nb entry"
    and "v \<in> set vision_outputs"
  shows "sized_as_planned selected nb v"
proof -
  from assms(4) have "v \<in> set (concat (map plain_outputs vision_inventory))" by (metis mset_vision_outputs set_mset_mset)
  then obtain item where item: "item \<in> set vision_inventory" "v \<in> set (plain_outputs item)" by auto
  from specified_get [OF assms(1) item(1)] obtain entry where entry: "entry \<in> set selected" "as_specified source_tensors item entry"
    "dict_get selected (fst item) = Some (snd entry)" by blast
  obtain name item_role shape where parts: "item = (name, item_role, shape)" by (metis prod.exhaust)
  have same: "fst entry = name" "td_shape (snd entry) = shape" using entry(2) by (simp_all add: parts as_specified_def)
  show ?thesis
  proof (cases "is_linear_source name shape")
    case True
    then have "serves_linear env selected nb entry" using assms(3) entry(1) same by (simp add: is_linear_entry_def)
    with item(2) True same show ?thesis
      by (auto simp: parts plain_outputs_def sized_as_planned_def native_range_def serves_linear_def)
  next
    case False
    with item(2) entry assms(2) same show ?thesis
      by (auto simp: parts plain_outputs_def sized_as_planned_def full_size_def)
  qed
qed

text \<open>What the inputs are when they could be loaded.\<close>

definition good_inputs :: "environment \<Rightarrow> string \<Rightarrow> pyval dict \<Rightarrow> vision_inputs \<Rightarrow> bool" where
  "good_inputs env lock spec inputs \<longleftrightarrow> check_pins spec (vi_source inputs) = Inr ()
     \<and> sum_list (map (td_byte_length \<circ> snd) (vi_selected inputs)) = SOURCE_TENSOR_BYTES
     \<and> source_verified env lock (vi_source inputs) \<and> vi_outputs inputs = vision_outputs
     \<and> fp8_plan (vi_selected inputs) = Inr (vi_plan inputs) \<and> (\<forall>entry\<in>set (vi_selected inputs). full_size entry)
     \<and> (\<exists>source_tensors. list_all2 (as_specified source_tensors) (dict_sorted vision_inventory) (vi_selected inputs))"

lemma specified_in: "list_all2 (as_specified source_tensors) items selected \<Longrightarrow> entry \<in> set selected \<Longrightarrow>
    dict_get source_tensors (fst entry) = Some (snd entry) \<and> td_dtype (snd entry) = ''BF16''"
  by (induction rule: list_all2_induct) (auto simp: as_specified_def)

lemma load_inputs_good:
  assumes "good_ws env ws"
  shows "ends (load_inputs env request lock spec ws) (\<lambda>inputs ws'. good_ws env ws' \<and> good_inputs env lock spec inputs)"
  unfolding load_inputs_def
proof (rule ends_bind [OF verify_source_lock_ends [OF assms]], elim conjE, rule ends_bind_only)
  fix source ws1 contract
  assume source: "source_verified env lock source" and "ws_good (env_granularity env) ws ws1"
    and pins: "rbind (check_pins spec source) (\<lambda>_. validate_config env (vs_root source)) = Inr contract"
  from this(2) have good1: "good_ws env ws1" by (rule ws_good_self)
  show "ends (run_bind (Some (read_source_tensors env source ws1)) (\<lambda>source_tensors. run_only
      (rbind (validate_vision_sources source_tensors) (\<lambda>selected. rbind (output_plan selected) (\<lambda>outputs. rbind (fp8_plan selected) (\<lambda>plan.
       Inr \<lparr>vi_source = source, vi_contract = contract, vi_selected = selected, vi_outputs = outputs, vi_plan = plan\<rparr>))))))
    (\<lambda>inputs ws'. good_ws env ws' \<and> good_inputs env lock spec inputs)"
  proof (rule ends_bind [OF ends_prog [where P = "\<lambda>tensors ws2. good_ws env ws2 \<and> read_source_tensors env source ws1 = (Inr tensors, ws2)"]])
    show "good_ws env ws2 \<and> read_source_tensors env source ws1 = (Inr tensors, ws2)"
      if "read_source_tensors env source ws1 = (Inr tensors, ws2)" for tensors ws2
      using read_source_tensors_good [OF good1 that] that by blast
    fix source_tensors ws2
    assume read: "good_ws env ws2 \<and> read_source_tensors env source ws1 = (Inr source_tensors, ws2)"
    have full: "full_size entry" if "list_all2 (as_specified source_tensors) items selected" "entry \<in> set selected" for items selected entry
    proof -
      from specified_in [OF that] have e: "dict_get source_tensors (fst entry) = Some (snd entry)" "td_dtype (snd entry) = ''BF16''" by auto
      then have "(fst entry, snd entry) \<in> set source_tensors" by (intro map_of_SomeD)
      from read_tensor_size [OF conjunct2 [OF read] this] e(2) show ?thesis by (simp add: full_size_def foldl_prod dtype_sizes)
    qed
    show "ends (run_only (rbind (validate_vision_sources source_tensors) (\<lambda>selected. rbind (output_plan selected) (\<lambda>outputs.
        rbind (fp8_plan selected) (\<lambda>plan. Inr \<lparr>vi_source = source, vi_contract = contract, vi_selected = selected,
          vi_outputs = outputs, vi_plan = plan\<rparr>)))) ws2)
      (\<lambda>inputs ws'. good_ws env ws' \<and> good_inputs env lock spec inputs)"
      unfolding ends_only rbind_Inr_iff
    proof (intro allI impI, elim exE conjE)
      fix inputs selected outputs plan
      assume v: "validate_vision_sources source_tensors = Inr selected" and o: "output_plan selected = Inr outputs"
        and p: "fp8_plan selected = Inr plan"
        and i: "Inr \<lparr>vi_source = source, vi_contract = contract, vi_selected = selected, vi_outputs = outputs, vi_plan = plan\<rparr> = Inr inputs"
      note selected = validated_sources(1) [OF v]
      have sizes: "\<forall>entry\<in>set selected. full_size entry" using full [OF selected] by blast
      have "outputs = vision_outputs" by (rule planned_outputs [OF selected sizes o])
      moreover have "check_pins spec source = Inr ()" using pins by (cases "check_pins spec source") auto
      ultimately show "good_ws env ws2 \<and> good_inputs env lock spec inputs"
        using read source selected validated_sources(2) [OF v] sizes p i unfolding good_inputs_def by auto
    qed
  qed
qed

text \<open>A postcondition joined with an invariant that always holds, or with a fact of the result.\<close>

lemma ends_always: "ends m P \<Longrightarrow> always m U \<Longrightarrow> ends m (\<lambda>x s. P x s \<and> U s)"
  by (fastforce simp: ends_def always_def)

lemma ends_yields: "ends m P \<Longrightarrow> yields m Q \<Longrightarrow> ends m (\<lambda>x s. P x s \<and> Q x s)"
  by (fastforce simp: ends_def yields_def)

lemma path_digest_ends:
  assumes "good_ws env ws" "env_files env path = Some data" "env_entry env path = Regular (int (length data))"
  shows "ends (path_digest env path ws) (\<lambda>x ws'. good_ws env ws' \<and> x = (env_sha env data, int (length data)))"
  unfolding path_digest_def
proof (rule ends_bind_only)
  fix n
  assume "stat_size env path = Inr n"
  then have n: "nat n = length data" "n = int (length data)" using assms(3) by (simp_all add: stat_size_def)
  show "ends (run_bind (hash_range (env_sha env) (env_rss env) (env_files env path) 0 (nat n) ws) (\<lambda>digest. run_only (Inr (digest, n))))
      (\<lambda>x ws'. good_ws env ws' \<and> x = (env_sha env data, int (length data)))"
    unfolding n
    by (rule ends_bind [OF hash_range_ends [OF assms(1)]]) (use assms(2) in \<open>auto simp: hashed_def dest: ws_good_self\<close>)
qed

lemma compilation_document_Inr:
  assumes "compilation_document sys request lock spec spec_hash reference_hash inputs nb records payload_offset artifact_hash
    artifact_size ws = Inr compilation"
  shows "obj_get compilation ''tensors'' = PList records \<and> (\<exists>fmt. obj_get compilation ''artifact''
    = artifact_entry fmt payload_offset artifact_hash artifact_size (int (length records)))"
  using assms by (auto simp: compilation_document_def obj_get_def)

lemma bundle_stage_serves:
  assumes "0 < env_granularity env" "sound env s" "distinct (map output_name (qp_tensors plan))"
  shows "ends (bundle_stage env sys request plan selected staging s) (\<lambda>nb s'. sound env s'
    \<and> (\<exists>pairs. pair_plans plan = Inr pairs \<and> (\<forall>p\<in>set pairs. serves_pair (view_of env s) selected nb p))
    \<and> cp_bundle s' = Some nb \<and> nb_payload nb = payload_path staging \<and> nb_telemetry_path nb = telemetry_path staging)"
proof (rule ends_yields [OF bundle_stage_returns [OF assms(1,2)]])
  show "yields (bundle_stage env sys request plan selected staging s) (\<lambda>nb s'.
    (\<exists>pairs. pair_plans plan = Inr pairs \<and> (\<forall>p\<in>set pairs. serves_pair (view_of env s) selected nb p))
    \<and> cp_bundle s' = Some nb \<and> nb_payload nb = payload_path staging \<and> nb_telemetry_path nb = telemetry_path staging)"
    unfolding bundle_stage_def
  proof (rule yields_bind)
    fix nb s1
    assume "on_files (prepare_native_bundle (view_of env s) (file_system.truncate sys) (cs_stuck sys)
       (stage_fp8_executable (view_of env s) (staging_system.truncate sys) (nr_executable request) staging) (cs_fp8_child sys)
       request plan selected staging) s = Some (Inr nb, s1)"
    then obtain st' where run: "prepare_native_bundle (view_of env s) (file_system.truncate sys) (cs_stuck sys)
       (stage_fp8_executable (view_of env s) (staging_system.truncate sys) (nr_executable request) staging) (cs_fp8_child sys)
       request plan selected staging (cp_workspace s, cp_files s) = Some (Inr nb, st')"
      by (auto simp: on_files_def)
    have view: "0 < env_granularity (view_of env s)" "good_ws (view_of env s) (cp_workspace s)" using assms(1,2) by simp_all
    from bundle_serves [OF view run assms(3)] prepared_paths [OF run]
    show "yields (run_only (Inr nb) (s1\<lparr>cp_bundle := Some nb\<rparr>)) (\<lambda>nb s'.
      (\<exists>pairs. pair_plans plan = Inr pairs \<and> (\<forall>p\<in>set pairs. serves_pair (view_of env s) selected nb p))
      \<and> cp_bundle s' = Some nb \<and> nb_payload nb = payload_path staging \<and> nb_telemetry_path nb = telemetry_path staging)"
      by simp
  qed
qed

text \<open>
  The document compiled from the real specification, which names the pinned format, contract and
  checkpoint, is one the verifier accepts: it states the pinned source and every tensor's digests.
\<close>

definition spec_pinned :: "pyval dict \<Rightarrow> bool" where
  "spec_pinned spec \<longleftrightarrow> (\<exists>a. dict_get spec ''artifact'' = Some (PDict a)
       \<and> dict_get a ''format'' = Some (PStr ''gem16-aligned-vision-module-v1''))
   \<and> dict_get spec ''contract_id'' = Some (PStr ''gem16.gemma4_26b_vision_fp8'')
   \<and> (\<exists>a. dict_get spec ''source'' = Some (PDict a) \<and> dict_get a ''repository'' = Some (PStr SOURCE_REPOSITORY)
       \<and> dict_get a ''revision'' = Some (PStr SOURCE_REVISION))"

lemma pinned_source:
  assumes "check_pins spec source = Inr ()" "spec_pinned spec"
  shows "vs_repository source = SOURCE_REPOSITORY" "vs_revision source = SOURCE_REVISION"
  using assms by (auto simp: check_pins_def spec_pinned_def pinned_value_def subscript_def dict_index_def Let_def)

lemma native_digest_size:
  assumes "list_all2 (as_specified source_tensors) (dict_sorted vision_inventory) selected"
    and "\<forall>entry\<in>set selected. is_linear_entry entry \<longrightarrow> serves_linear env' selected nb entry"
    and "\<forall>x. length (env_sha env' x) = 64" "v \<in> set vision_outputs" "vo_kind v \<noteq> ''bf16_copy''"
    and "dict_get (nb_matrices nb) (vo_name v) = Some m"
  shows "length (nm_source_sha256 m) = 64"
proof -
  from assms(4) have "v \<in> set (concat (map plain_outputs vision_inventory))" by (metis mset_vision_outputs set_mset_mset)
  then obtain item where item: "item \<in> set vision_inventory" "v \<in> set (plain_outputs item)" by auto
  from specified_get [OF assms(1) item(1)] obtain entry where entry: "entry \<in> set selected" "as_specified source_tensors item entry" by blast
  obtain name item_role shape where parts: "item = (name, item_role, shape)" by (metis prod.exhaust)
  have same: "fst entry = name" "td_shape (snd entry) = shape" using entry(2) by (simp_all add: parts as_specified_def)
  have linear: "is_linear_source name shape" using item(2) assms(5) by (auto simp: parts plain_outputs_def split: if_splits)
  with assms(2) entry(1) same have "serves_linear env' selected nb entry" by (simp add: is_linear_entry_def)
  then obtain m' where served: "dict_get (nb_matrices nb) name = Some m'" "dict_get (nb_matrices nb) (scale_name name) = Some m'"
    "source_digest env' selected name (nm_source_sha256 m')" unfolding serves_linear_def same by blast
  have "vo_name v \<in> {name, scale_name name}" using item(2) linear by (auto simp: parts plain_outputs_def)
  with served(1,2) assms(6) have "m' = m" by auto
  with served(3) assms(3) show ?thesis by (auto simp: source_digest_def)
qed

lemma written_recorded:
  assumes "list_all2 (as_specified source_tensors) (dict_sorted vision_inventory) selected"
    and "\<forall>entry\<in>set selected. is_linear_entry entry \<longrightarrow> serves_linear env' selected nb entry"
    and "\<forall>x. length (env_sha env x) = 64" "env_sha env' = env_sha env" "fst placed \<in> set vision_outputs"
    and "written_as env selected nb body placed r"
  shows "recorded_as placed r"
proof -
  obtain v start stop where placed: "placed = (v, start, stop)" by (metis prod.exhaust)
  with assms(6) obtain piece x z where piece: "drawn_from env selected nb v x piece"
    "r = output_record v start stop (x, env_sha env piece, z)" unfolding written_as_def prod.case by blast
  have "length x = 64"
  proof (cases "vo_kind v = ''bf16_copy''")
    case True
    with piece(1) assms(3) show ?thesis by (auto simp: drawn_from_def)
  next
    case False
    with piece(1) obtain m where "dict_get (nb_matrices nb) (vo_name v) = Some m" "x = nm_source_sha256 m" by (auto simp: drawn_from_def)
    with native_digest_size [OF assms(1,2) _ _ False] assms(3-5) placed show ?thesis by simp
  qed
  with piece(2) assms(3) placed show ?thesis unfolding recorded_as_def by auto
qed

lemma artifact_recorded:
  assumes "list_all2 (as_specified source_tensors) (dict_sorted vision_inventory) selected"
    and "\<forall>entry\<in>set selected. is_linear_entry entry \<longrightarrow> serves_linear env' selected nb entry"
    and "\<forall>x. length (env_sha env x) = 64" "env_sha env' = env_sha env"
    and "artifact_written env selected nb vision_outputs artifact records"
  shows "list_all2 recorded_as (zip vision_outputs (ranges_at 0 vision_outputs)) records"
proof -
  from assms(5) obtain body where "list_all2 (written_as env selected nb body) (zip vision_outputs (ranges_at 0 vision_outputs)) records"
    by (auto simp: artifact_written_def)
  then show ?thesis
  proof (rule list.rel_mono_strong)
    fix placed r
    assume "placed \<in> set (zip vision_outputs (ranges_at 0 vision_outputs))" "written_as env selected nb body placed r"
    then show "recorded_as placed r"
      using written_recorded [OF assms(1-4)] by (metis prod.collapse set_zip_leftD)
  qed
qed

lemma compilation_document_compiled:
  assumes document: "compilation_document sys request lock spec spec_hash reference_hash inputs nb records
      (int (length (module_prefix env vision_outputs))) (env_sha env artifact) (int (length artifact)) ws = Inr compilation"
    and good: "good_inputs env' lock spec inputs" and "spec_pinned spec" and count: "length records = 547"
    and records: "list_all2 recorded_as (zip vision_outputs (ranges_at 0 vision_outputs)) records"
  shows "compiled_as env (vs_lock_sha256 (vi_source inputs)) SOURCE_REPOSITORY SOURCE_REVISION vision_outputs compilation artifact"
proof -
  from good obtain source_tensors where pins: "check_pins spec (vi_source inputs) = Inr ()"
    and total: "sum_list (map (td_byte_length \<circ> snd) (vi_selected inputs)) = SOURCE_TENSOR_BYTES"
    and specified: "list_all2 (as_specified source_tensors) (dict_sorted vision_inventory) (vi_selected inputs)"
    by (auto simp: good_inputs_def)
  have selected: "length (vi_selected inputs) = 356"
    using list_all2_lengthD [OF specified] inventory_vision_count by (simp add: dict_sorted_def vision_inventory_def is_vision_item_def)
  from assms(3) obtain a where "dict_get spec ''artifact'' = Some (PDict a)"
    "dict_get a ''format'' = Some (PStr ''gem16-aligned-vision-module-v1'')"
    "dict_get spec ''contract_id'' = Some (PStr ''gem16.gemma4_26b_vision_fp8'')" by (auto simp: spec_pinned_def)
  then have spec: "rbind (dict_index spec ''artifact'') (\<lambda>v. subscript v ''format'') = Inr (PStr ''gem16-aligned-vision-module-v1'')"
    "dict_index spec ''contract_id'' = Inr (PStr ''gem16.gemma4_26b_vision_fp8'')" by (simp_all add: dict_index_def subscript_def)
  show ?thesis
    using document records unfolding compilation_document_def spec compiled_as_def
    by (auto simp: obj_get_def vision_source_def pinned_source [OF pins assms(3)] total selected count length_vision_outputs
        simp del: py_eq.simps)
qed

text \<open>
  A module made from the files of a disk: the tensors of the verified source, each linear one
  encoded by a bundle whose entries carry the digests of the sources, copied into an artifact that
  three documents bind. The copies read the disk with nothing changed but the staging directory.
\<close>

definition module_made :: "environment \<Rightarrow> string \<Rightarrow> pyval dict \<Rightarrow> string \<Rightarrow> disk \<Rightarrow> files \<Rightarrow> bool" where
  "module_made env lock spec staging d fs \<longleftrightarrow> (\<exists>inputs nb during artifact records compilation fmt.
     good_inputs (looking env d) lock spec inputs \<and> confined staging (dk_files d) (dk_files during)
   \<and> (\<forall>entry\<in>set (vi_selected inputs). is_linear_entry entry \<longrightarrow> serves_linear (looking env d) (vi_selected inputs) nb entry)
   \<and> artifact_written (looking env during) (vi_selected inputs) nb vision_outputs artifact records
   \<and> staged_files env fs staging (vi_source inputs) compilation artifact
   \<and> obj_get compilation ''tensors'' = PList records
   \<and> obj_get compilation ''artifact'' = artifact_entry fmt (int (length (module_prefix env vision_outputs))) (env_sha env artifact)
       (int (length artifact)) 547
   \<and> ((\<forall>x. length (env_sha env x) = 64) \<longrightarrow> spec_pinned spec \<longrightarrow> compiled_as env (vs_lock_sha256 (vi_source inputs))
       SOURCE_REPOSITORY SOURCE_REVISION vision_outputs compilation artifact))"

lemma looking_header [simp]: "artifact_header (looking env d) outputs = artifact_header env outputs"
  by (simp add: artifact_header_def)

lemma cleanup_keeps:
  assumes "cp_bundle s = Some nb" "nb_payload nb = payload_path staging" "nb_telemetry_path nb = telemetry_path staging"
    and "name \<in> set REQUIRED_FILES"
  shows "cp_files (bundle_cleanup sys s) (path_join staging name) = cp_files s (path_join staging name)"
  using assms by (auto simp: bundle_cleanup_def set_files_def remove_files_def payload_path_def telemetry_path_def REQUIRED_FILES_def
      VISION_FILENAME_def DESCRIPTOR_FILENAME_def COMPILATION_FILENAME_def LOCK_FILENAME_def)

lemma staged_files_same:
  "(\<And>name. name \<in> set REQUIRED_FILES \<Longrightarrow> fs' (path_join staging name) = fs (path_join staging name)) \<Longrightarrow>
    staged_files env fs staging source compilation artifact \<Longrightarrow> staged_files env fs' staging source compilation artifact"
  by (simp add: staged_files_def REQUIRED_FILES_def)

lemma load_stage:
  assumes "sound env s"
  shows "ends (on_workspace (load_inputs (view_of env s) request lock spec) s)
    (\<lambda>inputs s'. (sound env s' \<and> good_inputs (view_of env s) lock spec inputs) \<and> cp_disk s' = cp_disk s)"
proof (rule ends_yields [OF on_workspace_returns [where Q = "good_inputs (view_of env s) lock spec"]])
  show "ends (load_inputs (view_of env s) request lock spec (cp_workspace s))
      (\<lambda>inputs ws. good_ws env ws \<and> good_inputs (view_of env s) lock spec inputs)"
    using load_inputs_good [of "view_of env s" "cp_workspace s" request lock spec] assms by simp
qed (auto simp: yields_def dest: on_workspace_keeps)

lemma copy_stage:
  assumes "sink (fs_put sys) id" "0 < env_granularity env" "sound env s" "\<forall>v\<in>set vision_outputs. sized_as_planned selected nb v"
  shows "ends (on_files (copy_artifact (view_of env s) sys path vision_outputs selected nb) s) (\<lambda>(records, payload_offset) s'.
    sound env s' \<and> payload_offset = int (length (module_prefix env vision_outputs)) \<and> cp_bundle s' = cp_bundle s
    \<and> (\<exists>artifact. cp_files s' path = Some artifact \<and> artifact_written (view_of env s) selected nb vision_outputs artifact records))"
proof -
  have put: "sink (module_put sys) id" using assms(1) by (simp add: output_system.truncate_def)
  have "0 < env_granularity (view_of env s)" "good_ws (view_of env s) (cp_workspace s)" using assms(2,3) by simp_all
  from copy_artifact_written [OF put this distinct_vision_names names_not_metadata assms(4), of path "cp_files s"]
  obtain r ws fs where run: "copy_artifact (view_of env s) sys path vision_outputs selected nb (cp_workspace s, cp_files s) = Some (r, (ws, fs))"
    and r: "\<And>records n. r = Inr (records, n) \<Longrightarrow> good_ws env ws \<and> n = int (length (module_prefix env vision_outputs))
      \<and> (\<exists>artifact. fs = (cp_files s)(path := Some artifact) \<and> artifact_written (view_of env s) selected nb vision_outputs artifact records)"
    unfolding ends_def by fastforce
  have "on_files (copy_artifact (view_of env s) sys path vision_outputs selected nb) s = Some (r, set_files (s\<lparr>cp_workspace := ws\<rparr>) fs)"
    by (simp add: on_files_def run)
  then show ?thesis
    using r by (auto simp: ends_def set_files_def)
qed

lemma digest_stage:
  assumes "sound env s" "cp_files s path = Some artifact"
  shows "ends (on_workspace (path_digest (view_of env s) path) s) (\<lambda>x s'. (sound env s' \<and> x = (env_sha env artifact, int (length artifact)))
    \<and> cp_disk s' = cp_disk s \<and> cp_bundle s' = cp_bundle s)"
proof (rule ends_yields [OF on_workspace_returns [where Q = "\<lambda>x. x = (env_sha env artifact, int (length artifact))"]])
  show "ends (path_digest (view_of env s) path (cp_workspace s))
      (\<lambda>x ws. good_ws env ws \<and> x = (env_sha env artifact, int (length artifact)))"
    using path_digest_ends [of "view_of env s" "cp_workspace s" path artifact] looking_file [OF assms(2), of env] assms(1) by simp
qed (auto simp: yields_def dest: on_workspace_keeps)

lemma stage_module_made:
  assumes "sink (fs_put sys) id" "0 < env_granularity env" "sound env s"
    and "unpublished (staging_path out_path) fs s" "stays_inside (staging_path out_path) (cs_fp8_child sys)"
  shows "ends (stage_module env sys request lock spec spec_hash reference_hash (staging_path out_path) s) (\<lambda>_ s'.
    cp_bundle s' = None
    \<and> module_made env lock spec (staging_path out_path) (cp_disk s) (cp_files s'))"
proof -
  let ?staging = "staging_path out_path" and ?d = "cp_disk s"
  let ?artifact = "path_join ?staging VISION_FILENAME"
  have child: "stays_inside ?staging (cs_fp8_child (plain_system sys))"
    using assms(5) by (simp add: compile_system.truncate_def)
  have start: "unpublished ?staging (cp_files s) s" using assms(4) by (simp add: unpublished_def)
  show ?thesis
    unfolding stage_module_def Let_def
  proof (rule ends_bind [OF ends_always [OF load_stage [OF assms(3)] on_workspace_unpublished [OF start]]], elim conjE)
    fix inputs s1
    assume s1: "sound env s1" "cp_disk s1 = ?d" "unpublished ?staging (cp_files s) s1"
      and good: "good_inputs (view_of env s) lock spec inputs"
    then obtain source_tensors where specified: "list_all2 (as_specified source_tensors) (dict_sorted vision_inventory) (vi_selected inputs)"
      and plan: "fp8_plan (vi_selected inputs) = Inr (vi_plan inputs)" and full: "\<forall>entry\<in>set (vi_selected inputs). full_size entry"
      and outputs: "vi_outputs inputs = vision_outputs" by (auto simp: good_inputs_def)
    note names = fp8_plan_facts(1) [OF specified plan]
    let ?rest = "\<lambda>nb s2. run_bind (on_files (copy_artifact (view_of env s2) sys ?artifact (vi_outputs inputs) (vi_selected inputs) nb) s2)
       (\<lambda>(records, payload_offset) s3.
     run_bind (on_workspace (path_digest (view_of env s3) ?artifact) s3) (\<lambda>(artifact_hash, artifact_size) s4.
     run_bind (run_only (compilation_document sys request lock spec spec_hash reference_hash inputs nb records payload_offset
         artifact_hash artifact_size (cp_workspace s4)) s4) (\<lambda>compilation s5.
     run_bind (write_documents env sys ?staging (vi_source inputs) compilation artifact_hash s5) (\<lambda>_ s6.
     run_only (rbind (stat_size (view_of env ((bundle_cleanup (plain_system sys) s6)\<lparr>cp_bundle := None\<rparr>)) ?artifact) (\<lambda>final_size.
       Inr [(''artifact_sha256'', PStr artifact_hash), (''artifact_size'', PInt final_size),
         (''output'', PStr (vq_output_directory request)), (''payload_bytes'', PInt OUTPUT_PAYLOAD_BYTES),
         (''tensor_count'', PInt (int (length records)))])) ((bundle_cleanup (plain_system sys) s6)\<lparr>cp_bundle := None\<rparr>)))))"
    show "ends (run_bind (bundle_stage env (plain_system sys) (native_request_of request) (vi_plan inputs) (vi_selected inputs) ?staging s1)
        ?rest) (\<lambda>_ s'. cp_bundle s' = None
          \<and> module_made env lock spec ?staging ?d (cp_files s'))"
    proof (rule ends_bind [OF ends_always [OF bundle_stage_serves [OF assms(2) s1(1) names] bundle_stage_unpublished [OF s1(3) child]]],
        elim conjE exE)
      fix nb s2 pairs
      assume s2: "sound env s2" "cp_bundle s2 = Some nb" "nb_payload nb = payload_path ?staging" "nb_telemetry_path nb = telemetry_path ?staging"
        "unpublished ?staging (cp_files s) s2"
        and pairs: "pair_plans (vi_plan inputs) = Inr pairs" "\<forall>p\<in>set pairs. serves_pair (view_of env s1) (vi_selected inputs) nb p"
      have linear: "\<forall>entry\<in>set (vi_selected inputs). is_linear_entry entry \<longrightarrow> serves_linear (view_of env s) (vi_selected inputs) nb entry"
        using bundle_serves_linear [OF specified plan pairs] unfolding s1(2) by blast
      have sized: "\<forall>v\<in>set vision_outputs. sized_as_planned (vi_selected inputs) nb v"
        using outputs_sized [OF specified full linear] by blast
      have during: "confined ?staging (dk_files ?d) (dk_files (cp_disk s2))" using s2(5) by (simp add: unpublished_def)
      show "ends (?rest nb s2) (\<lambda>_ s'. cp_bundle s' = None
          \<and> module_made env lock spec ?staging ?d (cp_files s'))"
        unfolding outputs
      proof (rule ends_bind [OF copy_stage [OF assms(1,2) s2(1) sized]], clarify)
        fix records s3 artifact
        assume s3: "sound env s3" "cp_bundle s3 = cp_bundle s2" "cp_files s3 ?artifact = Some artifact"
          and written: "artifact_written (view_of env s2) (vi_selected inputs) nb vision_outputs artifact records"
        let ?offset = "int (length (module_prefix env vision_outputs))"
        have count: "length records = 547"
          using written length_vision_outputs by (auto simp: artifact_written_def dest: list_all2_lengthD)
        show "ends (run_bind (on_workspace (path_digest (view_of env s3) ?artifact) s3) (\<lambda>(artifact_hash, artifact_size) s4.
             run_bind (run_only (compilation_document sys request lock spec spec_hash reference_hash inputs nb records ?offset
                 artifact_hash artifact_size (cp_workspace s4)) s4) (\<lambda>compilation s5.
             run_bind (write_documents env sys ?staging (vi_source inputs) compilation artifact_hash s5) (\<lambda>_ s6.
             run_only (rbind (stat_size (view_of env ((bundle_cleanup (plain_system sys) s6)\<lparr>cp_bundle := None\<rparr>)) ?artifact) (\<lambda>final_size.
               Inr [(''artifact_sha256'', PStr artifact_hash), (''artifact_size'', PInt final_size),
                 (''output'', PStr (vq_output_directory request)), (''payload_bytes'', PInt OUTPUT_PAYLOAD_BYTES),
                 (''tensor_count'', PInt (int (length records)))])) ((bundle_cleanup (plain_system sys) s6)\<lparr>cp_bundle := None\<rparr>)))))
          (\<lambda>_ s'. cp_bundle s' = None
            \<and> module_made env lock spec ?staging ?d (cp_files s'))"
        proof (rule ends_bind [OF digest_stage [OF s3(1,3)]], clarify, rule ends_bind_only)
          fix s4 :: compile_state and compilation
          assume s4: "cp_disk s4 = cp_disk s3" "cp_bundle s4 = cp_bundle s3"
            and document: "compilation_document sys request lock spec spec_hash reference_hash inputs nb records ?offset (env_sha env artifact)
              (int (length artifact)) (cp_workspace s4) = Inr compilation"
          from compilation_document_Inr [OF document] count obtain fmt where compilation: "obj_get compilation ''tensors'' = PList records"
            "obj_get compilation ''artifact'' = artifact_entry fmt ?offset (env_sha env artifact) (int (length artifact)) 547" by auto
          have compiled: "compiled_as env (vs_lock_sha256 (vi_source inputs)) SOURCE_REPOSITORY SOURCE_REVISION vision_outputs
              compilation artifact" if "\<forall>x. length (env_sha env x) = 64" "spec_pinned spec"
            by (rule compilation_document_compiled [OF document good that(2) count artifact_recorded [OF specified linear _ _ written]])
              (use that(1) in simp_all)
          have a4: "cp_files s4 ?artifact = Some artifact" using s3(3) s4(1) by simp
          show "ends (run_bind (write_documents env sys ?staging (vi_source inputs) compilation (env_sha env artifact) s4) (\<lambda>_ s6.
               run_only (rbind (stat_size (view_of env ((bundle_cleanup (plain_system sys) s6)\<lparr>cp_bundle := None\<rparr>)) ?artifact) (\<lambda>final_size.
                 Inr [(''artifact_sha256'', PStr (env_sha env artifact)), (''artifact_size'', PInt final_size),
                   (''output'', PStr (vq_output_directory request)), (''payload_bytes'', PInt OUTPUT_PAYLOAD_BYTES),
                   (''tensor_count'', PInt (int (length records)))])) ((bundle_cleanup (plain_system sys) s6)\<lparr>cp_bundle := None\<rparr>)))
            (\<lambda>_ s'. cp_bundle s' = None
              \<and> module_made env lock spec ?staging ?d (cp_files s'))"
          proof (rule ends_bind [OF write_documents_staged [OF assms(1) a4 refl]], elim conjE)
            fix s6
            assume s6: "cp_bundle s6 = cp_bundle s4" "staged_files env (cp_files s6) ?staging (vi_source inputs) compilation artifact"
            let ?s7 = "(bundle_cleanup (plain_system sys) s6)\<lparr>cp_bundle := None\<rparr>"
            have kept: "cp_bundle s6 = Some nb" using s6(1) s4(2) s3(2) s2(2) by simp
            have "staged_files env (cp_files ?s7) ?staging (vi_source inputs) compilation artifact"
              by (rule staged_files_same [OF _ s6(2)]) (simp add: cleanup_keeps [OF kept s2(3,4)])
            then have "module_made env lock spec ?staging ?d (cp_files ?s7)"
              unfolding module_made_def using good during linear written compilation compiled by blast
            then show "ends (run_only (rbind (stat_size (view_of env ?s7) ?artifact) (\<lambda>final_size.
                 Inr [(''artifact_sha256'', PStr (env_sha env artifact)), (''artifact_size'', PInt final_size),
                   (''output'', PStr (vq_output_directory request)), (''payload_bytes'', PInt OUTPUT_PAYLOAD_BYTES),
                   (''tensor_count'', PInt (int (length records)))])) ?s7)
              (\<lambda>_ s'. cp_bundle s' = None
                \<and> module_made env lock spec ?staging ?d (cp_files s'))"
              by simp
          qed
        qed
      qed
    qed
  qed
qed

text \<open>What is published is bound, so the verifier accepts it where its own conditions on the directory hold.\<close>

lemma published_join:
  assumes "\<not> ends_with ''/'' out_path"
  shows "published_files (staging_path out_path) out_path tree (path_join out_path name) = tree (path_join (staging_path out_path) name)"
proof -
  have "\<not> ends_with ''/'' (staging_path out_path)" by (simp add: staging_path_def ends_with_def)
  with assms show ?thesis by (simp add: published_files_def path_join_def below_iff move_path_def)
qed

lemma published_module_bound:
  assumes "module_made env lock spec (staging_path out_path) d tree" "spec_pinned spec" "\<forall>x. length (env_sha env x) = 64"
    and "\<not> ends_with ''/'' out_path" "dk_files d' = published_files (staging_path out_path) out_path tree"
  shows "\<exists>lock_hash compilation artifact.
      bound_module (looking env d') out_path lock_hash SOURCE_REPOSITORY SOURCE_REVISION vision_outputs compilation artifact
    \<and> compiled_as (looking env d') lock_hash SOURCE_REPOSITORY SOURCE_REVISION vision_outputs compilation artifact"
proof -
  from assms(1-3) obtain inputs nb during artifact records compilation where
    good: "good_inputs (looking env d) lock spec inputs"
    and written: "artifact_written (looking env during) (vi_selected inputs) nb vision_outputs artifact records"
    and files: "staged_files env tree (staging_path out_path) (vi_source inputs) compilation artifact"
    and compiled: "compiled_as env (vs_lock_sha256 (vi_source inputs)) SOURCE_REPOSITORY SOURCE_REVISION vision_outputs compilation artifact"
    unfolding module_made_def by blast
  from good have "check_pins spec (vi_source inputs) = Inr ()" by (simp add: good_inputs_def)
  note pinned = pinned_source [OF this assms(2)]
  have stored: "env_files (looking env d') (path_join out_path name) = Some data"
    if "tree (path_join (staging_path out_path) name) = Some data" for name data
    using looking_file [of d'] that by (simp add: assms(5) published_join [OF assms(4)])
  from files have "bound_module (looking env d') out_path (vs_lock_sha256 (vi_source inputs)) SOURCE_REPOSITORY SOURCE_REVISION
      vision_outputs compilation artifact"
    using written by (auto simp: bound_module_def staged_files_def stored pinned bound_lock_def bound_descriptor_def artifact_written_def)
  moreover from compiled have "compiled_as (looking env d') (vs_lock_sha256 (vi_source inputs)) SOURCE_REPOSITORY SOURCE_REVISION
      vision_outputs compilation artifact" by (simp add: compiled_as_def)
  ultimately show ?thesis by blast
qed

section \<open>The compiler as a transaction\<close>

text \<open>
  The outcomes of a module compilation: it failed and every file is as it was, or the output holds
  the staged tree, which is a module made from the files of the start for the pinned lock, and
  nothing else has changed. The published directory is then bound in the sense of the verifier.
\<close>

definition output_bound :: "environment \<Rightarrow> string \<Rightarrow> pyval dict \<Rightarrow> bool" where
  "output_bound env out_path spec \<longleftrightarrow>
    (spec_pinned spec \<longrightarrow> (\<forall>x. length (env_sha env x) = 64) \<longrightarrow> \<not> ends_with ''/'' out_path \<longrightarrow>
      (\<exists>lock_hash compilation artifact.
         bound_module env out_path lock_hash SOURCE_REPOSITORY SOURCE_REVISION vision_outputs compilation artifact
       \<and> compiled_as env lock_hash SOURCE_REPOSITORY SOURCE_REVISION vision_outputs compilation artifact))"

definition untouched_or_made :: "environment \<Rightarrow> vision_system \<Rightarrow> string \<Rightarrow> disk \<Rightarrow> pyval dict res \<Rightarrow> disk \<Rightarrow> bool" where
  "untouched_or_made env sys out_path d r d' \<longleftrightarrow>
    (\<exists>e. r = Inl e) \<and> dk_files d' = dk_files d
    \<or> (\<exists>lock spec opened tree. env_resolve env (source_lock_path sys) = Some lock
       \<and> load_json (json_file_of (looking env d) (spec_path sys)) (1024 * 1024) = Inr spec \<and> dk_files opened = dk_files d
       \<and> module_made env lock spec (staging_path out_path) opened tree \<and> confined (staging_path out_path) (dk_files d) tree
       \<and> dk_files d' = published_files (staging_path out_path) out_path tree
       \<and> output_bound (looking env d') out_path spec)"

lemma renamed_gone: "\<not> present (rename_directory (staging_path out_path) out_path d) (staging_path out_path)"
  by (simp add: present_def rename_files published_files_def staging_not_below)
    (simp add: rename_directory_def staging_not_below)

lemma abandon_renamed:
  assumes "cp_bundle s = None" "cp_disk s = rename_directory (staging_path out_path) out_path d"
  shows "cp_files (abandon_module env sys (staging_path out_path) s) = published_files (staging_path out_path) out_path (dk_files d)"
  using assms by (simp add: abandon_module_def bundle_cleanup_def discard_staging_def renamed_gone rename_files)

lemma module_run_outcome:
  assumes "0 < env_granularity env" "good_ws env ws" "sink (fs_put sys) id"
    and "stays_inside (staging_path (vq_output_directory request)) (cs_fp8_child sys)"
    and removes: "\<not> ds_remove_fails (cs_dirs sys)" and tidy: "tidy d"
    and lock: "env_resolve env (source_lock_path sys) = Some lock"
    and spec: "load_json (json_file_of (looking env d) (spec_path sys)) (1024 * 1024) = Inr spec"
  shows "\<exists>r s'. module_run env sys request lock spec spec_hash reference_hash (compile_start ws d) = Some (r, s')
    \<and> untouched_or_made env sys (vq_output_directory request) d r (cp_disk s')"
proof -
  let ?out = "vq_output_directory request" and ?s = "compile_start ws d"
  let ?staging = "staging_path ?out"
  obtain q d1 where created: "create_staging_directory (cs_dirs sys) (env_symlink env) ?out d = (q, d1)" by fastforce
  note files = conjunct1 [OF create_staging_keeps [OF created]]
  have opens: "on_disk (create_staging_directory (cs_dirs sys) (env_symlink env) ?out) ?s = Some (q, ?s\<lparr>cp_disk := d1\<rparr>)"
    by (simp add: on_disk_def created compile_start_def)
  show ?thesis
  proof (cases q)
    case (Inl e)
    with opens files show ?thesis by (simp add: module_run_def untouched_or_made_def)
  next
    case (Inr staging)
    let ?s1 = "?s\<lparr>cp_disk := d1\<rparr>"
    from create_staging_Inr [OF created [unfolded Inr]] have staging: "staging = ?staging" "dk_dirs d1 ?staging"
      and new: "fresh env ?out d" by auto
    have none: "dk_files d p = None" if "below ?staging p" for p
      using tidy_nothing_below [OF tidy _ _ that] new by (simp add: fresh_def staging_path_def)
    have link: "\<not> env_symlink env ?staging" using new by (simp add: fresh_def)
    have u1: "unpublished ?staging (dk_files d) ?s1" and sound: "sound env ?s1"
      using files staging(2) assms(2) by (simp_all add: unpublished_def compile_start_def)
    let ?stage = "stage_module env sys request lock spec spec_hash reference_hash ?staging ?s1"
    let ?publish = "\<lambda>report s2. run_bind (on_disk (publish_staging (cs_dirs sys) ?staging ?out) s2) (\<lambda>_. run_only (Inr report))"
    have run: "module_run env sys request lock spec spec_hash reference_hash ?s
        = guarded (abandon_module env sys ?staging) (run_bind ?stage ?publish)"
      using opens Inr staging(1) by (simp add: module_run_def)
    note staged = stage_module_made [OF assms(3,1) sound u1 assms(4), of request lock spec spec_hash reference_hash]
    obtain y s2 where body: "?stage = Some (y, s2)" using ends_Some [OF staged] by blast
    with stage_module_unpublished [OF u1 assms(4)] have u2: "unpublished ?staging (dk_files d) s2"
      by (auto simp: always_def)
    show ?thesis
    proof (cases y)
      case (Inl e)
      with run body have "module_run env sys request lock spec spec_hash reference_hash ?s
          = Some (Inl e, abandon_module env sys ?staging s2)" by (simp add: guarded_def)
      with abandon_module_unpublished [OF u2 removes link none] show ?thesis by (simp add: untouched_or_made_def)
    next
      case ok: (Inr report)
      from ends_Inr [OF staged body [unfolded ok]] have clear: "cp_bundle s2 = None"
        and made: "module_made env lock spec ?staging d1 (cp_files s2)" by (simp_all add: compile_start_def)
      have conf: "confined ?staging (dk_files d) (cp_files s2)" using u2 by (simp add: unpublished_def)
      have published: "untouched_or_made env sys ?out d r d'"
        if "dk_files d' = published_files ?staging ?out (cp_files s2)" for r d'
        using that lock spec files made conf published_module_bound [OF made _ _ _ that]
        unfolding untouched_or_made_def output_bound_def looking_env by blast
      obtain p d3 where p: "publish_staging (cs_dirs sys) ?staging ?out (cp_disk s2) = (p, d3)" by fastforce
      have ends: "module_run env sys request lock spec spec_hash reference_hash ?s = (case p of
          Inl e \<Rightarrow> Some (Inl e, abandon_module env sys ?staging (s2\<lparr>cp_disk := d3\<rparr>)) | Inr _ \<Rightarrow> Some (Inr report, s2\<lparr>cp_disk := d3\<rparr>))"
        using run body ok p by (simp add: guarded_def on_disk_def split: sum.split)
      from publish_staging_cases [OF p] consider "\<exists>e. p = Inl e" "d3 = cp_disk s2" | "d3 = rename_directory ?staging ?out (cp_disk s2)"
        by blast
      then show ?thesis
      proof cases
        case 1
        with ends abandon_module_unpublished [OF u2 removes link none] show ?thesis
          by (auto simp: untouched_or_made_def)
      next
        case 2
        then have renamed: "dk_files d3 = published_files ?staging ?out (cp_files s2)" by (simp add: rename_files)
        have "cp_files (abandon_module env sys ?staging (s2\<lparr>cp_disk := d3\<rparr>)) = published_files ?staging ?out (cp_files s2)"
          by (rule abandon_renamed) (simp_all add: clear 2)
        with ends renamed published show ?thesis by (cases p) auto
      qed
    qed
  qed
qed

lemma raw_module: "\<exists>takes. fs_put sys = file_stream takes \<Longrightarrow> sink (fs_put sys) id"
  using raw.sink_axioms by auto


section \<open>The theorem at an input\<close>

definition calm_vision :: vision_system where
  "calm_vision = compile_system.extend calm_sys \<lparr>vm_root = ''/r'', vm_power = Inr, vm_commit = Inr (''c'', False), vm_environment = []\<rparr>"

definition vision_demo :: vision_request where
  "vision_demo = \<lparr>vq_source_directory = ''/m'', vq_output_directory = ''/o/v'', vq_native_encoder = ''/e'', vq_source_lock = ''/l'',
     vq_threads = 1, vq_host_memory_cap_bytes = 1000000, vq_staging_bytes = 4096, vq_native_timeout_seconds = 10\<rparr>"


end
